(* ===== verification/Prelude.thy ===== *)
theory Prelude
  imports "HOL-Library.Word"
begin

text \<open>
  Shared vocabulary of the development: the fixed-width integer types of
  \<open>libebpf/src/ebpf_types.h\<close> as words, the collections of rewrite rules the component
  proofs use, and generic facts on lists and words that several components need.
\<close>

unbundle bit_operations_syntax

named_theorems opcode_defs "the macro definitions of the eBPF opcodes"
named_theorems opcode_val "the numeric values of the eBPF opcodes"
named_theorems vm_defs "definitions unfolded by a symbolic run of the interpreter"
named_theorems thumb_defs "definitions of the Thumb-2 encoders"
named_theorems jit_defs "definitions of the code emitters"
named_theorems ctx_defs "definitions of the patch context operations"

subsection \<open>Machine integers\<close>

text \<open>
  Signed C integers are kept as words too: \<open>sint\<close> reads their value, \<open>scast\<close> is the sign
  extension of an integer promotion, \<open>ucast\<close> the zero extension or the truncating cast.
\<close>

type_synonym u8 = "8 word"
type_synonym u16 = "16 word"
type_synonym u32 = "32 word"
type_synonym u64 = "64 word"
type_synonym s8 = "8 word"
type_synonym s16 = "16 word"
type_synonym s32 = "32 word"
type_synonym s64 = "64 word"

text \<open>The flat byte memory of the target (a 32-bit Cortex-M address space): an address that
  is not mapped holds \<open>None\<close>, and an access to it faults.\<close>

type_synonym memory = "u32 \<Rightarrow> u8 option"

subsection \<open>Bits of words\<close>

lemma word_eq_by_bits:
  fixes x y :: "'a::len word"
  assumes "\<And>n. n < LENGTH('a) \<Longrightarrow> bit x n = bit y n"
  shows "x = y"
  using assms by (rule bit_word_eqI)

lemma all_less_Suc_unfold: "(\<forall>n < Suc k. P n) \<longleftrightarrow> P k \<and> (\<forall>n < k. P n)"
  by (auto simp: less_Suc_eq)

lemma and_eq_self_or_left: "x AND y = x \<Longrightarrow> x AND (y OR z) = x" for x y z :: "'a::len word"
  by (simp add: bit_eq_iff bit_simps) blast

lemma and_eq_self_or_right: "x AND z = x \<Longrightarrow> x AND (y OR z) = x" for x y z :: "'a::len word"
  by (simp add: bit_eq_iff bit_simps) blast

lemma word_or_absorb_self: "x AND (x OR z) = x" for x z :: "'a::len word"
  by (simp add: bit_eq_iff bit_simps)

lemma less_24: "n < 24 \<Longrightarrow> n \<in> {0,1,2,3,4,5,6,7,8,9,10,11,12,13,14,15,16,17,18,19,20,21,22,23}" for n :: nat
  by simp presburger

lemma less_20: "n < 20 \<Longrightarrow> n \<in> {0,1,2,3,4,5,6,7,8,9,10,11,12,13,14,15,16,17,18,19}" for n :: nat
  by simp presburger

lemma less_16: "n < 16 \<Longrightarrow> n \<in> {0,1,2,3,4,5,6,7,8,9,10,11,12,13,14,15}" for n :: nat
  by simp presburger

lemma less_11: "n < 11 \<Longrightarrow> n \<in> {0,1,2,3,4,5,6,7,8,9,10}" for n :: nat
  by simp presburger

lemma less_8: "n < 8 \<Longrightarrow> n \<in> {0,1,2,3,4,5,6,7}" for n :: nat
  by simp presburger

lemma all_bits_24:
  "(\<And>n. n \<in> {0,1,2,3,4,5,6,7,8,9,10,11,12,13,14,15,16,17,18,19,20,21,22,23} \<Longrightarrow> bit x n = bit y n) \<Longrightarrow> x = (y :: 24 word)"
proof (rule bit_word_eqI)
  fix n assume a: "\<And>n. n \<in> {0,1,2,3,4,5,6,7,8,9,10,11,12,13,14,15,16,17,18,19,20,21,22,23} \<Longrightarrow> bit x n = bit y n" and "n < LENGTH(24)"
  then have "n < 24" by simp
  then show "bit x n = bit y n" by (rule a [OF less_24])
qed

lemma all_bits_20:
  "(\<And>n. n \<in> {0,1,2,3,4,5,6,7,8,9,10,11,12,13,14,15,16,17,18,19} \<Longrightarrow> bit x n = bit y n) \<Longrightarrow> x = (y :: 20 word)"
proof (rule bit_word_eqI)
  fix n assume a: "\<And>n. n \<in> {0,1,2,3,4,5,6,7,8,9,10,11,12,13,14,15,16,17,18,19} \<Longrightarrow> bit x n = bit y n" and "n < LENGTH(20)"
  then have "n < 20" by simp
  then show "bit x n = bit y n" by (rule a [OF less_20])
qed

lemma all_bits_16:
  "(\<And>n. n \<in> {0,1,2,3,4,5,6,7,8,9,10,11,12,13,14,15} \<Longrightarrow> bit x n = bit y n) \<Longrightarrow> x = (y :: 16 word)"
proof (rule bit_word_eqI)
  fix n assume a: "\<And>n. n \<in> {0,1,2,3,4,5,6,7,8,9,10,11,12,13,14,15} \<Longrightarrow> bit x n = bit y n" and "n < LENGTH(16)"
  then have "n < 16" by simp
  then show "bit x n = bit y n" by (rule a [OF less_16])
qed

lemma all_bits_11:
  "(\<And>n. n \<in> {0,1,2,3,4,5,6,7,8,9,10} \<Longrightarrow> bit x n = bit y n) \<Longrightarrow> x = (y :: 11 word)"
proof (rule bit_word_eqI)
  fix n assume a: "\<And>n. n \<in> {0,1,2,3,4,5,6,7,8,9,10} \<Longrightarrow> bit x n = bit y n" and "n < LENGTH(11)"
  then have "n < 11" by simp
  then show "bit x n = bit y n" by (rule a [OF less_11])
qed

lemma all_bits_8: "(\<And>n. n \<in> {0,1,2,3,4,5,6,7} \<Longrightarrow> bit x n = bit y n) \<Longrightarrow> x = (y :: 8 word)"
proof (rule bit_word_eqI)
  fix n assume a: "\<And>n. n \<in> {0,1,2,3,4,5,6,7} \<Longrightarrow> bit x n = bit y n" and "n < LENGTH(8)"
  then have "n < 8" by simp
  then show "bit x n = bit y n" by (rule a [OF less_8])
qed

lemma less_32: "n < 32 \<Longrightarrow> n \<in> {0,1,2,3,4,5,6,7,8,9,10,11,12,13,14,15,16,17,18,19,20,21,22,23,24,25,26,27,28,29,30,31}" for n :: nat
  by simp presburger

lemma all_bits_32:
  "(\<And>n. n \<in> {0,1,2,3,4,5,6,7,8,9,10,11,12,13,14,15,16,17,18,19,20,21,22,23,24,25,26,27,28,29,30,31} \<Longrightarrow> bit x n = bit y n) \<Longrightarrow> x = (y :: u32)"
proof (rule bit_word_eqI)
  fix n assume a: "\<And>n. n \<in> {0,1,2,3,4,5,6,7,8,9,10,11,12,13,14,15,16,17,18,19,20,21,22,23,24,25,26,27,28,29,30,31} \<Longrightarrow> bit x n = bit y n" and "n < LENGTH(32)"
  then have "n < 32" by simp
  then show "bit x n = bit y n" by (rule a [OF less_32])
qed

lemma high_bits_clear:
  fixes x :: "'a::len word"
  assumes "unat x < 2 ^ m" "m \<le> n"
  shows "\<not> bit x n"
proof -
  have "take_bit m (unat x) = unat x" using assms(1) by (simp add: take_bit_nat_eq_self)
  then have "\<not> bit (unat x) n" by (metis assms(2) bit_take_bit_iff not_less)
  moreover have "n < LENGTH('a) \<Longrightarrow> bit (unat x) n = bit x n" by (simp add: bit_simps)
  ultimately show ?thesis using bit_imp_le_length by blast
qed

lemma nibble_bits: "(x :: 8 word) < 16 \<Longrightarrow> 4 \<le> n \<Longrightarrow> \<not> bit x n"
  by (rule high_bits_clear [where m = 4]) (simp_all add: word_less_nat_alt)

text \<open>On \<open>int\<close>: the simplifier reads a bit of a word numeral as a bit of the integer.\<close>

lemma bit_low_half: "bit (0xffff :: int) n = (n < 16)"
proof -
  have "(0xffff :: int) = mask 16" by (simp add: mask_eq_exp_minus_1)
  then show ?thesis by (simp only: bit_mask_iff) simp
qed

lemma bit_high_half: "bit (0xffff0000 :: int) n = (16 \<le> n \<and> n < 32)"
proof -
  have "(0xffff0000 :: int) = push_bit 16 0xffff" by (simp add: push_bit_eq_mult)
  then show ?thesis by (simp only: bit_push_bit_iff bit_low_half) auto
qed

lemma even_sint: "even (sint off) = even off" for off :: s32
proof -
  have "bit (sint off) 0 = bit off 0" by (simp only: bit_sint_iff) simp
  then show ?thesis by (simp add: bit_0)
qed

lemma halve_word:
  fixes off :: s32
  assumes "even off"
  obtains k where "sint off = 2 * k" "off = word_of_int (2 * k)"
proof -
  from assms obtain k where "sint off = 2 * k" using even_sint [of off] by blast
  moreover from this have "off = word_of_int (2 * k)" by (metis signed_scast_eq of_int_sint scast_id)
  ultimately show ?thesis using that by blast
qed

lemma bit_double:
  "n < 31 \<Longrightarrow> bit (word_of_int (2 * k) :: s32) (Suc n) = bit k n"
  by (simp add: bit_simps)

text \<open>Half of a displacement that fits \<open>n\<close> bits with its sign, read back from the field.\<close>

lemma sint_half:
  fixes off :: s32
  assumes "even off" "- (2 ^ LENGTH('a)) \<le> sint off" "sint off < 2 ^ LENGTH('a)" "LENGTH('a) < 31"
  shows "2 * sint (ucast (drop_bit 1 off) :: 'a::len word) = sint off"
proof -
  obtain k where k: "sint off = 2 * k" "off = word_of_int (2 * k)" using halve_word [OF assms(1)] .
  have "(ucast (drop_bit 1 off) :: 'a word) = word_of_int k"
    using assms(4) by (intro bit_word_eqI) (simp add: k(2) bit_simps)
  moreover have "2 ^ LENGTH('a) = (2 :: int) * 2 ^ (LENGTH('a) - 1)"
    by (metis len_gt_0 power_eq_if zero_less_iff_neq_zero)
  then have "sint (word_of_int k :: 'a word) = k"
    using assms(2,3) k(1) by (simp add: signed_of_int signed_take_bit_int_eq_self)
  ultimately show ?thesis using k(1) by simp
qed

lemma unat_lt_numeral_32: "unat (x :: u32) < 4294967296"
  using unsigned_less [of x, where ?'a = nat] by simp

lemma unat_lt_numeral_64: "unat (x :: u64) < 18446744073709551616"
  using unsigned_less [of x, where ?'a = nat] by simp

lemma unat_ucast_32_64 [simp]: "unat (ucast (x :: u32) :: u64) = unat x"
  using unat_lt_numeral_32 [of x] by (simp add: unsigned_ucast_eq take_bit_nat_eq_self_iff)

lemma ucast_u32_u64_lt: "(ucast (x :: u32) :: u64) < 0x100000000"
  using unat_lt_numeral_32 [of x] by (simp add: word_less_nat_alt)

lemma ucast_u64_of_u32 [simp]: "(ucast (ucast (x :: u32) :: u64) :: u32) = x"
  by (simp add: bit_eq_iff bit_simps)

lemma ucast_add_64: "(ucast (a + b :: u64) :: u32) = ucast a + ucast b"
proof transfer
  fix a b :: int
  have "take_bit 32 (take_bit 64 a + take_bit 64 b) =
    take_bit 32 (take_bit 32 (take_bit 64 a) + take_bit 32 (take_bit 64 b))"
    by (simp only: take_bit_add)
  also have "\<dots> = take_bit 32 (a + b)" by (simp add: take_bit_add)
  finally show "take_bit LENGTH(32) (take_bit LENGTH(64) (a + b)) =
    take_bit LENGTH(32) (take_bit LENGTH(64) a + take_bit LENGTH(64) b)" by simp
qed

lemma ucast_diff_64: "(ucast (a - b :: u64) :: u32) = ucast a - ucast b"
proof transfer
  fix a b :: int
  have "take_bit 32 (take_bit 64 a - take_bit 64 b) =
    take_bit 32 (take_bit 32 (take_bit 64 a) - take_bit 32 (take_bit 64 b))"
    by (simp only: take_bit_diff)
  also have "\<dots> = take_bit 32 (a - b)" by (simp add: take_bit_diff)
  finally show "take_bit LENGTH(32) (take_bit LENGTH(64) (a - b)) =
    take_bit LENGTH(32) (take_bit LENGTH(64) a - take_bit LENGTH(64) b)" by simp
qed

lemma sint_32_cases:
  "sint (x :: s32) = (if uint x < 2147483648 then uint x else uint x - 4294967296)"
proof -
  have "0 \<le> uint x" "uint x < 4294967296"
    using unsigned_less [of x, where ?'a = int] by simp_all
  then show ?thesis
    by (simp add: sint_uint signed_take_bit_eq_take_bit_shift take_bit_eq_mod mod_pos_geq)
qed

subsection \<open>Lists\<close>

lemma nth_update_cases:
  "i < length xs \<Longrightarrow> xs[j := v] ! i = (if i = j then v else xs ! i)"
  by (auto simp: nth_list_update)

lemma list_all_update: "list_all P xs \<Longrightarrow> P v \<Longrightarrow> list_all P (xs[i := v])"
  using set_update_subset_insert [of xs i v] by (auto simp: list_all_iff)

end
