(* ===== verification/Thumb2.thy ===== *)
theory Thumb2
  imports Prelude
begin

text \<open>
  The Thumb-2 instruction encoders of \<open>libebpf/src/jit_thumb2.h\<close>. Register numbers are \<open>s8\<close>
  values that C promotes to \<open>int\<close> before it shifts them: \<open>rg r k\<close> is \<open>r << k\<close> on the promoted
  register. A 16-bit encoder cuts its result to 16 bits.
\<close>

subsection \<open>Instruction templates\<close>

definition THUMB2_IT :: u32 where [thumb_defs]: "THUMB2_IT = 0xbf00"
definition THUMB2_MOV_REG :: u32 where [thumb_defs]: "THUMB2_MOV_REG = 0x4600"
definition THUMB2_MOVS_REG :: u32 where [thumb_defs]: "THUMB2_MOVS_REG = 0x0000"
definition THUMB2_MOVW_REG :: u32 where [thumb_defs]: "THUMB2_MOVW_REG = 0xea4f0000"
definition THUMB2_ASRW_REG :: u32 where [thumb_defs]: "THUMB2_ASRW_REG = 0xfa40f000"
definition THUMB2_ASRW_IMM :: u32 where [thumb_defs]: "THUMB2_ASRW_IMM = 0xea4f0020"
definition THUMB2_LSLW_REG_T2 :: u32 where [thumb_defs]: "THUMB2_LSLW_REG_T2 = 0xfa00f000"
definition THUMB2_LSRW_REG :: u32 where [thumb_defs]: "THUMB2_LSRW_REG = 0xfa20f000"
definition THUMB2_LSRW_IMM :: u32 where [thumb_defs]: "THUMB2_LSRW_IMM = 0xea4f0010"
definition THUMB2_ORRW_REG :: u32 where [thumb_defs]: "THUMB2_ORRW_REG = 0xea400000"
definition THUMB2_ORR_REG :: u32 where [thumb_defs]: "THUMB2_ORR_REG = 0x4300"
definition THUMB2_EOR_REG_T2 :: u32 where [thumb_defs]: "THUMB2_EOR_REG_T2 = 0xea800000"
definition THUMB2_RSBW_REG :: u32 where [thumb_defs]: "THUMB2_RSBW_REG = 0xebc00000"
definition THUMB2_RSBW_IMM :: u32 where [thumb_defs]: "THUMB2_RSBW_IMM = 0xf1c00000"
definition THUMB2_STR_IMM :: u32 where [thumb_defs]: "THUMB2_STR_IMM = 0xf8400000"
definition THUMB2_STRB_IMM_T3 :: u32 where [thumb_defs]: "THUMB2_STRB_IMM_T3 = 0xf8000800"
definition THUMB2_STRH_IMM_T3 :: u32 where [thumb_defs]: "THUMB2_STRH_IMM_T3 = 0xf8200800"
definition THUMB2_STRD_IMM :: u32 where [thumb_defs]: "THUMB2_STRD_IMM = 0xe8400000"
definition THUMB2_LDRB_IMM_T1 :: u32 where [thumb_defs]: "THUMB2_LDRB_IMM_T1 = 0x7800"
definition THUMB2_LDRB_IMM_T3 :: u32 where [thumb_defs]: "THUMB2_LDRB_IMM_T3 = 0xf8100000"
definition THUMB2_LDR_IMM_T4 :: u32 where [thumb_defs]: "THUMB2_LDR_IMM_T4 = 0xf8500800"
definition THUMB2_LDRD_IMM :: u32 where [thumb_defs]: "THUMB2_LDRD_IMM = 0xe8500000"
definition THUMB2_PUSH_T1 :: u32 where [thumb_defs]: "THUMB2_PUSH_T1 = 0xb400"
definition THUMB2_PUSH_W :: u32 where [thumb_defs]: "THUMB2_PUSH_W = 0xe92d0000"
definition THUMB2_POP_W :: u32 where [thumb_defs]: "THUMB2_POP_W = 0xe8bd0000"
definition THUMB2_SUB_IMM_T1 :: u32 where [thumb_defs]: "THUMB2_SUB_IMM_T1 = 0x1e00"
definition THUMB2_SUB_IMM_T2 :: u32 where [thumb_defs]: "THUMB2_SUB_IMM_T2 = 0x3800"
definition THUMB2_SUB_REG_T1 :: u32 where [thumb_defs]: "THUMB2_SUB_REG_T1 = 0x1a00"
definition THUMB2_SUB_REG_T2 :: u32 where [thumb_defs]: "THUMB2_SUB_REG_T2 = 0xeba00000"
definition THUMB2_SUBW_IMM_T4 :: u32 where [thumb_defs]: "THUMB2_SUBW_IMM_T4 = 0xf2a00000"
definition THUMB2_ADD_IMM_T2 :: u32 where [thumb_defs]: "THUMB2_ADD_IMM_T2 = 0x3000"
definition THUMB2_ADD_IMM_T4 :: u32 where [thumb_defs]: "THUMB2_ADD_IMM_T4 = 0xf2000000"
definition THUMB2_ADD_REG_T2 :: u32 where [thumb_defs]: "THUMB2_ADD_REG_T2 = 0x4400"
definition THUMB2_ADDW_REG :: u32 where [thumb_defs]: "THUMB2_ADDW_REG = 0xeb000000"
definition THUMB2_AND_REG_T1 :: u32 where [thumb_defs]: "THUMB2_AND_REG_T1 = 0x4000"
definition THUMB2_AND_REG_T2 :: u32 where [thumb_defs]: "THUMB2_AND_REG_T2 = 0xea000000"
definition THUMB2_CMP_REG_T1 :: u32 where [thumb_defs]: "THUMB2_CMP_REG_T1 = 0x4280"
definition THUMB2_CMP_REG_T2 :: u32 where [thumb_defs]: "THUMB2_CMP_REG_T2 = 0x4500"
definition THUMB2_CMPW_REG_T3 :: u32 where [thumb_defs]: "THUMB2_CMPW_REG_T3 = 0xebb00f00"
definition THUMB2_MUL_REG_T2 :: u32 where [thumb_defs]: "THUMB2_MUL_REG_T2 = 0xfb00f000"
definition THUMB2_SBCW_REG :: u32 where [thumb_defs]: "THUMB2_SBCW_REG = 0xeb600000"
definition THUMB2_B_COND_T1 :: u32 where [thumb_defs]: "THUMB2_B_COND_T1 = 0xd000"
definition THUMB2_B_T2 :: u32 where [thumb_defs]: "THUMB2_B_T2 = 0xe000"
definition THUMB2_BLX_REG_T1 :: u32 where [thumb_defs]: "THUMB2_BLX_REG_T1 = 0x4780"
definition THUMB2_BW_COND_T3 :: u32 where [thumb_defs]: "THUMB2_BW_COND_T3 = 0xf0008000"
definition THUMB2_BW_T4 :: u32 where [thumb_defs]: "THUMB2_BW_T4 = 0xf0009000"
definition THUMB2_MUL_T2 :: u32 where [thumb_defs]: "THUMB2_MUL_T2 = 0xfb00f000"
definition THUMB2_UMULL_T2 :: u32 where [thumb_defs]: "THUMB2_UMULL_T2 = 0xfba00000"

subsection \<open>Conditions, shift types and flags\<close>

definition IT_MASK_NONE :: u8 where [thumb_defs]: "IT_MASK_NONE = 8"
definition COND_EQ :: u8 where [thumb_defs]: "COND_EQ = 0"
definition COND_NE :: u8 where [thumb_defs]: "COND_NE = 1"
definition COND_CS :: u8 where [thumb_defs]: "COND_CS = 2"
definition COND_CC :: u8 where [thumb_defs]: "COND_CC = 3"
definition COND_MI :: u8 where [thumb_defs]: "COND_MI = 4"
definition COND_PL :: u8 where [thumb_defs]: "COND_PL = 5"
definition COND_VS :: u8 where [thumb_defs]: "COND_VS = 6"
definition COND_VC :: u8 where [thumb_defs]: "COND_VC = 7"
definition COND_HI :: u8 where [thumb_defs]: "COND_HI = 8"
definition COND_LS :: u8 where [thumb_defs]: "COND_LS = 9"
definition COND_GE :: u8 where [thumb_defs]: "COND_GE = 10"
definition COND_LT :: u8 where [thumb_defs]: "COND_LT = 11"
definition COND_GT :: u8 where [thumb_defs]: "COND_GT = 12"
definition COND_LE :: u8 where [thumb_defs]: "COND_LE = 13"
definition COND_AL :: u8 where [thumb_defs]: "COND_AL = 14"
definition SRTYPE_LSL :: u8 where [thumb_defs]: "SRTYPE_LSL = 0"
definition SRTYPE_LSR :: u8 where [thumb_defs]: "SRTYPE_LSR = 1"
definition SRTYPE_ASR :: u8 where [thumb_defs]: "SRTYPE_ASR = 2"
definition SRTYPE_ROR :: u8 where [thumb_defs]: "SRTYPE_ROR = 3"
definition SRTYPE_ASL :: u8 where [thumb_defs]: "SRTYPE_ASL = SRTYPE_LSL"
definition FLAG_NOS :: u8 where [thumb_defs]: "FLAG_NOS = 0"
definition FLAG_S :: u8 where [thumb_defs]: "FLAG_S = 1"

subsection \<open>Fields\<close>

definition rg :: "s8 \<Rightarrow> nat \<Rightarrow> u32" where
  [thumb_defs]: "rg r k = push_bit k (scast r)"

definition fl :: "u8 \<Rightarrow> nat \<Rightarrow> u32" where
  [thumb_defs]: "fl x k = push_bit k (ucast x)"

text \<open>\<open>(x >> lo) & mask\<close> on a signed 32-bit value.\<close>

definition bits :: "s32 \<Rightarrow> nat \<Rightarrow> u32 \<Rightarrow> u32" where
  [thumb_defs]: "bits x lo msk = signed_drop_bit lo x AND msk"

definition abs32 :: "s32 \<Rightarrow> u32" where
  [thumb_defs]: "abs32 x = (if sint x > 0 then x else - x)"

definition flag_of :: "bool \<Rightarrow> u32" where
  [thumb_defs]: "flag_of b = (if b then 1 else 0)"

subsection \<open>Multiply, IT and reverse subtract\<close>

definition thumb32_UMULL_T2 :: "s8 \<Rightarrow> s8 \<Rightarrow> s8 \<Rightarrow> s8 \<Rightarrow> u32" where
  [thumb_defs]: "thumb32_UMULL_T2 RdLo RdHi Rn Rm =
     THUMB2_UMULL_T2 OR rg Rn 16 OR rg RdLo 12 OR rg RdHi 8 OR rg Rm 0"

definition thumb32_MUL_T2 :: "s8 \<Rightarrow> s8 \<Rightarrow> s8 \<Rightarrow> u32" where
  [thumb_defs]: "thumb32_MUL_T2 Rd Rn Rm = THUMB2_MUL_T2 OR rg Rn 16 OR rg Rd 8 OR rg Rm 0"

definition thumb16_IT_T1 :: "u8 \<Rightarrow> u8 \<Rightarrow> u16" where
  [thumb_defs]: "thumb16_IT_T1 cond msk = ucast (THUMB2_IT OR fl cond 4 OR fl msk 0)"

definition thumb32_RSBW_IMM_T2 :: "s8 \<Rightarrow> s8 \<Rightarrow> s32 \<Rightarrow> u8 \<Rightarrow> u32" where
  [thumb_defs]: "thumb32_RSBW_IMM_T2 Rd Rn shiftImm12 flagS =
     THUMB2_RSBW_IMM OR push_bit 26 (bits shiftImm12 11 1) OR fl flagS 20 OR rg Rn 16
       OR push_bit 12 (bits shiftImm12 8 7) OR rg Rd 8 OR (shiftImm12 AND 0xff)"

definition thumb32_RSBW_REG_T1 :: "s8 \<Rightarrow> s8 \<Rightarrow> s8 \<Rightarrow> s32 \<Rightarrow> u8 \<Rightarrow> u8 \<Rightarrow> u32" where
  [thumb_defs]: "thumb32_RSBW_REG_T1 Rd Rn Rm shiftImm5 srtype flagS =
     THUMB2_RSBW_REG OR fl flagS 20 OR rg Rn 16 OR push_bit 12 (bits shiftImm5 2 7) OR rg Rd 8
       OR push_bit 6 (shiftImm5 AND 3) OR fl srtype 4 OR rg Rm 0"

subsection \<open>Branches\<close>

definition thumb16_B_T1 :: "s32 \<Rightarrow> s8 \<Rightarrow> u16" where
  [thumb_defs]: "thumb16_B_T1 offImm9 cond =
     ucast (THUMB2_B_COND_T1 OR rg cond 8 OR bits offImm9 1 0xff)"

definition thumb16_B_T2 :: "s32 \<Rightarrow> u16" where
  [thumb_defs]: "thumb16_B_T2 offImm12 = ucast (THUMB2_B_T2 OR bits offImm12 1 0x7ff)"

definition thumb16_BLX_REG_T1 :: "s8 \<Rightarrow> u16" where
  [thumb_defs]: "thumb16_BLX_REG_T1 Rm = ucast (THUMB2_BLX_REG_T1 OR rg Rm 3)"

definition thumb32_BW_T3 :: "s32 \<Rightarrow> s8 \<Rightarrow> u32" where
  [thumb_defs]: "thumb32_BW_T3 offImm20 cond =
     THUMB2_BW_COND_T3 OR push_bit 26 (flag_of (sint offImm20 < 0)) OR rg cond 22
       OR push_bit 16 (bits offImm20 12 0x3f) OR push_bit 13 (bits offImm20 18 1)
       OR push_bit 11 (bits offImm20 19 1) OR bits offImm20 1 0x7ff"

text \<open>The unconditional form starts from the template of the conditional one.\<close>

definition thumb32_BW_T4 :: "s32 \<Rightarrow> u32" where
  [thumb_defs]: "thumb32_BW_T4 offImm23 =
     (let S = flag_of (sint offImm23 < 0);
          J1 = (NOT (bits offImm23 18 1) XOR S) AND 1;
          J2 = (NOT (bits offImm23 19 1) XOR S) AND 1
      in THUMB2_BW_COND_T3 OR push_bit 26 S OR push_bit 16 (bits offImm23 12 0x3ff)
           OR push_bit 13 J1 OR push_bit 11 J2 OR bits offImm23 1 0x7ff)"

subsection \<open>Compare, add, and\<close>

definition thumb32_SBCW_T2 :: "s8 \<Rightarrow> s8 \<Rightarrow> s8 \<Rightarrow> s32 \<Rightarrow> u8 \<Rightarrow> u8 \<Rightarrow> u32" where
  [thumb_defs]: "thumb32_SBCW_T2 Rd Rn Rm shiftImm5 srtype flagS =
     THUMB2_SBCW_REG OR fl flagS 20 OR rg Rn 16 OR push_bit 12 (bits shiftImm5 2 7) OR rg Rd 8
       OR push_bit 6 (shiftImm5 AND 3) OR fl srtype 4 OR rg Rm 0"

definition thumb16_CMP_REG_T1 :: "s8 \<Rightarrow> s8 \<Rightarrow> u16" where
  [thumb_defs]: "thumb16_CMP_REG_T1 Rn Rm = ucast (THUMB2_CMP_REG_T1 OR rg Rm 3 OR rg Rn 0)"

definition thumb16_CMP_REG_T2 :: "s8 \<Rightarrow> s8 \<Rightarrow> u16" where
  [thumb_defs]: "thumb16_CMP_REG_T2 Rn Rm =
     ucast (THUMB2_CMP_REG_T2 OR push_bit 7 (bits (scast Rn AND 8) 3 0xffff)
       OR rg Rm 3 OR (scast Rn AND 7))"

definition thumb32_CMPW_REG_T3 :: "s8 \<Rightarrow> s8 \<Rightarrow> s32 \<Rightarrow> u8 \<Rightarrow> u32" where
  [thumb_defs]: "thumb32_CMPW_REG_T3 Rn Rm offImm5 srtype =
     THUMB2_CMPW_REG_T3 OR rg Rn 16 OR push_bit 12 (bits offImm5 2 7)
       OR push_bit 6 (offImm5 AND 3) OR fl srtype 4 OR rg Rm 0"

definition thumb32_MUL_REG_T2 :: "s8 \<Rightarrow> s8 \<Rightarrow> s8 \<Rightarrow> u32" where
  [thumb_defs]: "thumb32_MUL_REG_T2 Rd Rn Rm = THUMB2_MUL_REG_T2 OR rg Rn 16 OR rg Rd 8 OR rg Rm 0"

definition thumb16_ADD_IMM_T2 :: "s8 \<Rightarrow> s32 \<Rightarrow> u16" where
  [thumb_defs]: "thumb16_ADD_IMM_T2 RDn imm8 = ucast (THUMB2_ADD_IMM_T2 OR rg RDn 8 OR (imm8 AND 0xff))"

definition thumb32_ADD_IMM_T4 :: "s8 \<Rightarrow> s8 \<Rightarrow> s32 \<Rightarrow> u32" where
  [thumb_defs]: "thumb32_ADD_IMM_T4 Rd Rn imm12 =
     THUMB2_ADD_IMM_T4 OR push_bit 26 (bits imm12 11 1) OR rg Rn 16
       OR push_bit 12 (bits imm12 8 7) OR rg Rd 8 OR (imm12 AND 0xff)"

definition thumb16_ADD_REG_T2 :: "s8 \<Rightarrow> s8 \<Rightarrow> u16" where
  [thumb_defs]: "thumb16_ADD_REG_T2 RDn Rm =
     ucast (THUMB2_ADD_REG_T2 OR push_bit 7 (bits (scast RDn) 3 1) OR rg Rm 3 OR (scast RDn AND 7))"

definition thumb32_ADDW_REG_T3 :: "s8 \<Rightarrow> s8 \<Rightarrow> s8 \<Rightarrow> s32 \<Rightarrow> u8 \<Rightarrow> u8 \<Rightarrow> u32" where
  [thumb_defs]: "thumb32_ADDW_REG_T3 Rd Rn Rm offImm5 srtype flagS =
     THUMB2_ADDW_REG OR fl flagS 20 OR rg Rn 16 OR push_bit 12 (bits offImm5 2 7) OR rg Rd 8
       OR push_bit 6 (offImm5 AND 3) OR fl srtype 4 OR rg Rm 0"

definition thumb16_AND_REG_T1 :: "s8 \<Rightarrow> s8 \<Rightarrow> u16" where
  [thumb_defs]: "thumb16_AND_REG_T1 RDn Rm = ucast (THUMB2_AND_REG_T1 OR rg Rm 3 OR rg RDn 0)"

definition thumb32_AND_REG_T2 :: "s8 \<Rightarrow> s8 \<Rightarrow> s8 \<Rightarrow> s32 \<Rightarrow> u8 \<Rightarrow> u8 \<Rightarrow> u32" where
  [thumb_defs]: "thumb32_AND_REG_T2 Rd Rn Rm offImm5 srtype flagS =
     THUMB2_AND_REG_T2 OR fl flagS 20 OR rg Rn 16 OR push_bit 12 (bits offImm5 2 7) OR rg Rd 8
       OR push_bit 6 (offImm5 AND 3) OR fl srtype 4 OR rg Rm 0"

subsection \<open>Moves and subtractions\<close>

definition thumb16_MOV_REG_T1 :: "s8 \<Rightarrow> s8 \<Rightarrow> u16" where
  [thumb_defs]: "thumb16_MOV_REG_T1 Rd Rm =
     ucast (THUMB2_MOV_REG OR push_bit 7 (bits (scast Rd) 3 1) OR rg Rm 3 OR (scast Rd AND 7))"

definition thumb16_MOVS_REG_T2 :: "s8 \<Rightarrow> s8 \<Rightarrow> u16" where
  [thumb_defs]: "thumb16_MOVS_REG_T2 Rd Rm = ucast (THUMB2_MOVS_REG OR rg Rm 3 OR rg Rd 0)"

definition thumb32_MOVW_REG_T3 :: "s8 \<Rightarrow> s8 \<Rightarrow> u8 \<Rightarrow> u32" where
  [thumb_defs]: "thumb32_MOVW_REG_T3 Rd Rm flagS = THUMB2_MOVW_REG OR fl flagS 20 OR rg Rd 8 OR rg Rm 0"

definition thumb16_SUB_IMM_T1 :: "s8 \<Rightarrow> s8 \<Rightarrow> s32 \<Rightarrow> u16" where
  [thumb_defs]: "thumb16_SUB_IMM_T1 Rd3 Rn3 imm3 =
     ucast (THUMB2_SUB_IMM_T1 OR push_bit 6 (imm3 AND 7) OR rg Rn3 3 OR rg Rd3 0)"

definition thumb16_SUB_IMM_T2 :: "s8 \<Rightarrow> s32 \<Rightarrow> u16" where
  [thumb_defs]: "thumb16_SUB_IMM_T2 Rdn3 imm8 = ucast (THUMB2_SUB_IMM_T2 OR rg Rdn3 8 OR (imm8 AND 0xff))"

text \<open>\<open>imm3\<close> is masked with two bits, and \<open>flagS\<close> is not used.\<close>

definition thumb32_SUBW_IMM_T4 :: "s8 \<Rightarrow> s8 \<Rightarrow> s32 \<Rightarrow> u8 \<Rightarrow> u32" where
  [thumb_defs]: "thumb32_SUBW_IMM_T4 Rd Rn imm12 flagS =
     THUMB2_SUBW_IMM_T4 OR push_bit 26 (bits imm12 11 1) OR rg Rn 16
       OR push_bit 12 (bits imm12 8 3) OR rg Rd 8 OR (imm12 AND 0xff)"

definition thumb16_SUB_REG_T1 :: "s8 \<Rightarrow> s8 \<Rightarrow> s8 \<Rightarrow> u16" where
  [thumb_defs]: "thumb16_SUB_REG_T1 Rd Rn Rm = ucast (THUMB2_SUB_REG_T1 OR rg Rm 6 OR rg Rn 3 OR rg Rd 0)"

definition thumb32_SUB_REG_T2 :: "s8 \<Rightarrow> s8 \<Rightarrow> s8 \<Rightarrow> s32 \<Rightarrow> u8 \<Rightarrow> u8 \<Rightarrow> u32" where
  [thumb_defs]: "thumb32_SUB_REG_T2 Rd Rn Rm shiftOff5 srtype flagS =
     THUMB2_SUB_REG_T2 OR fl flagS 20 OR rg Rn 16 OR push_bit 12 (bits shiftOff5 2 7) OR rg Rd 8
       OR push_bit 6 (shiftOff5 AND 3) OR fl srtype 4 OR rg Rm 0"

subsection \<open>Stack, loads and stores\<close>

definition thumb16_PUSH_T1 :: "s32 \<Rightarrow> u16" where
  [thumb_defs]: "thumb16_PUSH_T1 reg_mask =
     ucast (THUMB2_PUSH_T1 OR push_bit 8 (bits reg_mask 14 1) OR (reg_mask AND 0xff))"

definition thumb32_PUSHW_T2 :: "s32 \<Rightarrow> u32" where
  [thumb_defs]: "thumb32_PUSHW_T2 reg_mask =
     THUMB2_PUSH_W OR push_bit 14 (bits reg_mask 14 1) OR (reg_mask AND 0x1fff)"

definition thumb32_POPW_T2 :: "s32 \<Rightarrow> u32" where
  [thumb_defs]: "thumb32_POPW_T2 reg_mask =
     THUMB2_POP_W OR push_bit 15 (bits reg_mask 15 1) OR push_bit 14 (bits reg_mask 14 1)
       OR (reg_mask AND 0x1fff)"

definition thumb16_LDRB_IMM_T1 :: "s8 \<Rightarrow> s8 \<Rightarrow> s16 \<Rightarrow> u16" where
  [thumb_defs]: "thumb16_LDRB_IMM_T1 Rt Rn offImm5 =
     ucast (THUMB2_LDRB_IMM_T1 OR push_bit 6 (scast offImm5) OR rg Rn 3 OR rg Rt 0)"

definition thumb32_LDRB_IMM_T3 :: "s8 \<Rightarrow> s8 \<Rightarrow> s32 \<Rightarrow> u32" where
  [thumb_defs]: "thumb32_LDRB_IMM_T3 Rt Rn offImm8 =
     (let flag = 8 OR push_bit 2 1 OR push_bit 1 (flag_of (sint offImm8 \<ge> 0))
      in THUMB2_LDRB_IMM_T3 OR rg Rn 16 OR rg Rt 12 OR push_bit 8 flag OR abs32 offImm8)"

definition thumb32_LDR_IMM_T4 :: "s8 \<Rightarrow> s8 \<Rightarrow> s32 \<Rightarrow> u32" where
  [thumb_defs]: "thumb32_LDR_IMM_T4 Rt Rn offImm8 =
     (let flag = push_bit 2 (flag_of (offImm8 \<noteq> 0)) OR push_bit 1 (flag_of (sint offImm8 \<ge> 0))
      in THUMB2_LDR_IMM_T4 OR rg Rn 16 OR rg Rt 12 OR push_bit 8 flag OR abs32 offImm8)"

text \<open>A pair \<open>s8 reg[2]\<close> is \<open>(reg[0], reg[1])\<close>.\<close>

definition thumb32_LDRD_IMM_T1 :: "s8 \<times> s8 \<Rightarrow> s8 \<Rightarrow> s32 \<Rightarrow> u32" where
  [thumb_defs]: "thumb32_LDRD_IMM_T1 Rt Rn offImm8 =
     (let imm8 = drop_bit 2 (abs32 offImm8) AND 0xff;
          flag = 2 OR push_bit 3 (flag_of (offImm8 \<noteq> 0)) OR push_bit 2 (flag_of (sint offImm8 > 0))
      in THUMB2_LDRD_IMM OR push_bit 21 flag OR rg Rn 16 OR rg (snd Rt) 12 OR rg (fst Rt) 8 OR imm8)"

definition thumb32_STRB_IMM_T3 :: "s8 \<Rightarrow> s8 \<Rightarrow> s16 \<Rightarrow> u32" where
  [thumb_defs]: "thumb32_STRB_IMM_T3 Rn Rt offImm8 =
     (let o32 = scast offImm8 :: s32;
          flag = 7 OR push_bit 2 (flag_of (o32 \<noteq> 0)) OR push_bit 1 (flag_of (sint o32 > 0))
      in THUMB2_STRB_IMM_T3 OR rg Rn 16 OR rg Rt 12 OR push_bit 8 flag OR abs32 o32)"

definition thumb32_STRH_IMM_T3 :: "s8 \<Rightarrow> s8 \<Rightarrow> s16 \<Rightarrow> u32" where
  [thumb_defs]: "thumb32_STRH_IMM_T3 Rn Rt offImm8 =
     (let o32 = scast offImm8 :: s32;
          flag = 7 OR push_bit 2 (flag_of (o32 \<noteq> 0)) OR push_bit 1 (flag_of (sint o32 > 0))
      in THUMB2_STRH_IMM_T3 OR rg Rn 16 OR rg Rt 12 OR push_bit 8 flag OR abs32 o32)"

definition thumb32_STRD_IMM_T1 :: "s8 \<times> s8 \<Rightarrow> s8 \<Rightarrow> s16 \<Rightarrow> u32" where
  [thumb_defs]: "thumb32_STRD_IMM_T1 RnSrc RtDst offImm8 =
     (let o32 = scast offImm8 :: s32;
          imm8 = drop_bit 2 (abs32 o32) AND 0xff
      in THUMB2_STRD_IMM OR push_bit 24 (flag_of (o32 \<noteq> 0)) OR push_bit 23 (flag_of (sint o32 > 0))
           OR rg RtDst 16 OR rg (snd RnSrc) 12 OR rg (fst RnSrc) 8 OR imm8)"

subsection \<open>Shifts and bitwise operations\<close>

definition thumb32_ASRW_IMM_T2 :: "s8 \<Rightarrow> s8 \<Rightarrow> s32 \<Rightarrow> u8 \<Rightarrow> u32" where
  [thumb_defs]: "thumb32_ASRW_IMM_T2 Rd Rm imm5 flagS =
     THUMB2_ASRW_IMM OR fl flagS 20 OR push_bit 12 (bits imm5 2 7) OR rg Rd 8
       OR push_bit 6 (imm5 AND 3) OR rg Rm 0"

definition thumb32_ASRW_REG_T2 :: "s8 \<Rightarrow> s8 \<Rightarrow> s8 \<Rightarrow> u8 \<Rightarrow> u32" where
  [thumb_defs]: "thumb32_ASRW_REG_T2 Rd Rn Rm flagS =
     THUMB2_ASRW_REG OR fl flagS 20 OR rg Rn 16 OR rg Rd 8 OR rg Rm 0"

definition thumb32_LSLW_REG_T2 :: "s8 \<Rightarrow> s8 \<Rightarrow> s8 \<Rightarrow> u8 \<Rightarrow> u32" where
  [thumb_defs]: "thumb32_LSLW_REG_T2 Rd Rn Rm flagS =
     THUMB2_LSLW_REG_T2 OR fl flagS 20 OR rg Rn 16 OR rg Rd 8 OR rg Rm 0"

definition thumb32_LSRW_REG_T2 :: "s8 \<Rightarrow> s8 \<Rightarrow> s8 \<Rightarrow> u8 \<Rightarrow> u32" where
  [thumb_defs]: "thumb32_LSRW_REG_T2 Rd Rn Rm flagS =
     THUMB2_LSRW_REG OR fl flagS 20 OR rg Rn 16 OR rg Rd 8 OR rg Rm 0"

definition thumb32_LSRW_IMM_T2 :: "s8 \<Rightarrow> s8 \<Rightarrow> s32 \<Rightarrow> u8 \<Rightarrow> u32" where
  [thumb_defs]: "thumb32_LSRW_IMM_T2 Rd Rm shiftImm5 flagS =
     (if sint shiftImm5 < 0 \<or> sint shiftImm5 > 0x1f then - 1
      else THUMB2_LSRW_IMM OR fl flagS 20 OR push_bit 12 (bits shiftImm5 2 7) OR rg Rd 8
        OR push_bit 6 (shiftImm5 AND 3) OR rg Rm 0)"

text \<open>The destination goes into bits 4 to 6 and the operand into bits 0 to 2.\<close>

definition thumb16_ORR_REG_T1 :: "s8 \<Rightarrow> s8 \<Rightarrow> u16" where
  [thumb_defs]: "thumb16_ORR_REG_T1 RDn Rm =
     ucast (THUMB2_ORR_REG OR push_bit 4 (scast RDn AND 7) OR (scast Rm AND 7))"

definition thumb32_EOR_REG_T2 :: "s8 \<Rightarrow> s8 \<Rightarrow> s8 \<Rightarrow> s32 \<Rightarrow> u8 \<Rightarrow> u8 \<Rightarrow> u32" where
  [thumb_defs]: "thumb32_EOR_REG_T2 Rd Rn Rm shiftImm5 srtype flagS =
     THUMB2_EOR_REG_T2 OR fl flagS 20 OR rg Rn 16 OR push_bit 12 (bits shiftImm5 2 7) OR rg Rd 8
       OR push_bit 6 (shiftImm5 AND 3) OR fl srtype 4 OR rg Rm 0"

definition thumb32_ORRW_REG_T2 :: "s8 \<Rightarrow> s8 \<Rightarrow> s8 \<Rightarrow> s32 \<Rightarrow> u8 \<Rightarrow> u8 \<Rightarrow> u32" where
  [thumb_defs]: "thumb32_ORRW_REG_T2 Rd Rn Rm shiftImm5 srtype flagS =
     (if sint shiftImm5 < 0 \<or> sint shiftImm5 > 0x1f then - 1
      else THUMB2_ORRW_REG OR fl flagS 20 OR rg Rn 16 OR push_bit 12 (bits shiftImm5 2 7)
        OR rg Rd 8 OR push_bit 6 (shiftImm5 AND 3) OR fl srtype 4 OR rg Rm 0)"

end
