(* ===== verification/Ebpf_Inst.thy ===== *)
theory Ebpf_Inst
  imports Prelude
begin

text \<open>
  The instruction format and the opcodes of \<open>libebpf/src/ebpf_inst.h\<close>, the byte-order
  macros of \<open>libebpf/src/ebpf_types.h\<close>, and the reading of a byte array as an array of
  \<open>struct ebpf_inst\<close> (the pointer cast of \<open>init_ebpf_vm\<close> on the little-endian target).
\<close>

subsection \<open>Opcodes\<close>

text \<open>Every macro keeps the expression of the header: class, source and operation bits are
  combined by a bitwise or.\<close>

definition EBPF_CLS_MASK :: u8 where [opcode_defs]: "EBPF_CLS_MASK = 0x07"
definition EBPF_ALU_OP_MASK :: u8 where [opcode_defs]: "EBPF_ALU_OP_MASK = 0xf0"
definition EBPF_CLS_LD :: u8 where [opcode_defs]: "EBPF_CLS_LD = 0x00"
definition EBPF_CLS_LDX :: u8 where [opcode_defs]: "EBPF_CLS_LDX = 0x01"
definition EBPF_CLS_ST :: u8 where [opcode_defs]: "EBPF_CLS_ST = 0x02"
definition EBPF_CLS_STX :: u8 where [opcode_defs]: "EBPF_CLS_STX = 0x03"
definition EBPF_CLS_ALU :: u8 where [opcode_defs]: "EBPF_CLS_ALU = 0x04"
definition EBPF_CLS_JMP :: u8 where [opcode_defs]: "EBPF_CLS_JMP = 0x05"
definition EBPF_CLS_ALU64 :: u8 where [opcode_defs]: "EBPF_CLS_ALU64 = 0x07"
definition EBPF_SRC_IMM :: u8 where [opcode_defs]: "EBPF_SRC_IMM = 0x00"
definition EBPF_SRC_REG :: u8 where [opcode_defs]: "EBPF_SRC_REG = 0x08"
definition EBPF_SIZE_W :: u8 where [opcode_defs]: "EBPF_SIZE_W = 0x00"
definition EBPF_SIZE_H :: u8 where [opcode_defs]: "EBPF_SIZE_H = 0x08"
definition EBPF_SIZE_B :: u8 where [opcode_defs]: "EBPF_SIZE_B = 0x10"
definition EBPF_SIZE_DW :: u8 where [opcode_defs]: "EBPF_SIZE_DW = 0x18"
definition EBPF_MODE_IMM :: u8 where [opcode_defs]: "EBPF_MODE_IMM = 0x00"
definition EBPF_MODE_MEM :: u8 where [opcode_defs]: "EBPF_MODE_MEM = 0x60"
definition EBPF_ALU_ADD :: u8 where [opcode_defs]: "EBPF_ALU_ADD = 0x00"
definition EBPF_ALU_SUB :: u8 where [opcode_defs]: "EBPF_ALU_SUB = 0x10"
definition EBPF_ALU_MUL :: u8 where [opcode_defs]: "EBPF_ALU_MUL = 0x20"
definition EBPF_ALU_DIV :: u8 where [opcode_defs]: "EBPF_ALU_DIV = 0x30"
definition EBPF_ALU_OR :: u8 where [opcode_defs]: "EBPF_ALU_OR = 0x40"
definition EBPF_ALU_AND :: u8 where [opcode_defs]: "EBPF_ALU_AND = 0x50"
definition EBPF_ALU_LSH :: u8 where [opcode_defs]: "EBPF_ALU_LSH = 0x60"
definition EBPF_ALU_RSH :: u8 where [opcode_defs]: "EBPF_ALU_RSH = 0x70"
definition EBPF_ALU_NEG :: u8 where [opcode_defs]: "EBPF_ALU_NEG = 0x80"
definition EBPF_ALU_MOD :: u8 where [opcode_defs]: "EBPF_ALU_MOD = 0xc0"
definition EBPF_ALU_XOR :: u8 where [opcode_defs]: "EBPF_ALU_XOR = 0xa0"
definition EBPF_ALU_ARSH :: u8 where [opcode_defs]: "EBPF_ALU_ARSH = 0xc0"
definition EBPF_OP_ADD_IMM :: u8 where [opcode_defs]: "EBPF_OP_ADD_IMM = EBPF_CLS_ALU OR EBPF_SRC_IMM OR EBPF_ALU_ADD"
definition EBPF_OP_ADD_REG :: u8 where [opcode_defs]: "EBPF_OP_ADD_REG = EBPF_CLS_ALU OR EBPF_SRC_REG OR EBPF_ALU_ADD"
definition EBPF_OP_SUB_IMM :: u8 where [opcode_defs]: "EBPF_OP_SUB_IMM = EBPF_CLS_ALU OR EBPF_SRC_IMM OR EBPF_ALU_SUB"
definition EBPF_OP_SUB_REG :: u8 where [opcode_defs]: "EBPF_OP_SUB_REG = EBPF_CLS_ALU OR EBPF_SRC_REG OR EBPF_ALU_SUB"
definition EBPF_OP_MUL_IMM :: u8 where [opcode_defs]: "EBPF_OP_MUL_IMM = EBPF_CLS_ALU OR EBPF_SRC_IMM OR 0x20"
definition EBPF_OP_MUL_REG :: u8 where [opcode_defs]: "EBPF_OP_MUL_REG = EBPF_CLS_ALU OR EBPF_SRC_REG OR 0x20"
definition EBPF_OP_DIV_IMM :: u8 where [opcode_defs]: "EBPF_OP_DIV_IMM = EBPF_CLS_ALU OR EBPF_SRC_IMM OR 0x30"
definition EBPF_OP_DIV_REG :: u8 where [opcode_defs]: "EBPF_OP_DIV_REG = EBPF_CLS_ALU OR EBPF_SRC_REG OR 0x30"
definition EBPF_OP_OR_IMM :: u8 where [opcode_defs]: "EBPF_OP_OR_IMM = EBPF_CLS_ALU OR EBPF_SRC_IMM OR 0x40"
definition EBPF_OP_OR_REG :: u8 where [opcode_defs]: "EBPF_OP_OR_REG = EBPF_CLS_ALU OR EBPF_SRC_REG OR 0x40"
definition EBPF_OP_AND_IMM :: u8 where [opcode_defs]: "EBPF_OP_AND_IMM = EBPF_CLS_ALU OR EBPF_SRC_IMM OR 0x50"
definition EBPF_OP_AND_REG :: u8 where [opcode_defs]: "EBPF_OP_AND_REG = EBPF_CLS_ALU OR EBPF_SRC_REG OR 0x50"
definition EBPF_OP_LSH_IMM :: u8 where [opcode_defs]: "EBPF_OP_LSH_IMM = EBPF_CLS_ALU OR EBPF_SRC_IMM OR 0x60"
definition EBPF_OP_LSH_REG :: u8 where [opcode_defs]: "EBPF_OP_LSH_REG = EBPF_CLS_ALU OR EBPF_SRC_REG OR 0x60"
definition EBPF_OP_RSH_IMM :: u8 where [opcode_defs]: "EBPF_OP_RSH_IMM = EBPF_CLS_ALU OR EBPF_SRC_IMM OR 0x70"
definition EBPF_OP_RSH_REG :: u8 where [opcode_defs]: "EBPF_OP_RSH_REG = EBPF_CLS_ALU OR EBPF_SRC_REG OR 0x70"
definition EBPF_OP_NEG :: u8 where [opcode_defs]: "EBPF_OP_NEG = EBPF_CLS_ALU OR 0x80"
definition EBPF_OP_MOD_IMM :: u8 where [opcode_defs]: "EBPF_OP_MOD_IMM = EBPF_CLS_ALU OR EBPF_SRC_IMM OR 0x90"
definition EBPF_OP_MOD_REG :: u8 where [opcode_defs]: "EBPF_OP_MOD_REG = EBPF_CLS_ALU OR EBPF_SRC_REG OR 0x90"
definition EBPF_OP_XOR_IMM :: u8 where [opcode_defs]: "EBPF_OP_XOR_IMM = EBPF_CLS_ALU OR EBPF_SRC_IMM OR 0xa0"
definition EBPF_OP_XOR_REG :: u8 where [opcode_defs]: "EBPF_OP_XOR_REG = EBPF_CLS_ALU OR EBPF_SRC_REG OR 0xa0"
definition EBPF_OP_MOV_IMM :: u8 where [opcode_defs]: "EBPF_OP_MOV_IMM = EBPF_CLS_ALU OR EBPF_SRC_IMM OR 0xb0"
definition EBPF_OP_MOV_REG :: u8 where [opcode_defs]: "EBPF_OP_MOV_REG = EBPF_CLS_ALU OR EBPF_SRC_REG OR 0xb0"
definition EBPF_OP_ARSH_IMM :: u8 where [opcode_defs]: "EBPF_OP_ARSH_IMM = EBPF_CLS_ALU OR EBPF_SRC_IMM OR 0xc0"
definition EBPF_OP_ARSH_REG :: u8 where [opcode_defs]: "EBPF_OP_ARSH_REG = EBPF_CLS_ALU OR EBPF_SRC_REG OR 0xc0"
definition EBPF_OP_LE :: u8 where [opcode_defs]: "EBPF_OP_LE = EBPF_CLS_ALU OR EBPF_SRC_IMM OR 0xd0"
definition EBPF_OP_BE :: u8 where [opcode_defs]: "EBPF_OP_BE = EBPF_CLS_ALU OR EBPF_SRC_REG OR 0xd0"
definition EBPF_OP_ADD64_IMM :: u8 where [opcode_defs]: "EBPF_OP_ADD64_IMM = EBPF_CLS_ALU64 OR EBPF_SRC_IMM OR 0x00"
definition EBPF_OP_ADD64_REG :: u8 where [opcode_defs]: "EBPF_OP_ADD64_REG = EBPF_CLS_ALU64 OR EBPF_SRC_REG OR 0x00"
definition EBPF_OP_SUB64_IMM :: u8 where [opcode_defs]: "EBPF_OP_SUB64_IMM = EBPF_CLS_ALU64 OR EBPF_SRC_IMM OR 0x10"
definition EBPF_OP_SUB64_REG :: u8 where [opcode_defs]: "EBPF_OP_SUB64_REG = EBPF_CLS_ALU64 OR EBPF_SRC_REG OR 0x10"
definition EBPF_OP_MUL64_IMM :: u8 where [opcode_defs]: "EBPF_OP_MUL64_IMM = EBPF_CLS_ALU64 OR EBPF_SRC_IMM OR 0x20"
definition EBPF_OP_MUL64_REG :: u8 where [opcode_defs]: "EBPF_OP_MUL64_REG = EBPF_CLS_ALU64 OR EBPF_SRC_REG OR 0x20"
definition EBPF_OP_DIV64_IMM :: u8 where [opcode_defs]: "EBPF_OP_DIV64_IMM = EBPF_CLS_ALU64 OR EBPF_SRC_IMM OR 0x30"
definition EBPF_OP_DIV64_REG :: u8 where [opcode_defs]: "EBPF_OP_DIV64_REG = EBPF_CLS_ALU64 OR EBPF_SRC_REG OR 0x30"
definition EBPF_OP_OR64_IMM :: u8 where [opcode_defs]: "EBPF_OP_OR64_IMM = EBPF_CLS_ALU64 OR EBPF_SRC_IMM OR 0x40"
definition EBPF_OP_OR64_REG :: u8 where [opcode_defs]: "EBPF_OP_OR64_REG = EBPF_CLS_ALU64 OR EBPF_SRC_REG OR 0x40"
definition EBPF_OP_AND64_IMM :: u8 where [opcode_defs]: "EBPF_OP_AND64_IMM = EBPF_CLS_ALU64 OR EBPF_SRC_IMM OR 0x50"
definition EBPF_OP_AND64_REG :: u8 where [opcode_defs]: "EBPF_OP_AND64_REG = EBPF_CLS_ALU64 OR EBPF_SRC_REG OR 0x50"
definition EBPF_OP_LSH64_IMM :: u8 where [opcode_defs]: "EBPF_OP_LSH64_IMM = EBPF_CLS_ALU64 OR EBPF_SRC_IMM OR 0x60"
definition EBPF_OP_LSH64_REG :: u8 where [opcode_defs]: "EBPF_OP_LSH64_REG = EBPF_CLS_ALU64 OR EBPF_SRC_REG OR 0x60"
definition EBPF_OP_RSH64_IMM :: u8 where [opcode_defs]: "EBPF_OP_RSH64_IMM = EBPF_CLS_ALU64 OR EBPF_SRC_IMM OR 0x70"
definition EBPF_OP_RSH64_REG :: u8 where [opcode_defs]: "EBPF_OP_RSH64_REG = EBPF_CLS_ALU64 OR EBPF_SRC_REG OR 0x70"
definition EBPF_OP_NEG64 :: u8 where [opcode_defs]: "EBPF_OP_NEG64 = EBPF_CLS_ALU64 OR 0x80"
definition EBPF_OP_MOD64_IMM :: u8 where [opcode_defs]: "EBPF_OP_MOD64_IMM = EBPF_CLS_ALU64 OR EBPF_SRC_IMM OR 0x90"
definition EBPF_OP_MOD64_REG :: u8 where [opcode_defs]: "EBPF_OP_MOD64_REG = EBPF_CLS_ALU64 OR EBPF_SRC_REG OR 0x90"
definition EBPF_OP_XOR64_IMM :: u8 where [opcode_defs]: "EBPF_OP_XOR64_IMM = EBPF_CLS_ALU64 OR EBPF_SRC_IMM OR 0xa0"
definition EBPF_OP_XOR64_REG :: u8 where [opcode_defs]: "EBPF_OP_XOR64_REG = EBPF_CLS_ALU64 OR EBPF_SRC_REG OR 0xa0"
definition EBPF_OP_MOV64_IMM :: u8 where [opcode_defs]: "EBPF_OP_MOV64_IMM = EBPF_CLS_ALU64 OR EBPF_SRC_IMM OR 0xb0"
definition EBPF_OP_MOV64_REG :: u8 where [opcode_defs]: "EBPF_OP_MOV64_REG = EBPF_CLS_ALU64 OR EBPF_SRC_REG OR 0xb0"
definition EBPF_OP_ARSH64_IMM :: u8 where [opcode_defs]: "EBPF_OP_ARSH64_IMM = EBPF_CLS_ALU64 OR EBPF_SRC_IMM OR 0xc0"
definition EBPF_OP_ARSH64_REG :: u8 where [opcode_defs]: "EBPF_OP_ARSH64_REG = EBPF_CLS_ALU64 OR EBPF_SRC_REG OR 0xc0"
definition EBPF_OP_LDXW :: u8 where [opcode_defs]: "EBPF_OP_LDXW = EBPF_CLS_LDX OR EBPF_MODE_MEM OR EBPF_SIZE_W"
definition EBPF_OP_LDXH :: u8 where [opcode_defs]: "EBPF_OP_LDXH = EBPF_CLS_LDX OR EBPF_MODE_MEM OR EBPF_SIZE_H"
definition EBPF_OP_LDXB :: u8 where [opcode_defs]: "EBPF_OP_LDXB = EBPF_CLS_LDX OR EBPF_MODE_MEM OR EBPF_SIZE_B"
definition EBPF_OP_LDXDW :: u8 where [opcode_defs]: "EBPF_OP_LDXDW = EBPF_CLS_LDX OR EBPF_MODE_MEM OR EBPF_SIZE_DW"
definition EBPF_OP_STW :: u8 where [opcode_defs]: "EBPF_OP_STW = EBPF_CLS_ST OR EBPF_MODE_MEM OR EBPF_SIZE_W"
definition EBPF_OP_STH :: u8 where [opcode_defs]: "EBPF_OP_STH = EBPF_CLS_ST OR EBPF_MODE_MEM OR EBPF_SIZE_H"
definition EBPF_OP_STB :: u8 where [opcode_defs]: "EBPF_OP_STB = EBPF_CLS_ST OR EBPF_MODE_MEM OR EBPF_SIZE_B"
definition EBPF_OP_STDW :: u8 where [opcode_defs]: "EBPF_OP_STDW = EBPF_CLS_ST OR EBPF_MODE_MEM OR EBPF_SIZE_DW"
definition EBPF_OP_STXW :: u8 where [opcode_defs]: "EBPF_OP_STXW = EBPF_CLS_STX OR EBPF_MODE_MEM OR EBPF_SIZE_W"
definition EBPF_OP_STXH :: u8 where [opcode_defs]: "EBPF_OP_STXH = EBPF_CLS_STX OR EBPF_MODE_MEM OR EBPF_SIZE_H"
definition EBPF_OP_STXB :: u8 where [opcode_defs]: "EBPF_OP_STXB = EBPF_CLS_STX OR EBPF_MODE_MEM OR EBPF_SIZE_B"
definition EBPF_OP_STXDW :: u8 where [opcode_defs]: "EBPF_OP_STXDW = EBPF_CLS_STX OR EBPF_MODE_MEM OR EBPF_SIZE_DW"
definition EBPF_OP_LDDW :: u8 where [opcode_defs]: "EBPF_OP_LDDW = EBPF_CLS_LD OR EBPF_MODE_IMM OR EBPF_SIZE_DW"
definition EBPF_JA :: u8 where [opcode_defs]: "EBPF_JA = 0x00"
definition EBPF_JEQ :: u8 where [opcode_defs]: "EBPF_JEQ = 0x10"
definition EBPF_JGT :: u8 where [opcode_defs]: "EBPF_JGT = 0x20"
definition EBPF_JGE :: u8 where [opcode_defs]: "EBPF_JGE = 0x30"
definition EBPF_JSET :: u8 where [opcode_defs]: "EBPF_JSET = 0x40"
definition EBPF_JNE :: u8 where [opcode_defs]: "EBPF_JNE = 0x50"
definition EBPF_JSGT :: u8 where [opcode_defs]: "EBPF_JSGT = 0x60"
definition EBPF_JSGE :: u8 where [opcode_defs]: "EBPF_JSGE = 0x70"
definition EBPF_JLT :: u8 where [opcode_defs]: "EBPF_JLT = 0xa0"
definition EBPF_JLE :: u8 where [opcode_defs]: "EBPF_JLE = 0xb0"
definition EBPF_JSLT :: u8 where [opcode_defs]: "EBPF_JSLT = 0xc0"
definition EBPF_JSLE :: u8 where [opcode_defs]: "EBPF_JSLE = 0xd0"
definition EBPF_OP_JA :: u8 where [opcode_defs]: "EBPF_OP_JA = EBPF_CLS_JMP OR 0x00"
definition EBPF_OP_JEQ_IMM :: u8 where [opcode_defs]: "EBPF_OP_JEQ_IMM = EBPF_CLS_JMP OR EBPF_SRC_IMM OR 0x10"
definition EBPF_OP_JEQ_REG :: u8 where [opcode_defs]: "EBPF_OP_JEQ_REG = EBPF_CLS_JMP OR EBPF_SRC_REG OR 0x10"
definition EBPF_OP_JGT_IMM :: u8 where [opcode_defs]: "EBPF_OP_JGT_IMM = EBPF_CLS_JMP OR EBPF_SRC_IMM OR 0x20"
definition EBPF_OP_JGT_REG :: u8 where [opcode_defs]: "EBPF_OP_JGT_REG = EBPF_CLS_JMP OR EBPF_SRC_REG OR 0x20"
definition EBPF_OP_JGE_IMM :: u8 where [opcode_defs]: "EBPF_OP_JGE_IMM = EBPF_CLS_JMP OR EBPF_SRC_IMM OR 0x30"
definition EBPF_OP_JGE_REG :: u8 where [opcode_defs]: "EBPF_OP_JGE_REG = EBPF_CLS_JMP OR EBPF_SRC_REG OR 0x30"
definition EBPF_OP_JSET_REG :: u8 where [opcode_defs]: "EBPF_OP_JSET_REG = EBPF_CLS_JMP OR EBPF_SRC_REG OR 0x40"
definition EBPF_OP_JSET_IMM :: u8 where [opcode_defs]: "EBPF_OP_JSET_IMM = EBPF_CLS_JMP OR EBPF_SRC_IMM OR 0x40"
definition EBPF_OP_JNE_IMM :: u8 where [opcode_defs]: "EBPF_OP_JNE_IMM = EBPF_CLS_JMP OR EBPF_SRC_IMM OR 0x50"
definition EBPF_OP_JNE_REG :: u8 where [opcode_defs]: "EBPF_OP_JNE_REG = EBPF_CLS_JMP OR EBPF_SRC_REG OR 0x50"
definition EBPF_OP_JSGT_IMM :: u8 where [opcode_defs]: "EBPF_OP_JSGT_IMM = EBPF_CLS_JMP OR EBPF_SRC_IMM OR 0x60"
definition EBPF_OP_JSGT_REG :: u8 where [opcode_defs]: "EBPF_OP_JSGT_REG = EBPF_CLS_JMP OR EBPF_SRC_REG OR 0x60"
definition EBPF_OP_JSGE_IMM :: u8 where [opcode_defs]: "EBPF_OP_JSGE_IMM = EBPF_CLS_JMP OR EBPF_SRC_IMM OR 0x70"
definition EBPF_OP_JSGE_REG :: u8 where [opcode_defs]: "EBPF_OP_JSGE_REG = EBPF_CLS_JMP OR EBPF_SRC_REG OR 0x70"
definition EBPF_OP_CALL :: u8 where [opcode_defs]: "EBPF_OP_CALL = EBPF_CLS_JMP OR 0x80"
definition EBPF_OP_EXIT :: u8 where [opcode_defs]: "EBPF_OP_EXIT = EBPF_CLS_JMP OR 0x90"
definition EBPF_OP_JLT_IMM :: u8 where [opcode_defs]: "EBPF_OP_JLT_IMM = EBPF_CLS_JMP OR EBPF_SRC_IMM OR 0xa0"
definition EBPF_OP_JLT_REG :: u8 where [opcode_defs]: "EBPF_OP_JLT_REG = EBPF_CLS_JMP OR EBPF_SRC_REG OR 0xa0"
definition EBPF_OP_JLE_IMM :: u8 where [opcode_defs]: "EBPF_OP_JLE_IMM = EBPF_CLS_JMP OR EBPF_SRC_IMM OR 0xb0"
definition EBPF_OP_JLE_REG :: u8 where [opcode_defs]: "EBPF_OP_JLE_REG = EBPF_CLS_JMP OR EBPF_SRC_REG OR 0xb0"
definition EBPF_OP_JSLT_IMM :: u8 where [opcode_defs]: "EBPF_OP_JSLT_IMM = EBPF_CLS_JMP OR EBPF_SRC_IMM OR 0xc0"
definition EBPF_OP_JSLT_REG :: u8 where [opcode_defs]: "EBPF_OP_JSLT_REG = EBPF_CLS_JMP OR EBPF_SRC_REG OR 0xc0"
definition EBPF_OP_JSLE_IMM :: u8 where [opcode_defs]: "EBPF_OP_JSLE_IMM = EBPF_CLS_JMP OR EBPF_SRC_IMM OR 0xd0"
definition EBPF_OP_JSLE_REG :: u8 where [opcode_defs]: "EBPF_OP_JSLE_REG = EBPF_CLS_JMP OR EBPF_SRC_REG OR 0xd0"

lemma opcode_vals [opcode_val]:
  "EBPF_CLS_MASK = 0x07"
  "EBPF_ALU_OP_MASK = 0xf0"
  "EBPF_CLS_LD = 0x00"
  "EBPF_CLS_LDX = 0x01"
  "EBPF_CLS_ST = 0x02"
  "EBPF_CLS_STX = 0x03"
  "EBPF_CLS_ALU = 0x04"
  "EBPF_CLS_JMP = 0x05"
  "EBPF_CLS_ALU64 = 0x07"
  "EBPF_SRC_IMM = 0x00"
  "EBPF_SRC_REG = 0x08"
  "EBPF_SIZE_W = 0x00"
  "EBPF_SIZE_H = 0x08"
  "EBPF_SIZE_B = 0x10"
  "EBPF_SIZE_DW = 0x18"
  "EBPF_MODE_IMM = 0x00"
  "EBPF_MODE_MEM = 0x60"
  "EBPF_ALU_ADD = 0x00"
  "EBPF_ALU_SUB = 0x10"
  "EBPF_ALU_MUL = 0x20"
  "EBPF_ALU_DIV = 0x30"
  "EBPF_ALU_OR = 0x40"
  "EBPF_ALU_AND = 0x50"
  "EBPF_ALU_LSH = 0x60"
  "EBPF_ALU_RSH = 0x70"
  "EBPF_ALU_NEG = 0x80"
  "EBPF_ALU_MOD = 0xc0"
  "EBPF_ALU_XOR = 0xa0"
  "EBPF_ALU_ARSH = 0xc0"
  "EBPF_OP_ADD_IMM = 0x04"
  "EBPF_OP_ADD_REG = 0x0c"
  "EBPF_OP_SUB_IMM = 0x14"
  "EBPF_OP_SUB_REG = 0x1c"
  "EBPF_OP_MUL_IMM = 0x24"
  "EBPF_OP_MUL_REG = 0x2c"
  "EBPF_OP_DIV_IMM = 0x34"
  "EBPF_OP_DIV_REG = 0x3c"
  "EBPF_OP_OR_IMM = 0x44"
  "EBPF_OP_OR_REG = 0x4c"
  "EBPF_OP_AND_IMM = 0x54"
  "EBPF_OP_AND_REG = 0x5c"
  "EBPF_OP_LSH_IMM = 0x64"
  "EBPF_OP_LSH_REG = 0x6c"
  "EBPF_OP_RSH_IMM = 0x74"
  "EBPF_OP_RSH_REG = 0x7c"
  "EBPF_OP_NEG = 0x84"
  "EBPF_OP_MOD_IMM = 0x94"
  "EBPF_OP_MOD_REG = 0x9c"
  "EBPF_OP_XOR_IMM = 0xa4"
  "EBPF_OP_XOR_REG = 0xac"
  "EBPF_OP_MOV_IMM = 0xb4"
  "EBPF_OP_MOV_REG = 0xbc"
  "EBPF_OP_ARSH_IMM = 0xc4"
  "EBPF_OP_ARSH_REG = 0xcc"
  "EBPF_OP_LE = 0xd4"
  "EBPF_OP_BE = 0xdc"
  "EBPF_OP_ADD64_IMM = 0x07"
  "EBPF_OP_ADD64_REG = 0x0f"
  "EBPF_OP_SUB64_IMM = 0x17"
  "EBPF_OP_SUB64_REG = 0x1f"
  "EBPF_OP_MUL64_IMM = 0x27"
  "EBPF_OP_MUL64_REG = 0x2f"
  "EBPF_OP_DIV64_IMM = 0x37"
  "EBPF_OP_DIV64_REG = 0x3f"
  "EBPF_OP_OR64_IMM = 0x47"
  "EBPF_OP_OR64_REG = 0x4f"
  "EBPF_OP_AND64_IMM = 0x57"
  "EBPF_OP_AND64_REG = 0x5f"
  "EBPF_OP_LSH64_IMM = 0x67"
  "EBPF_OP_LSH64_REG = 0x6f"
  "EBPF_OP_RSH64_IMM = 0x77"
  "EBPF_OP_RSH64_REG = 0x7f"
  "EBPF_OP_NEG64 = 0x87"
  "EBPF_OP_MOD64_IMM = 0x97"
  "EBPF_OP_MOD64_REG = 0x9f"
  "EBPF_OP_XOR64_IMM = 0xa7"
  "EBPF_OP_XOR64_REG = 0xaf"
  "EBPF_OP_MOV64_IMM = 0xb7"
  "EBPF_OP_MOV64_REG = 0xbf"
  "EBPF_OP_ARSH64_IMM = 0xc7"
  "EBPF_OP_ARSH64_REG = 0xcf"
  "EBPF_OP_LDXW = 0x61"
  "EBPF_OP_LDXH = 0x69"
  "EBPF_OP_LDXB = 0x71"
  "EBPF_OP_LDXDW = 0x79"
  "EBPF_OP_STW = 0x62"
  "EBPF_OP_STH = 0x6a"
  "EBPF_OP_STB = 0x72"
  "EBPF_OP_STDW = 0x7a"
  "EBPF_OP_STXW = 0x63"
  "EBPF_OP_STXH = 0x6b"
  "EBPF_OP_STXB = 0x73"
  "EBPF_OP_STXDW = 0x7b"
  "EBPF_OP_LDDW = 0x18"
  "EBPF_JA = 0x00"
  "EBPF_JEQ = 0x10"
  "EBPF_JGT = 0x20"
  "EBPF_JGE = 0x30"
  "EBPF_JSET = 0x40"
  "EBPF_JNE = 0x50"
  "EBPF_JSGT = 0x60"
  "EBPF_JSGE = 0x70"
  "EBPF_JLT = 0xa0"
  "EBPF_JLE = 0xb0"
  "EBPF_JSLT = 0xc0"
  "EBPF_JSLE = 0xd0"
  "EBPF_OP_JA = 0x05"
  "EBPF_OP_JEQ_IMM = 0x15"
  "EBPF_OP_JEQ_REG = 0x1d"
  "EBPF_OP_JGT_IMM = 0x25"
  "EBPF_OP_JGT_REG = 0x2d"
  "EBPF_OP_JGE_IMM = 0x35"
  "EBPF_OP_JGE_REG = 0x3d"
  "EBPF_OP_JSET_REG = 0x4d"
  "EBPF_OP_JSET_IMM = 0x45"
  "EBPF_OP_JNE_IMM = 0x55"
  "EBPF_OP_JNE_REG = 0x5d"
  "EBPF_OP_JSGT_IMM = 0x65"
  "EBPF_OP_JSGT_REG = 0x6d"
  "EBPF_OP_JSGE_IMM = 0x75"
  "EBPF_OP_JSGE_REG = 0x7d"
  "EBPF_OP_CALL = 0x85"
  "EBPF_OP_EXIT = 0x95"
  "EBPF_OP_JLT_IMM = 0xa5"
  "EBPF_OP_JLT_REG = 0xad"
  "EBPF_OP_JLE_IMM = 0xb5"
  "EBPF_OP_JLE_REG = 0xbd"
  "EBPF_OP_JSLT_IMM = 0xc5"
  "EBPF_OP_JSLT_REG = 0xcd"
  "EBPF_OP_JSLE_IMM = 0xd5"
  "EBPF_OP_JSLE_REG = 0xdd"
  by (simp_all add: opcode_defs)

definition BPF_OP :: "u8 \<Rightarrow> u8" where "BPF_OP code = code AND 0xf0"
definition BPF_CLASS :: "u8 \<Rightarrow> u8" where "BPF_CLASS code = code AND 0x07"
definition BPF_SIZE :: "u8 \<Rightarrow> u8" where "BPF_SIZE code = code AND 0x18"
definition BPF_SRC :: "u8 \<Rightarrow> u8" where "BPF_SRC code = code AND 0x8"

lemmas bpf_field_defs = BPF_OP_def BPF_CLASS_def BPF_SIZE_def BPF_SRC_def

definition MAX_BPF_REG :: nat where "MAX_BPF_REG = 11"
definition MAX_BPF_EXT_REG :: nat where "MAX_BPF_EXT_REG = MAX_BPF_REG + 1"

lemma MAX_BPF_EXT_REG_val [simp]: "MAX_BPF_EXT_REG = 12"
  by (simp add: MAX_BPF_EXT_REG_def MAX_BPF_REG_def)

subsection \<open>The instruction record\<close>

record ebpf_inst =
  opcode :: u8
  i_dst :: "4 word"
  i_src :: "4 word"
  i_off :: s16
  i_imm :: s32

text \<open>Little-endian composition of bytes, as a word access on the target reads them.\<close>

definition le16 :: "u8 \<Rightarrow> u8 \<Rightarrow> u16" where
  "le16 b0 b1 = ucast b0 OR push_bit 8 (ucast b1)"

definition le32 :: "u8 \<Rightarrow> u8 \<Rightarrow> u8 \<Rightarrow> u8 \<Rightarrow> u32" where
  "le32 b0 b1 b2 b3 = ucast b0 OR push_bit 8 (ucast b1) OR push_bit 16 (ucast b2)
     OR push_bit 24 (ucast b3)"

definition le64 :: "u32 \<Rightarrow> u32 \<Rightarrow> u64" where
  "le64 lo hi = ucast lo OR push_bit 32 (ucast hi)"

definition byte_of :: "nat \<Rightarrow> 'a::len word \<Rightarrow> u8" where
  "byte_of k w = ucast (drop_bit (8 * k) w)"

text \<open>One \<open>struct ebpf_inst\<close> occupies eight bytes: opcode, the two register nibbles
  (\<open>dst\<close> in the low one), the 16-bit offset and the 32-bit immediate.\<close>

fun decode_inst :: "u8 list \<Rightarrow> ebpf_inst option" where
  "decode_inst [b0, b1, b2, b3, b4, b5, b6, b7] =
     Some \<lparr>opcode = b0, i_dst = ucast b1, i_src = ucast (drop_bit 4 b1),
           i_off = le16 b2 b3, i_imm = le32 b4 b5 b6 b7\<rparr>"
| "decode_inst _ = None"

definition encode_inst :: "ebpf_inst \<Rightarrow> u8 list" where
  "encode_inst i =
     [opcode i, ucast (i_dst i) OR push_bit 4 (ucast (i_src i)),
      byte_of 0 (i_off i), byte_of 1 (i_off i),
      byte_of 0 (i_imm i), byte_of 1 (i_imm i), byte_of 2 (i_imm i), byte_of 3 (i_imm i)]"

fun decode_insts :: "u8 list \<Rightarrow> ebpf_inst list" where
  "decode_insts (b0 # b1 # b2 # b3 # b4 # b5 # b6 # b7 # bs) =
     (case decode_inst [b0, b1, b2, b3, b4, b5, b6, b7] of
        Some i \<Rightarrow> i # decode_insts bs | None \<Rightarrow> [])"
| "decode_insts _ = []"

subsection \<open>Byte order macros\<close>

definition swap16 :: "u16 \<Rightarrow> u16" where
  "swap16 x = push_bit 8 (x AND 0x00ff) OR drop_bit 8 (x AND 0xff00)"

definition swap32 :: "u32 \<Rightarrow> u32" where
  "swap32 x = push_bit 24 (x AND 0x000000ff) OR push_bit 8 (x AND 0x0000ff00)
     OR drop_bit 8 (x AND 0x00ff0000) OR drop_bit 24 (x AND 0xff000000)"

definition swap64 :: "u64 \<Rightarrow> u64" where
  "swap64 x = push_bit 56 (x AND 0x00000000000000ff)
     OR push_bit 40 (x AND 0x000000000000ff00)
     OR push_bit 24 (x AND 0x0000000000ff0000)
     OR push_bit 8 (x AND 0x00000000ff000000)
     OR drop_bit 8 (x AND 0x000000ff00000000)
     OR drop_bit 24 (x AND 0x0000ff0000000000)
     OR drop_bit 40 (x AND 0x00ff000000000000)
     OR drop_bit 56 (x AND 0xff00000000000000)"

text \<open>The macros of the little-endian branch. The \<open>htole\<close> macros are the identity on their
  argument expression, with no cast; the \<open>htobe\<close> macros call the swap functions, whose
  parameter type truncates.\<close>

definition my_htole16 :: "u64 \<Rightarrow> u64" where "my_htole16 x = x"
definition my_htole32 :: "u64 \<Rightarrow> u64" where "my_htole32 x = x"
definition my_htole64 :: "u64 \<Rightarrow> u64" where "my_htole64 x = x"
definition my_htobe16 :: "u64 \<Rightarrow> u64" where "my_htobe16 x = ucast (swap16 (ucast x))"
definition my_htobe32 :: "u64 \<Rightarrow> u64" where "my_htobe32 x = ucast (swap32 (ucast x))"
definition my_htobe64 :: "u64 \<Rightarrow> u64" where "my_htobe64 x = swap64 x"

lemmas byteorder_defs = my_htole16_def my_htole32_def my_htole64_def
  my_htobe16_def my_htobe32_def my_htobe64_def

end
