(* ===== verification/Jit_Emit.thy ===== *)
theory Jit_Emit
  imports Thumb2 Ebpf_Inst
begin

text \<open>
  The code emitters of \<open>libebpf/src/jit_thumb2.c\<close>. In C every emitter appends halfwords to
  the buffer through \<open>emit2\<close> and \<open>emit4\<close>; here it returns the list of halfwords it appends, in
  order, and an emitter with a result returns the result with the list. Only the branch
  emitters look at the state (the number of instructions); they take it as an argument.
\<close>

type_synonym code = "u16 list"
type_synonym reg_pair = "s8 \<times> s8"

definition emit2 :: "u16 \<Rightarrow> code" where
  [jit_defs]: "emit2 x = [x]"

text \<open>\<open>u2[1]\<close> first, then \<open>u2[0]\<close>: the high halfword leads.\<close>

definition emit4 :: "u32 \<Rightarrow> code" where
  [jit_defs]: "emit4 x = emit2 (ucast (drop_bit 16 x)) @ emit2 (ucast x)"

subsection \<open>Registers\<close>

abbreviation ARM_R0 :: s8 where "ARM_R0 \<equiv> 0"
abbreviation ARM_R4 :: s8 where "ARM_R4 \<equiv> 4"
abbreviation ARM_FP :: s8 where "ARM_FP \<equiv> 11"
abbreviation ARM_IP :: s8 where "ARM_IP \<equiv> 12"
abbreviation ARM_SP :: s8 where "ARM_SP \<equiv> 13"
abbreviation ARM_LR :: s8 where "ARM_LR \<equiv> 14"
abbreviation ARM_PC :: s8 where "ARM_PC \<equiv> 15"

definition STACK_OFFSET :: "nat \<Rightarrow> s8" where
  [jit_defs]: "STACK_OFFSET k = - 4 - of_nat k * 4"

definition SCRATCH_SIZE :: s32 where [jit_defs]: "SCRATCH_SIZE = 20 * 4"

definition TMP_REG_1 :: nat where [jit_defs]: "TMP_REG_1 = 12"
definition TMP_REG_2 :: nat where [jit_defs]: "TMP_REG_2 = 13"

text \<open>Each row is \<open>{hi, lo}\<close>: two ARM registers, or two negative offsets from the frame
  pointer for a register that lives in the scratch area.\<close>

definition bpf2a32 :: "reg_pair list" where
  [jit_defs]: "bpf2a32 =
    [(1, 0), (3, 2),
     (STACK_OFFSET 0, STACK_OFFSET 1), (STACK_OFFSET 2, STACK_OFFSET 3),
     (STACK_OFFSET 4, STACK_OFFSET 5), (STACK_OFFSET 6, STACK_OFFSET 7),
     (5, 4),
     (STACK_OFFSET 8, STACK_OFFSET 9), (STACK_OFFSET 10, STACK_OFFSET 11),
     (STACK_OFFSET 12, STACK_OFFSET 13), (STACK_OFFSET 14, STACK_OFFSET 15),
     (STACK_OFFSET 18, STACK_OFFSET 19),
     (7, 6), (9, 8),
     (STACK_OFFSET 16, STACK_OFFSET 17)]"

text \<open>The temporaries are rows of the table: \<open>tmp\<close> is r7/r6 and \<open>tmp2\<close> is r9/r8.\<close>

definition tmp :: reg_pair where [jit_defs]: "tmp = bpf2a32 ! TMP_REG_1"
definition tmp2 :: reg_pair where [jit_defs]: "tmp2 = bpf2a32 ! TMP_REG_2"

abbreviation hi :: "reg_pair \<Rightarrow> s8" where "hi \<equiv> fst"
abbreviation lw :: "reg_pair \<Rightarrow> s8" where "lw \<equiv> snd"

definition is_stacked :: "s8 \<Rightarrow> bool" where
  [jit_defs]: "is_stacked r \<longleftrightarrow> sint r < 0"

definition low_reg :: "s8 \<Rightarrow> bool" where
  [jit_defs]: "low_reg r \<longleftrightarrow> sint r < 8"

text \<open>\<open>r > 0 && r < 8\<close>, the test of the 16-bit forms of \<open>emit_alu32_reg\<close>.\<close>

definition pos_low :: "s8 \<Rightarrow> bool" where
  [jit_defs]: "pos_low r \<longleftrightarrow> 0 < sint r \<and> sint r < 8"

subsection \<open>Loads, stores and moves\<close>

definition emit_ldr_i :: "s8 \<Rightarrow> s8 \<Rightarrow> s16 \<Rightarrow> code" where
  [jit_defs]: "emit_ldr_i Rt Rn off =
     (if off = 0 then emit4 (0xf8d00000 OR rg Rn 16 OR rg Rt 12 OR (scast off AND 0xfff))
      else emit4 (thumb32_LDR_IMM_T4 Rt Rn (scast off)))"

definition within :: "s16 \<Rightarrow> int \<Rightarrow> bool" where
  [jit_defs]: "within off k \<longleftrightarrow> sint off \<le> k \<and> sint off \<ge> - k"

definition emit_ldrb_i :: "s8 \<Rightarrow> s8 \<Rightarrow> s16 \<Rightarrow> code" where
  [jit_defs]: "emit_ldrb_i Rt Rn off =
     (if within off 31 \<and> low_reg Rt \<and> low_reg Rn then emit2 (thumb16_LDRB_IMM_T1 Rt Rn off)
      else if within off 0xff then emit4 (thumb32_LDRB_IMM_T3 Rt Rn (scast off))
      else if within off 0xfff then emit4 (0xf8900000 OR rg Rn 16 OR rg Rt 12 OR scast off)
      else [])"

definition emit_ldrh_i :: "s8 \<Rightarrow> s8 \<Rightarrow> s16 \<Rightarrow> code" where
  [jit_defs]: "emit_ldrh_i Rt Rn off =
     (if within off 31 then
        emit2 (ucast (0x8800 OR push_bit 6 (scast off AND 31) OR rg Rn 3 OR rg Rt 0 :: u32))
      else if within off 0xff then
        emit4 (0xf8300000 OR rg Rn 16 OR rg Rt 12 OR push_bit 8 14 OR (scast off AND 0xff))
      else if within off 0xfff then
        emit4 (0xf8b00000 OR rg Rn 16 OR rg Rt 12 OR (scast off AND 0xfff))
      else [])"

definition emit_ldrd_i :: "reg_pair \<Rightarrow> s8 \<Rightarrow> s16 \<Rightarrow> code" where
  [jit_defs]: "emit_ldrd_i Rt Rn off = emit4 (thumb32_LDRD_IMM_T1 Rt Rn (scast off))"

definition emit_str_i :: "s8 \<Rightarrow> s8 \<Rightarrow> s16 \<Rightarrow> code" where
  [jit_defs]: "emit_str_i RnSrc Rt off =
     (let o32 = scast off :: s32;
          imm8 = (ucast (abs32 o32) :: u8);
          flag = 8 OR push_bit 2 (flag_of (o32 \<noteq> 0)) OR push_bit 1 (flag_of (sint o32 > 0))
      in emit4 (THUMB2_STR_IMM OR rg RnSrc 16 OR rg Rt 12 OR push_bit 8 flag OR ucast imm8))"

definition emit_strd_i :: "reg_pair \<Rightarrow> s8 \<Rightarrow> s16 \<Rightarrow> code" where
  [jit_defs]: "emit_strd_i RnSrc RtDst off = emit4 (thumb32_STRD_IMM_T1 RnSrc RtDst off)"

definition emit_mov_reg :: "s8 \<Rightarrow> s8 \<Rightarrow> code" where
  [jit_defs]: "emit_mov_reg src dst =
     (if dst \<noteq> ARM_SP \<and> src \<noteq> ARM_SP then emit2 (thumb16_MOV_REG_T1 dst src)
      else emit4 (thumb32_MOVW_REG_T3 dst src FLAG_NOS))"

text \<open>\<open>movs\<close> for a small constant in a low register, else \<open>movw\<close> and, when the upper half is
  not zero, \<open>movt\<close>. \<open>mov16\<close> is the field layout the two share.\<close>

definition mov16 :: "u32 \<Rightarrow> u8 \<Rightarrow> u16 \<Rightarrow> u32" where
  [jit_defs]: "mov16 opc rd v1 =
     (let v = ucast v1 :: u32;
          i4 = drop_bit 12 (v AND 0xf000);
          i = drop_bit 11 (v AND 0x0800);
          i3 = drop_bit 8 (v AND 0x0700);
          i8 = v AND 0x00ff
      in opc OR push_bit 26 i OR push_bit 16 i4 OR push_bit 12 i3 OR fl rd 8 OR i8)"

definition emit_mov_imm :: "u8 \<Rightarrow> u32 \<Rightarrow> code" where
  [jit_defs]: "emit_mov_imm rd val =
     (if val \<le> 0xff \<and> rd < 8 then emit2 (ucast (0x2000 OR fl rd 8 OR val))
      else emit4 (mov16 0xf2400000 rd (ucast val)) @
           (if val > 0xffff then emit4 (mov16 0xf2c00000 rd (ucast (drop_bit 16 val))) else []))"

subsection \<open>Moving between scratch area and registers\<close>

definition arm_bpf_get_reg32 :: "s8 \<Rightarrow> s8 \<Rightarrow> s8 \<times> code" where
  [jit_defs]: "arm_bpf_get_reg32 reg t =
     (if is_stacked reg then (t, emit_ldr_i t ARM_FP (scast reg)) else (reg, []))"

definition arm_bpf_put_reg32 :: "s8 \<Rightarrow> s8 \<Rightarrow> code" where
  [jit_defs]: "arm_bpf_put_reg32 reg src =
     (if is_stacked reg then emit_str_i ARM_FP src (scast reg)
      else if reg \<noteq> src then emit_mov_reg src reg else [])"

definition arm_bpf_get_reg64 :: "reg_pair \<Rightarrow> reg_pair \<Rightarrow> reg_pair \<times> code" where
  [jit_defs]: "arm_bpf_get_reg64 reg t =
     (if is_stacked (lw reg) then (t, emit_ldrd_i t ARM_FP (scast (lw reg))) else (reg, []))"

definition emit_a32_mov_reg :: "s8 \<Rightarrow> s8 \<Rightarrow> code" where
  [jit_defs]: "emit_a32_mov_reg src dst =
     (let (rt, c) = arm_bpf_get_reg32 src (hi tmp) in c @ arm_bpf_put_reg32 dst rt)"

definition arm_bpf_put_reg64 :: "reg_pair \<Rightarrow> reg_pair \<Rightarrow> code" where
  [jit_defs]: "arm_bpf_put_reg64 reg src =
     (if is_stacked (lw reg) then emit_strd_i src ARM_FP (scast (lw reg))
      else (if lw reg \<noteq> lw src then emit_a32_mov_reg (lw src) (lw reg) else []) @
           (if hi reg \<noteq> hi src then emit_a32_mov_reg (hi src) (hi reg) else []))"

definition is_ldst_imm :: "s16 \<Rightarrow> u8 \<Rightarrow> bool" where
  [jit_defs]: "is_ldst_imm off sz =
     (let off_max = (if sz = EBPF_SIZE_B \<or> sz = EBPF_SIZE_W then 0xfff
                     else if sz = EBPF_SIZE_H then 0xff
                     else if sz = EBPF_SIZE_DW then 0xfff - 4 else 0)
      in within off off_max)"

subsection \<open>Arithmetic\<close>

definition emit_add_reg :: "s8 \<Rightarrow> s8 \<Rightarrow> bool \<Rightarrow> bool \<Rightarrow> code" where
  [jit_defs]: "emit_add_reg dst src is64 h =
     (if is64 then
        (if h then emit4 (0xeb400000 OR rg src 16 OR rg dst 8 OR rg dst 0)
         else emit4 (0xeb100000 OR rg src 16 OR rg dst 8 OR rg dst 0))
      else emit2 (thumb16_ADD_REG_T2 dst src))"

definition emit_add_imm :: "s8 \<Rightarrow> s8 \<Rightarrow> s32 \<Rightarrow> code" where
  [jit_defs]: "emit_add_imm dst src val =
     (if 0 \<le> sint val \<and> sint val \<le> 255 \<and> dst = src \<and> low_reg dst
      then emit2 (thumb16_ADD_IMM_T2 dst val)
      else if 0 \<le> sint val \<and> sint val \<le> 4095 then emit4 (thumb32_ADD_IMM_T4 dst src val)
      else [])"

definition emit_sub_imm :: "s8 \<Rightarrow> s8 \<Rightarrow> s32 \<Rightarrow> code" where
  [jit_defs]: "emit_sub_imm dst src val =
     (if sint val < 0 \<or> sint val > 4095 then []
      else
        let lows = low_reg dst \<and> sint dst \<ge> 0 \<and> low_reg src \<and> sint src \<ge> 0 in
        if lows \<and> dst = src \<and> sint val \<le> 0xff then emit2 (thumb16_SUB_IMM_T2 dst val)
        else if lows \<and> sint val \<le> 7 then emit2 (thumb16_SUB_IMM_T1 dst src val)
        else emit4 (thumb32_SUBW_IMM_T4 dst src val FLAG_NOS))"

definition emit_sub_reg :: "s8 \<Rightarrow> s8 \<Rightarrow> bool \<Rightarrow> bool \<Rightarrow> code" where
  [jit_defs]: "emit_sub_reg dst src is64 h =
     (if is64 \<and> \<not> h then emit4 (thumb32_SUB_REG_T2 dst dst src 0 SRTYPE_LSL FLAG_S)
      else if is64 \<and> h then emit4 (thumb32_SBCW_T2 dst dst src 0 SRTYPE_LSL FLAG_NOS)
      else if low_reg src \<and> low_reg dst then emit2 (thumb16_SUB_REG_T1 dst dst src)
      else emit4 (thumb32_SUB_REG_T2 dst dst src 0 SRTYPE_LSL FLAG_NOS))"

definition emit_orr_reg :: "s8 \<Rightarrow> s8 \<Rightarrow> code" where
  [jit_defs]: "emit_orr_reg dst src =
     (if low_reg dst \<and> low_reg src then emit2 (thumb16_ORR_REG_T1 dst src)
      else emit4 (thumb32_ORRW_REG_T2 dst dst src 0 SRTYPE_ASL FLAG_NOS))"

definition emit_and_reg :: "s8 \<Rightarrow> s8 \<Rightarrow> code" where
  [jit_defs]: "emit_and_reg dst src =
     (if low_reg dst \<and> low_reg src then emit2 (thumb16_AND_REG_T1 dst src)
      else emit4 (thumb32_AND_REG_T2 dst dst src 0 SRTYPE_ASL FLAG_NOS))"

definition emit_cmp_reg :: "s8 \<Rightarrow> s8 \<Rightarrow> code" where
  [jit_defs]: "emit_cmp_reg Rn Rm =
     (if low_reg Rn \<and> low_reg Rm then emit2 (thumb16_CMP_REG_T1 Rn Rm)
      else emit2 (thumb16_CMP_REG_T2 Rn Rm))"

text \<open>The 16-bit two-register forms written out in \<open>emit_alu32_reg\<close>.\<close>

definition alu16 :: "u32 \<Rightarrow> s8 \<Rightarrow> s8 \<Rightarrow> code" where
  [jit_defs]: "alu16 opc rn rd = emit2 (ucast (opc OR rg rn 3 OR rg rd 0))"

definition emit_alu32_reg :: "s8 \<Rightarrow> s8 \<Rightarrow> bool \<Rightarrow> bool \<Rightarrow> u8 \<Rightarrow> code" where
  [jit_defs]: "emit_alu32_reg dst src is64 h op =
     (let (rn, c1) = arm_bpf_get_reg32 src (lw tmp);
          (rd, c2) = arm_bpf_get_reg32 dst (hi tmp);
          low = pos_low rn \<and> pos_low rd;
          body =
            (if op = EBPF_ALU_ADD then emit_add_reg rd rn is64 h
             else if op = EBPF_ALU_SUB then emit_sub_reg rd rn is64 h
             else if op = EBPF_ALU_OR then emit_orr_reg rd rn
             else if op = EBPF_ALU_AND then emit_and_reg rd rn
             else if op = EBPF_ALU_XOR then
               (if low then alu16 0x4040 rn rd
                else emit4 (thumb32_EOR_REG_T2 rd rn rd 0 SRTYPE_ROR FLAG_NOS))
             else if op = EBPF_ALU_MUL then
               (if low then alu16 0x4340 rn rd else emit4 (thumb32_MUL_REG_T2 rd rn rd))
             else if op = EBPF_ALU_LSH then
               (if low then alu16 0x4080 rn rd else emit4 (thumb32_LSLW_REG_T2 rd rd rn FLAG_NOS))
             else if op = EBPF_ALU_RSH then
               (if low then alu16 0x40c0 rn rd else emit4 (thumb32_LSRW_REG_T2 rd rd rn FLAG_NOS))
             else if op = EBPF_ALU_ARSH then
               (if low then alu16 0x4100 rn rd else emit4 (thumb32_ASRW_REG_T2 rd rd rn FLAG_NOS))
             else [])
      in c1 @ c2 @ body @ arm_bpf_put_reg32 dst rd)"

definition emit_alu64_reg :: "bool \<Rightarrow> reg_pair \<Rightarrow> reg_pair \<Rightarrow> u8 \<Rightarrow> code" where
  [jit_defs]: "emit_alu64_reg is64 dst src op =
     (let (rd, c1) = arm_bpf_get_reg64 dst tmp;
          c2 = (if is64 then
                  let (rs, c) = arm_bpf_get_reg64 src tmp2
                  in c @ emit_alu32_reg (lw rd) (lw rs) True False op
                       @ emit_alu32_reg (hi rd) (hi rs) True True op
                else
                  let (rs, c) = arm_bpf_get_reg32 (lw src) (lw tmp2)
                  in c @ emit_alu32_reg (lw rd) rs True False op)
      in c1 @ c2 @ arm_bpf_put_reg64 dst rd)"

text \<open>A 16-bit form with an immediate in bits 6 and up; the immediate is not masked.\<close>

definition alu16_imm :: "u32 \<Rightarrow> u16 \<Rightarrow> s8 \<Rightarrow> s8 \<Rightarrow> code" where
  [jit_defs]: "alu16_imm opc val rn rd =
     emit2 (ucast (opc OR push_bit 6 (ucast val) OR rg rn 3 OR rg rd 0))"

definition emit_alu32_imm :: "s8 \<Rightarrow> u16 \<Rightarrow> u8 \<Rightarrow> code" where
  [jit_defs]: "emit_alu32_imm dst val op =
     (let (rd, c) = arm_bpf_get_reg32 dst (hi tmp);
          body = (if op = EBPF_ALU_LSH then alu16_imm 0x0000 val rd rd
                  else if op = EBPF_ALU_RSH then alu16_imm 0x0800 val rd rd
                  else if op = EBPF_ALU_ARSH then alu16_imm 0x1000 val rd rd
                  else if op = EBPF_ALU_NEG then alu16 0x4240 rd rd
                  else [])
      in c @ body @ arm_bpf_put_reg32 dst rd)"

definition emit_u32_div_mod :: "reg_pair \<Rightarrow> reg_pair \<Rightarrow> u8 \<Rightarrow> u16 \<Rightarrow> code" where
  [jit_defs]: "emit_u32_div_mod dst src cd imm =
     (let (rd_lo, c1) = arm_bpf_get_reg32 (lw dst) (lw tmp2);
          (rt, c2) = (if BPF_SRC cd = EBPF_SRC_REG then arm_bpf_get_reg32 (lw src) (hi tmp2)
                      else (hi tmp2, emit_mov_imm (hi tmp2) (ucast imm)));
          body = (if BPF_OP cd = EBPF_ALU_DIV
                  then emit4 (0xfbb0f0f0 OR rg rd_lo 16 OR rg rd_lo 8 OR rg rt 0)
                  else emit4 (0xfbb0f0f0 OR rg rd_lo 16 OR rg ARM_IP 8 OR rg rt 0) @
                       emit4 (0xfb000010 OR rg rd_lo 16 OR rg ARM_IP 12 OR rg rd_lo 8 OR rg rt 0))
      in c1 @ c2 @ body @ arm_bpf_put_reg32 (lw dst) rd_lo)"

end
