(* ===== verification/Jit_Emit64.thy ===== *)
theory Jit_Emit64
  imports Jit_Emit
begin

text \<open>
  The emitters for comparisons and branches, for 64-bit shifts, negation and multiplication,
  for loads and stores through a register, and for 64-bit moves
  (\<open>libebpf/src/jit_thumb2.c\<close>, from \<open>_emit_cmp_cond\<close> to \<open>emit_mov_se_imm64\<close>).
\<close>

subsection \<open>Comparisons and branches\<close>

definition use_b4 :: "nat \<Rightarrow> bool" where
  [jit_defs]: "use_b4 inst_num \<longleftrightarrow> inst_num > 20"

text \<open>An offset outside the range of the last form emits nothing.\<close>

definition emit_b_cond :: "nat \<Rightarrow> s32 \<Rightarrow> u8 \<Rightarrow> code" where
  [jit_defs]: "emit_b_cond inst_num off cond =
     (if \<not> use_b4 inst_num \<and> sint off \<ge> - 256 \<and> sint off \<le> 254 then emit2 (thumb16_B_T1 off cond)
      else if sint off > - 1048576 \<and> sint off < 1048574 then emit4 (thumb32_BW_T3 off cond)
      else [])"

definition emit_b :: "s32 \<Rightarrow> code" where
  [jit_defs]: "emit_b off =
     (if sint off > - 2048 \<and> sint off < 2046 then emit2 (thumb16_B_T2 off)
      else if sint off > - 16777216 \<and> sint off < 16777214 then emit4 (thumb32_BW_T4 off)
      else [])"

definition emit_cmp_cond :: "s8 \<Rightarrow> s8 \<Rightarrow> s8 \<Rightarrow> s8 \<Rightarrow> u8 \<Rightarrow> bool \<Rightarrow> code" where
  [jit_defs]: "emit_cmp_cond rd rt rm rn op is_jmp64 =
     (if op = EBPF_JSET then
        (if is_jmp64 then
           emit4 (thumb32_ADDW_REG_T3 ARM_IP rt rn 0 SRTYPE_LSL FLAG_NOS) @
           emit4 (thumb32_ADDW_REG_T3 ARM_LR rd rm 0 SRTYPE_LSL FLAG_NOS) @
           emit4 (thumb32_ORRW_REG_T2 ARM_IP ARM_LR ARM_IP 0 SRTYPE_LSL FLAG_S)
         else emit4 (thumb32_ADDW_REG_T3 ARM_IP rt rn 0 SRTYPE_LSL FLAG_S))
      else if op \<in> {EBPF_JEQ, EBPF_JNE, EBPF_JGT, EBPF_JGE, EBPF_JLE, EBPF_JLT} then
        (if is_jmp64 then emit_cmp_reg rd rm @ emit_cmp_reg rt rn else emit_cmp_reg rt rn)
      else if op \<in> {EBPF_JSLE, EBPF_JSGT} then
        emit_cmp_reg rn rt @
        (if is_jmp64 then emit4 (thumb32_SBCW_T2 ARM_IP rm rd 0 SRTYPE_LSL FLAG_S) else [])
      else if op \<in> {EBPF_JSLT, EBPF_JSGE} then
        emit_cmp_reg rt rn @
        (if is_jmp64 then emit4 (thumb32_SBCW_T2 ARM_IP rd rm 0 SRTYPE_LSL FLAG_S) else [])
      else [])"

text \<open>The parameter \<open>op\<close> is an \<open>s8\<close> here: the switch compares its sign-extended value with the
  constants, which are non-negative \<open>int\<close>s.\<close>

definition emit_jump :: "nat \<Rightarrow> s32 \<Rightarrow> s8 \<Rightarrow> code" where
  [jit_defs]: "emit_jump inst_num jmp_off op =
     (let k = sint op; b = emit_b_cond inst_num jmp_off in
      if k = uint EBPF_JNE \<or> k = uint EBPF_JSET then b COND_NE
      else if k = uint EBPF_JEQ then b COND_EQ
      else if k = uint EBPF_JGT then b COND_HI
      else if k = uint EBPF_JGE then b COND_CS
      else if k = uint EBPF_JSGT then b COND_LT
      else if k = uint EBPF_JSGE then b COND_GE
      else if k = uint EBPF_JLE then b COND_LS
      else if k = uint EBPF_JLT then b COND_CC
      else if k = uint EBPF_JSLT then b COND_LT
      else if k = uint EBPF_JSLE then b COND_GE
      else [])"

subsection \<open>64-bit shifts\<close>

definition emit_lsh64_reg :: "reg_pair \<Rightarrow> reg_pair \<Rightarrow> code" where
  [jit_defs]: "emit_lsh64_reg dst src =
     (let (rt, c1) = arm_bpf_get_reg32 (lw src) (lw tmp2);
          (rd, c2) = arm_bpf_get_reg64 dst tmp
      in c1 @ c2 @
         emit4 (0xf1a00000 OR rg rt 16 OR rg ARM_IP 8 OR 32) @
         emit4 (THUMB2_LSLW_REG_T2 OR rg (hi rd) 16 OR rg (hi tmp2) 8 OR rg rt 0) @
         emit4 (THUMB2_LSLW_REG_T2 OR rg (lw rd) 16 OR rg ARM_IP 8 OR rg ARM_IP 0) @
         emit4 (THUMB2_ORRW_REG OR rg (hi tmp2) 16 OR rg ARM_IP 8 OR rg ARM_IP 0) @
         emit4 (0xf1c00000 OR rg rt 16 OR rg (hi tmp2) 8 OR 32) @
         emit4 (THUMB2_LSLW_REG_T2 OR rg (lw rd) 16 OR rg (hi tmp2) 8 OR rg (hi tmp2) 0) @
         emit4 (THUMB2_ORRW_REG OR rg (hi tmp2) 16 OR rg ARM_IP 8 OR rg ARM_IP 0) @
         emit4 (THUMB2_LSLW_REG_T2 OR rg (lw rd) 16 OR rg (hi tmp2) 8 OR rg rt 0) @
         arm_bpf_put_reg32 (lw dst) (hi tmp2) @
         arm_bpf_put_reg32 (hi dst) ARM_IP)"

definition emit_lsh64_imm :: "reg_pair \<Rightarrow> u16 \<Rightarrow> code" where
  [jit_defs]: "emit_lsh64_imm dst val =
     (let (rd, c1) = arm_bpf_get_reg64 dst tmp;
          v = ucast val :: u32;
          c2 = (if val < 32 then
                  emit4 (0xea5f0000 OR push_bit 12 (drop_bit 2 (v AND 28)) OR rg (hi tmp2) 8
                    OR push_bit 4 (v AND 3) OR rg (hi rd) 0) @
                  emit4 (0xea500010 OR rg (hi tmp2) 16
                    OR push_bit 12 (drop_bit 2 ((32 - v) AND 28)) OR rg (hi rd) 8
                    OR push_bit 6 ((32 - v) AND 3) OR rg (lw rd) 0) @
                  alu16_imm 0x0000 val (lw rd) (lw rd)
                else
                  (if val = 32 then emit_mov_reg (lw rd) (hi rd)
                   else alu16_imm 0x0000 (val - 32) (lw rd) (hi rd)) @
                  alu16 0x4040 (lw rd) (lw rd))
      in c1 @ c2 @ arm_bpf_put_reg64 dst rd)"

definition emit_a32_rsh_r64 :: "reg_pair \<Rightarrow> reg_pair \<Rightarrow> code" where
  [jit_defs]: "emit_a32_rsh_r64 dst src =
     (let (rt, c1) = arm_bpf_get_reg32 (lw src) (lw tmp2);
          (rd, c2) = arm_bpf_get_reg64 dst tmp
      in c1 @ c2 @
         emit4 (thumb32_RSBW_IMM_T2 ARM_IP rt 32 FLAG_S) @
         emit4 (thumb32_SUBW_IMM_T4 (hi tmp2) rt 32 FLAG_S) @
         emit4 (thumb32_LSRW_REG_T2 ARM_LR (lw rd) rt FLAG_S) @
         emit4 (thumb32_LSLW_REG_T2 (hi rd) (hi rd) ARM_IP FLAG_S) @
         emit4 (thumb32_ORRW_REG_T2 ARM_LR ARM_LR (hi rd) 0 SRTYPE_LSL FLAG_S) @
         emit4 (thumb32_LSRW_REG_T2 (hi rd) (hi rd) (hi tmp2) FLAG_S) @
         emit4 (thumb32_ORRW_REG_T2 ARM_LR ARM_LR (hi rd) 0 SRTYPE_LSL FLAG_S) @
         emit4 (thumb32_LSRW_REG_T2 ARM_IP (hi rd) rt FLAG_S) @
         arm_bpf_put_reg32 (lw dst) ARM_LR @
         arm_bpf_put_reg32 (hi dst) ARM_IP)"

definition emit_a32_rsh_i64 :: "reg_pair \<Rightarrow> u16 \<Rightarrow> code" where
  [jit_defs]: "emit_a32_rsh_i64 dst val =
     (let (rd, c1) = arm_bpf_get_reg64 dst tmp;
          v = ucast val :: s32;
          c2 = (if val = 0 then []
                else if val < 32 then
                  emit4 (thumb32_LSRW_IMM_T2 (lw tmp2) (lw rd) v FLAG_NOS) @
                  emit4 (thumb32_ORRW_REG_T2 (lw rd) (lw tmp2) (hi rd) (32 - v) SRTYPE_LSL FLAG_NOS) @
                  emit4 (thumb32_LSRW_IMM_T2 (hi rd) (hi rd) v FLAG_NOS)
                else if val = 32 then
                  emit_mov_reg (hi rd) (lw rd) @ emit_mov_imm (hi rd) 0
                else
                  emit4 (thumb32_LSRW_IMM_T2 (lw rd) (hi rd) (v - 32) FLAG_NOS) @
                  emit_mov_imm (hi rd) 0)
      in c1 @ c2 @ arm_bpf_put_reg64 dst rd)"

definition emit_a32_arsh_r64 :: "reg_pair \<Rightarrow> reg_pair \<Rightarrow> code" where
  [jit_defs]: "emit_a32_arsh_r64 dst src =
     (let (rt, c1) = arm_bpf_get_reg32 (lw src) (lw tmp2);
          (rd, c2) = arm_bpf_get_reg64 dst tmp
      in c1 @ c2 @
         emit4 (thumb32_RSBW_IMM_T2 ARM_IP rt 32 FLAG_S) @
         emit4 (thumb32_SUBW_IMM_T4 (hi tmp2) rt 32 FLAG_S) @
         emit4 (thumb32_LSRW_REG_T2 ARM_LR (lw rd) rt FLAG_S) @
         emit4 (thumb32_LSLW_REG_T2 (hi rd) (hi rd) (hi tmp2) FLAG_NOS) @
         emit4 (thumb32_ORRW_REG_T2 ARM_LR ARM_LR (hi rd) 0 SRTYPE_LSL FLAG_S) @
         emit4 (thumb32_ASRW_REG_T2 (hi rd) (hi rd) (hi tmp2) FLAG_NOS) @
         emit2 (thumb16_IT_T1 COND_PL IT_MASK_NONE) @
         emit4 (thumb32_ORRW_REG_T2 ARM_LR ARM_LR (hi rd) 0 SRTYPE_LSL FLAG_S) @
         emit4 (thumb32_ASRW_REG_T2 ARM_IP (hi rd) rt FLAG_S) @
         arm_bpf_put_reg32 (lw dst) ARM_LR @
         arm_bpf_put_reg32 (hi dst) ARM_IP)"

definition emit_a32_arsh_i64 :: "reg_pair \<Rightarrow> u32 \<Rightarrow> code" where
  [jit_defs]: "emit_a32_arsh_i64 dst val =
     (let (rd, c1) = arm_bpf_get_reg64 dst tmp;
          c2 = (if val = 0 then []
                else if val < 32 then
                  emit4 (thumb32_LSRW_IMM_T2 (lw tmp2) (lw rd) val FLAG_S) @
                  emit4 (thumb32_ORRW_REG_T2 (lw rd) (lw tmp2) (hi rd) (32 - val) SRTYPE_LSL FLAG_S) @
                  emit4 (thumb32_ASRW_IMM_T2 (hi rd) (hi rd) val FLAG_S)
                else if val = 32 then
                  emit_mov_reg (hi rd) (lw rd) @
                  emit4 (thumb32_ASRW_IMM_T2 (hi rd) (hi rd) 31 FLAG_S)
                else
                  emit4 (thumb32_ASRW_IMM_T2 (lw rd) (hi rd) (val - 32) FLAG_S) @
                  emit4 (thumb32_ASRW_IMM_T2 (hi rd) (hi rd) 31 FLAG_S))
      in c1 @ c2 @ arm_bpf_put_reg64 dst rd)"

subsection \<open>64-bit negation and multiplication\<close>

definition emit_a32_neg64 :: "reg_pair \<Rightarrow> code" where
  [jit_defs]: "emit_a32_neg64 dst =
     (let (rd, c1) = arm_bpf_get_reg64 dst tmp
      in c1 @ emit4 (thumb32_RSBW_IMM_T2 (lw rd) (lw rd) 0 FLAG_S) @
              emit4 (thumb32_RSBW_IMM_T2 (hi rd) (hi rd) 0 FLAG_S) @
         arm_bpf_put_reg64 dst rd)"

definition emit_a32_mul_r64 :: "reg_pair \<Rightarrow> reg_pair \<Rightarrow> code" where
  [jit_defs]: "emit_a32_mul_r64 dst src =
     (let (rd, c1) = arm_bpf_get_reg64 dst tmp;
          (rt, c2) = arm_bpf_get_reg64 src tmp2
      in c1 @ c2 @
         emit4 (thumb32_MUL_T2 ARM_IP (lw rd) (hi rt)) @
         emit4 (thumb32_MUL_T2 ARM_LR (hi rd) (lw rt)) @
         emit2 (thumb16_ADD_REG_T2 ARM_LR ARM_IP) @
         emit4 (thumb32_UMULL_T2 ARM_IP (hi rd) (lw rd) (lw rt)) @
         emit2 (thumb16_ADD_REG_T2 (hi rd) ARM_LR) @
         arm_bpf_put_reg32 (lw dst) ARM_IP @
         arm_bpf_put_reg32 (hi dst) (hi rd))"

subsection \<open>Loads and stores\<close>

text \<open>With a displacement that does not fit the address is computed into \<open>tmp[0]\<close>.\<close>

definition emit_ldx_reg :: "reg_pair \<Rightarrow> s8 \<Rightarrow> s16 \<Rightarrow> u8 \<Rightarrow> code" where
  [jit_defs]: "emit_ldx_reg dst src off sz =
     (let rd = (if is_stacked (lw dst) then tmp else dst);
          (c1, rm, off') =
            (if \<not> is_ldst_imm off sz then
               (emit_mov_imm (hi tmp) (scast off) @ emit_add_reg (hi tmp) src False False, hi tmp, 0)
             else if lw rd = src then (emit_a32_mov_reg src (hi tmp), hi tmp, off)
             else ([], src, off));
          c2 = (if sz = EBPF_SIZE_B then emit_ldrb_i (lw rd) rm off'
                else if sz = EBPF_SIZE_H then emit_ldrh_i (lw rd) rm off'
                else if sz = EBPF_SIZE_W then emit_ldr_i (lw rd) rm off'
                else if sz = EBPF_SIZE_DW then
                  emit_ldr_i (lw rd) rm off' @ emit_ldr_i (hi rd) rm (off' + 4)
                else [])
      in c1 @ c2 @ arm_bpf_put_reg64 dst rd)"

text \<open>The store encoders take the base register first: here they get the \<^emph>\<open>value\<close> register
  \<open>src\<close> as their base and the address register \<open>rd\<close> as the value, as the source passes them.\<close>

definition emit_str_reg :: "s8 \<Rightarrow> reg_pair \<Rightarrow> s16 \<Rightarrow> u8 \<Rightarrow> code" where
  [jit_defs]: "emit_str_reg dst src off sz =
     (let (rd0, c0) = arm_bpf_get_reg32 dst (lw tmp);
          (c1, rd, off') =
            (if \<not> is_ldst_imm off sz then
               (emit_mov_imm (hi tmp) (scast off) @ emit_add_reg (hi tmp) rd0 False False, hi tmp, 0)
             else ([], rd0, off));
          c2 = (if sz = EBPF_SIZE_B then emit4 (thumb32_STRB_IMM_T3 (lw src) rd off')
                else if sz = EBPF_SIZE_H then emit4 (thumb32_STRH_IMM_T3 (lw src) rd off')
                else if sz = EBPF_SIZE_W then emit_str_i (lw src) rd off'
                else if sz = EBPF_SIZE_DW then
                  emit_str_i (lw src) rd off' @ emit_str_i (hi src) rd (off' + 4)
                else [])
      in c0 @ c1 @ c2)"

subsection \<open>64-bit moves and pushes\<close>

definition emit_mov_reg64 :: "bool \<Rightarrow> reg_pair \<Rightarrow> reg_pair \<Rightarrow> code" where
  [jit_defs]: "emit_mov_reg64 is64 dst src =
     (if \<not> is64 then emit_a32_mov_reg (lw src) (lw dst)
      else if is_stacked (lw src) \<and> is_stacked (lw dst) then
        emit_ldrd_i tmp ARM_FP (scast (lw src)) @ emit_strd_i tmp ARM_FP (scast (lw dst))
      else if is_stacked (lw src) then emit_ldrd_i dst ARM_FP (scast (lw src))
      else if is_stacked (lw dst) then emit_strd_i src ARM_FP (scast (lw dst))
      else emit_mov_reg (lw src) (lw dst) @ emit_mov_reg (hi src) (hi dst))"

definition emit_push_r64 :: "reg_pair \<Rightarrow> code" where
  [jit_defs]: "emit_push_r64 src =
     (let (rt, c) = arm_bpf_get_reg64 src tmp2;
          reg_set = (ucast (push_bit (unat (lw rt)) 1 OR push_bit (unat (hi rt)) 1 :: u32) :: u16)
      in c @ (if (hi rt = ARM_LR \<or> low_reg (hi rt)) \<and> (lw rt = ARM_LR \<or> low_reg (lw rt))
              then emit2 (thumb16_PUSH_T1 (ucast reg_set))
              else emit4 (thumb32_PUSHW_T2 (ucast reg_set))))"

definition emit_mov_i64 :: "reg_pair \<Rightarrow> u64 \<Rightarrow> code" where
  [jit_defs]: "emit_mov_i64 dst val =
     (let rd = (if is_stacked (lw dst) then tmp else dst)
      in emit_mov_imm (lw rd) (ucast val) @ emit_mov_imm (hi rd) (ucast (drop_bit 32 val)) @
         arm_bpf_put_reg64 dst rd)"

definition emit_mov_se_imm64 :: "bool \<Rightarrow> reg_pair \<Rightarrow> u32 \<Rightarrow> code" where
  [jit_defs]: "emit_mov_se_imm64 is64 dst val =
     (if is64 then
        emit_mov_i64 dst (if val AND 0x80000000 \<noteq> 0 then ucast val OR 0xffffffff00000000
                          else ucast val)
      else emit_mov_imm (lw dst) val)"

end
