(* ===== verification/Ebpf_Vm.thy ===== *)
theory Ebpf_Vm
  imports Ebpf_Inst
begin

text \<open>
  The interpreter of \<open>libebpf/src/ebpf_vm.c\<close> and the helper environment it calls into.

  \<open>ebpf_vm_exec\<close> is one \<open>while (true)\<close> around a \<open>switch\<close> on the opcode. The switch is
  split into the groups the source comments mark (32-bit ALU, 64-bit ALU, load and store,
  jumps, call and exit); a group function answers \<open>None\<close> for an opcode it does not have,
  and \<open>vm_step\<close> tries the groups in the order of the source. What the C standard leaves
  undefined (a shift by the width or more, a division by zero, an index outside an array,
  a read of unmapped memory) ends the run with \<open>Undef\<close> and the reason.
\<close>

subsection \<open>State\<close>

datatype vm_error =
    RegIndex        \<comment> \<open>\<open>reg[i]\<close> with i outside the array\<close>
  | DivByZero
  | ShiftRange      \<comment> \<open>shift amount not below the operand's width\<close>
  | BadFetch        \<comment> \<open>\<open>insts[pc]\<close> outside the loaded code\<close>
  | BadHelper       \<comment> \<open>\<open>ext_funcs[imm]\<close> outside the table or NULL\<close>
  | MemFault        \<comment> \<open>load or store at an unmapped address\<close>
  | HelperFault     \<comment> \<open>undefined behaviour inside a helper\<close>

text \<open>\<open>Ret\<close> is a \<open>return\<close> with its value. \<open>IterLimit\<close> is the \<open>return 1 << 32\<close> after the
  iteration check: an \<open>int\<close> shifted by its width has no defined value, so the model keeps
  the event and leaves the value to the caller of the model.\<close>

datatype vm_result = Ret u64 | IterLimit | Undef vm_error

text \<open>What a helper may change: the memory, the global \<open>dval\<close> of the map helpers, and the strings printed so far.
  \<open>None\<close> as the result of a helper is undefined behaviour.\<close>

record world =
  w_mem :: memory
  w_dval :: u64
  w_out :: "u8 list list"

type_synonym ext_func = "u64 \<Rightarrow> u64 \<Rightarrow> u64 \<Rightarrow> u64 \<Rightarrow> u64 \<Rightarrow> world \<Rightarrow> (u64 \<times> world) option"

definition MAX_EXT_FUNCS :: nat where "MAX_EXT_FUNCS = 12"

record ebpf_helper_env =
  ext_funcs :: "ext_func option list"
  refcnt :: int

text \<open>\<open>insts_set\<close> and \<open>helper_set\<close> say whether the pointers \<open>insts\<close> and \<open>helper_func\<close> are not
  NULL; every \<open>helper_func\<close> points at the one global environment. The fields of the
  compiled code (\<open>jit_func\<close>, \<open>jmem\<close>) belong to the JIT component.
\<close>

record ebpf_vm =
  insts :: "ebpf_inst list"
  insts_set :: bool
  num_insts :: u16
  bounds_check_enabled :: bool
  helper_set :: bool
  use_jit :: bool

record vm_state =
  v_pc :: u16
  v_reg :: "u64 list"
  v_world :: world

text \<open>The frame of one call: the argument buffer and the address of the local
  \<open>u64 stack[(STACK_SIZE + 7) / 8]\<close>.\<close>

record vm_frame =
  f_mem :: u32
  f_mem_len :: u32
  f_stack :: u32

definition STACK_SIZE :: nat where "STACK_SIZE = 128"
definition MAX_ITERS :: nat where "MAX_ITERS = 0x8000"

subsection \<open>Memory accesses\<close>

fun load_bytes :: "memory \<Rightarrow> u32 \<Rightarrow> nat \<Rightarrow> u8 list option" where
  "load_bytes m a 0 = Some []"
| "load_bytes m a (Suc n) =
     (case m a of None \<Rightarrow> None
      | Some b \<Rightarrow> (case load_bytes m (a + 1) n of None \<Rightarrow> None | Some bs \<Rightarrow> Some (b # bs)))"

fun store_bytes :: "memory \<Rightarrow> u32 \<Rightarrow> u8 list \<Rightarrow> memory option" where
  "store_bytes m a [] = Some m"
| "store_bytes m a (b # bs) =
     (case m a of None \<Rightarrow> None | Some _ \<Rightarrow> store_bytes (m(a \<mapsto> b)) (a + 1) bs)"

text \<open>A little-endian access of \<open>n\<close> bytes, zero-extended to 64 bits.\<close>

fun le_value :: "u8 list \<Rightarrow> u64" where
  "le_value [] = 0"
| "le_value (b # bs) = ucast b OR push_bit 8 (le_value bs)"

definition le_bytes :: "nat \<Rightarrow> u64 \<Rightarrow> u8 list" where
  "le_bytes n v = map (\<lambda>k. byte_of k v) [0..<n]"

definition mem_load :: "memory \<Rightarrow> u32 \<Rightarrow> nat \<Rightarrow> u64 option" where
  "mem_load m a n = map_option le_value (load_bytes m a n)"

definition mem_store :: "memory \<Rightarrow> u32 \<Rightarrow> nat \<Rightarrow> u64 \<Rightarrow> memory option" where
  "mem_store m a n v = store_bytes m a (le_bytes n v)"

subsection \<open>Bounds check\<close>

text \<open>
  \<open>bounds_check\<close> compares pointers after \<open>(u32*)addr + size\<close>: the C pointer arithmetic scales
  \<open>size\<close>, \<open>mem_len\<close> and \<open>STACK_SIZE\<close> by four. Pointers are 32-bit and wrap.
\<close>

definition bounds_check :: "ebpf_vm \<Rightarrow> vm_frame \<Rightarrow> u32 \<Rightarrow> u32 \<Rightarrow> bool" where
  "bounds_check vm f addr sz =
     (if \<not> bounds_check_enabled vm then True
      else if f_mem f \<noteq> 0 \<and> addr \<ge> f_mem f \<and>
              addr + 4 * sz \<le> f_mem f + 4 * f_mem_len f then True
      else if addr \<ge> f_stack f \<and>
              addr + 4 * sz \<le> f_stack f + 4 * of_nat STACK_SIZE then True
      else False)"

definition iters_check :: "nat \<Rightarrow> bool" where
  "iters_check tick = (if tick > MAX_ITERS then False else True)"

subsection \<open>One instruction\<close>

text \<open>The effect of one case of the switch: stop with a result, write \<open>DST\<close> and go on, or
  go on with a new state.\<close>

datatype vm_effect = Stop vm_result | SetDst u64 | Go vm_state

definition with_reg :: "vm_state \<Rightarrow> 4 word \<Rightarrow> (u64 \<Rightarrow> vm_effect) \<Rightarrow> vm_effect" where
  [vm_defs]: "with_reg s r k =
     (if unat r < length (v_reg s) then k (v_reg s ! unat r) else Stop (Undef RegIndex))"

definition dst_imm :: "vm_state \<Rightarrow> ebpf_inst \<Rightarrow> (u64 \<Rightarrow> s32 \<Rightarrow> vm_effect) \<Rightarrow> vm_effect" where
  [vm_defs]: "dst_imm s i k = with_reg s (i_dst i) (\<lambda>d. k d (i_imm i))"

definition dst_src :: "vm_state \<Rightarrow> ebpf_inst \<Rightarrow> (u64 \<Rightarrow> u64 \<Rightarrow> vm_effect) \<Rightarrow> vm_effect" where
  [vm_defs]: "dst_src s i k =
     with_reg s (i_dst i) (\<lambda>d. with_reg s (i_src i) (\<lambda>x. k d x))"

abbreviation lo :: "u64 \<Rightarrow> u32" where "lo x \<equiv> ucast x"
abbreviation zx :: "u32 \<Rightarrow> u64" where "zx x \<equiv> ucast x"
abbreviation sx :: "s32 \<Rightarrow> u64" where "sx x \<equiv> scast x"

text \<open>Shifts and divisions whose operands C leaves undefined.\<close>

definition shift32 :: "(nat \<Rightarrow> u32 \<Rightarrow> u32) \<Rightarrow> u32 \<Rightarrow> u32 \<Rightarrow> vm_effect" where
  [vm_defs]: "shift32 f x n =
     (if unat n < 32 then SetDst (zx (f (unat n) x)) else Stop (Undef ShiftRange))"

definition shift64 :: "(nat \<Rightarrow> u64 \<Rightarrow> u64) \<Rightarrow> u64 \<Rightarrow> u64 \<Rightarrow> vm_effect" where
  [vm_defs]: "shift64 f x n =
     (if unat n < 64 then SetDst (f (unat n) x) else Stop (Undef ShiftRange))"

text \<open>\<open>((s32)DST) >> SRC\<close> promotes only the left operand, so the amount is the whole
  64-bit register.\<close>

definition arsh32 :: "u32 \<Rightarrow> u64 \<Rightarrow> vm_effect" where
  [vm_defs]: "arsh32 x n =
     (if unat n < 32 then SetDst (zx (signed_drop_bit (unat n) x)) else Stop (Undef ShiftRange))"

definition div_by :: "'b::zero \<Rightarrow> u64 \<Rightarrow> vm_effect" where
  [vm_defs]: "div_by y q = (if y = 0 then Stop (Undef DivByZero) else SetDst q)"

subsubsection \<open>32-bit ALU\<close>

definition step_alu32 :: "vm_state \<Rightarrow> ebpf_inst \<Rightarrow> vm_effect option" where
  "step_alu32 s i = (let oc = opcode i in
     if oc = EBPF_OP_ADD_IMM then Some (dst_imm s i (\<lambda>d k. SetDst (zx (lo d + k))))
     else if oc = EBPF_OP_ADD_REG then Some (dst_src s i (\<lambda>d x. SetDst (zx (lo d + lo x))))
     else if oc = EBPF_OP_SUB_IMM then Some (dst_imm s i (\<lambda>d k. SetDst (zx (lo d - k))))
     else if oc = EBPF_OP_SUB_REG then Some (dst_src s i (\<lambda>d x. SetDst (zx (lo d - lo x))))
     else if oc = EBPF_OP_MUL_IMM then Some (dst_imm s i (\<lambda>d k. SetDst (zx (lo d * k))))
     else if oc = EBPF_OP_MUL_REG then Some (dst_src s i (\<lambda>d x. SetDst (zx (lo d * lo x))))
     else if oc = EBPF_OP_DIV_IMM then
       Some (dst_imm s i (\<lambda>d k. div_by k (zx (lo d div k))))
     else if oc = EBPF_OP_DIV_REG then
       Some (dst_src s i (\<lambda>d x. if x = 0 then Stop (Ret (- 1))
                               else div_by (lo x) (zx (lo d div lo x))))
     else if oc = EBPF_OP_OR_IMM then Some (dst_imm s i (\<lambda>d k. SetDst (zx (lo d OR k))))
     else if oc = EBPF_OP_OR_REG then Some (dst_src s i (\<lambda>d x. SetDst (zx (lo d OR lo x))))
     else if oc = EBPF_OP_AND_IMM then Some (dst_imm s i (\<lambda>d k. SetDst (zx (lo d AND k))))
     else if oc = EBPF_OP_AND_REG then Some (dst_src s i (\<lambda>d x. SetDst (zx (lo d AND lo x))))
     else if oc = EBPF_OP_LSH_IMM then Some (dst_imm s i (\<lambda>d k. shift32 push_bit (lo d) k))
     else if oc = EBPF_OP_LSH_REG then
       Some (dst_src s i (\<lambda>d x. shift32 push_bit (lo d) (lo x)))
     else if oc = EBPF_OP_RSH_IMM then Some (dst_imm s i (\<lambda>d k. shift32 drop_bit (lo d) k))
     else if oc = EBPF_OP_RSH_REG then
       Some (dst_src s i (\<lambda>d x. shift32 drop_bit (lo d) (lo x)))
     else if oc = EBPF_OP_NEG then Some (dst_imm s i (\<lambda>d k. SetDst (zx (lo (- d)))))
     else if oc = EBPF_OP_MOD_IMM then
       Some (dst_imm s i (\<lambda>d k. div_by k (zx (lo d mod k))))
     else if oc = EBPF_OP_MOD_REG then
       Some (dst_src s i (\<lambda>d x. if x = 0 then Stop (Ret (- 1))
                               else div_by (lo x) (zx (lo d mod lo x))))
     else if oc = EBPF_OP_XOR_IMM then Some (dst_imm s i (\<lambda>d k. SetDst (zx (lo d XOR k))))
     else if oc = EBPF_OP_XOR_REG then Some (dst_src s i (\<lambda>d x. SetDst (zx (lo d XOR lo x))))
     else if oc = EBPF_OP_MOV_IMM then Some (dst_imm s i (\<lambda>d k. SetDst (zx k)))
     else if oc = EBPF_OP_MOV_REG then Some (dst_src s i (\<lambda>d x. SetDst (zx (lo x))))
     else if oc = EBPF_OP_ARSH_IMM then Some (dst_imm s i (\<lambda>d k. arsh32 (lo d) (sx k)))
     else if oc = EBPF_OP_ARSH_REG then Some (dst_src s i (\<lambda>d x. arsh32 (lo d) x))
     else None)"

definition step_endian :: "vm_state \<Rightarrow> ebpf_inst \<Rightarrow> vm_effect option" where
  "step_endian s i = (let oc = opcode i; k = i_imm i in
     if oc = EBPF_OP_LE then
       Some (if k = 16 then with_reg s (i_dst i) (\<lambda>d. SetDst (my_htole16 d))
             else if k = 32 then with_reg s (i_dst i) (\<lambda>d. SetDst (my_htole32 d))
             else if k = 64 then with_reg s (i_dst i) (\<lambda>d. SetDst (my_htole64 d))
             else Go s)
     else if oc = EBPF_OP_BE then
       Some (if k = 16 then with_reg s (i_dst i) (\<lambda>d. SetDst (my_htobe16 d))
             else if k = 32 then with_reg s (i_dst i) (\<lambda>d. SetDst (my_htobe32 d))
             else if k = 64 then with_reg s (i_dst i) (\<lambda>d. SetDst (my_htobe64 d))
             else Go s)
     else None)"

subsubsection \<open>64-bit ALU\<close>

text \<open>An \<open>s32\<close> immediate combined with a \<open>u64\<close> register is sign-extended. The case
  \<open>EBPF_OP_DIV64_REG\<close> tests \<open>SRC\<close> and then divides by \<open>IMM\<close>, as the source does.\<close>

definition step_alu64 :: "vm_state \<Rightarrow> ebpf_inst \<Rightarrow> vm_effect option" where
  "step_alu64 s i = (let oc = opcode i in
     if oc = EBPF_OP_ADD64_IMM then Some (dst_imm s i (\<lambda>d k. SetDst (d + sx k)))
     else if oc = EBPF_OP_ADD64_REG then Some (dst_src s i (\<lambda>d x. SetDst (d + x)))
     else if oc = EBPF_OP_SUB64_IMM then Some (dst_imm s i (\<lambda>d k. SetDst (d - sx k)))
     else if oc = EBPF_OP_SUB64_REG then Some (dst_src s i (\<lambda>d x. SetDst (d - x)))
     else if oc = EBPF_OP_MUL64_IMM then Some (dst_imm s i (\<lambda>d k. SetDst (d * sx k)))
     else if oc = EBPF_OP_MUL64_REG then Some (dst_src s i (\<lambda>d x. SetDst (d * x)))
     else if oc = EBPF_OP_DIV64_IMM then
       Some (dst_imm s i (\<lambda>d k. div_by k (d div sx k)))
     else if oc = EBPF_OP_DIV64_REG then
       Some (dst_src s i (\<lambda>d x. if x = 0 then Stop (Ret (- 1))
                               else div_by (i_imm i) (d div sx (i_imm i))))
     else if oc = EBPF_OP_OR64_IMM then Some (dst_imm s i (\<lambda>d k. SetDst (d OR sx k)))
     else if oc = EBPF_OP_OR64_REG then Some (dst_src s i (\<lambda>d x. SetDst (d OR x)))
     else if oc = EBPF_OP_AND64_IMM then Some (dst_imm s i (\<lambda>d k. SetDst (d AND sx k)))
     else if oc = EBPF_OP_AND64_REG then Some (dst_src s i (\<lambda>d x. SetDst (d AND x)))
     else if oc = EBPF_OP_LSH64_IMM then Some (dst_imm s i (\<lambda>d k. shift64 push_bit d (sx k)))
     else if oc = EBPF_OP_LSH64_REG then Some (dst_src s i (\<lambda>d x. shift64 push_bit d x))
     else if oc = EBPF_OP_RSH64_IMM then Some (dst_imm s i (\<lambda>d k. shift64 drop_bit d (sx k)))
     else if oc = EBPF_OP_RSH64_REG then Some (dst_src s i (\<lambda>d x. shift64 drop_bit d x))
     else if oc = EBPF_OP_NEG64 then Some (with_reg s (i_dst i) (\<lambda>d. SetDst (- d)))
     else if oc = EBPF_OP_MOD64_IMM then
       Some (dst_imm s i (\<lambda>d k. div_by k (d mod sx k)))
     else if oc = EBPF_OP_MOD64_REG then
       Some (dst_src s i (\<lambda>d x. if x = 0 then Stop (Ret (- 1)) else SetDst (d mod x)))
     else if oc = EBPF_OP_XOR64_IMM then Some (dst_imm s i (\<lambda>d k. SetDst (d XOR sx k)))
     else if oc = EBPF_OP_XOR64_REG then Some (dst_src s i (\<lambda>d x. SetDst (d XOR x)))
     else if oc = EBPF_OP_MOV64_IMM then Some (dst_imm s i (\<lambda>d k. SetDst (sx k)))
     else if oc = EBPF_OP_MOV64_REG then Some (dst_src s i (\<lambda>d x. SetDst x))
     else if oc = EBPF_OP_ARSH64_IMM then
       Some (dst_imm s i (\<lambda>d k. shift64 signed_drop_bit d (sx k)))
     else if oc = EBPF_OP_ARSH64_REG then
       Some (dst_src s i (\<lambda>d x. shift64 signed_drop_bit d x))
     else None)"

subsubsection \<open>Loads and stores\<close>

text \<open>The address expression \<open>(uintptr)(r + inst->offset)\<close>: a 64-bit sum with the
  sign-extended offset, cut to the 32-bit pointer.\<close>

definition ea :: "u64 \<Rightarrow> s16 \<Rightarrow> u32" where
  [vm_defs]: "ea r off = ucast (r + scast off)"

text \<open>\<open>DST = *(T*)(SRC + offset)\<close>, with or without the preceding check.\<close>

definition do_load :: "vm_state \<Rightarrow> ebpf_inst \<Rightarrow> nat \<Rightarrow> vm_effect" where
  [vm_defs]: "do_load s i n =
     with_reg s (i_dst i) (\<lambda>_. with_reg s (i_src i) (\<lambda>x.
       case mem_load (w_mem (v_world s)) (ea x (i_off i)) n of
         None \<Rightarrow> Stop (Undef MemFault) | Some v \<Rightarrow> SetDst v))"

definition do_store :: "vm_state \<Rightarrow> ebpf_inst \<Rightarrow> nat \<Rightarrow> u64 \<Rightarrow> vm_effect" where
  [vm_defs]: "do_store s i n v =
     with_reg s (i_dst i) (\<lambda>d.
       case mem_store (w_mem (v_world s)) (ea d (i_off i)) n v of
         None \<Rightarrow> Stop (Undef MemFault)
       | Some m \<Rightarrow> Go (s\<lparr>v_world := (v_world s)\<lparr>w_mem := m\<rparr>\<rparr>))"

text \<open>\<open>BOUNDS_CHECK_LOAD\<close> and \<open>BOUNDS_CHECK_STORE\<close> have the same body: both test the address
  in the \<^emph>\<open>source\<close> register and return \<open>-1\<close> when it is refused.\<close>

definition BOUNDS_CHECK :: "ebpf_vm \<Rightarrow> vm_frame \<Rightarrow> vm_state \<Rightarrow> ebpf_inst \<Rightarrow> nat \<Rightarrow> vm_effect \<Rightarrow> vm_effect" where
  [vm_defs]: "BOUNDS_CHECK vm f s i n k =
     with_reg s (i_src i) (\<lambda>x.
       if \<not> bounds_check vm f (ea x (i_off i)) (of_nat n) then Stop (Ret (- 1)) else k)"

definition step_mem :: "ebpf_vm \<Rightarrow> vm_frame \<Rightarrow> vm_state \<Rightarrow> ebpf_inst \<Rightarrow> vm_effect option" where
  "step_mem vm f s i = (let oc = opcode i; imm = sx (i_imm i) in
     if oc = EBPF_OP_LDXDW then Some (BOUNDS_CHECK vm f s i 8 (do_load s i 8))
     else if oc = EBPF_OP_LDXW then Some (do_load s i 4)
     else if oc = EBPF_OP_LDXH then Some (BOUNDS_CHECK vm f s i 2 (do_load s i 2))
     else if oc = EBPF_OP_LDXB then Some (BOUNDS_CHECK vm f s i 1 (do_load s i 1))
     else if oc = EBPF_OP_STDW then Some (BOUNDS_CHECK vm f s i 8 (do_store s i 8 imm))
     else if oc = EBPF_OP_STW then Some (BOUNDS_CHECK vm f s i 4 (do_store s i 4 imm))
     else if oc = EBPF_OP_STH then Some (BOUNDS_CHECK vm f s i 2 (do_store s i 2 imm))
     else if oc = EBPF_OP_STB then Some (BOUNDS_CHECK vm f s i 1 (do_store s i 1 imm))
     else if oc = EBPF_OP_STXDW then
       Some (BOUNDS_CHECK vm f s i 8 (with_reg s (i_src i) (\<lambda>x. do_store s i 8 x)))
     else if oc = EBPF_OP_STXW then
       Some (BOUNDS_CHECK vm f s i 4 (with_reg s (i_src i) (\<lambda>x. do_store s i 4 x)))
     else if oc = EBPF_OP_STXH then
       Some (BOUNDS_CHECK vm f s i 2 (with_reg s (i_src i) (\<lambda>x. do_store s i 2 x)))
     else if oc = EBPF_OP_STXB then
       Some (BOUNDS_CHECK vm f s i 1 (with_reg s (i_src i) (\<lambda>x. do_store s i 1 x)))
     else None)"

text \<open>\<open>insts[i]\<close> outside the code the VM was given is an out-of-range read.\<close>

definition fetch :: "ebpf_vm \<Rightarrow> u16 \<Rightarrow> ebpf_inst option" where
  [vm_defs]: "fetch vm p = (if unat p < length (insts vm) then Some (insts vm ! unat p) else None)"

definition step_lddw :: "ebpf_vm \<Rightarrow> vm_state \<Rightarrow> ebpf_inst \<Rightarrow> vm_effect option" where
  "step_lddw vm s i =
     (if opcode i = EBPF_OP_LDDW then
        Some (case fetch vm (v_pc s) of
            None \<Rightarrow> Stop (Undef BadFetch)
          | Some j \<Rightarrow>
              if unat (i_dst i) < length (v_reg s) then
                Go (s\<lparr>v_pc := v_pc s + 1,
                     v_reg := (v_reg s)[unat (i_dst i) :=
                        zx (i_imm i) OR push_bit 32 (zx (i_imm j))]\<rparr>)
              else Stop (Undef RegIndex))
      else None)"

subsubsection \<open>Jumps\<close>

definition jump_if :: "vm_state \<Rightarrow> ebpf_inst \<Rightarrow> bool \<Rightarrow> vm_effect" where
  [vm_defs]: "jump_if s i b = Go (if b then s\<lparr>v_pc := v_pc s + i_off i\<rparr> else s)"

definition step_jmp :: "vm_state \<Rightarrow> ebpf_inst \<Rightarrow> vm_effect option" where
  "step_jmp s i = (let oc = opcode i in
     if oc = EBPF_OP_JA then Some (jump_if s i True)
     else if oc = EBPF_OP_JEQ_REG then Some (dst_src s i (\<lambda>d x. jump_if s i (d = x)))
     else if oc = EBPF_OP_JEQ_IMM then Some (dst_imm s i (\<lambda>d k. jump_if s i (d = sx k)))
     else if oc = EBPF_OP_JGT_IMM then Some (dst_imm s i (\<lambda>d k. jump_if s i (d > zx k)))
     else if oc = EBPF_OP_JGT_REG then Some (dst_src s i (\<lambda>d x. jump_if s i (d > x)))
     else if oc = EBPF_OP_JGE_IMM then Some (dst_imm s i (\<lambda>d k. jump_if s i (d \<ge> zx k)))
     else if oc = EBPF_OP_JGE_REG then Some (dst_src s i (\<lambda>d x. jump_if s i (d \<ge> x)))
     else if oc = EBPF_OP_JLT_IMM then Some (dst_imm s i (\<lambda>d k. jump_if s i (d < zx k)))
     else if oc = EBPF_OP_JLT_REG then Some (dst_src s i (\<lambda>d x. jump_if s i (d < x)))
     else if oc = EBPF_OP_JLE_IMM then Some (dst_imm s i (\<lambda>d k. jump_if s i (d \<le> zx k)))
     else if oc = EBPF_OP_JLE_REG then Some (dst_src s i (\<lambda>d x. jump_if s i (d \<le> x)))
     else if oc = EBPF_OP_JSET_IMM then
       Some (dst_imm s i (\<lambda>d k. jump_if s i (d AND sx k \<noteq> 0)))
     else if oc = EBPF_OP_JSET_REG then Some (dst_src s i (\<lambda>d x. jump_if s i (d AND x \<noteq> 0)))
     else if oc = EBPF_OP_JNE_IMM then Some (dst_imm s i (\<lambda>d k. jump_if s i (d \<noteq> sx k)))
     else if oc = EBPF_OP_JNE_REG then Some (dst_src s i (\<lambda>d x. jump_if s i (d \<noteq> x)))
     else if oc = EBPF_OP_JSGT_IMM then
       Some (dst_imm s i (\<lambda>d k. jump_if s i (sint d > sint k)))
     else if oc = EBPF_OP_JSGT_REG then
       Some (dst_src s i (\<lambda>d x. jump_if s i (sint d > sint x)))
     else if oc = EBPF_OP_JSGE_IMM then
       Some (dst_imm s i (\<lambda>d k. jump_if s i (sint d \<ge> sint k)))
     else if oc = EBPF_OP_JSGE_REG then
       Some (dst_src s i (\<lambda>d x. jump_if s i (sint d \<ge> sint x)))
     else if oc = EBPF_OP_JSLT_IMM then
       Some (dst_imm s i (\<lambda>d k. jump_if s i (sint d < sint k)))
     else if oc = EBPF_OP_JSLT_REG then
       Some (dst_src s i (\<lambda>d x. jump_if s i (sint d < sint x)))
     else if oc = EBPF_OP_JSLE_IMM then
       Some (dst_imm s i (\<lambda>d k. jump_if s i (sint d \<le> sint k)))
     else if oc = EBPF_OP_JSLE_REG then
       Some (dst_src s i (\<lambda>d x. jump_if s i (sint d \<le> sint x)))
     else None)"

subsubsection \<open>Call and exit\<close>

text \<open>\<open>ext_funcs[inst->imm]\<close>: the signed immediate indexes the table with no check.\<close>

definition step_call :: "ebpf_helper_env option \<Rightarrow> ebpf_vm \<Rightarrow> vm_state \<Rightarrow> ebpf_inst \<Rightarrow> vm_effect option" where
  "step_call g vm s i = (let oc = opcode i; r = v_reg s; k = sint (i_imm i) in
     if oc = EBPF_OP_CALL then
       Some (case g of
           None \<Rightarrow> Stop (Undef BadHelper)
         | Some e \<Rightarrow>
             if helper_set vm \<and> 0 \<le> k \<and> nat k < length (ext_funcs e) then
               (case ext_funcs e ! nat k of
                  None \<Rightarrow> Stop (Undef BadHelper)
                | Some fn \<Rightarrow>
                    if 5 < length r then
                      (case fn (r ! 1) (r ! 2) (r ! 3) (r ! 4) (r ! 5) (v_world s) of
                         None \<Rightarrow> Stop (Undef HelperFault)
                       | Some (v, w) \<Rightarrow> Go (s\<lparr>v_reg := r[0 := v], v_world := w\<rparr>))
                    else Stop (Undef RegIndex))
             else Stop (Undef BadHelper))
     else if oc = EBPF_OP_EXIT then Some (with_reg s 0 (\<lambda>v. Stop (Ret v)))
     else None)"

subsection \<open>The loop\<close>

text \<open>The switch; an opcode with no case falls through and the loop goes on.\<close>

definition or_else :: "'a option \<Rightarrow> 'a option \<Rightarrow> 'a option" where
  [vm_defs]: "or_else a b = (case a of None \<Rightarrow> b | Some x \<Rightarrow> Some x)"

definition switch :: "ebpf_helper_env option \<Rightarrow> ebpf_vm \<Rightarrow> vm_frame \<Rightarrow> vm_state \<Rightarrow> ebpf_inst \<Rightarrow> vm_effect" where
  "switch g vm f s i =
     (case or_else (step_alu32 s i) (or_else (step_endian s i) (or_else (step_alu64 s i)
             (or_else (step_mem vm f s i) (or_else (step_lddw vm s i) (or_else (step_jmp s i)
               (step_call g vm s i)))))) of
        None \<Rightarrow> Go s | Some e \<Rightarrow> e)"

definition vm_step :: "ebpf_helper_env option \<Rightarrow> ebpf_vm \<Rightarrow> vm_frame \<Rightarrow> vm_state \<Rightarrow> vm_result + vm_state" where
  "vm_step g vm f s =
     (case fetch vm (v_pc s) of
        None \<Rightarrow> Inl (Undef BadFetch)
      | Some i \<Rightarrow>
          let s1 = s\<lparr>v_pc := v_pc s + 1\<rparr> in
          (case switch g vm f s1 i of
             Stop r \<Rightarrow> Inl r
           | SetDst v \<Rightarrow> Inr (s1\<lparr>v_reg := (v_reg s1)[unat (i_dst i) := v]\<rparr>)
           | Go s2 \<Rightarrow> Inr s2))"

function vm_loop :: "ebpf_helper_env option \<Rightarrow> ebpf_vm \<Rightarrow> vm_frame \<Rightarrow> nat \<Rightarrow> vm_state \<Rightarrow> vm_result \<times> vm_state" where
  "vm_loop g vm f tick s =
     (case vm_step g vm f s of
        Inl r \<Rightarrow> (r, s)
      | Inr s' \<Rightarrow> if \<not> iters_check tick then (IterLimit, s')
                 else vm_loop g vm f (tick + 1) s')"
  by pat_completeness auto
termination
  by (relation "measure (\<lambda>(g, vm, f, tick, s). MAX_ITERS + 1 - tick)")
     (auto simp: iters_check_def split: if_splits)

declare vm_loop.simps [simp del]

text \<open>\<open>reg[]\<close> is an uninitialised local of \<open>MAX_BPF_EXT_REG\<close> words: \<open>regs0\<close> is whatever the stack held. The
  entry code writes \<open>reg[1]\<close> and \<open>reg[10]\<close>, which an array of ten words or fewer does not have.\<close>

definition init_state :: "vm_frame \<Rightarrow> u64 list \<Rightarrow> world \<Rightarrow> vm_state" where
  [vm_defs]: "init_state f regs0 w =
     \<lparr>v_pc = 0,
      v_reg = regs0[1 := zx (f_mem f), 10 := zx (f_stack f + of_nat STACK_SIZE)],
      v_world = w\<rparr>"

definition ebpf_vm_exec :: "ebpf_helper_env option \<Rightarrow> ebpf_vm \<Rightarrow> vm_frame \<Rightarrow> u64 list \<Rightarrow> world \<Rightarrow> vm_result \<times> world" where
  "ebpf_vm_exec g vm f regs0 w =
     (if 10 < length regs0 then let (r, s) = vm_loop g vm f 0 (init_state f regs0 w) in (r, v_world s)
      else (Undef RegIndex, w))"

subsection \<open>Life cycle and helper registration\<close>

text \<open>All VMs share one helper environment, the global \<open>g_helper_func\<close>. Registration and the
  life-cycle functions take it and return it.\<close>

definition use_default_helper_func :: "ebpf_helper_env option \<Rightarrow> ebpf_helper_env" where
  "use_default_helper_func g =
     (let e = (case g of None \<Rightarrow> \<lparr>ext_funcs = replicate MAX_EXT_FUNCS None, refcnt = 0\<rparr>
                       | Some e \<Rightarrow> e)
      in e\<lparr>refcnt := refcnt e + 1\<rparr>)"

definition ebpf_register ::
  "ebpf_helper_env option \<Rightarrow> ebpf_vm \<Rightarrow> nat \<Rightarrow> ext_func option \<Rightarrow>
     int \<times> ebpf_helper_env option \<times> ebpf_vm" where
  "ebpf_register g vm idx fn =
     (let (g1, vm1) = (if \<not> helper_set vm
                       then (Some (use_default_helper_func g), vm\<lparr>helper_set := True\<rparr>)
                       else (g, vm))
      in if idx \<ge> MAX_EXT_FUNCS then (- 1, g1, vm1)
         else (0, map_option (\<lambda>e. e\<lparr>ext_funcs := (ext_funcs e)[idx := fn]\<rparr>) g1, vm1))"

text \<open>The string at an address, up to its terminator; the fuel is the size of the address space.\<close>

fun cstr_from :: "nat \<Rightarrow> memory \<Rightarrow> u32 \<Rightarrow> u8 list option" where
  "cstr_from 0 m a = None"
| "cstr_from (Suc n) m a =
     (case m a of
        None \<Rightarrow> None
      | Some c \<Rightarrow> if c = 0 then Some [] else map_option (Cons c) (cstr_from n m (a + 1)))"

definition load_cstr :: "memory \<Rightarrow> u32 \<Rightarrow> u8 list option" where
  "load_cstr m a = cstr_from 4294967296 m a"

text \<open>The helpers of \<open>ebpf_helper_impl.h\<close>. A \<open>void\<close> helper leaves its caller's \<open>r0\<close> undefined:
  \<open>junk\<close> stands for it. \<open>iot_call_C_func_noret\<close> jumps to an address the program supplies;
  what runs there is the parameter \<open>call\<close>. \<open>iot_print_log\<close> passes its string on as the format; what the
  port makes of conversions in it is left out.\<close>

definition iot_print_log :: "u64 \<Rightarrow> ext_func" where
  "iot_print_log junk a0 a1 a2 a3 a4 w =
     map_option (\<lambda>str. (junk, w\<lparr>w_out := w_out w @ [str]\<rparr>)) (load_cstr (w_mem w) (ucast a0))"

definition iot_call_C_func_noret ::
  "u64 \<Rightarrow> (u32 \<Rightarrow> u64 \<Rightarrow> u64 \<Rightarrow> u64 \<Rightarrow> u64 \<Rightarrow> world \<Rightarrow> world) \<Rightarrow> ext_func" where
  "iot_call_C_func_noret junk call a0 a1 a2 a3 a4 w = Some (junk, call (ucast a0) a1 a2 a3 a4 w)"

definition tmp_map_save_val :: "u64 \<Rightarrow> ext_func" where
  "tmp_map_save_val junk mp key val a3 a4 w = Some (junk, w\<lparr>w_dval := val\<rparr>)"

definition tmp_map_get_val :: ext_func where
  "tmp_map_get_val mp key a2 a3 a4 w = Some (w_dval w, w)"

definition set_default_helpers ::
  "u64 \<Rightarrow> (u32 \<Rightarrow> u64 \<Rightarrow> u64 \<Rightarrow> u64 \<Rightarrow> u64 \<Rightarrow> world \<Rightarrow> world) \<Rightarrow>
     ebpf_helper_env option \<Rightarrow> ebpf_vm \<Rightarrow> ebpf_helper_env option \<times> ebpf_vm" where
  "set_default_helpers junk call g vm =
     (let (_, g1, vm1) = ebpf_register g vm 1 (Some (iot_print_log junk));
          (_, g2, vm2) = ebpf_register g1 vm1 2 (Some (iot_call_C_func_noret junk call));
          (_, g3, vm3) = ebpf_register g2 vm2 3 (Some (tmp_map_save_val junk));
          (_, g4, vm4) = ebpf_register g3 vm3 4 (Some tmp_map_get_val)
      in (g4, vm4))"

definition init_iot_ebpf_helpers ::
  "u64 \<Rightarrow> (u32 \<Rightarrow> u64 \<Rightarrow> u64 \<Rightarrow> u64 \<Rightarrow> u64 \<Rightarrow> world \<Rightarrow> world) \<Rightarrow>
     ebpf_helper_env option \<Rightarrow> ebpf_vm \<Rightarrow> ebpf_helper_env option \<times> ebpf_vm" where
  "init_iot_ebpf_helpers junk call g vm =
     set_default_helpers junk call (Some (use_default_helper_func g)) (vm\<lparr>helper_set := True\<rparr>)"

text \<open>\<open>(u16) code_len / sizeof(insts[0])\<close>: the cast binds tighter than the division.\<close>

definition num_insts_of :: "u32 \<Rightarrow> u16" where
  "num_insts_of code_len = (ucast code_len :: u16) div 8"

text \<open>\<open>init_ebpf_vm\<close> fills memory from \<open>malloc\<close>: the fields it does not set keep what the
  block \<open>blk\<close> held; \<open>None\<close> is a failed allocation.\<close>

definition init_ebpf_vm ::
  "u64 \<Rightarrow> (u32 \<Rightarrow> u64 \<Rightarrow> u64 \<Rightarrow> u64 \<Rightarrow> u64 \<Rightarrow> world \<Rightarrow> world) \<Rightarrow>
     ebpf_vm option \<Rightarrow> ebpf_helper_env option \<Rightarrow> u8 list \<Rightarrow> u32 \<Rightarrow>
     ebpf_helper_env option \<times> ebpf_vm option" where
  "init_ebpf_vm junk call blk g code code_len =
     (case blk of
        None \<Rightarrow> (g, None)
      | Some vm \<Rightarrow>
          let (g', vm') = init_iot_ebpf_helpers junk call g
                (vm\<lparr>insts := decode_insts code, insts_set := True,
                    num_insts := num_insts_of code_len\<rparr>)
          in (g', Some vm'))"

definition zero_vm :: ebpf_vm where
  "zero_vm = \<lparr>insts = [], insts_set = False, num_insts = 0, bounds_check_enabled = False,
     helper_set = False, use_jit = False\<rparr>"

definition ebpf_create :: "bool \<Rightarrow> ebpf_vm option" where
  "ebpf_create alloc_ok = (if alloc_ok then Some zero_vm else None)"

definition ebpf_vm_set_inst ::
  "u64 \<Rightarrow> (u32 \<Rightarrow> u64 \<Rightarrow> u64 \<Rightarrow> u64 \<Rightarrow> u64 \<Rightarrow> world \<Rightarrow> world) \<Rightarrow>
     ebpf_helper_env option \<Rightarrow> ebpf_vm \<Rightarrow> u8 list \<Rightarrow> u32 \<Rightarrow> ebpf_helper_env option \<times> ebpf_vm" where
  "ebpf_vm_set_inst junk call g vm code code_len =
     init_iot_ebpf_helpers junk call g
       (zero_vm\<lparr>insts := decode_insts code, insts_set := True,
          num_insts := num_insts_of code_len\<rparr>)"

definition ebpf_vm_load :: "bool \<Rightarrow> ebpf_vm \<Rightarrow> u8 list \<Rightarrow> u32 \<Rightarrow> int \<times> ebpf_vm" where
  "ebpf_vm_load alloc_ok vm code code_len =
     (if insts_set vm then (- 1, vm)
      else if \<not> alloc_ok then (- 1, vm)
      else (0, vm\<lparr>insts := decode_insts code, insts_set := True,
                  num_insts := num_insts_of code_len\<rparr>))"

definition ebpf_vm_destroy :: "ebpf_helper_env option \<Rightarrow> ebpf_helper_env option" where
  "ebpf_vm_destroy g =
     (case g of
        None \<Rightarrow> None
      | Some e \<Rightarrow> if refcnt e - 1 = 0 then None else Some (e\<lparr>refcnt := refcnt e - 1\<rparr>))"

end
