(* ===== verification/Jit.thy ===== *)
theory Jit
  imports Jit_Emit64 Ebpf_Vm
begin

text \<open>
  The just-in-time compiler: buffers and driver (\<open>libebpf/src/jit.c\<close>, \<open>jit.h\<close>) and the
  translation of instructions (\<open>build_inst\<close> to \<open>jit_compile\<close> in \<open>jit_thumb2.c\<close>). The compiler
  runs twice over the program: the pre-pass records in \<open>offsets[i]\<close> where the code of
  instruction \<open>i\<close> ends, the generating pass writes the buffer and takes branch displacements
  from the table.

  The buffer is taken to be word-aligned. \<open>j_fault\<close> is set as soon as the C code would access
  an array outside its bounds; such a read yields 0 and such a write is dropped.
\<close>

subsection \<open>State and memory\<close>

record jit_mem =
  jm_code :: "u8 list option"
  jm_size :: nat
  jm_offsets :: "u32 list option"

record jit_state =
  j_insts :: "ebpf_inst list"
  j_inst_num :: nat
  j_code :: "u8 list"
  j_idx :: nat
  j_epilogue :: nat
  j_err_line :: nat
  j_offsets :: "u32 list"
  j_call_base :: "int \<Rightarrow> u32"
  j_needGen :: bool
  j_fault :: bool

definition jit_mem_allocate :: "nat \<Rightarrow> jit_mem" where
  "jit_mem_allocate insts_num =
     \<lparr>jm_code = Some (replicate 2048 0), jm_size = 2048, jm_offsets = Some (replicate 256 0)\<rparr>"

definition jit_mem_free :: "jit_mem \<Rightarrow> jit_mem" where
  "jit_mem_free m = \<lparr>jm_code = None, jm_size = 0, jm_offsets = None\<rparr>"

definition jit_state_set_mem :: "jit_state \<Rightarrow> jit_mem \<Rightarrow> jit_state" where
  "jit_state_set_mem st m =
     (case (jm_code m, jm_offsets m) of
        (Some c, Some os) \<Rightarrow> st\<lparr>j_code := c, j_offsets := os\<rparr>
      | _ \<Rightarrow> st\<lparr>j_code := [], j_offsets := []\<rparr>)"

definition jit_mem_statistic :: "ebpf_vm \<Rightarrow> nat" where
  "jit_mem_statistic vm = unat (num_insts vm) * 4"

text \<open>\<open>emit_bytes\<close> for one halfword, little-endian; the index advances in both passes.\<close>

definition emit_bytes :: "u16 \<Rightarrow> jit_state \<Rightarrow> jit_state" where
  "emit_bytes x st =
     (let st1 = (if \<not> j_needGen st then st
                 else if j_idx st + 2 \<le> length (j_code st)
                 then st\<lparr>j_code := (j_code st)[j_idx st := byte_of 0 x, j_idx st + 1 := byte_of 1 x]\<rparr>
                 else st\<lparr>j_fault := True\<rparr>)
      in st1\<lparr>j_idx := j_idx st + 2\<rparr>)"

definition emit_code :: "code \<Rightarrow> jit_state \<Rightarrow> jit_state" where
  "emit_code c st = fold emit_bytes c st"

subsection \<open>Displacements\<close>

definition get_offset :: "jit_state \<Rightarrow> int \<Rightarrow> u32" where
  "get_offset st k =
     (if 0 \<le> k \<and> nat k < length (j_offsets st) then j_offsets st ! nat k else 0)"

definition bad_offset :: "jit_state \<Rightarrow> int \<Rightarrow> bool" where
  "bad_offset st k \<longleftrightarrow> j_needGen st \<and> \<not> (0 \<le> k \<and> nat k < length (j_offsets st))"

definition bpf2a32_offset :: "jit_state \<Rightarrow> int \<Rightarrow> int \<Rightarrow> s32 \<Rightarrow> s32" where
  [jit_defs]: "bpf2a32_offset st bpf_from bpf_to bsize =
     (if \<not> j_needGen st then 0
      else get_offset st bpf_to - (get_offset st bpf_from - bsize) - 4)"

definition epilogue_offset :: "jit_state \<Rightarrow> s32" where
  [jit_defs]: "epilogue_offset st =
     (if \<not> j_needGen st then 0 else of_nat (j_epilogue st) - of_nat (j_idx st) - 4)"

subsection \<open>One instruction\<close>

text \<open>The result of a case: the return value of \<open>build_inst\<close>, the line recorded in \<open>err_line\<close>
  if any, and the emitted code.\<close>

type_synonym built = "int \<times> nat option \<times> code"

abbreviation ok_code :: "code \<Rightarrow> built" where "ok_code c \<equiv> (0, None, c)"

definition reg_row :: "4 word \<Rightarrow> reg_pair" where
  [jit_defs]: "reg_row r = (if unat r < length bpf2a32 then bpf2a32 ! unat r else (0, 0))"

abbreviation dst_row :: "ebpf_inst \<Rightarrow> reg_pair" where "dst_row i \<equiv> reg_row (i_dst i)"
abbreviation src_row :: "ebpf_inst \<Rightarrow> reg_pair" where "src_row i \<equiv> reg_row (i_src i)"

definition is64 :: "ebpf_inst \<Rightarrow> bool" where
  [jit_defs]: "is64 i \<longleftrightarrow> BPF_CLASS (opcode i) = EBPF_CLS_ALU64"

definition build_mov :: "ebpf_inst \<Rightarrow> built option" where
  [jit_defs]: "build_mov i = (let oc = opcode i in
     if oc \<in> {EBPF_OP_MOV_IMM, EBPF_OP_MOV_REG, EBPF_OP_MOV64_IMM, EBPF_OP_MOV64_REG} then
       Some (ok_code (if BPF_SRC oc = EBPF_SRC_REG then
                        (if i_imm i = 1 then emit_mov_imm (hi (dst_row i)) 0
                         else emit_mov_reg64 (is64 i) (dst_row i) (src_row i))
                      else emit_mov_se_imm64 (is64 i) (dst_row i) (i_imm i)))
     else None)"

definition alu_ops :: "u8 set" where
  [jit_defs]: "alu_ops = {EBPF_OP_ADD_IMM, EBPF_OP_ADD_REG, EBPF_OP_SUB_IMM, EBPF_OP_SUB_REG,
     EBPF_OP_OR_IMM, EBPF_OP_OR_REG, EBPF_OP_AND_IMM, EBPF_OP_AND_REG, EBPF_OP_XOR_IMM,
     EBPF_OP_XOR_REG, EBPF_OP_MUL_IMM, EBPF_OP_MUL_REG, EBPF_OP_LSH_REG, EBPF_OP_RSH_REG,
     EBPF_OP_ARSH_REG, EBPF_OP_ADD64_IMM, EBPF_OP_ADD64_REG, EBPF_OP_SUB64_IMM,
     EBPF_OP_SUB64_REG, EBPF_OP_OR64_IMM, EBPF_OP_OR64_REG, EBPF_OP_AND64_IMM,
     EBPF_OP_AND64_REG, EBPF_OP_XOR64_IMM, EBPF_OP_XOR64_REG}"

definition build_alu :: "ebpf_inst \<Rightarrow> built option" where
  [jit_defs]: "build_alu i = (let oc = opcode i; dst = dst_row i; src = src_row i in
     if oc \<in> alu_ops then
       Some (ok_code (if BPF_SRC oc = EBPF_SRC_IMM then
                        emit_mov_se_imm64 (is64 i) tmp2 (i_imm i) @
                        emit_alu64_reg (is64 i) dst tmp2 (BPF_OP oc)
                      else emit_alu64_reg (is64 i) dst src (BPF_OP oc)))
     else if oc \<in> {EBPF_OP_DIV_IMM, EBPF_OP_DIV_REG, EBPF_OP_MOD_IMM, EBPF_OP_MOD_REG,
                   EBPF_OP_DIV64_IMM, EBPF_OP_DIV64_REG, EBPF_OP_MOD64_IMM, EBPF_OP_MOD64_REG} then
       Some (ok_code (emit_u32_div_mod dst src oc (ucast (i_imm i))))
     else None)"

definition build_shift :: "ebpf_inst \<Rightarrow> built option" where
  [jit_defs]: "build_shift i = (let oc = opcode i; dst = dst_row i; src = src_row i; imm = i_imm i in
     if oc \<in> {EBPF_OP_LSH_IMM, EBPF_OP_RSH_IMM, EBPF_OP_ARSH_IMM} then
       Some (if sint imm > 31 then (- 1, Some 1452, [])
             else ok_code (if imm \<noteq> 0 then emit_alu32_imm (lw dst) (ucast imm) (BPF_OP oc) else []))
     else if oc = EBPF_OP_LSH64_REG then Some (ok_code (emit_lsh64_reg dst src))
     else if oc = EBPF_OP_LSH64_IMM then Some (ok_code (emit_lsh64_imm dst (ucast imm)))
     else if oc = EBPF_OP_RSH64_REG then Some (ok_code (emit_a32_rsh_r64 dst src))
     else if oc = EBPF_OP_RSH64_IMM then Some (ok_code (emit_a32_rsh_i64 dst (ucast imm)))
     else if oc = EBPF_OP_ARSH64_REG then Some (ok_code (emit_a32_arsh_r64 dst src))
     else if oc = EBPF_OP_ARSH64_IMM then Some (ok_code (emit_a32_arsh_i64 dst imm))
     else if oc = EBPF_OP_NEG then Some (ok_code (emit_alu32_imm (lw dst) 0 (BPF_OP oc)))
     else if oc = EBPF_OP_NEG64 then Some (ok_code (emit_a32_neg64 dst))
     else if oc \<in> {EBPF_OP_MUL64_IMM, EBPF_OP_MUL64_REG} then
       Some (ok_code (if BPF_SRC oc = EBPF_SRC_IMM
                      then emit_mov_se_imm64 (is64 i) tmp2 imm @ emit_a32_mul_r64 dst tmp2
                      else emit_a32_mul_r64 dst src))
     else if oc = EBPF_OP_LE \<or> oc = EBPF_OP_BE then Some (- 1, None, [])
     else None)"

text \<open>\<open>inst[1].imm\<close> of a two-slot load.\<close>

definition next_imm :: "jit_state \<Rightarrow> nat \<Rightarrow> s32" where
  [jit_defs]: "next_imm st pc = (if pc + 1 < length (j_insts st) then i_imm (j_insts st ! (pc + 1)) else 0)"

definition build_ldst :: "jit_state \<Rightarrow> nat \<Rightarrow> ebpf_inst \<Rightarrow> built option" where
  [jit_defs]: "build_ldst st pc i = (let oc = opcode i; dst = dst_row i; src = src_row i; off = i_off i in
     if oc = EBPF_OP_LDDW then
       Some (1, None, emit_mov_i64 dst (ucast (i_imm i) OR push_bit 32 (ucast (next_imm st pc))))
     else if oc \<in> {EBPF_OP_LDXW, EBPF_OP_LDXH, EBPF_OP_LDXB, EBPF_OP_LDXDW} then
       Some (ok_code (let (rn, c) = arm_bpf_get_reg32 (lw src) (lw tmp2)
                      in c @ emit_ldx_reg dst rn off (BPF_SIZE oc)))
     else if oc \<in> {EBPF_OP_STW, EBPF_OP_STH, EBPF_OP_STB, EBPF_OP_STDW} then
       Some (ok_code ((if BPF_SIZE oc = EBPF_SIZE_DW then emit_mov_se_imm64 True tmp2 (i_imm i)
                       else emit_mov_imm (lw tmp2) (i_imm i)) @
                      emit_str_reg (lw dst) tmp2 off (BPF_SIZE oc)))
     else if oc \<in> {EBPF_OP_STXW, EBPF_OP_STXH, EBPF_OP_STXB, EBPF_OP_STXDW} then
       Some (ok_code (let (rs, c) = arm_bpf_get_reg64 src tmp2
                      in c @ emit_str_reg (lw dst) rs off (BPF_SIZE oc)))
     else None)"

definition jump_ops :: "u8 set" where
  [jit_defs]: "jump_ops = {EBPF_OP_JEQ_IMM, EBPF_OP_JEQ_REG, EBPF_OP_JGT_IMM, EBPF_OP_JGT_REG,
     EBPF_OP_JGE_IMM, EBPF_OP_JGE_REG, EBPF_OP_JSET_IMM, EBPF_OP_JSET_REG, EBPF_OP_JNE_IMM,
     EBPF_OP_JNE_REG, EBPF_OP_JSGT_IMM, EBPF_OP_JSGT_REG, EBPF_OP_JSGE_IMM, EBPF_OP_JSGE_REG,
     EBPF_OP_JLT_IMM, EBPF_OP_JLT_REG, EBPF_OP_JLE_IMM, EBPF_OP_JLE_REG, EBPF_OP_JSLT_IMM,
     EBPF_OP_JSLT_REG, EBPF_OP_JSLE_IMM, EBPF_OP_JSLE_REG}"

text \<open>What a conditional jump emits before its branch.\<close>

definition jump_head :: "ebpf_inst \<Rightarrow> code" where
  [jit_defs]: "jump_head i =
     (let oc = opcode i; dst = dst_row i; src = src_row i;
          (rm, rn, c1) =
            (if BPF_SRC oc = EBPF_SRC_REG then
               let (rm, ca) = arm_bpf_get_reg32 (hi src) (hi tmp2);
                   (rn, cb) = arm_bpf_get_reg32 (lw src) (lw tmp2)
               in (rm, rn, ca @ cb)
             else (hi tmp2, lw tmp2, emit_mov_se_imm64 True tmp2 (i_imm i)));
          (rd, c2) = arm_bpf_get_reg64 dst tmp
      in c1 @ c2 @
         emit_cmp_cond (hi rd) (lw rd) rm rn (BPF_OP oc) (BPF_CLASS oc = EBPF_CLS_JMP))"

definition bsize :: "jit_state \<Rightarrow> s32" where
  [jit_defs]: "bsize st = (if use_b4 (j_inst_num st) then 4 else 2)"

definition build_jump :: "jit_state \<Rightarrow> nat \<Rightarrow> ebpf_inst \<Rightarrow> built option" where
  [jit_defs]: "build_jump st pc i = (let oc = opcode i; off = i_off i; to = int pc + sint off in
     if oc \<in> jump_ops then
       Some (ok_code (if BPF_SRC oc \<noteq> EBPF_SRC_REG \<and> off = 0 then []
                      else jump_head i @
                           emit_jump (j_inst_num st) (bpf2a32_offset st (int pc) to (bsize st))
                             (BPF_OP oc)))
     else if oc = EBPF_OP_JA then
       Some (ok_code (if off = 0 then [] else emit_b (bpf2a32_offset st (int pc) to 2)))
     else None)"

definition build_call :: "jit_state \<Rightarrow> nat \<Rightarrow> ebpf_inst \<Rightarrow> built option" where
  [jit_defs]: "build_call st pc i = (let oc = opcode i; row = (\<lambda>k. bpf2a32 ! k) in
     if oc = EBPF_OP_CALL then
       Some (ok_code (emit_mov_reg64 True (row 0) (row 1) @ emit_mov_reg64 True (row 1) (row 2) @
                      emit_push_r64 (row 5) @ emit_push_r64 (row 4) @ emit_push_r64 (row 3) @
                      emit_mov_imm (lw tmp) (j_call_base st (sint (i_imm i))) @
                      emit2 (thumb16_BLX_REG_T1 (lw tmp)) @
                      emit_add_imm ARM_SP ARM_SP 24))
     else if oc = EBPF_OP_EXIT then
       Some (ok_code (if pc + 1 = j_inst_num st then [] else emit_b (epilogue_offset st)))
     else None)"

text \<open>An opcode without a case is reported and skipped.\<close>

definition inst_code :: "jit_state \<Rightarrow> nat \<Rightarrow> ebpf_inst \<Rightarrow> built" where
  [jit_defs]: "inst_code st pc i =
     (case or_else (build_mov i) (or_else (build_alu i) (or_else (build_shift i)
             (or_else (build_ldst st pc i) (or_else (build_jump st pc i) (build_call st pc i))))) of
        None \<Rightarrow> ok_code [] | Some b \<Rightarrow> b)"

text \<open>Where the translation of an instruction leaves the arrays it reads: the register table
  has 15 rows, a displacement needs two entries of \<open>offsets\<close>, and a two-slot load its second
  slot.\<close>

definition inst_fault :: "jit_state \<Rightarrow> nat \<Rightarrow> ebpf_inst \<Rightarrow> bool" where
  "inst_fault st pc i \<longleftrightarrow>
     unat (i_dst i) \<ge> length bpf2a32 \<or> unat (i_src i) \<ge> length bpf2a32 \<or>
     ((opcode i \<in> jump_ops \<and> (BPF_SRC (opcode i) = EBPF_SRC_REG \<or> i_off i \<noteq> 0) \<or>
       opcode i = EBPF_OP_JA \<and> i_off i \<noteq> 0) \<and>
        (bad_offset st (int pc) \<or> bad_offset st (int pc + sint (i_off i)))) \<or>
     (opcode i = EBPF_OP_LDDW \<and> pc + 1 \<ge> length (j_insts st))"

definition build_inst :: "jit_state \<Rightarrow> nat \<Rightarrow> ebpf_inst \<Rightarrow> int \<times> jit_state" where
  "build_inst st pc i =
     (let (ret, err, c) = inst_code st pc i;
          st1 = st\<lparr>j_err_line := (case err of None \<Rightarrow> j_err_line st | Some l \<Rightarrow> l),
                   j_fault := j_fault st \<or> inst_fault st pc i\<rparr>
      in (ret, emit_code c st1))"

subsection \<open>Prologue, body, epilogue\<close>

text \<open>\<open>CALLEE_MASK\<close>: r4 to r9 and fp.\<close>

definition CALLEE_MASK :: s32 where [jit_defs]: "CALLEE_MASK = 0xbf0"
definition CALLEE_PUSH_MASK :: s32 where [jit_defs]: "CALLEE_PUSH_MASK = CALLEE_MASK OR 0x4000"
definition CALLEE_POP_MASK :: s32 where [jit_defs]: "CALLEE_POP_MASK = CALLEE_MASK OR 0x8000"

definition EBPF_STACK_SIZE :: s32 where [jit_defs]: "EBPF_STACK_SIZE = 256"

definition prologue_code :: code where
  [jit_defs]: "prologue_code =
     (let bpf_r1 = bpf2a32 ! 1; bpf_fp = bpf2a32 ! 10
      in emit4 (thumb32_PUSHW_T2 CALLEE_PUSH_MASK) @ emit_mov_reg ARM_SP ARM_FP @
         emit_mov_imm (hi bpf_r1) 0 @ emit_sub_imm (lw bpf_r1) ARM_SP SCRATCH_SIZE @
         emit_sub_imm ARM_SP ARM_SP EBPF_STACK_SIZE @ emit_mov_reg64 True bpf_fp bpf_r1 @
         emit_mov_reg ARM_R0 (lw bpf_r1) @ emit_mov_imm (hi bpf_r1) 0)"

definition build_prologue :: "jit_state \<Rightarrow> jit_state" where
  "build_prologue st = emit_code prologue_code st"

definition epilogue_code :: code where
  [jit_defs]: "epilogue_code = emit_mov_reg ARM_FP ARM_SP @ emit4 (thumb32_POPW_T2 CALLEE_POP_MASK)"

definition build_epilogue :: "jit_state \<Rightarrow> jit_state" where
  "build_epilogue st = emit_code epilogue_code st"

definition set_offset :: "jit_state \<Rightarrow> nat \<Rightarrow> jit_state" where
  "set_offset st i =
     (if j_needGen st then st
      else if i < length (j_offsets st)
      then st\<lparr>j_offsets := (j_offsets st)[i := of_nat (j_idx st)]\<rparr>
      else st\<lparr>j_fault := True\<rparr>)"

function body_loop :: "ebpf_inst list \<Rightarrow> nat \<Rightarrow> jit_state \<Rightarrow> nat \<Rightarrow> jit_state" where
  "body_loop prog inst_num st i =
     (if \<not> i < inst_num then st
      else if \<not> i < length prog then st\<lparr>j_fault := True\<rparr>
      else
        let (ret, st1) = build_inst st i (prog ! i) in
        if ret > 0 then body_loop prog inst_num (set_offset st1 (i + 1)) (i + 2)
        else
          let st2 = set_offset st1 i in
          if ret < 0 then st2 else body_loop prog inst_num st2 (i + 1))"
  by pat_completeness auto
termination
  by (relation "measure (\<lambda>(prog, inst_num, st, i). inst_num - i)") auto

declare body_loop.simps [simp del]

definition build_body :: "jit_state \<Rightarrow> jit_state" where
  "build_body st = body_loop (j_insts st) (j_inst_num st) st 0"

definition pre_pass :: "jit_state \<Rightarrow> jit_state" where
  "pre_pass st =
     (let s1 = build_body (build_prologue (st\<lparr>j_idx := 0, j_needGen := False\<rparr>))
      in s1\<lparr>j_epilogue := j_idx s1\<rparr>)"

definition gen_pass :: "jit_state \<Rightarrow> jit_state" where
  "gen_pass st = build_body (build_prologue (st\<lparr>j_idx := 0, j_needGen := True\<rparr>))"

definition jit_compile :: "jit_state \<Rightarrow> jit_state" where
  "jit_compile st = build_epilogue (gen_pass (pre_pass st))"

text \<open>\<open>gen_jit_code\<close> compiles into the static buffers; \<open>tbl\<close> gives the words of the helper table
  by index, \<open>epi\<close> is the uninitialised field. The returned state holds the buffer that
  \<open>jit_func\<close> points to.\<close>

definition gen_jit_code :: "(int \<Rightarrow> u32) \<Rightarrow> nat \<Rightarrow> ebpf_vm \<Rightarrow> jit_state" where
  "gen_jit_code tbl epi vm =
     (let n = unat (num_insts vm);
          st = \<lparr>j_insts = insts vm, j_inst_num = n, j_code = [], j_idx = 0, j_epilogue = epi,
                j_err_line = 0, j_offsets = [], j_call_base = tbl, j_needGen = False,
                j_fault = False\<rparr>
      in jit_compile (jit_state_set_mem st (jit_mem_allocate n)))"

end
