(* ===== verification/Jit_Passes.thy ===== *)
theory Jit_Passes
  imports Jit
begin

text \<open>
  The two passes of the compiler agree: every instruction has the same size in both, so the
  offsets the first pass records are the positions the second one writes to, and a branch
  lands on the code of its target.
\<close>

subsection \<open>What emitting keeps\<close>

lemma emit_bytes_simps [simp]:
  "j_idx (emit_bytes x st) = j_idx st + 2"
  "j_insts (emit_bytes x st) = j_insts st"
  "j_inst_num (emit_bytes x st) = j_inst_num st"
  "j_offsets (emit_bytes x st) = j_offsets st"
  "j_call_base (emit_bytes x st) = j_call_base st"
  "j_needGen (emit_bytes x st) = j_needGen st"
  "j_epilogue (emit_bytes x st) = j_epilogue st"
  "length (j_code (emit_bytes x st)) = length (j_code st)"
  by (simp_all add: emit_bytes_def Let_def)

lemma emit_code_simps [simp]:
  "j_idx (emit_code c st) = j_idx st + 2 * length c"
  "j_insts (emit_code c st) = j_insts st"
  "j_inst_num (emit_code c st) = j_inst_num st"
  "j_offsets (emit_code c st) = j_offsets st"
  "j_call_base (emit_code c st) = j_call_base st"
  "j_needGen (emit_code c st) = j_needGen st"
  "j_epilogue (emit_code c st) = j_epilogue st"
  "length (j_code (emit_code c st)) = length (j_code st)"
  unfolding emit_code_def by (induction c arbitrary: st) simp_all

lemma emit_bytes_fault:
  "\<not> j_needGen st \<or> j_idx st + 2 \<le> length (j_code st) \<Longrightarrow> j_fault (emit_bytes x st) = j_fault st"
  by (auto simp: emit_bytes_def Let_def)

lemma emit_code_fault:
  "\<not> j_needGen st \<or> j_idx st + 2 * length c \<le> length (j_code st) \<Longrightarrow>
     j_fault (emit_code c st) = j_fault st"
  unfolding emit_code_def
proof (induction c arbitrary: st)
  case (Cons x c)
  then show ?case using emit_bytes_fault [of st x] by force
qed simp

lemma set_offset_simps [simp]:
  "j_idx (set_offset st i) = j_idx st"
  "j_insts (set_offset st i) = j_insts st"
  "j_inst_num (set_offset st i) = j_inst_num st"
  "j_call_base (set_offset st i) = j_call_base st"
  "j_needGen (set_offset st i) = j_needGen st"
  "j_epilogue (set_offset st i) = j_epilogue st"
  "j_code (set_offset st i) = j_code st"
  "length (j_offsets (set_offset st i)) = length (j_offsets st)"
  by (simp_all add: set_offset_def)

lemma set_offset_gen [simp]: "j_needGen st \<Longrightarrow> set_offset st i = st"
  by (simp add: set_offset_def)

lemma set_offset_offsets:
  "\<not> j_needGen st \<Longrightarrow> j_offsets (set_offset st i) = (j_offsets st)[i := of_nat (j_idx st)]"
  by (simp add: set_offset_def list_update_beyond)

abbreviation ret_of :: "jit_state \<Rightarrow> nat \<Rightarrow> ebpf_inst \<Rightarrow> int" where
  "ret_of st pc i \<equiv> fst (inst_code st pc i)"

abbreviation code_of :: "jit_state \<Rightarrow> nat \<Rightarrow> ebpf_inst \<Rightarrow> code" where
  "code_of st pc i \<equiv> snd (snd (inst_code st pc i))"

lemma build_inst_simps [simp]:
  "fst (build_inst st pc i) = ret_of st pc i"
  "j_idx (snd (build_inst st pc i)) = j_idx st + 2 * length (code_of st pc i)"
  "j_insts (snd (build_inst st pc i)) = j_insts st"
  "j_inst_num (snd (build_inst st pc i)) = j_inst_num st"
  "j_offsets (snd (build_inst st pc i)) = j_offsets st"
  "j_call_base (snd (build_inst st pc i)) = j_call_base st"
  "j_needGen (snd (build_inst st pc i)) = j_needGen st"
  "j_epilogue (snd (build_inst st pc i)) = j_epilogue st"
  "length (j_code (snd (build_inst st pc i))) = length (j_code st)"
  by (simp_all add: build_inst_def split: prod.split)

subsection \<open>Instruction sizes\<close>

text \<open>The displacement a branch instruction would use is one that both passes encode in the
  same number of halfwords.\<close>

definition branch_ok :: "jit_state \<Rightarrow> nat \<Rightarrow> ebpf_inst \<Rightarrow> bool" where
  "branch_ok st pc i \<longleftrightarrow>
     (let d = sint (bpf2a32_offset st (int pc) (int pc + sint (i_off i)) (bsize st));
          e = sint (bpf2a32_offset st (int pc) (int pc + sint (i_off i)) 2);
          x = sint (epilogue_offset st)
      in (if use_b4 (j_inst_num st) then - 1048576 < d \<and> d < 1048574 else - 256 \<le> d \<and> d \<le> 254) \<and>
         - 2048 < e \<and> e < 2046 \<and> - 2048 < x \<and> x < 2046)"

definition has_branch :: "s8 \<Rightarrow> bool" where
  "has_branch op \<longleftrightarrow>
     op \<in> {EBPF_JNE, EBPF_JSET, EBPF_JEQ, EBPF_JGT, EBPF_JGE, EBPF_JSGT, EBPF_JSGE}"

lemma length_emit [simp]: "length (emit2 x) = 1" "length (emit4 y) = 2"
  by (simp_all add: emit2_def emit4_def)

lemma sint_byte_consts:
  "sint (op :: s8) = 16 \<longleftrightarrow> op = 16" "sint op = 32 \<longleftrightarrow> op = 32" "sint op = 48 \<longleftrightarrow> op = 48"
  "sint op = 64 \<longleftrightarrow> op = 64" "sint op = 80 \<longleftrightarrow> op = 80" "sint op = 96 \<longleftrightarrow> op = 96"
  "sint op = 112 \<longleftrightarrow> op = 112"
  using signed_word_eqI [of op] by (auto intro: signed_word_eqI)

lemma sint_byte_less: "sint (op :: s8) < 128"
  using sint_less [of op] by simp

lemma emit_jump_length:
  "(if use_b4 n then - 1048576 < sint d \<and> sint d < 1048574 else - 256 \<le> sint d \<and> sint d \<le> 254) \<Longrightarrow>
     length (emit_jump n d op) = (if has_branch op then if use_b4 n then 2 else 1 else 0)"
  using sint_byte_less [of op]
  by (auto simp: emit_jump_def has_branch_def emit_b_cond_def Let_def opcode_val sint_byte_consts
      split: if_splits)

lemma emit_b_length: "- 2048 < sint d \<Longrightarrow> sint d < 2046 \<Longrightarrow> length (emit_b d) = 1"
  by (simp add: emit_b_def)

text \<open>Two states that differ at most in the pass, the position and the offset table.\<close>

definition same_input :: "jit_state \<Rightarrow> jit_state \<Rightarrow> bool" where
  "same_input p g \<longleftrightarrow> j_insts p = j_insts g \<and> j_inst_num p = j_inst_num g \<and>
     j_call_base p = j_call_base g"

lemma branch_ok_pre: "\<not> j_needGen p \<Longrightarrow> branch_ok p pc i"
  by (simp add: branch_ok_def bpf2a32_offset_def epilogue_offset_def)

definition built_size :: "built option \<Rightarrow> (int \<times> nat) option" where
  "built_size b = map_option (\<lambda>(r, _, c). (r, length c)) b"

lemma ja_not_jump: "EBPF_OP_JA \<notin> jump_ops"
  by (simp add: jump_ops_def opcode_val)

lemma build_jump_size:
  "branch_ok st pc i \<Longrightarrow> built_size (build_jump st pc i) =
     (if opcode i \<in> jump_ops then
        Some (0, if BPF_SRC (opcode i) \<noteq> EBPF_SRC_REG \<and> i_off i = 0 then 0
                 else length (jump_head i) +
                   (if has_branch (BPF_OP (opcode i)) then if use_b4 (j_inst_num st) then 2 else 1 else 0))
      else if opcode i = EBPF_OP_JA then Some (0, if i_off i = 0 then 0 else 1) else None)"
proof -
  define to where "to = int pc + sint (i_off i)"
  assume ok: "branch_ok st pc i"
  have j: "length (emit_jump (j_inst_num st) (bpf2a32_offset st (int pc) to (bsize st)) op) =
    (if has_branch op then if use_b4 (j_inst_num st) then 2 else 1 else 0)" for op
    by (rule emit_jump_length) (use ok in \<open>simp add: branch_ok_def Let_def to_def\<close>)
  have b: "length (emit_b (bpf2a32_offset st (int pc) to 2)) = 1"
    by (rule emit_b_length) (use ok in \<open>simp_all add: branch_ok_def Let_def to_def\<close>)
  show ?thesis
    unfolding build_jump_def built_size_def Let_def to_def [symmetric] by (simp add: j b ja_not_jump del: One_nat_def)
qed

lemma build_call_size:
  "branch_ok p pc i \<Longrightarrow> branch_ok g pc i \<Longrightarrow> same_input p g \<Longrightarrow>
     built_size (build_call p pc i) = built_size (build_call g pc i)"
  by (simp add: build_call_def built_size_def Let_def branch_ok_def emit_b_length same_input_def)

lemma built_size_or_else:
  "built_size a = built_size a' \<Longrightarrow> built_size b = built_size b' \<Longrightarrow>
     built_size (or_else a b) = built_size (or_else a' b')"
  by (cases a; cases a') (auto simp: or_else_def built_size_def)

lemma built_size_code:
  "built_size b = built_size b' \<Longrightarrow>
     fst (case b of None \<Rightarrow> ok_code [] | Some x \<Rightarrow> x) = fst (case b' of None \<Rightarrow> ok_code [] | Some x \<Rightarrow> x) \<and>
     length (snd (snd (case b of None \<Rightarrow> ok_code [] | Some x \<Rightarrow> x))) =
     length (snd (snd (case b' of None \<Rightarrow> ok_code [] | Some x \<Rightarrow> x)))"
  by (cases b; cases b') (auto simp: built_size_def)

lemma inst_code_size_stable:
  assumes "branch_ok p pc i" "branch_ok g pc i" "same_input p g"
  shows "ret_of p pc i = ret_of g pc i \<and> length (code_of p pc i) = length (code_of g pc i)"
proof -
  have "next_imm p pc = next_imm g pc"
    using assms(3) by (simp add: next_imm_def same_input_def)
  then have "build_ldst p pc i = build_ldst g pc i"
    by (simp only: build_ldst_def)
  moreover have "built_size (build_jump p pc i) = built_size (build_jump g pc i)"
    using assms by (simp add: build_jump_size same_input_def)
  ultimately have "built_size (or_else (build_mov i) (or_else (build_alu i) (or_else (build_shift i)
        (or_else (build_ldst p pc i) (or_else (build_jump p pc i) (build_call p pc i)))))) =
      built_size (or_else (build_mov i) (or_else (build_alu i) (or_else (build_shift i)
        (or_else (build_ldst g pc i) (or_else (build_jump g pc i) (build_call g pc i))))))"
    by (intro built_size_or_else build_call_size assms) simp_all
  then show ?thesis unfolding inst_code_def by (rule built_size_code)
qed

subsection \<open>The trace of a pass\<close>

text \<open>The instructions a pass translates, each with the state in which its translation
  starts.\<close>

function body_trace :: "ebpf_inst list \<Rightarrow> nat \<Rightarrow> jit_state \<Rightarrow> nat \<Rightarrow> (nat \<times> jit_state) list" where
  "body_trace prog inst_num st i =
     (if \<not> (i < inst_num \<and> i < length prog) then []
      else
        let (ret, st1) = build_inst st i (prog ! i) in
        (i, st) # (if ret > 0 then body_trace prog inst_num (set_offset st1 (i + 1)) (i + 2)
                   else if ret < 0 then []
                   else body_trace prog inst_num (set_offset st1 i) (i + 1)))"
  by pat_completeness auto
termination
  by (relation "measure (\<lambda>(prog, inst_num, st, i). inst_num - i)") auto

declare body_trace.simps [simp del]

lemma body_loop_step:
  "body_loop prog n st i =
     (if \<not> i < n then st
      else if \<not> i < length prog then st\<lparr>j_fault := True\<rparr>
      else
        let st1 = snd (build_inst st i (prog ! i)) in
        if ret_of st i (prog ! i) > 0 then body_loop prog n (set_offset st1 (i + 1)) (i + 2)
        else if ret_of st i (prog ! i) < 0 then set_offset st1 i
        else body_loop prog n (set_offset st1 i) (i + 1))"
  by (subst body_loop.simps) (simp add: case_prod_beta' Let_def)

lemma body_trace_step:
  "body_trace prog n st i =
     (if \<not> (i < n \<and> i < length prog) then []
      else
        let st1 = snd (build_inst st i (prog ! i)) in
        (i, st) # (if ret_of st i (prog ! i) > 0 then body_trace prog n (set_offset st1 (i + 1)) (i + 2)
                   else if ret_of st i (prog ! i) < 0 then []
                   else body_trace prog n (set_offset st1 i) (i + 1)))"
  by (subst body_trace.simps) (simp add: case_prod_beta' Let_def)

text \<open>An induction rule that follows the loop: the two ways it goes on.\<close>

lemma body_induct [case_names step]:
  assumes "\<And>st i. (i < n \<Longrightarrow> i < length prog \<Longrightarrow> ret_of st i (prog ! i) > 0 \<Longrightarrow>
        P (set_offset (snd (build_inst st i (prog ! i))) (i + 1)) (i + 2)) \<Longrightarrow>
      (i < n \<Longrightarrow> i < length prog \<Longrightarrow> ret_of st i (prog ! i) = 0 \<Longrightarrow>
        P (set_offset (snd (build_inst st i (prog ! i))) i) (i + 1)) \<Longrightarrow> P st i"
  shows "P st i"
proof (induction "n - i" arbitrary: st i rule: less_induct)
  case less
  show ?case by (rule assms) (simp_all add: less)
qed

text \<open>One turn of the loop, with the trace beside it.\<close>

lemma body_turn:
  obtains (stop) "body_loop prog n st i = st \<or> body_loop prog n st i = st\<lparr>j_fault := True\<rparr>"
      "body_trace prog n st i = []" "\<not> (i < n \<and> i < length prog)"
  | (skip) st' where "i < n" "i < length prog" "ret_of st i (prog ! i) > 0"
      "st' = set_offset (snd (build_inst st i (prog ! i))) (i + 1)"
      "body_loop prog n st i = body_loop prog n st' (i + 2)"
      "body_trace prog n st i = (i, st) # body_trace prog n st' (i + 2)"
  | (err) st' where "i < n" "i < length prog" "ret_of st i (prog ! i) < 0"
      "st' = set_offset (snd (build_inst st i (prog ! i))) i"
      "body_loop prog n st i = st'" "body_trace prog n st i = [(i, st)]"
  | (cont) st' where "i < n" "i < length prog" "ret_of st i (prog ! i) = 0"
      "st' = set_offset (snd (build_inst st i (prog ! i))) i"
      "body_loop prog n st i = body_loop prog n st' (i + 1)"
      "body_trace prog n st i = (i, st) # body_trace prog n st' (i + 1)"
proof (cases "i < n \<and> i < length prog")
  case True
  note eqs = body_loop_step [of prog n st i] body_trace_step [of prog n st i]
  consider "ret_of st i (prog ! i) > 0" | "ret_of st i (prog ! i) < 0" | "ret_of st i (prog ! i) = 0"
    by linarith
  then show thesis
    by cases (use True eqs in \<open>auto simp: Let_def intro: skip err cont\<close>)
next
  case False
  then show thesis
    using body_loop_step [of prog n st i] body_trace_step [of prog n st i]
    by (intro stop) auto
qed

subsection \<open>The pre-pass\<close>

lemma body_loop_inv:
  assumes build: "\<And>st i x. P st \<Longrightarrow> P (snd (build_inst st i x))"
    and offs: "\<And>st i. P st \<Longrightarrow> P (set_offset st i)"
    and flt: "\<And>st. P st \<Longrightarrow> P (st\<lparr>j_fault := True\<rparr>)"
  shows "P st \<Longrightarrow> P (body_loop prog n st i)"
proof (induction st i rule: body_induct [where n = n and prog = prog])
  case (step st i)
  have ind: "P (set_offset (snd (build_inst st i (prog ! i))) k)" for k
    using step.prems build offs by blast
  show ?case
    by (cases rule: body_turn [of prog n st i]) (use step ind flt in auto)
qed

lemma body_loop_static:
  "same_input st (body_loop prog n st i) \<and> j_needGen (body_loop prog n st i) = j_needGen st \<and>
   j_epilogue (body_loop prog n st i) = j_epilogue st \<and>
   length (j_offsets (body_loop prog n st i)) = length (j_offsets st) \<and>
   length (j_code (body_loop prog n st i)) = length (j_code st)"
  by (rule body_loop_inv) (simp_all add: same_input_def)

lemma body_loop_idx_mono: "j_idx st \<le> j_idx (body_loop prog n st i)"
proof (induction st i rule: body_induct [where n = n and prog = prog])
  case (step st i)
  then show ?case by (cases rule: body_turn [of prog n st i]) auto
qed

lemma body_loop_offsets_below:
  "\<not> j_needGen st \<Longrightarrow> k < i \<Longrightarrow> j_offsets (body_loop prog n st i) ! k = j_offsets st ! k"
proof (induction st i rule: body_induct [where n = n and prog = prog])
  case (step st i)
  then show ?case
    by (cases rule: body_turn [of prog n st i]) (auto simp: set_offset_offsets)
qed

lemma unat_of_nat_32: "m \<le> L \<Longrightarrow> L < 2 ^ 32 \<Longrightarrow> unat (of_nat m :: u32) = m"
  by (simp add: unat_of_nat)

lemma body_loop_offsets_bound:
  "\<not> j_needGen st \<Longrightarrow> j_idx (body_loop prog n st i) \<le> L \<Longrightarrow> L < 2 ^ 32 \<Longrightarrow>
     \<forall>x \<in> set (j_offsets st). unat x \<le> L \<Longrightarrow>
     \<forall>x \<in> set (j_offsets (body_loop prog n st i)). unat x \<le> L"
proof (induction st i rule: body_induct [where n = n and prog = prog])
  case (step st i)
  let ?st1 = "snd (build_inst st i (prog ! i))"
  have upd: "\<forall>x \<in> set (j_offsets (set_offset ?st1 k)). unat x \<le> L" if "j_idx ?st1 \<le> L" for k
  proof -
    have "unat (of_nat (j_idx ?st1) :: u32) \<le> L"
      using that step.prems(3) unat_of_nat_32 by metis
    then show ?thesis
      using step.prems(1,4) set_update_subset_insert [of "j_offsets st" k]
      by (auto simp: set_offset_offsets simp del: build_inst_simps(2))
  qed
  have mono: "j_idx ?st1 \<le> j_idx (body_loop prog n (set_offset ?st1 k) j)" for k j
    using body_loop_idx_mono [of "set_offset ?st1 k" prog n j] by simp
  show ?case
  proof (cases rule: body_turn [of prog n st i])
    case stop
    with step.prems show ?thesis by auto
  next
    case (skip st')
    have "j_idx ?st1 \<le> L" using mono [of "i + 1" "i + 2"] step.prems(2) skip by simp
    then show ?thesis
      using step.IH(1) [OF skip(1-3)] step.prems upd [of "i + 1"] skip by (simp del: build_inst_simps(2))
  next
    case (err st')
    with step.prems(2) upd [of i] show ?thesis by (simp del: build_inst_simps(2))
  next
    case (cont st')
    have "j_idx ?st1 \<le> L" using mono [of i "i + 1"] step.prems(2) cont by simp
    then show ?thesis
      using step.IH(2) [OF cont(1-3)] step.prems upd [of i] cont by (simp del: build_inst_simps(2))
  qed
qed

text \<open>The entry before an instruction's own is where its code starts, and (for an instruction
  of one slot) its own entry is where the code ends.\<close>

lemma pre_trace_offsets:
  assumes "(k, s) \<in> set (body_trace prog n st i)" and "\<not> j_needGen st"
  shows "i \<le> k \<and> k < n \<and> k < length prog \<and> \<not> j_needGen s \<and> same_input st s \<and>
    j_idx s \<le> j_idx (body_loop prog n st i) \<and> (k = i \<longrightarrow> s = st) \<and>
    (i < k \<longrightarrow> k - 1 < length (j_offsets st) \<longrightarrow>
       j_offsets (body_loop prog n st i) ! (k - 1) = of_nat (j_idx s)) \<and>
    (ret_of s k (prog ! k) = 0 \<longrightarrow> k < length (j_offsets st) \<longrightarrow>
       j_offsets (body_loop prog n st i) ! k = of_nat (j_idx s + 2 * length (code_of s k (prog ! k))))"
  using assms
proof (induction st i rule: body_induct [where n = n and prog = prog])
  case (step st i)
  have ent: "j_offsets (body_loop prog n (set_offset (snd (build_inst st i (prog ! i))) j) m) ! j =
      of_nat (j_idx st + 2 * length (code_of st i (prog ! i)))" if "j < m" "j < length (j_offsets st)" for j m
    using that step.prems(2) by (simp add: body_loop_offsets_below set_offset_offsets)
  show ?case
  proof (cases rule: body_turn [of prog n st i])
    case (skip st')
    show ?thesis
    proof (cases "(k, s) = (i, st)")
      case True
      with skip step.prems(2) body_loop_idx_mono [of st prog n i] show ?thesis
        by (auto simp: same_input_def)
    next
      case False
      with skip step.prems have mem: "(k, s) \<in> set (body_trace prog n st' (i + 2))" by auto
      have st': "same_input st st'" "\<not> j_needGen st'" "length (j_offsets st') = length (j_offsets st)"
        using skip(4) step.prems(2) by (simp_all add: same_input_def)
      note IH = step.IH(1) [OF skip(1-3), folded skip(4), OF mem st'(2)]
      have "k = i + 2 \<Longrightarrow> k - 1 < length (j_offsets st) \<Longrightarrow>
          j_offsets (body_loop prog n st' (i + 2)) ! (k - 1) = of_nat (j_idx st')"
        using ent [of "i + 1" "i + 2"] skip(4) by simp
      then have "i < k \<and> (k - 1 < length (j_offsets st) \<longrightarrow>
          j_offsets (body_loop prog n st' (i + 2)) ! (k - 1) = of_nat (j_idx s))"
        using IH st'(3) by (cases "k = i + 2") simp_all
      moreover have "same_input st s" using IH st'(1) by (simp add: same_input_def)
      ultimately show ?thesis unfolding skip(5) using IH st'(3) by simp
    qed
  next
    case (err st')
    with step.prems show ?thesis by (auto simp: same_input_def)
  next
    case (cont st')
    show ?thesis
    proof (cases "(k, s) = (i, st)")
      case True
      with cont step.prems(2) body_loop_idx_mono [of st prog n i] ent [of i "i + 1"] show ?thesis
        by (auto simp: same_input_def)
    next
      case False
      with cont step.prems have mem: "(k, s) \<in> set (body_trace prog n st' (i + 1))" by auto
      have st': "same_input st st'" "\<not> j_needGen st'" "length (j_offsets st') = length (j_offsets st)"
        using cont(4) step.prems(2) by (simp_all add: same_input_def)
      note IH = step.IH(2) [OF cont(1-3), folded cont(4), OF mem st'(2)]
      have "k = i + 1 \<Longrightarrow> k - 1 < length (j_offsets st) \<Longrightarrow>
          j_offsets (body_loop prog n st' (i + 1)) ! (k - 1) = of_nat (j_idx st')"
        using ent [of i "i + 1"] cont(4) by simp
      then have "i < k \<and> (k - 1 < length (j_offsets st) \<longrightarrow>
          j_offsets (body_loop prog n st' (i + 1)) ! (k - 1) = of_nat (j_idx s))"
        using IH st'(3) by (cases "k = i + 1") simp_all
      moreover have "same_input st s" using IH st'(1) by (simp add: same_input_def)
      ultimately show ?thesis unfolding cont(5) using IH st'(3) by simp
    qed
  qed (use step in simp)
qed

subsection \<open>The generating pass\<close>

text \<open>How large the code may be for the short branch forms to reach everywhere.\<close>

definition size_limit :: "nat \<Rightarrow> nat" where
  "size_limit inst_num = (if use_b4 inst_num then 2040 else 254)"

lemma size_limit_le: "size_limit n \<le> 2040"
  by (simp add: size_limit_def)

lemma sint_of_int_32:
  "- 2147483648 \<le> k \<Longrightarrow> k < 2147483648 \<Longrightarrow> sint (word_of_int k :: 32 word) = k"
  by (simp add: signed_of_int signed_take_bit_int_eq_self_iff)

lemma sint_small_diff:
  fixes x y c :: u32
  assumes "unat x \<le> 2042" "unat y \<le> 2042" "unat c \<le> 4"
  shows "sint (x - (y - c) - 4) = int (unat x) - int (unat y) + int (unat c) - 4"
proof -
  have "x - (y - c) - 4 = word_of_int (int (unat x) - int (unat y) + int (unat c) - 4)" by simp
  moreover have "sint (word_of_int (int (unat x) - int (unat y) + int (unat c) - 4) :: u32) =
      int (unat x) - int (unat y) + int (unat c) - 4"
    by (rule sint_of_int_32) (use assms in linarith)+
  ultimately show ?thesis by (simp only:)
qed

lemma get_offset_bound:
  "\<forall>x \<in> set (j_offsets st). unat x \<le> L \<Longrightarrow> unat (get_offset st k) \<le> L"
  by (simp add: get_offset_def)

lemma branch_ok_gen:
  assumes "j_needGen g" "\<forall>x \<in> set (j_offsets g). unat x \<le> L" "j_epilogue g \<le> L" "j_idx g \<le> L"
    and "L \<le> size_limit (j_inst_num g)"
  shows "branch_ok g pc i"
proof -
  have L: "L \<le> 2042" using assms(5) size_limit_le [of "j_inst_num g"] by simp
  have off: "sint (bpf2a32_offset g a b c) =
      int (unat (get_offset g b)) - int (unat (get_offset g a)) + int (unat c) - 4"
    if "unat c \<le> 4" for a b c
    unfolding bpf2a32_offset_def using assms(1) that L get_offset_bound [OF assms(2)]
    by (simp add: sint_small_diff order_trans [OF get_offset_bound [OF assms(2)] L])
  have u: "unat (of_nat (j_epilogue g) :: u32) = j_epilogue g" "unat (of_nat (j_idx g) :: u32) = j_idx g"
    using assms(3,4) L unat_of_nat_32 [of _ L] by simp_all
  have epi: "sint (epilogue_offset g) = int (j_epilogue g) - int (j_idx g) - 4"
    unfolding epilogue_offset_def
    using assms(1,3,4) L u sint_small_diff [of "of_nat (j_epilogue g)" "of_nat (j_idx g)" 0] by simp
  define A B where "A = unat (get_offset g (int pc))"
    and "B = unat (get_offset g (int pc + sint (i_off i)))"
  have d: "sint (bpf2a32_offset g (int pc) (int pc + sint (i_off i)) c) = int B - int A + int (unat c) - 4"
    if "unat c \<le> 4" for c
    using off [OF that] by (simp only: A_def B_def)
  have AB: "A \<le> L" "B \<le> L"
    using get_offset_bound [OF assms(2)] by (simp_all add: A_def B_def)
  show ?thesis
    using assms(3-5) L AB
    by (auto simp: branch_ok_def Let_def d epi bsize_def size_limit_def split: if_splits)
qed

lemma lockstep:
  assumes "\<not> j_needGen p" "j_needGen g" "same_input p g" "j_inst_num g = n" "j_idx g = j_idx p"
    and "j_idx (body_loop prog n p i) \<le> L" "L \<le> size_limit n"
    and "\<forall>x \<in> set (j_offsets g). unat x \<le> L" "j_epilogue g \<le> L"
  shows "j_idx (body_loop prog n g i) = j_idx (body_loop prog n p i) \<and>
    map (\<lambda>(k, s). (k, j_idx s)) (body_trace prog n g i) =
    map (\<lambda>(k, s). (k, j_idx s)) (body_trace prog n p i)"
  using assms
proof (induction p i arbitrary: g rule: body_induct [where n = n and prog = prog])
  case (step p i)
  have "j_idx g \<le> L"
    using body_loop_idx_mono [of p prog n i] step.prems(5,6) by simp
  then have ok: "branch_ok g i (prog ! i)"
    using step.prems branch_ok_gen by blast
  have st: "ret_of p i (prog ! i) = ret_of g i (prog ! i) \<and>
      length (code_of p i (prog ! i)) = length (code_of g i (prog ! i))"
    by (rule inst_code_size_stable [OF branch_ok_pre ok]) (use step.prems in simp_all)
  let ?g1 = "snd (build_inst g i (prog ! i))"
  have g1: "j_needGen ?g1" using step.prems(2) by simp
  show ?case
  proof (cases rule: body_turn [of prog n p i])
    case stop
    with step.prems body_loop_step [of prog n g i] body_trace_step [of prog n g i] show ?thesis
      by auto
  next
    case (skip p')
    with st body_loop_step [of prog n g i] body_trace_step [of prog n g i] step.prems(2)
    have "body_loop prog n g i = body_loop prog n ?g1 (i + 2)"
      "body_trace prog n g i = (i, g) # body_trace prog n ?g1 (i + 2)" by (simp_all add: Let_def)
    moreover have "j_idx (body_loop prog n ?g1 (i + 2)) = j_idx (body_loop prog n p' (i + 2)) \<and>
      map (\<lambda>(k, s). (k, j_idx s)) (body_trace prog n ?g1 (i + 2)) =
      map (\<lambda>(k, s). (k, j_idx s)) (body_trace prog n p' (i + 2))"
      unfolding skip(4)
      by (rule step.IH(1) [OF skip(1-3)]) (use step.prems st skip(4,5) in \<open>auto simp: same_input_def\<close>)
    ultimately show ?thesis using skip step.prems(5) by simp
  next
    case (err p')
    with st body_loop_step [of prog n g i] body_trace_step [of prog n g i] step.prems
    show ?thesis by (simp add: Let_def)
  next
    case (cont p')
    with st body_loop_step [of prog n g i] body_trace_step [of prog n g i] step.prems(2)
    have "body_loop prog n g i = body_loop prog n ?g1 (i + 1)"
      "body_trace prog n g i = (i, g) # body_trace prog n ?g1 (i + 1)" by (simp_all add: Let_def)
    moreover have "j_idx (body_loop prog n ?g1 (i + 1)) = j_idx (body_loop prog n p' (i + 1)) \<and>
      map (\<lambda>(k, s). (k, j_idx s)) (body_trace prog n ?g1 (i + 1)) =
      map (\<lambda>(k, s). (k, j_idx s)) (body_trace prog n p' (i + 1))"
      unfolding cont(4)
      by (rule step.IH(2) [OF cont(1-3)]) (use step.prems st cont(4,5) in \<open>auto simp: same_input_def\<close>)
    ultimately show ?thesis using cont step.prems(5) by simp
  qed
qed

lemma gen_trace_static:
  "(k, s) \<in> set (body_trace prog n g i) \<Longrightarrow> j_needGen g \<Longrightarrow>
     i \<le> k \<and> k < n \<and> j_needGen s \<and> j_offsets s = j_offsets g \<and> same_input g s \<and>
     j_epilogue s = j_epilogue g \<and> j_idx s + 2 * length (code_of s k (prog ! k)) \<le> j_idx (body_loop prog n g i)"
proof (induction g i rule: body_induct [where n = n and prog = prog])
  case (step g i)
  let ?g1 = "snd (build_inst g i (prog ! i))"
  have m: "j_idx ?g1 \<le> j_idx (body_loop prog n ?g1 j)" for j by (rule body_loop_idx_mono)
  show ?case
  proof (cases rule: body_turn [of prog n g i])
    case (skip g')
    then show ?thesis
      using step.IH(1) [OF skip(1-3)] step.prems m [of "i + 2"] by (auto simp: same_input_def)
  next
    case (err g')
    then show ?thesis using step.prems by (auto simp: same_input_def)
  next
    case (cont g')
    then show ?thesis
      using step.IH(2) [OF cont(1-3)] step.prems m [of "i + 1"] by (auto simp: same_input_def)
  qed (use step in simp)
qed

subsection \<open>The two passes of the compiler\<close>

lemma build_prologue_simps [simp]:
  "j_idx (build_prologue st) = j_idx st + 2 * length prologue_code"
  "j_insts (build_prologue st) = j_insts st"
  "j_inst_num (build_prologue st) = j_inst_num st"
  "j_offsets (build_prologue st) = j_offsets st"
  "j_call_base (build_prologue st) = j_call_base st"
  "j_needGen (build_prologue st) = j_needGen st"
  "j_epilogue (build_prologue st) = j_epilogue st"
  "length (j_code (build_prologue st)) = length (j_code st)"
  by (simp_all add: build_prologue_def)

abbreviation pre_start :: "jit_state \<Rightarrow> jit_state" where
  "pre_start st \<equiv> build_prologue (st\<lparr>j_idx := 0, j_needGen := False\<rparr>)"

abbreviation gen_start :: "jit_state \<Rightarrow> jit_state" where
  "gen_start st \<equiv> build_prologue ((pre_pass st)\<lparr>j_idx := 0, j_needGen := True\<rparr>)"

definition gen_trace :: "jit_state \<Rightarrow> (nat \<times> jit_state) list" where
  "gen_trace st = body_trace (j_insts st) (j_inst_num st) (gen_start st) 0"

text \<open>What the theorems below ask of a compilation: the code fits the short branches, and
  the offset table starts out zeroed, as \<open>jit_mem_allocate\<close> leaves it.\<close>

definition compact :: "jit_state \<Rightarrow> bool" where
  "compact st \<longleftrightarrow> j_epilogue (pre_pass st) \<le> size_limit (j_inst_num st) \<and>
     (\<forall>x \<in> set (j_offsets st). x = 0)"

lemma pre_pass_simps:
  "j_inst_num (pre_pass st) = j_inst_num st" "j_insts (pre_pass st) = j_insts st"
  "j_call_base (pre_pass st) = j_call_base st"
  "length (j_offsets (pre_pass st)) = length (j_offsets st)"
  "length (j_code (pre_pass st)) = length (j_code st)"
  "j_idx (pre_pass st) = j_epilogue (pre_pass st)"
  "j_offsets (pre_pass st) = j_offsets (body_loop (j_insts st) (j_inst_num st) (pre_start st) 0)"
  "j_epilogue (pre_pass st) = j_idx (body_loop (j_insts st) (j_inst_num st) (pre_start st) 0)"
  using body_loop_static [of "pre_start st" "j_insts st" "j_inst_num st" 0]
  by (simp_all add: pre_pass_def build_body_def Let_def same_input_def)

lemma passes_lockstep:
  assumes "compact st"
  shows "j_idx (gen_pass (pre_pass st)) = j_epilogue (pre_pass st) \<and>
    map (\<lambda>(k, s). (k, j_idx s)) (gen_trace st) =
    map (\<lambda>(k, s). (k, j_idx s)) (body_trace (j_insts st) (j_inst_num st) (pre_start st) 0)"
proof -
  let ?L = "j_epilogue (pre_pass st)"
  have L: "?L \<le> size_limit (j_inst_num st)" using assms by (simp add: compact_def)
  have "\<forall>x \<in> set (j_offsets (pre_pass st)). unat x \<le> ?L"
    unfolding pre_pass_simps(7)
    by (rule body_loop_offsets_bound)
       (use assms L size_limit_le [of "j_inst_num st"] in
        \<open>auto simp: compact_def pre_pass_simps(8)\<close>)
  then show ?thesis
    unfolding gen_pass_def build_body_def gen_trace_def pre_pass_simps(8) [symmetric]
    using lockstep [of "pre_start st" "gen_start st" "j_inst_num st" "j_insts st" 0 ?L] L
    by (simp add: same_input_def pre_pass_simps(1-5) pre_pass_simps(8) [symmetric])
qed

subsection \<open>Branches\<close>

lemma jump_ops_cases: "oc \<in> jump_ops \<Longrightarrow> BPF_CLASS oc = EBPF_CLS_JMP \<and> BPF_OP oc \<noteq> EBPF_JA \<and>
    oc \<noteq> EBPF_OP_CALL \<and> oc \<noteq> EBPF_OP_EXIT"
  by (auto simp: jump_ops_def opcode_val BPF_CLASS_def BPF_OP_def)

lemma inst_code_jump:
  assumes "opcode i \<in> jump_ops"
  shows "inst_code st pc i = ok_code (if BPF_SRC (opcode i) \<noteq> EBPF_SRC_REG \<and> i_off i = 0 then []
      else jump_head i @ emit_jump (j_inst_num st)
        (bpf2a32_offset st (int pc) (int pc + sint (i_off i)) (bsize st)) (BPF_OP (opcode i)))"
proof -
  have cls: "BPF_CLASS (opcode i) = 5" using jump_ops_cases [OF assms] by (simp add: opcode_val)
  have "opcode i \<notin> {EBPF_OP_MOV_IMM, EBPF_OP_MOV_REG, EBPF_OP_MOV64_IMM, EBPF_OP_MOV64_REG}"
    using cls by (auto simp: BPF_CLASS_def opcode_val)
  then have m: "build_mov i = None" unfolding build_mov_def Let_def by (simp only: if_False)
  have "opcode i \<notin> alu_ops"
    "opcode i \<notin> {EBPF_OP_DIV_IMM, EBPF_OP_DIV_REG, EBPF_OP_MOD_IMM, EBPF_OP_MOD_REG,
       EBPF_OP_DIV64_IMM, EBPF_OP_DIV64_REG, EBPF_OP_MOD64_IMM, EBPF_OP_MOD64_REG}"
    using cls by (auto simp: BPF_CLASS_def alu_ops_def opcode_val)
  then have a: "build_alu i = None" unfolding build_alu_def Let_def by (simp only: if_False)
  have "opcode i \<notin> {EBPF_OP_LSH_IMM, EBPF_OP_RSH_IMM, EBPF_OP_ARSH_IMM}"
    "opcode i \<noteq> EBPF_OP_LSH64_REG" "opcode i \<noteq> EBPF_OP_LSH64_IMM" "opcode i \<noteq> EBPF_OP_RSH64_REG"
    "opcode i \<noteq> EBPF_OP_RSH64_IMM" "opcode i \<noteq> EBPF_OP_ARSH64_REG" "opcode i \<noteq> EBPF_OP_ARSH64_IMM"
    "opcode i \<noteq> EBPF_OP_NEG" "opcode i \<noteq> EBPF_OP_NEG64"
    "opcode i \<notin> {EBPF_OP_MUL64_IMM, EBPF_OP_MUL64_REG}"
    "opcode i \<noteq> EBPF_OP_LE" "opcode i \<noteq> EBPF_OP_BE"
    using cls by (auto simp: BPF_CLASS_def opcode_val)
  then have s: "build_shift i = None"
    unfolding build_shift_def Let_def by (simp only: if_False simp_thms)
  have "opcode i \<noteq> EBPF_OP_LDDW"
    "opcode i \<notin> {EBPF_OP_LDXW, EBPF_OP_LDXH, EBPF_OP_LDXB, EBPF_OP_LDXDW}"
    "opcode i \<notin> {EBPF_OP_STW, EBPF_OP_STH, EBPF_OP_STB, EBPF_OP_STDW}"
    "opcode i \<notin> {EBPF_OP_STXW, EBPF_OP_STXH, EBPF_OP_STXB, EBPF_OP_STXDW}"
    using cls by (auto simp: BPF_CLASS_def opcode_val)
  then have "build_ldst st pc i = None"
    unfolding build_ldst_def Let_def by (simp only: if_False)
  with m a s assms show ?thesis
    by (simp add: inst_code_def or_else_def build_jump_def Let_def)
qed

lemma emit_jump_branch: "has_branch op \<Longrightarrow> \<exists>cond. emit_jump n d op = emit_b_cond n d cond"
  by (auto simp: emit_jump_def has_branch_def Let_def opcode_val)

lemma gen_trace_facts:
  assumes "compact st" "(k, s) \<in> set (gen_trace st)" "j_inst_num st \<le> length (j_offsets st)"
  shows "k < j_inst_num st \<and> j_needGen s \<and> j_offsets s = j_offsets (pre_pass st) \<and>
    j_inst_num s = j_inst_num st \<and> j_insts s = j_insts st \<and> branch_ok s k (j_insts st ! k) \<and>
    j_idx s + 2 * length (code_of s k (j_insts st ! k)) \<le> j_epilogue (pre_pass st) \<and>
    (0 < k \<longrightarrow> j_offsets (pre_pass st) ! (k - 1) = of_nat (j_idx s)) \<and>
    (ret_of s k (j_insts st ! k) = 0 \<longrightarrow>
       j_offsets (pre_pass st) ! k = of_nat (j_idx s + 2 * length (code_of s k (j_insts st ! k))))"
proof -
  let ?n = "j_inst_num st" and ?prog = "j_insts st" and ?L = "j_epilogue (pre_pass st)"
  have L: "?L \<le> size_limit ?n" using assms(1) by (simp add: compact_def)
  note gt = gen_trace_static [OF assms(2) [unfolded gen_trace_def]]
  have gs: "k < ?n" "j_needGen s" "j_offsets s = j_offsets (pre_pass st)" "j_inst_num s = ?n"
    "j_insts s = ?prog" "j_call_base s = j_call_base st" "j_epilogue s = ?L"
    using gt by (simp_all add: same_input_def pre_pass_simps)
  have "(k, j_idx s) \<in> set (map (\<lambda>(k, s). (k, j_idx s)) (gen_trace st))"
    using assms(2) by force
  then obtain s0 where s0: "(k, s0) \<in> set (body_trace ?prog ?n (pre_start st) 0)" "j_idx s0 = j_idx s"
    using passes_lockstep [OF assms(1)] by auto
  note pt = pre_trace_offsets [OF s0(1)]
  have le: "j_idx s \<le> ?L" using pt s0(2) by (simp add: pre_pass_simps(8))
  have bok: "branch_ok s k (?prog ! k)"
  proof (rule branch_ok_gen)
    show "\<forall>x \<in> set (j_offsets s). unat x \<le> ?L"
      unfolding gs(3) pre_pass_simps(7)
      by (rule body_loop_offsets_bound)
         (use assms(1) L size_limit_le [of ?n] in \<open>auto simp: compact_def pre_pass_simps(8)\<close>)
  qed (use gs le L in simp_all)
  have fin: "j_idx s + 2 * length (code_of s k (?prog ! k)) \<le> ?L"
    using gt passes_lockstep [OF assms(1)]
    by (simp add: gen_pass_def build_body_def pre_pass_simps(1,2))
  have "same_input s0 s" "\<not> j_needGen s0" using pt gs by (auto simp: same_input_def)
  with bok have st: "ret_of s0 k (?prog ! k) = ret_of s k (?prog ! k)"
    "length (code_of s0 k (?prog ! k)) = length (code_of s k (?prog ! k))"
    using inst_code_size_stable [OF branch_ok_pre] by blast+
  show ?thesis
    using pt gs st s0(2) assms(3) bok fin
    by (simp add: pre_pass_simps(7) del: of_nat_add of_nat_mult)
qed

lemma of_nat_diff_sint:
  assumes "a \<le> 2042" "b \<le> 2042" "unat c \<le> 4"
  shows "sint (of_nat a - (of_nat b - c) - 4 :: u32) = int a - int b + int (unat c) - 4"
proof -
  have "unat (of_nat a :: u32) = a" "unat (of_nat b :: u32) = b"
    using assms by (simp_all add: unat_of_nat)
  with sint_small_diff [of "of_nat a" "of_nat b" c] assms show ?thesis by metis
qed

end
