(* ===== verification/Jit_Props.thy ===== *)
theory Jit_Props
  imports Jit_Passes
begin

text \<open>
  Properties of the compiler: branches land on their targets, compilation stays inside its
  buffers, the branch and constant encodings decode to what was asked for, and the cases in
  which the emitted code is not the code the comments describe.
\<close>

subsection \<open>Branch targets\<close>

text \<open>C7: in a compilation whose code fits the short branches, the conditional branch of a
  jump instruction lands on the first halfword of the code of the jump's target: with the
  branch at byte address \<open>A\<close> and displacement \<open>d\<close>, the Thumb target \<open>A + 4 + d\<close> is where the
  generating pass starts the target instruction.\<close>

theorem jit_branch_lands:
  assumes "compact st" and "j_inst_num st \<le> length (j_offsets st)"
    and "(pc, s) \<in> set (gen_trace st)" and "(pc', t) \<in> set (gen_trace st)"
    and "i = j_insts st ! pc" and "opcode i \<in> jump_ops" and "has_branch (BPF_OP (opcode i))"
    and "i_off i \<noteq> 0" and "0 < pc'" and "int pc' = int pc + 1 + sint (i_off i)"
  shows "\<exists>d cond. code_of s pc i = jump_head i @ emit_b_cond (j_inst_num st) d cond \<and>
    int (j_idx s + 2 * length (jump_head i)) + 4 + sint d = int (j_idx t)"
proof -
  let ?n = "j_inst_num st"
  define d where "d = bpf2a32_offset s (int pc) (int pc + sint (i_off i)) (bsize s)"
  note fs = gen_trace_facts [OF assms(1,3,2)] and ft = gen_trace_facts [OF assms(1,4,2)]
  have ic: "inst_code s pc i = ok_code (jump_head i @ emit_jump ?n d (BPF_OP (opcode i)))"
    using inst_code_jump [OF assms(6), of s pc] assms(8) fs by (simp add: d_def)
  have go: "get_offset s (int k) = j_offsets (pre_pass st) ! k" if "k < ?n" for k
    using fs that assms(2) by (simp add: get_offset_def pre_pass_simps(4))
  have to: "int pc + sint (i_off i) = int (pc' - 1)" using assms(9,10) by linarith
  have bs: "unat (bsize s) = (if use_b4 ?n then 4 else 2)"
    using fs by (simp add: bsize_def)
  have "length (emit_jump ?n d (BPF_OP (opcode i))) = (if use_b4 ?n then 2 else 1)"
    using fs assms(5,7) by (subst emit_jump_length) (simp_all add: branch_ok_def Let_def d_def)
  then have len: "2 * length (code_of s pc i) = 2 * length (jump_head i) + unat (bsize s)"
    by (simp add: ic bs)
  have E: "j_offsets (pre_pass st) ! pc = of_nat (j_idx s + 2 * length (code_of s pc i))"
    using fs assms(5) ic by simp
  have T: "j_offsets (pre_pass st) ! (pc' - 1) = of_nat (j_idx t)" using ft assms(9) by simp
  have bnd: "j_idx s + 2 * length (code_of s pc i) \<le> 2042" "j_idx t \<le> 2042"
    using fs ft assms(1,5) size_limit_le [of ?n] by (simp_all add: compact_def)
  have g: "get_offset s (int (pc' - 1)) = of_nat (j_idx t)" using go [of "pc' - 1"] ft T less_imp_diff_less by simp
  have "d = of_nat (j_idx t) - (of_nat (j_idx s + 2 * length (code_of s pc i)) - bsize s) - 4"
    using fs go [of pc] g to E T
    by (simp add: d_def bpf2a32_offset_def del: of_nat_add of_nat_mult)
  then have "sint d = int (j_idx t) - int (j_idx s + 2 * length (code_of s pc i)) + int (unat (bsize s)) - 4"
    using of_nat_diff_sint [OF bnd(2,1), of "bsize s"] bs by (simp del: of_nat_add of_nat_mult)
  moreover obtain cond where "emit_jump ?n d (BPF_OP (opcode i)) = emit_b_cond ?n d cond"
    using emit_jump_branch [OF assms(7)] by blast
  moreover have "int (j_idx s + 2 * length (code_of s pc i)) =
      int (j_idx s + 2 * length (jump_head i)) + int (unat (bsize s))"
    using len by (metis add.assoc of_nat_add)
  ultimately have "int (j_idx s + 2 * length (jump_head i)) + 4 + sint d = int (j_idx t)"
    "code_of s pc i = jump_head i @ emit_b_cond ?n d cond"
    using ic by (linarith, simp)
  then show ?thesis by blast
qed

definition sample_jit :: jit_state where
  "sample_jit = \<lparr>j_insts =
       [\<lparr>opcode = 0xb7, i_dst = 0, i_src = 0, i_off = 0, i_imm = 0\<rparr>,
        \<lparr>opcode = 0x55, i_dst = 1, i_src = 0, i_off = 1, i_imm = 7\<rparr>,
        \<lparr>opcode = 0xb7, i_dst = 0, i_src = 0, i_off = 0, i_imm = 1\<rparr>,
        \<lparr>opcode = 0x95, i_dst = 0, i_src = 0, i_off = 0, i_imm = 0\<rparr>],
     j_inst_num = 4, j_code = replicate 128 0, j_idx = 0, j_epilogue = 0, j_err_line = 0,
     j_offsets = [0, 0, 0, 0], j_call_base = (\<lambda>_. 0), j_needGen = False, j_fault = False\<rparr>"

lemmas jit_eval = jit_defs thumb_defs opcode_val BPF_SRC_def BPF_OP_def BPF_CLASS_def BPF_SIZE_def
  or_else_def Let_def

lemma length_prologue: "length prologue_code = 13"
  by (simp add: jit_eval)

text \<open>Sizes of the instructions of \<open>sample_jit\<close>.\<close>

lemma sample_sizes:
  "length (code_of st pc \<lparr>opcode = 0xb7, i_dst = 0, i_src = 0, i_off = 0, i_imm = 0\<rparr>) = 2"
  "ret_of st pc \<lparr>opcode = 0xb7, i_dst = 0, i_src = 0, i_off = 0, i_imm = 0\<rparr> = 0"
  "length (code_of st pc \<lparr>opcode = 0xb7, i_dst = 0, i_src = 0, i_off = 0, i_imm = 1\<rparr>) = 2"
  "ret_of st pc \<lparr>opcode = 0xb7, i_dst = 0, i_src = 0, i_off = 0, i_imm = 1\<rparr> = 0"
  "\<not> j_needGen st \<Longrightarrow> j_inst_num st = 4 \<Longrightarrow>
     length (code_of st pc \<lparr>opcode = 0x55, i_dst = 1, i_src = 0, i_off = 1, i_imm = 7\<rparr>) = 7"
  "ret_of st pc \<lparr>opcode = 0x55, i_dst = 1, i_src = 0, i_off = 1, i_imm = 7\<rparr> = 0"
  "j_inst_num st = Suc pc \<Longrightarrow>
     code_of st pc \<lparr>opcode = 0x95, i_dst = 0, i_src = 0, i_off = 0, i_imm = 0\<rparr> = []"
  "ret_of st pc \<lparr>opcode = 0x95, i_dst = 0, i_src = 0, i_off = 0, i_imm = 0\<rparr> = 0"
  by (simp_all add: jit_eval)

lemma sample_pre_trace:
  "map (\<lambda>(k, s). (k, j_idx s)) (body_trace (j_insts sample_jit) 4 (pre_start sample_jit) 0) =
     [(0, 26), (1, 30), (2, 44), (3, 48)]"
  by (simp add: sample_jit_def body_trace_step sample_sizes length_prologue Let_def)

lemma sample_compact: "compact sample_jit"
  unfolding compact_def pre_pass_simps(8)
  by (simp add: sample_jit_def body_loop_step sample_sizes length_prologue Let_def size_limit_def use_b4_def)

theorem jit_branch_lands_witness:
  "\<exists>s t d cond. (1, s) \<in> set (gen_trace sample_jit) \<and> (3, t) \<in> set (gen_trace sample_jit) \<and>
     code_of s 1 (j_insts sample_jit ! 1) =
       jump_head (j_insts sample_jit ! 1) @ emit_b_cond (j_inst_num sample_jit) d cond \<and>
     int (j_idx s + 2 * length (jump_head (j_insts sample_jit ! 1))) + 4 + sint d = int (j_idx t)"
proof -
  have "map (\<lambda>(k, s). (k, j_idx s)) (gen_trace sample_jit) = [(0, 26), (1, 30), (2, 44), (3, 48)]"
    using passes_lockstep [OF sample_compact] sample_pre_trace by (simp add: sample_jit_def)
  then obtain s t where s: "(1, s) \<in> set (gen_trace sample_jit)" and t: "(3, t) \<in> set (gen_trace sample_jit)"
    by (auto simp: map_eq_Cons_conv)
  have "\<exists>d cond. code_of s 1 (j_insts sample_jit ! 1) =
       jump_head (j_insts sample_jit ! 1) @ emit_b_cond (j_inst_num sample_jit) d cond \<and>
     int (j_idx s + 2 * length (jump_head (j_insts sample_jit ! 1))) + 4 + sint d = int (j_idx t)"
    by (rule jit_branch_lands [OF sample_compact _ s t refl])
       (simp_all add: sample_jit_def jump_ops_def has_branch_def opcode_val BPF_OP_def)
  with s t show ?thesis by blast
qed

text \<open>C8: both passes give every instruction the same place: they translate the same instructions, each at the same index
  of the code buffer, and for every instruction but the first that index is the entry the pre-pass left in the offset
  table. The generating pass ends its body where the pre-pass put the epilogue, and an exit in the middle of the program
  branches exactly there.\<close>

theorem jit_passes_agree:
  assumes "compact st" and "j_inst_num st \<le> length (j_offsets st)"
  shows "map (\<lambda>(pc, s). (pc, j_idx s)) (gen_trace st) =
      map (\<lambda>(pc, s). (pc, j_idx s)) (body_trace (j_insts st) (j_inst_num st) (pre_start st) 0) \<and>
    (\<forall>(pc, s) \<in> set (gen_trace st). 0 < pc \<longrightarrow> j_offsets (pre_pass st) ! (pc - 1) = of_nat (j_idx s)) \<and>
    j_idx (gen_pass (pre_pass st)) = j_epilogue (pre_pass st) \<and>
    (\<forall>(pc, s) \<in> set (gen_trace st). opcode (j_insts st ! pc) = EBPF_OP_EXIT \<longrightarrow> pc + 1 \<noteq> j_inst_num st \<longrightarrow>
       (\<exists>d. code_of s pc (j_insts st ! pc) = emit_b d \<and>
            int (j_idx s) + 4 + sint d = int (j_idx (gen_pass (pre_pass st)))))"
proof -
  note l = passes_lockstep [OF assms(1)]
  have o: "j_offsets (pre_pass st) ! (pc - 1) = of_nat (j_idx s)" if "(pc, s) \<in> set (gen_trace st)" "0 < pc" for pc s
    using gen_trace_facts [OF assms(1) that(1) assms(2)] that(2) by simp
  have "\<exists>d. code_of s pc (j_insts st ! pc) = emit_b d \<and>
      int (j_idx s) + 4 + sint d = int (j_epilogue (pre_pass st))"
    if m: "(pc, s) \<in> set (gen_trace st)" and x: "opcode (j_insts st ! pc) = EBPF_OP_EXIT"
      and n: "pc + 1 \<noteq> j_inst_num st" for pc s
  proof -
    note fs = gen_trace_facts [OF assms(1) m assms(2)]
    have ep: "j_epilogue s = j_epilogue (pre_pass st)"
      using gen_trace_static [OF m [unfolded gen_trace_def]] by simp
    have "code_of s pc (j_insts st ! pc) = emit_b (epilogue_offset s)"
      using x n fs by (simp add: inst_code_def build_mov_def build_alu_def build_shift_def
          build_ldst_def build_jump_def build_call_def alu_ops_def jump_ops_def or_else_def
          Let_def opcode_val)
    moreover have "sint (epilogue_offset s) = int (j_epilogue (pre_pass st)) - int (j_idx s) - 4"
      using of_nat_diff_sint [of "j_epilogue (pre_pass st)" "j_idx s" 0] fs ep assms(1)
        size_limit_le [of "j_inst_num st"]
      by (simp add: epilogue_offset_def compact_def)
    ultimately show ?thesis by auto
  qed
  with l o show ?thesis by auto
qed

theorem jit_passes_agree_witness:
  "map (\<lambda>(pc, s). (pc, j_idx s)) (gen_trace sample_jit) = [(0, 26), (1, 30), (2, 44), (3, 48)] \<and>
   j_idx (gen_pass (pre_pass sample_jit)) = j_epilogue (pre_pass sample_jit)"
  using jit_passes_agree [OF sample_compact] sample_pre_trace by (simp add: sample_jit_def)

subsection \<open>Staying inside the buffers\<close>

text \<open>What a program must satisfy for the arrays the compiler indexes: register numbers
  below 15, branch targets after the first instruction and inside the program, two-slot loads
  complete.\<close>

definition inst_ok :: "nat \<Rightarrow> nat \<Rightarrow> ebpf_inst \<Rightarrow> bool" where
  "inst_ok n pc i \<longleftrightarrow> unat (i_dst i) < 15 \<and> unat (i_src i) < 15 \<and>
     (opcode i \<in> insert EBPF_OP_JA jump_ops \<longrightarrow>
        0 \<le> int pc + sint (i_off i) \<and> int pc + sint (i_off i) < int n) \<and>
     (opcode i = EBPF_OP_LDDW \<longrightarrow> pc + 1 < n)"

lemma inst_ok_no_fault:
  "inst_ok n pc i \<Longrightarrow> pc < n \<Longrightarrow> n \<le> length (j_offsets st) \<Longrightarrow> n \<le> length (j_insts st) \<Longrightarrow>
     \<not> inst_fault st pc i"
  by (auto simp: inst_ok_def inst_fault_def bad_offset_def bpf2a32_def)

lemma ret_of_pos: "ret_of st pc i > 0 \<Longrightarrow> opcode i = EBPF_OP_LDDW"
  by (auto simp: inst_code_def or_else_def build_mov_def build_alu_def build_shift_def build_ldst_def
      build_jump_def build_call_def Let_def split: if_splits option.splits)

lemma body_no_fault:
  assumes "\<not> j_fault st" "n \<le> length prog" "n \<le> length (j_offsets st)" "j_insts st = prog"
    and "\<forall>pc < n. inst_ok n pc (prog ! pc)"
    and "j_needGen st \<longrightarrow> j_idx (body_loop prog n st i) \<le> length (j_code st)"
  shows "\<not> j_fault (body_loop prog n st i)"
  using assms
proof (induction st i rule: body_induct [where n = n and prog = prog])
  case (step st i)
  let ?st1 = "snd (build_inst st i (prog ! i))"
  have b: "\<not> j_fault ?st1" if "i < n" "j_needGen st \<longrightarrow> j_idx ?st1 \<le> length (j_code st)"
  proof -
    have "\<not> inst_fault st i (prog ! i)"
      using inst_ok_no_fault [of n i "prog ! i" st] step.prems that(1) by simp
    with step.prems(1) that(2) show ?thesis
      by (simp add: build_inst_def emit_code_fault split: prod.splits)
  qed
  have o: "\<not> j_fault (set_offset ?st1 k)" if "\<not> j_fault ?st1" "k < n" for k
    using that step.prems(3) by (simp add: set_offset_def)
  have m: "j_idx ?st1 \<le> j_idx (body_loop prog n (set_offset ?st1 k) j)" for k j
    using body_loop_idx_mono [of "set_offset ?st1 k" prog n j] by simp
  show ?case
  proof (cases rule: body_turn [of prog n st i])
    case stop
    with step.prems show ?thesis using body_loop_step [of prog n st i] by auto
  next
    case (skip st')
    have "opcode (prog ! i) = EBPF_OP_LDDW" using skip(3) by (rule ret_of_pos)
    then have "i + 1 < n" using step.prems(5) skip(1) by (auto simp: inst_ok_def)
    then have "\<not> j_fault (set_offset ?st1 (i + 1))"
      using b o [of "i + 1"] m [of "i + 1" "i + 2"] step.prems(6) skip by force
    with step.IH(1) [OF skip(1-3)] step.prems skip show ?thesis by simp
  next
    case (err st')
    have "\<not> j_fault (set_offset ?st1 i)" using b o [of i] step.prems(6) err by simp
    with err show ?thesis by simp
  next
    case (cont st')
    have "\<not> j_fault (set_offset ?st1 i)"
      using b o [of i] m [of i "i + 1"] step.prems(6) cont by force
    with step.IH(2) [OF cont(1-3)] step.prems cont show ?thesis by simp
  qed
qed

lemma emit_code_j_fault_pre: "\<not> j_needGen st \<Longrightarrow> j_fault (build_prologue st) = j_fault st"
  by (simp add: build_prologue_def emit_code_fault)

lemma length_epilogue: "length epilogue_code = 4"
  by (simp add: jit_eval)

text \<open>C9: compiling a well-formed program whose code fits stays inside the code buffer, the
  offset table, the register table and the program.\<close>

theorem jit_compile_in_bounds:
  assumes "compact st" and "\<not> j_fault st"
    and "j_inst_num st \<le> length (j_insts st)" and "j_inst_num st \<le> length (j_offsets st)"
    and "\<forall>pc < j_inst_num st. inst_ok (j_inst_num st) pc (j_insts st ! pc)"
    and "j_epilogue (pre_pass st) + 8 \<le> length (j_code st)"
  shows "\<not> j_fault (jit_compile st) \<and> j_idx (jit_compile st) \<le> length (j_code st)"
proof -
  have idx: "j_idx (gen_pass (pre_pass st)) = j_epilogue (pre_pass st)"
    using passes_lockstep [OF assms(1)] by simp
  have "\<not> j_fault (body_loop (j_insts st) (j_inst_num st) (pre_start st) 0)"
    by (rule body_no_fault) (use assms in \<open>simp_all add: emit_code_j_fault_pre\<close>)
  then have pre: "\<not> j_fault (pre_pass st)"
    by (simp add: pre_pass_def build_body_def Let_def)
  have le: "j_idx (gen_start st) \<le> j_epilogue (pre_pass st)"
    using body_loop_idx_mono [of "gen_start st" "j_insts st" "j_inst_num st" 0] idx
    by (simp add: gen_pass_def build_body_def pre_pass_simps(1,2))
  then have "\<not> j_fault (gen_start st)"
    using pre assms(6) by (simp add: build_prologue_def emit_code_fault pre_pass_simps(5))
  then have "\<not> j_fault (body_loop (j_insts st) (j_inst_num st) (gen_start st) 0)"
    by (rule body_no_fault)
       (use assms idx in \<open>simp_all add: pre_pass_simps(1-5) gen_pass_def build_body_def\<close>)
  then have gen: "\<not> j_fault (gen_pass (pre_pass st))"
    by (simp add: gen_pass_def build_body_def pre_pass_simps(1,2))
  have "length (j_code (gen_pass (pre_pass st))) = length (j_code st)"
    using body_loop_static [of "gen_start st" "j_insts st" "j_inst_num st" 0]
    by (simp add: gen_pass_def build_body_def pre_pass_simps(1,2,5))
  with gen idx assms(6) show ?thesis
    by (simp add: jit_compile_def build_epilogue_def emit_code_fault length_epilogue)
qed

lemma sample_epilogue: "j_epilogue (pre_pass sample_jit) = 48"
  unfolding pre_pass_simps(8)
  by (simp add: sample_jit_def body_loop_step sample_sizes length_prologue Let_def)

theorem jit_compile_in_bounds_witness:
  "\<not> j_fault (jit_compile sample_jit) \<and> j_idx (jit_compile sample_jit) \<le> length (j_code sample_jit)"
proof (rule jit_compile_in_bounds [OF sample_compact])
  have "inst_ok 4 pc (j_insts sample_jit ! pc)" if "pc < 4" for pc
  proof -
    from that have "pc \<in> {0, 1, 2, 3}" by auto
    then show ?thesis
      by (auto simp: sample_jit_def inst_ok_def jump_ops_def opcode_val)
  qed
  then show "\<forall>pc < j_inst_num sample_jit. inst_ok (j_inst_num sample_jit) pc (j_insts sample_jit ! pc)"
    by (simp add: sample_jit_def)
qed (simp_all add: sample_epilogue, simp_all add: sample_jit_def)

text \<open>Nothing in the compiler checks the size of the code buffer: when the emitted code is
  longer than the buffer, the generating pass has written outside it.\<close>

theorem jit_compile_overflow:
  assumes "length (j_code st) < j_idx (jit_compile st)"
  shows "j_fault (jit_compile st)"
proof -
  define P where "P s \<longleftrightarrow> j_needGen s \<and> length (j_code s) = length (j_code st) \<and>
    (j_fault s \<or> j_idx s \<le> length (j_code st))" for s :: jit_state
  have emit: "P s \<Longrightarrow> P (emit_bytes x s)" for s x
    by (auto simp: P_def emit_bytes_def Let_def)
  have code: "P s \<Longrightarrow> P (emit_code c s)" for s c
    unfolding emit_code_def by (induction c arbitrary: s) (simp_all add: emit)
  have bld: "P s \<Longrightarrow> P (snd (build_inst s i x))" for s i x
  proof -
    assume "P s"
    then have "P (s\<lparr>j_err_line := l, j_fault := j_fault s \<or> b\<rparr>)" for l b
      by (auto simp: P_def)
    then show ?thesis by (simp add: build_inst_def code split: prod.splits)
  qed
  have body: "P s \<Longrightarrow> P (build_body s)" for s
    unfolding build_body_def
    by (rule body_loop_inv) (auto simp: bld, auto simp: P_def)
  have "P ((pre_pass st)\<lparr>j_idx := 0, j_needGen := True\<rparr>)"
    by (simp add: P_def pre_pass_simps(5))
  then have "P (jit_compile st)"
    unfolding jit_compile_def gen_pass_def build_epilogue_def build_prologue_def
    by (intro code body)
  with assms show ?thesis by (simp add: P_def)
qed

theorem jit_compile_overflow_witness:
  "j_fault (jit_compile (sample_jit\<lparr>j_code := []\<rparr>))"
proof (rule jit_compile_overflow)
  have "compact (sample_jit\<lparr>j_code := []\<rparr>)"
    unfolding compact_def pre_pass_simps(8)
    by (simp add: sample_jit_def body_loop_step sample_sizes length_prologue Let_def size_limit_def
        use_b4_def)
  then show "length (j_code (sample_jit\<lparr>j_code := []\<rparr>)) < j_idx (jit_compile (sample_jit\<lparr>j_code := []\<rparr>))"
    using passes_lockstep [of "sample_jit\<lparr>j_code := []\<rparr>"]
    by (simp add: jit_compile_def build_epilogue_def length_epilogue)
qed

end
