(* ===== verification/Jit_Encode.thy ===== *)
theory Jit_Encode
  imports Jit_Props
begin

text \<open>
  The encodings read back: the decoders below follow the ARMv7-M reference (A7.7.12 for the
  branches, A7.7.76 and A7.7.79 for the moves), and the theorems state that what the emitters
  write decodes to the branch and to the constant that was asked for. The last part states
  the cases in which the emitted code is not the code the comments describe.
\<close>

subsection \<open>Decoders\<close>

text \<open>\<open>B<c>\<close> T1: \<open>1101 cond imm8\<close>, displacement \<open>SignExtend(imm8:0)\<close>.\<close>

definition decode_B_T1 :: "u16 \<Rightarrow> (u8 \<times> int) option" where
  "decode_B_T1 w = (if drop_bit 12 w = 0xd
     then Some (ucast (drop_bit 8 w AND 0xf), 2 * sint (ucast w :: 8 word)) else None)"

text \<open>\<open>B\<close> T2: \<open>11100 imm11\<close>, displacement \<open>SignExtend(imm11:0)\<close>.\<close>

definition decode_B_T2 :: "u16 \<Rightarrow> int option" where
  "decode_B_T2 w = (if drop_bit 11 w = 0x1c then Some (2 * sint (ucast w :: 11 word)) else None)"

text \<open>\<open>B<c>.W\<close> T3: \<open>11110 S cond imm6 | 10 J1 0 J2 imm11\<close>, displacement
  \<open>SignExtend(S:J2:J1:imm6:imm11:0)\<close>; \<open>h\<close> is the leading halfword.\<close>

definition imm_BW_T3 :: "u16 \<Rightarrow> u16 \<Rightarrow> 20 word" where
  "imm_BW_T3 h l = push_bit 19 (ucast (drop_bit 10 h AND 1)) OR push_bit 18 (ucast (drop_bit 11 l AND 1))
     OR push_bit 17 (ucast (drop_bit 13 l AND 1)) OR push_bit 11 (ucast (h AND 0x3f)) OR ucast (l AND 0x7ff)"

definition decode_BW_T3 :: "u16 \<Rightarrow> u16 \<Rightarrow> (u8 \<times> int) option" where
  "decode_BW_T3 h l = (if drop_bit 11 h = 0x1e \<and> drop_bit 14 l = 2 \<and> drop_bit 12 l AND 1 = 0
     then Some (ucast (drop_bit 6 h AND 0xf), 2 * sint (imm_BW_T3 h l)) else None)"

definition decode_b_cond :: "code \<Rightarrow> (u8 \<times> int) option" where
  "decode_b_cond c = (case c of [w] \<Rightarrow> decode_B_T1 w | [h, l] \<Rightarrow> decode_BW_T3 h l | _ \<Rightarrow> None)"

text \<open>The moves: \<open>MOVS\<close> T1 \<open>00100 Rd imm8\<close>, \<open>MOVW\<close> T3 \<open>11110 i 100100 imm4 | 0 imm3 Rd imm8\<close> and
  \<open>MOVT\<close> T1 \<open>11110 i 101100 imm4 | 0 imm3 Rd imm8\<close>, run on a register file.\<close>

definition imm16_of :: "u16 \<Rightarrow> u16 \<Rightarrow> u16" where
  "imm16_of h l = push_bit 12 (h AND 0xf) OR push_bit 11 (drop_bit 10 h AND 1)
     OR push_bit 8 (drop_bit 12 l AND 7) OR (l AND 0xff)"

definition wide_rd :: "u16 \<Rightarrow> u8" where
  "wide_rd l = ucast (drop_bit 8 l AND 0xf)"

fun exec_movs :: "code \<Rightarrow> (u8 \<Rightarrow> u32) \<Rightarrow> (u8 \<Rightarrow> u32) option" where
  "exec_movs [] r = Some r"
| "exec_movs [h] r =
     (if drop_bit 11 h = 4 then Some (r(ucast (drop_bit 8 h AND 7) := ucast (h AND 0xff))) else None)"
| "exec_movs (h # l # c) r =
     (if drop_bit 11 h = 4 then exec_movs (l # c) (r(ucast (drop_bit 8 h AND 7) := ucast (h AND 0xff)))
      else if h AND 0xfbf0 = 0xf240 \<and> drop_bit 15 l = 0 then
        exec_movs c (r(wide_rd l := ucast (imm16_of h l)))
      else if h AND 0xfbf0 = 0xf2c0 \<and> drop_bit 15 l = 0 then
        exec_movs c (r(wide_rd l := push_bit 16 (ucast (imm16_of h l)) OR (r (wide_rd l) AND 0xffff)))
      else None)"

subsection \<open>Fields of the branches\<close>

lemma T1_fields:
  assumes "cond < 16"
  shows "drop_bit 12 (thumb16_B_T1 off cond) = 0xd"
    and "(ucast (drop_bit 8 (thumb16_B_T1 off cond) AND 0xf) :: u8) = cond"
    and "(ucast (thumb16_B_T1 off cond) :: 8 word) = ucast (drop_bit 1 off)"
proof -
  note c = nibble_bits [OF assms]
  show "drop_bit 12 (thumb16_B_T1 off cond) = 0xd"
    by (rule all_bits_16, elim insertE emptyE; simp add: thumb_defs bit_simps c)
  show "(ucast (drop_bit 8 (thumb16_B_T1 off cond) AND 0xf) :: u8) = cond"
    by (rule all_bits_8, elim insertE emptyE; simp add: thumb_defs bit_simps c)
  show "(ucast (thumb16_B_T1 off cond) :: 8 word) = ucast (drop_bit 1 off)"
    by (rule all_bits_8, elim insertE emptyE; simp add: thumb_defs bit_simps c)
qed

lemma T2_fields:
  shows "drop_bit 11 (thumb16_B_T2 off) = 0x1c"
    and "(ucast (thumb16_B_T2 off) :: 11 word) = ucast (drop_bit 1 off)"
proof -
  show "drop_bit 11 (thumb16_B_T2 off) = 0x1c"
    by (rule all_bits_16, elim insertE emptyE; simp add: thumb_defs bit_simps)
  show "(ucast (thumb16_B_T2 off) :: 11 word) = ucast (drop_bit 1 off)"
    by (rule all_bits_11, elim insertE emptyE; simp add: thumb_defs bit_simps)
qed

lemma T3_fields:
  fixes off :: s32 and cond :: s8
  assumes "cond < 16"
  defines "h \<equiv> ucast (drop_bit 16 (thumb32_BW_T3 off cond)) :: u16"
    and "l \<equiv> ucast (thumb32_BW_T3 off cond) :: u16"
  shows "drop_bit 11 h = 0x1e" and "drop_bit 14 l = 2" and "drop_bit 12 l AND 1 = 0"
    and "(ucast (drop_bit 6 h AND 0xf) :: u8) = cond"
proof -
  note c = nibble_bits [OF assms(1)]
  show "drop_bit 11 h = 0x1e" unfolding h_def
    by (rule all_bits_16, elim insertE emptyE; simp add: thumb_defs bit_simps c)
  show "drop_bit 14 l = 2" unfolding l_def
    by (rule all_bits_16, elim insertE emptyE; simp add: thumb_defs bit_simps c)
  show "drop_bit 12 l AND 1 = 0" unfolding l_def
    by (rule all_bits_16, elim insertE emptyE; simp add: thumb_defs bit_simps c)
  show "(ucast (drop_bit 6 h AND 0xf) :: u8) = cond" unfolding h_def
    by (rule all_bits_8, elim insertE emptyE; simp add: thumb_defs bit_simps c)
qed

lemma T3_imm:
  assumes "cond < 16" and s: "(sint off < 0) = bit off 20"
  shows "imm_BW_T3 (ucast (drop_bit 16 (thumb32_BW_T3 off cond))) (ucast (thumb32_BW_T3 off cond))
    = ucast (drop_bit 1 off)"
  by (rule all_bits_20, elim insertE emptyE; simp add: imm_BW_T3_def thumb_defs bit_simps s nibble_bits [OF assms(1)])

subsection \<open>Branch displacements\<close>

lemma sign_bit_20:
  fixes off :: s32
  assumes "- 1048576 \<le> sint off" "sint off < 1048576"
  shows "(sint off < 0) = bit off 20"
proof -
  have "signed_take_bit 20 (sint off) = sint off"
    using assms by (simp add: signed_take_bit_int_eq_self)
  then have "bit (sint off) 20 = (sint off < 0)"
    by (metis signed_take_bit_negative_iff)
  then show ?thesis by (simp add: bit_sint_iff)
qed

text \<open>A conditional branch whose displacement is even and in the range of the T1 or T3 form
  is encoded as a branch under that condition with that displacement, read back with the
  decoding of the ARMv7-M reference.\<close>

theorem emit_b_cond_decodes:
  assumes "cond < 16" and "even off" and "- 1048576 < sint off" and "sint off < 1048574"
  shows "decode_b_cond (emit_b_cond n off cond) = Some (cond, sint off)"
proof (cases "\<not> use_b4 n \<and> sint off \<ge> - 256 \<and> sint off \<le> 254")
  case True
  moreover have "2 * sint (ucast (drop_bit 1 off) :: 8 word) = sint off"
    using True by (intro sint_half [OF assms(2)]) simp_all
  ultimately show ?thesis
    by (simp add: emit_b_cond_def emit2_def decode_b_cond_def decode_B_T1_def T1_fields [OF assms(1)])
next
  case False
  have "(sint off < 0) = bit off 20" using assms by (intro sign_bit_20) simp_all
  moreover have "2 * sint (ucast (drop_bit 1 off) :: 20 word) = sint off"
    using assms by (intro sint_half [OF assms(2)]) simp_all
  moreover have "emit_b_cond n off cond = emit4 (thumb32_BW_T3 off cond)"
    using False assms(3,4) unfolding emit_b_cond_def by (auto simp del: de_Morgan_conj)
  ultimately show ?thesis
    by (simp add: emit4_def emit2_def decode_b_cond_def decode_BW_T3_def T3_fields [OF assms(1)]
        T3_imm [OF assms(1)])
qed

theorem emit_b_cond_decodes_witness:
  "decode_b_cond (emit_b_cond 30 (- 6) COND_NE) = Some (COND_NE, - 6)"
  using emit_b_cond_decodes [of COND_NE "- 6" 30] by (simp add: thumb_defs)

lemma emit_b_decodes:
  assumes "even off" and "- 2048 < sint off" and "sint off < 2046"
  shows "\<exists>w. emit_b off = [w] \<and> decode_B_T2 w = Some (sint off)"
proof -
  have "2 * sint (ucast (drop_bit 1 off) :: 11 word) = sint off"
    using assms by (intro sint_half [OF assms(1)]) simp_all
  with assms(2,3) show ?thesis by (simp add: emit_b_def emit2_def decode_B_T2_def T2_fields)
qed

subsection \<open>Constants\<close>

lemma mov16_halves:
  fixes rd :: u8 and v :: u16
  assumes "rd < 16"
  defines "x \<equiv> 0xf2400000 :: u32" and "y \<equiv> 0xf2c00000 :: u32"
  shows "(ucast (drop_bit 16 (mov16 x rd v)) :: u16) AND 0xfbf0 = 0xf240"
    and "(ucast (drop_bit 16 (mov16 y rd v)) :: u16) AND 0xfbf0 = 0xf2c0"
    and "drop_bit 15 (ucast (mov16 x rd v) :: u16) = 0"
    and "drop_bit 15 (ucast (mov16 y rd v) :: u16) = 0"
    and "drop_bit 11 (ucast (drop_bit 16 (mov16 x rd v)) :: u16) \<noteq> 4"
    and "drop_bit 11 (ucast (drop_bit 16 (mov16 y rd v)) :: u16) \<noteq> 4"
    and "wide_rd (ucast (mov16 x rd v)) = rd" and "wide_rd (ucast (mov16 y rd v)) = rd"
    and "imm16_of (ucast (drop_bit 16 (mov16 x rd v))) (ucast (mov16 x rd v)) = v"
    and "imm16_of (ucast (drop_bit 16 (mov16 y rd v))) (ucast (mov16 y rd v)) = v"
proof -
  note d = x_def y_def mov16_def Let_def fl_def imm16_of_def wide_rd_def bit_simps nibble_bits [OF assms(1)]
  show "(ucast (drop_bit 16 (mov16 x rd v)) :: u16) AND 0xfbf0 = 0xf240"
    by (rule all_bits_16, elim insertE emptyE; simp add: d)
  show "(ucast (drop_bit 16 (mov16 y rd v)) :: u16) AND 0xfbf0 = 0xf2c0"
    by (rule all_bits_16, elim insertE emptyE; simp add: d)
  show "drop_bit 15 (ucast (mov16 x rd v) :: u16) = 0"
    by (rule all_bits_16, elim insertE emptyE; simp add: d)
  show "drop_bit 15 (ucast (mov16 y rd v) :: u16) = 0"
    by (rule all_bits_16, elim insertE emptyE; simp add: d)
  have "bit (drop_bit 11 (ucast (drop_bit 16 (mov16 x rd v)) :: u16)) 4" by (simp add: d)
  then show "drop_bit 11 (ucast (drop_bit 16 (mov16 x rd v)) :: u16) \<noteq> 4" by auto
  have "bit (drop_bit 11 (ucast (drop_bit 16 (mov16 y rd v)) :: u16)) 4" by (simp add: d)
  then show "drop_bit 11 (ucast (drop_bit 16 (mov16 y rd v)) :: u16) \<noteq> 4" by auto
  show "wide_rd (ucast (mov16 x rd v)) = rd" "wide_rd (ucast (mov16 y rd v)) = rd"
    by (rule all_bits_8, elim insertE emptyE; simp add: d)+
  show "imm16_of (ucast (drop_bit 16 (mov16 x rd v))) (ucast (mov16 x rd v)) = v"
    by (rule all_bits_16, elim insertE emptyE; simp add: d)
  show "imm16_of (ucast (drop_bit 16 (mov16 y rd v))) (ucast (mov16 y rd v)) = v"
    by (rule all_bits_16, elim insertE emptyE; simp add: d)
qed

lemma movs_fields:
  assumes "rd < 8" "val \<le> 0xff"
  defines "h \<equiv> ucast (0x2000 OR fl rd 8 OR val) :: u16"
  shows "drop_bit 11 h = 4" "(ucast (drop_bit 8 h AND 7) :: u8) = rd" "(ucast (h AND 0xff) :: u32) = val"
proof -
  have r: "\<not> bit rd n" if "3 \<le> n" for n
    using assms(1) that by (intro high_bits_clear [where m = 3]) (simp_all add: word_less_nat_alt)
  have v: "\<not> bit val n" if "8 \<le> n" for n
    using assms(2) that by (intro high_bits_clear [where m = 8]) (simp_all add: word_le_nat_alt)
  show "drop_bit 11 h = 4" unfolding h_def
    by (rule all_bits_16, elim insertE emptyE; simp add: fl_def bit_simps r v)
  show "(ucast (drop_bit 8 h AND 7) :: u8) = rd" unfolding h_def
    by (rule all_bits_8, elim insertE emptyE; simp add: fl_def bit_simps r v)
  show "(ucast (h AND 0xff) :: u32) = val"
  proof (rule bit_word_eqI)
    fix n assume "n < LENGTH(32)"
    show "bit (ucast (h AND 0xff) :: u32) n = bit val n"
    proof (cases "n < 8")
      case True
      then have "n \<in> {0,1,2,3,4,5,6,7}" by (rule less_8)
      then show ?thesis unfolding h_def by (elim insertE emptyE; simp add: fl_def bit_simps r v)
    next
      case False
      moreover have "\<not> bit (0xff :: u16) n"
        using False by (intro high_bits_clear [where m = 8]) simp_all
      ultimately show ?thesis by (simp add: bit_simps v)
    qed
  qed
qed

lemma join_halves: "push_bit 16 (ucast (ucast (drop_bit 16 val) :: u16)) OR
    ((ucast (ucast val :: u16) :: u32) AND 0xffff) = val" for val :: u32
proof (rule bit_word_eqI)
  fix n assume "n < LENGTH(32)"
  show "bit (push_bit 16 (ucast (ucast (drop_bit 16 val) :: u16)) OR
    ((ucast (ucast val :: u16) :: u32) AND 0xffff)) n = bit val n"
    using \<open>n < LENGTH(32)\<close> by (auto simp: bit_simps bit_low_half)
qed

text \<open>The moves emitted for a constant load exactly that constant into exactly that
  register, whatever its size and whatever the registers held.\<close>

theorem emit_mov_imm_loads:
  assumes "rd < 15"
  shows "exec_movs (emit_mov_imm rd val) r = Some (r(rd := val))"
proof (cases "val \<le> 0xff \<and> rd < 8")
  case True
  then show ?thesis by (simp add: emit_mov_imm_def emit2_def movs_fields)
next
  case False
  have rd: "rd < 16" using assms by (simp add: word_less_nat_alt)
  have lo: "ucast (ucast val :: u16) = val" if "\<not> 0xffff < val"
  proof -
    have "\<not> bit val n" if "16 \<le> n" for n
      using \<open>\<not> 0xffff < val\<close> that by (intro high_bits_clear [where m = 16]) (simp_all add: word_less_nat_alt)
    then show ?thesis by (intro bit_word_eqI) (auto simp: bit_simps not_le [symmetric])
  qed
  from False show ?thesis
    by (auto simp: emit_mov_imm_def emit4_def emit2_def mov16_halves [OF rd] lo join_halves)
qed

theorem emit_mov_imm_loads_witness:
  "exec_movs (emit_mov_imm 9 0x12345678) (\<lambda>_. 0) = Some ((\<lambda>_. 0)(9 := 0x12345678))"
  using emit_mov_imm_loads [of 9 "0x12345678" "\<lambda>_. 0"] by simp

subsection \<open>Where the emitted code differs from the intended one\<close>

text \<open>C40: the jumps on less-than compile to their comparison alone. The operation reaches
  \<open>_emit_jump\<close> as a signed byte, so \<open>JLT\<close>, \<open>JLE\<close>, \<open>JSLT\<close> and \<open>JSLE\<close> (0xa0 to 0xd0) match no case
  of its switch: no branch is emitted and the compiled program falls through.\<close>

theorem jit_drops_less_jumps:
  assumes "opcode i \<in> jump_ops" and "BPF_OP (opcode i) \<in> {EBPF_JLT, EBPF_JLE, EBPF_JSLT, EBPF_JSLE}"
    and "i_off i \<noteq> 0"
  shows "code_of st pc i = jump_head i \<and> ret_of st pc i = 0"
proof -
  have "emit_jump n d (BPF_OP (opcode i)) = []" for n d
    using assms(2) by (auto simp: emit_jump_def opcode_val Let_def)
  then show ?thesis using assms(3) by (simp add: inst_code_jump [OF assms(1)])
qed

theorem jit_drops_less_jumps_witness:
  "code_of sample_jit 1 \<lparr>opcode = 0xa5, i_dst = 1, i_src = 0, i_off = 1, i_imm = 7\<rparr> =
     jump_head \<lparr>opcode = 0xa5, i_dst = 1, i_src = 0, i_off = 1, i_imm = 7\<rparr>"
  using jit_drops_less_jumps [of "\<lparr>opcode = 0xa5, i_dst = 1, i_src = 0, i_off = 1, i_imm = 7\<rparr>" sample_jit 1]
  by (simp add: jump_ops_def opcode_val BPF_OP_def)

text \<open>\<open>STR\<close> T4 holds its base register in the low bits of the first halfword and the stored
  register in the high bits of the second. \<open>emit_str_reg\<close> puts the value where the base goes:
  the compiled store writes the address register at the address the value register holds.\<close>

theorem emit_str_reg_swaps:
  assumes "sint dst \<ge> 0" "dst < 16" "lw src < 16" "within off 0xfff"
  shows "\<exists>h l. emit_str_reg dst src off EBPF_SIZE_W = [h, l] \<and>
    (ucast (h AND 0xf) :: u8) = lw src \<and> (ucast (drop_bit 12 l) :: u8) = dst"
proof -
  note c = nibble_bits [OF assms(2)] nibble_bits [OF assms(3)]
  define x where "x = THUMB2_STR_IMM OR rg (lw src) 16 OR rg dst 12 OR
     push_bit 8 (8 OR push_bit 2 (flag_of ((scast off :: s32) \<noteq> 0))
       OR push_bit 1 (flag_of (sint (scast off :: s32) > 0))) OR ucast (ucast (abs32 (scast off)) :: u8)"
  have "emit_str_reg dst src off EBPF_SIZE_W = emit4 x"
    using assms(1,4) by (simp add: emit_str_reg_def arm_bpf_get_reg32_def is_stacked_def is_ldst_imm_def
        EBPF_SIZE_B_def EBPF_SIZE_H_def EBPF_SIZE_W_def emit_str_i_def x_def Let_def)
  moreover have "(ucast ((ucast (drop_bit 16 x) :: u16) AND 0xf) :: u8) = lw src"
    by (rule all_bits_8, elim insertE emptyE; simp add: x_def thumb_defs bit_simps c)
  moreover have "(ucast (drop_bit 12 (ucast x :: u16)) :: u8) = dst"
    by (rule all_bits_8, elim insertE emptyE; simp add: x_def thumb_defs bit_simps c)
  ultimately show ?thesis by (simp add: emit4_def emit2_def)
qed

theorem emit_str_reg_swaps_witness:
  "\<exists>h l. emit_str_reg 2 tmp2 8 EBPF_SIZE_W = [h, l] \<and>
    (ucast (h AND 0xf) :: u8) = lw tmp2 \<and> (ucast (drop_bit 12 l) :: u8) = 2"
  using emit_str_reg_swaps [of 2 tmp2 8] by (simp add: within_def tmp2_def bpf2a32_def TMP_REG_2_def)

end
