(* ===== verification/Ebpf_Vm_Props.thy ===== *)
theory Ebpf_Vm_Props
  imports Ebpf_Vm
begin

text \<open>
  Properties of the interpreter: the loop is bounded and refines the small-step relation,
  register indexing is safe for well-formed code, memory accesses round-trip, what the
  bounds check admits, and the zero extension of 32-bit results.
\<close>

lemmas step_defs = step_alu32_def step_endian_def step_alu64_def step_mem_def
  step_lddw_def step_jmp_def step_call_def

lemmas run_defs = vm_defs step_defs switch_def vm_step_def opcode_val Let_def

subsection \<open>The loop and the step relation\<close>

inductive vm_run :: "ebpf_helper_env option \<Rightarrow> ebpf_vm \<Rightarrow> vm_frame \<Rightarrow> nat \<Rightarrow> vm_state \<Rightarrow> vm_state \<Rightarrow> bool"
  for g vm f where
  run_zero: "vm_run g vm f 0 s s"
| run_suc: "vm_step g vm f s = Inr s1 \<Longrightarrow> vm_run g vm f n s1 s2 \<Longrightarrow> vm_run g vm f (Suc n) s s2"

inductive_simps vm_run_0 [simp]: "vm_run g vm f 0 s t"
inductive_simps vm_run_Suc [simp]: "vm_run g vm f (Suc n) s t"

lemma vm_loop_Inl: "vm_step g vm f s = Inl r \<Longrightarrow> vm_loop g vm f tick s = (r, s)"
  by (subst vm_loop.simps) simp

lemma vm_loop_Inr:
  "vm_step g vm f s = Inr s1 \<Longrightarrow>
     vm_loop g vm f tick s = (if tick > MAX_ITERS then (IterLimit, s1)
                              else vm_loop g vm f (Suc tick) s1)"
  by (subst vm_loop.simps) (simp add: iters_check_def)

lemma vm_loop_char:
  assumes "k + tick = MAX_ITERS + 1"
  shows "vm_loop g vm f tick s = (r, t) \<longleftrightarrow>
     (\<exists>n \<le> k. vm_run g vm f n s t \<and> vm_step g vm f t = Inl r) \<or>
     (r = IterLimit \<and> vm_run g vm f (Suc k) s t)"
  using assms
proof (induction k arbitrary: tick s)
  case 0
  show ?case
    by (cases "vm_step g vm f s") (use 0 in \<open>auto simp: vm_loop_Inl vm_loop_Inr\<close>)
next
  case (Suc k)
  show ?case
  proof (cases "vm_step g vm f s")
    case (Inl r')
    then show ?thesis
      by (auto simp: vm_loop_Inl elim: vm_run.cases)
  next
    case (Inr s1)
    have IH: "vm_loop g vm f (Suc tick) s1 = (r, t) \<longleftrightarrow>
      (\<exists>n \<le> k. vm_run g vm f n s1 t \<and> vm_step g vm f t = Inl r) \<or>
      (r = IterLimit \<and> vm_run g vm f (Suc k) s1 t)"
      by (rule Suc.IH) (use Suc.prems in simp)
    have step: "vm_loop g vm f tick s = vm_loop g vm f (Suc tick) s1"
      using Inr Suc.prems by (simp add: vm_loop_Inr)
    have ex: "(\<exists>n \<le> Suc k. vm_run g vm f n s t \<and> vm_step g vm f t = Inl r) \<longleftrightarrow>
      (\<exists>n \<le> k. vm_run g vm f n s1 t \<and> vm_step g vm f t = Inl r)"
    proof
      assume "\<exists>n \<le> Suc k. vm_run g vm f n s t \<and> vm_step g vm f t = Inl r"
      then obtain n where n: "n \<le> Suc k" "vm_run g vm f n s t" "vm_step g vm f t = Inl r"
        by blast
      with Inr obtain m where "n = Suc m" by (cases n) auto
      with n Inr show "\<exists>n \<le> k. vm_run g vm f n s1 t \<and> vm_step g vm f t = Inl r" by auto
    next
      assume "\<exists>n \<le> k. vm_run g vm f n s1 t \<and> vm_step g vm f t = Inl r"
      then obtain n where "n \<le> k" "vm_run g vm f n s1 t" "vm_step g vm f t = Inl r" by blast
      with Inr show "\<exists>n \<le> Suc k. vm_run g vm f n s t \<and> vm_step g vm f t = Inl r"
        by (intro exI [of _ "Suc n"]) simp
    qed
    have lim: "vm_run g vm f (Suc (Suc k)) s t \<longleftrightarrow> vm_run g vm f (Suc k) s1 t"
      using Inr by (subst vm_run_Suc) simp
    show ?thesis unfolding step IH ex lim ..
  qed
qed

lemma exec_result_char:
  "10 < length regs0 \<Longrightarrow> fst (ebpf_vm_exec g vm f regs0 w) = r \<longleftrightarrow>
     (\<exists>n t. n \<le> 32769 \<and> vm_run g vm f n (init_state f regs0 w) t \<and> vm_step g vm f t = Inl r) \<or>
     (r = IterLimit \<and> (\<exists>t. vm_run g vm f 32770 (init_state f regs0 w) t))"
proof -
  assume len: "10 < length regs0"
  let ?s = "init_state f regs0 w"
  have "fst (ebpf_vm_exec g vm f regs0 w) = r \<longleftrightarrow> (\<exists>t. vm_loop g vm f 0 ?s = (r, t))"
    using len by (cases "vm_loop g vm f 0 ?s") (auto simp: ebpf_vm_exec_def)
  also have "\<dots> \<longleftrightarrow> (\<exists>t. (\<exists>n \<le> 32769. vm_run g vm f n ?s t \<and> vm_step g vm f t = Inl r) \<or>
     (r = IterLimit \<and> vm_run g vm f (Suc 32769) ?s t))"
  proof -
    have k: "32769 + 0 = MAX_ITERS + 1" by (simp add: MAX_ITERS_def)
    show ?thesis by (simp only: vm_loop_char [OF k])
  qed
  also have "Suc 32769 = 32770" by simp
  finally show ?thesis by blast
qed

text \<open>C10: \<open>ebpf_vm_exec\<close> returns on every program. It stops at the first of its steps that
  stops, if that comes within 32769 completed instructions, and otherwise after exactly
  32770 of them with the iteration limit; so no patch can run more than 32770 instructions. (A register
  file without \<open>reg[10]\<close>, which the code does not have, is written out of range on entry.)\<close>

theorem ebpf_vm_exec_bounded:
  "fst (ebpf_vm_exec g vm f regs0 w) = r \<longleftrightarrow>
     (if 10 < length regs0
      then (\<exists>n t. n \<le> 32769 \<and> vm_run g vm f n (init_state f regs0 w) t \<and> vm_step g vm f t = Inl r) \<or>
           (r = IterLimit \<and> (\<exists>t. vm_run g vm f 32770 (init_state f regs0 w) t))
      else r = Undef RegIndex)"
  using exec_result_char [of regs0 g vm f w r] by (auto simp: ebpf_vm_exec_def)

subsection \<open>Registers\<close>

definition wf_inst :: "ebpf_inst \<Rightarrow> bool" where
  "wf_inst i \<longleftrightarrow> unat (i_dst i) < MAX_BPF_REG \<and> unat (i_src i) < MAX_BPF_REG"

text \<open>What every case of the switch keeps: it does not index \<open>reg[]\<close> out of range, and the
  array keeps its length.\<close>

definition regs_ok :: "nat \<Rightarrow> vm_effect \<Rightarrow> bool" where
  "regs_ok n e \<longleftrightarrow>
     (case e of Stop r \<Rightarrow> r \<noteq> Undef RegIndex | SetDst _ \<Rightarrow> True | Go s \<Rightarrow> length (v_reg s) = n)"

lemma regs_ok_simps [simp]:
  "regs_ok n (Stop r) \<longleftrightarrow> r \<noteq> Undef RegIndex"
  "regs_ok n (SetDst v)"
  "regs_ok n (Go s) \<longleftrightarrow> length (v_reg s) = n"
  by (simp_all add: regs_ok_def)

lemma regs_ok_with_reg:
  "unat r < length (v_reg s) \<Longrightarrow> regs_ok n (k (v_reg s ! unat r)) \<Longrightarrow> regs_ok n (with_reg s r k)"
  by (simp add: with_reg_def)

lemma regs_ok_shifts [simp]:
  "regs_ok n (shift32 fn x a)" "regs_ok n (shift64 fm y b)" "regs_ok n (arsh32 x b)"
  "regs_ok n (div_by c q)"
  by (simp_all add: shift32_def shift64_def arsh32_def div_by_def)

abbreviation step_pre :: "vm_state \<Rightarrow> ebpf_inst \<Rightarrow> bool" where
  "step_pre s i \<equiv> wf_inst i \<and> length (v_reg s) = MAX_BPF_EXT_REG"

lemma regs_ok_reads:
  assumes "step_pre s i"
  shows "(\<And>d k. regs_ok n (c d k)) \<Longrightarrow> regs_ok n (dst_imm s i c)"
    and "(\<And>d x. regs_ok n (h d x)) \<Longrightarrow> regs_ok n (dst_src s i h)"
    and "(\<And>d. regs_ok n (e d)) \<Longrightarrow> regs_ok n (with_reg s (i_dst i) e)"
    and "(\<And>d. regs_ok n (e d)) \<Longrightarrow> regs_ok n (with_reg s (i_src i) e)"
  using assms by (simp_all add: dst_imm_def dst_src_def wf_inst_def with_reg_def MAX_BPF_REG_def)

lemma regs_ok_alu32: "step_pre s i \<Longrightarrow> pred_option (regs_ok 12) (step_alu32 s i)"
  by (simp add: step_alu32_def Let_def regs_ok_reads)

lemma regs_ok_endian: "step_pre s i \<Longrightarrow> pred_option (regs_ok 12) (step_endian s i)"
  by (simp add: step_endian_def Let_def regs_ok_reads)

lemma regs_ok_alu64: "step_pre s i \<Longrightarrow> pred_option (regs_ok 12) (step_alu64 s i)"
  by (simp add: step_alu64_def Let_def regs_ok_reads)

lemma regs_ok_jmp: "step_pre s i \<Longrightarrow> pred_option (regs_ok 12) (step_jmp s i)"
  by (simp add: step_jmp_def Let_def regs_ok_reads jump_if_def)

lemma regs_ok_mem: "step_pre s i \<Longrightarrow> pred_option (regs_ok 12) (step_mem vm f s i)"
  by (simp add: step_mem_def Let_def regs_ok_reads BOUNDS_CHECK_def do_load_def do_store_def
      split: option.split)

lemma regs_ok_lddw: "step_pre s i \<Longrightarrow> pred_option (regs_ok 12) (step_lddw vm s i)"
  by (simp add: step_lddw_def wf_inst_def MAX_BPF_REG_def split: option.split)

lemma regs_ok_call: "step_pre s i \<Longrightarrow> pred_option (regs_ok 12) (step_call g vm s i)"
  by (simp add: step_call_def Let_def with_reg_def split: option.split prod.split)

lemma pred_option_or_else:
  "pred_option P a \<Longrightarrow> pred_option P b \<Longrightarrow> pred_option P (or_else a b)"
  by (cases a) (simp_all add: or_else_def)

lemma regs_ok_switch: "step_pre s i \<Longrightarrow> regs_ok 12 (switch g vm f s i)"
proof -
  assume pre: "step_pre s i"
  have "pred_option (regs_ok 12) (or_else (step_alu32 s i) (or_else (step_endian s i)
    (or_else (step_alu64 s i) (or_else (step_mem vm f s i) (or_else (step_lddw vm s i)
      (or_else (step_jmp s i) (step_call g vm s i)))))))"
    by (intro pred_option_or_else regs_ok_alu32 regs_ok_endian regs_ok_alu64 regs_ok_mem
        regs_ok_lddw regs_ok_jmp regs_ok_call pre)
  with pre show ?thesis
    by (auto simp: switch_def split: option.split)
qed

lemma vm_step_regs:
  assumes "length (v_reg s) = 12" "list_all wf_inst (insts vm)"
  shows "case vm_step g vm f s of
           Inl r \<Rightarrow> r \<noteq> Undef RegIndex | Inr s' \<Rightarrow> length (v_reg s') = 12"
proof (cases "fetch vm (v_pc s)")
  case (Some i)
  then have "wf_inst i"
    using assms(2) by (auto simp: fetch_def list_all_length split: if_splits)
  then have "regs_ok 12 (switch g vm f (s\<lparr>v_pc := v_pc s + 1\<rparr>) i)"
    using assms(1) by (intro regs_ok_switch) simp
  with Some assms(1) show ?thesis
    by (cases "switch g vm f (s\<lparr>v_pc := v_pc s + 1\<rparr>) i") (auto simp: vm_step_def Let_def)
qed (simp add: vm_step_def)

lemma vm_run_regs:
  "vm_run g vm f n s t \<Longrightarrow> list_all wf_inst (insts vm) \<Longrightarrow> length (v_reg s) = 12 \<Longrightarrow>
     length (v_reg t) = 12"
proof (induction rule: vm_run.induct)
  case (run_suc s s1 n s2)
  with vm_step_regs [of s vm g f] show ?case by simp
qed

text \<open>C13: a program over the eleven registers of the architecture, r0 to r10, never indexes the array \<open>reg[]\<close> of the
  interpreter out of range, whatever the helpers, the argument buffer and the memory are: neither by the registers its
  instructions name, nor by the fixed indices of the entry code (\<open>reg[1]\<close>, \<open>reg[10]\<close>), of a call (\<open>reg[0]\<close> to \<open>reg[5]\<close>)
  and of the exit (\<open>reg[0]\<close>).\<close>

theorem ebpf_vm_exec_regs_safe:
  assumes "list_all wf_inst (insts vm)" and "length regs0 = MAX_BPF_EXT_REG"
  shows "fst (ebpf_vm_exec g vm f regs0 w) \<noteq> Undef RegIndex"
proof
  assume "fst (ebpf_vm_exec g vm f regs0 w) = Undef RegIndex"
  then obtain n t where run: "vm_run g vm f n (init_state f regs0 w) t"
    and stop: "vm_step g vm f t = Inl (Undef RegIndex)"
    using exec_result_char [of regs0 g vm f w "Undef RegIndex"] assms(2) by auto
  have "length (v_reg (init_state f regs0 w)) = 12"
    using assms(2) by (simp add: init_state_def)
  with run assms(1) have "length (v_reg t) = 12" by (rule vm_run_regs)
  with vm_step_regs [OF this assms(1), of g f] stop show False by simp
qed

theorem ebpf_vm_exec_regs_safe_witness:
  "fst (ebpf_vm_exec None (zero_vm\<lparr>insts := [\<lparr>opcode = 0xbf, i_dst = 2, i_src = 10, i_off = 0, i_imm = 0\<rparr>,
      \<lparr>opcode = 0x95, i_dst = 0, i_src = 0, i_off = 0, i_imm = 0\<rparr>]\<rparr>) \<lparr>f_mem = 0, f_mem_len = 0, f_stack = 0\<rparr> (replicate 12 0)
      \<lparr>w_mem = (\<lambda>_. None), w_dval = 0, w_out = []\<rparr>) \<noteq> Undef RegIndex"
  by (rule ebpf_vm_exec_regs_safe) (simp_all add: zero_vm_def wf_inst_def MAX_BPF_REG_def)

subsection \<open>Memory\<close>

lemma store_bytes_frame:
  "store_bytes m a bs = Some m' \<Longrightarrow> (\<forall>k < length bs. x \<noteq> a + of_nat k) \<Longrightarrow> m' x = m x"
proof (induction bs arbitrary: m a)
  case (Cons b bs)
  from Cons.prems(2) have "x \<noteq> a" by (auto dest: spec [of _ 0])
  have "\<forall>k < length bs. x \<noteq> a + 1 + of_nat k"
  proof (intro allI impI)
    fix k assume "k < length bs"
    with Cons.prems(2) [rule_format, of "Suc k"] show "x \<noteq> a + 1 + of_nat k"
      by (simp add: ac_simps)
  qed
  with Cons \<open>x \<noteq> a\<close> show ?case by (auto split: option.splits)
qed simp

lemma addr_plus_neq: "0 < k \<Longrightarrow> k < 4294967296 \<Longrightarrow> a \<noteq> a + (of_nat k :: u32)"
  by (auto simp: word_of_nat_eq_0_iff dvd_imp_le dest!: dvd_imp_le)

lemma load_store_bytes:
  "store_bytes m a bs = Some m' \<Longrightarrow> length bs \<le> 8 \<Longrightarrow> load_bytes m' a (length bs) = Some bs"
proof (induction bs arbitrary: m a)
  case (Cons b bs)
  then have st: "store_bytes (m(a \<mapsto> b)) (a + 1) bs = Some m'"
    by (auto split: option.splits)
  have "\<forall>k < length bs. a \<noteq> a + 1 + of_nat k"
  proof (intro allI impI)
    fix k assume "k < length bs"
    then show "a \<noteq> a + 1 + of_nat k"
      using addr_plus_neq [of "Suc k" a] Cons.prems(2) by (simp add: add.assoc)
  qed
  with st have "m' a = Some b" by (simp add: store_bytes_frame)
  with Cons st show ?case by simp
qed simp

lemma le_value_bytes:
  "le_value (map (\<lambda>k. byte_of (j + k) v) [0..<n]) = take_bit (8 * n) (drop_bit (8 * j) v)"
proof (induction n arbitrary: j)
  case (Suc n)
  have "map (\<lambda>k. byte_of (j + k) v) [0..<Suc n] =
    byte_of j v # map (\<lambda>k. byte_of (Suc j + k) v) [0..<n]"
    by (simp add: upt_conv_Cons map_Suc_upt [symmetric] comp_def del: upt_Suc)
  also have "le_value \<dots> = ucast (byte_of j v)
    OR push_bit 8 (take_bit (8 * n) (drop_bit (8 * Suc j) v))"
    using Suc.IH [of "Suc j"] by simp
  also have "\<dots> = take_bit (8 * Suc n) (drop_bit (8 * j) v)"
    by (rule bit_eqI) (auto simp: byte_of_def bit_simps algebra_simps not_less)
  finally show ?case .
qed simp

lemma mem_load_store: "mem_store m a n v = Some m' \<Longrightarrow> n \<le> 8 \<Longrightarrow>
    mem_load m' a n = Some (take_bit (8 * n) v)"
  using load_store_bytes [of m a "le_bytes n v" m'] le_value_bytes [of 0 v n]
  by (simp add: mem_store_def mem_load_def le_bytes_def)

lemma load_bytes_numeral [simp]:
  "load_bytes m a (numeral n) =
     (case m a of None \<Rightarrow> None
      | Some b \<Rightarrow> (case load_bytes m (a + 1) (pred_numeral n) of None \<Rightarrow> None | Some bs \<Rightarrow> Some (b # bs)))"
  by (simp add: numeral_eq_Suc)

lemma le_value_fits: "take_bit (8 * length bs) (le_value bs) = le_value bs"
proof (induction bs)
  case (Cons b bs)
  have hi: "\<not> bit (le_value bs) k" if "8 * length bs \<le> k" for k
    using Cons that by (metis bit_take_bit_iff not_le)
  have b: "\<not> bit b k" if "8 \<le> k" for k
    using bit_imp_le_length [of b k] that by auto
  show ?case
    by (auto simp: bit_eq_iff bit_simps not_less hi b)
qed simp

lemma load_bytes_length: "load_bytes m a n = Some bs \<Longrightarrow> length bs = n"
  by (induction m a n arbitrary: bs rule: load_bytes.induct) (auto split: option.splits)

lemma mem_load_fits: "mem_load m a n = Some v \<Longrightarrow> take_bit (8 * n) v = v"
  by (auto simp: mem_load_def dest!: load_bytes_length intro: le_value_fits)

lemma mem_load_4: "mem_load m a 4 = Some v \<Longrightarrow> \<exists>x. v = zx x"
  using mem_load_fits [of m a 4 v] by (intro exI [of _ "lo v"]) (simp add: bit_eq_iff bit_simps)

lemma mem_load_less: "mem_load m a n = Some v \<Longrightarrow> unat v < 2 ^ (8 * n)"
  by (metis mem_load_fits take_bit_nat_less_exp unsigned_take_bit_eq)

text \<open>A store followed by a load of the same width at the same address gives back the
  stored value cut to that width, for the four access widths of the instruction set.\<close>

theorem mem_store_load_roundtrip:
  assumes "mem_store m a n v = Some m'" and "n \<in> {1, 2, 4, 8}"
  shows "mem_load m' a n = Some (take_bit (8 * n) v)"
  using assms by (auto intro: mem_load_store)

theorem mem_store_load_roundtrip_witness:
  "\<exists>m'. mem_store (\<lambda>_. Some 0) 0x20000000 2 0x12345 = Some m' \<and>
        mem_load m' 0x20000000 2 = Some (take_bit (8 * 2) 0x12345)"
proof -
  obtain m' where m': "mem_store (\<lambda>_. Some 0) 0x20000000 2 0x12345 = Some m'"
    by (simp add: mem_store_def le_bytes_def upt_rec)
  from mem_store_load_roundtrip [OF m'] m' show ?thesis by auto
qed

subsection \<open>The bounds check\<close>

text \<open>With checking enabled, an access that lies inside the argument buffer is accepted
  (provided four times the buffer length does not wrap the address space).\<close>

theorem bounds_check_admits_buffer:
  assumes "f_mem f \<noteq> 0" and "f_mem f \<le> addr"
    and "unat addr + unat sz \<le> unat (f_mem f) + unat (f_mem_len f)"
    and "unat (f_mem f) + 4 * unat (f_mem_len f) < 2 ^ 32"
  shows "bounds_check vm f addr sz"
proof -
  have "unat (f_mem f) \<le> unat addr" using assms(2) by (simp add: word_le_nat_alt)
  with assms(3,4) have "addr + 4 * sz \<le> f_mem f + 4 * f_mem_len f"
    by (simp add: word_le_nat_alt unat_word_ariths unat_of_nat)
  with assms(1,2) show ?thesis by (simp add: bounds_check_def)
qed

theorem bounds_check_admits_buffer_witness:
  "bounds_check (zero_vm\<lparr>bounds_check_enabled := True\<rparr>)
     \<lparr>f_mem = 0x20000000, f_mem_len = 16, f_stack = 0x20001000\<rparr> 0x20000008 8"
  by (rule bounds_check_admits_buffer) simp_all

text \<open>C38: with checking enabled, a one-byte access at offset \<open>k\<close> of an argument buffer of \<open>n\<close> bytes, at an address below
  the interpreter's stack, is admitted exactly when \<open>k \<le> 4 n - 4\<close> (neither four times the length nor the stack at the end of
  the address space): the scaled comparison admits up to three times the buffer's size behind its end.\<close>

theorem bounds_check_overrun:
  assumes "bounds_check_enabled vm" and "f_mem f \<noteq> 0" and "n = unat (f_mem_len f)"
    and "unat (f_mem f) + 4 * n < 2 ^ 32" and "unat (f_stack f) + 4 < 2 ^ 32" and "unat (f_mem f) + k < unat (f_stack f)"
  shows "bounds_check vm f (f_mem f + of_nat k) 1 \<longleftrightarrow> k + 4 \<le> 4 * n"
proof -
  have a: "unat (f_mem f + of_nat k) = unat (f_mem f) + k"
    using assms(5,6) by (simp add: unat_word_ariths unat_of_nat)
  then have a4: "unat (f_mem f + of_nat k + 4) = unat (f_mem f) + k + 4"
    using assms(5,6) by (simp add: unat_word_ariths)
  have e: "unat (f_mem f + 4 * f_mem_len f) = unat (f_mem f) + 4 * n"
    using assms(3,4) by (simp add: unat_word_ariths)
  have "f_mem f \<le> f_mem f + of_nat k" "\<not> f_stack f \<le> f_mem f + of_nat k"
    using assms(6) a by (simp_all add: word_le_nat_alt)
  then show ?thesis using assms(1,2) a4 e by (simp add: bounds_check_def word_le_nat_alt)
qed

theorem bounds_check_overrun_witness:
  "let vm = zero_vm\<lparr>bounds_check_enabled := True\<rparr>;
       f = \<lparr>f_mem = 0x20000000, f_mem_len = 16, f_stack = 0x20001000\<rparr>
   in bounds_check vm f 0x20000010 1 \<and> bounds_check vm f 0x2000003c 1 \<and> \<not> bounds_check vm f 0x2000003d 1"
proof -
  let ?vm = "zero_vm\<lparr>bounds_check_enabled := True\<rparr>" and ?f = "\<lparr>f_mem = 0x20000000, f_mem_len = 16, f_stack = 0x20001000\<rparr>"
  have "bounds_check ?vm ?f (0x20000000 + of_nat k) 1 \<longleftrightarrow> k + 4 \<le> 4 * 16" if "k < 0x1000" for k
  proof -
    have "bounds_check ?vm ?f (f_mem ?f + of_nat k) 1 \<longleftrightarrow> k + 4 \<le> 4 * 16"
      by (rule bounds_check_overrun) (use that in simp_all)
    then show ?thesis by (simp only: vm_frame.select_convs)
  qed
  from this [of 16] this [of 60] this [of 61] show ?thesis by (simp add: Let_def del: of_nat_add)
qed

subsection \<open>Arithmetic instructions\<close>

text \<open>A 32-bit result is zero-extended: it fits the low half of the register.\<close>

definition fits32 :: "vm_effect \<Rightarrow> bool" where
  "fits32 e \<longleftrightarrow> (case e of Stop _ \<Rightarrow> True | SetDst v \<Rightarrow> v < 0x100000000 | Go _ \<Rightarrow> False)"

lemma fits32_simps [simp]:
  "fits32 (Stop r)" "fits32 (SetDst v) \<longleftrightarrow> v < 0x100000000" "\<not> fits32 (Go s)"
  by (simp_all add: fits32_def)

lemma fits32_ops [simp]:
  "fits32 (shift32 fn x a)" "fits32 (arsh32 x b)" "fits32 (div_by c (zx q))"
  by (simp_all add: shift32_def arsh32_def div_by_def ucast_u32_u64_lt)

lemma fits32_reads:
  shows "(\<And>d k. fits32 (c d k)) \<Longrightarrow> fits32 (dst_imm s i c)"
    and "(\<And>d x. fits32 (h d x)) \<Longrightarrow> fits32 (dst_src s i h)"
  by (simp_all add: dst_imm_def dst_src_def with_reg_def)

lemma step_alu32_fits: "step_alu32 s i = Some e \<Longrightarrow> fits32 e"
proof -
  have "pred_option fits32 (step_alu32 s i)"
    by (simp add: step_alu32_def Let_def fits32_reads ucast_u32_u64_lt)
  then show "step_alu32 s i = Some e \<Longrightarrow> fits32 e" by simp
qed

text \<open>An instruction of the 32-bit ALU group that does not stop the run changes nothing
  but the program counter (which advances by one) and its destination register, and leaves
  the upper half of that register zero.\<close>

theorem alu32_step_zero_extends:
  assumes "fetch vm (v_pc s) = Some i"
    and "step_alu32 (s\<lparr>v_pc := v_pc s + 1\<rparr>) i = Some e"
    and "vm_step g vm f s = Inr s'"
  shows "\<exists>v < 0x100000000. s' = s\<lparr>v_pc := v_pc s + 1, v_reg := (v_reg s)[unat (i_dst i) := v]\<rparr>"
proof -
  have "switch g vm f (s\<lparr>v_pc := v_pc s + 1\<rparr>) i = e"
    using assms(2) by (simp add: switch_def or_else_def)
  with assms(1,3) step_alu32_fits [OF assms(2)] show ?thesis
    by (cases e) (auto simp: vm_step_def Let_def)
qed

theorem alu32_step_zero_extends_witness:
  "\<exists>v < 0x100000000. \<exists>s'.
     vm_step None (zero_vm\<lparr>insts := [\<lparr>opcode = 0x04, i_dst = 0, i_src = 0, i_off = 0, i_imm = 1\<rparr>]\<rparr>)
       \<lparr>f_mem = 0, f_mem_len = 0, f_stack = 0\<rparr>
       \<lparr>v_pc = 0, v_reg = replicate 12 0, v_world = \<lparr>w_mem = (\<lambda>_. None), w_dval = 0, w_out = []\<rparr>\<rparr> = Inr s' \<and>
     v_reg s' = (replicate 12 0)[0 := v]"
proof -
  let ?vm = "zero_vm\<lparr>insts := [\<lparr>opcode = 0x04, i_dst = 0, i_src = 0, i_off = 0, i_imm = 1\<rparr>]\<rparr>"
  let ?f = "\<lparr>f_mem = 0, f_mem_len = 0, f_stack = 0\<rparr>"
  let ?s = "\<lparr>v_pc = 0, v_reg = replicate 12 0, v_world = \<lparr>w_mem = (\<lambda>_. None), w_dval = 0, w_out = []\<rparr>\<rparr>"
  obtain s' where s': "vm_step None ?vm ?f ?s = Inr s'"
    by (simp add: run_defs)
  have "\<exists>v < 0x100000000. s' = ?s\<lparr>v_pc := v_pc ?s + 1, v_reg := (v_reg ?s)[unat (0 :: 4 word) := v]\<rparr>"
    using alu32_step_zero_extends [OF _ _ s',
        of "\<lparr>opcode = 0x04, i_dst = 0, i_src = 0, i_off = 0, i_imm = 1\<rparr>" "SetDst 1"]
    by (simp add: run_defs)
  with s' show ?thesis by auto
qed

text \<open>The 64-bit division by a register does not divide by the register. Whenever the
  source register is not zero the quotient is taken by the immediate field, which the
  assembler leaves 0 in this form: the instruction then divides by zero.\<close>

theorem div64_reg_uses_imm:
  assumes "opcode i = EBPF_OP_DIV64_REG" and "unat (i_dst i) < length (v_reg s)"
    and "unat (i_src i) < length (v_reg s)" and "v_reg s ! unat (i_src i) \<noteq> 0"
  shows "switch g vm f s i =
     (if i_imm i = 0 then Stop (Undef DivByZero)
      else SetDst (v_reg s ! unat (i_dst i) div sx (i_imm i)))"
  using assms by (simp add: run_defs)

theorem div64_reg_uses_imm_witness:
  "switch None zero_vm \<lparr>f_mem = 0, f_mem_len = 0, f_stack = 0\<rparr>
     \<lparr>v_pc = 1, v_reg = [42, 7], v_world = \<lparr>w_mem = (\<lambda>_. None), w_dval = 0, w_out = []\<rparr>\<rparr>
     \<lparr>opcode = EBPF_OP_DIV64_REG, i_dst = 0, i_src = 1, i_off = 0, i_imm = 0\<rparr>
   = Stop (Undef DivByZero)"
  by (subst div64_reg_uses_imm) simp_all

subsection \<open>Helpers\<close>

text \<open>The table of the shared environment has its allocated length.\<close>

definition helper_table_ok :: "ebpf_helper_env option \<Rightarrow> bool" where
  "helper_table_ok g = pred_option (\<lambda>e. length (ext_funcs e) = MAX_EXT_FUNCS) g"

lemma use_default_helper_func_ok:
  "helper_table_ok g \<Longrightarrow> length (ext_funcs (use_default_helper_func g)) = MAX_EXT_FUNCS"
  by (cases g) (simp_all add: use_default_helper_func_def helper_table_ok_def)

text \<open>\<open>ebpf_register\<close> refuses an index that is not below 12 and then leaves the table as
  it was; for an index below 12 a later \<open>call\<close> with that immediate runs the registered
  function on \<open>r1..r5\<close> and puts its result in \<open>r0\<close>.\<close>

theorem ebpf_register_call:
  assumes "helper_table_ok g" and "helper_set vm \<longrightarrow> g \<noteq> None"
    and "ebpf_register g vm idx (Some fn) = (rc, g', vm')"
    and "opcode i = EBPF_OP_CALL" and "i_imm i = word_of_nat idx" and "idx < 2 ^ 31"
    and "5 < length (v_reg s)"
  shows "helper_table_ok g' \<and>
    (if idx < MAX_EXT_FUNCS
     then rc = 0 \<and> switch g' vm' f s i =
       (case fn (v_reg s ! 1) (v_reg s ! 2) (v_reg s ! 3) (v_reg s ! 4) (v_reg s ! 5) (v_world s) of
          None \<Rightarrow> Stop (Undef HelperFault)
        | Some (v, w) \<Rightarrow> Go (s\<lparr>v_reg := (v_reg s)[0 := v], v_world := w\<rparr>))
     else rc = - 1 \<and> (helper_set vm \<longrightarrow> g' = g))"
proof -
  have idx: "sint (i_imm i) = int idx"
    using assms(5,6) by (simp add: sint_uint signed_take_bit_int_eq_self_iff unat_of_nat uint_nat)
  show ?thesis
  proof (cases "helper_set vm")
    case True
    with assms(2) obtain e where "g = Some e" by auto
    with True assms(1,3,4,7) idx show ?thesis
      by (auto simp: ebpf_register_def helper_table_ok_def run_defs MAX_EXT_FUNCS_def split: if_splits)
  next
    case False
    with assms(3,4,7) idx use_default_helper_func_ok [OF assms(1)] show ?thesis
      by (auto simp: ebpf_register_def helper_table_ok_def run_defs MAX_EXT_FUNCS_def split: if_splits)
  qed
qed

theorem ebpf_register_call_witness:
  "helper_table_ok None \<and>
   (let (rc, g', vm') = ebpf_register None zero_vm 4 (Some tmp_map_get_val)
    in rc = 0 \<and> switch g' vm' \<lparr>f_mem = 0, f_mem_len = 0, f_stack = 0\<rparr>
         \<lparr>v_pc = 1, v_reg = replicate 12 0, v_world = \<lparr>w_mem = (\<lambda>_. None), w_dval = 9, w_out = []\<rparr>\<rparr>
         \<lparr>opcode = EBPF_OP_CALL, i_dst = 0, i_src = 0, i_off = 0, i_imm = 4\<rparr>
       = Go \<lparr>v_pc = 1, v_reg = (replicate 12 0)[0 := 9],
             v_world = \<lparr>w_mem = (\<lambda>_. None), w_dval = 9, w_out = []\<rparr>\<rparr>)"
proof -
  obtain rc g' vm' where r: "ebpf_register None zero_vm 4 (Some tmp_map_get_val) = (rc, g', vm')"
    by (cases "ebpf_register None zero_vm 4 (Some tmp_map_get_val)")
  show ?thesis
    using ebpf_register_call [OF _ _ r, where i = "\<lparr>opcode = EBPF_OP_CALL, i_dst = 0, i_src = 0,
        i_off = 0, i_imm = 4\<rparr>" and s = "\<lparr>v_pc = 1, v_reg = replicate 12 0,
          v_world = \<lparr>w_mem = (\<lambda>_. None), w_dval = 9, w_out = []\<rparr>\<rparr>"
        and f = "\<lparr>f_mem = 0, f_mem_len = 0, f_stack = 0\<rparr>"] r
    by (simp add: helper_table_ok_def zero_vm_def tmp_map_get_val_def MAX_EXT_FUNCS_def)
qed

end
