(* ===== verification/Patch_Filters.thy ===== *)
theory Patch_Filters
  imports Ebpf_Vm_Props "HOL-Library.Monad_Syntax"
begin

text \<open>
  The patch sources of \<open>update_server/patch_code\<close>: each file holds one filter that is
  compiled to eBPF and runs on the saved registers of the patched function. A filter reads
  the \<open>stack_frame\<close> at address \<open>fr\<close> of the memory \<open>m\<close>; a read of unmapped memory is \<open>None\<close>.
  The eBPF target has 64-bit pointers, which an access cuts to the 32 bits of the device.
\<close>

subsection \<open>The helper header\<close>

definition FILTER_PASS :: u64 where "FILTER_PASS = 0"
definition FILTER_DROP :: u64 where "FILTER_DROP = 1"
definition FILTER_REDIRECT :: u64 where "FILTER_REDIRECT = 2"

lemmas filter_ops = FILTER_PASS_def FILTER_DROP_def FILTER_REDIRECT_def

definition set_return :: "u64 \<Rightarrow> u64 \<Rightarrow> u64" where
  "set_return op ret_code = push_bit 32 op + ret_code"

text \<open>The fields of \<open>stack_frame\<close>, in order: r0, r1, r2, r3, r12, lr, pc, xpsr.\<close>

datatype frame_field = F_r0 | F_r1 | F_r2 | F_r3 | F_r12 | F_lr | F_pc | F_xpsr

fun field_offset :: "frame_field \<Rightarrow> u32" where
  "field_offset F_r0 = 0" | "field_offset F_r1 = 4" | "field_offset F_r2 = 8"
| "field_offset F_r3 = 12" | "field_offset F_r12 = 16" | "field_offset F_lr = 20"
| "field_offset F_pc = 24" | "field_offset F_xpsr = 28"

definition frame_get :: "memory \<Rightarrow> u32 \<Rightarrow> frame_field \<Rightarrow> u32 option" where
  "frame_get m fr k = map_option ucast (mem_load m (fr + field_offset k) 4)"

definition rd :: "memory \<Rightarrow> u64 \<Rightarrow> nat \<Rightarrow> u64 option" where
  "rd m a n = mem_load m (ucast a) n"

text \<open>The macros \<open>false\<close> and \<open>true\<close> of the header.\<close>

definition helper_false :: int where "helper_false = (if (0 :: int) \<noteq> 1 then 1 else 0)"
definition helper_true :: int where "helper_true = (if (0 :: int) = 0 then 1 else 0)"

definition EINVAL :: u32 where "EINVAL = 22"

text \<open>\<open>uint32_t op, ret_code\<close> passed to \<open>set_return\<close> are zero-extended.\<close>

definition set_return32 :: "u32 \<Rightarrow> u32 \<Rightarrow> u64" where
  "set_return32 op ret_code = set_return (ucast op) (ucast ret_code)"

subsection \<open>Filters without loops\<close>

definition fix_bug :: "memory \<Rightarrow> u32 \<Rightarrow> u64 option" where
  "fix_bug m ctx = do {
     val \<leftarrow> frame_get m ctx F_r0;
     let op = (if sint val \<le> 5000 \<and> sint val > 2000 then FILTER_DROP else FILTER_PASS);
     Some (set_return op 0)}"

definition filter_17443 :: "memory \<Rightarrow> u32 \<Rightarrow> u64 option" where
  "filter_17443 m frame = do {
     echo \<leftarrow> frame_get m frame F_r0;
     transport_len \<leftarrow> rd m (ucast echo + 38) 2;
     Some (if transport_len < 8 then set_return32 1 (- 1) else set_return32 0 0)}"

definition dummy_bug_filter :: "memory \<Rightarrow> u32 \<Rightarrow> u64 option" where
  "dummy_bug_filter m ctx = Some (set_return FILTER_PASS 0)"

text \<open>\<open>Args\<close> of \<open>dummy_cve1\<close>: a pointer and a signed length.\<close>

definition dummy_cve1_filter :: "memory \<Rightarrow> u64 \<Rightarrow> u64 option" where
  "dummy_cve1_filter m args = do {
     len \<leftarrow> rd m (args + 4) 4;
     Some (if sint (ucast len :: s32) \<ge> 20 then FILTER_DROP else FILTER_PASS)}"

definition save_xstatus :: "(u64 \<Rightarrow> u64 \<Rightarrow> u64 \<Rightarrow> world \<Rightarrow> world) \<Rightarrow> world \<Rightarrow> u32 \<Rightarrow> (u64 \<times> world) option" where
  "save_xstatus map_save_val w ctx = do {
     key \<leftarrow> frame_get (w_mem w) ctx F_r0;
     xStatus \<leftarrow> frame_get (w_mem w) ctx F_r1;
     Some (set_return FILTER_PASS 0, map_save_val 0 (scast key) (scast xStatus) w)}"

definition filter_close_failed :: "(u64 \<Rightarrow> u64 \<Rightarrow> world \<Rightarrow> u64) \<Rightarrow> world \<Rightarrow> u32 \<Rightarrow> u64 option" where
  "filter_close_failed map_get_val w ctx = do {
     key \<leftarrow> frame_get (w_mem w) ctx F_r0;
     let val = (ucast (map_get_val 0 (scast key) w) :: s32);
     Some (if val = 0 then set_return FILTER_REDIRECT 2000 else set_return FILTER_PASS 0)}"

definition filter_16603 :: "memory \<Rightarrow> u32 \<Rightarrow> u64 option" where
  "filter_16603 m frame = do {
     r0 \<leftarrow> frame_get m frame F_r0;
     xDataLength \<leftarrow> rd m (ucast r0 + 28) 8;
     let tcpLength = xDataLength - 14 - 20;
     Some (if tcpLength < 20 then set_return32 1 0 else set_return32 0 0)}"

text \<open>\<open>int ret_addr\<close> becomes \<open>uint64_t\<close> by sign extension.\<close>

definition skip_invalid_free :: "memory \<Rightarrow> u32 \<Rightarrow> u64 option" where
  "skip_invalid_free m ctx = do {
     pc \<leftarrow> frame_get m ctx F_pc;
     Some (set_return FILTER_REDIRECT (scast (pc + 2)))}"

definition filter_10021 :: "memory \<Rightarrow> u32 \<Rightarrow> u64 option" where
  "filter_10021 m frame = do {
     target \<leftarrow> frame_get m frame F_r0;
     r1 \<leftarrow> frame_get m frame F_r1;
     mem_size \<leftarrow> rd m (ucast r1) 4;
     Some (if target \<ge> ucast mem_size then set_return32 1 0x977c else set_return32 0 0)}"

definition filter_10024 :: "memory \<Rightarrow> u32 \<Rightarrow> u64 option" where
  "filter_10024 m frame = do {
     xpsr \<leftarrow> frame_get m frame F_xpsr;
     if xpsr AND 0x20000000 \<noteq> 0
     then do { pc \<leftarrow> frame_get m frame F_pc; Some (set_return32 2 (pc + 4)) }
     else Some (set_return32 0 0)}"

text \<open>The callback pointer is read through \<open>gpio_driver_api_ptr\<close> itself, not through the
  computed \<open>gpio_enable_callback_ptr_addr\<close>, which stays unused.\<close>

definition filter_10028 :: "memory \<Rightarrow> u32 \<Rightarrow> u64 option" where
  "filter_10028 m frame = do {
     r1 \<leftarrow> frame_get m frame F_r1;
     gpio_driver_api_ptr \<leftarrow> rd m (ucast r1 + 4) 4;
     gpio_enable_callback_ptr \<leftarrow> rd m gpio_driver_api_ptr 4;
     Some (if gpio_enable_callback_ptr = 0 then set_return32 1 (- EINVAL) else set_return32 0 0)}"

definition filter_10063 :: "memory \<Rightarrow> u32 \<Rightarrow> u64 option" where
  "filter_10063 m frame = do {
     data \<leftarrow> frame_get m frame F_r1;
     len \<leftarrow> rd m (ucast (data + 5)) 2;
     Some (if (ucast len :: u32) + 0xfff \<ge> 0xffff then set_return32 1 (- EINVAL)
           else set_return32 0 0)}"

subsection \<open>CVE-2020-10062: the remaining length of an MQTT packet\<close>

text \<open>First loop: the index of the first of five bytes without the continuation bit;
  \<open>end_index\<close> keeps its initial 0 when there is none.\<close>

fun find_end :: "memory \<Rightarrow> u64 \<Rightarrow> nat \<Rightarrow> nat \<Rightarrow> u8 option" where
  "find_end m cur i 0 = Some 0"
| "find_end m cur i (Suc n) = do {
     b \<leftarrow> rd m (cur + of_nat i) 1;
     if b AND 0x80 = 0 then Some (of_nat i) else find_end m cur (Suc i) n}"

fun sum_length :: "memory \<Rightarrow> u64 \<Rightarrow> nat \<Rightarrow> nat \<Rightarrow> u32 \<Rightarrow> u32 \<Rightarrow> u32 option" where
  "sum_length m cur i 0 len shift = Some len"
| "sum_length m cur i (Suc n) len shift = do {
     b \<leftarrow> rd m (cur + of_nat i) 1;
     sum_length m cur (Suc i) n
       (len + push_bit (unat shift) ((ucast b :: u32) AND 0x7F)) (shift + 7)}"

text \<open>\<open>struct buf_ctx\<close> holds two 64-bit pointers on the eBPF target, so \<open>buf->cur\<close> is an
  8-byte load.\<close>

definition filter_10062 :: "memory \<Rightarrow> u32 \<Rightarrow> u64 option" where
  "filter_10062 m frame = do {
     r0 \<leftarrow> frame_get m frame F_r0;
     cur \<leftarrow> rd m (ucast r0) 8;
     end_index \<leftarrow> find_end m cur 0 5;
     if end_index \<ge> 4 then Some (set_return32 1 (- EINVAL))
     else do {
       len \<leftarrow> sum_length m cur 0 (unat end_index + 1) 0 0;
       Some (if len > 0x0FFFFFFF then set_return32 1 (- EINVAL) else set_return32 0 0)}}"

subsection \<open>CVE-2020-17445: walking IPv6 destination options\<close>

text \<open>\<open>len - optlen >= len\<close> compares after the promotion to \<open>int\<close>.\<close>

function walk_destopt :: "memory \<Rightarrow> u32 \<Rightarrow> u64 \<Rightarrow> u8 \<Rightarrow> u32 option" where
  "walk_destopt m opt_ptr op_p len =
     (if len = 0 then Some 0
      else case rd m (op_p + 1) 1 of
          None \<Rightarrow> None
        | Some b \<Rightarrow>
            let optlen = (ucast b + 2 :: u8) in
            if opt_ptr + ucast optlen \<le> opt_ptr \<or> op_p + ucast optlen \<le> op_p
               \<or> uint len - uint optlen \<ge> uint len
            then Some (- 1)
            else walk_destopt m (opt_ptr + ucast optlen) (op_p + ucast optlen) (len - optlen))"
  by pat_completeness auto
termination
  by (relation "measure (\<lambda>(m, opt_ptr, op_p, len). 2 ^ 32 - unat opt_ptr)")
     (auto simp: word_le_nat_alt not_le unat_lt_numeral_32 intro!: diff_less_mono2)

declare walk_destopt.simps [simp del]

definition filter_17445 :: "memory \<Rightarrow> u32 \<Rightarrow> u64 option" where
  "filter_17445 m frame = do {
     r2 \<leftarrow> frame_get m frame F_r2;
     r0 \<leftarrow> frame_get m frame F_r0;
     b \<leftarrow> rd m (ucast r0 + 1) 1;
     let len = (ucast (push_bit 3 (b + 1) - 2) :: u8);
     ret_code \<leftarrow> walk_destopt m (r2 + 2) (ucast r0 + 2) len;
     Some (set_return32 (if ret_code \<noteq> 0 then 1 else 0) ret_code)}"

subsection \<open>CVE-2018-16524: the TCP options\<close>

definition usChar2u16 :: "u8 \<Rightarrow> u8 \<Rightarrow> u16" where
  "usChar2u16 c0 c1 = ucast (push_bit 8 (ucast c0 :: u32) OR ucast c1)"

text \<open>Pointers are integers here (the last one lies below the first when the header length
  field is under five); a byte is read at the pointer cut to the address width.\<close>

definition rb :: "memory \<Rightarrow> int \<Rightarrow> u8 option" where
  "rb m a = m (word_of_int a)"

function walk_options :: "memory \<Rightarrow> int \<Rightarrow> int \<Rightarrow> u32 option" where
  "walk_options m p lst =
     (if \<not> p < lst then Some 0
      else do {
        b0 \<leftarrow> rb m p;
        if b0 = 0 then Some 0
        else if b0 = 1 then walk_options m (p + 1) lst
        else do {
          b1 \<leftarrow> rb m (p + 1);
          if b0 = 3 \<and> b1 = 3 then walk_options m (p + 3) lst
          else if b0 = 2 \<and> b1 = 4 then do {
            c0 \<leftarrow> rb m (p + 2);
            c1 \<leftarrow> rb m (p + 3);
            Some (if usChar2u16 c0 c1 = 0 then 1 else 0)}
          else if b1 = 0 then Some 0
          else walk_options m (p + uint b1) lst}})"
  by pat_completeness auto
termination
  by (relation "measure (\<lambda>(m, p, lst). nat (lst - p))")
     (auto simp: word_neq_0_conv word_less_def)

declare walk_options.simps [simp del]

text \<open>The packet pointer is the single byte at \<open>r1 + 24\<close>, as the cast in the source reads it.\<close>

definition filter_16524 :: "memory \<Rightarrow> u32 \<Rightarrow> u64 option" where
  "filter_16524 m frame = do {
     r1 \<leftarrow> frame_get m frame F_r1;
     pxTCPPacket \<leftarrow> rb m (uint r1 + 24);
     let pxTCPHeader = uint pxTCPPacket + 34;
     let pucPtr = pxTCPHeader + 20;
     b \<leftarrow> rb m (pxTCPHeader + 12);
     let pucLast = pucPtr + (uint (drop_bit 4 b) - 5) * 4;
     op \<leftarrow> walk_options m pucPtr pucLast;
     Some (set_return32 op 0)}"

subsection \<open>Single bytes\<close>

lemma rd_byte: "rd m a (Suc 0) = map_option ucast (m (ucast a))"
  by (cases "m (ucast a)") (simp_all add: rd_def mem_load_def)

lemma ucast_byte: "(ucast (ucast (b :: u8) :: u64) :: u8) = b"
  by (simp add: bit_eq_iff bit_simps)

lemma ucast_8_64_32: "(ucast (ucast (b :: u8) :: u64) :: u32) = ucast b"
  by (simp add: bit_eq_iff bit_simps)

subsection \<open>The verdict of the MQTT filter\<close>

lemma masked_shift_bound:
  assumes "k \<le> 21" shows "unat (push_bit k ((x :: u32) AND 0x7F)) \<le> 127 * 2 ^ k"
proof -
  have m: "unat (x AND 0x7F) \<le> 127"
    using word_and_le1 [of x "0x7F"] by (simp add: word_le_nat_alt and.commute)
  have "unat (push_bit k (x AND 0x7F)) = take_bit 32 (unat (x AND 0x7F) * 2 ^ k)"
    using unsigned_push_bit_eq [of k "x AND 0x7F", where ?'a = nat]
    by (simp add: push_bit_eq_mult [of k "unat (x AND 0x7F)"] del: push_bit_and)
  also have "\<dots> \<le> unat (x AND 0x7F) * 2 ^ k" by (rule take_bit_nat_less_eq_self)
  also have "\<dots> \<le> 127 * 2 ^ k" using m by simp
  finally show ?thesis .
qed

lemma sum_length_bound:
  "sum_length m cur i n len shift = Some r \<Longrightarrow> unat len < 2 ^ (7 * i) \<Longrightarrow> unat shift = 7 * i
    \<Longrightarrow> i + n \<le> 4 \<Longrightarrow> unat r < 2 ^ (7 * (i + n))"
proof (induction n arbitrary: i len shift)
  case (Suc n)
  from Suc.prems(1) obtain b :: u64 where r: "sum_length m cur (Suc i) n
      (len + push_bit (unat shift) ((ucast b :: u32) AND 0x7F)) (shift + 7) = Some r"
    by (auto simp: bind_eq_Some_conv)
  have p: "(2 :: nat) ^ (7 * i) \<le> 2 ^ 21" using Suc.prems(4) by (intro power_increasing) simp_all
  have b: "unat (push_bit (unat shift) ((ucast b :: u32) AND 0x7F)) \<le> 127 * 2 ^ (7 * i)"
    using masked_shift_bound [of "7 * i"] Suc.prems(3,4) by simp
  have "unat (len + push_bit (unat shift) ((ucast b :: u32) AND 0x7F)) < 2 ^ (7 * Suc i)"
    using b Suc.prems(2) p
    by (simp add: unat_word_ariths power_add mod_less)
  moreover have "unat (shift + 7) = 7 * Suc i" using Suc.prems(3,4) by (simp add: unat_word_ariths)
  ultimately have "unat r < 2 ^ (7 * (Suc i + n))"
    using Suc.IH [OF r] Suc.prems(4) by simp
  then show ?case by simp
qed simp

lemma sum_length_readable:
  "(\<forall>j < i + n. rd m (cur + of_nat j) 1 \<noteq> None) \<Longrightarrow> \<exists>r. sum_length m cur i n len shift = Some r"
proof (induction n arbitrary: i len shift)
  case (Suc n)
  from Suc.prems obtain b where b: "rd m (cur + of_nat i) 1 = Some b" by force
  from Suc.prems have "\<forall>j < Suc i + n. rd m (cur + of_nat j) 1 \<noteq> None" by simp
  from Suc.IH [OF this] b show ?case by simp
qed simp

text \<open>Byte \<open>i\<close> of the encoded length says that another byte follows.\<close>

definition continues :: "memory \<Rightarrow> u64 \<Rightarrow> nat \<Rightarrow> bool" where
  "continues m cur i = (case rd m (cur + of_nat i) 1 of Some b \<Rightarrow> b AND 0x80 \<noteq> 0 | None \<Rightarrow> False)"

lemma continues_iff:
  "rd m (cur + of_nat i) 1 = Some b \<Longrightarrow> continues m cur i \<longleftrightarrow> b AND 0x80 \<noteq> 0"
  by (simp add: continues_def)

lemma find_end_all:
  "(\<forall>j. i \<le> j \<and> j < i + n \<longrightarrow> continues m cur j) \<Longrightarrow> find_end m cur i n = Some 0"
proof (induction n arbitrary: i)
  case (Suc n)
  then have "continues m cur i" "find_end m cur (Suc i) n = Some 0"
    using Suc.IH [of "Suc i"] by simp_all
  then show ?case by (auto simp: continues_def split: option.splits)
qed simp

lemma find_end_stop:
  "(\<forall>j. i \<le> j \<and> j < k \<longrightarrow> continues m cur j) \<Longrightarrow> i \<le> k \<Longrightarrow> k < i + n \<Longrightarrow>
     rd m (cur + of_nat k) 1 = Some b \<Longrightarrow> b AND 0x80 = 0 \<Longrightarrow> find_end m cur i n = Some (of_nat k)"
proof (induction n arbitrary: i)
  case (Suc n)
  show ?case
  proof (cases "i = k")
    case False
    with Suc.prems have "continues m cur i" "find_end m cur (Suc i) n = Some (of_nat k)"
      using Suc.IH [of "Suc i"] by simp_all
    then show ?thesis by (auto simp: continues_def split: option.splits)
  qed (use Suc.prems in simp)
qed simp

lemma filter_10062_eq:
  assumes "frame_get m frame F_r0 = Some p" and "rd m (ucast p) 8 = Some cur"
    and "\<forall>j < 5. rd m (cur + of_nat j) 1 \<noteq> None"
  shows "filter_10062 m frame =
    Some (if (\<forall>j < 4. continues m cur j) \<and> \<not> continues m cur 4
          then set_return32 1 (- EINVAL) else set_return32 0 0)"
proof -
  have pass: "filter_10062 m frame = Some (set_return32 0 0)"
    if ee: "find_end m cur 0 5 = Some (of_nat e)" "e < 4" for e
  proof -
    have u: "unat (of_nat e :: u8) = e" using ee(2) by (simp add: unat_of_nat)
    obtain r where r: "sum_length m cur 0 (e + 1) 0 0 = Some r"
      using sum_length_readable [of 0 "e + 1" m cur 0 0] assms(3) ee(2)
      by (auto simp del: sum_length.simps)
    have "unat r < 2 ^ (7 * (0 + (e + 1)))"
      using sum_length_bound [OF r] ee(2) by simp
    also have "\<dots> \<le> (2 :: nat) ^ 28" using ee(2) by (intro power_increasing) simp_all
    finally have "\<not> 0x0FFFFFFF < r" by (simp add: word_less_nat_alt)
    with ee r u show ?thesis
      by (simp add: filter_10062_def assms(1,2) word_le_nat_alt del: find_end.simps sum_length.simps)
  qed
  show ?thesis
  proof (cases "\<forall>j < 5. continues m cur j")
    case True
    then have "find_end m cur 0 5 = Some 0" by (intro find_end_all) simp
    with True show ?thesis using pass [of 0] by simp
  next
    case False
    then obtain k where k: "k < 5" "\<not> continues m cur k" "\<forall>j < k. continues m cur j"
      using exists_least_iff [of "\<lambda>j. j < 5 \<and> \<not> continues m cur j"] by (metis less_trans)
    obtain b where "rd m (cur + of_nat k) 1 = Some b" using assms(3) k(1) by blast
    with k have fe: "find_end m cur 0 5 = Some (of_nat k)"
      by (intro find_end_stop) (auto simp: continues_iff)
    show ?thesis
    proof (cases "k = 4")
      case True
      with k fe show ?thesis by (simp add: filter_10062_def assms(1,2))
    next
      case False
      with k pass [OF fe] show ?thesis by auto
    qed
  qed
qed

text \<open>On readable input the MQTT filter drops the packet exactly when the first four length
  bytes carry the continuation bit and the fifth does not. A length whose five bytes all
  carry the bit is passed on, and the final comparison with the maximal payload size never
  fires.\<close>

theorem filter_10062_verdict:
  assumes "frame_get m frame F_r0 = Some p" and "rd m (ucast p) 8 = Some cur"
    and "\<forall>j < 5. rd m (cur + of_nat j) 1 \<noteq> None"
  shows "filter_10062 m frame =
    Some (if (\<forall>j < 4. continues m cur j) \<and> \<not> continues m cur 4
          then set_return32 1 (- EINVAL) else set_return32 0 0)"
  by (rule filter_10062_eq [OF assms])

theorem filter_10062_verdict_witness:
  "let m = (\<lambda>a :: u32. Some (if a = 0 \<or> 0x80 \<le> a \<and> a < 0x100 then 0x80 else 0 :: u8))
   in (\<forall>j < 5. continues m 0x80 j) \<and> filter_10062 m 0x100 = Some 0"
proof -
  let ?m = "\<lambda>a :: u32. Some (if a = 0 \<or> 0x80 \<le> a \<and> a < 0x100 then 0x80 else 0 :: u8)"
  have c: "continues ?m 0x80 j \<and> rd ?m (0x80 + of_nat j) 1 \<noteq> None" if "j < 5" for j
  proof -
    from that have "j \<in> {0, 1, 2, 3, 4}" by auto
    then show ?thesis by (auto simp: continues_def rd_def mem_load_def)
  qed
  have "frame_get ?m 0x100 F_r0 = Some 0" "rd ?m (ucast (0 :: u32)) 8 = Some 0x80"
    by (simp_all add: frame_get_def rd_def mem_load_def word_le_nat_alt)
  from filter_10062_verdict [OF this] c show ?thesis
    by (simp add: Let_def set_return32_def set_return_def)
qed
end
