(* ===== verification/Lookup.thy ===== *)
theory Lookup
  imports Prelude
begin

text \<open>
  The interface of the small key-value containers of \<open>libebpf\<close> (\<open>arraymap\<close> in \<open>hashmap.c\<close>,
  \<open>Hashmap\<close> in \<open>ebpf_map.c\<close>), as its clients use it: an insertion that the container admits
  makes its key readable and changes no other key. A lookup of an absent key yields NULL.
\<close>

fun puts :: "('m \<Rightarrow> 'k \<Rightarrow> 'v \<Rightarrow> 'm) \<Rightarrow> 'm \<Rightarrow> ('k \<times> 'v) list \<Rightarrow> 'm" where
  "puts put m [] = m"
| "puts put m ((k, v) # kvs) = puts put (put m k v) kvs"

fun admits_all :: "('m \<Rightarrow> 'k \<Rightarrow> 'v \<Rightarrow> 'm) \<Rightarrow> ('m \<Rightarrow> 'k \<Rightarrow> 'v \<Rightarrow> bool) \<Rightarrow> 'm \<Rightarrow> ('k \<times> 'v) list \<Rightarrow> bool" where
  "admits_all put admits m [] \<longleftrightarrow> True"
| "admits_all put admits m ((k, v) # kvs) \<longleftrightarrow>
     admits m k v \<and> admits_all put admits (put m k v) kvs"

locale lookup_table =
  fixes inv :: "'m \<Rightarrow> bool"
    and get :: "'m \<Rightarrow> 'k \<Rightarrow> 'v"
    and put :: "'m \<Rightarrow> 'k \<Rightarrow> 'v \<Rightarrow> 'm"
    and admits :: "'m \<Rightarrow> 'k \<Rightarrow> 'v \<Rightarrow> bool"
  assumes put_inv: "inv m \<Longrightarrow> admits m k v \<Longrightarrow> inv (put m k v)"
    and get_put: "inv m \<Longrightarrow> admits m k v \<Longrightarrow> get (put m k v) j = (if j = k then v else get m j)"
begin

lemma puts_inv: "inv m \<Longrightarrow> admits_all put admits m kvs \<Longrightarrow> inv (puts put m kvs)"
  by (induction kvs arbitrary: m) (auto simp: put_inv)

text \<open>After a sequence of admitted insertions a key reads as its last binding.\<close>

lemma get_puts:
  "inv m \<Longrightarrow> admits_all put admits m kvs \<Longrightarrow>
     get (puts put m kvs) j = (case map_of (rev kvs) j of None \<Rightarrow> get m j | Some v \<Rightarrow> v)"
proof (induction kvs arbitrary: m)
  case (Cons p kvs)
  obtain k v where p: "p = (k, v)" by fastforce
  with Cons.prems have adm: "admits m k v" "admits_all put admits (put m k v) kvs" by auto
  then have "get (puts put (put m k v) kvs) j =
      (case map_of (rev kvs) j of None \<Rightarrow> get (put m k v) j | Some v \<Rightarrow> v)"
    using Cons.IH [of "put m k v"] put_inv [OF Cons.prems(1)] by simp
  then show ?case
    using get_put [OF Cons.prems(1) adm(1), of j]
    by (simp add: p map_add_def split: option.splits)
qed simp

text \<open>Insertions of different keys commute for every later lookup.\<close>

lemma get_put_swap:
  assumes "inv m" "admits m k v" "admits (put m k v) l w" "admits m l w" "admits (put m l w) k v"
    and "k \<noteq> l"
  shows "get (put (put m k v) l w) j = get (put (put m l w) k v) j"
  using assms by (simp add: get_put put_inv)

end

end
