(* ===== verification/Arraymap.thy ===== *)
theory Arraymap
  imports Lookup
begin

text \<open>
  \<open>libebpf/src/hashmap.c\<close>: the sorted array map of the fixed patches and the array of pointers.
  A block of \<open>void *\<close> is a function from indices to 32-bit words together with its size: the
  words from \<open>max_size\<close> on are what the heap holds behind the block, and the ghost flag
  \<open>am_oob\<close> (\<open>da_oob\<close>) records an access to them. A new block has arbitrary contents, which are
  arguments of the operations that allocate. Allocations are taken to succeed: the code does not
  test them.
\<close>

type_synonym block = "nat \<Rightarrow> u32"

definition MAP_GROW :: nat where "MAP_GROW = 4"

subsection \<open>Searching\<close>

text \<open>\<open>m == val\<close> and \<open>m > val\<close> compare an \<open>int\<close> with a \<open>uint32_t\<close>, hence unsigned.\<close>

function binary_search_loop :: "block \<Rightarrow> u32 \<Rightarrow> int \<Rightarrow> int \<Rightarrow> int" where
  "binary_search_loop arr val start fin =
     (if start \<le> fin then
        let mid = (start + fin) div 2; m = arr (nat mid) in
        if m = val then mid
        else if m > val then binary_search_loop arr val start (mid - 1)
        else binary_search_loop arr val (mid + 1) fin
      else - 1)"
  by pat_completeness auto
termination
  by (relation "measure (\<lambda>(arr, val, start, fin). nat (fin - start + 1))") auto

declare binary_search_loop.simps [simp del]

definition binary_search :: "block \<Rightarrow> nat \<Rightarrow> u32 \<Rightarrow> int" where
  "binary_search arr sz val = binary_search_loop arr val 0 (int sz - 1)"

function lower_bound_loop :: "block \<Rightarrow> u32 \<Rightarrow> nat \<Rightarrow> nat \<Rightarrow> nat" where
  "lower_bound_loop arr val start fin =
     (if start + 1 < fin then
        let mid = (start + fin) div 2 in
        if arr mid < val then lower_bound_loop arr val mid fin
        else lower_bound_loop arr val start mid
      else fin)"
  by pat_completeness auto
termination
  by (relation "measure (\<lambda>(arr, val, start, fin). fin - start)") auto

declare lower_bound_loop.simps [simp del]

definition lower_bound :: "block \<Rightarrow> nat \<Rightarrow> u32 \<Rightarrow> nat" where
  "lower_bound arr sz val = lower_bound_loop arr val 0 sz"

function upper_bound_loop :: "block \<Rightarrow> u32 \<Rightarrow> nat \<Rightarrow> nat \<Rightarrow> nat" where
  "upper_bound_loop arr val start fin =
     (if start + 1 < fin then
        let mid = (start + fin) div 2 in
        if arr mid \<le> val then upper_bound_loop arr val mid fin
        else upper_bound_loop arr val start mid
      else fin)"
  by pat_completeness auto
termination
  by (relation "measure (\<lambda>(arr, val, start, fin). fin - start)") auto

definition upper_bound :: "block \<Rightarrow> nat \<Rightarrow> u32 \<Rightarrow> nat" where
  "upper_bound arr sz val = upper_bound_loop arr val 0 sz"

declare upper_bound_loop.simps [simp del]

subsection \<open>The map\<close>

record arraymap =
  am_max :: nat
  am_cur :: nat
  am_keys :: block
  am_vals :: block
  am_oob :: bool

text \<open>The two sizes are \<open>uint16_t\<close>.\<close>

definition u16_of :: "nat \<Rightarrow> nat" where "u16_of n = n mod 65536"

definition arraymap_new :: "block \<Rightarrow> block \<Rightarrow> nat \<Rightarrow> arraymap" where
  "arraymap_new bk bv initial_size =
     \<lparr>am_max = u16_of initial_size, am_cur = 0, am_keys = bk, am_vals = bv, am_oob = False\<rparr>"

text \<open>\<open>ebpf_realloc\<close> copies \<open>ori_size\<close> bytes, and \<open>ori_size\<close> counts the 8 bytes of a \<open>darray\<close> header
  the block does not have: two words behind the old block are read.\<close>

definition grow_block :: "nat \<Rightarrow> block \<Rightarrow> block \<Rightarrow> block" where
  "grow_block mx fresh b = (\<lambda>i. if i < mx + 2 then b i else fresh i)"

definition grow :: "block \<Rightarrow> block \<Rightarrow> arraymap \<Rightarrow> arraymap" where
  "grow bk bv m =
     m\<lparr>am_keys := grow_block (am_max m) bk (am_keys m),
       am_vals := grow_block (am_max m) bv (am_vals m),
       am_max := u16_of (am_max m + MAP_GROW), am_oob := True\<rparr>"

fun shift_up :: "nat \<Rightarrow> nat \<Rightarrow> block \<Rightarrow> block" where
  "shift_up ins 0 b = b"
| "shift_up ins (Suc i) b = (if Suc i > ins then shift_up ins i (b(Suc i := b i)) else b)"

text \<open>\<open>None\<close> is the \<open>return\<close> without a value of the modifying branch.\<close>

definition arraymap_set :: "block \<Rightarrow> block \<Rightarrow> arraymap \<Rightarrow> u32 \<Rightarrow> u32 \<Rightarrow> int option \<times> arraymap" where
  "arraymap_set bk bv m key val =
     (if am_cur m = 0 then
        (Some 0, m\<lparr>am_keys := (am_keys m)(0 := key), am_vals := (am_vals m)(0 := val),
                   am_cur := 1, am_oob := am_oob m \<or> am_max m = 0\<rparr>)
      else
        let ins = lower_bound (am_keys m) (am_cur m) key;
            m1 = m\<lparr>am_oob := am_oob m \<or> ins \<ge> am_max m\<rparr>
        in if am_keys m1 ins = key then (None, m1\<lparr>am_vals := (am_vals m1)(ins := val)\<rparr>)
           else
             let m2 = (if am_cur m1 \<ge> am_max m1 then grow bk bv m1 else m1);
                 ks = shift_up ins (am_cur m2) (am_keys m2);
                 vs = shift_up ins (am_cur m2) (am_vals m2)
             in (Some (int ins),
                 m2\<lparr>am_keys := ks(ins := key), am_vals := vs(ins := val),
                    am_cur := u16_of (am_cur m2 + 1),
                    am_oob := am_oob m2 \<or> am_cur m2 \<ge> am_max m2\<rparr>))"

definition arraymap_get :: "arraymap \<Rightarrow> u32 \<Rightarrow> u32" where
  "arraymap_get m key =
     (let idx = binary_search (am_keys m) (am_cur m) key
      in if idx \<noteq> - 1 then am_vals m (nat idx) else 0)"

definition arraymap_iter_key :: "arraymap \<Rightarrow> int \<Rightarrow> u32" where
  "arraymap_iter_key m idx = (if idx < 0 \<or> idx \<ge> int (am_cur m) then 0 else am_keys m (nat idx))"

definition arraymap_iter_val :: "arraymap \<Rightarrow> int \<Rightarrow> u32" where
  "arraymap_iter_val m idx = (if idx < 0 \<or> idx \<ge> int (am_cur m) then 0 else am_vals m (nat idx))"

fun shift_down :: "nat \<Rightarrow> nat \<Rightarrow> block \<Rightarrow> block" where
  "shift_down i 0 b = b"
| "shift_down i (Suc n) b = shift_down (Suc i) n (b(i := b (Suc i)))"

text \<open>The loop runs to \<open>cur_size - 1\<close> and reads one slot behind it.\<close>

definition arraymap_del :: "arraymap \<Rightarrow> u32 \<Rightarrow> arraymap" where
  "arraymap_del m key =
     (let idx = binary_search (am_keys m) (am_cur m) key
      in if idx = - 1 then m
         else
           let i = nat idx; n = am_cur m - i; c = am_cur m - 1
           in m\<lparr>am_keys := (shift_down i n (am_keys m))(c := 0),
                am_vals := (shift_down i n (am_vals m))(c := 0),
                am_cur := c, am_oob := am_oob m \<or> am_cur m \<ge> am_max m\<rparr>)"

subsection \<open>The array of pointers\<close>

record darray =
  da_cur :: nat
  da_max :: nat
  da_vals :: block
  da_oob :: bool

definition darray_new :: "nat \<Rightarrow> block \<Rightarrow> darray" where
  "darray_new initial_size b =
     \<lparr>da_cur = 0, da_max = initial_size,
      da_vals = (\<lambda>i. if i < initial_size then 0 else b i), da_oob = False\<rparr>"

text \<open>The first free slot below \<open>cur_size\<close>, as the loop of \<open>darray_add\<close> finds it.\<close>

fun first_free :: "block \<Rightarrow> nat \<Rightarrow> nat \<Rightarrow> nat option" where
  "first_free b i 0 = None"
| "first_free b i (Suc n) = (if b i = 0 then Some i else first_free b (Suc i) n)"

text \<open>\<open>darray_add\<close> may move the array: the second result is the array behind the caller's own
  pointer, which still names the old block, the third the array behind the local pointer.\<close>

definition darray_add :: "block \<Rightarrow> darray \<Rightarrow> u32 \<Rightarrow> nat \<times> darray \<times> darray" where
  "darray_add fresh a val =
     (case first_free (da_vals a) 0 (da_cur a) of
        Some i \<Rightarrow> let a1 = a\<lparr>da_vals := (da_vals a)(i := val)\<rparr> in (i, a1, a1)
      | None \<Rightarrow>
          let idx = da_cur a; a1 = a\<lparr>da_cur := da_cur a + 1\<rparr> in
          if da_cur a1 \<ge> da_max a1 then
            let a2 = a1\<lparr>da_vals := (\<lambda>i. if i < da_max a1 then da_vals a1 i else fresh i),
                        da_max := da_max a1 + MAP_GROW\<rparr>
            in (idx, a1, a2\<lparr>da_vals := (da_vals a2)(idx := val)\<rparr>)
          else let a2 = a1\<lparr>da_vals := (da_vals a1)(idx := val)\<rparr> in (idx, a2, a2))"

definition darray_get :: "darray \<Rightarrow> nat \<Rightarrow> u32" where
  "darray_get a key = (if key < da_cur a then da_vals a key else 0)"

definition darray_set :: "darray \<Rightarrow> nat \<Rightarrow> u32 \<Rightarrow> darray" where
  "darray_set a key val = (if key < da_max a then a\<lparr>da_vals := (da_vals a)(key := val)\<rparr> else a)"

definition darray_del :: "darray \<Rightarrow> nat \<Rightarrow> darray" where
  "darray_del a key = (if key < da_cur a then a\<lparr>da_vals := (da_vals a)(key := 0)\<rparr> else a)"


subsection \<open>Correctness of the searches\<close>

definition sorted_upto :: "block \<Rightarrow> nat \<Rightarrow> bool" where
  "sorted_upto b n \<longleftrightarrow> (\<forall>i j. i < j \<longrightarrow> j < n \<longrightarrow> b i < b j)"

lemma sorted_uptoD: "sorted_upto b n \<Longrightarrow> i < j \<Longrightarrow> j < n \<Longrightarrow> b i < b j"
  by (auto simp: sorted_upto_def)

lemma binary_search_loop_sound:
  assumes "0 \<le> s" "f < int n"
  shows "binary_search_loop b v s f = - 1 \<or>
    (\<exists>i < n. binary_search_loop b v s f = int i \<and> b i = v)"
  using assms
proof (induction b v s f rule: binary_search_loop.induct)
  case (1 b v s f)
  let ?mid = "(s + f) div 2"
  show ?case
  proof (cases "s \<le> f")
    case True
    then have m: "0 \<le> ?mid" "?mid < int n" using "1.prems" by auto
    with True 1 show ?thesis
      by (subst (1 2) binary_search_loop.simps) (auto simp: Let_def intro!: exI [of _ "nat ?mid"])
  qed (simp add: binary_search_loop.simps)
qed

lemma binary_search_loop_complete:
  assumes "sorted_upto b n" "0 \<le> s" "f < int n" "s \<le> int i" "int i \<le> f" "b i = v"
  shows "binary_search_loop b v s f = int i"
  using assms
proof (induction b v s f rule: binary_search_loop.induct)
  case (1 b v s f)
  let ?mid = "(s + f) div 2"
  have m: "0 \<le> ?mid" "nat ?mid < n" "s \<le> ?mid" "?mid \<le> f" using "1.prems" by auto
  consider (eq) "int i = ?mid" | (lt) "int i < ?mid" | (gt) "int i > ?mid" by linarith
  then show ?case
  proof cases
    case eq
    then have "nat ?mid = i" by simp
    then show ?thesis using "1.prems" m eq by (subst binary_search_loop.simps) (auto simp: Let_def)
  next
    case lt
    then have "b i < b (nat ?mid)" using "1.prems"(1) m by (intro sorted_uptoD [of b n]) auto
    then show ?thesis using "1.IH"(1) "1.prems" lt
      by (subst binary_search_loop.simps) (auto simp: Let_def)
  next
    case gt
    then have "b (nat ?mid) < b i" using "1.prems" m by (intro sorted_uptoD [of b n]) auto
    then show ?thesis using "1.IH"(2) "1.prems" gt m
      by (subst binary_search_loop.simps) (auto simp: Let_def)
  qed
qed

lemma sorted_upto_inj: "sorted_upto b n \<Longrightarrow> i < n \<Longrightarrow> j < n \<Longrightarrow> b i = b j \<Longrightarrow> i = j"
  by (metis less_irrefl linorder_neqE_nat sorted_uptoD)

text \<open>On a strictly sorted block, \<open>binary_search\<close> finds the one index of a value or reports that
  there is none.\<close>

lemma binary_search_found: "sorted_upto b n \<Longrightarrow> i < n \<Longrightarrow> binary_search b n (b i) = int i"
  unfolding binary_search_def by (rule binary_search_loop_complete) auto

lemma binary_search_absent: "(\<And>i. i < n \<Longrightarrow> b i \<noteq> v) \<Longrightarrow> binary_search b n v = - 1"
  unfolding binary_search_def using binary_search_loop_sound [of 0 "int n - 1" n b v] by auto

text \<open>The insertion point: the least index from 1 on whose value is not below.\<close>

lemma lower_bound_loop_spec:
  assumes "sorted_upto b n" "s < f" "f \<le> n"
    and "\<forall>i. 0 < i \<longrightarrow> i \<le> s \<longrightarrow> b i < v" "\<forall>i. f \<le> i \<longrightarrow> i < n \<longrightarrow> v \<le> b i"
  shows "s < lower_bound_loop b v s f \<and> lower_bound_loop b v s f \<le> f \<and>
    (\<forall>i. 0 < i \<longrightarrow> i < lower_bound_loop b v s f \<longrightarrow> b i < v) \<and>
    (\<forall>i. lower_bound_loop b v s f \<le> i \<longrightarrow> i < n \<longrightarrow> v \<le> b i)"
  using assms
proof (induction b v s f rule: lower_bound_loop.induct)
  case (1 b v s f)
  let ?mid = "(s + f) div 2"
  show ?case
  proof (cases "s + 1 < f")
    case False
    then have "lower_bound_loop b v s f = f" by (subst lower_bound_loop.simps) simp
    then show ?thesis using "1.prems" False by simp
  next
    case True
    then have m: "s < ?mid" "?mid < f" "?mid < n" using "1.prems" by auto
    show ?thesis
    proof (cases "b ?mid < v")
      case less: True
      have G: "\<forall>i. 0 < i \<longrightarrow> i \<le> ?mid \<longrightarrow> b i < v"
      proof (intro allI impI)
        fix i assume "0 < i" "i \<le> ?mid"
        then show "b i < v" using less m sorted_uptoD [OF "1.prems"(1), of i ?mid]
          by (cases "i = ?mid") auto
      qed
      have e: "lower_bound_loop b v s f = lower_bound_loop b v ?mid f"
        using True less by (subst lower_bound_loop.simps) (simp add: Let_def)
      note ih = "1.IH"(1) [OF True refl less "1.prems"(1) m(2) "1.prems"(3) G "1.prems"(5)]
      from ih m(1) have "s < lower_bound_loop b v ?mid f" by linarith
      with ih show ?thesis unfolding e by blast
    next
      case ge: False
      have G: "\<forall>i. ?mid \<le> i \<longrightarrow> i < n \<longrightarrow> v \<le> b i"
      proof (intro allI impI)
        fix i assume "?mid \<le> i" "i < n"
        then show "v \<le> b i" using ge sorted_uptoD [OF "1.prems"(1), of ?mid i]
          by (cases "i = ?mid") auto
      qed
      have e: "lower_bound_loop b v s f = lower_bound_loop b v s ?mid"
        using True ge by (subst lower_bound_loop.simps) (simp add: Let_def)
      note ih = "1.IH"(2) [OF True refl ge "1.prems"(1) m(1) less_imp_le [OF m(3)] "1.prems"(4) G]
      from ih m(2) have "lower_bound_loop b v s ?mid \<le> f" by linarith
      with ih show ?thesis unfolding e by blast
    qed
  qed
qed

lemma lower_bound_spec:
  assumes "sorted_upto b n" "0 < n"
  shows "0 < lower_bound b n v" "lower_bound b n v \<le> n"
    and "0 < i \<Longrightarrow> i < lower_bound b n v \<Longrightarrow> b i < v"
    and "lower_bound b n v \<le> i \<Longrightarrow> i < n \<Longrightarrow> v \<le> b i"
  using lower_bound_loop_spec [OF assms(1), of 0 n v] assms(2) by (auto simp: lower_bound_def)

subsection \<open>The map contract\<close>

definition am_inv :: "arraymap \<Rightarrow> bool" where
  "am_inv m \<longleftrightarrow> sorted_upto (am_keys m) (am_cur m) \<and> am_cur m \<le> am_max m \<and> 0 < am_max m"

text \<open>An insertion into a map with entries behaves when its key is above the first key (the
  search never returns index 0), when the slot behind the last key does not happen to hold
  it, and when the sizes stay in 16 bits.\<close>

definition am_admits :: "arraymap \<Rightarrow> u32 \<Rightarrow> u32 \<Rightarrow> bool" where
  "am_admits m k v \<longleftrightarrow>
     (am_cur m = 0 \<or> am_keys m 0 < k \<and> am_keys m (am_cur m) \<noteq> k) \<and> am_max m + MAP_GROW < 65536"

definition am_put :: "block \<Rightarrow> block \<Rightarrow> arraymap \<Rightarrow> u32 \<Rightarrow> u32 \<Rightarrow> arraymap" where
  "am_put bk bv m k v = snd (arraymap_set bk bv m k v)"

lemma get_at: "am_inv m \<Longrightarrow> i < am_cur m \<Longrightarrow> arraymap_get m (am_keys m i) = am_vals m i"
  by (simp add: arraymap_get_def binary_search_found am_inv_def)

lemma get_absent: "(\<And>i. i < am_cur m \<Longrightarrow> am_keys m i \<noteq> k) \<Longrightarrow> arraymap_get m k = 0"
  by (simp add: arraymap_get_def binary_search_absent)

lemma shift_up_eq: "shift_up ins c b j = (if ins < j \<and> j \<le> c then b (j - 1) else b j)"
  by (induction c arbitrary: b) auto

lemma shift_down_eq: "shift_down i n b j = (if i \<le> j \<and> j < i + n then b (Suc j) else b j)"
  by (induction n arbitrary: i b) auto

text \<open>What an admitted insertion into a map with entries does.\<close>

lemma set_cases:
  assumes "am_inv m" "am_admits m k v" "am_cur m \<noteq> 0"
  obtains (modify) i where "i < am_cur m" "am_keys m i = k"
      "am_keys (am_put bk bv m k v) = am_keys m" "am_cur (am_put bk bv m k v) = am_cur m"
      "am_max (am_put bk bv m k v) = am_max m"
      "am_vals (am_put bk bv m k v) = (am_vals m)(i := v)"
  | (insert) i where "0 < i" "i \<le> am_cur m" "\<And>j. j < i \<Longrightarrow> am_keys m j < k"
      "\<And>j. i \<le> j \<Longrightarrow> j < am_cur m \<Longrightarrow> k < am_keys m j"
      "am_cur (am_put bk bv m k v) = am_cur m + 1" "am_cur m < am_max (am_put bk bv m k v)"
      "\<And>j. j \<le> am_cur m \<Longrightarrow> am_keys (am_put bk bv m k v) j =
         (if j = i then k else if i < j then am_keys m (j - 1) else am_keys m j)"
      "\<And>j. j \<le> am_cur m \<Longrightarrow> am_vals (am_put bk bv m k v) j =
         (if j = i then v else if i < j then am_vals m (j - 1) else am_vals m j)"
proof -
  let ?i = "lower_bound (am_keys m) (am_cur m) k"
  have s: "sorted_upto (am_keys m) (am_cur m)" "0 < am_cur m" "am_cur m \<le> am_max m"
    using assms by (auto simp: am_inv_def)
  note lb = lower_bound_spec [OF s(1,2), where v = k]
  have below: "am_keys m j < k" if "j < ?i" for j
    using lb(3) [of j] that assms(2,3) by (cases "j = 0") (auto simp: am_admits_def)
  show thesis
  proof (cases "am_keys m ?i = k")
    case True
    then have "?i < am_cur m" using lb(2) assms(2,3) by (cases "?i = am_cur m") (auto simp: am_admits_def)
    then show thesis
      using True assms(3) by (intro modify [of ?i]) (auto simp: am_put_def arraymap_set_def Let_def)
  next
    case False
    have above: "k < am_keys m j" if "?i \<le> j" "j < am_cur m" for j
    proof -
      have "k < am_keys m ?i" using lb(4) [of ?i] that False by simp
      then show ?thesis using that sorted_uptoD [OF s(1), of ?i j] by (cases "j = ?i") auto
    qed
    have sz: "am_cur m + 1 < 65536" "am_max m + 4 < 65536"
      using assms(2) s(3) by (auto simp: am_admits_def MAP_GROW_def)
    show thesis
      using False assms(3) lb(1,2) below above sz s(3)
      by (intro insert [of ?i])
         (auto simp: am_put_def arraymap_set_def Let_def shift_up_eq grow_def grow_block_def u16_of_def
            MAP_GROW_def)
  qed
qed

lemma am_put_first:
  assumes "am_cur m = 0"
  shows "am_cur (am_put bk bv m k v) = 1" "am_keys (am_put bk bv m k v) 0 = k"
    "am_vals (am_put bk bv m k v) 0 = v" "am_max (am_put bk bv m k v) = am_max m"
  using assms by (simp_all add: am_put_def arraymap_set_def)

lemma am_put_inv:
  assumes "am_inv m" "am_admits m k v"
  shows "am_inv (am_put bk bv m k v)"
proof (cases "am_cur m = 0")
  case True
  then show ?thesis using assms(1) am_put_first [OF True, of bk bv k v]
    by (auto simp: am_inv_def sorted_upto_def)
next
  case False
  note s = assms(1) [unfolded am_inv_def]
  show ?thesis
  proof (cases rule: set_cases [OF assms False, of bk bv, case_names modify insert])
    case (modify i)
    then show ?thesis using s by (simp add: am_inv_def)
  next
    case (insert i)
    have "am_keys (am_put bk bv m k v) a < am_keys (am_put bk bv m k v) b"
      if "a < b" "b < am_cur m + 1" for a b
    proof -
      have ab: "a \<le> am_cur m" "b \<le> am_cur m" using that by simp_all
      show ?thesis
        unfolding insert(7) [OF ab(1)] insert(7) [OF ab(2)]
        using that insert(1-4) s sorted_uptoD [of "am_keys m" "am_cur m"] by auto
    qed
    then show ?thesis using insert(5,6) by (simp add: am_inv_def sorted_upto_def)
  qed
qed

lemma am_get_put:
  assumes "am_inv m" "am_admits m k v"
  shows "arraymap_get (am_put bk bv m k v) j = (if j = k then v else arraymap_get m j)"
proof -
  let ?m = "am_put bk bv m k v"
  note inv' = am_put_inv [OF assms, of bk bv]
  have found: "arraymap_get ?m j = am_vals ?m i" if "i < am_cur ?m" "am_keys ?m i = j" for i
    using get_at [OF inv' that(1)] that(2) by simp
  have absent: "arraymap_get ?m j = arraymap_get m j"
    if "\<And>i. i < am_cur ?m \<Longrightarrow> am_keys ?m i \<noteq> j" "\<And>i. i < am_cur m \<Longrightarrow> am_keys m i \<noteq> j"
    using get_absent [of ?m j] get_absent [of m j] that by simp
  show ?thesis
  proof (cases "am_cur m = 0")
    case True
    note f = am_put_first [OF True, of bk bv k v]
    show ?thesis using found [of 0] absent f True by (cases "j = k") auto
  next
    case False
    show ?thesis
    proof (cases rule: set_cases [OF assms False, of bk bv, case_names modify insert])
      case (modify i)
      have "arraymap_get ?m j = arraymap_get m j" if "j \<noteq> k"
      proof (cases "\<exists>l < am_cur m. am_keys m l = j")
        case True
        then obtain l where l: "l < am_cur m" "am_keys m l = j" by blast
        then have "l \<noteq> i" using modify(2) that by auto
        then show ?thesis using found [of l] get_at [OF assms(1) l(1)] l modify by simp
      qed (use absent modify in auto)
      then show ?thesis using found [of i] modify by auto
    next
      case (insert i)
      have "arraymap_get ?m j = arraymap_get m j" if "j \<noteq> k"
      proof (cases "\<exists>l < am_cur m. am_keys m l = j")
        case True
        then obtain l where l: "l < am_cur m" "am_keys m l = j" by blast
        let ?l = "if l < i then l else Suc l"
        have "am_keys ?m ?l = j" "am_vals ?m ?l = am_vals m l"
          using insert(7) [of ?l] insert(8) [of ?l] l by auto
        then show ?thesis using found [of ?l] get_at [OF assms(1) l(1)] l insert(5) by auto
      next
        case no: False
        have "am_keys ?m a \<noteq> j" if "a < am_cur ?m" for a
          using insert(7) [of a] no insert(1,2,5) that \<open>j \<noteq> k\<close> by auto
        then show ?thesis using absent no by blast
      qed
      then show ?thesis using found [of i] insert(7) [of i] insert(8) [of i] insert(2,5) by auto
    qed
  qed
qed

interpretation am: lookup_table am_inv arraymap_get "am_put bk bv" am_admits
  by unfold_locales (simp_all add: am_put_inv am_get_put)

lemma lower_bound_one: "lower_bound b (Suc 0) k = 1"
  by (simp add: lower_bound_def lower_bound_loop.simps)

lemma am_new_inv: "0 < n \<Longrightarrow> n < 65536 \<Longrightarrow> am_inv (arraymap_new k0 v0 n)"
  by (simp add: am_inv_def arraymap_new_def sorted_upto_def u16_of_def)

text \<open>C24: in a map filled by admitted insertions only, a lookup returns the value of the last
  insertion of the key, and NULL for a key that was never inserted.\<close>

theorem arraymap_lookup:
  assumes "0 < n" and "n < 65536"
    and "admits_all (am_put bk bv) am_admits (arraymap_new k0 v0 n) kvs"
  shows "arraymap_get (puts (am_put bk bv) (arraymap_new k0 v0 n) kvs) j =
    (case map_of (rev kvs) j of None \<Rightarrow> 0 | Some v \<Rightarrow> v)"
proof -
  have "arraymap_get (arraymap_new k0 v0 n) j = 0"
    by (rule get_absent) (simp add: arraymap_new_def)
  then show ?thesis
    using am.get_puts [OF am_new_inv [OF assms(1,2)] assms(3), of j] by (simp split: option.splits)
qed

theorem arraymap_lookup_witness:
  "arraymap_get (puts (am_put (\<lambda>_. 0) (\<lambda>_. 0)) (arraymap_new (\<lambda>_. 0) (\<lambda>_. 0) 4)
     [(8, 1), (20, 2), (12, 3)]) 12 = 3"
proof -
  have "admits_all (am_put (\<lambda>_. 0) (\<lambda>_. 0)) am_admits (arraymap_new (\<lambda>_. 0) (\<lambda>_. 0) 4)
     [(8, 1), (20, 2), (12, 3)]"
    by (simp add: am_put_def arraymap_set_def arraymap_new_def am_admits_def Let_def lower_bound_one
        u16_of_def MAP_GROW_def shift_up_eq)
  then show ?thesis
    using arraymap_lookup [of 4 "\<lambda>_. 0" "\<lambda>_. 0" "\<lambda>_. 0" "\<lambda>_. 0" "[(8, 1), (20, 2), (12, 3)]" 12]
    by simp
qed

subsection \<open>Deletion\<close>

lemma del_present:
  assumes "am_inv m" "i < am_cur m"
  shows "am_cur (arraymap_del m (am_keys m i)) = am_cur m - 1"
    and "j < am_cur m - 1 \<Longrightarrow> am_keys (arraymap_del m (am_keys m i)) j = am_keys m (if j < i then j else Suc j)"
    and "j < am_cur m - 1 \<Longrightarrow> am_vals (arraymap_del m (am_keys m i)) j = am_vals m (if j < i then j else Suc j)"
    and "am_max (arraymap_del m (am_keys m i)) = am_max m"
  using assms by (auto simp: arraymap_del_def Let_def binary_search_found am_inv_def shift_down_eq)

text \<open>Deletion removes its key and nothing else, and keeps the map sorted.\<close>

theorem arraymap_del_correct:
  assumes "am_inv m"
  shows "am_inv (arraymap_del m k) \<and>
    arraymap_get (arraymap_del m k) j = (if j = k then 0 else arraymap_get m j)"
proof (cases "\<exists>i < am_cur m. am_keys m i = k")
  case False
  then have "arraymap_del m k = m" by (simp add: arraymap_del_def binary_search_absent)
  then show ?thesis using assms get_absent [of m k] False by auto
next
  case True
  then obtain i where i: "i < am_cur m" "am_keys m i = k" by blast
  let ?m = "arraymap_del m k"
  note d = del_present [OF assms i(1), unfolded i(2)]
  note s = assms [unfolded am_inv_def]
  have skip: "(if a < i then a else Suc a) < (if b < i then b else Suc b)" if "a < b" for a b
    using that by auto
  have "am_keys ?m a < am_keys ?m b" if "a < b" "b < am_cur m - 1" for a b
    using d(2) [of a] d(2) [of b] that skip [OF that(1)] s
      sorted_uptoD [of "am_keys m" "am_cur m" "if a < i then a else Suc a" "if b < i then b else Suc b"]
    by (auto split: if_splits)
  then have inv': "am_inv ?m" using s d(1,4) by (auto simp: am_inv_def sorted_upto_def)
  have gone: "arraymap_get ?m k = 0"
  proof (rule get_absent)
    fix a assume "a < am_cur ?m"
    then have "a < am_cur m - 1" "Suc a < am_cur m" using d(1) by simp_all
    then show "am_keys ?m a \<noteq> k"
      using d(2) [of a] i sorted_upto_inj [of "am_keys m" "am_cur m" "if a < i then a else Suc a" i] s
      by (auto split: if_splits)
  qed
  have kept: "arraymap_get ?m j = arraymap_get m j" if "j \<noteq> k"
  proof (cases "\<exists>l < am_cur m. am_keys m l = j")
    case True
    then obtain l where l: "l < am_cur m" "am_keys m l = j" by blast
    then have "l \<noteq> i" using i that by auto
    let ?l = "if l < i then l else l - 1"
    have p: "?l < am_cur m - 1" "(if ?l < i then ?l else Suc ?l) = l" using l(1) i(1) \<open>l \<noteq> i\<close> by auto
    then have "am_keys ?m ?l = j" "am_vals ?m ?l = am_vals m l"
      using d(2) [OF p(1)] d(3) [OF p(1)] l(2) by simp_all
    then show ?thesis using get_at [OF inv', of ?l] get_at [OF assms l(1)] l p(1) d(1) by simp
  next
    case no: False
    have "am_keys ?m a \<noteq> j" if "a < am_cur ?m" for a
      using d(1) d(2) [of a] no that by (auto split: if_splits)
    then show ?thesis using get_absent [of ?m j] get_absent [of m j] no by metis
  qed
  show ?thesis using inv' gone kept by simp
qed

definition sample_map :: arraymap where
  "sample_map = \<lparr>am_max = 4, am_cur = 2, am_keys = (\<lambda>_. 0)(0 := 8, 1 := 20),
     am_vals = (\<lambda>_. 0)(0 := 1, 1 := 2), am_oob = False\<rparr>"

theorem arraymap_del_correct_witness:
  "am_inv (arraymap_del sample_map 8) \<and> arraymap_get (arraymap_del sample_map 8) 8 = 0"
  using arraymap_del_correct [of sample_map 8 8]
  by (auto simp: sample_map_def am_inv_def sorted_upto_def less_2_cases_iff)

subsection \<open>Insertions that are not admitted\<close>

text \<open>An insertion whose key is not above the only key of a map is lost: the search for the
  insertion point never returns index 0, so the new entry goes behind the old one. For the
  same key the old value stays visible, and a smaller key is not found at all.\<close>

theorem arraymap_set_lost:
  assumes "am_cur m = 1" and "k \<le> am_keys m 0" and "am_keys m 1 \<noteq> k"
  shows "arraymap_get (am_put bk bv m k v) k = (if k = am_keys m 0 then am_vals m 0 else 0) \<and>
    am_cur (am_put bk bv m k v) = 2"
proof -
  let ?m = "am_put bk bv m k v"
  have f: "am_cur ?m = 2" "am_keys ?m 0 = am_keys m 0" "am_vals ?m 0 = am_vals m 0"
    using assms by (auto simp: am_put_def arraymap_set_def Let_def lower_bound_one grow_def
        grow_block_def u16_of_def shift_up_eq)
  have "binary_search (am_keys ?m) 2 k = (if k = am_keys m 0 then 0 else - 1)"
    using assms(2) f(2)
    by (auto simp: binary_search_def binary_search_loop.simps Let_def order.order_iff_strict)
  then show ?thesis using f by (auto simp: arraymap_get_def)
qed

theorem arraymap_set_lost_witness:
  "arraymap_get (am_put (\<lambda>_. 0) (\<lambda>_. 0) (sample_map\<lparr>am_cur := 1\<rparr>) 8 7) 8 = 1"
  using arraymap_set_lost [of "sample_map\<lparr>am_cur := 1\<rparr>" 8 "\<lambda>_. 0" "\<lambda>_. 0" 7]
  by (simp add: sample_map_def)

text \<open>Below capacity an insertion stays inside its blocks; at capacity the copy reads the two
  words behind the old block.\<close>

lemma arraymap_set_in_bounds:
  assumes "am_inv m" "am_cur m < am_max m" "am_max m < 65536"
  shows "am_oob (am_put bk bv m k v) = am_oob m"
proof (cases "am_cur m = 0")
  case True
  then show ?thesis using assms by (simp add: am_put_def arraymap_set_def am_inv_def)
next
  case False
  then have "lower_bound (am_keys m) (am_cur m) k \<le> am_cur m"
    using assms(1) by (intro lower_bound_spec) (auto simp: am_inv_def)
  then show ?thesis using assms False by (auto simp: am_put_def arraymap_set_def Let_def)
qed

lemma arraymap_set_full_oob:
  assumes "am_inv m" "am_cur m = am_max m" "\<forall>i < am_cur m. am_keys m i \<noteq> k"
    "am_keys m (am_cur m) \<noteq> k"
  shows "am_oob (am_put bk bv m k v)"
proof -
  have "lower_bound (am_keys m) (am_cur m) k \<le> am_cur m"
    using assms(1,2) by (intro lower_bound_spec) (auto simp: am_inv_def)
  then have "am_keys m (lower_bound (am_keys m) (am_cur m) k) \<noteq> k"
    using assms(3,4) by (cases "lower_bound (am_keys m) (am_cur m) k = am_cur m") auto
  with assms(1,2) show ?thesis
    by (simp add: am_put_def arraymap_set_def Let_def grow_def am_inv_def)
qed

subsection \<open>The array of pointers\<close>

lemma first_free_sound:
  "first_free b i n = Some k \<Longrightarrow> i \<le> k \<and> k < i + n \<and> b k = 0"
  by (induction b i n rule: first_free.induct) (auto split: if_splits)

text \<open>An added pointer is read back through the array the operation used; the caller's own
  pointer names that array only while no growth was needed.\<close>

lemma darray_add_get:
  assumes "darray_add fresh a val = (idx, caller, moved)" "da_cur a < da_max a"
  shows "darray_get moved idx = val" "da_cur a + 1 < da_max a \<Longrightarrow> caller = moved"
  using assms first_free_sound [of "da_vals a" 0 "da_cur a" idx]
  by (auto simp: darray_add_def darray_get_def Let_def split: option.splits if_splits)

end
