(* ===== verification/Utils.thy ===== *)
theory Utils
  imports Ebpf_Vm
begin

text \<open>
  The helpers of \<open>hotpatch/src/utils.c\<close>: decimal and byte parsing, the address of the
  instruction after a Thumb instruction and before one, and the halfword swap of an encoded
  instruction. Arithmetic on \<open>int\<close> that leaves 32 bits is undefined: the result is \<open>None\<close>; \<open>char\<close> is
  unsigned, as on ARM.
\<close>

definition int_ok :: "int \<Rightarrow> bool" where "int_ok v \<longleftrightarrow> - (2 ^ 31) \<le> v \<and> v < 2 ^ 31"

text \<open>The two statements of a turn of either loop, \<open>val *= base\<close> and \<open>val += d\<close>.\<close>

definition push_digit :: "int \<Rightarrow> int \<Rightarrow> int \<Rightarrow> int option" where
  "push_digit base d val =
     (if int_ok (val * base) \<and> int_ok (val * base + d) then Some (val * base + d) else None)"

text \<open>The list ends the string: an element 0 or the end of the list is the terminator.\<close>

fun str2int_from :: "u8 list \<Rightarrow> int \<Rightarrow> int option" where
  "str2int_from [] val = Some val"
| "str2int_from (c # cs) val =
     (if c = 0 then Some val else Option.bind (push_digit 10 (uint c - 48) val) (str2int_from cs))"

definition str2int :: "u8 list \<Rightarrow> s32 option" where
  "str2int str = map_option word_of_int (str2int_from str 0)"

text \<open>\<open>None\<close> is a read past the buffer, too; a length that is not positive reads nothing.\<close>

fun byte2int_from :: "u8 list \<Rightarrow> nat \<Rightarrow> int \<Rightarrow> int option" where
  "byte2int_from buf 0 val = Some val"
| "byte2int_from [] (Suc n) val = None"
| "byte2int_from (b # bs) (Suc n) val = Option.bind (push_digit 256 (uint b) val) (byte2int_from bs n)"

definition byte2int :: "u8 list \<Rightarrow> int \<Rightarrow> s32 option" where
  "byte2int buf len = map_option word_of_int (byte2int_from buf (nat len) 0)"

text \<open>Reading the halfword faults when the address is not mapped.\<close>

definition load16 :: "memory \<Rightarrow> u32 \<Rightarrow> u16 option" where
  "load16 m a = map_option ucast (mem_load m a 2)"

definition load32 :: "memory \<Rightarrow> u32 \<Rightarrow> u32 option" where
  "load32 m a = map_option ucast (mem_load m a 4)"

definition calc_bpkt_pc :: "memory \<Rightarrow> u32 \<Rightarrow> u32 option" where
  "calc_bpkt_pc m inst_addr =
     (let inst_val = inst_addr AND NOT 1 in
      case load16 m inst_val of
        None \<Rightarrow> None
      | Some thumb_inst \<Rightarrow> Some (if (ucast thumb_inst :: u32) \<ge> 0xe800 then inst_val + 4 else inst_val + 2))"

definition clac_prev_inst_addr :: "memory \<Rightarrow> u32 \<Rightarrow> u32 option" where
  "clac_prev_inst_addr m next_inst =
     (let inst_val = (next_inst AND NOT 1) - 4 in
      case load16 m inst_val of
        None \<Rightarrow> None
      | Some thumb_inst \<Rightarrow> Some (if (ucast thumb_inst :: u32) \<ge> 0xe800 then inst_val else inst_val + 2))"

definition little_endian_16_bit :: "u32 \<Rightarrow> u32" where
  "little_endian_16_bit val = drop_bit 16 (val AND 0xffff0000) OR push_bit 16 (val AND 0x0000ffff)"

subsection \<open>Parsing\<close>

text \<open>The decimal digits of a number, most significant first.\<close>

fun decimal :: "nat \<Rightarrow> u8 list" where
  "decimal n = (if n < 10 then [of_nat (48 + n)] else decimal (n div 10) @ [of_nat (48 + n mod 10)])"

declare decimal.simps [simp del]

lemma str2int_from_snoc:
  "0 \<notin> set cs \<Longrightarrow> c \<noteq> 0 \<Longrightarrow>
     str2int_from (cs @ [c]) v = Option.bind (str2int_from cs v) (push_digit 10 (uint c - 48))"
  by (induction cs arbitrary: v) (auto split: bind_split)

lemma digit_facts:
  assumes "d < 10"
  shows "(of_nat (48 + d) :: u8) \<noteq> 0" "uint (of_nat (48 + d) :: u8) - 48 = int d"
proof -
  have "d \<in> {0,1,2,3,4,5,6,7,8,9}" using assms by auto
  then show "(of_nat (48 + d) :: u8) \<noteq> 0" "uint (of_nat (48 + d) :: u8) - 48 = int d"
    by (elim insertE emptyE; simp)+
qed

lemma decimal_no_nul: "0 \<notin> set (decimal n)"
proof (induction n rule: decimal.induct)
  case (1 n)
  then show ?case
    using digit_facts(1) [of n] digit_facts(1) [of "n mod 10"] by (subst decimal.simps) auto
qed

lemma str2int_from_decimal: "n < 2 ^ 31 \<Longrightarrow> str2int_from (decimal n) 0 = Some (int n)"
proof (induction n rule: decimal.induct)
  case (1 n)
  show ?case
  proof (cases "n < 10")
    case True
    then show ?thesis using digit_facts [of n] by (subst decimal.simps) (simp add: push_digit_def int_ok_def)
  next
    case False
    have "push_digit 10 (int (n mod 10)) (int (n div 10)) = Some (int n)"
      using "1.prems" by (auto simp: push_digit_def int_ok_def zdiv_int zmod_int)
    moreover have "str2int_from (decimal (n div 10)) 0 = Some (int (n div 10))"
      using 1 False by simp
    moreover have "decimal n = decimal (n div 10) @ [of_nat (48 + n mod 10)]"
      using False by (subst decimal.simps) simp
    ultimately show ?thesis
      using digit_facts [of "n mod 10"] decimal_no_nul [of "n div 10"] by (simp add: str2int_from_snoc)
  qed
qed

text \<open>Parsing the decimal digits of a number that fits an \<open>int\<close> yields the number, and the terminator ends the
  scan whatever follows it.\<close>

theorem str2int_decimal:
  assumes "n < 2 ^ 31"
  shows "str2int (decimal n @ 0 # rest) = Some (of_nat n)"
proof -
  have cut: "str2int_from (cs @ 0 # rest) v = str2int_from cs v" if "0 \<notin> set cs" for cs v
    using that by (induction cs arbitrary: v) (auto split: bind_split)
  show ?thesis using assms by (simp add: str2int_def cut decimal_no_nul str2int_from_decimal)
qed

fun be_value :: "u8 list \<Rightarrow> nat" where
  "be_value [] = 0"
| "be_value (b # bs) = unat b * 256 ^ length bs + be_value bs"

lemma byte2int_from_value:
  "n \<le> length buf \<Longrightarrow> 0 \<le> v \<Longrightarrow> v * 256 ^ n + int (be_value (take n buf)) < 2 ^ 31 \<Longrightarrow>
     byte2int_from buf n v = Some (v * 256 ^ n + int (be_value (take n buf)))"
proof (induction buf n v rule: byte2int_from.induct)
  case (3 b bs n val)
  define v where "v = val * 256 + uint b"
  have l: "length (take n bs) = n" using 3(2) by simp
  have t: "val * 256 ^ Suc n + int (be_value (take (Suc n) (b # bs))) = v * 256 ^ n + int (be_value (take n bs))"
    using l by (simp add: algebra_simps v_def)
  have u: "0 \<le> uint b" by simp
  then have v0: "0 \<le> v" using 3(3) by (simp add: v_def)
  then have "v * 1 \<le> v * 256 ^ n" by (intro mult_left_mono) simp_all
  then have v: "v < 2 ^ 31" using 3(4) unfolding t by linarith
  then have "int_ok (val * 256)" "int_ok v" using 3(3) u v0 unfolding int_ok_def v_def by linarith+
  then have "push_digit 256 (uint b) val = Some v" by (simp add: push_digit_def v_def)
  then show ?case using 3(1) [of v] 3(2,4) v0 unfolding t by simp
qed simp_all

text \<open>\<open>byte2int\<close> reads its bytes most significant first: the result is the big-endian value of the first \<open>len\<close>
  bytes, when that fits an \<open>int\<close>.\<close>

theorem byte2int_big_endian:
  assumes "nat len \<le> length buf" and "be_value (take (nat len) buf) < 2 ^ 31"
  shows "byte2int buf len = Some (of_nat (be_value (take (nat len) buf)))"
  using byte2int_from_value [OF assms(1), of 0] assms(2) by (simp add: byte2int_def)

theorem byte2int_big_endian_witness: "byte2int [0x12, 0x34, 0xff] 2 = Some 0x1234"
  using byte2int_big_endian [of 2 "[0x12, 0x34, 0xff]"] by simp

subsection \<open>Thumb instructions\<close>

lemma swap_halves_bit:
  assumes "n < 32"
  shows "bit (little_endian_16_bit x) n = bit x (if n < 16 then n + 16 else n - 16)"
proof -
  show ?thesis using assms by (auto simp: little_endian_16_bit_def bit_simps bit_low_half bit_high_half add.commute)
qed

lemma little_endian_16_bit_involution: "little_endian_16_bit (little_endian_16_bit x) = x"
  by (rule bit_word_eqI) (auto simp: swap_halves_bit)

lemma clear_bit0_add: "even a \<Longrightarrow> a AND - 2 = a" "even a \<Longrightarrow> (a + 2) AND - 2 = a + 2"
    "even a \<Longrightarrow> (a + 4) AND - 2 = a + 4" for a :: u32
proof -
  have clr: "x AND - 2 = x" if "even x" for x :: u32
  proof (rule bit_word_eqI)
    fix n assume "n < LENGTH(32)"
    then have "bit (x AND NOT 1) n = bit x n"
      using that by (cases n) (auto simp: bit_simps bit_0 even_and_iff)
    then show "bit (x AND - 2) n = bit x n" by simp
  qed
  assume "even a"
  then show "a AND - 2 = a" "(a + 2) AND - 2 = a + 2" "(a + 4) AND - 2 = a + 4"
    by (auto intro!: clr)
qed

text \<open>Stepping back over the instruction just stepped over returns to it when it is a 32-bit
  instruction; for a 16-bit one it does exactly when the halfword before it does not look like
  the start of a 32-bit instruction.\<close>

theorem prev_of_next:
  assumes "even a" and "load16 m a = Some h" and "calc_bpkt_pc m a = Some n"
    and "load16 m (a - 2) = Some g"
  shows "clac_prev_inst_addr m n = Some a \<longleftrightarrow> 0xe800 \<le> (ucast h :: u32) \<or> (ucast g :: u32) < 0xe800"
proof (cases "(ucast h :: u32) \<ge> 0xe800")
  case True
  with assms show ?thesis
    by (auto simp: calc_bpkt_pc_def clac_prev_inst_addr_def clear_bit0_add Let_def)
next
  case False
  then have n: "n = a + 2" using assms by (simp add: calc_bpkt_pc_def clear_bit0_add Let_def)
  have e: "(n AND NOT 1) - 4 = a - 2" using assms(1) by (simp add: n clear_bit0_add)
  have "a - 2 \<noteq> a" "a - 2 + 2 = a" by simp_all
  with False assms(4) show ?thesis
    unfolding clac_prev_inst_addr_def Let_def e by (auto simp: not_le)
qed

theorem prev_of_next_witness:
  "clac_prev_inst_addr (\<lambda>_. Some 0x20) 0x102 = Some 0x100"
proof -
  have "load_bytes (\<lambda>_. Some 0x20) a 2 = Some [0x20, 0x20]" for a
    by (simp add: numeral_2_eq_2)
  then have l: "load16 (\<lambda>_. Some 0x20) a = Some 0x2020" for a
    by (simp add: load16_def mem_load_def)
  then show ?thesis
    using prev_of_next [of "0x100" "\<lambda>_. Some 0x20" "0x2020" "0x102" "0x2020"]
    by (simp add: calc_bpkt_pc_def Let_def)
qed

end
