(* ===== verification/Fpb.thy ===== *)
theory Fpb
  imports Utils
begin

text \<open>
  The flash patch and breakpoint unit of \<open>hotpatch/src/cortex-m4_fbp.c\<close>: its registers, the
  remap table, the choice of comparators and the encoding of the branch to a trampoline.

  A register holds what was last written to it. \<open>COMP\<close> is declared with \<open>MAX_BP\<close> entries, but it
  is a window on memory-mapped registers: \<open>h_comp\<close> has a word for every index, and the ghost
  flag \<open>h_oob\<close> records an access from \<open>MAX_BP\<close> on. \<open>h_words\<close> are the words from the address of
  \<open>REMAP_ADDR\<close>: the ten words \<open>inst[10]\<close>, then the one with the byte \<open>active\<close>. The linker decides
  \<open>h_off\<close>, the number of words from \<open>REMAP_ADDR\<close> up to the next multiple of 32 bytes, and
  \<open>h_tramp\<close>, the addresses of the handlers.
\<close>

definition MAX_BP :: nat where "MAX_BP = 6"
definition FPB_CB_REG :: nat where "FPB_CB_REG = 5"

record hw =
  h_ctrl :: u32
  h_remap :: u32
  h_comp :: "nat \<Rightarrow> u32"
  h_words :: "nat \<Rightarrow> u32"
  h_off :: nat
  h_base :: u32
  h_tramp :: "nat \<Rightarrow> u32"
  cur_idx :: nat
  bpkt_num :: nat
  bpkt_is_init :: bool
  h_oob :: bool
  demcr :: u32
  dfsr :: u32
  hfsr :: u32
  dhcsr :: u32
  shp8 :: u32

named_theorems hw_defs "definitions of the breakpoint unit"

subsection \<open>Registers and remap table\<close>

definition remap_active :: "hw \<Rightarrow> bool" where
  [hw_defs]: "remap_active h \<longleftrightarrow> h_words h 10 AND 0xff \<noteq> 0"

definition set_active :: "bool \<Rightarrow> hw \<Rightarrow> hw" where
  [hw_defs]: "set_active b h =
     h\<lparr>h_words := (h_words h)(10 := (h_words h 10 AND NOT 0xff) OR (if b then 1 else 0))\<rparr>"

definition fpb_enable :: "hw \<Rightarrow> hw" where
  [hw_defs]: "fpb_enable h = h\<lparr>h_ctrl := h_ctrl h OR 3\<rparr>"

definition fpb_disable :: "hw \<Rightarrow> hw" where
  [hw_defs]: "fpb_disable h = h\<lparr>h_ctrl := (h_ctrl h AND NOT 3) OR 2\<rparr>"

text \<open>\<open>get_fpb_patch_remap\<close> as an address and, for the stores to the table, as a word index.\<close>

definition get_fpb_patch_remap :: "hw \<Rightarrow> u32" where
  [hw_defs]: "get_fpb_patch_remap h = (h_base h + 0x1f) AND NOT 0x1f"

definition set_patch_word :: "nat \<Rightarrow> u32 \<Rightarrow> hw \<Rightarrow> hw" where
  [hw_defs]: "set_patch_word k v h = h\<lparr>h_words := (h_words h)(h_off h + k := v)\<rparr>"

definition set_comp :: "nat \<Rightarrow> u32 \<Rightarrow> hw \<Rightarrow> hw" where
  [hw_defs]: "set_comp k v h = h\<lparr>h_comp := (h_comp h)(k := v), h_oob := h_oob h \<or> k \<ge> MAX_BP\<rparr>"

definition fpb_set_comp_reg :: "nat \<Rightarrow> u32 \<Rightarrow> hw \<Rightarrow> hw" where
  [hw_defs]: "fpb_set_comp_reg idx comp_addr h = set_comp idx (comp_addr OR 1) h"

definition calc_bpkt_addr :: "u32 \<Rightarrow> u32" where
  "calc_bpkt_addr inst_addr =
     (let replace = (if inst_addr AND 2 = 0 then 1 else 2 :: u32);
          fp_comp = (inst_addr AND NOT 3) OR 1 OR push_bit 30 replace;
          replace' = drop_bit 30 fp_comp;
          final_addr = fp_comp AND 0x1FFFFFFC
      in if replace' = 2 then final_addr OR 2 else final_addr)"

definition get_hw_bkpt_num :: nat where "get_hw_bkpt_num = 6"

subsection \<open>Branch encodings\<close>

definition calc_branch_instr :: "u32 \<Rightarrow> u32 \<Rightarrow> u32" where
  "calc_branch_instr instr_addr target_addr =
     (let offset = (target_addr AND NOT 1) - (instr_addr AND NOT 1) - 4;
          offset_10_upper = drop_bit 12 offset AND 0x3ff;
          offset_11_lower = drop_bit 1 offset AND 0x7ff;
          s = drop_bit 24 offset AND 1;
          i1 = drop_bit 23 offset AND 1;
          i2 = drop_bit 22 offset AND 1;
          j1 = 1 AND (NOT i1 XOR s);
          j2 = 1 AND (NOT i2 XOR s);
          upper_bl_instr = push_bit 11 0x1E OR push_bit 10 s OR offset_10_upper;
          lower_bl_instr = push_bit 14 2 OR push_bit 13 j1 OR push_bit 12 1 OR push_bit 11 j2 OR offset_11_lower
      in push_bit 16 upper_bl_instr OR lower_bl_instr)"

text \<open>Here \<open>offset\<close> is an \<open>int\<close>: its shifts are arithmetic and its sign is \<open>s\<close>.\<close>

definition my_gen_bw :: "u32 \<Rightarrow> u32 \<Rightarrow> u32" where
  "my_gen_bw from_inst target_addr =
     (let offset = (target_addr AND NOT 1) - (from_inst AND NOT 1) - 4;
          imm10 = signed_drop_bit 12 offset AND 0x3ff;
          imm11 = signed_drop_bit 1 offset AND 0x7ff;
          s = (if sint offset < 0 then 1 else 0);
          i1 = signed_drop_bit 23 offset AND 1;
          i2 = signed_drop_bit 22 offset AND 1;
          j1 = (NOT i1 XOR s) AND 1;
          j2 = (NOT i2 XOR s) AND 1;
          inst = 0xf0009000 OR push_bit 26 s OR push_bit 16 imm10 OR push_bit 13 j1 OR push_bit 11 j2 OR imm11
      in little_endian_16_bit inst)"

definition calc_branch_w_link_instr :: "u32 \<Rightarrow> u32 \<Rightarrow> u32" where
  "calc_branch_w_link_instr inst_addr target_addr = calc_branch_instr inst_addr target_addr OR 0x4000"

subsection \<open>Adding breakpoints\<close>

fun find_comp :: "(nat \<Rightarrow> bool) \<Rightarrow> nat \<Rightarrow> nat \<Rightarrow> nat option" where
  "find_comp p i 0 = None"
| "find_comp p i (Suc n) = (if p i then Some i else find_comp p (Suc i) n)"

text \<open>\<open>None\<close> is a fault of one of the two reads of the flash.\<close>

definition add_fpb_bkpt :: "memory \<Rightarrow> u32 \<Rightarrow> hw \<Rightarrow> (int \<times> hw) option" where
  "add_fpb_bkpt m inst_addr0 h =
     (let idx = cur_idx h;
          trampoline_addr = ((h_tramp h idx AND NOT 3) + 3) AND NOT 3;
          jump_inst = little_endian_16_bit (calc_branch_instr inst_addr0 trampoline_addr);
          inst_addr = inst_addr0 AND NOT 1
      in if inst_addr AND 3 = 0 then
           let fp_comp = inst_addr OR 1 in
           case find_comp (\<lambda>i. h_comp h i = fp_comp \<or> h_comp h i = inst_addr) 0 (bpkt_num h) of
             Some i \<Rightarrow> Some (int i, set_comp i fp_comp h)
           | None \<Rightarrow>
               let h1 = set_patch_word idx jump_inst h;
                   h2 = set_comp (cur_idx h1) fp_comp h1;
                   h3 = h2\<lparr>cur_idx := cur_idx h2 + 1\<rparr>
               in Some (int (cur_idx h3), h3)
         else
           let fp_comp1 = inst_addr AND 0xFFFFFFFC; fp_comp2 = fp_comp1 + 4 in
           case find_comp (\<lambda>i. h_comp h i = fp_comp1 \<and> h_comp h (i + 1) = fp_comp2) 0 (bpkt_num h - 1) of
             Some i \<Rightarrow> Some (int i, h)
           | None \<Rightarrow>
               (case (load32 m fp_comp1, load32 m fp_comp2) of
                  (Some old0, Some old1) \<Rightarrow>
                    let h1 = set_patch_word idx
                               (push_bit 16 (jump_inst AND 0xffff) OR (old0 AND 0xffff)) h;
                        h2 = set_patch_word (idx + 1)
                               ((old1 AND 0xffff0000) OR drop_bit 16 (jump_inst AND 0xffff0000)) h1;
                        h3 = set_comp (cur_idx h2) fp_comp1 h2;
                        h4 = set_comp (cur_idx h3 + 1) fp_comp2 h3;
                        h5 = h4\<lparr>cur_idx := cur_idx h4 + 2\<rparr>
                    in Some (int (cur_idx h5), h5)
                | _ \<Rightarrow> None))"

definition comp_word :: "u32 \<Rightarrow> u32" where
  [hw_defs]: "comp_word inst_addr =
     (inst_addr AND NOT 3) OR 1 OR push_bit 30 (if inst_addr AND 2 = 0 then 1 else 2)"

definition add_normal_bkpt :: "u32 \<Rightarrow> hw \<Rightarrow> int \<times> hw" where
  "add_normal_bkpt inst_addr h =
     (case find_comp (\<lambda>i. h_comp h i = comp_word inst_addr) 0 (bpkt_num h) of
        Some i \<Rightarrow> (int i, h)
      | None \<Rightarrow>
          (int (cur_idx h), (set_comp (cur_idx h) (comp_word inst_addr) h)\<lparr>cur_idx := cur_idx h + 1\<rparr>))"

definition add_hw_bkpt :: "memory \<Rightarrow> u32 \<Rightarrow> hw \<Rightarrow> (int \<times> hw) option" where
  "add_hw_bkpt m inst_addr h =
     (let h1 = (if \<not> bpkt_is_init h
                then h\<lparr>cur_idx := 0, bpkt_num := get_hw_bkpt_num, bpkt_is_init := True\<rparr> else h)
      in if inst_addr \<ge> 0x20000000 then Some (- 1, h1)
         else
           let h2 = (if cur_idx h1 \<ge> MAX_BP then h1\<lparr>cur_idx := 0\<rparr> else h1)
           in if remap_active h2 then add_fpb_bkpt m inst_addr h2
              else Some (add_normal_bkpt inst_addr h2))"

definition num_code_comparators :: "u32 \<Rightarrow> nat" where
  "num_code_comparators fp_ctrl =
     unat (push_bit 4 (drop_bit 12 fp_ctrl AND 7) OR (drop_bit 4 fp_ctrl AND 0xF))"

definition clear_all_hw_bkpt :: "hw \<Rightarrow> hw" where
  "clear_all_hw_bkpt h =
     (let n = num_code_comparators (h_ctrl h);
          h1 = fold (\<lambda>i. set_comp i 0) [0..<n] h
      in fpb_disable (h1\<lparr>cur_idx := 0\<rparr>))"

subsection \<open>Modes\<close>

datatype patch_mode = CORTEX_FPB_PATCH | CORTEX_DEB_MON_PATCH

definition halting_debug_enabled :: "hw \<Rightarrow> bool" where
  [hw_defs]: "halting_debug_enabled h \<longleftrightarrow> dhcsr h AND 1 \<noteq> 0"

definition fpb_remap_init :: "u32 \<Rightarrow> hw \<Rightarrow> hw" where
  [hw_defs]: "fpb_remap_init remap_addr h = fpb_enable (set_active True (h\<lparr>h_remap := remap_addr\<rparr>))"

definition DCB_DEMCR_MON_EN :: u32 where [hw_defs]: "DCB_DEMCR_MON_EN = 0x10000"

text \<open>\<open>w1c\<close> is how the fault status registers respond to a store.\<close>

definition debug_monitor_init :: "(u32 \<Rightarrow> u32 \<Rightarrow> u32) \<Rightarrow> hw \<Rightarrow> hw" where
  "debug_monitor_init w1c h =
     (let h1 = h\<lparr>hfsr := w1c (hfsr h) 0x80000000, dfsr := w1c (dfsr h) 4\<rparr>
      in if halting_debug_enabled h1 then h1
         else (fpb_enable (h1\<lparr>demcr := demcr h1 OR DCB_DEMCR_MON_EN\<rparr>))\<lparr>shp8 := - 1\<rparr>)"

definition set_patch_mode :: "(u32 \<Rightarrow> u32 \<Rightarrow> u32) \<Rightarrow> patch_mode \<Rightarrow> hw \<Rightarrow> hw" where
  "set_patch_mode w1c mode h =
     (let h1 = clear_all_hw_bkpt h;
          h2 = h1\<lparr>h_words := (\<lambda>i. if i \<le> 10 then 0 else h_words h1 i)\<rparr>;
          h3 = (set_active False h2)\<lparr>h_remap := 0\<rparr>
      in case mode of
           CORTEX_FPB_PATCH \<Rightarrow> fpb_remap_init (get_fpb_patch_remap h3) h3
         | CORTEX_DEB_MON_PATCH \<Rightarrow> debug_monitor_init w1c h3)"

subsection \<open>The branch to a trampoline\<close>

text \<open>\<open>B.W\<close> T4 of the ARMv7-M reference (A7.7.12): \<open>11110 S imm10 | 10 J1 1 J2 imm11\<close> with
  \<open>I1 = NOT (J1 XOR S)\<close>, \<open>I2 = NOT (J2 XOR S)\<close> and displacement \<open>SignExtend(S:I1:I2:imm10:imm11:0)\<close>.\<close>

definition imm_BW_T4 :: "u32 \<Rightarrow> 24 word" where
  "imm_BW_T4 w =
     (let s = drop_bit 26 w AND 1; j1 = drop_bit 13 w AND 1; j2 = drop_bit 11 w AND 1;
          i1 = NOT (j1 XOR s) AND 1; i2 = NOT (j2 XOR s) AND 1
      in ucast (push_bit 23 s OR push_bit 22 i1 OR push_bit 21 i2
           OR push_bit 11 (drop_bit 16 w AND 0x3ff) OR (w AND 0x7ff)))"

definition decode_BW_T4 :: "u32 \<Rightarrow> int option" where
  "decode_BW_T4 w =
     (if drop_bit 27 w = 0x1e \<and> drop_bit 14 w AND 3 = 2 \<and> drop_bit 12 w AND 1 = 1
      then Some (2 * sint (imm_BW_T4 w)) else None)"

definition branch_disp :: "u32 \<Rightarrow> u32 \<Rightarrow> u32" where
  "branch_disp from_inst to_inst = (to_inst AND NOT 1) - (from_inst AND NOT 1) - 4"

lemma branch_fields:
  "drop_bit 27 (calc_branch_instr f t) = 0x1e" "drop_bit 14 (calc_branch_instr f t) AND 3 = 2"
  "drop_bit 12 (calc_branch_instr f t) AND 1 = 1"
  "imm_BW_T4 (calc_branch_instr f t) = ucast (drop_bit 1 (branch_disp f t))"
proof -
  define d where "d = branch_disp f t"
  have c: "calc_branch_instr f t =
    push_bit 16 (push_bit 11 0x1E OR push_bit 10 (drop_bit 24 d AND 1) OR (drop_bit 12 d AND 0x3ff)) OR
    (push_bit 14 2 OR push_bit 13 (1 AND (NOT (drop_bit 23 d AND 1) XOR (drop_bit 24 d AND 1))) OR
     push_bit 12 1 OR push_bit 11 (1 AND (NOT (drop_bit 22 d AND 1) XOR (drop_bit 24 d AND 1))) OR
     (drop_bit 1 d AND 0x7ff))"
    unfolding calc_branch_instr_def Let_def d_def branch_disp_def by (rule refl)
  show "drop_bit 27 (calc_branch_instr f t) = 0x1e" unfolding c
    by (rule all_bits_32, elim insertE emptyE; simp add: bit_simps)
  show "drop_bit 14 (calc_branch_instr f t) AND 3 = 2" unfolding c
    by (rule all_bits_32, elim insertE emptyE; simp add: bit_simps)
  show "drop_bit 12 (calc_branch_instr f t) AND 1 = 1" unfolding c
    by (rule all_bits_32, elim insertE emptyE; simp add: bit_simps)
  show "imm_BW_T4 (calc_branch_instr f t) = ucast (drop_bit 1 (branch_disp f t))"
    unfolding d_def [symmetric] c imm_BW_T4_def Let_def
    by (rule all_bits_24, elim insertE emptyE; auto simp: bit_simps)
qed

lemma branch_disp_even: "even (branch_disp f t)"
  by (simp add: branch_disp_def even_and_iff)

text \<open>C39: the instruction built for a breakpoint is a \<open>B.W\<close> whose displacement leads from the
  instruction to the trampoline, for every trampoline in the range of the encoding.\<close>

theorem branch_instr_reaches:
  assumes "- 16777216 \<le> sint (branch_disp f t)" and "sint (branch_disp f t) < 16777216"
  shows "\<exists>d. decode_BW_T4 (calc_branch_instr f t) = Some d \<and>
    (f AND NOT 1) + 4 + word_of_int d = t AND NOT 1"
proof -
  have "2 * sint (ucast (drop_bit 1 (branch_disp f t)) :: 24 word) = sint (branch_disp f t)"
    using assms by (intro sint_half [OF branch_disp_even]) simp_all
  then have "decode_BW_T4 (calc_branch_instr f t) = Some (sint (branch_disp f t))"
    by (simp add: decode_BW_T4_def branch_fields)
  moreover have "(f AND NOT 1) + 4 + word_of_int (sint (branch_disp f t)) = t AND NOT 1"
    by (simp only: of_int_sint) (simp add: branch_disp_def)
  ultimately show ?thesis by blast
qed

theorem branch_instr_reaches_witness:
  "\<exists>d. decode_BW_T4 (calc_branch_instr 0x08001000 0x08000401) = Some d \<and>
    (0x08001000 AND NOT 1) + 4 + word_of_int d = (0x08000401 :: u32) AND NOT 1"
  by (rule branch_instr_reaches) (simp_all add: branch_disp_def)

text \<open>The two generators of the branch agree on every displacement that fits the encoding.\<close>

theorem my_gen_bw_eq:
  assumes "- 16777216 \<le> sint (branch_disp f t)" and "sint (branch_disp f t) < 16777216"
  shows "my_gen_bw f t = little_endian_16_bit (calc_branch_instr f t)"
proof -
  define d where "d = branch_disp f t"
  have "signed_take_bit 24 (sint d) = sint d"
    using assms by (simp add: signed_take_bit_int_eq_self d_def)
  then have "bit (sint d) 24 = (sint d < 0)"
    by (metis signed_take_bit_negative_iff)
  then have sgn: "(sint d < 0) = bit d 24" by (simp add: bit_sint_iff)
  have "my_gen_bw f t = little_endian_16_bit (0xf0009000
      OR push_bit 26 (if sint d < 0 then 1 else 0) OR push_bit 16 (signed_drop_bit 12 d AND 0x3ff)
      OR push_bit 13 ((NOT (signed_drop_bit 23 d AND 1) XOR (if sint d < 0 then 1 else 0)) AND 1)
      OR push_bit 11 ((NOT (signed_drop_bit 22 d AND 1) XOR (if sint d < 0 then 1 else 0)) AND 1)
      OR (signed_drop_bit 1 d AND 0x7ff))"
    unfolding my_gen_bw_def Let_def d_def branch_disp_def by (rule refl)
  also have "\<dots> = little_endian_16_bit (calc_branch_instr f t)"
    unfolding calc_branch_instr_def Let_def d_def [unfolded branch_disp_def, symmetric] sgn
    by (rule arg_cong [where f = little_endian_16_bit], rule all_bits_32,
        elim insertE emptyE; auto simp: bit_simps)
  finally show ?thesis .
qed

theorem my_gen_bw_eq_witness:
  "my_gen_bw 0x08001000 0x08000401 = little_endian_16_bit (calc_branch_instr 0x08001000 0x08000401)"
  by (rule my_gen_bw_eq) (simp_all add: branch_disp_def)

subsection \<open>Breakpoint addresses\<close>

text \<open>The address of a comparator, as \<open>show_hw_bkpt\<close> reads it back.\<close>

definition comp_addr :: "u32 \<Rightarrow> u32" where
  "comp_addr fp_comp = (if drop_bit 30 fp_comp = 2 then (fp_comp AND 0x1FFFFFFC) OR 2
                        else fp_comp AND 0x1FFFFFFC)"

lemma below_code_limit:
  assumes "a < (0x20000000 :: u32)" "29 \<le> n"
  shows "\<not> bit a n"
  using assms by (intro high_bits_clear [where m = 29]) (simp_all add: word_less_nat_alt)

lemma calc_bpkt_addr_eq:
  assumes "a < 0x20000000"
  shows "calc_bpkt_addr a = a AND NOT 1"
proof -
  note hi = below_code_limit [OF assms]
  have two: "(a AND 2 = 0) = (\<not> bit a 1)"
    using and_exp_eq_0_iff_not_bit [of a 1] by simp
  have r: "drop_bit 30 ((a AND NOT 3) OR 1 OR push_bit 30 (if a AND 2 = 0 then 1 else 2)) =
      (if a AND 2 = 0 then 1 else 2)"
    by (rule all_bits_32, elim insertE emptyE; simp add: bit_simps hi)
  show ?thesis
    unfolding calc_bpkt_addr_def Let_def r
    by (rule all_bits_32, elim insertE emptyE; simp add: bit_simps hi two)
qed

text \<open>For an address in the code region, the address a breakpoint is filed under is the
  instruction's address without its Thumb bit, and it is the address the comparator written for
  it matches.\<close>

theorem calc_bpkt_addr_code:
  assumes "a < 0x20000000"
  shows "calc_bpkt_addr a = a AND NOT 1 \<and> comp_addr (comp_word a) = calc_bpkt_addr a"
  using calc_bpkt_addr_eq [OF assms] by (simp add: comp_addr_def comp_word_def calc_bpkt_addr_def Let_def)

theorem calc_bpkt_addr_code_witness:
  "calc_bpkt_addr 0x080072e3 = 0x080072e2 \<and> comp_addr (comp_word 0x080072e3) = 0x080072e2"
  using calc_bpkt_addr_code [of "0x080072e3"] by simp

subsection \<open>Comparators\<close>

lemma find_comp_Some: "find_comp p i n = Some k \<Longrightarrow> i \<le> k \<and> k < i + n \<and> p k"
  by (induction p i n rule: find_comp.induct) (auto split: if_splits)

lemma find_comp_None: "find_comp p i n = None \<Longrightarrow> i \<le> k \<Longrightarrow> k < i + n \<Longrightarrow> \<not> p k"
  by (induction p i n rule: find_comp.induct) (auto split: if_splits, metis Suc_leI le_neq_implies_less)

lemma find_comp_first: "p i \<Longrightarrow> 0 < n \<Longrightarrow> find_comp p i n = Some i"
  by (cases n) simp_all

text \<open>The state of the unit once it is initialised: six comparators, and an index that may
  point behind the last of them.\<close>

definition hw_ready :: "hw \<Rightarrow> bool" where
  "hw_ready h \<longleftrightarrow> (bpkt_is_init h \<longrightarrow> bpkt_num h = MAX_BP)"

lemma normal_bkpt_set:
  assumes "hw_ready h" and "\<not> remap_active h" and "a < 0x20000000"
  shows "\<exists>i h'. add_hw_bkpt m a h = Some (int i, h') \<and> i < MAX_BP \<and> hw_ready h' \<and>
    h_comp h' = (h_comp h)(i := comp_word a) \<and> h_oob h' = h_oob h \<and>
    ((\<exists>j < MAX_BP. h_comp h j = comp_word a) \<longrightarrow> h_comp h' = h_comp h)"
proof -
  define h2 where "h2 = (let h1 = (if \<not> bpkt_is_init h
      then h\<lparr>cur_idx := 0, bpkt_num := get_hw_bkpt_num, bpkt_is_init := True\<rparr> else h)
    in if cur_idx h1 \<ge> MAX_BP then h1\<lparr>cur_idx := 0\<rparr> else h1)"
  have f: "h_comp h2 = h_comp h" "h_oob h2 = h_oob h" "h_words h2 = h_words h" "bpkt_num h2 = MAX_BP"
      "bpkt_is_init h2" "cur_idx h2 < MAX_BP"
    using assms(1) by (auto simp: h2_def Let_def hw_ready_def get_hw_bkpt_num_def MAX_BP_def)
  have e: "add_hw_bkpt m a h = Some (add_normal_bkpt a h2)"
    using assms(2,3) f(3) unfolding add_hw_bkpt_def h2_def [symmetric] Let_def
    by (auto simp: h2_def Let_def remap_active_def)
  show ?thesis
  proof (cases "find_comp (\<lambda>i. h_comp h i = comp_word a) 0 MAX_BP")
    case (Some i)
    note p = find_comp_Some [OF Some]
    from p have u: "(h_comp h)(i := comp_word a) = h_comp h" by auto
    have "add_normal_bkpt a h2 = (int i, h2)" using Some f by (simp add: add_normal_bkpt_def)
    then show ?thesis using e f p u by (intro exI [of _ i] exI [of _ h2]) (auto simp: hw_ready_def)
  next
    case None
    then have none: "\<not> (\<exists>j < MAX_BP. h_comp h j = comp_word a)" using find_comp_None [OF None] by auto
    define h' where "h' = (set_comp (cur_idx h2) (comp_word a) h2)\<lparr>cur_idx := cur_idx h2 + 1\<rparr>"
    have "add_normal_bkpt a h2 = (int (cur_idx h2), h')" using None f by (simp add: add_normal_bkpt_def h'_def)
    then show ?thesis using e f none
      by (intro exI [of _ "cur_idx h2"] exI [of _ h']) (auto simp: h'_def set_comp_def hw_ready_def)
  qed
qed

text \<open>In debug-monitor mode, adding a breakpoint in the code region puts its comparator word
  into one of the six comparators, returns that index, touches no other comparator, and changes
  nothing when the breakpoint is already set.\<close>

theorem add_hw_bkpt_normal:
  assumes "hw_ready h" and "\<not> remap_active h" and "a < 0x20000000"
  shows "\<exists>i h'. add_hw_bkpt m a h = Some (int i, h') \<and> i < MAX_BP \<and> hw_ready h' \<and>
    h_comp h' = (h_comp h)(i := comp_word a) \<and> h_oob h' = h_oob h \<and>
    ((\<exists>j < MAX_BP. h_comp h j = comp_word a) \<longrightarrow> h_comp h' = h_comp h)"
  by (rule normal_bkpt_set [OF assms])

definition sample_hw :: hw where
  "sample_hw = \<lparr>h_ctrl = 0x260, h_remap = 0, h_comp = (\<lambda>_. 0), h_words = (\<lambda>_. 0), h_off = 0,
     h_base = 0x20000100, h_tramp = (\<lambda>i. 0x08000400 + 64 * of_nat i), cur_idx = 0, bpkt_num = 6,
     bpkt_is_init = True, h_oob = False, demcr = 0, dfsr = 0, hfsr = 0, dhcsr = 0, shp8 = 0\<rparr>"

theorem add_hw_bkpt_normal_witness:
  "\<exists>i h'. add_hw_bkpt (\<lambda>_. None) 0x08001000 sample_hw = Some (int i, h') \<and> i < MAX_BP \<and>
    h_comp h' = (h_comp sample_hw)(i := comp_word 0x08001000)"
proof -
  have "hw_ready sample_hw" "\<not> remap_active sample_hw"
    by (simp_all add: hw_ready_def sample_hw_def MAX_BP_def remap_active_def)
  from add_hw_bkpt_normal [OF this, of "0x08001000" "\<lambda>_. None"] show ?thesis
    by simp blast
qed

lemma fold_set_comp:
  "h_comp (fold (\<lambda>i. set_comp i 0) [0..<n] h) = (\<lambda>i. if i < n then 0 else h_comp h i)"
  "h_ctrl (fold (\<lambda>i. set_comp i 0) [0..<n] h) = h_ctrl h"
  "h_oob (fold (\<lambda>i. set_comp i 0) [0..<n] h) = (h_oob h \<or> MAX_BP < n)"
  by (induction n) (auto simp: set_comp_def fun_eq_iff MAX_BP_def)

lemma enable_bits: "\<not> bit ((c AND - 4) OR 2 :: u32) 0" "bit (c OR 3 :: u32) 0"
  by (simp_all add: bit_0 even_and_iff even_or_iff)

text \<open>Clearing leaves no comparator the unit reports, the unit off, and the index at 0.\<close>

lemma clear_all_hw_bkpt_clears:
  "i < num_code_comparators (h_ctrl h) \<Longrightarrow> h_comp (clear_all_hw_bkpt h) i = 0"
  "\<not> bit (h_ctrl (clear_all_hw_bkpt h)) 0" "cur_idx (clear_all_hw_bkpt h) = 0"
  "num_code_comparators (h_ctrl h) \<le> MAX_BP \<Longrightarrow> h_oob (clear_all_hw_bkpt h) = h_oob h"
  using fold_set_comp [of "num_code_comparators (h_ctrl h)" h]
  by (simp_all add: clear_all_hw_bkpt_def Let_def fpb_disable_def enable_bits)

subsection \<open>The remap table\<close>

lemma align_up_aligned: "((t AND NOT 3) + 3) AND NOT 3 = t AND NOT 3" for t :: u32
proof -
  have "(t AND NOT 3) AND 3 = 0" by (simp add: bit_eq_iff bit_simps)
  then have "(t AND NOT 3) + 3 = (t AND NOT 3) OR 3" by (rule disjunctive_add_eq_or)
  then show ?thesis by (simp only:) (simp only: bit_eq_iff bit_simps, blast)
qed

lemma word_aligned_even: "a AND 3 = 0 \<Longrightarrow> a AND NOT 1 = a" for a :: u32
proof -
  assume "a AND 3 = 0"
  then have "bit (a AND 3) 0 = bit (0 :: u32) 0" by simp
  then have "even a" by (simp add: bit_0 even_and_iff)
  then show ?thesis using clear_bit0_add(1) [of a] by simp
qed

text \<open>In flash-patch mode, a breakpoint on a word-aligned instruction that is not set yet
  stores the branch to its trampoline in the table, halfwords swapped to memory order, and
  enables the comparator of the same index.\<close>

theorem add_fpb_bkpt_aligned:
  assumes "cur_idx h < MAX_BP" and "a AND 3 = 0" and "bpkt_num h = MAX_BP"
    and "\<forall>i < MAX_BP. h_comp h i \<noteq> a OR 1 \<and> h_comp h i \<noteq> a"
  shows "\<exists>h'. add_fpb_bkpt m a h = Some (int (cur_idx h + 1), h') \<and>
    h_comp h' = (h_comp h)(cur_idx h := a OR 1) \<and> h_oob h' = h_oob h \<and>
    h_words h' (h_off h + cur_idx h) =
      little_endian_16_bit (calc_branch_instr a (h_tramp h (cur_idx h) AND NOT 3))"
proof -
  have "a AND NOT 1 = a" using assms(2) by (rule word_aligned_even)
  moreover have "find_comp (\<lambda>i. h_comp h i = a OR 1 \<or> h_comp h i = a) 0 MAX_BP = None"
  proof (cases "find_comp (\<lambda>i. h_comp h i = a OR 1 \<or> h_comp h i = a) 0 MAX_BP")
    case (Some i)
    from find_comp_Some [OF this] assms(4) show ?thesis by auto
  qed
  ultimately show ?thesis
    using assms unfolding add_fpb_bkpt_def Let_def align_up_aligned
    by (simp add: set_comp_def set_patch_word_def)
qed

theorem add_fpb_bkpt_aligned_witness:
  "\<exists>h'. add_fpb_bkpt (\<lambda>_. None) 0x08001000 sample_hw = Some (1, h') \<and>
    h_comp h' = (h_comp sample_hw)(0 := 0x08001001)"
proof -
  have "\<exists>h'. add_fpb_bkpt (\<lambda>_. None) 0x08001000 sample_hw = Some (int (cur_idx sample_hw + 1), h') \<and>
    h_comp h' = (h_comp sample_hw)(cur_idx sample_hw := 0x08001000 OR 1) \<and> h_oob h' = h_oob sample_hw \<and>
    h_words h' (h_off sample_hw + cur_idx sample_hw) =
      little_endian_16_bit (calc_branch_instr 0x08001000 (h_tramp sample_hw (cur_idx sample_hw) AND NOT 3))"
    by (rule add_fpb_bkpt_aligned) (simp_all add: sample_hw_def MAX_BP_def)
  moreover have "cur_idx sample_hw = 0" by (simp add: sample_hw_def)
  ultimately show ?thesis by (simp, blast)
qed

text \<open>The table starts at the first multiple of 32 bytes from \<open>REMAP_ADDR\<close> on, so it does not
  start at \<open>inst[0]\<close>: the entry that falls on the word of \<open>active\<close> replaces the mode flag by the
  low byte of an instruction.\<close>

theorem patch_word_clobbers_active:
  assumes "h_off h + k = 10"
  shows "remap_active (set_patch_word k v h) \<longleftrightarrow> v AND 0xff \<noteq> 0"
  using assms by (simp add: remap_active_def set_patch_word_def)

theorem patch_word_clobbers_active_witness:
  "\<not> remap_active (set_patch_word 3 0x1234ff00 (set_active True (sample_hw\<lparr>h_off := 7\<rparr>)))"
  using patch_word_clobbers_active [of "set_active True (sample_hw\<lparr>h_off := 7\<rparr>)" 3 "0x1234ff00"]
  by (simp add: set_active_def)

end
