(* ===== verification/Iotpatch.thy ===== *)
theory Iotpatch
  imports Arraymap Fpb
begin

text \<open>
  The patch context of \<open>hotpatch/src/iotpatch.c\<close>: which patches are installed, where, and how a
  patch point finds its own.

  Descriptors and patches are shared through pointers, so they live in two stores, maps from
  addresses to objects; a pointer is a 32-bit word and 0 is NULL. Each patch owns its virtual
  machine. The list of dynamic patches is the Isabelle list of its nodes after the head node.
  \<open>None\<close> as a result is a dereference of a pointer that names no object, or an access to
  unmapped memory.
\<close>

named_theorems iot_defs "definitions of the patch context"

datatype patch_type = FixedPatchPoint | DynamicPatchPoint | OtherType u16

text \<open>\<open>d_loc\<close> is the union of \<open>fixed_id\<close> and \<open>inst_addr\<close>.\<close>

record patch_desc =
  d_type :: patch_type
  d_code_len :: u16
  d_loc :: u32
  d_code :: "u8 list"

record ebpf_patch =
  p_desc :: u32
  p_vm :: ebpf_vm
  is_active :: bool

record dynamic_patch =
  dp_patch :: u32
  dp_inst :: u32
  dp_pc :: u32

record patch_context =
  ctx_init :: bool
  fbits_filter :: u32
  dbits_filter_bpkt :: u32
  dbits_filter_pc :: u32
  fiexed_patches :: "arraymap option"
  dpatch_list :: "dynamic_patch list"
  descs :: "u32 \<Rightarrow> patch_desc option"
  patches :: "u32 \<Rightarrow> ebpf_patch option"
  c_hw :: hw
  c_helpers :: "ebpf_helper_env option"

definition MAX_DP_NUM :: nat where "MAX_DP_NUM = 6"

text \<open>What an allocation and uninitialised memory provide: the block for a VM, the address of
  the new patch, the contents of a grown array, and the parameters of the default helpers.\<close>

record alloc =
  a_vm :: "ebpf_vm option"
  a_patch :: u32
  a_keys :: block
  a_vals :: block
  a_junk :: u64
  a_call :: "u32 \<Rightarrow> u64 \<Rightarrow> u64 \<Rightarrow> u64 \<Rightarrow> u64 \<Rightarrow> world \<Rightarrow> world"

subsection \<open>The bit filters\<close>

text \<open>The loop of \<open>update_bits_filter\<close> over the fixed patches: a NULL entry is skipped.\<close>

fun fixed_bits :: "patch_context \<Rightarrow> arraymap \<Rightarrow> nat \<Rightarrow> u32 option" where
  "fixed_bits c m 0 = Some 0"
| "fixed_bits c m (Suc i) =
     (case fixed_bits c m i of
        None \<Rightarrow> None
      | Some b \<Rightarrow>
          let p = arraymap_iter_val m (int i) in
          if p = 0 then Some b
          else (case patches c p of
                  None \<Rightarrow> None
                | Some pt \<Rightarrow>
                    if \<not> is_active pt then Some b
                    else (case descs c (p_desc pt) of
                            None \<Rightarrow> None | Some d \<Rightarrow> Some (b OR d_loc d))))"

definition or_all :: "u32 list \<Rightarrow> u32" where
  "or_all ks = fold (OR) ks 0"

definition update_bits_filter :: "patch_context \<Rightarrow> patch_context option" where
  "update_bits_filter c =
     (case fiexed_patches c of
        None \<Rightarrow> None
      | Some m \<Rightarrow>
          (case fixed_bits c m (am_cur m) of
             None \<Rightarrow> None
           | Some fb \<Rightarrow>
               Some (c\<lparr>fbits_filter := fb,
                       dbits_filter_pc := or_all (map dp_pc (dpatch_list c)),
                       dbits_filter_bpkt := or_all (map dp_inst (dpatch_list c))\<rparr>)))"

subsection \<open>Installing patches\<close>

definition ebpf_patch_setup :: "alloc \<Rightarrow> u32 \<Rightarrow> patch_context \<Rightarrow> (u32 \<times> patch_context) option" where
  "ebpf_patch_setup al desc c =
     (case descs c desc of
        None \<Rightarrow> None
      | Some d \<Rightarrow>
          let (g, vm) = init_ebpf_vm (a_junk al) (a_call al) (a_vm al) (c_helpers c) (d_code d) (ucast (d_code_len d))
          in case vm of
               None \<Rightarrow> Some (0, c\<lparr>c_helpers := g\<rparr>)
             | Some v \<Rightarrow>
                 Some (a_patch al,
                       c\<lparr>c_helpers := g,
                         patches := (patches c)(a_patch al \<mapsto> \<lparr>p_desc = desc, p_vm = v, is_active = False\<rparr>)\<rparr>))"

text \<open>\<open>patch->desc->\<close>: the descriptor behind a patch.\<close>

definition desc_of :: "patch_context \<Rightarrow> u32 \<Rightarrow> patch_desc option" where
  [iot_defs]: "desc_of c p = (case patches c p of None \<Rightarrow> None | Some pt \<Rightarrow> descs c (p_desc pt))"

definition active_patch :: "memory \<Rightarrow> u32 \<Rightarrow> patch_context \<Rightarrow> patch_context option" where
  "active_patch mem p c0 =
     (case update_bits_filter c0 of
        None \<Rightarrow> None
      | Some c \<Rightarrow>
          (case desc_of c p of
             None \<Rightarrow> None
           | Some d \<Rightarrow>
               (case (case d_type d of
                        FixedPatchPoint \<Rightarrow> Some (c\<lparr>fbits_filter := fbits_filter c OR d_loc d\<rparr>)
                      | DynamicPatchPoint \<Rightarrow>
                          map_option (\<lambda>(_, h). c\<lparr>c_hw := h\<rparr>) (add_hw_bkpt mem (d_loc d) (c_hw c))
                      | OtherType _ \<Rightarrow> Some c) of
                  None \<Rightarrow> None
                | Some c1 \<Rightarrow>
                    Some (c1\<lparr>patches := (patches c1)
                             (p := map_option (\<lambda>pt. pt\<lparr>is_active := True\<rparr>) (patches c1 p))\<rparr>))))"

text \<open>The search of \<open>add_dynamic_patch_to_ctx\<close>: the nodes before the match, and whether there is one.\<close>

definition before_match :: "u32 \<Rightarrow> dynamic_patch list \<Rightarrow> dynamic_patch list" where
  "before_match a ds = takeWhile (\<lambda>d. dp_inst d \<noteq> a) ds"

definition new_node :: "memory \<Rightarrow> u32 \<Rightarrow> u32 \<Rightarrow> dynamic_patch option" where
  "new_node mem p a =
     (let inst = calc_bpkt_addr a in
      map_option (\<lambda>pc. \<lparr>dp_patch = p, dp_inst = inst, dp_pc = pc\<rparr>) (calc_bpkt_pc mem inst))"

text \<open>\<open>cur->next = NULL\<close> is executed for a node found in the middle of the list, too: the nodes
  behind it are gone.\<close>

definition add_dynamic_patch_to_ctx :: "memory \<Rightarrow> u32 \<Rightarrow> patch_context \<Rightarrow> patch_context option" where
  "add_dynamic_patch_to_ctx mem p c =
     (case desc_of c p of
        None \<Rightarrow> None
      | Some d \<Rightarrow>
          (case new_node mem p (d_loc d) of
             None \<Rightarrow> None
           | Some nd \<Rightarrow>
               let ds = dpatch_list c; pre = before_match (d_loc d) ds in
               Some (c\<lparr>dpatch_list :=
                 (if length pre < length ds then pre @ [nd]
                  else if length ds > MAX_DP_NUM then butlast ds @ [nd]
                  else ds @ [nd])\<rparr>)))"

definition add_fixed_patch_to_ctx :: "alloc \<Rightarrow> u32 \<Rightarrow> patch_context \<Rightarrow> patch_context option" where
  "add_fixed_patch_to_ctx al p c =
     (case (fiexed_patches c, desc_of c p) of
        (Some m, Some d) \<Rightarrow>
          Some (c\<lparr>fiexed_patches := Some (snd (arraymap_set (a_keys al) (a_vals al) m (d_loc d) p))\<rparr>)
      | _ \<Rightarrow> None)"

definition add_ebpf_patch :: "memory \<Rightarrow> alloc \<Rightarrow> u32 \<Rightarrow> patch_context \<Rightarrow> (u32 \<times> patch_context) option" where
  "add_ebpf_patch mem al desc c0 =
     (case ebpf_patch_setup al desc c0 of
        None \<Rightarrow> None
      | Some (p, c) \<Rightarrow>
          (case descs c desc of
             None \<Rightarrow> None
           | Some d \<Rightarrow>
               (case d_type d of
                  FixedPatchPoint \<Rightarrow> map_option (Pair p) (add_fixed_patch_to_ctx al p c)
                | DynamicPatchPoint \<Rightarrow>
                    map_option (Pair p)
                      (add_dynamic_patch_to_ctx mem p
                        (c\<lparr>descs := (descs c)(desc \<mapsto> d\<lparr>d_loc := d_loc d AND NOT 3\<rparr>)\<rparr>))
                | OtherType _ \<Rightarrow> Some (p, c))))"

definition zero_context :: "patch_context \<Rightarrow> patch_context" where
  "zero_context c = c\<lparr>fbits_filter := 0, dbits_filter_bpkt := 0, dbits_filter_pc := 0,
     fiexed_patches := None, dpatch_list := []\<rparr>"

definition init_patch_sys :: "alloc \<Rightarrow> patch_context \<Rightarrow> patch_context option" where
  "init_patch_sys al c =
     (if ctx_init c then Some c
      else
        let c1 = (zero_context c)\<lparr>fiexed_patches := Some (arraymap_new (a_keys al) (a_vals al) 4)\<rparr>
        in map_option (\<lambda>c2. c2\<lparr>ctx_init := True\<rparr>) (update_bits_filter c1))"

definition destroy_ebpf_patch :: "u32 \<Rightarrow> patch_context \<Rightarrow> patch_context" where
  "destroy_ebpf_patch p c =
     (case patches c p of
        None \<Rightarrow> c
      | Some pt \<Rightarrow> c\<lparr>descs := (descs c)(p_desc pt := None), patches := (patches c)(p := None)\<rparr>)"

definition destroy_patch_context :: "patch_context \<Rightarrow> patch_context" where
  "destroy_patch_context c =
     (let c1 = c\<lparr>fiexed_patches := None\<rparr>;
          c2 = fold (\<lambda>d. destroy_ebpf_patch (dp_patch d)) (dpatch_list c1) c1
      in c2\<lparr>dpatch_list := [], dbits_filter_bpkt := 0, dbits_filter_pc := 0, fbits_filter := 0,
            ctx_init := False, c_hw := clear_all_hw_bkpt (c_hw c2)\<rparr>)"

definition notify_new_patch :: "memory \<Rightarrow> alloc \<Rightarrow> u32 \<Rightarrow> patch_context \<Rightarrow> patch_context option" where
  "notify_new_patch mem al desc c =
     (case add_ebpf_patch mem al desc c of
        None \<Rightarrow> None
      | Some (p, c1) \<Rightarrow> active_patch mem p c1)"

subsection \<open>Finding a patch\<close>

text \<open>\<open>Some 0\<close> is a NULL result.\<close>

definition get_fixed_patch_by_lr :: "patch_context \<Rightarrow> u32 \<Rightarrow> u32 option" where
  "get_fixed_patch_by_lr c lr =
     (if fbits_filter c AND lr \<noteq> lr then Some 0
      else case fiexed_patches c of
             None \<Rightarrow> None
           | Some m \<Rightarrow>
               let p = arraymap_get m lr in
               if p = 0 then Some 0
               else map_option (\<lambda>pt. if is_active pt then p else 0) (patches c p))"

text \<open>The walk along the list; a node is dereferenced only when its address matches.\<close>

fun scan :: "patch_context \<Rightarrow> (dynamic_patch \<Rightarrow> bool) \<Rightarrow> dynamic_patch list \<Rightarrow> u32 option" where
  "scan c q [] = Some 0"
| "scan c q (d # ds) =
     (if \<not> q d then scan c q ds
      else case patches c (dp_patch d) of
             None \<Rightarrow> None
           | Some pt \<Rightarrow> if is_active pt then Some (dp_patch d) else scan c q ds)"

definition get_dynamic_patch_by_pc :: "patch_context \<Rightarrow> u32 \<Rightarrow> u32 option" where
  "get_dynamic_patch_by_pc c loc =
     (if dbits_filter_pc c AND loc \<noteq> loc then Some 0 else scan c (\<lambda>d. dp_pc d = loc) (dpatch_list c))"

definition get_dynamic_patch_by_bpkt :: "patch_context \<Rightarrow> u32 \<Rightarrow> u32 option" where
  "get_dynamic_patch_by_bpkt c loc =
     (if dbits_filter_bpkt c AND loc \<noteq> loc then Some 0 else scan c (\<lambda>d. dp_inst d = loc) (dpatch_list c))"

definition get_dynamic_patch_by_fpb :: "patch_context \<Rightarrow> u32 \<Rightarrow> u32 option" where
  "get_dynamic_patch_by_fpb c fpb_addr =
     (let align_addr = fpb_addr AND NOT 1 in
      if dbits_filter_bpkt c AND fpb_addr = fpb_addr \<or> dbits_filter_bpkt c AND align_addr = align_addr
      then scan c (\<lambda>d. dp_inst d = fpb_addr \<or> dp_inst d = align_addr) (dpatch_list c)
      else Some 0)"

subsection \<open>Local patches\<close>

fun update_first :: "memory \<Rightarrow> u32 \<Rightarrow> u32 \<Rightarrow> dynamic_patch list \<Rightarrow> dynamic_patch list option" where
  "update_first mem p a [] = Some []"
| "update_first mem p a (d # ds) =
     (if dp_patch d = p then
        let inst = calc_bpkt_addr a in
        map_option (\<lambda>pc. d\<lparr>dp_inst := inst, dp_pc := pc\<rparr> # ds) (calc_bpkt_pc mem inst)
      else map_option (Cons d) (update_first mem p a ds))"

definition load_local_patch_to_ctx :: "memory \<Rightarrow> alloc \<Rightarrow> u32 \<Rightarrow> patch_context \<Rightarrow> patch_context option" where
  "load_local_patch_to_ctx mem al p c =
     (case desc_of c p of
        None \<Rightarrow> None
      | Some d \<Rightarrow>
          (case d_type d of
             FixedPatchPoint \<Rightarrow> Option.bind (add_fixed_patch_to_ctx al p c) (active_patch mem p)
           | DynamicPatchPoint \<Rightarrow>
               Option.bind
                 (if \<forall>nd \<in> set (dpatch_list c). dp_patch nd \<noteq> p then add_dynamic_patch_to_ctx mem p c
                  else map_option (\<lambda>ds. c\<lparr>dpatch_list := ds\<rparr>)
                         (update_first mem p (d_loc d) (dpatch_list c)))
                 (active_patch mem p)
           | OtherType _ \<Rightarrow> Some c))"

subsection \<open>Running a filter\<close>

text \<open>What a run needs beyond the patch: the address of the interpreter's local stack, the
  uninitialised registers, the value of the undefined shift after the iteration limit, and the
  effect of compiled code.\<close>

record run_env =
  r_stack :: u32
  r_regs0 :: "u64 list"
  r_iter :: u64
  r_jit :: "ebpf_vm \<Rightarrow> u32 \<Rightarrow> u32 \<Rightarrow> world \<Rightarrow> (u64 \<times> world) option"

definition run_ebpf_filter :: "run_env \<Rightarrow> patch_context \<Rightarrow> ebpf_patch \<Rightarrow> u32 \<Rightarrow> u32 \<Rightarrow> world \<Rightarrow> (u64 \<times> world) option" where
  "run_ebpf_filter e c pt args args_size w =
     (if use_jit (p_vm pt) then r_jit e (p_vm pt) args args_size w
      else
        case ebpf_vm_exec (c_helpers c) (p_vm pt)
               \<lparr>f_mem = args, f_mem_len = args_size, f_stack = r_stack e\<rparr> (r_regs0 e) w of
          (Ret v, w') \<Rightarrow> Some (v, w')
        | (IterLimit, w') \<Rightarrow> Some (r_iter e, w')
        | (Undef _, _) \<Rightarrow> None)"

end
