(* ===== verification/Iotpatch_Props.thy ===== *)
theory Iotpatch_Props
  imports Iotpatch
begin

text \<open>
  The invariant of the patch context and what installing a patch guarantees: the bit filters
  never hide an installed patch, a new patch is found at its patch point, and the other patches
  stay where they are.
\<close>

subsection \<open>Bit filters\<close>

text \<open>A lookup guarded by a bit filter: the filter holds the bits of every address the search
  can succeed for, so testing it first changes no result.\<close>

locale bit_filter =
  fixes inv :: "'s \<Rightarrow> bool"
    and bits :: "'s \<Rightarrow> u32"
    and search :: "'s \<Rightarrow> u32 \<Rightarrow> u32 option"
  assumes covers: "inv s \<Longrightarrow> search s k \<noteq> Some 0 \<Longrightarrow> bits s AND k = k"
begin

lemma guard_transparent:
  "inv s \<Longrightarrow> (if bits s AND k \<noteq> k then Some 0 else search s k) = search s k"
  using covers [of s k] by (cases "search s k = Some 0") auto

lemma guard_hit: "inv s \<Longrightarrow> search s k = Some p \<Longrightarrow> p \<noteq> 0 \<Longrightarrow> bits s AND k = k"
  using covers by auto

end

lemma covers_or: "b AND k = k \<Longrightarrow> (b OR x) AND k = k" "(b OR k) AND k = k" for b k x :: u32
  by (auto simp: bit_eq_iff bit_simps)

lemma or_all_covers: "k \<in> set ks \<Longrightarrow> or_all ks AND k = k"
proof -
  have "fold (OR) ks b AND k = k" if "k \<in> set ks \<or> b AND k = k" for b
    using that
  proof (induction ks arbitrary: b)
    case (Cons a ks)
    have "(a OR b) AND k = k" if "a = k \<or> b AND k = k"
      using that by (auto simp: bit_eq_iff bit_simps)
    with Cons show ?case by auto
  qed simp
  then show "k \<in> set ks \<Longrightarrow> or_all ks AND k = k" by (simp add: or_all_def)
qed

subsection \<open>The invariant\<close>

text \<open>Every pointer of the context names an object; the map is sorted and files a fixed patch
  under the identifier of its descriptor.\<close>

definition fixed_entry_ok :: "patch_context \<Rightarrow> u32 \<Rightarrow> u32 \<Rightarrow> bool" where
  "fixed_entry_ok c k p \<longleftrightarrow>
     (\<exists>pt d. patches c p = Some pt \<and> descs c (p_desc pt) = Some d \<and> d_type d = FixedPatchPoint \<and> d_loc d = k)"

definition objects_ok :: "patch_context \<Rightarrow> bool" where
  "objects_ok c \<longleftrightarrow> patches c 0 = None \<and>
     (\<exists>m. fiexed_patches c = Some m \<and> am_inv m \<and>
        (\<forall>i < am_cur m. fixed_entry_ok c (am_keys m i) (am_vals m i))) \<and>
     (\<forall>nd \<in> set (dpatch_list c). patches c (dp_patch nd) \<noteq> None)"

definition active_at :: "patch_context \<Rightarrow> u32 \<Rightarrow> bool" where
  "active_at c p \<longleftrightarrow> (\<exists>pt. patches c p = Some pt \<and> is_active pt)"

definition filters_ok :: "patch_context \<Rightarrow> bool" where
  "filters_ok c \<longleftrightarrow>
     (\<forall>m. fiexed_patches c = Some m \<longrightarrow>
        (\<forall>i < am_cur m. active_at c (am_vals m i) \<longrightarrow> fbits_filter c AND am_keys m i = am_keys m i)) \<and>
     (\<forall>nd \<in> set (dpatch_list c). dbits_filter_pc c AND dp_pc nd = dp_pc nd \<and>
        dbits_filter_bpkt c AND dp_inst nd = dp_inst nd)"

definition iot_inv :: "patch_context \<Rightarrow> bool" where
  "iot_inv c \<longleftrightarrow> objects_ok c \<and> filters_ok c \<and> length (dpatch_list c) \<le> MAX_DP_NUM + 1"

subsection \<open>The filters hide nothing\<close>

definition find_fixed :: "patch_context \<Rightarrow> u32 \<Rightarrow> u32 option" where
  "find_fixed c lr =
     (case fiexed_patches c of
        None \<Rightarrow> None
      | Some m \<Rightarrow>
          let p = arraymap_get m lr in
          if p = 0 then Some 0 else map_option (\<lambda>pt. if is_active pt then p else 0) (patches c p))"

lemma arraymap_get_cases:
  assumes "am_inv m"
  obtains (found) i where "i < am_cur m" "am_keys m i = k" "arraymap_get m k = am_vals m i"
  | (absent) "\<And>i. i < am_cur m \<Longrightarrow> am_keys m i \<noteq> k" "arraymap_get m k = 0"
  using get_at [OF assms] get_absent [of m k] by metis

lemma find_fixed_covered:
  assumes "iot_inv c" "find_fixed c k \<noteq> Some 0"
  shows "fbits_filter c AND k = k"
proof -
  obtain m where m: "fiexed_patches c = Some m" "am_inv m"
      "\<And>i. i < am_cur m \<Longrightarrow> fixed_entry_ok c (am_keys m i) (am_vals m i)"
    using assms(1) by (auto simp: iot_inv_def objects_ok_def)
  show ?thesis
  proof (cases rule: arraymap_get_cases [OF m(2), of k, case_names found absent])
    case (found i)
    then have "active_at c (am_vals m i)"
      using assms(2) m(1) m(3) [OF found(1)]
      by (auto simp: find_fixed_def active_at_def fixed_entry_ok_def Let_def split: if_splits)
    then show ?thesis using assms(1) m(1) found by (auto simp: iot_inv_def filters_ok_def)
  next
    case absent
    then show ?thesis using assms(2) m(1) by (simp add: find_fixed_def)
  qed
qed

lemma scan_hits: "scan c q ds \<noteq> Some 0 \<Longrightarrow> \<exists>d \<in> set ds. q d"
  by (induction c q ds rule: scan.induct) (auto split: if_splits)

interpretation fx: bit_filter iot_inv fbits_filter find_fixed
  by unfold_locales (rule find_fixed_covered)

interpretation dpc: bit_filter iot_inv dbits_filter_pc "\<lambda>c k. scan c (\<lambda>d. dp_pc d = k) (dpatch_list c)"
  by unfold_locales (auto simp: iot_inv_def filters_ok_def dest!: scan_hits)

interpretation dbk: bit_filter iot_inv dbits_filter_bpkt "\<lambda>c k. scan c (\<lambda>d. dp_inst d = k) (dpatch_list c)"
  by unfold_locales (auto simp: iot_inv_def filters_ok_def dest!: scan_hits)

lemma get_fixed_eq_find: "iot_inv c \<Longrightarrow> get_fixed_patch_by_lr c lr = find_fixed c lr"
  unfolding get_fixed_patch_by_lr_def find_fixed_def [symmetric] by (rule fx.guard_transparent)

text \<open>A context as the initialisation leaves it, with a descriptor of each kind received.\<close>

definition sample_ctx :: patch_context where
  "sample_ctx = \<lparr>ctx_init = True, fbits_filter = 0, dbits_filter_bpkt = 0, dbits_filter_pc = 0,
     fiexed_patches = Some (arraymap_new (\<lambda>_. 0) (\<lambda>_. 0) 4), dpatch_list = [],
     descs = [0x100 \<mapsto> \<lparr>d_type = FixedPatchPoint, d_code_len = 8, d_loc = 3, d_code = replicate 8 0\<rparr>,
              0x200 \<mapsto> \<lparr>d_type = DynamicPatchPoint, d_code_len = 8, d_loc = 0x08001003, d_code = replicate 8 0\<rparr>],
     patches = Map.empty, c_hw = sample_hw, c_helpers = None\<rparr>"

lemma empty_context_inv:
  assumes "fiexed_patches c = Some (arraymap_new bk bv 4)" "dpatch_list c = []" "patches c 0 = None"
  shows "iot_inv c"
  using assms am_new_inv [of 4 bk bv]
  by (simp add: iot_inv_def objects_ok_def filters_ok_def arraymap_new_def)

lemma sample_ctx_inv: "iot_inv sample_ctx"
  by (rule empty_context_inv) (simp_all add: sample_ctx_def)

subsection \<open>Updating the filters\<close>

lemma fixed_bits_covers:
  assumes "objects_ok c" "fiexed_patches c = Some m" "n \<le> am_cur m"
  shows "\<exists>b. fixed_bits c m n = Some b \<and>
    (\<forall>i < n. active_at c (am_vals m i) \<longrightarrow> b AND am_keys m i = am_keys m i)"
  using assms(3)
proof (induction n)
  case (Suc n)
  then obtain b where b: "fixed_bits c m n = Some b"
      "\<And>i. i < n \<Longrightarrow> active_at c (am_vals m i) \<Longrightarrow> b AND am_keys m i = am_keys m i" by auto
  have "fixed_entry_ok c (am_keys m n) (am_vals m n)" "patches c 0 = None"
    using assms(1,2) Suc.prems by (auto simp: objects_ok_def)
  then obtain pt d where e: "patches c (am_vals m n) = Some pt" "descs c (p_desc pt) = Some d"
      "d_loc d = am_keys m n" by (auto simp: fixed_entry_ok_def)
  then have nz: "am_vals m n \<noteq> 0" using \<open>patches c 0 = None\<close> by auto
  have iter: "arraymap_iter_val m (int n) = am_vals m n"
    using Suc.prems by (simp add: arraymap_iter_val_def)
  let ?b = "if is_active pt then b OR am_keys m n else b"
  have "fixed_bits c m (Suc n) = Some ?b" using b(1) e iter nz by simp
  moreover have "?b AND am_keys m i = am_keys m i" if "i < Suc n" "active_at c (am_vals m i)" for i
  proof (cases "i = n")
    case True
    then show ?thesis using that(2) e by (simp add: active_at_def covers_or)
  next
    case False
    then have "b AND am_keys m i = am_keys m i" using b(2) that by simp
    then show ?thesis by (simp add: covers_or)
  qed
  ultimately show ?case by blast
qed simp

lemma update_bits_filter_ok:
  assumes "objects_ok c"
  obtains fb where "update_bits_filter c =
      Some (c\<lparr>fbits_filter := fb, dbits_filter_pc := or_all (map dp_pc (dpatch_list c)),
              dbits_filter_bpkt := or_all (map dp_inst (dpatch_list c))\<rparr>)"
    "\<And>m i. fiexed_patches c = Some m \<Longrightarrow> i < am_cur m \<Longrightarrow> active_at c (am_vals m i) \<Longrightarrow>
       fb AND am_keys m i = am_keys m i"
proof -
  obtain m where m: "fiexed_patches c = Some m" using assms by (auto simp: objects_ok_def)
  from fixed_bits_covers [OF assms m, of "am_cur m"] obtain b where "fixed_bits c m (am_cur m) = Some b"
    "\<forall>i < am_cur m. active_at c (am_vals m i) \<longrightarrow> b AND am_keys m i = am_keys m i" by auto
  with m show ?thesis by (intro that [of b]) (auto simp: update_bits_filter_def)
qed

lemma desc_of_upd [simp]:
  "desc_of (c\<lparr>fiexed_patches := x\<rparr>) p = desc_of c p" "desc_of (c\<lparr>dpatch_list := y\<rparr>) p = desc_of c p"
  by (simp_all add: desc_of_def cong: option.case_cong)

lemma desc_of_fixed_entry:
  "fixed_entry_ok c k p \<Longrightarrow> \<exists>d. desc_of c p = Some d \<and> d_type d = FixedPatchPoint \<and> d_loc d = k"
  by (auto simp: fixed_entry_ok_def desc_of_def)

lemma fixed_entry_ok_cong:
  assumes "descs c' = descs c" "\<And>q. map_option p_desc (patches c' q) = map_option p_desc (patches c q)"
  shows "fixed_entry_ok c' k p = fixed_entry_ok c k p"
  using assms(1) assms(2) [of p] by (cases "patches c p"; cases "patches c' p") (auto simp: fixed_entry_ok_def)

text \<open>Activation re-establishes the filters from the objects alone.\<close>

lemma active_patch_ok:
  assumes "objects_ok c" "active_patch mem p c = Some c'"
  obtains pt where "patches c p = Some pt" "patches c' = (patches c)(p \<mapsto> pt\<lparr>is_active := True\<rparr>)"
    "descs c' = descs c" "fiexed_patches c' = fiexed_patches c" "dpatch_list c' = dpatch_list c"
    "c_helpers c' = c_helpers c" "objects_ok c'" "filters_ok c'"
proof -
  obtain fb where u: "update_bits_filter c =
      Some (c\<lparr>fbits_filter := fb, dbits_filter_pc := or_all (map dp_pc (dpatch_list c)),
              dbits_filter_bpkt := or_all (map dp_inst (dpatch_list c))\<rparr>)"
    and cov: "\<And>m i. fiexed_patches c = Some m \<Longrightarrow> i < am_cur m \<Longrightarrow> active_at c (am_vals m i) \<Longrightarrow>
       fb AND am_keys m i = am_keys m i" using update_bits_filter_ok [OF assms(1)] by blast
  obtain pt d where pd: "patches c p = Some pt" "descs c (p_desc pt) = Some d"
    using assms(2) u by (auto simp: active_patch_def desc_of_def split: option.splits)
  then have dof: "desc_of c p = Some d" by (simp add: desc_of_def)
  have out: "patches c' = (patches c)(p \<mapsto> pt\<lparr>is_active := True\<rparr>)" "descs c' = descs c"
      "fiexed_patches c' = fiexed_patches c" "dpatch_list c' = dpatch_list c" "c_helpers c' = c_helpers c"
      "fbits_filter c' = (if d_type d = FixedPatchPoint then fb OR d_loc d else fb)"
      "dbits_filter_pc c' = or_all (map dp_pc (dpatch_list c))"
      "dbits_filter_bpkt c' = or_all (map dp_inst (dpatch_list c))"
    using assms(2) pd by (auto simp: active_patch_def u desc_of_def split: patch_type.splits option.splits)
  have "fixed_entry_ok c' k q = fixed_entry_ok c k q" for k q
    by (rule fixed_entry_ok_cong) (auto simp: out pd(1))
  then have obj: "objects_ok c'" using assms(1) pd(1) by (auto simp: objects_ok_def out)
  have "fbits_filter c' AND am_keys m i = am_keys m i"
    if m: "fiexed_patches c = Some m" and i: "i < am_cur m" and a: "active_at c' (am_vals m i)" for m i
  proof (cases "am_vals m i = p")
    case True
    have "fixed_entry_ok c (am_keys m i) p" using assms(1) m i True by (auto simp: objects_ok_def)
    from desc_of_fixed_entry [OF this] dof show ?thesis by (auto simp: out covers_or)
  next
    case False
    then have "active_at c (am_vals m i)" using a by (auto simp: active_at_def out)
    from cov [OF m i this] show ?thesis by (simp add: out covers_or)
  qed
  then have "filters_ok c'"
    using or_all_covers by (auto simp: filters_ok_def out)
  with that pd(1) out obj show ?thesis by blast
qed

lemma fixed_activates:
  assumes "objects_ok c" "desc_of c p = Some d" "d_type d = FixedPatchPoint"
  shows "\<exists>c'. active_patch mem p c = Some c' \<and> c_hw c' = c_hw c"
proof (rule update_bits_filter_ok [OF assms(1)])
  fix fb assume "update_bits_filter c =
      Some (c\<lparr>fbits_filter := fb, dbits_filter_pc := or_all (map dp_pc (dpatch_list c)),
              dbits_filter_bpkt := or_all (map dp_inst (dpatch_list c))\<rparr>)"
  with assms(2,3) show ?thesis by (auto simp: active_patch_def desc_of_def split: option.splits)
qed

subsection \<open>Installing a patch\<close>

text \<open>An allocation that succeeds: a VM block, and an address that names no patch yet.\<close>

definition alloc_ok :: "alloc \<Rightarrow> patch_context \<Rightarrow> bool" where
  "alloc_ok al c \<longleftrightarrow> a_vm al \<noteq> None \<and> a_patch al \<noteq> 0 \<and> patches c (a_patch al) = None"

lemma set_default_helpers_vm: "helper_set vm \<Longrightarrow> snd (set_default_helpers j k g vm) = vm"
  by (simp add: set_default_helpers_def ebpf_register_def MAX_EXT_FUNCS_def)

lemma init_helpers_vm: "snd (init_iot_ebpf_helpers j k g vm) = vm\<lparr>helper_set := True\<rparr>"
  by (simp add: init_iot_ebpf_helpers_def set_default_helpers_vm)

lemma ebpf_patch_setup_ok:
  assumes "objects_ok c" "alloc_ok al c" "descs c desc = Some d"
  obtains c1 v where "ebpf_patch_setup al desc c = Some (a_patch al, c1)" "objects_ok c1"
    "patches c1 = (patches c)(a_patch al \<mapsto> \<lparr>p_desc = desc, p_vm = v, is_active = False\<rparr>)"
    "descs c1 = descs c" "fiexed_patches c1 = fiexed_patches c" "dpatch_list c1 = dpatch_list c"
    "c_hw c1 = c_hw c" "insts v = decode_insts (d_code d)" "use_jit v = use_jit (the (a_vm al))"
proof -
  obtain b where b: "a_vm al = Some b" using assms(2) by (auto simp: alloc_ok_def)
  let ?vm = "b\<lparr>insts := decode_insts (d_code d), insts_set := True, num_insts := num_insts_of (ucast (d_code_len d))\<rparr>"
  obtain g v where gv: "init_ebpf_vm (a_junk al) (a_call al) (Some b) (c_helpers c) (d_code d)
      (ucast (d_code_len d)) = (g, Some v)" "v = ?vm\<lparr>helper_set := True\<rparr>"
    using init_helpers_vm [of "a_junk al" "a_call al" "c_helpers c" ?vm]
    by (simp add: init_ebpf_vm_def split_beta)
  let ?c = "c\<lparr>c_helpers := g, patches := (patches c)(a_patch al \<mapsto> \<lparr>p_desc = desc, p_vm = v, is_active = False\<rparr>)\<rparr>"
  have "fixed_entry_ok c k p \<Longrightarrow> fixed_entry_ok ?c k p" for k p
    using assms(2) by (auto simp: fixed_entry_ok_def alloc_ok_def)
  then have "objects_ok ?c" using assms(1,2) by (auto simp: objects_ok_def alloc_ok_def)
  with b gv assms(3) show ?thesis by (intro that [of ?c v]) (simp_all add: ebpf_patch_setup_def)
qed

lemma am_put_entries:
  assumes "am_inv m" "am_admits m k v" "i < am_cur (am_put bk bv m k v)"
  shows "am_keys (am_put bk bv m k v) i = k \<and> am_vals (am_put bk bv m k v) i = v \<or>
    (\<exists>j < am_cur m. am_keys (am_put bk bv m k v) i = am_keys m j \<and>
       am_vals (am_put bk bv m k v) i = am_vals m j)"
proof (cases "am_cur m = 0")
  case True
  then show ?thesis using am_put_first [OF True, of bk bv k v] assms(3) by simp
next
  case False
  show ?thesis
  proof (cases rule: set_cases [OF assms(1,2) False, of bk bv, case_names modify insert])
    case (modify j)
    then show ?thesis using assms(3) by auto
  next
    case (insert j)
    have i: "i \<le> am_cur m" using assms(3) insert(5) by simp
    show ?thesis
      using insert(7) [OF i] insert(8) [OF i] insert(1,2) i
      by (cases "i = j"; cases "j < i") (auto intro: exI [of _ i] exI [of _ "i - 1"])
  qed
qed

lemma add_fixed_ok:
  assumes "objects_ok c" "fiexed_patches c = Some m" "desc_of c p = Some d"
    "d_type d = FixedPatchPoint" "am_admits m (d_loc d) p"
  shows "add_fixed_patch_to_ctx al p c =
      Some (c\<lparr>fiexed_patches := Some (am_put (a_keys al) (a_vals al) m (d_loc d) p)\<rparr>)"
    and "objects_ok (c\<lparr>fiexed_patches := Some (am_put (a_keys al) (a_vals al) m (d_loc d) p)\<rparr>)"
proof -
  let ?m = "am_put (a_keys al) (a_vals al) m (d_loc d) p"
  show "add_fixed_patch_to_ctx al p c = Some (c\<lparr>fiexed_patches := Some ?m\<rparr>)"
    using assms by (simp add: add_fixed_patch_to_ctx_def am_put_def)
  have inv: "am_inv m" using assms(1,2) by (auto simp: objects_ok_def)
  have new: "fixed_entry_ok c (d_loc d) p"
    using assms(3,4) by (auto simp: fixed_entry_ok_def desc_of_def split: option.splits)
  have old: "fixed_entry_ok c (am_keys m j) (am_vals m j)" if "j < am_cur m" for j
    using assms(1,2) that by (auto simp: objects_ok_def)
  have "fixed_entry_ok c (am_keys ?m i) (am_vals ?m i)" if "i < am_cur ?m" for i
    using am_put_entries [OF inv assms(5) that] new old by auto
  moreover have "fixed_entry_ok (c\<lparr>fiexed_patches := Some ?m\<rparr>) k q = fixed_entry_ok c k q" for k q
    by (simp add: fixed_entry_ok_def)
  ultimately show "objects_ok (c\<lparr>fiexed_patches := Some ?m\<rparr>)"
    using assms(1) am_put_inv [OF inv assms(5)] by (auto simp: objects_ok_def)
qed

lemma fresh_in_map:
  assumes "objects_ok c" "fiexed_patches c = Some m" "patches c p = None" "i < am_cur m"
  shows "am_vals m i \<noteq> p"
  using assms by (auto simp: objects_ok_def fixed_entry_ok_def)

text \<open>A patch that no entry names may be added to the store without changing a lookup.\<close>

lemma find_fixed_add:
  assumes "objects_ok c" "fiexed_patches c = Some m" "fiexed_patches c' = Some m"
    "\<And>q. q \<noteq> p \<Longrightarrow> patches c' q = patches c q" "patches c p = None" "p \<noteq> 0"
  shows "find_fixed c' lr = find_fixed c lr"
proof -
  have am: "am_inv m" using assms(1,2) by (auto simp: objects_ok_def)
  have "arraymap_get m lr \<noteq> p"
    by (rule arraymap_get_cases [OF am, of lr]) (use fresh_in_map [OF assms(1,2,5)] assms(6) in auto)
  then show ?thesis using assms(2-4) by (simp add: find_fixed_def Let_def)
qed

text \<open>Filing a fixed patch and activating it: the step all loaders share.\<close>

lemma install_fixed:
  assumes "objects_ok c" "desc_of c p = Some d" "d_type d = FixedPatchPoint" "fiexed_patches c = Some m"
    "am_admits m (d_loc d) p" "\<And>i. i < am_cur m \<Longrightarrow> am_vals m i \<noteq> p"
  obtains c' where "Option.bind (add_fixed_patch_to_ctx al p c) (active_patch mem p) = Some c'"
    "objects_ok c'" "filters_ok c'" "dpatch_list c' = dpatch_list c" "c_hw c' = c_hw c"
    "descs c' = descs c" "map_option p_vm (patches c' p) = map_option p_vm (patches c p)"
    "\<forall>lr. find_fixed c' lr = (if lr = d_loc d then Some p else find_fixed c lr)"
proof -
  define c2 where "c2 = c\<lparr>fiexed_patches := Some (am_put (a_keys al) (a_vals al) m (d_loc d) p)\<rparr>"
  note fixed = add_fixed_ok [OF assms(1,4,2,3,5), of al, folded c2_def]
  have dof2: "desc_of c2 p = Some d" using assms(2) by (simp add: c2_def)
  obtain c' where c': "active_patch mem p c2 = Some c'" "c_hw c' = c_hw c2"
    using fixed_activates [OF fixed(2) dof2 assms(3)] by blast
  obtain pt where o: "patches c2 p = Some pt" "patches c' = (patches c2)(p \<mapsto> pt\<lparr>is_active := True\<rparr>)"
    "descs c' = descs c2" "fiexed_patches c' = fiexed_patches c2" "dpatch_list c' = dpatch_list c2"
    "c_helpers c' = c_helpers c2" "objects_ok c'" "filters_ok c'"
    by (rule active_patch_ok [OF fixed(2) c'(1)])
  have am: "am_inv m" and p0: "p \<noteq> 0"
    using assms(1,4) o(1) by (auto simp: objects_ok_def c2_def)
  have old: "arraymap_get m lr \<noteq> p" for lr
    by (rule arraymap_get_cases [OF am, of lr]) (use assms(6) p0 in auto)
  have "find_fixed c' lr = (if lr = d_loc d then Some p else find_fixed c lr)" for lr
    using am_get_put [OF am assms(5), of "a_keys al" "a_vals al" lr] old [of lr] assms(4) p0
    by (auto simp: find_fixed_def Let_def o(2,4) c2_def)
  with that [of c'] fixed(1) c' o show ?thesis by (simp add: c2_def)
qed

lemma notify_fixed_ok:
  assumes "iot_inv c" and "alloc_ok al c" and "descs c desc = Some d" and "d_type d = FixedPatchPoint"
    and "fiexed_patches c = Some m" and "am_admits m (d_loc d) (a_patch al)"
  shows "\<exists>c'. notify_new_patch mem al desc c = Some c' \<and> iot_inv c' \<and>
    dpatch_list c' = dpatch_list c \<and>
    (\<forall>lr. get_fixed_patch_by_lr c' lr =
       (if lr = d_loc d then Some (a_patch al) else get_fixed_patch_by_lr c lr)) \<and>
    (\<exists>pt. patches c' (a_patch al) = Some pt \<and> insts (p_vm pt) = decode_insts (d_code d) \<and>
       use_jit (p_vm pt) = use_jit (the (a_vm al)))"
proof -
  have obj: "objects_ok c" using assms(1) by (simp add: iot_inv_def)
  let ?p = "a_patch al"
  obtain c1 v where c1: "ebpf_patch_setup al desc c = Some (?p, c1)" "objects_ok c1"
    "patches c1 = (patches c)(?p \<mapsto> \<lparr>p_desc = desc, p_vm = v, is_active = False\<rparr>)"
    "descs c1 = descs c" "fiexed_patches c1 = fiexed_patches c" "dpatch_list c1 = dpatch_list c"
    "c_hw c1 = c_hw c" "insts v = decode_insts (d_code d)" "use_jit v = use_jit (the (a_vm al))"
    by (rule ebpf_patch_setup_ok [OF obj assms(2,3)])
  have dof: "desc_of c1 ?p = Some d" using assms(3) by (simp add: desc_of_def c1)
  have f1: "fiexed_patches c1 = Some m" using assms(5) by (simp add: c1)
  have fresh: "am_vals m i \<noteq> ?p" if "i < am_cur m" for i
    using fresh_in_map [OF obj assms(5) _ that] assms(2) by (simp add: alloc_ok_def)
  obtain c' where c': "Option.bind (add_fixed_patch_to_ctx al ?p c1) (active_patch mem ?p) = Some c'"
    "objects_ok c'" "filters_ok c'" "dpatch_list c' = dpatch_list c1" "c_hw c' = c_hw c1"
    "descs c' = descs c1" "map_option p_vm (patches c' ?p) = map_option p_vm (patches c1 ?p)"
    "\<forall>lr. find_fixed c' lr = (if lr = d_loc d then Some ?p else find_fixed c1 lr)"
    by (rule install_fixed [OF c1(2) dof assms(4) f1 assms(6) fresh, where al = al and mem = mem])
  have n: "notify_new_patch mem al desc c = Some c'"
    using c'(1) assms(3,4)
    by (auto simp: notify_new_patch_def add_ebpf_patch_def c1 bind_eq_Some_conv split: option.splits)
  have "find_fixed c1 lr = find_fixed c lr" for lr
    using find_fixed_add [OF obj assms(5) f1, of ?p lr] assms(2) by (simp add: c1 alloc_ok_def)
  moreover have inv': "iot_inv c'" using c' assms(1) by (simp add: iot_inv_def c1)
  moreover obtain pt where "patches c' ?p = Some pt" "p_vm pt = v" using c'(7) by (auto simp: c1)
  ultimately show ?thesis
    using n c' by (auto simp: get_fixed_eq_find assms(1) c1)
qed

text \<open>C16: installing a fixed patch succeeds when the map admits its identifier (the map is empty, or the
  identifier is above the first key and not what the unused slot behind the last key holds; and the
  size stays in 16 bits). It keeps the invariant, makes exactly this patch the one its patch point finds, and changes no other patch point; the dynamic
  patches are not touched.\<close>

theorem notify_fixed_patch:
  assumes "iot_inv c" and "alloc_ok al c" and "descs c desc = Some d" and "d_type d = FixedPatchPoint"
    and "fiexed_patches c = Some m" and "am_admits m (d_loc d) (a_patch al)"
  shows "\<exists>c'. notify_new_patch mem al desc c = Some c' \<and> iot_inv c' \<and>
    dpatch_list c' = dpatch_list c \<and>
    (\<forall>lr. get_fixed_patch_by_lr c' lr =
       (if lr = d_loc d then Some (a_patch al) else get_fixed_patch_by_lr c lr))"
  using notify_fixed_ok [OF assms, of mem] by blast

definition sample_alloc :: alloc where
  "sample_alloc = \<lparr>a_vm = Some \<lparr>insts = [], insts_set = False, num_insts = 0, bounds_check_enabled = False,
       helper_set = False, use_jit = False\<rparr>, a_patch = 0x300, a_keys = (\<lambda>_. 0), a_vals = (\<lambda>_. 0),
     a_junk = 0, a_call = (\<lambda>_ _ _ _ _ w. w)\<rparr>"

lemma sample_alloc_ok: "alloc_ok sample_alloc sample_ctx"
  by (simp add: alloc_ok_def sample_alloc_def sample_ctx_def)

theorem notify_fixed_patch_witness:
  "\<exists>c'. notify_new_patch (\<lambda>_. None) sample_alloc 0x100 sample_ctx = Some c' \<and> iot_inv c' \<and>
    get_fixed_patch_by_lr c' 3 = Some 0x300 \<and> get_fixed_patch_by_lr c' 1 = Some 0"
proof -
  let ?d = "\<lparr>d_type = FixedPatchPoint, d_code_len = 8, d_loc = 3, d_code = replicate 8 0\<rparr>"
  have d: "descs sample_ctx 0x100 = Some ?d" by (simp add: sample_ctx_def)
  have m: "fiexed_patches sample_ctx = Some (arraymap_new (\<lambda>_. 0) (\<lambda>_. 0) 4)" by (simp add: sample_ctx_def)
  have a: "am_admits (arraymap_new (\<lambda>_. 0) (\<lambda>_. 0) 4) (d_loc ?d) (a_patch sample_alloc)"
    by (simp add: am_admits_def arraymap_new_def MAP_GROW_def u16_of_def)
  have "get_fixed_patch_by_lr sample_ctx 1 = Some 0"
    by (simp add: get_fixed_patch_by_lr_def sample_ctx_def)
  then show ?thesis
    using notify_fixed_patch [OF sample_ctx_inv sample_alloc_ok d _ m a, of "\<lambda>_. None"]
    by (auto simp: sample_alloc_def)
qed

lemma scan_skip: "(\<And>d. d \<in> set ds \<Longrightarrow> \<not> q d) \<Longrightarrow> scan c q (ds @ es) = scan c q es"
  by (induction ds) auto

lemma add_dynamic_list:
  assumes "desc_of c p = Some d" "new_node mem p (d_loc d) = Some nd"
  obtains pre where "add_dynamic_patch_to_ctx mem p c = Some (c\<lparr>dpatch_list := pre @ [nd]\<rparr>)"
    "set pre \<subseteq> set (dpatch_list c)" "\<forall>x \<in> set pre. dp_inst x \<noteq> d_loc d"
    "length (dpatch_list c) \<le> MAX_DP_NUM + 1 \<longrightarrow> length pre \<le> MAX_DP_NUM"
proof -
  let ?ds = "dpatch_list c" and ?pre = "before_match (d_loc d) (dpatch_list c)"
  have pre: "set ?pre \<subseteq> set ?ds" "\<forall>x \<in> set ?pre. dp_inst x \<noteq> d_loc d"
    by (auto simp: before_match_def dest: set_takeWhileD)
  have all: "\<forall>x \<in> set ?ds. dp_inst x \<noteq> d_loc d" if "\<not> length ?pre < length ?ds"
  proof -
    have "length (dropWhile (\<lambda>x. dp_inst x \<noteq> d_loc d) ?ds) = 0"
      using that arg_cong [OF takeWhile_dropWhile_id [of "\<lambda>x. dp_inst x \<noteq> d_loc d" ?ds], of length]
      unfolding before_match_def length_append by linarith
    then show ?thesis by (simp add: dropWhile_eq_Nil_conv)
  qed
  show ?thesis
  proof (cases "length ?pre < length ?ds")
    case True
    then show ?thesis using assms pre by (intro that [of ?pre]) (auto simp: add_dynamic_patch_to_ctx_def Let_def)
  next
    case False
    show ?thesis
    proof (cases "length ?ds > MAX_DP_NUM")
      case True
      then show ?thesis using assms False all [OF False]
        by (intro that [of "butlast ?ds"])
           (auto simp: add_dynamic_patch_to_ctx_def Let_def dest: in_set_butlastD)
    next
      case small: False
      then show ?thesis using assms False all [OF False]
        by (intro that [of ?ds]) (auto simp: add_dynamic_patch_to_ctx_def Let_def)
    qed
  qed
qed

lemma objects_ok_add_node:
  assumes "objects_ok c" "set pre \<subseteq> set (dpatch_list c)" "patches c (dp_patch nd) \<noteq> None"
  shows "objects_ok (c\<lparr>dpatch_list := pre @ [nd]\<rparr>)"
proof -
  have "fixed_entry_ok (c\<lparr>dpatch_list := pre @ [nd]\<rparr>) k q = fixed_entry_ok c k q" for k q
    by (simp add: fixed_entry_ok_def)
  with assms show ?thesis unfolding objects_ok_def by auto
qed

text \<open>The address of a dynamic patch is masked in its descriptor; no fixed patch refers to it.\<close>

lemma objects_ok_mask_desc:
  assumes "objects_ok c" "descs c desc = Some d" "d_type d = DynamicPatchPoint"
  shows "objects_ok (c\<lparr>descs := (descs c)(desc \<mapsto> d')\<rparr>)"
proof -
  have "fixed_entry_ok c k q \<Longrightarrow> fixed_entry_ok (c\<lparr>descs := (descs c)(desc \<mapsto> d')\<rparr>) k q" for k q
    using assms(2,3) by (auto simp: fixed_entry_ok_def)
  with assms(1) show ?thesis by (auto simp: objects_ok_def)
qed

lemma dynamic_activates:
  assumes "objects_ok c" "desc_of c p = Some d" "d_type d = DynamicPatchPoint"
    "add_hw_bkpt mem (d_loc d) (c_hw c) = Some (i, h)"
  shows "\<exists>c'. active_patch mem p c = Some c' \<and> c_hw c' = h"
proof (rule update_bits_filter_ok [OF assms(1)])
  fix fb assume "update_bits_filter c =
      Some (c\<lparr>fbits_filter := fb, dbits_filter_pc := or_all (map dp_pc (dpatch_list c)),
              dbits_filter_bpkt := or_all (map dp_inst (dpatch_list c))\<rparr>)"
  with assms(2-4) show ?thesis by (auto simp: active_patch_def desc_of_def split: option.splits)
qed

lemma code_addr_aligned: "a < 0x20000000 \<Longrightarrow> a AND 3 = 0 \<Longrightarrow> calc_bpkt_addr a = a"
  using calc_bpkt_addr_eq [of a] word_aligned_even [of a] by simp

lemma notify_dynamic_ok:
  assumes "iot_inv c" and "alloc_ok al c" and "descs c desc = Some d" and "d_type d = DynamicPatchPoint"
    and "a = d_loc d AND NOT 3" and "a < 0x20000000" and "calc_bpkt_pc mem a = Some pc"
    and "hw_ready (c_hw c)" and "\<not> remap_active (c_hw c)"
  shows "\<exists>c'. notify_new_patch mem al desc c = Some c' \<and> iot_inv c' \<and>
    get_dynamic_patch_by_bpkt c' a = Some (a_patch al) \<and>
    (\<exists>i < MAX_BP. h_comp (c_hw c') i = comp_word a) \<and>
    (\<exists>pt. patches c' (a_patch al) = Some pt \<and> insts (p_vm pt) = decode_insts (d_code d) \<and>
       use_jit (p_vm pt) = use_jit (the (a_vm al)))"
proof -
  have obj: "objects_ok c" using assms(1) by (simp add: iot_inv_def)
  let ?p = "a_patch al" and ?d = "d\<lparr>d_loc := a\<rparr>"
  obtain c1 v where c1: "ebpf_patch_setup al desc c = Some (?p, c1)" "objects_ok c1"
    "patches c1 = (patches c)(?p \<mapsto> \<lparr>p_desc = desc, p_vm = v, is_active = False\<rparr>)"
    "descs c1 = descs c" "fiexed_patches c1 = fiexed_patches c" "dpatch_list c1 = dpatch_list c"
    "c_hw c1 = c_hw c" "insts v = decode_insts (d_code d)" "use_jit v = use_jit (the (a_vm al))"
    by (rule ebpf_patch_setup_ok [OF obj assms(2,3)])
  define c2 where "c2 = c1\<lparr>descs := (descs c1)(desc \<mapsto> ?d)\<rparr>"
  have ok2: "objects_ok c2"
    unfolding c2_def using c1(2) assms(3,4) by (intro objects_ok_mask_desc) (simp_all add: c1(4))
  have dof: "desc_of c2 ?p = Some ?d" by (simp add: desc_of_def c2_def c1(3))
  have al4: "a AND 3 = 0" unfolding assms(5) by (simp add: bit_eq_iff bit_simps)
  note inst = code_addr_aligned [OF assms(6) al4]
  define nd where "nd = \<lparr>dp_patch = ?p, dp_inst = a, dp_pc = pc\<rparr>"
  have nn: "new_node mem ?p (d_loc ?d) = Some nd" using assms(7) by (simp add: new_node_def inst nd_def)
  obtain pre where l: "add_dynamic_patch_to_ctx mem ?p c2 = Some (c2\<lparr>dpatch_list := pre @ [nd]\<rparr>)"
    "set pre \<subseteq> set (dpatch_list c2)" "\<forall>x \<in> set pre. dp_inst x \<noteq> d_loc ?d"
    "length (dpatch_list c2) \<le> MAX_DP_NUM + 1 \<longrightarrow> length pre \<le> MAX_DP_NUM"
    by (rule add_dynamic_list [OF dof nn])
  define c3 where "c3 = c2\<lparr>dpatch_list := pre @ [nd]\<rparr>"
  have ok3: "objects_ok c3"
    unfolding c3_def using ok2 l(2) by (rule objects_ok_add_node) (simp add: nd_def c2_def c1(3))
  have dof3: "desc_of c3 ?p = Some ?d" using dof by (simp add: c3_def)
  have "add_ebpf_patch mem al desc c = Some (?p, c3)"
    unfolding add_ebpf_patch_def c1(1) using assms(3-5) l(1) by (simp add: c1(4) c2_def c3_def)
  then have n: "notify_new_patch mem al desc c = active_patch mem ?p c3"
    by (simp add: notify_new_patch_def)
  obtain i h where hw: "add_hw_bkpt mem a (c_hw c3) = Some (int i, h)" "i < MAX_BP" "h_comp h i = comp_word a"
    using normal_bkpt_set [OF assms(8,9,6), of mem] by (auto simp: c3_def c2_def c1(7))
  obtain c' where c': "active_patch mem ?p c3 = Some c'" "c_hw c' = h"
    using dynamic_activates [OF ok3 dof3, of mem "int i" h] assms(4) hw(1) by auto
  obtain pt where o: "patches c3 ?p = Some pt" "patches c' = (patches c3)(?p \<mapsto> pt\<lparr>is_active := True\<rparr>)"
    "descs c' = descs c3" "fiexed_patches c' = fiexed_patches c3" "dpatch_list c' = dpatch_list c3"
    "c_helpers c' = c_helpers c3" "objects_ok c'" "filters_ok c'"
    by (rule active_patch_ok [OF ok3 c'(1)])
  have inv': "iot_inv c'"
    using o(5,7,8) l(4) assms(1) by (simp add: iot_inv_def c3_def c2_def c1(6))
  have "scan c' (\<lambda>x. dp_inst x = a) (dpatch_list c') = Some ?p"
    using l(3) by (simp add: o(2,5) c3_def scan_skip nd_def)
  then have "get_dynamic_patch_by_bpkt c' a = Some ?p"
    using dbk.guard_transparent [OF inv', of a] by (simp add: get_dynamic_patch_by_bpkt_def)
  moreover have "\<exists>pt'. patches c' ?p = Some pt' \<and> insts (p_vm pt') = decode_insts (d_code d) \<and>
      use_jit (p_vm pt') = use_jit (the (a_vm al))"
    using o(1,2) c1(8,9) by (auto simp: c3_def c2_def c1(3))
  ultimately show ?thesis using n c' inv' hw by auto
qed

text \<open>C17: in debug-monitor mode, installing a dynamic patch for an instruction in readable code
  succeeds, keeps the invariant, sets a comparator for the instruction, and makes the patch the
  one that the breakpoint at the instruction finds.\<close>

theorem notify_dynamic_patch:
  assumes "iot_inv c" and "alloc_ok al c" and "descs c desc = Some d" and "d_type d = DynamicPatchPoint"
    and "a = d_loc d AND NOT 3" and "a < 0x20000000" and "calc_bpkt_pc mem a = Some pc"
    and "hw_ready (c_hw c)" and "\<not> remap_active (c_hw c)"
  shows "\<exists>c'. notify_new_patch mem al desc c = Some c' \<and> iot_inv c' \<and>
    get_dynamic_patch_by_bpkt c' a = Some (a_patch al) \<and>
    (\<exists>i < MAX_BP. h_comp (c_hw c') i = comp_word a)"
  using notify_dynamic_ok [OF assms] by blast

theorem notify_dynamic_patch_witness:
  "\<exists>c'. notify_new_patch (\<lambda>_. Some 0x20) sample_alloc 0x200 sample_ctx = Some c' \<and>
    get_dynamic_patch_by_bpkt c' 0x08001000 = Some 0x300"
proof -
  let ?d = "\<lparr>d_type = DynamicPatchPoint, d_code_len = 8, d_loc = 0x08001003, d_code = replicate 8 0\<rparr>"
  have d: "descs sample_ctx 0x200 = Some ?d" by (simp add: sample_ctx_def)
  have "load_bytes (\<lambda>_. Some 0x20) a 2 = Some [0x20, 0x20]" for a by (simp add: numeral_2_eq_2)
  then have pc: "calc_bpkt_pc (\<lambda>_. Some 0x20) 0x08001000 = Some 0x08001002"
    by (simp add: calc_bpkt_pc_def Let_def load16_def mem_load_def)
  have hw: "hw_ready (c_hw sample_ctx)" "\<not> remap_active (c_hw sample_ctx)"
    by (simp_all add: sample_ctx_def sample_hw_def hw_ready_def MAX_BP_def remap_active_def)
  show ?thesis
    using notify_dynamic_patch [OF sample_ctx_inv sample_alloc_ok d _ _ _ pc hw]
    by (auto simp: sample_alloc_def)
qed

text \<open>A descriptor in a fresh block does not touch the invariant.\<close>

lemma iot_inv_add_desc:
  assumes "iot_inv c" "descs c a = None"
  shows "iot_inv (c\<lparr>descs := (descs c)(a \<mapsto> d)\<rparr>)"
proof -
  have "fixed_entry_ok c k p \<Longrightarrow> fixed_entry_ok (c\<lparr>descs := (descs c)(a \<mapsto> d)\<rparr>) k p" for k p
    using assms(2) by (auto simp: fixed_entry_ok_def)
  with assms(1) show ?thesis by (auto simp: iot_inv_def objects_ok_def filters_ok_def active_at_def)
qed

subsection \<open>Start and end of the patch system\<close>

lemma init_ok:
  assumes "\<not> ctx_init c" and "patches c 0 = None"
  shows "\<exists>c'. init_patch_sys al c = Some c' \<and> iot_inv c' \<and> ctx_init c' \<and>
    get_fixed_patch_by_lr c' a = Some 0 \<and> get_dynamic_patch_by_bpkt c' a = Some 0"
proof -
  let ?c = "(zero_context c)\<lparr>fiexed_patches := Some (arraymap_new (a_keys al) (a_vals al) 4)\<rparr>"
  let ?c' = "?c\<lparr>fbits_filter := 0, dbits_filter_pc := 0, dbits_filter_bpkt := 0, ctx_init := True\<rparr>"
  have "init_patch_sys al c = Some ?c'"
    using assms(1) by (simp add: init_patch_sys_def update_bits_filter_def zero_context_def
      arraymap_new_def or_all_def)
  moreover have "iot_inv ?c'"
    by (rule empty_context_inv) (use assms(2) in \<open>simp_all add: zero_context_def\<close>)
  moreover have "arraymap_get (arraymap_new (a_keys al) (a_vals al) 4) a = 0"
    by (rule get_absent) (simp add: arraymap_new_def)
  ultimately show ?thesis
    by (auto simp: get_fixed_patch_by_lr_def get_dynamic_patch_by_bpkt_def zero_context_def Let_def)
qed

text \<open>The first initialisation of the patch system succeeds and establishes the invariant, with
  no patch at any patch point.\<close>

theorem init_patch_sys_inv:
  assumes "\<not> ctx_init c" and "patches c 0 = None"
  shows "\<exists>c'. init_patch_sys al c = Some c' \<and> iot_inv c' \<and> ctx_init c' \<and>
    get_fixed_patch_by_lr c' a = Some 0 \<and> get_dynamic_patch_by_bpkt c' a = Some 0"
  by (rule init_ok [OF assms])

theorem init_patch_sys_inv_witness:
  "\<exists>c'. init_patch_sys sample_alloc (sample_ctx\<lparr>ctx_init := False\<rparr>) = Some c' \<and> iot_inv c'"
  using init_patch_sys_inv [of "sample_ctx\<lparr>ctx_init := False\<rparr>" sample_alloc] by (simp add: sample_ctx_def) blast

lemma destroy_ebpf_patch_patches: "patches c q = None \<Longrightarrow> patches (destroy_ebpf_patch p c) q = None"
  by (simp add: destroy_ebpf_patch_def split: option.splits)

lemma destroy_fold_patches:
  "patches c q = None \<or> q \<in> dp_patch ` set ds \<Longrightarrow>
   patches (fold (\<lambda>d. destroy_ebpf_patch (dp_patch d)) ds c) q = None"
proof (induction ds arbitrary: c)
  case (Cons d ds)
  have "patches (destroy_ebpf_patch (dp_patch d) c) (dp_patch d) = None"
    by (simp add: destroy_ebpf_patch_def split: option.splits)
  with Cons show ?case by (auto simp: destroy_ebpf_patch_patches)
qed simp

text \<open>After the context is destroyed, every object of a dynamic patch is released, no comparator
  the unit reports is set, no patch point but identifier 0 finds a patch (the lookup of
  identifier 0 passes the empty filter and follows the NULL map), and the next initialisation
  establishes the invariant again.\<close>

theorem destroy_patch_context_clears:
  assumes "iot_inv c" and "c' = destroy_patch_context c"
  shows "(\<forall>d \<in> set (dpatch_list c). patches c' (dp_patch d) = None) \<and>
    (\<forall>i < num_code_comparators (h_ctrl (c_hw c)). h_comp (c_hw c') i = 0) \<and>
    (\<forall>a. get_fixed_patch_by_lr c' a = (if a = 0 then None else Some 0)) \<and>
    (\<forall>a. get_dynamic_patch_by_pc c' a = Some 0 \<and> get_dynamic_patch_by_bpkt c' a = Some 0 \<and>
         get_dynamic_patch_by_fpb c' a = Some 0) \<and>
    (\<exists>c''. init_patch_sys al c' = Some c'' \<and> iot_inv c'')"
proof -
  let ?f = "fold (\<lambda>d. destroy_ebpf_patch (dp_patch d)) (dpatch_list c) (c\<lparr>fiexed_patches := None\<rparr>)"
  have hw: "c_hw (fold (\<lambda>d. destroy_ebpf_patch (dp_patch d)) ds x) = c_hw x \<and>
      fiexed_patches (fold (\<lambda>d. destroy_ebpf_patch (dp_patch d)) ds x) = fiexed_patches x" for ds :: "dynamic_patch list" and x
    by (induction ds arbitrary: x) (auto simp: destroy_ebpf_patch_def split: option.splits)
  have hw_f: "c_hw ?f = c_hw c" "fiexed_patches ?f = None" using hw by simp_all
  have f: "c' = ?f\<lparr>dpatch_list := [], dbits_filter_bpkt := 0, dbits_filter_pc := 0, fbits_filter := 0,
      ctx_init := False, c_hw := clear_all_hw_bkpt (c_hw c)\<rparr>"
    using hw_f by (simp add: assms(2) destroy_patch_context_def Let_def)
  have p0: "patches c' 0 = None" and gone: "\<forall>d \<in> set (dpatch_list c). patches c' (dp_patch d) = None"
    using assms(1) by (auto simp: f iot_inv_def objects_ok_def intro!: destroy_fold_patches)
  have init: "\<exists>c''. init_patch_sys al c' = Some c'' \<and> iot_inv c''"
    using init_ok [of c' al] p0 by (auto simp: f)
  show ?thesis
    using gone init clear_all_hw_bkpt_clears(1) hw_f
    by (auto simp: f get_fixed_patch_by_lr_def get_dynamic_patch_by_pc_def
      get_dynamic_patch_by_bpkt_def get_dynamic_patch_by_fpb_def Let_def)
qed

theorem destroy_patch_context_clears_witness:
  "get_dynamic_patch_by_fpb (destroy_patch_context sample_ctx) 0x08001000 = Some 0"
  using destroy_patch_context_clears [OF sample_ctx_inv refl] by blast

subsection \<open>Every history of the patch system\<close>

text \<open>A context between its operations: running with the invariant, or without a map.\<close>

definition ctx_inv :: "patch_context \<Rightarrow> bool" where
  "ctx_inv c \<longleftrightarrow> iot_inv c \<or> \<not> ctx_init c \<and> fiexed_patches c = None \<and> patches c 0 = None"

text \<open>The map admits the identifier of a fixed patch, as for \<open>am_admits\<close>.\<close>

definition id_admitted :: "patch_context \<Rightarrow> patch_desc \<Rightarrow> u32 \<Rightarrow> bool" where
  "id_admitted c d p \<longleftrightarrow> (d_type d = FixedPatchPoint \<longrightarrow> (\<forall>m. fiexed_patches c = Some m \<longrightarrow> am_admits m (d_loc d) p))"

text \<open>The contexts that any sequence of operations leads to, from the zeroed one of the start: the
  initialisation, the arrival of a descriptor in a fresh block, the installation of a received
  patch, the loading of a local one, and the release of the context.\<close>

inductive ctx_run :: "patch_context \<Rightarrow> bool" where
  boot: "\<not> ctx_init c \<Longrightarrow> fiexed_patches c = None \<Longrightarrow> patches c 0 = None \<Longrightarrow> ctx_run c"
| start: "ctx_run c \<Longrightarrow> init_patch_sys al c = Some c' \<Longrightarrow> ctx_run c'"
| receive: "ctx_run c \<Longrightarrow> descs c a = None \<Longrightarrow> ctx_run (c\<lparr>descs := (descs c)(a \<mapsto> d)\<rparr>)"
| install: "ctx_run c \<Longrightarrow> alloc_ok al c \<Longrightarrow> descs c desc = Some d \<Longrightarrow> id_admitted c d (a_patch al) \<Longrightarrow>
    notify_new_patch mem al desc c = Some c' \<Longrightarrow> ctx_run c'"
| load_local: "ctx_run c \<Longrightarrow> desc_of c p = Some d \<Longrightarrow> id_admitted c d p \<Longrightarrow>
    load_local_patch_to_ctx mem al p c = Some c' \<Longrightarrow> ctx_run c'"
| release: "ctx_run c \<Longrightarrow> ctx_run (destroy_patch_context c)"

text \<open>An activation gives the whole invariant when the objects are in order and the list is short.\<close>

lemma active_patch_inv:
  assumes "objects_ok c" "length (dpatch_list c) \<le> MAX_DP_NUM + 1" "active_patch mem p c = Some c'"
  shows "iot_inv c'"
  by (rule active_patch_ok [OF assms(1,3)]) (use assms(2) in \<open>simp add: iot_inv_def\<close>)

lemma add_dynamic_objects:
  assumes "objects_ok c" "length (dpatch_list c) \<le> MAX_DP_NUM + 1" "add_dynamic_patch_to_ctx mem p c = Some c'"
  shows "objects_ok c' \<and> length (dpatch_list c') \<le> MAX_DP_NUM + 1"
proof -
  obtain d nd where d: "desc_of c p = Some d" "new_node mem p (d_loc d) = Some nd"
    using assms(3) by (auto simp: add_dynamic_patch_to_ctx_def split: option.splits)
  obtain pre where l: "add_dynamic_patch_to_ctx mem p c = Some (c\<lparr>dpatch_list := pre @ [nd]\<rparr>)"
    "set pre \<subseteq> set (dpatch_list c)" "\<forall>x \<in> set pre. dp_inst x \<noteq> d_loc d"
    "length (dpatch_list c) \<le> MAX_DP_NUM + 1 \<longrightarrow> length pre \<le> MAX_DP_NUM"
    by (rule add_dynamic_list [OF d])
  have "patches c (dp_patch nd) \<noteq> None"
    using d by (auto simp: new_node_def desc_of_def Let_def split: option.splits)
  then show ?thesis using objects_ok_add_node [OF assms(1) l(2)] l(1,4) assms(2,3) by simp
qed

lemma add_fixed_objects:
  assumes "objects_ok c" "desc_of c p = Some d" "d_type d = FixedPatchPoint" "id_admitted c d p"
    "add_fixed_patch_to_ctx al p c = Some c'"
  shows "objects_ok c' \<and> dpatch_list c' = dpatch_list c"
proof -
  obtain m where m: "fiexed_patches c = Some m" using assms(1) by (auto simp: objects_ok_def)
  then have "am_admits m (d_loc d) p" using assms(3,4) by (simp add: id_admitted_def)
  from add_fixed_ok [OF assms(1) m assms(2,3) this, of al] assms(5) show ?thesis by auto
qed

lemma notify_keeps_inv:
  assumes "iot_inv c" "alloc_ok al c" "descs c desc = Some d" "id_admitted c d (a_patch al)"
    "notify_new_patch mem al desc c = Some c'"
  shows "iot_inv c'"
proof -
  have obj: "objects_ok c" and len: "length (dpatch_list c) \<le> MAX_DP_NUM + 1"
    using assms(1) by (simp_all add: iot_inv_def)
  let ?p = "a_patch al"
  obtain c1 v where c1: "ebpf_patch_setup al desc c = Some (?p, c1)" "objects_ok c1"
    "patches c1 = (patches c)(?p \<mapsto> \<lparr>p_desc = desc, p_vm = v, is_active = False\<rparr>)"
    "descs c1 = descs c" "fiexed_patches c1 = fiexed_patches c" "dpatch_list c1 = dpatch_list c"
    "c_hw c1 = c_hw c" "insts v = decode_insts (d_code d)" "use_jit v = use_jit (the (a_vm al))"
    by (rule ebpf_patch_setup_ok [OF obj assms(2,3)])
  have dof: "desc_of c1 ?p = Some d" using assms(3) by (simp add: desc_of_def c1)
  have adm: "id_admitted c1 d ?p" using assms(4) by (simp add: id_admitted_def c1)
  obtain c2 where c2: "add_ebpf_patch mem al desc c = Some (?p, c2)" "active_patch mem ?p c2 = Some c'"
    using assms(3,5) c1(1,4) by (auto simp: notify_new_patch_def add_ebpf_patch_def split: option.splits patch_type.splits)
  have "objects_ok c2 \<and> length (dpatch_list c2) \<le> MAX_DP_NUM + 1"
  proof (cases "d_type d")
    case FixedPatchPoint
    then have "add_fixed_patch_to_ctx al ?p c1 = Some c2"
      using c2(1) assms(3) by (simp add: add_ebpf_patch_def c1(1,4))
    from add_fixed_objects [OF c1(2) dof FixedPatchPoint adm this] len show ?thesis by (simp add: c1)
  next
    case DynamicPatchPoint
    then have "add_dynamic_patch_to_ctx mem ?p (c1\<lparr>descs := (descs c1)(desc \<mapsto> d\<lparr>d_loc := d_loc d AND NOT 3\<rparr>)\<rparr>) = Some c2"
      using c2(1) assms(3) by (simp add: add_ebpf_patch_def c1(1,4))
    from add_dynamic_objects [OF objects_ok_mask_desc [OF c1(2) _ DynamicPatchPoint] _ this] assms(3) len
    show ?thesis by (simp add: c1)
  next
    case (OtherType x)
    then have "c2 = c1" using c2(1) assms(3) by (simp add: add_ebpf_patch_def c1(1,4))
    with c1(2) len show ?thesis by (simp add: c1)
  qed
  with c2(2) show ?thesis by (blast intro: active_patch_inv)
qed

lemma update_first_patches:
  "update_first mem p a ds = Some ds' \<Longrightarrow> map dp_patch ds' = map dp_patch ds"
  by (induction mem p a ds arbitrary: ds' rule: update_first.induct)
     (auto simp: Let_def split: if_splits)

lemma objects_ok_same_nodes:
  assumes "objects_ok c" "map dp_patch ds = map dp_patch (dpatch_list c)"
  shows "objects_ok (c\<lparr>dpatch_list := ds\<rparr>)"
proof -
  have fe: "fixed_entry_ok (c\<lparr>dpatch_list := ds\<rparr>) k q = fixed_entry_ok c k q" for k q
    by (simp add: fixed_entry_ok_def)
  have "dp_patch ` set ds = dp_patch ` set (dpatch_list c)" using arg_cong [OF assms(2), of set] by simp
  moreover have "\<forall>q \<in> dp_patch ` set (dpatch_list c). patches c q \<noteq> None"
    using assms(1) by (simp add: objects_ok_def)
  ultimately have "\<forall>q \<in> dp_patch ` set ds. patches c q \<noteq> None" by metis
  then show ?thesis using assms(1) fe by (simp add: objects_ok_def)
qed

lemma load_local_keeps_inv:
  assumes "iot_inv c" "desc_of c p = Some d" "id_admitted c d p" "load_local_patch_to_ctx mem al p c = Some c'"
  shows "iot_inv c'"
proof -
  have obj: "objects_ok c" and len: "length (dpatch_list c) \<le> MAX_DP_NUM + 1"
    using assms(1) by (simp_all add: iot_inv_def)
  show ?thesis
  proof (cases "d_type d")
    case FixedPatchPoint
    then obtain c2 where c2: "add_fixed_patch_to_ctx al p c = Some c2" "active_patch mem p c2 = Some c'"
      using assms(2,4) by (auto simp: load_local_patch_to_ctx_def bind_eq_Some_conv)
    from add_fixed_objects [OF obj assms(2) FixedPatchPoint assms(3) c2(1)] len c2(2)
    show ?thesis by (auto intro: active_patch_inv)
  next
    case DynamicPatchPoint
    then obtain c2 where c2: "active_patch mem p c2 = Some c'"
        "add_dynamic_patch_to_ctx mem p c = Some c2 \<or>
         (\<exists>ds. update_first mem p (d_loc d) (dpatch_list c) = Some ds \<and> c2 = c\<lparr>dpatch_list := ds\<rparr>)"
      using assms(2,4) by (auto simp: load_local_patch_to_ctx_def bind_eq_Some_conv split: if_splits)
    have "objects_ok c2 \<and> length (dpatch_list c2) \<le> MAX_DP_NUM + 1"
      using c2(2)
    proof (elim disjE exE conjE)
      fix ds assume u: "update_first mem p (d_loc d) (dpatch_list c) = Some ds" "c2 = c\<lparr>dpatch_list := ds\<rparr>"
      note same = update_first_patches [OF u(1)]
      have "length ds = length (dpatch_list c)" using arg_cong [OF same, of length] by simp
      with u(2) objects_ok_same_nodes [OF obj same] len show ?thesis by simp
    qed (rule add_dynamic_objects [OF obj len])
    with c2(1) show ?thesis by (blast intro: active_patch_inv)
  next
    case (OtherType x)
    with assms show ?thesis by (simp add: load_local_patch_to_ctx_def)
  qed
qed

lemma destroy_inv:
  assumes "ctx_inv c"
  shows "ctx_inv (destroy_patch_context c)"
proof -
  have p0: "patches c 0 = None" using assms by (auto simp: ctx_inv_def iot_inv_def objects_ok_def)
  have "fiexed_patches (fold (\<lambda>d. destroy_ebpf_patch (dp_patch d)) ds x) = fiexed_patches x" for ds :: "dynamic_patch list" and x
    by (induction ds arbitrary: x) (auto simp: destroy_ebpf_patch_def split: option.splits)
  then show ?thesis
    using p0 by (simp add: ctx_inv_def destroy_patch_context_def Let_def destroy_fold_patches)
qed

text \<open>Without a map no patch is installed.\<close>

lemma no_map_no_patch:
  assumes "fiexed_patches c = None"
  shows "notify_new_patch mem al desc c = None"
    and "load_local_patch_to_ctx mem al p c = Some c' \<Longrightarrow> c' = c"
proof -
  have act: "fiexed_patches x = None \<Longrightarrow> active_patch mem q x = None" for q x
    by (simp add: active_patch_def update_bits_filter_def)
  have add: "add_dynamic_patch_to_ctx mem q x = Some y \<Longrightarrow> fiexed_patches y = fiexed_patches x" for q x y
    by (auto simp: add_dynamic_patch_to_ctx_def Let_def split: option.splits)
  have set: "ebpf_patch_setup al desc c = Some (q, x) \<Longrightarrow> fiexed_patches x = None" for q x
    using assms by (auto simp: ebpf_patch_setup_def Let_def split_beta split: option.splits)
  show "notify_new_patch mem al desc c = None"
    using set act by (auto simp: notify_new_patch_def add_ebpf_patch_def add_fixed_patch_to_ctx_def
        split: option.splits patch_type.splits dest!: add)
  show "c' = c" if "load_local_patch_to_ctx mem al p c = Some c'"
    using that assms act by (auto simp: load_local_patch_to_ctx_def add_fixed_patch_to_ctx_def bind_eq_Some_conv
        split: option.splits patch_type.splits if_splits dest: add)
qed

lemma ctx_run_inv: "ctx_run c \<Longrightarrow> ctx_inv c"
proof (induction rule: ctx_run.induct)
  case (boot c)
  then show ?case by (simp add: ctx_inv_def)
next
  case (start c al c')
  have "patches c 0 = None" using start.IH by (auto simp: ctx_inv_def iot_inv_def objects_ok_def)
  from init_ok [OF _ this, of al] start show ?case
    by (cases "ctx_init c") (auto simp: ctx_inv_def init_patch_sys_def)
next
  case (receive c a d)
  then show ?case by (auto simp: ctx_inv_def dest: iot_inv_add_desc)
next
  case (install c al desc d mem c')
  then show ?case by (auto simp: ctx_inv_def no_map_no_patch(1) dest: notify_keeps_inv)
next
  case (load_local c p d mem al c')
  then show ?case by (auto simp: ctx_inv_def dest: load_local_keeps_inv no_map_no_patch(2))
next
  case (release c)
  from release.IH show ?case by (rule destroy_inv)
qed


lemma init_kept:
  assumes "notify_new_patch mem al desc c = Some c'"
  shows "ctx_init c' = ctx_init c"
proof -
  have set: "ebpf_patch_setup al desc c = Some (q, x) \<Longrightarrow> ctx_init x = ctx_init c" for q x
    by (auto simp: ebpf_patch_setup_def Let_def split_beta split: option.splits)
  have dyn: "add_dynamic_patch_to_ctx mem q x = Some y \<Longrightarrow> ctx_init y = ctx_init x" for q x y
    by (auto simp: add_dynamic_patch_to_ctx_def Let_def split: option.splits)
  have addf: "add_fixed_patch_to_ctx al q x = Some y \<Longrightarrow> ctx_init y = ctx_init x" for q x y
    by (auto simp: add_fixed_patch_to_ctx_def split: option.splits)
  have upd: "update_bits_filter x = Some y \<Longrightarrow> ctx_init y = ctx_init x" for x y
    by (auto simp: update_bits_filter_def split: option.splits)
  have act: "active_patch mem q x = Some y \<Longrightarrow> ctx_init y = ctx_init x" for q x y
    by (auto simp: active_patch_def dest: upd split: option.splits patch_type.splits)
  show ?thesis
    using assms by (auto simp: notify_new_patch_def add_ebpf_patch_def
        split: option.splits patch_type.splits dest!: set dyn addf act)
qed


end
