(* ===== verification/Profiling.thy ===== *)
theory Profiling
  imports Fpb
begin

text \<open>
  The cycle profiler of \<open>hotpatch/src/profiling.c\<close> as built for a Cortex-M4. The cycle counter runs
  on its own, so every read of it is an argument \<open>now\<close>; writes go to \<open>dwt_cyccnt\<close>. \<open>None\<close> is an
  index outside one of the arrays of \<open>PROFILER_EVENTS_MAX\<close> entries.
\<close>

definition PROFILER_EVENTS_MAX :: nat where "PROFILER_EVENTS_MAX = 12"
definition EV0 :: nat where "EV0 = 0"
definition EV1 :: nat where "EV1 = 1"
definition MSK_DEMCR_TRCENA :: u32 where "MSK_DEMCR_TRCENA = 0x1000000"
definition MSK_DWT_CYCCNTENA :: u32 where "MSK_DWT_CYCCNTENA = 1"

text \<open>The board the runtime is built for, which fixes the clock. It is kept as \<open>p_board\<close> beside the profiler's variables;
  no operation changes it.\<close>

datatype board = DEV_NRF52840 | DEV_STM32L475 | DEV_STM32F429 | OtherBoard

fun SYSCoreClock :: "board \<Rightarrow> nat" where
  "SYSCoreClock DEV_NRF52840 = 64000000"
| "SYSCoreClock DEV_STM32L475 = 80000000"
| "SYSCoreClock DEV_STM32F429 = 180000000"
| "SYSCoreClock OtherBoard = 100000000"

record profiler =
  start_tick :: "u32 list"
  end_tick :: "u32 list"
  event_name :: "string option list"
  event_count :: nat
  profiler_is_init :: bool
  ticks_per_us :: nat
  dwt_ctrl :: u32
  dwt_cyccnt :: u32
  p_board :: board

record step_profiler =
  sp_ticks :: "u32 list"
  sp_names :: "string option list"
  sp_cid :: nat

definition dwt_init :: "hw \<times> profiler \<Rightarrow> hw \<times> profiler" where
  "dwt_init = (\<lambda>(h, p).
     (h\<lparr>demcr := demcr h OR MSK_DEMCR_TRCENA\<rparr>,
      p\<lparr>ticks_per_us := SYSCoreClock (p_board p) div 1000000, dwt_cyccnt := 0,
        dwt_ctrl := dwt_ctrl p OR MSK_DWT_CYCCNTENA\<rparr>))"

definition dwt_deinit :: "hw \<times> profiler \<Rightarrow> hw \<times> profiler" where
  "dwt_deinit = (\<lambda>(h, p).
     (h\<lparr>demcr := demcr h AND NOT MSK_DEMCR_TRCENA\<rparr>,
      p\<lparr>dwt_ctrl := dwt_ctrl p AND NOT MSK_DWT_CYCCNTENA, dwt_cyccnt := 0\<rparr>))"

text \<open>The counter is returned as \<open>int\<close>.\<close>

definition get_start_tick :: "u32 \<Rightarrow> hw \<times> profiler \<Rightarrow> int \<times> hw \<times> profiler" where
  "get_start_tick now s = (sint now, dwt_init s)"

definition get_cur_tick :: "u32 \<Rightarrow> int" where
  "get_cur_tick now = sint now"

definition setup_profiler :: "hw \<times> profiler \<Rightarrow> hw \<times> profiler" where
  "setup_profiler s =
     (let (h, p) = dwt_init (fst s, (snd s)\<lparr>event_count := 0\<rparr>)
      in (h, p\<lparr>event_name := (event_name p)[EV0 := Some ''EV0'', EV1 := Some ''EV1'']\<rparr>))"

definition profile_add_event :: "string \<Rightarrow> hw \<times> profiler \<Rightarrow> nat \<times> hw \<times> profiler" where
  "profile_add_event event s0 =
     (let (h, p0) = (if \<not> profiler_is_init (snd s0) then setup_profiler s0 else s0);
          p = (if event_count p0 \<ge> PROFILER_EVENTS_MAX then p0\<lparr>event_count := 0\<rparr> else p0);
          i = event_count p
      in (i, h, p\<lparr>event_name := (event_name p)[i := Some event],
                  start_tick := (start_tick p)[i := 0], end_tick := (end_tick p)[i := 0],
                  event_count := event_count p + 1\<rparr>))"

definition profile_start :: "u32 \<Rightarrow> nat \<Rightarrow> profiler \<Rightarrow> profiler option" where
  "profile_start now eid p =
     (if eid < PROFILER_EVENTS_MAX then Some (p\<lparr>start_tick := (start_tick p)[eid := now]\<rparr>) else None)"

definition profile_end :: "u32 \<Rightarrow> nat \<Rightarrow> profiler \<Rightarrow> (u32 \<times> profiler) option" where
  "profile_end now eid p =
     (if eid < PROFILER_EVENTS_MAX
      then let p' = p\<lparr>end_tick := (end_tick p)[eid := now]\<rparr>
           in Some (end_tick p' ! eid - start_tick p' ! eid, p')
      else None)"

definition profile_exit :: "hw \<times> profiler \<Rightarrow> hw \<times> profiler" where
  "profile_exit s =
     (let (h, p) = dwt_deinit (fst s, (snd s)\<lparr>event_count := 0\<rparr>)
      in (h, p\<lparr>profiler_is_init := False\<rparr>))"

subsection \<open>Profiling several steps\<close>

definition cleared_steps :: step_profiler where
  "cleared_steps = \<lparr>sp_ticks = replicate PROFILER_EVENTS_MAX 0,
     sp_names = replicate PROFILER_EVENTS_MAX None, sp_cid = 0\<rparr>"

definition init_multiple_step_profiling :: "u32 \<Rightarrow> hw \<times> profiler \<Rightarrow> step_profiler \<times> hw \<times> profiler" where
  "init_multiple_step_profiling now s =
     (cleared_steps\<lparr>sp_ticks := (sp_ticks cleared_steps)[0 := now],
        sp_names := (sp_names cleared_steps)[0 := Some ''init'']\<rparr>, dwt_init s)"

definition add_mulprf_step :: "u32 \<Rightarrow> string \<Rightarrow> step_profiler \<Rightarrow> step_profiler" where
  "add_mulprf_step now step sp0 =
     (let sp = sp0\<lparr>sp_cid := sp_cid sp0 + 1\<rparr>
      in if sp_cid sp \<ge> PROFILER_EVENTS_MAX then sp
         else sp\<lparr>sp_ticks := (sp_ticks sp)[sp_cid sp := now],
                 sp_names := (sp_names sp)[sp_cid sp := Some step]\<rparr>)"

text \<open>What is printed: the name and the cycles of the steps up to \<open>cid\<close>, each read from the arrays.\<close>

definition show_mulprf_steps_result ::
    "step_profiler \<Rightarrow> hw \<times> profiler \<Rightarrow> ((string option \<times> u32) list \<times> hw \<times> profiler) option" where
  "show_mulprf_steps_result sp s =
     (if sp_cid sp < PROFILER_EVENTS_MAX
      then Some (map (\<lambda>i. (sp_names sp ! i, sp_ticks sp ! i)) [0..<Suc (sp_cid sp)], dwt_deinit s)
      else None)"

definition clear_mulprf_step_profiling :: "hw \<times> profiler \<Rightarrow> step_profiler \<times> hw \<times> profiler" where
  "clear_mulprf_step_profiling s = (cleared_steps, dwt_deinit s)"

subsection \<open>What the profiler measures\<close>

definition prof_ok :: "profiler \<Rightarrow> bool" where
  "prof_ok p \<longleftrightarrow> length (start_tick p) = PROFILER_EVENTS_MAX \<and> length (end_tick p) = PROFILER_EVENTS_MAX"

lemma profile_start_ok:
  "prof_ok p \<Longrightarrow> eid < PROFILER_EVENTS_MAX \<Longrightarrow> \<exists>p'. profile_start t eid p = Some p' \<and> prof_ok p'"
  by (simp add: profile_start_def prof_ok_def)

lemma profile_end_ok:
  "prof_ok p \<Longrightarrow> eid < PROFILER_EVENTS_MAX \<Longrightarrow> \<exists>d p'. profile_end t eid p = Some (d, p') \<and> prof_ok p'"
  by (simp add: profile_end_def prof_ok_def Let_def)

lemma wrapped_difference: "n < 2 ^ 32 \<Longrightarrow> unat (word_of_nat (t + n) - word_of_nat t :: u32) = n"
  by (simp add: unsigned_of_nat take_bit_nat_eq_self)

text \<open>An event is measured exactly even when the 32-bit cycle counter wraps between its start and
  its end, as long as it lasts less than one period of the counter.\<close>

theorem profile_measures:
  assumes "prof_ok p" and "eid < PROFILER_EVENTS_MAX" and "n < 2 ^ 32"
  shows "\<exists>p1 d p2. profile_start (word_of_nat t) eid p = Some p1 \<and>
    profile_end (word_of_nat (t + n)) eid p1 = Some (d, p2) \<and> unat d = n \<and> prof_ok p2"
  using assms wrapped_difference [of n t]
  by (auto simp: profile_start_def profile_end_def prof_ok_def Let_def)

definition sample_prof :: profiler where
  "sample_prof = \<lparr>start_tick = replicate 12 0, end_tick = replicate 12 0, event_name = replicate 12 None,
     event_count = 0, profiler_is_init = False, ticks_per_us = 1000, dwt_ctrl = 0, dwt_cyccnt = 0, p_board = DEV_STM32F429\<rparr>"

lemma sample_prof_ok: "prof_ok sample_prof"
  by (simp add: prof_ok_def sample_prof_def PROFILER_EVENTS_MAX_def)

theorem profile_measures_witness:
  "\<exists>p1 d p2. profile_start (word_of_nat 4294967290) EV1 sample_prof = Some p1 \<and>
    profile_end (word_of_nat (4294967290 + 100)) EV1 p1 = Some (d, p2) \<and> unat d = 100"
  using profile_measures [OF sample_prof_ok, of EV1 100 4294967290]
  by (simp add: EV1_def PROFILER_EVENTS_MAX_def) blast

text \<open>Nothing sets \<open>profiler_is_init\<close>, so every event that is added resets the counter and gets
  the identifier 0: events cannot be told apart.\<close>

theorem profile_add_event_zero:
  assumes "\<not> profiler_is_init p"
  shows "\<exists>h' p'. profile_add_event ev (h, p) = (0, h', p') \<and> \<not> profiler_is_init p' \<and> event_count p' = 1"
  using assms by (simp add: profile_add_event_def setup_profiler_def dwt_init_def Let_def PROFILER_EVENTS_MAX_def)

theorem profile_add_event_zero_witness:
  "\<exists>h' p'. profile_add_event ''HERA'' (sample_hw, sample_prof) = (0, h', p') \<and> \<not> profiler_is_init p'"
  using profile_add_event_zero [of sample_prof "''HERA''" sample_hw] by (auto simp: sample_prof_def)

fun add_steps :: "(u32 \<times> string) list \<Rightarrow> step_profiler \<Rightarrow> step_profiler" where
  "add_steps [] sp = sp"
| "add_steps ((t, n) # xs) sp = add_steps xs (add_mulprf_step t n sp)"

lemma add_steps_cid: "sp_cid (add_steps xs sp) = sp_cid sp + length xs"
  by (induction xs sp rule: add_steps.induct) (simp_all add: add_mulprf_step_def Let_def)

text \<open>The twelfth step added after the initialisation is refused, but \<open>cid\<close> has moved on: the
  report reads behind the arrays.\<close>

lemma show_steps_in_bounds:
  "show_mulprf_steps_result (add_steps xs (fst (init_multiple_step_profiling t s))) s' \<noteq> None \<longleftrightarrow>
   length xs < PROFILER_EVENTS_MAX"
  by (simp add: show_mulprf_steps_result_def add_steps_cid init_multiple_step_profiling_def cleared_steps_def)

lemma add_steps_last:
  assumes "sp_cid sp + 1 < PROFILER_EVENTS_MAX" "length (sp_ticks sp) = PROFILER_EVENTS_MAX"
  shows "sp_ticks (add_mulprf_step t n sp) ! sp_cid (add_mulprf_step t n sp) = t"
  using assms by (simp add: add_mulprf_step_def Let_def)

end
