(* ===== verification/Debug_Monitor.thy ===== *)
theory Debug_Monitor
  imports Patch_Filters Iotpatch_Props Profiling
begin

text \<open>
  The exception handlers of \<open>hotpatch/src/cortex-m4_fbp.c\<close>: the debug monitor, which runs a patch at a
  breakpoint and steps over the patched instruction, and the trampoline of the flash-patch mode
  with its callback.

  The saved registers lie in memory at the address \<open>ctx\<close>; a filter gets this address and may write
  there. The state is the patch context, the memory and the profiler; what a handler reads from
  the outside is an \<open>mon_env\<close>: the environment of the filter run, two readings of the cycle
  counter, and how a fault status register responds to a store.
\<close>

record mon_env =
  me_run :: run_env
  me_t0 :: u32
  me_t1 :: u32
  me_w1c :: "u32 \<Rightarrow> u32 \<Rightarrow> u32"

record monitor =
  mo_ctx :: patch_context
  mo_world :: world
  mo_prof :: profiler

abbreviation mo_hw :: "monitor \<Rightarrow> hw" where "mo_hw s \<equiv> c_hw (mo_ctx s)"

definition with_hw :: "(hw \<Rightarrow> hw) \<Rightarrow> monitor \<Rightarrow> monitor" where
  "with_hw f s = s\<lparr>mo_ctx := (mo_ctx s)\<lparr>c_hw := f (mo_hw s)\<rparr>\<rparr>"

subsection \<open>The saved registers\<close>

definition frame_set :: "memory \<Rightarrow> u32 \<Rightarrow> frame_field \<Rightarrow> u32 \<Rightarrow> memory option" where
  "frame_set m fr k v = mem_store m (fr + field_offset k) 4 (ucast v)"

definition ctx_get :: "monitor \<Rightarrow> u32 \<Rightarrow> frame_field \<Rightarrow> u32 option" where
  "ctx_get s ctx k = frame_get (w_mem (mo_world s)) ctx k"

definition ctx_set :: "u32 \<Rightarrow> frame_field \<Rightarrow> u32 \<Rightarrow> monitor \<Rightarrow> monitor option" where
  "ctx_set ctx k v s =
     map_option (\<lambda>m. s\<lparr>mo_world := (mo_world s)\<lparr>w_mem := m\<rparr>\<rparr>) (frame_set (w_mem (mo_world s)) ctx k v)"

text \<open>\<open>sizeof(ebpf_args_frame)\<close>\<close>

definition args_frame_size :: u32 where "args_frame_size = 16"

subsection \<open>Flash-patch mode\<close>

text \<open>The search for the next instruction on a word boundary; it has no bound, and a program
  without one keeps it running.\<close>

partial_function (option) next_aligned :: "memory \<Rightarrow> u32 \<Rightarrow> u32 option" where
  "next_aligned m next_inst =
     (if next_inst AND 3 \<noteq> 0
      then (case calc_bpkt_pc m next_inst of None \<Rightarrow> None | Some n \<Rightarrow> next_aligned m n)
      else Some next_inst)"

definition fpb_disable_cur_inst :: "memory \<Rightarrow> nat \<Rightarrow> hw \<Rightarrow> hw option" where
  "fpb_disable_cur_inst m bpkt_idx h =
     (let cur_addr = h_comp h bpkt_idx in do {
        next0 \<leftarrow> calc_bpkt_pc m cur_addr;
        next_inst \<leftarrow> next_aligned m next0;
        let h1 = set_comp FPB_CB_REG (next_inst OR 1) h;
        let h2 = set_comp bpkt_idx (h_comp h1 bpkt_idx AND NOT 1) h1;
        let trampoline_addr = ((h_tramp h2 5 AND NOT 1) + 3) AND NOT 3;
        let jump_inst = calc_branch_instr next_inst trampoline_addr;
        Some (set_patch_word FPB_CB_REG (little_endian_16_bit jump_inst) h2)})"

definition fpb_enable_callback :: "hw \<Rightarrow> u32 \<times> hw" where
  "fpb_enable_callback h =
     (let cur_inst = h_comp h FPB_CB_REG;
          h1 = fold (\<lambda>i h. if h_comp h i \<noteq> 0 then set_comp i (h_comp h i OR 1) h else h) [0..<FPB_CB_REG] h;
          h2 = set_comp FPB_CB_REG (h_comp h1 FPB_CB_REG AND NOT 1) h1
      in (cur_inst, h2))"

text \<open>\<open>profile_start\<close>, the filter, \<open>profile_end\<close>: the part both handlers share.\<close>

definition run_filter_at :: "mon_env \<Rightarrow> u32 \<Rightarrow> u32 \<Rightarrow> monitor \<Rightarrow> (u64 \<times> monitor) option" where
  "run_filter_at e p ctx s = do {
     pt \<leftarrow> patches (mo_ctx s) p;
     p1 \<leftarrow> profile_start (me_t0 e) EV1 (mo_prof s);
     (ret, w) \<leftarrow> run_ebpf_filter (me_run e) (mo_ctx s) pt ctx args_frame_size (mo_world s);
     (_, p2) \<leftarrow> profile_end (me_t1 e) EV1 p1;
     Some (ret, s\<lparr>mo_world := w, mo_prof := p2\<rparr>)}"

definition op_of :: "u64 \<Rightarrow> u64" where "op_of ret = drop_bit 32 ret"
definition code_of :: "u64 \<Rightarrow> u32" where "code_of ret = ucast (ret AND 0x00000000ffffffff)"

definition leave_fpb_bpkt :: "mon_env \<Rightarrow> u32 \<Rightarrow> nat \<Rightarrow> monitor \<Rightarrow> (u32 \<times> monitor) option" where
  "leave_fpb_bpkt e ctx bpkt_idx s =
     (let inst_addr = h_comp (mo_hw s) bpkt_idx AND NOT 1 in do {
        p \<leftarrow> get_dynamic_patch_by_bpkt (mo_ctx s) inst_addr;
        if p = 0 then map_option (\<lambda>lr. (lr, s)) (ctx_get s ctx F_lr)
        else do {
          (ret, s1) \<leftarrow> run_filter_at e p ctx s;
          if op_of ret = FILTER_PASS then do {
            h \<leftarrow> fpb_disable_cur_inst (w_mem (mo_world s1)) bpkt_idx (mo_hw s1);
            Some (h_comp h bpkt_idx, with_hw (\<lambda>_. h) s1)}
          else if op_of ret = FILTER_DROP then do {
            s2 \<leftarrow> ctx_set ctx F_r0 (code_of ret) s1;
            map_option (\<lambda>lr. (lr, s2)) (ctx_get s2 ctx F_lr)}
          else if op_of ret = FILTER_REDIRECT then Some (code_of ret, s1)
          else map_option (\<lambda>lr. (lr, s1)) (ctx_get s1 ctx F_lr)}})"

subsection \<open>Debug monitor\<close>

definition run_patch_here :: "mon_env \<Rightarrow> u32 \<Rightarrow> monitor \<Rightarrow> (bool \<times> monitor) option" where
  "run_patch_here e ctx s = do {
     pc \<leftarrow> ctx_get s ctx F_pc;
     p \<leftarrow> get_dynamic_patch_by_bpkt (mo_ctx s) pc;
     if p = 0 then Some (False, s)
     else do {
       (ret, s1) \<leftarrow> run_filter_at e p ctx s;
       if op_of ret = FILTER_DROP then do {
         s2 \<leftarrow> ctx_set ctx F_r0 (code_of ret) s1;
         lr \<leftarrow> ctx_get s2 ctx F_lr;
         s3 \<leftarrow> ctx_set ctx F_pc lr s2;
         Some (True, s3)}
       else if op_of ret = FILTER_REDIRECT then do {
         s2 \<leftarrow> ctx_set ctx F_pc (code_of ret) s1;
         Some (True, s2)}
       else Some (False, s1)}}"

definition demcr_single_step_mask :: u32 where "demcr_single_step_mask = 0x40000"
definition dfsr_bkpt_evt_bitmask :: u32 where "dfsr_bkpt_evt_bitmask = 2"
definition dfsr_halt_evt_bitmask :: u32 where "dfsr_halt_evt_bitmask = 1"

lemmas mon_masks = demcr_single_step_mask_def dfsr_bkpt_evt_bitmask_def dfsr_halt_evt_bitmask_def

definition leave_debug_monitor :: "mon_env \<Rightarrow> u32 \<Rightarrow> monitor \<Rightarrow> monitor option" where
  "leave_debug_monitor e ctx s =
     (let d = dfsr (mo_hw s);
          is_bkpt_dbg_evt = (d AND dfsr_bkpt_evt_bitmask \<noteq> 0);
          is_halt_dbg_evt = (d AND dfsr_halt_evt_bitmask \<noteq> 0)
      in if is_bkpt_dbg_evt then do {
           (skip, s1) \<leftarrow> run_patch_here e ctx s;
           if skip then Some s1
           else Some (with_hw (\<lambda>h. fpb_disable
                  (h\<lparr>demcr := demcr h OR demcr_single_step_mask,
                     dfsr := me_w1c e (dfsr h) dfsr_bkpt_evt_bitmask\<rparr>)) s1)}
         else if is_halt_dbg_evt then
           Some (with_hw (\<lambda>h. fpb_enable
                  (h\<lparr>demcr := demcr h AND NOT demcr_single_step_mask,
                     dfsr := me_w1c e (dfsr h) dfsr_halt_evt_bitmask\<rparr>)) s)
         else Some s)"

end
