(* ===== verification/Monitor_Props.thy ===== *)
theory Monitor_Props
  imports Debug_Monitor
begin

text \<open>
  What the handlers guarantee: the saved registers a patch decides on, the single step over a
  patched instruction as a state machine with its invariant, and the round trip of the
  flash-patch callback.
\<close>

subsection \<open>Reading and writing the saved registers\<close>

fun field_index :: "frame_field \<Rightarrow> nat" where
  "field_index F_r0 = 0" | "field_index F_r1 = 1" | "field_index F_r2 = 2" | "field_index F_r3 = 3"
| "field_index F_r12 = 4" | "field_index F_lr = 5" | "field_index F_pc = 6" | "field_index F_xpsr = 7"

lemma field_index_lt: "field_index k < 8"
  by (cases k) simp_all

lemma field_index_inj: "field_index k = field_index k' \<longleftrightarrow> k = k'"
  by (cases k; cases k') simp_all

lemma field_offset_index: "field_offset k = word_of_nat (4 * field_index k)"
  by (cases k) simp_all

lemma offset_neq:
  fixes fr :: u32
  assumes "n \<noteq> n'" "n < 4294967296" "n' < 4294967296"
  shows "fr + word_of_nat n \<noteq> fr + word_of_nat n'"
  using assms by (simp add: word_of_nat_eq_iff take_bit_nat_eq_self)

lemma load_bytes_cong:
  "(\<And>j. j < n \<Longrightarrow> m' (a + word_of_nat j) = m (a + word_of_nat j)) \<Longrightarrow> load_bytes m' a n = load_bytes m a n"
proof (induction n arbitrary: a)
  case (Suc n)
  have "m' a = m a" using Suc.prems [of 0] by simp
  moreover have "load_bytes m' (a + 1) n = load_bytes m (a + 1) n"
    using Suc.prems [of "Suc j" for j] by (intro Suc.IH) (auto simp: ac_simps)
  ultimately show ?case by (simp only: load_bytes.simps)
qed simp

lemma store_bytes_mapped:
  "load_bytes m a (length bs) \<noteq> None \<Longrightarrow> \<exists>m'. store_bytes m a bs = Some m'"
proof (induction bs arbitrary: m a)
  case (Cons b bs)
  then obtain x where x: "m a = Some x" "load_bytes m (a + 1) (length bs) \<noteq> None"
    by (auto split: option.splits)
  have keep: "load_bytes (m(a \<mapsto> b)) c n = None \<Longrightarrow> load_bytes m c n = None" for c n
    using x(1) by (induction n arbitrary: c) (auto split: option.splits if_splits)
  from x(2) have "load_bytes (m(a \<mapsto> b)) (a + 1) (length bs) \<noteq> None"
    by (rule contrapos_nn) (rule keep)
  from Cons.IH [OF this] show ?case by (simp only: store_bytes.simps x(1) option.case)
qed simp

text \<open>Words at multiples of four from one base do not overlap.\<close>

definition slot :: "u32 \<Rightarrow> nat \<Rightarrow> u32" where "slot base i = base + word_of_nat (4 * i)"

lemma slot_load_store:
  assumes "mem_store m (slot fr i) 4 (ucast v) = Some m'" "i < 1000" "j < 1000"
  shows "load32 m' (slot fr j) = (if j = i then Some v else load32 m (slot fr j))"
proof (cases "j = i")
  case True
  have "take_bit 32 (ucast v :: u64) = ucast v" by (auto simp: bit_eq_iff bit_simps dest: bit_imp_le_length)
  then show ?thesis using mem_load_store [OF assms(1)] True by (simp add: load32_def)
next
  case False
  have "m' (slot fr j + word_of_nat k) = m (slot fr j + word_of_nat k)" if "k < 4" for k
  proof (rule store_bytes_frame [OF assms(1) [unfolded mem_store_def]], intro allI impI)
    fix l assume l: "l < length (le_bytes 4 (ucast v))"
    have "fr + word_of_nat (4 * j + k) \<noteq> fr + word_of_nat (4 * i + l)"
    proof (rule offset_neq)
      show "4 * j + k \<noteq> 4 * i + l" using that l False by (auto simp: le_bytes_def)
    qed (use assms(2,3) l that in \<open>simp_all add: le_bytes_def\<close>)
    then show "slot fr j + word_of_nat k \<noteq> slot fr i + word_of_nat l"
      by (simp add: slot_def add.assoc)
  qed
  then have "load_bytes m' (slot fr j) 4 = load_bytes m (slot fr j) 4"
    by (rule load_bytes_cong)
  with False show ?thesis by (simp add: load32_def mem_load_def del: load_bytes_numeral)
qed

lemma frame_get_slot: "frame_get m fr k = load32 m (slot fr (field_index k))"
  by (simp add: frame_get_def load32_def slot_def field_offset_index)

lemma frame_get_set:
  assumes "frame_set m fr k v = Some m'"
  shows "frame_get m' fr k' = (if k' = k then Some v else frame_get m fr k')"
  using slot_load_store [of m fr "field_index k" v m' "field_index k'"] assms
    field_index_lt [of k] field_index_lt [of k'] field_index_inj [of k' k]
  by (simp add: frame_get_slot frame_set_def slot_def field_offset_index)

lemma frame_set_mapped: "frame_get m fr k \<noteq> None \<Longrightarrow> \<exists>m'. frame_set m fr k v = Some m'"
  using store_bytes_mapped [of m "fr + field_offset k" "le_bytes 4 (ucast v)"]
  by (auto simp: frame_get_def mem_load_def frame_set_def mem_store_def le_bytes_def simp del: load_bytes_numeral)

lemma ctx_get_set:
  "ctx_set ctx k v s = Some s' \<Longrightarrow> ctx_get s' ctx k' = (if k' = k then Some v else ctx_get s ctx k')"
  by (auto simp: ctx_set_def ctx_get_def frame_get_set)

lemma ctx_set_frame: "ctx_set ctx k v s = Some s' \<Longrightarrow> mo_ctx s' = mo_ctx s \<and> mo_prof s' = mo_prof s"
  by (auto simp: ctx_set_def)

lemma ctx_set_mapped: "ctx_get s ctx k \<noteq> None \<Longrightarrow> \<exists>s'. ctx_set ctx k v s = Some s'"
  using frame_set_mapped [of "w_mem (mo_world s)" ctx k v] by (auto simp: ctx_get_def ctx_set_def)

lemma run_filter_at_ctx: "run_filter_at e p ctx s = Some (ret, s') \<Longrightarrow> mo_ctx s' = mo_ctx s"
  by (auto simp: run_filter_at_def split: Option.bind_splits)

lemma run_patch_here_ctx: "run_patch_here e ctx s = Some (b, s') \<Longrightarrow> mo_ctx s' = mo_ctx s"
  by (auto simp: run_patch_here_def dest!: ctx_set_frame run_filter_at_ctx split: Option.bind_splits if_splits)

text \<open>The filters and the handlers agree on how a result packs an operation and a code.\<close>

lemma op_code_set_return32: "op_of (set_return32 op c) = ucast op" "code_of (set_return32 op c) = c"
proof -
  have "push_bit 32 (ucast op) + ucast c = push_bit 32 (ucast op) OR (ucast c :: u64)"
    by (rule disjunctive_add_eq_or) (auto simp: bit_eq_iff bit_simps dest: bit_imp_le_length)
  then have e: "set_return32 op c = push_bit 32 (ucast op) OR ucast c"
    by (simp add: set_return32_def set_return_def)
  show "op_of (set_return32 op c) = ucast op"
    by (auto simp: op_of_def e bit_eq_iff bit_simps dest: bit_imp_le_length)
  have m: "(0xffffffff :: u64) = mask 32" by (simp add: mask_eq_exp_minus_1)
  have "code_of r = ucast r" for r
    unfolding code_of_def m by (auto simp: bit_eq_iff bit_simps simp del: mask_numeral)
  then show "code_of (set_return32 op c) = c"
    by (auto simp: e bit_eq_iff bit_simps)
qed

subsection \<open>Single-stepping over a patched instruction\<close>

definition stepping :: "hw \<Rightarrow> bool" where "stepping h \<longleftrightarrow> bit (demcr h) 18"
definition armed :: "hw \<Rightarrow> bool" where "armed h \<longleftrightarrow> bit (h_ctrl h) 0"
definition bkpt_flag :: "hw \<Rightarrow> bool" where "bkpt_flag h \<longleftrightarrow> bit (dfsr h) 1"

lemmas mon_flags = stepping_def armed_def bkpt_flag_def

text \<open>The processor records the cause in DFSR and enters the handler.\<close>

definition raise_dbg :: "u32 \<Rightarrow> monitor \<Rightarrow> monitor" where
  "raise_dbg cause s = with_hw (\<lambda>h. h\<lparr>dfsr := dfsr h OR cause\<rparr>) s"

text \<open>The steps of the machine: a breakpoint needs an enabled unit, a step event needs the step bit;
  in between, code may run, memory may change and patches may be installed, as long as the three
  registers of the monitor keep their values.\<close>

inductive mon_step :: "(u32 \<Rightarrow> u32 \<Rightarrow> u32) \<Rightarrow> monitor \<Rightarrow> monitor \<Rightarrow> bool" for w1c where
  breakpoint: "armed (mo_hw s) \<Longrightarrow> me_w1c e = w1c \<Longrightarrow>
    leave_debug_monitor e ctx (raise_dbg dfsr_bkpt_evt_bitmask s) = Some s' \<Longrightarrow> mon_step w1c s s'"
| stepped: "stepping (mo_hw s) \<Longrightarrow> me_w1c e = w1c \<Longrightarrow>
    leave_debug_monitor e ctx (raise_dbg dfsr_halt_evt_bitmask s) = Some s' \<Longrightarrow> mon_step w1c s s'"
| other_code: "h_ctrl (mo_hw s') = h_ctrl (mo_hw s) \<Longrightarrow> demcr (mo_hw s') = demcr (mo_hw s) \<Longrightarrow>
    dfsr (mo_hw s') = dfsr (mo_hw s) \<Longrightarrow> mon_step w1c s s'"

text \<open>A store to a fault status register clears the bits it writes as one.\<close>

definition write_one_clears :: "(u32 \<Rightarrow> u32 \<Rightarrow> u32) \<Rightarrow> bool" where
  "write_one_clears w1c \<longleftrightarrow> (\<forall>old v. w1c old v = old AND NOT v)"

text \<open>The unit is off exactly during a step, and then no breakpoint is pending.\<close>

definition mon_inv :: "hw \<Rightarrow> bool" where
  "mon_inv h \<longleftrightarrow> (stepping h \<longleftrightarrow> \<not> armed h) \<and> (stepping h \<longrightarrow> \<not> bkpt_flag h)"

lemma mask_bits [simp]:
  "x AND dfsr_bkpt_evt_bitmask \<noteq> 0 \<longleftrightarrow> bit x 1" "x AND dfsr_halt_evt_bitmask \<noteq> 0 \<longleftrightarrow> bit x 0"
  using and_exp_eq_0_iff_not_bit [of x 1] and_exp_eq_0_iff_not_bit [of x 0] by (simp_all add: mon_masks)

lemma with_hw_hw [simp]: "mo_hw (with_hw f s) = f (mo_hw s)" by (simp add: with_hw_def)

lemma with_hw_rest [simp]:
  "mo_world (with_hw f s) = mo_world s" "mo_prof (with_hw f s) = mo_prof s"
  "patches (mo_ctx (with_hw f s)) = patches (mo_ctx s)"
  by (simp_all add: with_hw_def)

lemma bkpt_mask_bits: "bit dfsr_bkpt_evt_bitmask n = (n = 1)" "bit dfsr_halt_evt_bitmask n = (n = 0)"
    "bit demcr_single_step_mask n = (n = 18)"
proof -
  have p: "bit (2 ^ k :: u32) n = (n = k)" if "k < 32" for k
    using that by (auto simp: bit_exp_iff)
  show "bit dfsr_bkpt_evt_bitmask n = (n = 1)" "bit dfsr_halt_evt_bitmask n = (n = 0)"
    "bit demcr_single_step_mask n = (n = 18)"
    using p [of 1] p [of 0] p [of 18] by (simp_all add: mon_masks del: bit_numeral_word_iff)
qed

text \<open>The handler on each cause.\<close>

lemma monitor_bkpt_cases:
  assumes "leave_debug_monitor e ctx s = Some s'" "bkpt_flag (mo_hw s)" "write_one_clears (me_w1c e)"
  obtains (skip) s1 where "run_patch_here e ctx s = Some (True, s1)" "s' = s1" "mo_hw s' = mo_hw s"
  | (step) s1 where "run_patch_here e ctx s = Some (False, s1)" "mo_world s' = mo_world s1"
      "stepping (mo_hw s')" "\<not> armed (mo_hw s')" "\<not> bkpt_flag (mo_hw s')"
      "h_comp (mo_hw s') = h_comp (mo_hw s)"
proof -
  obtain b s1 where r: "run_patch_here e ctx s = Some (b, s1)" "mo_ctx s1 = mo_ctx s"
    using assms(1,2) run_patch_here_ctx
    by (fastforce simp: leave_debug_monitor_def bkpt_flag_def Let_def split: Option.bind_splits)
  show ?thesis
  proof (cases b)
    case True
    then show ?thesis using r assms(1,2) skip by (simp add: leave_debug_monitor_def bkpt_flag_def Let_def)
  next
    case False
    then show ?thesis using r assms step [of s1]
      by (auto simp: leave_debug_monitor_def mon_flags Let_def fpb_disable_def
        write_one_clears_def bkpt_mask_bits bit_simps enable_bits [simplified])
  qed
qed

lemma monitor_halt:
  assumes "\<not> bkpt_flag (mo_hw s)" "bit (dfsr (mo_hw s)) 0"
  shows "\<exists>s'. leave_debug_monitor e ctx s = Some s' \<and> armed (mo_hw s') \<and> \<not> stepping (mo_hw s') \<and>
    h_comp (mo_hw s') = h_comp (mo_hw s) \<and> mo_world s' = mo_world s \<and>
    patches (mo_ctx s') = patches (mo_ctx s)"
  using assms by (simp add: leave_debug_monitor_def mon_flags Let_def fpb_enable_def bkpt_mask_bits
    bit_simps enable_bits [simplified])

lemma mon_step_inv: "mon_step w1c s s' \<Longrightarrow> write_one_clears w1c \<Longrightarrow> mon_inv (mo_hw s) \<Longrightarrow> mon_inv (mo_hw s')"
proof (induction rule: mon_step.induct)
  case (breakpoint s e ctx s')
  have f: "bkpt_flag (mo_hw (raise_dbg dfsr_bkpt_evt_bitmask s))"
    by (simp add: raise_dbg_def bkpt_flag_def bkpt_mask_bits bit_simps)
  have u: "stepping (mo_hw (raise_dbg c s)) = stepping (mo_hw s)" "armed (mo_hw (raise_dbg c s)) = armed (mo_hw s)" for c
    by (simp_all add: raise_dbg_def mon_flags)
  show ?case
    using breakpoint.prems breakpoint.hyps(1,2)
    by (cases rule: monitor_bkpt_cases [OF breakpoint.hyps(3) f, case_names w skip step])
       (simp_all add: mon_inv_def u)
next
  case (stepped s e ctx s')
  have "\<not> bkpt_flag (mo_hw (raise_dbg dfsr_halt_evt_bitmask s))" "bit (dfsr (mo_hw (raise_dbg dfsr_halt_evt_bitmask s))) 0"
    using stepped.hyps(1) stepped.prems(2) by (auto simp: raise_dbg_def mon_flags mon_inv_def bkpt_mask_bits bit_simps)
  from monitor_halt [OF this, of e ctx] stepped.hyps(3) show ?case by (auto simp: mon_inv_def)
next
  case (other_code s' s)
  then show ?case by (simp add: mon_inv_def mon_flags)
qed

lemma fold_set_comp_regs:
  "demcr (fold (\<lambda>i. set_comp i 0) xs h) = demcr h" "dhcsr (fold (\<lambda>i. set_comp i 0) xs h) = dhcsr h"
  "dfsr (fold (\<lambda>i. set_comp i 0) xs h) = dfsr h"
  by (induction xs arbitrary: h) (simp_all add: set_comp_def)

lemma set_patch_mode_monitor:
  assumes "\<not> halting_debug_enabled h" "\<not> stepping h"
  shows "mon_inv (set_patch_mode w1c CORTEX_DEB_MON_PATCH h)"
  using assms
  by (simp add: set_patch_mode_def debug_monitor_init_def clear_all_hw_bkpt_def Let_def mon_inv_def mon_flags
    halting_debug_enabled_def fold_set_comp_regs fpb_disable_def fpb_enable_def set_active_def
    DCB_DEMCR_MON_EN_def bit_simps)

lemma mon_reachable_inv:
  assumes "(mon_step w1c)\<^sup>*\<^sup>* s0 s" "write_one_clears w1c" "mon_inv (mo_hw s0)"
  shows "mon_inv (mo_hw s)"
  using assms(1) by (induction rule: rtranclp_induct) (auto intro: mon_step_inv assms)

text \<open>A monitor with one active dynamic patch, at \<open>0x08001000\<close>; its filter is compiled and answers
  DROP with 7. The saved registers are at \<open>0x20001000\<close>.\<close>

definition sample_mon :: "hw \<Rightarrow> monitor" where
  "sample_mon h = \<lparr>mo_ctx = sample_ctx\<lparr>dbits_filter_bpkt := - 1, c_hw := h,
       dpatch_list := [\<lparr>dp_patch = 0x300, dp_inst = 0x08001000, dp_pc = 0x08001002\<rparr>],
       patches := [0x300 \<mapsto> \<lparr>p_desc = 0x200, p_vm = \<lparr>insts = [], insts_set = True, num_insts = 0,
           bounds_check_enabled = False, helper_set = True, use_jit = True\<rparr>, is_active = True\<rparr>]\<rparr>,
     mo_world = \<lparr>w_mem = (\<lambda>_. Some 0)(0x20001019 \<mapsto> 0x10, 0x2000101b \<mapsto> 0x08), w_dval = 0, w_out = []\<rparr>,
     mo_prof = sample_prof\<rparr>"

definition clear_ones :: "u32 \<Rightarrow> u32 \<Rightarrow> u32" where "clear_ones old v = old AND NOT v"

definition sample_env :: mon_env where
  "sample_env = \<lparr>me_run = \<lparr>r_stack = 0x20002000, r_regs0 = [], r_iter = 0,
     r_jit = (\<lambda>_ _ _ w. Some (set_return32 1 7, w))\<rparr>, me_t0 = 10, me_t1 = 30, me_w1c = clear_ones\<rparr>"

definition sample_mode :: hw where
  "sample_mode = set_patch_mode clear_ones CORTEX_DEB_MON_PATCH sample_hw"

lemma clear_ones_ok: "write_one_clears clear_ones"
  by (simp add: write_one_clears_def clear_ones_def)

lemma sample_hw_idle: "\<not> halting_debug_enabled sample_hw" "\<not> stepping sample_hw"
  by (simp_all add: halting_debug_enabled_def stepping_def sample_hw_def)

lemma sample_mode_inv: "mon_inv sample_mode"
  unfolding sample_mode_def by (rule set_patch_mode_monitor [OF sample_hw_idle])

lemma sample_mon_hw [simp]: "mo_hw (sample_mon h) = h" by (simp add: sample_mon_def)

lemma sample_frame: "ctx_get (sample_mon h) 0x20001000 F_pc = Some 0x08001000"
  "ctx_get (sample_mon h) 0x20000000 F_pc = Some 0"
  by (simp_all add: ctx_get_def sample_mon_def frame_get_def mem_load_def)

lemma sample_lookup: "get_dynamic_patch_by_bpkt (mo_ctx (sample_mon h)) 0x08001000 = Some 0x300"
  "get_dynamic_patch_by_bpkt (mo_ctx (sample_mon h)) 0 = Some 0"
  by (simp_all add: get_dynamic_patch_by_bpkt_def sample_mon_def)

lemma raise_sample: "raise_dbg c (sample_mon h) = sample_mon (h\<lparr>dfsr := dfsr h OR c\<rparr>)"
  by (simp add: raise_dbg_def with_hw_def sample_mon_def)

text \<open>A breakpoint without a patch, taken in the sample: the step starts.\<close>

lemma sample_step:
  "\<exists>s. mon_step clear_ones (sample_mon sample_mode) s \<and> stepping (mo_hw s)"
proof -
  let ?s = "raise_dbg dfsr_bkpt_evt_bitmask (sample_mon sample_mode)"
  have a: "armed (mo_hw (sample_mon sample_mode))" using sample_mode_inv sample_hw_idle
    by (simp add: sample_mode_def set_patch_mode_def debug_monitor_init_def clear_all_hw_bkpt_def Let_def armed_def
      halting_debug_enabled_def fold_set_comp_regs fpb_disable_def fpb_enable_def set_active_def enable_bits [simplified])
  have r: "run_patch_here sample_env 0x20000000 ?s = Some (False, ?s)"
    by (simp add: raise_sample run_patch_here_def sample_frame sample_lookup)
  have b: "bkpt_flag (mo_hw ?s)" by (simp add: raise_dbg_def bkpt_flag_def bkpt_mask_bits bit_simps)
  then obtain s where s: "leave_debug_monitor sample_env 0x20000000 ?s = Some s"
    using r by (simp add: leave_debug_monitor_def bkpt_flag_def Let_def)
  have w: "me_w1c sample_env = clear_ones" by (simp add: sample_env_def)
  have "stepping (mo_hw s)"
    using clear_ones_ok w r by (cases rule: monitor_bkpt_cases [OF s b, case_names w skip step]) simp_all
  with mon_step.breakpoint [OF a w s] show ?thesis by blast
qed

text \<open>C20: from the moment the debug monitor is switched on, through every sequence of breakpoints, step
  events and other code, the breakpoint unit is off exactly while an instruction is stepped over,
  and no breakpoint is pending then.\<close>

theorem monitor_invariant:
  assumes "write_one_clears w1c" and "\<not> halting_debug_enabled h" and "\<not> stepping h"
    and "mo_hw s0 = set_patch_mode w1c CORTEX_DEB_MON_PATCH h" and "(mon_step w1c)\<^sup>*\<^sup>* s0 s"
  shows "mon_inv (mo_hw s)"
  using mon_reachable_inv [OF assms(5,1)] set_patch_mode_monitor [OF assms(2,3)] assms(4) by simp

theorem monitor_invariant_witness:
  "\<exists>s. mon_step clear_ones (sample_mon sample_mode) s \<and> stepping (mo_hw s) \<and> \<not> armed (mo_hw s)"
proof -
  obtain s where s: "mon_step clear_ones (sample_mon sample_mode) s" "stepping (mo_hw s)"
    using sample_step by blast
  have "mon_inv (mo_hw s)"
    by (rule monitor_invariant [OF clear_ones_ok sample_hw_idle, of "sample_mon sample_mode"])
       (use s(1) in \<open>simp_all add: sample_mode_def\<close>)
  with s show ?thesis by (auto simp: mon_inv_def)
qed

text \<open>C21: a step that was started ends: in every reachable state that steps, the step event makes the
  handler return with the unit enabled again, the step bit clear, and the comparators, patches
  and memory as they were.\<close>

theorem monitor_rearms:
  assumes "write_one_clears w1c" and "\<not> halting_debug_enabled h" and "\<not> stepping h"
    and "mo_hw s0 = set_patch_mode w1c CORTEX_DEB_MON_PATCH h" and "(mon_step w1c)\<^sup>*\<^sup>* s0 s"
    and "stepping (mo_hw s)"
  shows "\<exists>s'. leave_debug_monitor e ctx (raise_dbg dfsr_halt_evt_bitmask s) = Some s' \<and>
    armed (mo_hw s') \<and> \<not> stepping (mo_hw s') \<and> h_comp (mo_hw s') = h_comp (mo_hw s) \<and>
    patches (mo_ctx s') = patches (mo_ctx s) \<and> mo_world s' = mo_world s"
proof -
  let ?s = "raise_dbg dfsr_halt_evt_bitmask s"
  have "mon_inv (mo_hw s)"
    using mon_reachable_inv [OF assms(5,1)] set_patch_mode_monitor [OF assms(2,3)] assms(4) by simp
  then have "\<not> bkpt_flag (mo_hw ?s)" "bit (dfsr (mo_hw ?s)) 0"
    using assms(6) by (auto simp: raise_dbg_def mon_flags mon_inv_def bkpt_mask_bits bit_simps)
  from monitor_halt [OF this, of e ctx] show ?thesis by (auto simp: raise_dbg_def)
qed

theorem monitor_rearms_witness:
  "\<exists>s s'. stepping (mo_hw s) \<and>
    leave_debug_monitor sample_env 0x20000000 (raise_dbg dfsr_halt_evt_bitmask s) = Some s' \<and> armed (mo_hw s')"
proof -
  obtain s where s: "mon_step clear_ones (sample_mon sample_mode) s" "stepping (mo_hw s)"
    using sample_step by blast
  have "mo_hw (sample_mon sample_mode) = set_patch_mode clear_ones CORTEX_DEB_MON_PATCH sample_hw"
    by (simp add: sample_mode_def)
  from monitor_rearms [OF clear_ones_ok sample_hw_idle this _ s(2)] r_into_rtranclp [of "mon_step clear_ones", OF s(1)]
  show ?thesis using s(2) by blast
qed

subsection \<open>What a patch decides\<close>

lemma run_patch_here_decides:
  assumes "ctx_get s ctx F_pc = Some pc" "get_dynamic_patch_by_bpkt (mo_ctx s) pc = Some p" "p \<noteq> 0"
    "run_filter_at e p ctx s = Some (ret, s1)" "\<forall>k. ctx_get s1 ctx k \<noteq> None"
  shows "\<exists>s2. run_patch_here e ctx s = Some (op_of ret = FILTER_DROP \<or> op_of ret = FILTER_REDIRECT, s2) \<and>
    mo_ctx s2 = mo_ctx s \<and>
    ctx_get s2 ctx k =
      (if op_of ret = FILTER_DROP \<and> k = F_r0 then Some (code_of ret)
       else if op_of ret = FILTER_DROP \<and> k = F_pc then ctx_get s1 ctx F_lr
       else if op_of ret = FILTER_REDIRECT \<and> k = F_pc then Some (code_of ret)
       else ctx_get s1 ctx k)"
proof -
  note m = run_filter_at_ctx [OF assms(4)]
  consider (drop) "op_of ret = FILTER_DROP" | (redirect) "op_of ret = FILTER_REDIRECT" "op_of ret \<noteq> FILTER_DROP"
    | (other) "op_of ret \<noteq> FILTER_DROP" "op_of ret \<noteq> FILTER_REDIRECT" by blast
  then show ?thesis
  proof cases
    case drop
    have ne: "FILTER_DROP \<noteq> FILTER_REDIRECT" by (simp add: filter_ops)
    obtain lr where lr: "ctx_get s1 ctx F_lr = Some lr" using assms(5) by auto
    obtain s2 where s2: "ctx_set ctx F_r0 (code_of ret) s1 = Some s2" using ctx_set_mapped assms(5) by blast
    have "ctx_get s2 ctx F_pc \<noteq> None" using ctx_get_set [OF s2, of F_pc] assms(5) by simp
    then obtain s3 where s3: "ctx_set ctx F_pc lr s2 = Some s3" using ctx_set_mapped by blast
    show ?thesis
      using assms drop ne lr s2 s3 m ctx_get_set [OF s2] ctx_get_set [OF s3] ctx_set_frame [OF s2] ctx_set_frame [OF s3]
      by (simp add: run_patch_here_def)
  next
    case redirect
    obtain s2 where s2: "ctx_set ctx F_pc (code_of ret) s1 = Some s2" using ctx_set_mapped assms(5) by blast
    show ?thesis
      using assms redirect s2 m ctx_get_set [OF s2] ctx_set_frame [OF s2] by (simp add: run_patch_here_def)
  next
    case other
    then show ?thesis using assms m by (simp add: run_patch_here_def)
  qed
qed

lemma filter_outcome:
  assumes "write_one_clears (me_w1c e)" and "bkpt_flag (mo_hw s)"
    and "ctx_get s ctx F_pc = Some pc" and "get_dynamic_patch_by_bpkt (mo_ctx s) pc = Some p" and "p \<noteq> 0"
    and "run_filter_at e p ctx s = Some (ret, s1)" and "\<forall>k. ctx_get s1 ctx k \<noteq> None"
  shows "\<exists>s'. leave_debug_monitor e ctx s = Some s' \<and>
    (op_of ret = FILTER_DROP \<longrightarrow> mo_hw s' = mo_hw s \<and> ctx_get s' ctx F_r0 = Some (code_of ret) \<and>
       ctx_get s' ctx F_pc = ctx_get s1 ctx F_lr) \<and>
    (op_of ret = FILTER_REDIRECT \<longrightarrow> mo_hw s' = mo_hw s \<and> ctx_get s' ctx F_pc = Some (code_of ret) \<and>
       ctx_get s' ctx F_r0 = ctx_get s1 ctx F_r0) \<and>
    (op_of ret \<noteq> FILTER_DROP \<and> op_of ret \<noteq> FILTER_REDIRECT \<longrightarrow>
       stepping (mo_hw s') \<and> \<not> armed (mo_hw s') \<and> (\<forall>k. ctx_get s' ctx k = ctx_get s1 ctx k))"
proof -
  note run = run_patch_here_decides [OF assms(3-7)]
  obtain b s2 where r: "run_patch_here e ctx s = Some (b, s2)" using run by blast
  have b: "b = (op_of ret = FILTER_DROP \<or> op_of ret = FILTER_REDIRECT)" using run r by auto
  have g: "ctx_get s2 ctx k =
      (if op_of ret = FILTER_DROP \<and> k = F_r0 then Some (code_of ret)
       else if op_of ret = FILTER_DROP \<and> k = F_pc then ctx_get s1 ctx F_lr
       else if op_of ret = FILTER_REDIRECT \<and> k = F_pc then Some (code_of ret)
       else ctx_get s1 ctx k)" for k
    using run [of k] r by (simp split: if_splits)
  obtain s' where s': "leave_debug_monitor e ctx s = Some s'"
    using assms(2) r by (cases b) (auto simp: leave_debug_monitor_def bkpt_flag_def Let_def)
  have ne: "FILTER_DROP \<noteq> FILTER_REDIRECT" by (simp add: filter_ops)
  show ?thesis
  proof (cases rule: monitor_bkpt_cases [OF s' assms(2,1), case_names skip step])
    case (skip x)
    with r b s' ne show ?thesis by (auto simp: g)
  next
    case (step x)
    have "ctx_get s' ctx k = ctx_get s1 ctx k" for k
      using g [of k] step r b by (auto simp: ctx_get_def)
    with step r b s' show ?thesis by auto
  qed
qed

text \<open>C19: at a breakpoint with an active patch, the filter's result decides how the patched code goes on:
  DROP returns to the caller with the code as the result, REDIRECT continues at the code, and
  any other operation leaves the saved registers as the filter left them and steps over the
  instruction; the first two do not enter single-stepping.\<close>

theorem filter_decides:
  assumes "write_one_clears (me_w1c e)" and "bkpt_flag (mo_hw s)"
    and "ctx_get s ctx F_pc = Some pc" and "get_dynamic_patch_by_bpkt (mo_ctx s) pc = Some p" and "p \<noteq> 0"
    and "run_filter_at e p ctx s = Some (ret, s1)" and "\<forall>k. ctx_get s1 ctx k \<noteq> None"
  shows "\<exists>s'. leave_debug_monitor e ctx s = Some s' \<and>
    (op_of ret = FILTER_DROP \<longrightarrow> mo_hw s' = mo_hw s \<and> ctx_get s' ctx F_r0 = Some (code_of ret) \<and>
       ctx_get s' ctx F_pc = ctx_get s1 ctx F_lr) \<and>
    (op_of ret = FILTER_REDIRECT \<longrightarrow> mo_hw s' = mo_hw s \<and> ctx_get s' ctx F_pc = Some (code_of ret) \<and>
       ctx_get s' ctx F_r0 = ctx_get s1 ctx F_r0) \<and>
    (op_of ret \<noteq> FILTER_DROP \<and> op_of ret \<noteq> FILTER_REDIRECT \<longrightarrow>
       stepping (mo_hw s') \<and> \<not> armed (mo_hw s') \<and> (\<forall>k. ctx_get s' ctx k = ctx_get s1 ctx k))"
  by (rule filter_outcome [OF assms])

theorem filter_decides_witness:
  "\<exists>s'. leave_debug_monitor sample_env 0x20001000 (sample_mon (sample_hw\<lparr>dfsr := 2\<rparr>)) = Some s' \<and>
    ctx_get s' 0x20001000 F_r0 = Some 7 \<and> ctx_get s' 0x20001000 F_pc = Some 0"
proof -
  let ?s = "sample_mon (sample_hw\<lparr>dfsr := 2\<rparr>)"
  obtain p where run: "run_filter_at sample_env 0x300 0x20001000 ?s = Some (set_return32 1 7, ?s\<lparr>mo_prof := p\<rparr>)"
    by (simp add: run_filter_at_def run_ebpf_filter_def sample_env_def sample_mon_def profile_start_def
      profile_end_def EV1_def PROFILER_EVENTS_MAX_def Let_def)
  have fl: "bkpt_flag (mo_hw ?s)" by (simp add: bkpt_flag_def bit_simps)
  have w: "write_one_clears (me_w1c sample_env)" using clear_ones_ok by (simp add: sample_env_def)
  have m: "\<forall>k. ctx_get (?s\<lparr>mo_prof := p\<rparr>) 0x20001000 k \<noteq> None"
    by (auto simp: ctx_get_def frame_get_def mem_load_def sample_mon_def)
  have lr: "ctx_get (?s\<lparr>mo_prof := p\<rparr>) 0x20001000 F_lr = Some 0"
    by (simp add: ctx_get_def frame_get_def mem_load_def sample_mon_def)
  show ?thesis
    using filter_decides [OF w fl sample_frame(1) sample_lookup(1) _ run m] lr
    by (simp add: op_code_set_return32 filter_ops) blast
qed

subsection \<open>The flash-patch callback\<close>

lemma enable_fold:
  "h_comp (fold (\<lambda>i h. if h_comp h i \<noteq> 0 then set_comp i (h_comp h i OR 1) h else h) [0..<n] h) =
     (\<lambda>i. if i < n \<and> h_comp h i \<noteq> 0 then h_comp h i OR 1 else h_comp h i)"
  by (induction n) (auto simp: set_comp_def fun_eq_iff less_Suc_eq)

lemma odd_clear_or: "odd c \<Longrightarrow> (c AND NOT 1) OR 1 = c" "odd c \<Longrightarrow> c OR 1 = c" for c :: u32
  by (rule bit_word_eqI, auto simp: bit_simps simp flip: bit_0)+

text \<open>C35: letting the patched instruction of a flash-patch breakpoint run and enabling the breakpoints
  again at the callback restores the comparators: the disabled one is enabled, the others keep
  their value, only the callback's own comparator is left disabled, and the callback
  returns to the word-aligned instruction it was set on.\<close>

theorem fpb_callback_restores:
  assumes "idx < FPB_CB_REG" and "\<forall>i < FPB_CB_REG. h_comp h i = 0 \<or> odd (h_comp h i)"
    and "odd (h_comp h idx)" and "h_comp h idx \<noteq> 1"
    and "calc_bpkt_pc m (h_comp h idx) = Some n0" and "next_aligned m n0 = Some n"
  shows "\<exists>h1 h2. fpb_disable_cur_inst m idx h = Some h1 \<and>
    even (h_comp h1 idx) \<and> h_comp h1 FPB_CB_REG = n OR 1 \<and>
    fpb_enable_callback h1 = (n OR 1, h2) \<and> h_comp h2 = (h_comp h)(FPB_CB_REG := (n OR 1) AND NOT 1)"
proof -
  let ?c = "h_comp h"
  obtain h1 where h1: "fpb_disable_cur_inst m idx h = Some h1"
      "h_comp h1 = ?c(FPB_CB_REG := n OR 1, idx := ?c idx AND NOT 1)"
    using assms(1,5,6) by (auto simp: fpb_disable_cur_inst_def Let_def set_comp_def set_patch_word_def)
  have nz: "?c idx AND NOT 1 \<noteq> 0"
  proof
    assume "?c idx AND NOT 1 = 0"
    then have "?c idx = 1" using odd_clear_or(1) [OF assms(3)] by simp
    with assms(4) show False by simp
  qed
  have ev: "even (?c idx AND NOT 1)" by (simp add: even_and_iff)
  have "h_comp (snd (fpb_enable_callback h1)) i = (?c(FPB_CB_REG := (n OR 1) AND NOT 1)) i" for i
    using assms(1-3) nz odd_clear_or
    by (auto simp: fpb_enable_callback_def Let_def set_comp_def enable_fold h1(2))
  then show ?thesis
    using h1 ev assms(1) by (intro exI [of _ h1] exI [of _ "snd (fpb_enable_callback h1)"])
      (auto simp: fpb_enable_callback_def Let_def)
qed

text \<open>The search ends at once behind a 16-bit instruction off the word boundary.\<close>

lemma next_aligned_here: "n AND 3 = 0 \<Longrightarrow> next_aligned m n = Some n"
  by (simp add: next_aligned.simps)

lemma next_aligned_step:
  "n AND 3 \<noteq> 0 \<Longrightarrow> calc_bpkt_pc m n = Some n' \<Longrightarrow> next_aligned m n = next_aligned m n'"
  by (subst next_aligned.simps) simp

theorem fpb_callback_restores_witness:
  "\<exists>h1 h2. fpb_disable_cur_inst (\<lambda>_. Some 0x20) 0 (sample_hw\<lparr>h_comp := (\<lambda>_. 0)(0 := 0x08001001)\<rparr>) = Some h1 \<and>
    fpb_enable_callback h1 = (0x08001005, h2) \<and> h_comp h2 0 = 0x08001001"
proof -
  let ?h = "sample_hw\<lparr>h_comp := (\<lambda>_. 0)(0 := 0x08001001)\<rparr>" and ?m = "\<lambda>_. Some (0x20 :: u8)"
  have pc: "calc_bpkt_pc ?m 0x08001001 = Some 0x08001002" "calc_bpkt_pc ?m 0x08001002 = Some 0x08001004"
    by (simp_all add: calc_bpkt_pc_def Let_def load16_def mem_load_def)
  have n: "next_aligned ?m 0x08001002 = Some 0x08001004"
    using next_aligned_step [of "0x08001002" ?m "0x08001004"] pc by (simp add: next_aligned_here)
  have "\<exists>h1 h2. fpb_disable_cur_inst ?m 0 ?h = Some h1 \<and> even (h_comp h1 0) \<and>
    h_comp h1 FPB_CB_REG = 0x08001004 OR 1 \<and> fpb_enable_callback h1 = (0x08001004 OR 1, h2) \<and>
    h_comp h2 = (h_comp ?h)(FPB_CB_REG := (0x08001004 OR 1) AND NOT 1)"
    by (rule fpb_callback_restores [OF _ _ _ _ _ n]) (simp_all add: FPB_CB_REG_def pc)
  then show ?thesis by (auto simp: FPB_CB_REG_def)
qed

end
