(* ===== verification/Thumb2_Exec.thy ===== *)
theory Thumb2_Exec
  imports Jit_Encode Monitor_Props
begin

text \<open>
  A machine for the instructions that the compiler emits for arithmetic, loads and forward jumps: the
  decoding and the operations of the ARMv7-M reference manual (A5.2, A5.3 and the pages of A7.7), on the
  register file, the carry flag and memory. It is the reference the compiled code is run on; an
  instruction outside the set has no decoding here.
\<close>

subsection \<open>State and instructions\<close>

record thumb =
  t_reg :: "u8 \<Rightarrow> u32"
  t_c :: bool
  t_mem :: memory

datatype t_inst =
    T_LDRD u8 u8 u8 u32 | T_STRD u8 u8 u8 u32
  | T_ADDS u8 u8 u8 | T_ADC u8 u8 u8 | T_SUBS u8 u8 u8 | T_SBC u8 u8 u8
  | T_AND u8 u8 u8 | T_ORR u8 u8 u8 | T_EOR u8 u8 u8
  | T_MOV u8 u8 | T_MOVI u8 u32 | T_MOVT u8 u16
  | T_SUBI u8 u8 u32 | T_PUSH u16 | T_POP u16 | T_BX u8
  | T_LDR u8 u8 u32 | T_LDRH u8 u8 u32

subsection \<open>Decoding\<close>

definition field :: "u16 \<Rightarrow> nat \<Rightarrow> u16 \<Rightarrow> u8" where
  "field h k msk = ucast (drop_bit k h AND msk)"

text \<open>16-bit forms: \<open>MOVS\<close> T1, \<open>ADDS\<close> T1 with registers, \<open>AND\<close>, \<open>EOR\<close>, \<open>ORR\<close> T1, \<open>MOV\<close> T1, \<open>BX\<close>
  and \<open>LDRH\<close> T1.\<close>

definition decode16 :: "u16 \<Rightarrow> t_inst option" where
  "decode16 h =
     (let rdn = field h 0 7; rm = field h 3 7 in
      if drop_bit 11 h = 4 then Some (T_MOVI (field h 8 7) (ucast (h AND 0xff)))
      else if drop_bit 9 h = 0xc then Some (T_ADDS rdn rm (field h 6 7))
      else if drop_bit 7 h = 0x8e \<and> h AND 7 = 0 then Some (T_BX (field h 3 0xf))
      else if drop_bit 6 h = 0x100 then Some (T_AND rdn rdn rm)
      else if drop_bit 6 h = 0x101 then Some (T_EOR rdn rdn rm)
      else if drop_bit 6 h = 0x10c then Some (T_ORR rdn rdn rm)
      else if drop_bit 8 h = 0x46 then Some (T_MOV (push_bit 3 (field h 7 1) OR rdn) (field h 3 0xf))
      else if drop_bit 11 h = 0x11 then Some (T_LDRH rdn rm (2 * (ucast (drop_bit 6 h) AND 31)))
      else None)"

text \<open>Data processing with a register that is not shifted: \<open>1110101 op S Rn | 0 000 Rd 00 00 Rm\<close>.\<close>

definition decode_dp :: "u16 \<Rightarrow> u16 \<Rightarrow> t_inst option" where
  "decode_dp h l =
     (let op = field h 5 0xf; s = field h 4 1; n = field h 0 0xf; d = field l 8 0xf; m = field l 0 0xf in
      if l AND 0xf0f0 \<noteq> 0 \<or> d = 15 then None
      else if op = 0 \<and> s = 0 then Some (T_AND d n m)
      else if op = 2 \<and> s = 0 then Some (if n = 15 then T_MOV d m else T_ORR d n m)
      else if op = 4 \<and> s = 0 then Some (T_EOR d n m)
      else if op = 8 \<and> s = 1 then Some (T_ADDS d n m)
      else if op = 10 \<and> s = 0 then Some (T_ADC d n m)
      else if op = 11 \<and> s = 0 then Some (T_SBC d n m)
      else if op = 13 \<and> s = 1 then Some (T_SUBS d n m)
      else None)"

text \<open>\<open>LDRD\<close> and \<open>STRD\<close> with an offset and no write-back: \<open>1110100 1 U 1 0 L Rn | Rt Rt2 imm8\<close>.\<close>

definition decode_dual :: "u16 \<Rightarrow> u16 \<Rightarrow> t_inst option" where
  "decode_dual h l =
     (let n = field h 0 0xf; t = field l 12 0xf; t2 = field l 8 0xf;
          imm = 4 * ucast (l AND 0xff) :: u32; off = (if bit h 7 then imm else - imm) in
      if bit h 8 \<and> bit h 6 \<and> \<not> bit h 5 then Some (if bit h 4 then T_LDRD t t2 n off else T_STRD t t2 n off)
      else None)"

text \<open>\<open>LDR\<close> with an offset: T3 adds 12 bits; T4 (P = 1, W = 0) adds or subtracts 8 bits, and is \<open>LDRT\<close> when it
  adds, a load with the rights of unprivileged code.\<close>

definition decode_ldr :: "u16 \<Rightarrow> u16 \<Rightarrow> t_inst option" where
  "decode_ldr h l =
     (let n = field h 0 0xf; t = field l 12 0xf; imm = ucast (l AND 0xff) :: u32 in
      if n = 15 \<or> t = 15 then None
      else if bit h 7 then Some (T_LDR t n (ucast (l AND 0xfff)))
      else if bit l 11 \<and> bit l 10 \<and> \<not> bit l 8 then Some (T_LDR t n (if bit l 9 then imm else - imm))
      else None)"

definition decode32 :: "u16 \<Rightarrow> u16 \<Rightarrow> t_inst option" where
  "decode32 h l =
     (if h = 0xe92d then Some (T_PUSH l)
      else if h = 0xe8bd then Some (T_POP l)
      else if drop_bit 9 h = 0x75 then decode_dp h l
      else if drop_bit 9 h = 0x74 then decode_dual h l
      else if h AND 0xfbf0 = 0xf240 \<and> \<not> bit l 15 then Some (T_MOVI (field l 8 0xf) (ucast (imm16_of h l)))
      else if h AND 0xfbf0 = 0xf2c0 \<and> \<not> bit l 15 then Some (T_MOVT (field l 8 0xf) (imm16_of h l))
      else if h AND 0xfbf0 = 0xf2a0 \<and> \<not> bit l 15 then
        Some (T_SUBI (field l 8 0xf) (field h 0 0xf) (ucast (imm16_of h l AND 0xfff)))
      else if h AND 0xff70 = 0xf850 then decode_ldr h l
      else None)"

subsection \<open>Execution\<close>

definition store32 :: "memory \<Rightarrow> u32 \<Rightarrow> u32 \<Rightarrow> memory option" where
  "store32 m a v = mem_store m a 4 (ucast v)"

definition set_r :: "u8 \<Rightarrow> u32 \<Rightarrow> thumb \<Rightarrow> thumb" where
  "set_r d v t = t\<lparr>t_reg := (t_reg t)(d := v)\<rparr>"

text \<open>The registers of a list in ascending order, from \<open>a\<close> up.\<close>

definition reg_list :: "u16 \<Rightarrow> u8 list" where
  "reg_list msk = filter (\<lambda>k. bit msk (unat k)) [0, 1, 2, 3, 4, 5, 6, 7, 8, 9, 10, 11, 12, 13, 14, 15]"

fun store_regs :: "(u8 \<Rightarrow> u32) \<Rightarrow> u8 list \<Rightarrow> u32 \<Rightarrow> memory \<Rightarrow> memory option" where
  "store_regs r [] a m = Some m"
| "store_regs r (k # ks) a m = do { m1 \<leftarrow> store32 m a (r k); store_regs r ks (a + 4) m1 }"

fun load_regs :: "memory \<Rightarrow> u8 list \<Rightarrow> u32 \<Rightarrow> (u8 \<Rightarrow> u32) \<Rightarrow> (u8 \<Rightarrow> u32) option" where
  "load_regs m [] a r = Some r"
| "load_regs m (k # ks) a r = do { v \<leftarrow> load32 m a; load_regs m ks (a + 4) (r(k := v)) }"

fun t_exec :: "t_inst \<Rightarrow> thumb \<Rightarrow> thumb option" where
  "t_exec (T_LDRD d d2 n off) t = do {
     v \<leftarrow> load32 (t_mem t) (t_reg t n + off);
     v2 \<leftarrow> load32 (t_mem t) (t_reg t n + off + 4);
     Some (set_r d2 v2 (set_r d v t))}"
| "t_exec (T_STRD d d2 n off) t = do {
     m1 \<leftarrow> store32 (t_mem t) (t_reg t n + off) (t_reg t d);
     m2 \<leftarrow> store32 m1 (t_reg t n + off + 4) (t_reg t d2);
     Some (t\<lparr>t_mem := m2\<rparr>)}"
| "t_exec (T_ADDS d n m) t =
     Some ((set_r d (t_reg t n + t_reg t m) t)\<lparr>t_c := 2 ^ 32 \<le> unat (t_reg t n) + unat (t_reg t m)\<rparr>)"
| "t_exec (T_ADC d n m) t = Some (set_r d (t_reg t n + t_reg t m + (if t_c t then 1 else 0)) t)"
| "t_exec (T_SUBS d n m) t =
     Some ((set_r d (t_reg t n - t_reg t m) t)\<lparr>t_c := t_reg t m \<le> t_reg t n\<rparr>)"
| "t_exec (T_SBC d n m) t = Some (set_r d (t_reg t n - t_reg t m - (if t_c t then 0 else 1)) t)"
| "t_exec (T_AND d n m) t = Some (set_r d (t_reg t n AND t_reg t m) t)"
| "t_exec (T_ORR d n m) t = Some (set_r d (t_reg t n OR t_reg t m) t)"
| "t_exec (T_EOR d n m) t = Some (set_r d (t_reg t n XOR t_reg t m) t)"
| "t_exec (T_MOV d m) t = Some (set_r d (t_reg t m) t)"
| "t_exec (T_MOVI d v) t = Some (set_r d v t)"
| "t_exec (T_MOVT d v) t = Some (set_r d (push_bit 16 (ucast v) OR (t_reg t d AND 0xffff)) t)"
| "t_exec (T_SUBI d n v) t = Some (set_r d (t_reg t n - v) t)"
| "t_exec (T_BX m) t = Some (set_r 15 (t_reg t m) t)"
| "t_exec (T_PUSH msk) t = (let ks = reg_list msk; a = t_reg t 13 - 4 * of_nat (length ks) in do {
     m \<leftarrow> store_regs (t_reg t) ks a (t_mem t);
     Some ((set_r 13 a t)\<lparr>t_mem := m\<rparr>)})"
| "t_exec (T_POP msk) t = (let ks = reg_list msk; a = t_reg t 13 in do {
     r \<leftarrow> load_regs (t_mem t) ks a (t_reg t);
     Some (t\<lparr>t_reg := r(13 := a + 4 * of_nat (length ks))\<rparr>)})"
| "t_exec (T_LDR d n off) t = do { v \<leftarrow> load32 (t_mem t) (t_reg t n + off); Some (set_r d v t) }"
| "t_exec (T_LDRH d n off) t = do { v \<leftarrow> mem_load (t_mem t) (t_reg t n + off) 2; Some (set_r d (ucast v) t) }"

text \<open>A halfword that starts with 0b11101, 0b11110 or 0b11111 is the first of two.\<close>

fun t_run :: "code \<Rightarrow> thumb \<Rightarrow> thumb option" where
  "t_run [] t = Some t"
| "t_run [h] t = (if drop_bit 11 h \<ge> 0x1d then None else do { i \<leftarrow> decode16 h; t_exec i t })"
| "t_run (h # l # c) t =
     (if drop_bit 11 h \<ge> 0x1d then do { i \<leftarrow> decode32 h l; t1 \<leftarrow> t_exec i t; t_run c t1 }
      else do { i \<leftarrow> decode16 h; t1 \<leftarrow> t_exec i t; t_run (l # c) t1 })"

text \<open>With comparisons and branches: \<open>f\<close> are the operands of the comparison whose flags are current, known as long
  as no other instruction was executed since. A taken branch goes \<open>4 + 2 * imm\<close> bytes on from its own address; one
  that goes back is outside the set.\<close>

definition cond_holds :: "u8 \<Rightarrow> u32 \<Rightarrow> u32 \<Rightarrow> bool" where
  "cond_holds c a b =
     (let k = unat c div 2;
          r = (if k = 0 then a = b else if k = 1 then b \<le> a else if k = 2 then sint (a - b) < 0
               else if k = 3 then sint a - sint b \<noteq> sint (a - b)
               else if k = 4 then b < a else if k = 5 then sint b \<le> sint a else sint b < sint a)
      in if odd (unat c) then \<not> r else r)"

fun t_walk :: "code \<Rightarrow> (u32 \<times> u32) option \<Rightarrow> thumb \<Rightarrow> thumb option" where
  "t_walk [] f t = Some t"
| "t_walk (h # c) f t =
     (if drop_bit 11 h \<ge> 0x1d then
        (case c of [] \<Rightarrow> None
         | l # c' \<Rightarrow> do { i \<leftarrow> decode32 h l; t1 \<leftarrow> t_exec i t; t_walk c' None t1 })
      else if drop_bit 12 h = 0xd \<and> field h 8 0xf < 14 then do {
        (a, b) \<leftarrow> f;
        let n = sint (ucast h :: s8);
        if \<not> cond_holds (field h 8 0xf) a b then t_walk c f t
        else if 0 \<le> n \<and> nat n + 1 \<le> length c then t_walk (drop (nat n + 1) c) f t
        else None}
      else if drop_bit 6 h = 0x10a then t_walk c (Some (t_reg t (field h 0 7), t_reg t (field h 3 7))) t
      else if drop_bit 8 h = 0x45 then
        t_walk c (Some (t_reg t (push_bit 3 (field h 7 1) OR field h 0 7), t_reg t (field h 3 0xf))) t
      else do { i \<leftarrow> decode16 h; t1 \<leftarrow> t_exec i t; t_walk c None t1 })"

lemma t_run_append: "t_run c t = Some t1 \<Longrightarrow> t_run (c @ c') t = t_run c' t1"
proof (induction c t rule: t_run.induct)
  case (2 h t)
  then show ?case by (cases c') (auto split: if_splits simp: bind_eq_Some_conv)
next
  case (3 h l c t)
  then show ?case by (auto split: if_splits simp: bind_eq_Some_conv)
qed simp


lemmas t_defs = decode16_def decode32_def decode_dp_def decode_dual_def decode_ldr_def field_def reg_list_def set_r_def

lemma set_r_simps [simp]:
  "t_reg (set_r d v t) = (t_reg t)(d := v)" "t_mem (set_r d v t) = t_mem t" "t_c (set_r d v t) = t_c t"
  "set_r d v (set_r d u t) = set_r d v t"
  by (simp_all add: set_r_def)

subsection \<open>Constants\<close>

lemma imm_form:
  fixes h :: u16
  assumes "h AND 0xfbf0 = v" "v \<in> {0xf240, 0xf2c0}"
  shows "h \<noteq> 0xe92d" "h \<noteq> 0xe8bd" "drop_bit 9 h \<noteq> 0x75" "drop_bit 9 h \<noteq> 0x74" "0x1d \<le> drop_bit 11 h"
proof -
  have b: "bit h 12" "bit h 13" "bit h 14" "bit h 15" "\<not> bit h 11"
    using assms(1,2) by (auto dest: arg_cong [where f = "\<lambda>w. bit w 12"] arg_cong [where f = "\<lambda>w. bit w 13"]
        arg_cong [where f = "\<lambda>w. bit w 14"] arg_cong [where f = "\<lambda>w. bit w 15"]
        arg_cong [where f = "\<lambda>w. bit w 11"] simp: bit_simps)
  show "h \<noteq> 0xe92d" "h \<noteq> 0xe8bd" using b(1) by auto
  have "bit (drop_bit 9 h) 3" using b(1) by (simp add: bit_simps)
  then show "drop_bit 9 h \<noteq> 0x75" "drop_bit 9 h \<noteq> 0x74" by auto
  have "drop_bit 11 h = 0x1e"
    by (rule all_bits_16, elim insertE emptyE) (auto simp: bit_simps b dest: bit_imp_le_length)
  then show "0x1d \<le> drop_bit 11 h" by simp
qed

lemma top_bit_clear: "drop_bit 15 l = 0 \<Longrightarrow> \<not> bit l 15" for l :: u16
  using bit_drop_bit_eq [of 15 l] by (metis add.right_neutral bit_0_eq bot_apply bot_bool_def comp_apply)

lemma run_movw:
  assumes "h AND 0xfbf0 = 0xf240" "drop_bit 15 l = 0"
  shows "t_run (h # l # c) t = t_run c (set_r (wide_rd l) (ucast (imm16_of h l)) t)"
  using imm_form [OF assms(1) insertI1] top_bit_clear [OF assms(2)]
  by (simp only: t_run.simps decode32_def assms(1) field_def wide_rd_def t_exec.simps bind.simps if_True if_False simp_thms)

lemma run_movt:
  assumes "h AND 0xfbf0 = 0xf2c0" "drop_bit 15 l = 0"
  shows "t_run (h # l # c) t =
    t_run c (set_r (wide_rd l) (push_bit 16 (ucast (imm16_of h l)) OR (t_reg t (wide_rd l) AND 0xffff)) t)"
proof -
  have "(0xf2c0 :: u16) \<noteq> 0xf240" by simp
  then show ?thesis
    using imm_form [OF assms(1) insertI2 [OF insertI1]] top_bit_clear [OF assms(2)]
    by (simp only: t_run.simps decode32_def assms(1) field_def wide_rd_def t_exec.simps bind.simps if_True if_False simp_thms)
qed

text \<open>The moves emitted for a constant load it, whatever its size, and change nothing else.\<close>

lemma run_mov_imm:
  assumes "d < 15"
  shows "t_run (emit_mov_imm d val) t = Some (set_r d val t)"
proof (cases "val \<le> 0xff \<and> d < 8")
  case True
  have w: "\<not> 0x1d \<le> (4 :: u16)" by simp
  from True show ?thesis
    by (simp add: emit_mov_imm_def emit2_def decode16_def field_def movs_fields w)
next
  case False
  have d: "d < 16" using assms by (simp add: word_less_nat_alt)
  have lo: "ucast (ucast val :: u16) = val" if "\<not> 0xffff < val"
  proof -
    have "\<not> bit val n" if "16 \<le> n" for n
      using \<open>\<not> 0xffff < val\<close> that by (intro high_bits_clear [where m = 16]) (simp_all add: word_less_nat_alt)
    then show ?thesis by (intro bit_word_eqI) (auto simp: bit_simps not_le [symmetric])
  qed
  have movw: "t_run (emit4 (mov16 0xf2400000 d v) @ c) t = t_run c (set_r d (ucast v) t)" for v c t
    using run_movw [OF mov16_halves(1) [OF d, of v] mov16_halves(3) [OF d, of v], of c t]
    by (simp add: emit4_def emit2_def mov16_halves [OF d] del: t_run.simps)
  have movt: "t_run (emit4 (mov16 0xf2c00000 d v)) t =
      Some (set_r d (push_bit 16 (ucast v) OR (t_reg t d AND 0xffff)) t)" for v t
    using run_movt [OF mov16_halves(2) [OF d, of v] mov16_halves(4) [OF d, of v], of "[]" t]
    by (simp add: emit4_def emit2_def mov16_halves [OF d] del: t_run.simps(2,3))
  have c: "emit_mov_imm d val = emit4 (mov16 0xf2400000 d (ucast val)) @
      (if val > 0xffff then emit4 (mov16 0xf2c00000 d (ucast (drop_bit 16 val))) else [])"
    unfolding emit_mov_imm_def using False by (rule if_not_P)
  show ?thesis unfolding c movw
    by (cases "0xffff < val") (simp_all add: movt join_halves lo del: t_run.simps(2,3))
qed

end
