(* ===== verification/Patch_Code.thy ===== *)
theory Patch_Code
  imports Patch_Filters
begin

text \<open>
  The patches shipped as byte arrays in \<open>dynamic_patch_load.c\<close> and \<open>fixed_patch_load.c\<close>
  (each array ends with the terminator of the C string literal it is written as), and the
  refinement of patch sources by them: the interpreter run on the bytes computes the filter.
\<close>

subsection \<open>Dynamic patches\<close>

definition test_cve :: "u8 list" where
  "test_cve =
    [0x61, 0x11, 0x00, 0x00, 0x00, 0x00, 0x00, 0x00,
     0x07, 0x01, 0x00, 0x00, 0x2f, 0xf8, 0xff, 0xff,
     0x67, 0x01, 0x00, 0x00, 0x20, 0x00, 0x00, 0x00,
     0x77, 0x01, 0x00, 0x00, 0x20, 0x00, 0x00, 0x00,
     0xb7, 0x00, 0x00, 0x00, 0x01, 0x00, 0x00, 0x00,
     0xb7, 0x02, 0x00, 0x00, 0xb8, 0x0b, 0x00, 0x00,
     0x2d, 0x12, 0x01, 0x00, 0x00, 0x00, 0x00, 0x00,
     0xb7, 0x00, 0x00, 0x00, 0x00, 0x00, 0x00, 0x00,
     0x67, 0x00, 0x00, 0x00, 0x20, 0x00, 0x00, 0x00,
     0x95, 0x00, 0x00, 0x00, 0x00, 0x00, 0x00, 0x00,
     0x00]"

definition zephyr_cve_10063 :: "u8 list" where
  "zephyr_cve_10063 =
    [0x61, 0x11, 0x04, 0x00, 0x00, 0x00, 0x00, 0x00,
     0x07, 0x01, 0x00, 0x00, 0x05, 0x00, 0x00, 0x00,
     0x67, 0x01, 0x00, 0x00, 0x20, 0x00, 0x00, 0x00,
     0x77, 0x01, 0x00, 0x00, 0x20, 0x00, 0x00, 0x00,
     0x69, 0x12, 0x00, 0x00, 0x00, 0x00, 0x00, 0x00,
     0x18, 0x01, 0x00, 0x00, 0xea, 0xff, 0xff, 0xff,
     0x00, 0x00, 0x00, 0x00, 0x00, 0x00, 0x00, 0x00,
     0x25, 0x02, 0x01, 0x00, 0xff, 0xef, 0x00, 0x00,
     0xb7, 0x01, 0x00, 0x00, 0x00, 0x00, 0x00, 0x00,
     0xb7, 0x00, 0x00, 0x00, 0x01, 0x00, 0x00, 0x00,
     0x25, 0x02, 0x01, 0x00, 0xff, 0xef, 0x00, 0x00,
     0xb7, 0x00, 0x00, 0x00, 0x00, 0x00, 0x00, 0x00,
     0x67, 0x00, 0x00, 0x00, 0x20, 0x00, 0x00, 0x00,
     0x4f, 0x10, 0x00, 0x00, 0x00, 0x00, 0x00, 0x00,
     0x95, 0x00, 0x00, 0x00, 0x00, 0x00, 0x00, 0x00,
     0x00]"

definition zephyr_cve_10021 :: "u8 list" where
  "zephyr_cve_10021 =
    [0xb7, 0x00, 0x00, 0x00, 0x00, 0x00, 0x00, 0x00,
     0x61, 0x12, 0x00, 0x00, 0x00, 0x00, 0x00, 0x00,
     0xb7, 0x03, 0x00, 0x00, 0x00, 0x08, 0x00, 0x20,
     0x61, 0x33, 0x00, 0x00, 0x00, 0x00, 0x00, 0x00,
     0x2d, 0x23, 0x04, 0x00, 0x00, 0x00, 0x00, 0x00,
     0xb7, 0x02, 0x00, 0x00, 0x7c, 0x97, 0x00, 0x00,
     0x63, 0x21, 0x14, 0x00, 0x00, 0x00, 0x00, 0x00,
     0x18, 0x00, 0x00, 0x00, 0x00, 0x00, 0x00, 0x00,
     0x00, 0x00, 0x00, 0x00, 0x01, 0x00, 0x00, 0x00,
     0x95, 0x00, 0x00, 0x00, 0x00, 0x00, 0x00, 0x00,
     0x00]"

definition zephyr_cve_10062 :: "u8 list" where
  "zephyr_cve_10062 =
    [0xb7, 0x03, 0x00, 0x00, 0x01, 0x00, 0x00, 0x00,
     0x61, 0x11, 0x00, 0x00, 0x00, 0x00, 0x00, 0x00,
     0x79, 0x12, 0x00, 0x00, 0x00, 0x00, 0x00, 0x00,
     0x71, 0x21, 0x00, 0x00, 0x00, 0x00, 0x00, 0x00,
     0x67, 0x01, 0x00, 0x00, 0x38, 0x00, 0x00, 0x00,
     0xc7, 0x01, 0x00, 0x00, 0x38, 0x00, 0x00, 0x00,
     0x65, 0x01, 0x06, 0x00, 0xff, 0xff, 0xff, 0xff,
     0xb7, 0x03, 0x00, 0x00, 0x02, 0x00, 0x00, 0x00,
     0x71, 0x24, 0x01, 0x00, 0x00, 0x00, 0x00, 0x00,
     0x67, 0x04, 0x00, 0x00, 0x38, 0x00, 0x00, 0x00,
     0xc7, 0x04, 0x00, 0x00, 0x38, 0x00, 0x00, 0x00,
     0xb7, 0x05, 0x00, 0x00, 0x00, 0x00, 0x00, 0x00,
     0x6d, 0x45, 0x1d, 0x00, 0x00, 0x00, 0x00, 0x00,
     0x57, 0x01, 0x00, 0x00, 0x7f, 0x00, 0x00, 0x00,
     0x55, 0x03, 0x0a, 0x00, 0x01, 0x00, 0x00, 0x00,
     0x18, 0x02, 0x00, 0x00, 0xea, 0xff, 0xff, 0xff,
     0x00, 0x00, 0x00, 0x00, 0x00, 0x00, 0x00, 0x00,
     0x25, 0x01, 0x01, 0x00, 0xff, 0xff, 0xff, 0x0f,
     0xb7, 0x02, 0x00, 0x00, 0x00, 0x00, 0x00, 0x00,
     0xb7, 0x00, 0x00, 0x00, 0x01, 0x00, 0x00, 0x00,
     0x25, 0x01, 0x01, 0x00, 0xff, 0xff, 0xff, 0x0f,
     0xb7, 0x00, 0x00, 0x00, 0x00, 0x00, 0x00, 0x00,
     0x67, 0x00, 0x00, 0x00, 0x20, 0x00, 0x00, 0x00,
     0x4f, 0x20, 0x00, 0x00, 0x00, 0x00, 0x00, 0x00,
     0x95, 0x00, 0x00, 0x00, 0x00, 0x00, 0x00, 0x00,
     0x71, 0x24, 0x01, 0x00, 0x00, 0x00, 0x00, 0x00,
     0x57, 0x04, 0x00, 0x00, 0x7f, 0x00, 0x00, 0x00,
     0x67, 0x04, 0x00, 0x00, 0x07, 0x00, 0x00, 0x00,
     0x4f, 0x14, 0x00, 0x00, 0x00, 0x00, 0x00, 0x00,
     0xbf, 0x41, 0x00, 0x00, 0x00, 0x00, 0x00, 0x00,
     0x15, 0x03, 0xf0, 0xff, 0x02, 0x00, 0x00, 0x00,
     0x71, 0x21, 0x02, 0x00, 0x00, 0x00, 0x00, 0x00,
     0x57, 0x01, 0x00, 0x00, 0x7f, 0x00, 0x00, 0x00,
     0x67, 0x01, 0x00, 0x00, 0x0e, 0x00, 0x00, 0x00,
     0x4f, 0x41, 0x00, 0x00, 0x00, 0x00, 0x00, 0x00,
     0x15, 0x03, 0xeb, 0xff, 0x03, 0x00, 0x00, 0x00,
     0x71, 0x22, 0x03, 0x00, 0x00, 0x00, 0x00, 0x00,
     0x57, 0x02, 0x00, 0x00, 0x7f, 0x00, 0x00, 0x00,
     0x67, 0x02, 0x00, 0x00, 0x15, 0x00, 0x00, 0x00,
     0x4f, 0x12, 0x00, 0x00, 0x00, 0x00, 0x00, 0x00,
     0xbf, 0x21, 0x00, 0x00, 0x00, 0x00, 0x00, 0x00,
     0x05, 0x00, 0xe5, 0xff, 0x00, 0x00, 0x00, 0x00,
     0xb7, 0x03, 0x00, 0x00, 0x03, 0x00, 0x00, 0x00,
     0x71, 0x24, 0x02, 0x00, 0x00, 0x00, 0x00, 0x00,
     0x67, 0x04, 0x00, 0x00, 0x38, 0x00, 0x00, 0x00,
     0xc7, 0x04, 0x00, 0x00, 0x38, 0x00, 0x00, 0x00,
     0x65, 0x04, 0xde, 0xff, 0xff, 0xff, 0xff, 0xff,
     0xb7, 0x03, 0x00, 0x00, 0x04, 0x00, 0x00, 0x00,
     0x71, 0x24, 0x03, 0x00, 0x00, 0x00, 0x00, 0x00,
     0x67, 0x04, 0x00, 0x00, 0x38, 0x00, 0x00, 0x00,
     0xc7, 0x04, 0x00, 0x00, 0x38, 0x00, 0x00, 0x00,
     0x65, 0x04, 0xd9, 0xff, 0xff, 0xff, 0xff, 0xff,
     0x18, 0x00, 0x00, 0x00, 0xea, 0xff, 0xff, 0xff,
     0x00, 0x00, 0x00, 0x00, 0x01, 0x00, 0x00, 0x00,
     0x71, 0x24, 0x04, 0x00, 0x00, 0x00, 0x00, 0x00,
     0x67, 0x04, 0x00, 0x00, 0x38, 0x00, 0x00, 0x00,
     0xc7, 0x04, 0x00, 0x00, 0x38, 0x00, 0x00, 0x00,
     0xb7, 0x03, 0x00, 0x00, 0x01, 0x00, 0x00, 0x00,
     0x65, 0x04, 0xdd, 0xff, 0xff, 0xff, 0xff, 0xff,
     0x05, 0x00, 0xd1, 0xff, 0x00, 0x00, 0x00, 0x00,
     0x00]"

definition AMNESIA33_cve_2020_17445 :: "u8 list" where
  "AMNESIA33_cve_2020_17445 =
    [0x61, 0x12, 0x00, 0x00, 0x00, 0x00, 0x00, 0x00,
     0x61, 0x13, 0x08, 0x00, 0x00, 0x00, 0x00, 0x00,
     0x07, 0x03, 0x00, 0x00, 0x02, 0x00, 0x00, 0x00,
     0x71, 0x21, 0x01, 0x00, 0x00, 0x00, 0x00, 0x00,
     0x07, 0x02, 0x00, 0x00, 0x02, 0x00, 0x00, 0x00,
     0x67, 0x01, 0x00, 0x00, 0x03, 0x00, 0x00, 0x00,
     0x47, 0x01, 0x00, 0x00, 0x06, 0x00, 0x00, 0x00,
     0x18, 0x00, 0x00, 0x00, 0x00, 0x00, 0x00, 0x00,
     0x00, 0x00, 0x00, 0x00, 0x01, 0x00, 0x00, 0x00,
     0x18, 0x04, 0x00, 0x00, 0xff, 0xff, 0xff, 0xff,
     0x00, 0x00, 0x00, 0x00, 0x00, 0x00, 0x00, 0x00,
     0x71, 0x25, 0x01, 0x00, 0x00, 0x00, 0x00, 0x00,
     0x07, 0x05, 0x00, 0x00, 0x02, 0x00, 0x00, 0x00,
     0xbf, 0x57, 0x00, 0x00, 0x00, 0x00, 0x00, 0x00,
     0x57, 0x07, 0x00, 0x00, 0xff, 0x00, 0x00, 0x00,
     0x15, 0x07, 0x11, 0x00, 0x00, 0x00, 0x00, 0x00,
     0xbf, 0x36, 0x00, 0x00, 0x00, 0x00, 0x00, 0x00,
     0x0f, 0x76, 0x00, 0x00, 0x00, 0x00, 0x00, 0x00,
     0xbf, 0x67, 0x00, 0x00, 0x00, 0x00, 0x00, 0x00,
     0x67, 0x07, 0x00, 0x00, 0x20, 0x00, 0x00, 0x00,
     0x77, 0x07, 0x00, 0x00, 0x20, 0x00, 0x00, 0x00,
     0x67, 0x03, 0x00, 0x00, 0x20, 0x00, 0x00, 0x00,
     0x77, 0x03, 0x00, 0x00, 0x20, 0x00, 0x00, 0x00,
     0x3d, 0x73, 0x09, 0x00, 0x00, 0x00, 0x00, 0x00,
     0x1f, 0x51, 0x00, 0x00, 0x00, 0x00, 0x00, 0x00,
     0x57, 0x05, 0x00, 0x00, 0xff, 0x00, 0x00, 0x00,
     0x0f, 0x52, 0x00, 0x00, 0x00, 0x00, 0x00, 0x00,
     0xb7, 0x04, 0x00, 0x00, 0x00, 0x00, 0x00, 0x00,
     0xbf, 0x15, 0x00, 0x00, 0x00, 0x00, 0x00, 0x00,
     0x57, 0x05, 0x00, 0x00, 0xff, 0x00, 0x00, 0x00,
     0xbf, 0x63, 0x00, 0x00, 0x00, 0x00, 0x00, 0x00,
     0xb7, 0x00, 0x00, 0x00, 0x00, 0x00, 0x00, 0x00,
     0x55, 0x05, 0xe6, 0xff, 0x00, 0x00, 0x00, 0x00,
     0x4f, 0x40, 0x00, 0x00, 0x00, 0x00, 0x00, 0x00,
     0x95, 0x00, 0x00, 0x00, 0x00, 0x00, 0x00, 0x00,
     0x00]"

definition AMNESIA33_cve_2020_17445_SFI :: "u8 list" where
  "AMNESIA33_cve_2020_17445_SFI =
    [0xb7, 0x08, 0x00, 0x00, 0x00, 0x00, 0x00, 0x00,
     0x61, 0x12, 0x00, 0x00, 0x00, 0x00, 0x00, 0x00,
     0x61, 0x13, 0x08, 0x00, 0x00, 0x00, 0x00, 0x00,
     0x07, 0x03, 0x00, 0x00, 0x02, 0x00, 0x00, 0x00,
     0x71, 0x21, 0x01, 0x00, 0x00, 0x00, 0x00, 0x00,
     0x07, 0x02, 0x00, 0x00, 0x02, 0x00, 0x00, 0x00,
     0x67, 0x01, 0x00, 0x00, 0x03, 0x00, 0x00, 0x00,
     0x47, 0x01, 0x00, 0x00, 0x06, 0x00, 0x00, 0x00,
     0x18, 0x00, 0x00, 0x00, 0xff, 0xff, 0xff, 0xff,
     0x00, 0x00, 0x00, 0x00, 0x00, 0x00, 0x00, 0x00,
     0x18, 0x04, 0x00, 0x00, 0x00, 0x00, 0x00, 0x00,
     0x00, 0x00, 0x00, 0x00, 0x01, 0x00, 0x00, 0x00,
     0x71, 0x25, 0x01, 0x00, 0x00, 0x00, 0x00, 0x00,
     0x07, 0x05, 0x00, 0x00, 0x02, 0x00, 0x00, 0x00,
     0xbf, 0x57, 0x00, 0x00, 0x00, 0x00, 0x00, 0x00,
     0x57, 0x07, 0x00, 0x00, 0xff, 0x00, 0x00, 0x00,
     0x15, 0x07, 0x13, 0x00, 0x00, 0x00, 0x00, 0x00,
     0xbf, 0x36, 0x00, 0x00, 0x00, 0x00, 0x00, 0x00,
     0x0f, 0x76, 0x00, 0x00, 0x00, 0x00, 0x00, 0x00,
     0xbf, 0x67, 0x00, 0x00, 0x00, 0x00, 0x00, 0x00,
     0x67, 0x07, 0x00, 0x00, 0x20, 0x00, 0x00, 0x00,
     0x77, 0x07, 0x00, 0x00, 0x20, 0x00, 0x00, 0x00,
     0x67, 0x03, 0x00, 0x00, 0x20, 0x00, 0x00, 0x00,
     0x77, 0x03, 0x00, 0x00, 0x20, 0x00, 0x00, 0x00,
     0x3d, 0x73, 0x0b, 0x00, 0x00, 0x00, 0x00, 0x00,
     0x1f, 0x51, 0x00, 0x00, 0x00, 0x00, 0x00, 0x00,
     0x57, 0x05, 0x00, 0x00, 0xff, 0x00, 0x00, 0x00,
     0x0f, 0x52, 0x00, 0x00, 0x00, 0x00, 0x00, 0x00,
     0xb7, 0x04, 0x00, 0x00, 0x00, 0x00, 0x00, 0x00,
     0xbf, 0x15, 0x00, 0x00, 0x00, 0x00, 0x00, 0x00,
     0x57, 0x05, 0x00, 0x00, 0xff, 0x00, 0x00, 0x00,
     0xbf, 0x63, 0x00, 0x00, 0x00, 0x00, 0x00, 0x00,
     0xb7, 0x00, 0x00, 0x00, 0x00, 0x00, 0x00, 0x00,
     0x07, 0x08, 0x00, 0x00, 0x01, 0x00, 0x00, 0x00,
     0x65, 0x08, 0x03, 0x00, 0x00, 0x08, 0x00, 0x00,
     0x55, 0x05, 0xe4, 0xff, 0x00, 0x00, 0x00, 0x00,
     0x4f, 0x40, 0x00, 0x00, 0x00, 0x00, 0x00, 0x00,
     0x95, 0x00, 0x00, 0x00, 0x00, 0x00, 0x00, 0x00,
     0xb7, 0x00, 0x00, 0x00, 0x01, 0x00, 0x00, 0x00,
     0x67, 0x00, 0x00, 0x00, 0x20, 0x00, 0x00, 0x00,
     0x95, 0x00, 0x00, 0x00, 0x00, 0x00, 0x00, 0x00,
     0x00]"

subsection \<open>Fixed patches\<close>

definition dummy_bug_function :: "u8 list" where
  "dummy_bug_function =
    [0xb7, 0x00, 0x00, 0x00, 0x00, 0x00, 0x00, 0x00,
     0x95, 0x00, 0x00, 0x00, 0x00, 0x00, 0x00, 0x00,
     0x00]"

definition fixed_zephyr_cve_10063 :: "u8 list" where
  "fixed_zephyr_cve_10063 =
    [0x61, 0x11, 0x04, 0x00, 0x00, 0x00, 0x00, 0x00,
     0x07, 0x01, 0x00, 0x00, 0x05, 0x00, 0x00, 0x00,
     0x67, 0x01, 0x00, 0x00, 0x20, 0x00, 0x00, 0x00,
     0x77, 0x01, 0x00, 0x00, 0x20, 0x00, 0x00, 0x00,
     0x69, 0x12, 0x00, 0x00, 0x00, 0x00, 0x00, 0x00,
     0x18, 0x01, 0x00, 0x00, 0xea, 0xff, 0xff, 0xff,
     0x00, 0x00, 0x00, 0x00, 0x00, 0x00, 0x00, 0x00,
     0x25, 0x02, 0x01, 0x00, 0xff, 0xef, 0x00, 0x00,
     0xb7, 0x01, 0x00, 0x00, 0x00, 0x00, 0x00, 0x00,
     0xb7, 0x00, 0x00, 0x00, 0x01, 0x00, 0x00, 0x00,
     0x25, 0x02, 0x01, 0x00, 0xff, 0xef, 0x00, 0x00,
     0xb7, 0x00, 0x00, 0x00, 0x00, 0x00, 0x00, 0x00,
     0x67, 0x00, 0x00, 0x00, 0x20, 0x00, 0x00, 0x00,
     0x4f, 0x10, 0x00, 0x00, 0x00, 0x00, 0x00, 0x00,
     0x95, 0x00, 0x00, 0x00, 0x00, 0x00, 0x00, 0x00,
     0x00]"

definition fixed_zephyr_cve_10062 :: "u8 list" where
  "fixed_zephyr_cve_10062 =
    [0xb7, 0x06, 0x00, 0x00, 0x00, 0x00, 0x00, 0x00,
     0xb7, 0x04, 0x00, 0x00, 0x01, 0x00, 0x00, 0x00,
     0x61, 0x11, 0x00, 0x00, 0x00, 0x00, 0x00, 0x00,
     0x79, 0x12, 0x00, 0x00, 0x00, 0x00, 0x00, 0x00,
     0x71, 0x21, 0x00, 0x00, 0x00, 0x00, 0x00, 0x00,
     0x67, 0x01, 0x00, 0x00, 0x38, 0x00, 0x00, 0x00,
     0xc7, 0x01, 0x00, 0x00, 0x38, 0x00, 0x00, 0x00,
     0xb7, 0x03, 0x00, 0x00, 0x00, 0x00, 0x00, 0x00,
     0x65, 0x01, 0x07, 0x00, 0xff, 0xff, 0xff, 0xff,
     0xb7, 0x06, 0x00, 0x00, 0x01, 0x00, 0x00, 0x00,
     0x71, 0x25, 0x01, 0x00, 0x00, 0x00, 0x00, 0x00,
     0x67, 0x05, 0x00, 0x00, 0x38, 0x00, 0x00, 0x00,
     0xc7, 0x05, 0x00, 0x00, 0x38, 0x00, 0x00, 0x00,
     0xb7, 0x04, 0x00, 0x00, 0x00, 0x00, 0x00, 0x00,
     0xb7, 0x03, 0x00, 0x00, 0x01, 0x00, 0x00, 0x00,
     0x6d, 0x54, 0x33, 0x00, 0x00, 0x00, 0x00, 0x00,
     0x57, 0x01, 0x00, 0x00, 0x7f, 0x00, 0x00, 0x00,
     0x55, 0x04, 0x29, 0x00, 0x00, 0x00, 0x00, 0x00,
     0xb7, 0x04, 0x00, 0x00, 0x07, 0x00, 0x00, 0x00,
     0xb7, 0x05, 0x00, 0x00, 0x01, 0x00, 0x00, 0x00,
     0xbf, 0x30, 0x00, 0x00, 0x00, 0x00, 0x00, 0x00,
     0x57, 0x00, 0x00, 0x00, 0x01, 0x00, 0x00, 0x00,
     0x55, 0x06, 0x1b, 0x00, 0x00, 0x00, 0x00, 0x00,
     0xb7, 0x05, 0x00, 0x00, 0x00, 0x00, 0x00, 0x00,
     0xb7, 0x04, 0x00, 0x00, 0x07, 0x00, 0x00, 0x00,
     0x57, 0x03, 0x00, 0x00, 0x02, 0x00, 0x00, 0x00,
     0xbf, 0x27, 0x00, 0x00, 0x00, 0x00, 0x00, 0x00,
     0x0f, 0x57, 0x00, 0x00, 0x00, 0x00, 0x00, 0x00,
     0x71, 0x76, 0x02, 0x00, 0x00, 0x00, 0x00, 0x00,
     0x57, 0x06, 0x00, 0x00, 0x7f, 0x00, 0x00, 0x00,
     0xbf, 0x48, 0x00, 0x00, 0x00, 0x00, 0x00, 0x00,
     0x07, 0x08, 0x00, 0x00, 0x07, 0x00, 0x00, 0x00,
     0x67, 0x08, 0x00, 0x00, 0x20, 0x00, 0x00, 0x00,
     0x77, 0x08, 0x00, 0x00, 0x20, 0x00, 0x00, 0x00,
     0x6f, 0x86, 0x00, 0x00, 0x00, 0x00, 0x00, 0x00,
     0x71, 0x77, 0x01, 0x00, 0x00, 0x00, 0x00, 0x00,
     0x57, 0x07, 0x00, 0x00, 0x7f, 0x00, 0x00, 0x00,
     0xbf, 0x48, 0x00, 0x00, 0x00, 0x00, 0x00, 0x00,
     0x67, 0x08, 0x00, 0x00, 0x20, 0x00, 0x00, 0x00,
     0x77, 0x08, 0x00, 0x00, 0x20, 0x00, 0x00, 0x00,
     0x6f, 0x87, 0x00, 0x00, 0x00, 0x00, 0x00, 0x00,
     0x0f, 0x17, 0x00, 0x00, 0x00, 0x00, 0x00, 0x00,
     0x0f, 0x76, 0x00, 0x00, 0x00, 0x00, 0x00, 0x00,
     0x07, 0x04, 0x00, 0x00, 0x0e, 0x00, 0x00, 0x00,
     0x07, 0x05, 0x00, 0x00, 0x02, 0x00, 0x00, 0x00,
     0xbf, 0x61, 0x00, 0x00, 0x00, 0x00, 0x00, 0x00,
     0x1d, 0x53, 0x01, 0x00, 0x00, 0x00, 0x00, 0x00,
     0x05, 0x00, 0xea, 0xff, 0x00, 0x00, 0x00, 0x00,
     0x07, 0x05, 0x00, 0x00, 0x01, 0x00, 0x00, 0x00,
     0xbf, 0x61, 0x00, 0x00, 0x00, 0x00, 0x00, 0x00,
     0x15, 0x00, 0x08, 0x00, 0x00, 0x00, 0x00, 0x00,
     0x0f, 0x52, 0x00, 0x00, 0x00, 0x00, 0x00, 0x00,
     0x71, 0x22, 0x00, 0x00, 0x00, 0x00, 0x00, 0x00,
     0x57, 0x02, 0x00, 0x00, 0x7f, 0x00, 0x00, 0x00,
     0x67, 0x04, 0x00, 0x00, 0x20, 0x00, 0x00, 0x00,
     0x77, 0x04, 0x00, 0x00, 0x20, 0x00, 0x00, 0x00,
     0x6f, 0x42, 0x00, 0x00, 0x00, 0x00, 0x00, 0x00,
     0x0f, 0x12, 0x00, 0x00, 0x00, 0x00, 0x00, 0x00,
     0xbf, 0x21, 0x00, 0x00, 0x00, 0x00, 0x00, 0x00,
     0x67, 0x01, 0x00, 0x00, 0x20, 0x00, 0x00, 0x00,
     0x77, 0x01, 0x00, 0x00, 0x20, 0x00, 0x00, 0x00,
     0x18, 0x00, 0x00, 0x00, 0xea, 0xff, 0xff, 0xff,
     0x00, 0x00, 0x00, 0x00, 0x01, 0x00, 0x00, 0x00,
     0x25, 0x01, 0x02, 0x00, 0xff, 0xff, 0xff, 0x0f,
     0x18, 0x00, 0x00, 0x00, 0x2b, 0x02, 0x00, 0x00,
     0x00, 0x00, 0x00, 0x00, 0x02, 0x00, 0x00, 0x00,
     0x95, 0x00, 0x00, 0x00, 0x00, 0x00, 0x00, 0x00,
     0xb7, 0x03, 0x00, 0x00, 0x02, 0x00, 0x00, 0x00,
     0xb7, 0x04, 0x00, 0x00, 0x00, 0x00, 0x00, 0x00,
     0x71, 0x25, 0x02, 0x00, 0x00, 0x00, 0x00, 0x00,
     0x67, 0x05, 0x00, 0x00, 0x38, 0x00, 0x00, 0x00,
     0xc7, 0x05, 0x00, 0x00, 0x38, 0x00, 0x00, 0x00,
     0xb7, 0x06, 0x00, 0x00, 0x00, 0x00, 0x00, 0x00,
     0x65, 0x05, 0xc6, 0xff, 0xff, 0xff, 0xff, 0xff,
     0xb7, 0x03, 0x00, 0x00, 0x03, 0x00, 0x00, 0x00,
     0x71, 0x25, 0x03, 0x00, 0x00, 0x00, 0x00, 0x00,
     0x67, 0x05, 0x00, 0x00, 0x38, 0x00, 0x00, 0x00,
     0xc7, 0x05, 0x00, 0x00, 0x38, 0x00, 0x00, 0x00,
     0xb7, 0x06, 0x00, 0x00, 0x00, 0x00, 0x00, 0x00,
     0x65, 0x05, 0xc0, 0xff, 0xff, 0xff, 0xff, 0xff,
     0xb7, 0x06, 0x00, 0x00, 0x00, 0x00, 0x00, 0x00,
     0xb7, 0x04, 0x00, 0x00, 0x01, 0x00, 0x00, 0x00,
     0x18, 0x00, 0x00, 0x00, 0xea, 0xff, 0xff, 0xff,
     0x00, 0x00, 0x00, 0x00, 0x01, 0x00, 0x00, 0x00,
     0x71, 0x25, 0x04, 0x00, 0x00, 0x00, 0x00, 0x00,
     0x67, 0x05, 0x00, 0x00, 0x38, 0x00, 0x00, 0x00,
     0xc7, 0x05, 0x00, 0x00, 0x38, 0x00, 0x00, 0x00,
     0xb7, 0x03, 0x00, 0x00, 0x00, 0x00, 0x00, 0x00,
     0x65, 0x05, 0xe9, 0xff, 0xff, 0xff, 0xff, 0xff,
     0x05, 0x00, 0xb6, 0xff, 0x00, 0x00, 0x00, 0x00,
     0x00]"

definition fixed_AMNESIA33_cve_2020_17445 :: "u8 list" where
  "fixed_AMNESIA33_cve_2020_17445 =
    [0x61, 0x12, 0x00, 0x00, 0x00, 0x00, 0x00, 0x00,
     0x61, 0x13, 0x08, 0x00, 0x00, 0x00, 0x00, 0x00,
     0x07, 0x03, 0x00, 0x00, 0x02, 0x00, 0x00, 0x00,
     0x71, 0x21, 0x01, 0x00, 0x00, 0x00, 0x00, 0x00,
     0x07, 0x02, 0x00, 0x00, 0x02, 0x00, 0x00, 0x00,
     0x67, 0x01, 0x00, 0x00, 0x03, 0x00, 0x00, 0x00,
     0x47, 0x01, 0x00, 0x00, 0x06, 0x00, 0x00, 0x00,
     0x18, 0x00, 0x00, 0x00, 0x00, 0x00, 0x00, 0x00,
     0x00, 0x00, 0x00, 0x00, 0x01, 0x00, 0x00, 0x00,
     0x18, 0x04, 0x00, 0x00, 0xff, 0xff, 0xff, 0xff,
     0x00, 0x00, 0x00, 0x00, 0x00, 0x00, 0x00, 0x00,
     0x71, 0x25, 0x01, 0x00, 0x00, 0x00, 0x00, 0x00,
     0x07, 0x05, 0x00, 0x00, 0x02, 0x00, 0x00, 0x00,
     0xbf, 0x57, 0x00, 0x00, 0x00, 0x00, 0x00, 0x00,
     0x57, 0x07, 0x00, 0x00, 0xff, 0x00, 0x00, 0x00,
     0x15, 0x07, 0x11, 0x00, 0x00, 0x00, 0x00, 0x00,
     0xbf, 0x36, 0x00, 0x00, 0x00, 0x00, 0x00, 0x00,
     0x0f, 0x76, 0x00, 0x00, 0x00, 0x00, 0x00, 0x00,
     0xbf, 0x67, 0x00, 0x00, 0x00, 0x00, 0x00, 0x00,
     0x67, 0x07, 0x00, 0x00, 0x20, 0x00, 0x00, 0x00,
     0x77, 0x07, 0x00, 0x00, 0x20, 0x00, 0x00, 0x00,
     0x67, 0x03, 0x00, 0x00, 0x20, 0x00, 0x00, 0x00,
     0x77, 0x03, 0x00, 0x00, 0x20, 0x00, 0x00, 0x00,
     0x3d, 0x73, 0x09, 0x00, 0x00, 0x00, 0x00, 0x00,
     0x1f, 0x51, 0x00, 0x00, 0x00, 0x00, 0x00, 0x00,
     0x57, 0x05, 0x00, 0x00, 0xff, 0x00, 0x00, 0x00,
     0x0f, 0x52, 0x00, 0x00, 0x00, 0x00, 0x00, 0x00,
     0xb7, 0x04, 0x00, 0x00, 0x00, 0x00, 0x00, 0x00,
     0xbf, 0x15, 0x00, 0x00, 0x00, 0x00, 0x00, 0x00,
     0x57, 0x05, 0x00, 0x00, 0xff, 0x00, 0x00, 0x00,
     0xbf, 0x63, 0x00, 0x00, 0x00, 0x00, 0x00, 0x00,
     0xb7, 0x00, 0x00, 0x00, 0x00, 0x00, 0x00, 0x00,
     0x55, 0x05, 0xe6, 0xff, 0x00, 0x00, 0x00, 0x00,
     0x4f, 0x40, 0x00, 0x00, 0x00, 0x00, 0x00, 0x00,
     0x95, 0x00, 0x00, 0x00, 0x00, 0x00, 0x00, 0x00,
     0x00]"

definition fixed_AMNESIA33_cve_2020_17445_SFI :: "u8 list" where
  "fixed_AMNESIA33_cve_2020_17445_SFI =
    [0xb7, 0x08, 0x00, 0x00, 0x00, 0x00, 0x00, 0x00,
     0x61, 0x12, 0x00, 0x00, 0x00, 0x00, 0x00, 0x00,
     0x61, 0x13, 0x08, 0x00, 0x00, 0x00, 0x00, 0x00,
     0x07, 0x03, 0x00, 0x00, 0x02, 0x00, 0x00, 0x00,
     0x71, 0x21, 0x01, 0x00, 0x00, 0x00, 0x00, 0x00,
     0x07, 0x02, 0x00, 0x00, 0x02, 0x00, 0x00, 0x00,
     0x67, 0x01, 0x00, 0x00, 0x03, 0x00, 0x00, 0x00,
     0x47, 0x01, 0x00, 0x00, 0x06, 0x00, 0x00, 0x00,
     0x18, 0x00, 0x00, 0x00, 0xff, 0xff, 0xff, 0xff,
     0x00, 0x00, 0x00, 0x00, 0x00, 0x00, 0x00, 0x00,
     0x18, 0x04, 0x00, 0x00, 0x00, 0x00, 0x00, 0x00,
     0x00, 0x00, 0x00, 0x00, 0x01, 0x00, 0x00, 0x00,
     0x71, 0x25, 0x01, 0x00, 0x00, 0x00, 0x00, 0x00,
     0x07, 0x05, 0x00, 0x00, 0x02, 0x00, 0x00, 0x00,
     0xbf, 0x57, 0x00, 0x00, 0x00, 0x00, 0x00, 0x00,
     0x57, 0x07, 0x00, 0x00, 0xff, 0x00, 0x00, 0x00,
     0x15, 0x07, 0x13, 0x00, 0x00, 0x00, 0x00, 0x00,
     0xbf, 0x36, 0x00, 0x00, 0x00, 0x00, 0x00, 0x00,
     0x0f, 0x76, 0x00, 0x00, 0x00, 0x00, 0x00, 0x00,
     0xbf, 0x67, 0x00, 0x00, 0x00, 0x00, 0x00, 0x00,
     0x67, 0x07, 0x00, 0x00, 0x20, 0x00, 0x00, 0x00,
     0x77, 0x07, 0x00, 0x00, 0x20, 0x00, 0x00, 0x00,
     0x67, 0x03, 0x00, 0x00, 0x20, 0x00, 0x00, 0x00,
     0x77, 0x03, 0x00, 0x00, 0x20, 0x00, 0x00, 0x00,
     0x3d, 0x73, 0x0b, 0x00, 0x00, 0x00, 0x00, 0x00,
     0x1f, 0x51, 0x00, 0x00, 0x00, 0x00, 0x00, 0x00,
     0x57, 0x05, 0x00, 0x00, 0xff, 0x00, 0x00, 0x00,
     0x0f, 0x52, 0x00, 0x00, 0x00, 0x00, 0x00, 0x00,
     0xb7, 0x04, 0x00, 0x00, 0x00, 0x00, 0x00, 0x00,
     0xbf, 0x15, 0x00, 0x00, 0x00, 0x00, 0x00, 0x00,
     0x57, 0x05, 0x00, 0x00, 0xff, 0x00, 0x00, 0x00,
     0xbf, 0x63, 0x00, 0x00, 0x00, 0x00, 0x00, 0x00,
     0xb7, 0x00, 0x00, 0x00, 0x00, 0x00, 0x00, 0x00,
     0x07, 0x08, 0x00, 0x00, 0x01, 0x00, 0x00, 0x00,
     0x65, 0x08, 0x03, 0x00, 0x00, 0x08, 0x00, 0x00,
     0x55, 0x05, 0xe4, 0xff, 0x00, 0x00, 0x00, 0x00,
     0x4f, 0x40, 0x00, 0x00, 0x00, 0x00, 0x00, 0x00,
     0x95, 0x00, 0x00, 0x00, 0x00, 0x00, 0x00, 0x00,
     0xb7, 0x00, 0x00, 0x00, 0x01, 0x00, 0x00, 0x00,
     0x67, 0x00, 0x00, 0x00, 0x20, 0x00, 0x00, 0x00,
     0x95, 0x00, 0x00, 0x00, 0x00, 0x00, 0x00, 0x00,
     0x00]"

subsection \<open>Symbolic execution\<close>

text \<open>One turn of the loop while the iteration counter is far from its limit.\<close>

lemma vm_loop_turn:
  "tick \<le> 32768 \<Longrightarrow> vm_loop g vm f tick s =
     (case vm_step g vm f s of Inl r \<Rightarrow> (r, s) | Inr s' \<Rightarrow> vm_loop g vm f (tick + 1) s')"
  by (subst vm_loop.simps) (simp add: iters_check_def MAX_ITERS_def split: sum.splits)

lemmas run_congs = sum.case_cong_weak vm_effect.case_cong_weak if_weak_cong option.case_cong_weak

lemma decode_test_cve: "decode_insts test_cve =
  [\<lparr>opcode = 97, i_dst = 1, i_src = 1, i_off = 0, i_imm = 0\<rparr>,
   \<lparr>opcode = 7, i_dst = 1, i_src = 0, i_off = 0, i_imm = 0xfffff82f\<rparr>,
   \<lparr>opcode = 103, i_dst = 1, i_src = 0, i_off = 0, i_imm = 32\<rparr>,
   \<lparr>opcode = 119, i_dst = 1, i_src = 0, i_off = 0, i_imm = 32\<rparr>,
   \<lparr>opcode = 183, i_dst = 0, i_src = 0, i_off = 0, i_imm = 1\<rparr>,
   \<lparr>opcode = 183, i_dst = 2, i_src = 0, i_off = 0, i_imm = 3000\<rparr>,
   \<lparr>opcode = 45, i_dst = 2, i_src = 1, i_off = 1, i_imm = 0\<rparr>,
   \<lparr>opcode = 183, i_dst = 0, i_src = 0, i_off = 0, i_imm = 0\<rparr>,
   \<lparr>opcode = 103, i_dst = 0, i_src = 0, i_off = 0, i_imm = 32\<rparr>,
   \<lparr>opcode = 149, i_dst = 0, i_src = 0, i_off = 0, i_imm = 0\<rparr>]"
  by (simp add: test_cve_def le16_def le32_def)

lemma twelve_regs:
  assumes "length regs0 = MAX_BPF_EXT_REG"
  obtains a0 a1 a2 a3 a4 a5 a6 a7 a8 a9 a10 a11
    where "regs0 = [a0, a1, a2, a3, a4, a5, a6, a7, a8, a9, a10, a11]"
  using assms by (auto simp: MAX_BPF_EXT_REG_def numeral_eq_Suc length_Suc_conv)

lemma push_high: "push_bit 32 v = push_bit 32 (zx (lo v))" for v :: u64
  by (rule bit_word_eqI) (auto simp: bit_simps)

lemma low_half: "drop_bit 32 (push_bit 32 v) = zx (lo v)" for v :: u64
  by (auto simp: bit_eq_iff bit_simps)

lemma test_cve_range: "x - 2001 < (3000 :: u32) \<longleftrightarrow> 2000 < sint x \<and> sint x \<le> 5000"
proof -
  define n where "n = unat x"
  have u: "uint x = int n" "unat x = n" by (simp_all add: n_def)
  show ?thesis
    using unat_lt_numeral_32 [of x] unfolding sint_32_cases word_less_nat_alt u
    by (simp add: unat_sub_if_size word_size word_le_nat_alt u) linarith
qed

lemma test_cve_branch:
  "drop_bit 32 (push_bit 32 (zx x - 2001)) < 3000 \<longleftrightarrow> 2000 < sint x \<and> sint x \<le> 5000"
proof -
  have "drop_bit 32 (push_bit 32 (zx x - 2001)) = zx (x - 2001)"
    by (simp add: low_half ucast_diff_64)
  moreover have "zx (x - 2001) < 3000 \<longleftrightarrow> x - 2001 < 3000"
    by (simp add: word_less_nat_alt)
  ultimately show ?thesis by (simp add: test_cve_range)
qed

subsection \<open>Compiled filters\<close>

text \<open>What the interpreter answers for the result of a filter: a failed read is a fault.\<close>

definition filter_result :: "u64 option \<Rightarrow> vm_result" where
  "filter_result v = (case v of None \<Rightarrow> Undef MemFault | Some r \<Rightarrow> Ret r)"

text \<open>The contract between a patch and the interpreter: with checking off (no caller turns
  it on) the code computes the filter, on every frame, memory and initial register content,
  and leaves memory alone.\<close>

locale compiled_filter =
  fixes code :: "u8 list" and flt :: "memory \<Rightarrow> u32 \<Rightarrow> u64 option"
  assumes runs: "insts vm = decode_insts code \<Longrightarrow> \<not> bounds_check_enabled vm \<Longrightarrow>
    length regs0 = MAX_BPF_EXT_REG \<Longrightarrow>
    ebpf_vm_exec g vm f regs0 w = (filter_result (flt (w_mem w) (f_mem f)), w)"
begin

lemma independent_of_registers:
  assumes "insts vm = decode_insts code" "\<not> bounds_check_enabled vm"
    and "length regs0 = MAX_BPF_EXT_REG" "length regs1 = MAX_BPF_EXT_REG"
  shows "ebpf_vm_exec g vm f regs0 w = ebpf_vm_exec g' vm f regs1 w"
  using assms by (simp add: runs)

lemma never_times_out:
  assumes "insts vm = decode_insts code" "\<not> bounds_check_enabled vm"
    and "length regs0 = MAX_BPF_EXT_REG"
  shows "fst (ebpf_vm_exec g vm f regs0 w) \<noteq> IterLimit"
  using assms by (simp add: runs filter_result_def split: option.split)

end

lemma test_cve_runs:
  assumes "insts vm = decode_insts test_cve" and "length regs0 = MAX_BPF_EXT_REG"
  shows "ebpf_vm_exec g vm f regs0 w = (filter_result (fix_bug (w_mem w) (f_mem f)), w)"
proof (rule twelve_regs [OF assms(2)], cases "mem_load (w_mem w) (f_mem f) 4")
  case None
  fix a0 a1 a2 a3 a4 a5 a6 a7 a8 a9 a10 a11
  assume r: "regs0 = [a0, a1, a2, a3, a4, a5, a6, a7, a8, a9, a10, a11]"
  show ?thesis unfolding ebpf_vm_exec_def r
    by (simp add: assms(1) None fix_bug_def frame_get_def filter_result_def vm_loop_turn run_defs decode_test_cve
        cong: run_congs)
next
  case (Some v)
  fix a0 a1 a2 a3 a4 a5 a6 a7 a8 a9 a10 a11
  assume r: "regs0 = [a0, a1, a2, a3, a4, a5, a6, a7, a8, a9, a10, a11]"
  from Some obtain x where x: "mem_load (w_mem w) (f_mem f) 4 = Some (zx x)"
    using mem_load_4 by blast
  have fx: "fix_bug (w_mem w) (f_mem f) =
    Some (if 2000 < sint x \<and> sint x \<le> 5000 then 0x100000000 else 0)"
    by (simp add: fix_bug_def frame_get_def x set_return_def filter_ops)
  show ?thesis
  proof (cases "2000 < sint x \<and> sint x \<le> 5000")
    case True
    then have b: "drop_bit 32 (push_bit 32 (zx x - 2001)) < 3000" by (simp only: test_cve_branch)
    show ?thesis unfolding ebpf_vm_exec_def r fx filter_result_def
      by (simp add: assms(1) x b True vm_loop_turn run_defs decode_test_cve cong: run_congs)
  next
    case False
    then have b: "\<not> drop_bit 32 (push_bit 32 (zx x - 2001)) < 3000" using test_cve_branch by blast
    show ?thesis unfolding ebpf_vm_exec_def r fx filter_result_def
      by (simp add: assms(1) x b False vm_loop_turn run_defs decode_test_cve cong: run_congs)
  qed
qed

interpretation tc: compiled_filter test_cve fix_bug
  by unfold_locales (rule test_cve_runs)

text \<open>The shipped patch \<open>test_cve\<close> computes its source \<open>fix_bug\<close>: on every frame, memory and
  initial register content the interpreter returns what the filter returns, and faults
  exactly when the frame's r0 cannot be read.\<close>

theorem test_cve_refines_fix_bug:
  assumes "insts vm = decode_insts test_cve" and "length regs0 = MAX_BPF_EXT_REG"
  shows "ebpf_vm_exec g vm f regs0 w = (filter_result (fix_bug (w_mem w) (f_mem f)), w)"
  using assms by (rule test_cve_runs)

theorem test_cve_refines_fix_bug_witness:
  "ebpf_vm_exec None (zero_vm\<lparr>insts := decode_insts test_cve\<rparr>)
     \<lparr>f_mem = 0x20000000, f_mem_len = 32, f_stack = 0x20001000\<rparr> (replicate 12 0)
     \<lparr>w_mem = (\<lambda>a. Some (if a = 0x20000001 then 12 else 0)), w_dval = 0, w_out = []\<rparr> =
   (Ret 0x100000000, \<lparr>w_mem = (\<lambda>a. Some (if a = 0x20000001 then 12 else 0)), w_dval = 0, w_out = []\<rparr>)"
  by (subst test_cve_refines_fix_bug)
     (simp_all add: filter_result_def fix_bug_def frame_get_def mem_load_def set_return_def filter_ops)

lemma decode_10063: "decode_insts zephyr_cve_10063 =
  [\<lparr>opcode = 97, i_dst = 1, i_src = 1, i_off = 4, i_imm = 0\<rparr>,
   \<lparr>opcode = 7, i_dst = 1, i_src = 0, i_off = 0, i_imm = 5\<rparr>,
   \<lparr>opcode = 103, i_dst = 1, i_src = 0, i_off = 0, i_imm = 32\<rparr>,
   \<lparr>opcode = 119, i_dst = 1, i_src = 0, i_off = 0, i_imm = 32\<rparr>,
   \<lparr>opcode = 105, i_dst = 2, i_src = 1, i_off = 0, i_imm = 0\<rparr>,
   \<lparr>opcode = 24, i_dst = 1, i_src = 0, i_off = 0, i_imm = 0xffffffea\<rparr>,
   \<lparr>opcode = 0, i_dst = 0, i_src = 0, i_off = 0, i_imm = 0\<rparr>,
   \<lparr>opcode = 37, i_dst = 2, i_src = 0, i_off = 1, i_imm = 0xefff\<rparr>,
   \<lparr>opcode = 183, i_dst = 1, i_src = 0, i_off = 0, i_imm = 0\<rparr>,
   \<lparr>opcode = 183, i_dst = 0, i_src = 0, i_off = 0, i_imm = 1\<rparr>,
   \<lparr>opcode = 37, i_dst = 2, i_src = 0, i_off = 1, i_imm = 0xefff\<rparr>,
   \<lparr>opcode = 183, i_dst = 0, i_src = 0, i_off = 0, i_imm = 0\<rparr>,
   \<lparr>opcode = 103, i_dst = 0, i_src = 0, i_off = 0, i_imm = 32\<rparr>,
   \<lparr>opcode = 79, i_dst = 0, i_src = 1, i_off = 0, i_imm = 0\<rparr>,
   \<lparr>opcode = 149, i_dst = 0, i_src = 0, i_off = 0, i_imm = 0\<rparr>]"
  by (simp add: zephyr_cve_10063_def le16_def le32_def)

lemma branch_10063: "mem_load m a 2 = Some v \<Longrightarrow> 0xffff \<le> lo v + 0xfff \<longleftrightarrow> 0xefff < v"
  using mem_load_less [of m a 2 v]
  by (simp add: word_le_nat_alt word_less_nat_alt unat_word_ariths unsigned_ucast_eq
      take_bit_eq_mod) linarith

lemma zephyr_cve_10063_runs:
  assumes "insts vm = decode_insts zephyr_cve_10063" and "\<not> bounds_check_enabled vm"
    and "length regs0 = MAX_BPF_EXT_REG"
  shows "ebpf_vm_exec g vm f regs0 w = (filter_result (filter_10063 (w_mem w) (f_mem f)), w)"
proof (rule twelve_regs [OF assms(3)])
  fix a0 a1 a2 a3 a4 a5 a6 a7 a8 a9 a10 a11
  assume r: "regs0 = [a0, a1, a2, a3, a4, a5, a6, a7, a8, a9, a10, a11]"
  note run = vm_loop_turn run_defs decode_10063 bounds_check_def ucast_add_64 low_half
    filter_result_def filter_10063_def frame_get_def rd_def set_return32_def set_return_def
    EINVAL_def assms(1,2)
  show ?thesis
  proof (cases "mem_load (w_mem w) (f_mem f + 4) 4")
    case None
    then show ?thesis unfolding ebpf_vm_exec_def r by (simp add: run cong: run_congs)
  next
    case (Some u)
    then obtain x where x: "mem_load (w_mem w) (f_mem f + 4) 4 = Some (zx x)"
      using mem_load_4 by blast
    show ?thesis
    proof (cases "mem_load (w_mem w) (x + 5) 2")
      case None
      then show ?thesis unfolding ebpf_vm_exec_def r by (simp add: run x cong: run_congs)
    next
      case (Some v)
      show ?thesis
      proof (cases "0xefff < v")
        case True
        then show ?thesis unfolding ebpf_vm_exec_def r
          by (simp add: run x Some branch_10063 [OF Some] cong: run_congs)
      next
        case False
        then show ?thesis unfolding ebpf_vm_exec_def r
          by (simp add: run x Some branch_10063 [OF Some] cong: run_congs)
      qed
    qed
  qed
qed

interpretation coap: compiled_filter zephyr_cve_10063 filter_10063
  by unfold_locales (rule zephyr_cve_10063_runs)

text \<open>The shipped CoAP patch \<open>zephyr_cve_10063\<close> computes the filter of its source file.\<close>

theorem zephyr_cve_10063_refines:
  assumes "insts vm = decode_insts zephyr_cve_10063" and "\<not> bounds_check_enabled vm"
    and "length regs0 = MAX_BPF_EXT_REG"
  shows "ebpf_vm_exec g vm f regs0 w = (filter_result (filter_10063 (w_mem w) (f_mem f)), w)"
  using assms by (rule coap.runs)

theorem zephyr_cve_10063_refines_witness:
  "ebpf_vm_exec None (zero_vm\<lparr>insts := decode_insts zephyr_cve_10063\<rparr>)
     \<lparr>f_mem = 0x20000000, f_mem_len = 32, f_stack = 0x20001000\<rparr> (replicate 12 0)
     \<lparr>w_mem = (\<lambda>a. Some (if a = 6 then 0xf0 else 0)), w_dval = 0, w_out = []\<rparr> =
   (Ret 0x1ffffffea, \<lparr>w_mem = (\<lambda>a. Some (if a = 6 then 0xf0 else 0)), w_dval = 0, w_out = []\<rparr>)"
  by (subst zephyr_cve_10063_refines)
     (simp_all add: zero_vm_def filter_result_def filter_10063_def frame_get_def mem_load_def
        rd_def set_return32_def set_return_def EINVAL_def)

end
