(* ===== verification/Jit_Sound.thy ===== *)
theory Jit_Sound
  imports Thumb2_Exec Patch_Code
begin

text \<open>
  The compiled code computes what the interpreter computes, for straight-line programs of 64-bit
  moves, additions, subtractions and conjunctions that end with an exit.
\<close>

subsection \<open>Two halves\<close>

definition join :: "u32 \<Rightarrow> u32 \<Rightarrow> u64" where
  "join h l = push_bit 32 (zx h) OR zx l"

definition upper :: "u64 \<Rightarrow> u32" where
  "upper v = ucast (drop_bit 32 v)"

lemma join_halves64 [simp]: "lo (join h l) = l" "upper (join h l) = h" "join (upper v) (lo v) = v"
  by (auto simp: join_def upper_def bit_eq_iff bit_simps dest: bit_imp_le_length)

lemma join_sum: "join h l = push_bit 32 (zx h) + zx l"
  unfolding join_def by (rule disjunctive_add [symmetric]) (auto simp: bit_simps dest: bit_imp_le_length)

lemma push_bit_sum: "push_bit n (v + w) = push_bit n v + push_bit n w" for v w :: u64
  by (simp add: push_bit_eq_mult algebra_simps)

lemma push_bit_minus: "push_bit n (v - w) = push_bit n v - push_bit n w" for v w :: u64
  by (simp add: push_bit_eq_mult algebra_simps)

lemma zx_add: "zx (a + b) = zx a + zx b - (if 2 ^ 32 \<le> unat a + unat b then 0x100000000 else 0)"
proof (rule word_unat_eq_iff [THEN iffD2])
  show "unat (zx (a + b)) = unat (zx a + zx b - (if 2 ^ 32 \<le> unat a + unat b then 0x100000000 else 0))"
    using unat_lt_numeral_32 [of a] unat_lt_numeral_32 [of b]
    by (simp add: unat_word_ariths unat_sub_if_size word_size word_le_nat_alt le_mod_geq)
qed

lemma zx_sub: "zx (a - b) = zx a - zx b + (if b \<le> a then 0 else 0x100000000)"
proof -
  have "zx a = zx (a - b) + zx b - (if 2 ^ 32 \<le> unat (a - b) + unat b then 0x100000000 else 0)"
    using zx_add [of "a - b" b] by simp
  moreover have "2 ^ 32 \<le> unat (a - b) + unat b \<longleftrightarrow> \<not> b \<le> a"
    using unat_lt_numeral_32 [of a] unat_lt_numeral_32 [of b]
    by (auto simp: unat_sub_if_size word_size word_le_nat_alt)
  ultimately show ?thesis by (auto simp: algebra_simps)
qed

lemma join_and: "join (h1 AND h2) (l1 AND l2) = join h1 l1 AND join h2 l2"
  by (auto simp: join_def bit_eq_iff bit_simps dest: bit_imp_le_length)

lemma join_add:
  "join (h1 + h2 + (if 2 ^ 32 \<le> unat l1 + unat l2 then 1 else 0)) (l1 + l2) = join h1 l1 + join h2 l2"
proof -
  have "push_bit 32 (zx (h1 + h2 + c)) = push_bit 32 (zx h1) + push_bit 32 (zx h2) + push_bit 32 (zx c)" for c
    using push_high [of "zx h1 + zx h2 + zx c"] by (simp add: ucast_add_64 push_bit_sum)
  then show ?thesis by (simp add: join_sum zx_add [of l1])
qed

lemma join_sub:
  "join (h1 - h2 - (if l2 \<le> l1 then 0 else 1)) (l1 - l2) = join h1 l1 - join h2 l2"
proof -
  have "push_bit 32 (zx (h1 - h2 - c)) = push_bit 32 (zx h1) - push_bit 32 (zx h2) - push_bit 32 (zx c)" for c
    using push_high [of "zx h1 - zx h2 - zx c"] by (simp add: ucast_diff_64 push_bit_minus)
  then show ?thesis by (simp add: join_sum zx_sub)
qed

subsection \<open>The registers of the program\<close>

definition pair_val :: "thumb \<Rightarrow> reg_pair \<Rightarrow> u64" where
  "pair_val t p = join (t_reg t (hi p)) (t_reg t (lw p))"

definition set_pair :: "reg_pair \<Rightarrow> u64 \<Rightarrow> thumb \<Rightarrow> thumb" where
  "set_pair p v t = set_r (hi p) (upper v) (set_r (lw p) (lo v) t)"

lemma set_pair_simps [simp]: "t_mem (set_pair p v t) = t_mem t" "t_c (set_pair p v t) = t_c t"
  by (simp_all add: set_pair_def)

text \<open>Where the compiled code keeps register \<open>k\<close>: in a pair of registers or in the scratch area below the
  frame pointer.\<close>

definition bpf_val :: "thumb \<Rightarrow> nat \<Rightarrow> u64 option" where
  "bpf_val t k = (let p = bpf2a32 ! k in
     if is_stacked (lw p) then do {
       l \<leftarrow> load32 (t_mem t) (t_reg t 11 + scast (lw p));
       h \<leftarrow> load32 (t_mem t) (t_reg t 11 + scast (hi p));
       Some (join h l)}
     else Some (pair_val t p))"

text \<open>The frame of the compiled function, as words from its lowest address up: 64 words of stack, the upper 20 of
  them the scratch area, and the eight saved registers.\<close>

definition jit_frame :: "u32 \<Rightarrow> thumb \<Rightarrow> bool" where
  "jit_frame b t \<longleftrightarrow> t_reg t 11 = slot b 64 \<and> t_reg t 13 = b \<and> (\<forall>k < 72. load32 (t_mem t) (slot b k) \<noteq> None)"

definition row_slot :: "nat \<Rightarrow> nat" where
  "row_slot k = (if k < 6 then 66 - 2 * k else 68 - 2 * k)"

lemma bpf_val_slot:
  assumes "jit_frame b t" "k < 11"
  shows "bpf_val t k =
    (if k \<in> {0, 1, 6} then Some (pair_val t (bpf2a32 ! k))
     else do { l \<leftarrow> load32 (t_mem t) (slot b (row_slot k)); h \<leftarrow> load32 (t_mem t) (slot b (row_slot k + 1)); Some (join h l) })"
  using less_11 [OF assms(2)] assms(1)
  by (elim insertE emptyE) (simp_all add: bpf_val_def jit_frame_def jit_defs row_slot_def slot_def ac_simps)


text \<open>The register pairs the code works on.\<close>

abbreviation dst_pairs :: "reg_pair set" where "dst_pairs \<equiv> {(1, 0), (3, 2), (5, 4), (7, 6)}"
abbreviation src_pairs :: "reg_pair set" where "src_pairs \<equiv> {(1, 0), (3, 2), (5, 4), (9, 8)}"
abbreviation all_pairs :: "reg_pair set" where "all_pairs \<equiv> {(1, 0), (3, 2), (5, 4), (7, 6), (9, 8)}"

lemmas t_eval = jit_defs thumb_defs opcode_val t_defs

lemma run_ldrd:
  assumes "k < 11" "k \<notin> {0, 1, 6}" "p \<in> all_pairs"
  shows "t_run (emit_ldrd_i p ARM_FP (scast (lw (bpf2a32 ! k)))) t =
    t_exec (T_LDRD (lw p) (hi p) 11 (scast (lw (bpf2a32 ! k)))) t"
  using less_11 [OF assms(1)] assms(2,3) by (elim insertE emptyE; simp add: t_eval)

lemma run_strd:
  assumes "k < 11" "k \<notin> {0, 1, 6}" "p \<in> all_pairs"
  shows "t_run (emit_strd_i p ARM_FP (scast (lw (bpf2a32 ! k)))) t =
    t_exec (T_STRD (lw p) (hi p) 11 (scast (lw (bpf2a32 ! k)))) t"
  using less_11 [OF assms(1)] assms(2,3) by (elim insertE emptyE; simp add: t_eval)

definition alu_ops64 :: "u8 set" where "alu_ops64 = {EBPF_ALU_ADD, EBPF_ALU_SUB, EBPF_ALU_AND}"

definition alu_val :: "u8 \<Rightarrow> u64 \<Rightarrow> u64 \<Rightarrow> u64" where
  "alu_val op x y = (if op = EBPF_ALU_ADD then x + y else if op = EBPF_ALU_SUB then x - y else x AND y)"

definition alu_carry :: "u8 \<Rightarrow> thumb \<Rightarrow> reg_pair \<Rightarrow> reg_pair \<Rightarrow> bool" where
  "alu_carry op t p q =
     (if op = EBPF_ALU_ADD then 2 ^ 32 \<le> unat (t_reg t (lw q)) + unat (t_reg t (lw p))
      else if op = EBPF_ALU_SUB then t_reg t (lw q) \<le> t_reg t (lw p) else t_c t)"

text \<open>The two instructions of an operation: the low half, then the high half with the carry.\<close>

definition alu_insts :: "u8 \<Rightarrow> reg_pair \<Rightarrow> reg_pair \<Rightarrow> t_inst \<times> t_inst" where
  "alu_insts op p q =
     (if op = EBPF_ALU_ADD then (T_ADDS (lw p) (lw q) (lw p), T_ADC (hi p) (hi q) (hi p))
      else if op = EBPF_ALU_SUB then (T_SUBS (lw p) (lw p) (lw q), T_SBC (hi p) (hi p) (hi q))
      else (T_AND (lw p) (lw p) (lw q), T_AND (hi p) (hi p) (hi q)))"

lemma run_alu_insts:
  assumes "p \<in> dst_pairs" "q \<in> src_pairs" "op \<in> alu_ops64"
  shows "t_run (emit_alu32_reg (lw p) (lw q) True False op @ emit_alu32_reg (hi p) (hi q) True True op) t =
    do { t1 \<leftarrow> t_exec (fst (alu_insts op p q)) t; t_exec (snd (alu_insts op p q)) t1 }"
  using assms unfolding alu_ops64_def
  by (elim insertE emptyE; simp add: t_eval alu_insts_def)

lemma run_alu_pair:
  assumes "p \<in> dst_pairs" "q \<in> src_pairs" "op \<in> alu_ops64"
  shows "t_run (emit_alu32_reg (lw p) (lw q) True False op @ emit_alu32_reg (hi p) (hi q) True True op) t =
    Some ((set_pair p (alu_val op (pair_val t p) (pair_val t q)) t)\<lparr>t_c := alu_carry op t p q\<rparr>)"
proof -
  have d: "hi p \<noteq> lw p" "hi q \<noteq> lw p" using assms(1,2) by auto
  have "upper (join h1 l1 + join h2 l2) = h1 + h2 + (if 2 ^ 32 \<le> unat l1 + unat l2 then 1 else 0)"
    "upper (join h1 l1 - join h2 l2) = h1 - h2 - (if l2 \<le> l1 then 0 else 1)"
    "upper (join h1 l1 AND join h2 l2) = h1 AND h2" for h1 l1 h2 l2
    by (simp_all flip: join_add join_sub join_and)
  with d show ?thesis
    unfolding run_alu_insts [OF assms]
    by (simp add: alu_insts_def set_pair_def pair_val_def alu_val_def alu_carry_def set_r_def ucast_add_64 ucast_diff_64
        unsigned_and_eq ac_simps)
qed

subsection \<open>The simulation relation\<close>

text \<open>The compiled code and the interpreter agree on the eleven registers; \<open>sv\<close> are the saved words.\<close>

definition sim :: "u32 \<Rightarrow> (nat \<Rightarrow> u32) \<Rightarrow> u64 list \<Rightarrow> thumb \<Rightarrow> bool" where
  "sim b sv regs t \<longleftrightarrow> jit_frame b t \<and> length regs = 12 \<and> (\<forall>k < 11. bpf_val t k = Some (regs ! k)) \<and>
     (\<forall>k. 64 \<le> k \<longrightarrow> k < 72 \<longrightarrow> load32 (t_mem t) (slot b k) = Some (sv k))"

lemma pair_row: "k \<in> {0, 1, 6} \<Longrightarrow> bpf2a32 ! k \<in> {(1, 0), (3, 2), (5, 4)}"
  by (auto simp: jit_defs)

lemma sim_keep:
  assumes "sim b sv regs t" "t_mem t' = t_mem t" "\<forall>r \<in> {0, 1, 2, 3, 4, 5, 11, 13}. t_reg t' r = t_reg t r"
  shows "sim b sv regs t'"
proof -
  have f: "jit_frame b t" "jit_frame b t'" using assms by (auto simp: sim_def jit_frame_def)
  have "bpf_val t' k = bpf_val t k" if "k < 11" for k
    using pair_row [of k] assms(2,3)
    by (auto simp: bpf_val_slot [OF f(1) that] bpf_val_slot [OF f(2) that] pair_val_def)
  with assms f show ?thesis by (auto simp: sim_def)
qed

lemma sim_set_temp: "sim b sv regs t \<Longrightarrow> p \<in> {(7, 6), (9, 8)} \<Longrightarrow> sim b sv regs (set_pair p v t)"
  by (erule sim_keep) (auto simp: set_pair_def)

lemma sim_carry: "sim b sv regs t \<Longrightarrow> sim b sv regs (t\<lparr>t_c := c\<rparr>)"
  by (erule sim_keep) auto

lemma pair_set: "p \<in> all_pairs \<Longrightarrow> q \<in> all_pairs \<Longrightarrow> pair_val (set_pair p v t) q = (if q = p then v else pair_val t q)"
  by (auto simp: pair_val_def set_pair_def)

lemma row_inj: "j \<in> {0, 1, 6} \<Longrightarrow> k \<in> {0, 1, 6} \<Longrightarrow> bpf2a32 ! j = bpf2a32 ! k \<longleftrightarrow> j = k"
  by (auto simp: jit_defs)

lemma sim_set_row:
  assumes "sim b sv regs t" "k \<in> {0, 1, 6}"
  shows "sim b sv (regs[k := v]) (set_pair (bpf2a32 ! k) v t)"
proof -
  let ?t = "set_pair (bpf2a32 ! k) v t"
  have f: "jit_frame b t" "jit_frame b ?t"
    using assms pair_row [OF assms(2)] by (auto simp: sim_def jit_frame_def set_pair_def)
  have "bpf_val ?t j = Some (regs[k := v] ! j)" if "j < 11" for j
  proof (cases "j \<in> {0, 1, 6}")
    case True
    then have "pair_val ?t (bpf2a32 ! j) = (if j = k then v else pair_val t (bpf2a32 ! j))"
      using pair_row [OF True] pair_row [OF assms(2)] row_inj [OF True assms(2)] by (subst pair_set) auto
    then show ?thesis using assms that True bpf_val_slot [OF f(1) that]
      by (auto simp: sim_def bpf_val_slot [OF f(2) that] nth_list_update)
  next
    case False
    then have "bpf_val ?t j = bpf_val t j" by (simp add: bpf_val_slot [OF f(1) that] bpf_val_slot [OF f(2) that])
    moreover have "j \<noteq> k" using False assms(2) by auto
    ultimately show ?thesis using assms(1) that by (simp add: sim_def)
  qed
  with assms f show ?thesis by (auto simp: sim_def)
qed


lemma row_slots: "k < 11 \<Longrightarrow> k \<notin> {0, 1, 6} \<Longrightarrow> 48 \<le> row_slot k \<and> row_slot k < 63"
  using less_11 [of k] by (auto simp: row_slot_def)

lemma row_slot_apart:
  "j < 11 \<Longrightarrow> k < 11 \<Longrightarrow> j \<notin> {0, 1, 6} \<Longrightarrow> k \<notin> {0, 1, 6} \<Longrightarrow> j \<noteq> k \<Longrightarrow>
     row_slot j \<noteq> row_slot k \<and> row_slot j \<noteq> row_slot k + 1 \<and> row_slot j + 1 \<noteq> row_slot k"
  by (auto simp: row_slot_def split: if_splits)

lemma row_address:
  assumes "jit_frame b t" "k < 11" "k \<notin> {0, 1, 6}"
  shows "t_reg t 11 + scast (lw (bpf2a32 ! k)) = slot b (row_slot k) \<and>
     slot b (row_slot k) + 4 = slot b (row_slot k + 1)"
  using less_11 [OF assms(2)] assms(1,3) by (elim insertE emptyE) (simp_all add: jit_frame_def jit_defs row_slot_def slot_def ac_simps)

lemma exec_ldrd_row:
  assumes "sim b sv regs t" "k < 11" "k \<notin> {0, 1, 6}"
  shows "t_exec (T_LDRD (lw p) (hi p) 11 (scast (lw (bpf2a32 ! k)))) t = Some (set_pair p (regs ! k) t)"
proof -
  have f: "jit_frame b t" using assms(1) by (simp add: sim_def)
  have "bpf_val t k = Some (regs ! k)" using assms(1,2) by (simp add: sim_def)
  then obtain l h where "load32 (t_mem t) (slot b (row_slot k)) = Some l"
      "load32 (t_mem t) (slot b (row_slot k + 1)) = Some h" "regs ! k = join h l"
    using assms(3) by (auto simp: bpf_val_slot [OF f assms(2)] bind_eq_Some_conv)
  then show ?thesis using row_address [OF f assms(2,3)] by (simp add: set_pair_def)
qed

lemma store32_slot:
  assumes "load32 m (slot b i) \<noteq> None" "i < 72"
  shows "\<exists>m'. store32 m (slot b i) v = Some m' \<and>
    (\<forall>j < 72. load32 m' (slot b j) = (if j = i then Some v else load32 m (slot b j)))"
proof -
  obtain m' where "store32 m (slot b i) v = Some m'"
    using store_bytes_mapped [of m "slot b i" "le_bytes 4 (ucast v)"] assms(1)
    by (auto simp: store32_def mem_store_def load32_def mem_load_def le_bytes_def simp del: load_bytes_numeral)
  with assms(2) slot_load_store [OF this [unfolded store32_def]] show ?thesis by simp
qed

lemma exec_strd_row:
  assumes "sim b sv regs t" "k < 11" "k \<notin> {0, 1, 6}"
  shows "\<exists>t'. t_exec (T_STRD (lw p) (hi p) 11 (scast (lw (bpf2a32 ! k)))) t = Some t' \<and>
    sim b sv (regs[k := pair_val t p]) t'"
proof -
  let ?i = "row_slot k"
  have f: "jit_frame b t" using assms(1) by (simp add: sim_def)
  have i: "?i < 63" using row_slots [OF assms(2,3)] by simp
  have ld: "load32 (t_mem t) (slot b j) \<noteq> None" if "j < 72" for j using f that by (simp add: jit_frame_def)
  obtain m1 where m1: "store32 (t_mem t) (slot b ?i) (t_reg t (lw p)) = Some m1"
    and l1: "\<And>j. j < 72 \<Longrightarrow> load32 m1 (slot b j) = (if j = ?i then Some (t_reg t (lw p)) else load32 (t_mem t) (slot b j))"
    using store32_slot [OF ld [of ?i], of "t_reg t (lw p)"] i by auto
  obtain m2 where m2: "store32 m1 (slot b (?i + 1)) (t_reg t (hi p)) = Some m2"
    and l2': "\<And>j. j < 72 \<Longrightarrow> load32 m2 (slot b j) = (if j = ?i + 1 then Some (t_reg t (hi p)) else load32 m1 (slot b j))"
    using store32_slot [of m1 b "?i + 1" "t_reg t (hi p)"] ld [of "?i + 1"] l1 [of "?i + 1"] i by auto
  have l2: "load32 m2 (slot b j) = (if j = ?i + 1 then Some (t_reg t (hi p)) else if j = ?i then Some (t_reg t (lw p))
      else load32 (t_mem t) (slot b j))" if "j < 72" for j
    using l2' [OF that] l1 [OF that] by simp
  let ?t = "t\<lparr>t_mem := m2\<rparr>"
  have f': "jit_frame b ?t" using f l2 by (auto simp: jit_frame_def)
  have "bpf_val ?t j = Some (regs[k := pair_val t p] ! j)" if j: "j < 11" for j
  proof (cases "j = k")
    case True
    then show ?thesis using assms i l2 [of ?i] l2 [of "?i + 1"]
      by (auto simp: bpf_val_slot [OF f' assms(2)] pair_val_def sim_def)
  next
    case False
    have "bpf_val ?t j = bpf_val t j"
      using row_slot_apart [OF j assms(2) _ assms(3)] False row_slots [OF j] l2 [of "row_slot j"] l2 [of "row_slot j + 1"]
      by (auto simp: bpf_val_slot [OF f' j] bpf_val_slot [OF f j] pair_val_def)
    then show ?thesis using assms(1) j False by (simp add: sim_def)
  qed
  then have "sim b sv (regs[k := pair_val t p]) ?t"
    using assms(1) f' i l2 by (auto simp: sim_def)
  then show ?thesis using m1 m2 row_address [OF f assms(2,3)] by auto
qed


lemma stacked_iff: "k < 11 \<Longrightarrow> is_stacked (lw (bpf2a32 ! k)) \<longleftrightarrow> k \<notin> {0, 1, 6}"
  using less_11 [of k] by (auto simp: jit_defs)

text \<open>The pair a register is worked on in, and its value there.\<close>

lemma run_get_reg64:
  assumes "sim b sv regs t" "k < 11" "p \<in> {(7, 6), (9, 8)}"
  defines "g \<equiv> arm_bpf_get_reg64 (bpf2a32 ! k) p"
  shows "\<exists>t'. t_run (snd g) t = Some t' \<and> sim b sv regs t' \<and> pair_val t' (fst g) = regs ! k \<and>
    (\<forall>q \<in> all_pairs. q \<noteq> p \<longrightarrow> pair_val t' q = pair_val t q) \<and>
    fst g = (if k \<in> {0, 1, 6} then bpf2a32 ! k else p)"
proof (cases "k \<in> {0, 1, 6}")
  case True
  have "bpf_val t k = Some (regs ! k)" using assms(1,2) by (simp add: sim_def)
  then have "pair_val t (bpf2a32 ! k) = regs ! k"
    using True assms(1) bpf_val_slot [OF _ assms(2), of b t] by (simp add: sim_def)
  with True assms(1) stacked_iff [OF assms(2)] show ?thesis by (simp add: g_def arm_bpf_get_reg64_def)
next
  case False
  have p: "p \<in> all_pairs" using assms(3) by auto
  have "t_run (snd g) t = Some (set_pair p (regs ! k) t)"
    using False stacked_iff [OF assms(2)]
    by (simp add: g_def arm_bpf_get_reg64_def run_ldrd [OF assms(2) False p] exec_ldrd_row [OF assms(1,2) False]
        del: t_exec.simps)
  moreover have "fst g = p" using False stacked_iff [OF assms(2)] by (simp add: g_def arm_bpf_get_reg64_def)
  ultimately show ?thesis
    using False sim_set_temp [OF assms(1,3)] pair_set [OF p] p by auto
qed

lemma run_put_reg64:
  assumes "sim b sv regs t" "k < 11"
  defines "q \<equiv> if k \<in> {0, 1, 6} then bpf2a32 ! k else tmp"
  shows "\<exists>t'. t_run (arm_bpf_put_reg64 (bpf2a32 ! k) q) ((set_pair q v t)\<lparr>t_c := c\<rparr>) = Some t' \<and>
    sim b sv (regs[k := v]) t'"
proof (cases "k \<in> {0, 1, 6}")
  case True
  then show ?thesis using stacked_iff [OF assms(2)] sim_carry [OF sim_set_row [OF assms(1) True]]
    by (simp add: q_def arm_bpf_put_reg64_def)
next
  case False
  have tmp: "tmp = (7, 6)" by (simp add: jit_defs)
  have p: "tmp \<in> all_pairs" by (simp add: tmp)
  let ?t = "(set_pair tmp v t)\<lparr>t_c := c\<rparr>"
  have s: "sim b sv regs ?t" by (rule sim_carry [OF sim_set_temp [OF assms(1)]]) (simp add: tmp)
  have "pair_val ?t tmp = v" using pair_set [OF p p, of v t] by (simp add: pair_val_def)
  with exec_strd_row [OF s assms(2) False, of tmp] show ?thesis
    using False stacked_iff [OF assms(2)]
    by (simp add: q_def arm_bpf_put_reg64_def run_strd [OF assms(2) False p] del: t_exec.simps)
qed


subsection \<open>One instruction\<close>

lemma temps: "tmp = (7, 6)" "tmp2 = (9, 8)"
  by (simp_all add: jit_defs)

lemma work_pair: "(if d \<in> {0, 1, 6} then bpf2a32 ! d else tmp) \<in> dst_pairs"
  using pair_row [of d] by (auto simp: temps)

lemma pair_regs: "p \<in> all_pairs \<Longrightarrow> hi p < 15 \<and> lw p < 15 \<and> hi p \<noteq> lw p"
  by auto

lemma run_alu64_from:
  assumes "sim b sv regs t" "d < 11" "op \<in> alu_ops64"
    and "q \<in> src_pairs" "arm_bpf_get_reg64 src tmp2 = (q, c)"
    and src: "\<And>t1. sim b sv regs t1 \<Longrightarrow> pair_val t1 tmp2 = pair_val t tmp2 \<Longrightarrow>
      \<exists>t2. t_run c t1 = Some t2 \<and> sim b sv regs t2 \<and> pair_val t2 q = y \<and>
        (\<forall>p \<in> all_pairs. p \<noteq> tmp2 \<longrightarrow> pair_val t2 p = pair_val t1 p)"
  shows "\<exists>t'. t_run (emit_alu64_reg True (bpf2a32 ! d) src op) t = Some t' \<and>
    sim b sv (regs[d := alu_val op (regs ! d) y]) t'"
proof -
  let ?g = "arm_bpf_get_reg64 (bpf2a32 ! d) tmp"
  obtain t1 where t1: "t_run (snd ?g) t = Some t1" "sim b sv regs t1" "pair_val t1 (fst ?g) = regs ! d"
      "pair_val t1 tmp2 = pair_val t tmp2" and g: "fst ?g = (if d \<in> {0, 1, 6} then bpf2a32 ! d else tmp)"
    using run_get_reg64 [OF assms(1,2), of tmp] by (auto simp: temps)
  have gd: "fst ?g \<in> dst_pairs" unfolding g by (rule work_pair)
  obtain t2 where t2: "t_run c t1 = Some t2" "sim b sv regs t2" "pair_val t2 q = y"
      "\<forall>p \<in> all_pairs. p \<noteq> tmp2 \<longrightarrow> pair_val t2 p = pair_val t1 p"
    using src [OF t1(2,4)] by blast
  have "pair_val t2 (fst ?g) = regs ! d" using t2(4) t1(3) gd by (auto simp: temps)
  with run_alu_pair [OF gd assms(4,3), of t2] t2(3)
  have alu: "t_run (emit_alu32_reg (lw (fst ?g)) (lw q) True False op @ emit_alu32_reg (hi (fst ?g)) (hi q) True True op) t2 =
      Some ((set_pair (fst ?g) (alu_val op (regs ! d) y) t2)\<lparr>t_c := alu_carry op t2 (fst ?g) q\<rparr>)" by simp
  have "emit_alu64_reg True (bpf2a32 ! d) src op = snd ?g @ c @
      (emit_alu32_reg (lw (fst ?g)) (lw q) True False op @ emit_alu32_reg (hi (fst ?g)) (hi q) True True op) @
      arm_bpf_put_reg64 (bpf2a32 ! d) (fst ?g)"
    by (simp add: emit_alu64_reg_def assms(5) split_beta)
  with t1(1) t2(1) alu run_put_reg64 [OF t2(2) assms(2)] show ?thesis
    by (simp only: t_run_append g)
qed

lemma run_alu64_reg:
  assumes "sim b sv regs t" "d < 11" "k < 11" "op \<in> alu_ops64"
  shows "\<exists>t'. t_run (emit_alu64_reg True (bpf2a32 ! d) (bpf2a32 ! k) op) t = Some t' \<and>
    sim b sv (regs[d := alu_val op (regs ! d) (regs ! k)]) t'"
proof -
  let ?g = "arm_bpf_get_reg64 (bpf2a32 ! k) tmp2"
  have "fst ?g = (if k \<in> {0, 1, 6} then bpf2a32 ! k else tmp2)"
    using run_get_reg64 [OF assms(1,3), of tmp2] by (auto simp: temps)
  then have q: "fst ?g \<in> src_pairs" using pair_row [of k] by (auto simp: temps)
  show ?thesis
    by (rule run_alu64_from [OF assms(1,2,4) q surjective_pairing])
       (use run_get_reg64 [OF _ assms(3), of b sv regs _ tmp2] in \<open>auto simp: temps\<close>)
qed

lemma run_mov_i64:
  assumes "sim b sv regs t" "d < 11"
  shows "\<exists>t'. t_run (emit_mov_i64 (bpf2a32 ! d) v) t = Some t' \<and> sim b sv (regs[d := v]) t'"
proof -
  let ?p = "if d \<in> {0, 1, 6} then bpf2a32 ! d else tmp"
  have "hi ?p < 15" "lw ?p < 15" using pair_regs [of ?p] work_pair [of d] by blast+
  then have "t_run (emit_mov_imm (lw ?p) (lo v) @ emit_mov_imm (hi ?p) (upper v)) t = Some (set_pair ?p v t)"
    by (simp only: t_run_append [OF run_mov_imm] run_mov_imm set_pair_def)
  moreover have "emit_mov_i64 (bpf2a32 ! d) v =
      (emit_mov_imm (lw ?p) (lo v) @ emit_mov_imm (hi ?p) (upper v)) @ arm_bpf_put_reg64 (bpf2a32 ! d) ?p"
    using stacked_iff [OF assms(2)] by (simp add: emit_mov_i64_def upper_def Let_def)
  moreover have "(set_pair ?p v t)\<lparr>t_c := t_c t\<rparr> = set_pair ?p v t" by (simp add: set_pair_def set_r_def)
  ultimately show ?thesis using run_put_reg64 [OF assms, where v = v and c = "t_c t"] by (simp only: t_run_append)
qed


lemma run_mov_reg:
  assumes "r \<in> {0, 1, 2, 3, 4, 5, 6, 7, 8, 9, 11, 13}" "r' \<in> {0, 1, 2, 3, 4, 5, 6, 7, 8, 9, 11, 13}"
  shows "t_run (emit_mov_reg r r') t = Some (set_r r' (t_reg t r) t)"
  using assms by (elim insertE emptyE; simp add: t_eval)

lemma run_mov_pair:
  assumes "p \<in> {(1, 0), (3, 2), (5, 4)}" "q \<in> {(1, 0), (3, 2), (5, 4)}"
  shows "t_run (emit_mov_reg (lw q) (lw p) @ emit_mov_reg (hi q) (hi p)) t = Some (set_pair p (pair_val t q) t)"
proof -
  have "t_run (emit_mov_reg (lw q) (lw p)) t = Some (set_r (lw p) (t_reg t (lw q)) t)"
    by (rule run_mov_reg) (use assms in auto)
  moreover have "t_run (emit_mov_reg (hi q) (hi p)) u = Some (set_r (hi p) (t_reg u (hi q)) u)" for u
    by (rule run_mov_reg) (use assms in auto)
  moreover have "hi q \<noteq> lw p" using assms by auto
  ultimately show ?thesis by (simp add: t_run_append set_pair_def pair_val_def)
qed

lemma run_mov_reg64:
  assumes "sim b sv regs t" "d < 11" "k < 11"
  shows "\<exists>t'. t_run (emit_mov_reg64 True (bpf2a32 ! d) (bpf2a32 ! k)) t = Some t' \<and> sim b sv (regs[d := regs ! k]) t'"
proof -
  note st = stacked_iff [OF assms(2)] stacked_iff [OF assms(3)]
  have v: "bpf_val t k = Some (regs ! k)" using assms(1,3) by (simp add: sim_def)
  have pv: "pair_val t (bpf2a32 ! k) = regs ! k" if "k \<in> {0, 1, 6}"
    using v that assms(1) bpf_val_slot [OF _ assms(3), of b t] by (simp add: sim_def)
  consider (ss) "k \<notin> {0, 1, 6}" "d \<notin> {0, 1, 6}" | (sr) "k \<notin> {0, 1, 6}" "d \<in> {0, 1, 6}"
    | (rs) "k \<in> {0, 1, 6}" "d \<notin> {0, 1, 6}" | (rr) "k \<in> {0, 1, 6}" "d \<in> {0, 1, 6}" by blast
  then show ?thesis
  proof cases
    case ss
    have p: "tmp \<in> all_pairs" by (simp add: temps)
    have s: "sim b sv regs (set_pair tmp (regs ! k) t)" by (rule sim_set_temp [OF assms(1)]) (simp add: temps)
    have ld: "t_run (emit_ldrd_i tmp ARM_FP (scast (lw (bpf2a32 ! k)))) t = Some (set_pair tmp (regs ! k) t)"
      by (simp only: run_ldrd [OF assms(3) ss(1) p] exec_ldrd_row [OF assms(1,3) ss(1)])
    have "pair_val (set_pair tmp (regs ! k) t) tmp = regs ! k" using pair_set [OF p p] by simp
    then show ?thesis using ss st exec_strd_row [OF s assms(2) ss(2), of tmp]
      by (simp add: emit_mov_reg64_def t_run_append [OF ld] run_strd [OF assms(2) ss(2) p] del: t_exec.simps)
  next
    case sr
    have p: "bpf2a32 ! d \<in> all_pairs" using pair_row [OF sr(2)] by auto
    show ?thesis using sr st sim_set_row [OF assms(1) sr(2)]
      by (simp add: emit_mov_reg64_def run_ldrd [OF assms(3) sr(1) p] exec_ldrd_row [OF assms(1,3) sr(1)] del: t_exec.simps)
  next
    case rs
    have p: "bpf2a32 ! k \<in> all_pairs" using pair_row [OF rs(1)] by auto
    show ?thesis using rs st pv exec_strd_row [OF assms(1,2) rs(2), of "bpf2a32 ! k"]
      by (simp add: emit_mov_reg64_def run_strd [OF assms(2) rs(2) p] del: t_exec.simps)
  next
    case rr
    then show ?thesis
      using st pv run_mov_pair [OF pair_row [OF rr(2)] pair_row [OF rr(1)]] sim_set_row [OF assms(1) rr(2), of "regs ! k"]
      by (simp add: emit_mov_reg64_def)
  qed
qed


subsection \<open>Arithmetic instructions\<close>

text \<open>The instructions covered: 64-bit moves, additions, subtractions and conjunctions on the registers of the
  program. A register move whose immediate is 1 is translated as if it cleared the upper half and is left out.\<close>

definition arith :: "ebpf_inst \<Rightarrow> bool" where
  "arith i \<longleftrightarrow> opcode i \<in> {EBPF_OP_ADD64_IMM, EBPF_OP_ADD64_REG, EBPF_OP_SUB64_IMM, EBPF_OP_SUB64_REG,
      EBPF_OP_AND64_IMM, EBPF_OP_AND64_REG, EBPF_OP_MOV64_IMM, EBPF_OP_MOV64_REG} \<and>
     unat (i_dst i) < 11 \<and> unat (i_src i) < 11 \<and> (opcode i = EBPF_OP_MOV64_REG \<longrightarrow> i_imm i \<noteq> 1)"

definition operand :: "ebpf_inst \<Rightarrow> u64 list \<Rightarrow> u64" where
  "operand i regs = (if BPF_SRC (opcode i) = EBPF_SRC_REG then regs ! unat (i_src i) else sx (i_imm i))"

definition is_mov :: "ebpf_inst \<Rightarrow> bool" where
  "is_mov i \<longleftrightarrow> opcode i \<in> {EBPF_OP_MOV64_IMM, EBPF_OP_MOV64_REG}"

definition arith_eval :: "ebpf_inst \<Rightarrow> u64 list \<Rightarrow> u64" where
  "arith_eval i regs = (if is_mov i then operand i regs
     else alu_val (BPF_OP (opcode i)) (regs ! unat (i_dst i)) (operand i regs))"

lemma sign_test: "v AND 0x80000000 \<noteq> 0 \<longleftrightarrow> bit v 31" for v :: u32
proof -
  have "(0x80000000 :: u32) = push_bit 31 1" by (simp add: push_bit_eq_mult)
  then have top: "bit (0x80000000 :: u32) n \<longleftrightarrow> n = 31" for n
    by (simp only: bit_push_bit_iff bit_1_iff possible_bit_word) auto
  have "v AND 0x80000000 = (if bit v 31 then 0x80000000 else 0)"
    by (rule bit_word_eqI) (auto simp: bit_and_iff top simp del: bit_numeral_word_iff)
  then show ?thesis by simp
qed

lemma sign_fill: "(if bit v 31 then zx v OR 0xffffffff00000000 else zx v) = sx v" for v :: u32
proof -
  have "(0xffffffff00000000 :: u64) = push_bit 32 (mask 32)" by (simp add: push_bit_eq_mult mask_eq_exp_minus_1)
  then have top: "bit (0xffffffff00000000 :: u64) n \<longleftrightarrow> 32 \<le> n \<and> n < 64" for n
    by (simp only: bit_push_bit_iff bit_mask_iff possible_bit_word) auto
  show ?thesis
  proof (rule bit_word_eqI)
    fix n assume n: "n < LENGTH(64)"
    have "n < 32 \<Longrightarrow> min 31 n = n" "32 \<le> n \<Longrightarrow> min 31 n = 31" "32 \<le> n \<Longrightarrow> \<not> bit v n"
      by (simp_all add: min_def) (auto dest: bit_imp_le_length)
    then show "bit (if bit v 31 then zx v OR 0xffffffff00000000 else zx v) n = bit (sx v) n"
      using n by (cases "n < 32") (auto simp: bit_or_iff bit_ucast_iff bit_signed_iff top simp del: bit_numeral_word_iff)
  qed
qed

text \<open>What the compiler emits for them, wherever they stand in the program.\<close>

definition emits :: "ebpf_inst \<Rightarrow> code" where
  "emits i = (let d = bpf2a32 ! unat (i_dst i); s = bpf2a32 ! unat (i_src i); op = BPF_OP (opcode i) in
     if BPF_SRC (opcode i) = EBPF_SRC_REG then (if is_mov i then emit_mov_reg64 True d s else emit_alu64_reg True d s op)
     else if is_mov i then emit_mov_i64 d (sx (i_imm i))
     else emit_mov_i64 tmp2 (sx (i_imm i)) @ emit_alu64_reg True d tmp2 op)"

lemma arith_code:
  assumes "arith i"
  shows "inst_code st pc i = ok_code (emits i)"
proof -
  have "emit_mov_se_imm64 True p v = emit_mov_i64 p (sx v)" for p v
    using sign_fill [of v] by (simp add: emit_mov_se_imm64_def sign_test)
  moreover have "reg_row (i_dst i) = bpf2a32 ! unat (i_dst i)" "reg_row (i_src i) = bpf2a32 ! unat (i_src i)"
    using assms by (simp_all add: arith_def reg_row_def bpf2a32_def)
  ultimately show ?thesis using assms unfolding arith_def
    by (elim conjE insertE emptyE)
       (simp_all add: inst_code_def build_mov_def build_alu_def alu_ops_def or_else_def opcode_val is_mov_def is64_def
         BPF_SRC_def BPF_OP_def BPF_CLASS_def emits_def Let_def)
qed

lemma run_mov_tmp2: "t_run (emit_mov_i64 tmp2 v) t = Some (set_pair tmp2 v t)"
proof -
  have "emit_mov_i64 tmp2 v = emit_mov_imm 8 (lo v) @ emit_mov_imm 9 (upper v)"
    by (simp add: emit_mov_i64_def temps is_stacked_def arm_bpf_put_reg64_def upper_def)
  then show ?thesis
    by (simp only: t_run_append [OF run_mov_imm] run_mov_imm) (simp add: t_run_append [OF run_mov_imm] run_mov_imm set_pair_def temps)
qed

text \<open>The code of an instruction takes the machine where the interpreter goes.\<close>

lemma run_arith:
  assumes "sim b sv regs t" "arith i"
  shows "\<exists>t'. t_run (emits i) t = Some t' \<and> sim b sv (regs[unat (i_dst i) := arith_eval i regs]) t'"
proof -
  let ?d = "unat (i_dst i)" and ?k = "unat (i_src i)" and ?op = "BPF_OP (opcode i)" and ?v = "sx (i_imm i)"
  have lt: "?d < 11" "?k < 11" using assms(2) by (simp_all add: arith_def)
  have op: "?op \<in> alu_ops64" if "\<not> is_mov i"
    using assms(2) that unfolding arith_def is_mov_def alu_ops64_def BPF_OP_def by (auto simp: opcode_val)
  have t2: "sim b sv regs (set_pair tmp2 ?v t)" by (rule sim_set_temp [OF assms(1)]) (simp add: temps)
  have imm: "\<exists>t'. t_run (emit_alu64_reg True (bpf2a32 ! ?d) tmp2 ?op) (set_pair tmp2 ?v t) = Some t' \<and>
      sim b sv (regs[?d := alu_val ?op (regs ! ?d) ?v]) t'" if "\<not> is_mov i"
    by (rule run_alu64_from [OF t2 lt(1) op [OF that], of tmp2 tmp2 "[]"])
       (auto simp: arm_bpf_get_reg64_def is_stacked_def temps pair_val_def set_pair_def)
  show ?thesis
    using run_mov_reg64 [OF assms(1) lt] run_mov_i64 [OF assms(1) lt(1), of ?v] op
      run_alu64_reg [OF assms(1) lt, of ?op] imm
    by (auto simp: emits_def Let_def arith_eval_def operand_def t_run_append [OF run_mov_tmp2])
qed


subsection \<open>The interpreter\<close>

lemma arith_step:
  assumes "arith i" "fetch vm (v_pc s) = Some i" "length (v_reg s) = 12"
  shows "vm_step g vm f s = Inr (s\<lparr>v_pc := v_pc s + 1, v_reg := (v_reg s)[unat (i_dst i) := arith_eval i (v_reg s)]\<rparr>)"
  using assms unfolding arith_def
  by (elim conjE insertE emptyE)
     (simp_all add: vm_step_def switch_def step_alu32_def step_endian_def step_alu64_def or_else_def dst_imm_def dst_src_def
        with_reg_def arith_eval_def is_mov_def operand_def alu_val_def BPF_SRC_def BPF_OP_def opcode_val Let_def)

definition eval_all :: "ebpf_inst list \<Rightarrow> u64 list \<Rightarrow> u64 list" where
  "eval_all is regs = fold (\<lambda>i r. r[unat (i_dst i) := arith_eval i r]) is regs"

lemma length_eval_all [simp]: "length (eval_all is regs) = length regs"
  unfolding eval_all_def by (induction "is" arbitrary: regs) simp_all

lemma eval_all_simps [simp]:
  "eval_all [] regs = regs" "eval_all (i # is) regs = eval_all is (regs[unat (i_dst i) := arith_eval i regs])"
  by (simp_all add: eval_all_def)

lemma interp_straight:
  assumes "insts vm = pre @ is @ [x]" "list_all arith is" "opcode x = EBPF_OP_EXIT" "length (pre @ is) \<le> 1000"
    and "v_pc s = of_nat (length pre)" "length (v_reg s) = 12"
  shows "\<exists>s'. vm_loop g vm f (length pre) s = (Ret (eval_all is (v_reg s) ! 0), s') \<and> v_world s' = v_world s"
  using assms
proof (induction "is" arbitrary: pre s)
  case Nil
  have "fetch vm (v_pc s) = Some x" using Nil by (simp add: fetch_def unat_of_nat)
  moreover have "v_reg s \<noteq> []" using Nil(6) by auto
  ultimately have "vm_step g vm f s = Inl (Ret (v_reg s ! 0))"
    using Nil(3) by (simp add: run_defs)
  then show ?case by (simp add: vm_loop_Inl)
next
  case (Cons i "is")
  have "fetch vm (v_pc s) = Some i" using Cons.prems by (simp add: fetch_def unat_of_nat)
  with Cons.prems arith_step [of i vm s g f]
  have st: "vm_step g vm f s = Inr (s\<lparr>v_pc := v_pc s + 1, v_reg := (v_reg s)[unat (i_dst i) := arith_eval i (v_reg s)]\<rparr>)"
    by simp
  have "length pre \<le> 32768" using Cons.prems(4) by simp
  with Cons.IH [of "pre @ [i]" "s\<lparr>v_pc := v_pc s + 1, v_reg := (v_reg s)[unat (i_dst i) := arith_eval i (v_reg s)]\<rparr>"] Cons.prems
  show ?case by (simp add: vm_loop_turn st add.commute)
qed


subsection \<open>The emitted bytes\<close>

definition emitted :: "jit_state \<Rightarrow> u8 list" where
  "emitted st = take (j_idx st) (j_code st)"

definition code_bytes :: "code \<Rightarrow> u8 list" where
  "code_bytes c = concat (map (\<lambda>x. [byte_of 0 x, byte_of 1 x]) c)"

fun halfwords :: "u8 list \<Rightarrow> code" where
  "halfwords (a # b # bs) = (ucast a OR push_bit 8 (ucast b)) # halfwords bs"
| "halfwords _ = []"

lemma halfwords_bytes: "halfwords (code_bytes c) = c"
proof -
  have "ucast (byte_of 0 x) OR push_bit 8 (ucast (byte_of 1 x)) = x" for x :: u16
    by (rule bit_word_eqI) (auto simp: byte_of_def bit_simps)
  then show ?thesis unfolding code_bytes_def by (induction c) simp_all
qed

lemma code_bytes_simps [simp]:
  "code_bytes [] = []" "code_bytes (x # c) = byte_of 0 x # byte_of 1 x # code_bytes c"
  "code_bytes (c @ c') = code_bytes c @ code_bytes c'"
  by (simp_all add: code_bytes_def)

lemma take_two_updates:
  "i + 2 \<le> length xs \<Longrightarrow> take (i + 2) (xs[i := a, i + 1 := b]) = take i xs @ [a, b]"
  by (simp add: take_Suc_conv_app_nth numeral_2_eq_2)

lemma emitted_emit_code:
  "j_needGen st \<Longrightarrow> j_idx st + 2 * length c \<le> length (j_code st) \<Longrightarrow>
     emitted (emit_code c st) = emitted st @ code_bytes c"
proof (induction c arbitrary: st)
  case (Cons x c)
  have "emitted (emit_bytes x st) = emitted st @ [byte_of 0 x, byte_of 1 x]"
    using Cons.prems take_two_updates [of "j_idx st" "j_code st"] by (simp add: emitted_def emit_bytes_def Let_def)
  with Cons show ?case by (simp add: emit_code_def)
qed (simp add: emit_code_def)

lemma emitted_build_inst:
  assumes "j_needGen st" "j_idx st + 2 * length (Jit_Passes.code_of st pc i) \<le> length (j_code st)"
  shows "emitted (snd (build_inst st pc i)) = emitted st @ code_bytes (Jit_Passes.code_of st pc i)"
proof -
  obtain r e c where ic: "inst_code st pc i = (r, e, c)" by (cases "inst_code st pc i")
  have "emitted (emit_code c (st\<lparr>j_err_line := l, j_fault := ft\<rparr>)) = emitted st @ code_bytes c" for l ft
    using assms ic emitted_emit_code [of "st\<lparr>j_err_line := l, j_fault := ft\<rparr>" c] by (simp add: emitted_def)
  then show ?thesis by (simp add: build_inst_def ic)
qed

lemma exit_code: "opcode x = EBPF_OP_EXIT \<Longrightarrow> j_inst_num st = pc + 1 \<Longrightarrow> inst_code st pc x = ok_code []"
  by (simp add: inst_code_def build_mov_def build_alu_def build_shift_def
      build_ldst_def build_jump_def build_call_def alu_ops_def jump_ops_def or_else_def Let_def opcode_val)

lemma emitted_body:
  assumes "j_needGen st" "list_all arith is" "prog = pre @ is @ [x]" "opcode x = EBPF_OP_EXIT"
    and "j_inst_num st = length prog" "j_idx st + 2 * length (concat (map emits is)) \<le> length (j_code st)"
  shows "emitted (body_loop prog (length prog) st (length pre)) = emitted st @ code_bytes (concat (map emits is)) \<and>
    j_idx (body_loop prog (length prog) st (length pre)) = j_idx st + 2 * length (concat (map emits is))"
  using assms
proof (induction "is" arbitrary: pre st)
  case Nil
  then have "inst_code st (length pre) x = ok_code []" by (simp add: exit_code)
  with Nil show ?case
    by (subst (1 2) body_loop_step) (simp add: Let_def body_loop_step [of _ "Suc (length pre)"] emitted_build_inst)
next
  case (Cons i "is")
  let ?st = "snd (build_inst st (length pre) i)"
  have c: "inst_code st (length pre) i = ok_code (emits i)" using Cons.prems(2) by (simp add: arith_code)
  have "body_loop prog (length prog) st (length pre) = body_loop prog (length prog) ?st (length (pre @ [i]))"
    using Cons.prems(1,3) c by (subst body_loop_step) (simp add: Let_def)
  moreover have "emitted ?st = emitted st @ code_bytes (emits i)"
    using Cons.prems(1,6) c emitted_build_inst [of st "length pre" i] by simp
  ultimately show ?case using Cons.IH [of ?st "pre @ [i]"] Cons.prems c by simp
qed


lemma length_ldrd_strd [simp]: "length (emit_ldrd_i p n off) = 2" "length (emit_strd_i p n off) = 2"
  by (simp_all add: emit_ldrd_i_def emit_strd_i_def)

lemma length_emit_mov_imm: "length (emit_mov_imm r v) \<le> 4"
  by (simp add: emit_mov_imm_def)

lemma length_put_reg64: "length (arm_bpf_put_reg64 p (if is_stacked (lw p) then q else p)) \<le> 2"
  by (simp add: arm_bpf_put_reg64_def)

lemma length_emit_mov_i64: "length (emit_mov_i64 p v) \<le> 10" "length (emit_mov_i64 tmp2 v) \<le> 8"
  using length_put_reg64 [of p tmp] length_emit_mov_imm [of _ "lo v"] length_emit_mov_imm [of _ "upper v"]
  by (fastforce simp: emit_mov_i64_def upper_def Let_def intro: add_mono le_trans [OF add_mono [OF length_emit_mov_imm add_mono [OF length_emit_mov_imm]]])
    (use length_emit_mov_imm [of 8 "lo v"] length_emit_mov_imm [of 9 "upper v"] in
     \<open>simp add: emit_mov_i64_def temps is_stacked_def arm_bpf_put_reg64_def upper_def\<close>)


lemma length_alu_pair:
  assumes "p \<in> dst_pairs" "q \<in> src_pairs" "op \<in> alu_ops64"
  shows "length (emit_alu32_reg (lw p) (lw q) True False op @ emit_alu32_reg (hi p) (hi q) True True op) \<le> 4"
  using assms unfolding alu_ops64_def by (elim insertE emptyE; simp add: t_eval)

lemma length_emit_alu64:
  assumes "op \<in> alu_ops64" "d < 11" "fst (arm_bpf_get_reg64 s tmp2) \<in> src_pairs"
  shows "length (emit_alu64_reg True (bpf2a32 ! d) s op) \<le> 10"
proof -
  let ?g = "arm_bpf_get_reg64 (bpf2a32 ! d) tmp" and ?h = "arm_bpf_get_reg64 s tmp2"
  have "fst ?g = (if d \<in> {0, 1, 6} then bpf2a32 ! d else tmp)"
    using stacked_iff [OF assms(2)] by (simp add: arm_bpf_get_reg64_def)
  with work_pair [of d] have "fst ?g \<in> dst_pairs" by simp
  note alu = length_alu_pair [OF this assms(3,1)]
  have get: "length (snd ?g) \<le> 2" "length (snd ?h) \<le> 2" by (simp_all add: arm_bpf_get_reg64_def)
  have put: "length (arm_bpf_put_reg64 (bpf2a32 ! d) (fst ?g)) \<le> 2"
    using length_put_reg64 [of "bpf2a32 ! d" tmp] by (simp add: arm_bpf_get_reg64_def split: if_splits)
  show ?thesis using alu get put unfolding emit_alu64_reg_def split_beta Let_def length_append if_True by linarith
qed

lemma length_emits:
  assumes "arith i"
  shows "length (emits i) \<le> 18"
proof -
  let ?d = "unat (i_dst i)" and ?k = "unat (i_src i)" and ?op = "BPF_OP (opcode i)"
  have lt: "?d < 11" "?k < 11" using assms by (simp_all add: arith_def)
  have op: "?op \<in> alu_ops64" if "\<not> is_mov i"
    using assms that unfolding arith_def is_mov_def alu_ops64_def BPF_OP_def by (auto simp: opcode_val)
  have "fst (arm_bpf_get_reg64 (bpf2a32 ! ?k) tmp2) \<in> src_pairs" "fst (arm_bpf_get_reg64 tmp2 tmp2) \<in> src_pairs"
    using stacked_iff [OF lt(2)] pair_row [of ?k] by (auto simp: arm_bpf_get_reg64_def temps is_stacked_def)
  then have "length (emit_alu64_reg True (bpf2a32 ! ?d) (bpf2a32 ! ?k) ?op) \<le> 10"
    "length (emit_alu64_reg True (bpf2a32 ! ?d) tmp2 ?op) \<le> 10" if "\<not> is_mov i"
    using length_emit_alu64 [OF op [OF that] lt(1)] by blast+
  moreover have "length (emit_mov_reg64 True (bpf2a32 ! ?d) (bpf2a32 ! ?k)) \<le> 4"
    by (simp add: emit_mov_reg64_def emit_mov_reg_def)
  ultimately show ?thesis
    using length_emit_mov_i64(1) [of "bpf2a32 ! ?d" "sx (i_imm i)"] length_emit_mov_i64(2) [of "sx (i_imm i)"]
    unfolding emits_def Let_def
    by (cases "is_mov i"; cases "BPF_SRC (opcode i) = EBPF_SRC_REG"; simp only: if_True if_False simp_thms length_append; linarith)
qed

lemma length_all_emits: "list_all arith is \<Longrightarrow> length (concat (map emits is)) \<le> 18 * length is"
  by (induction "is") (auto dest: length_emits)

text \<open>The code of the whole program.\<close>

lemma emitted_straight:
  assumes "insts vm = is @ [x]" "list_all arith is" "opcode x = EBPF_OP_EXIT" "length is \<le> 55"
    and "num_insts vm = of_nat (length is + 1)"
  shows "halfwords (emitted (gen_jit_code tbl epi vm)) = prologue_code @ concat (map emits is) @ epilogue_code"
proof -
  define st where "st = jit_state_set_mem \<lparr>j_insts = insts vm, j_inst_num = unat (num_insts vm), j_code = [], j_idx = 0,
      j_epilogue = epi, j_err_line = 0, j_offsets = [], j_call_base = tbl, j_needGen = False, j_fault = False\<rparr>
      (jit_mem_allocate (unat (num_insts vm)))"
  have n: "unat (num_insts vm) = length is + 1" using assms(4) by (simp only: assms(5) unat_of_nat) simp
  have st: "j_insts st = is @ [x]" "j_inst_num st = length (is @ [x])" "length (j_code st) = 2048"
    using assms(1) n by (simp_all add: st_def jit_state_set_mem_def jit_mem_allocate_def)
  let ?g = "(pre_pass st)\<lparr>j_idx := 0, j_needGen := True\<rparr>"
  have g: "j_needGen ?g" "j_idx ?g = 0" "emitted ?g = []" "length (j_code ?g) = 2048" "j_inst_num ?g = length (is @ [x])"
    "j_insts ?g = is @ [x]"
    using st by (simp_all add: pre_pass_simps emitted_def)
  have len: "length (concat (map emits is)) \<le> 990" using length_all_emits [OF assms(2)] assms(4) by simp
  have "emitted (build_prologue ?g) = code_bytes prologue_code"
    using g emitted_emit_code [of ?g prologue_code] by (simp add: build_prologue_def length_prologue)
  then have body: "emitted (build_body (build_prologue ?g)) = code_bytes (prologue_code @ concat (map emits is)) \<and>
      j_idx (build_body (build_prologue ?g)) = 26 + 2 * length (concat (map emits is))"
    using emitted_body [of "build_prologue ?g" "is" "is @ [x]" "[]" x] assms(2,3) g len st
    by (simp add: build_body_def length_prologue pre_pass_simps)
  have bg: "j_needGen (build_body (build_prologue ?g))" "length (j_code (build_body (build_prologue ?g))) = 2048"
    using body_loop_static [of "build_prologue ?g"] g by (simp_all add: build_body_def)
  have "emitted (jit_compile st) = code_bytes (prologue_code @ concat (map emits is) @ epilogue_code)"
    using emitted_emit_code [OF bg(1), of epilogue_code] body bg(2) len
    by (simp add: jit_compile_def gen_pass_def build_epilogue_def length_epilogue)
  then show ?thesis by (simp only: gen_jit_code_def Let_def st_def [symmetric] halfwords_bytes)
qed


subsection \<open>Prologue and epilogue\<close>

lemma slot_next: "slot b i + 4 = slot b (Suc i)"
  by (simp add: slot_def algebra_simps)

lemma store_regs_slots:
  assumes "\<forall>j < 72. load32 m (slot b j) \<noteq> None" "i + length ks \<le> 72"
  shows "\<exists>m'. store_regs r ks (slot b i) m = Some m' \<and>
    (\<forall>j < 72. load32 m' (slot b j) = (if i \<le> j \<and> j < i + length ks then Some (r (ks ! (j - i))) else load32 m (slot b j)))"
  using assms
proof (induction ks arbitrary: i m)
  case (Cons k ks)
  obtain m1 where m1: "store32 m (slot b i) (r k) = Some m1"
    "\<forall>j < 72. load32 m1 (slot b j) = (if j = i then Some (r k) else load32 m (slot b j))"
    using store32_slot [of m b i "r k"] Cons.prems by auto
  have "\<forall>j < 72. load32 m1 (slot b j) \<noteq> None" using m1(2) Cons.prems(1) by simp
  then obtain m2 where m2: "store_regs r ks (slot b (Suc i)) m1 = Some m2"
    "\<forall>j < 72. load32 m2 (slot b j) =
       (if Suc i \<le> j \<and> j < Suc i + length ks then Some (r (ks ! (j - Suc i))) else load32 m1 (slot b j))"
    using Cons.IH [of m1 "Suc i"] Cons.prems(2) by auto
  have "load32 m2 (slot b j) =
      (if i \<le> j \<and> j < i + length (k # ks) then Some (r ((k # ks) ! (j - i))) else load32 m (slot b j))" if "j < 72" for j
    using m1(2) m2(2) that by (auto simp: nth_Cons' Suc_le_eq)
  with m1(1) m2(1) show ?case by (auto simp: slot_next)
qed auto

text \<open>The registers the prologue saves, in the order of their slots.\<close>

abbreviation saved_regs :: "u8 list" where "saved_regs \<equiv> [4, 5, 6, 7, 8, 9, 11, 14]"

definition saved :: "thumb \<Rightarrow> nat \<Rightarrow> u32" where
  "saved t k = t_reg t (saved_regs ! (k - 64))"

lemma run_push: "t_run (emit4 (thumb32_PUSHW_T2 CALLEE_PUSH_MASK) @ c) t = do { t1 \<leftarrow> t_exec (T_PUSH 0x4bf0) t; t_run c t1 }"
  by (simp add: t_eval)

lemma push_regs: "reg_list 0x4bf0 = saved_regs" "reg_list 0x8bf0 = [4, 5, 6, 7, 8, 9, 11, 15]"
  by (simp_all add: reg_list_def)

lemma run_sub_imm:
  "t_run (emit_sub_imm 2 ARM_SP SCRATCH_SIZE) t = Some (set_r 2 (t_reg t 13 - 80) t)"
  "t_run (emit_sub_imm ARM_SP ARM_SP EBPF_STACK_SIZE) t = Some (set_r 13 (t_reg t 13 - 256) t)"
  by (simp_all add: t_eval imm16_of_def)


lemma run_prologue_head:
  fixes t :: thumb
  defines "b \<equiv> t_reg t 13 - 288"
  assumes "\<forall>k < 72. load32 (t_mem t) (slot b k) \<noteq> None"
  shows "\<exists>m. t_run (emit4 (thumb32_PUSHW_T2 CALLEE_PUSH_MASK) @ emit_mov_reg ARM_SP ARM_FP @ emit_mov_imm 3 0 @
        emit_sub_imm 2 ARM_SP SCRATCH_SIZE @ emit_sub_imm ARM_SP ARM_SP EBPF_STACK_SIZE) t =
      Some (t\<lparr>t_mem := m, t_reg := (t_reg t)(11 := slot b 64, 3 := 0, 2 := slot b 44, 13 := b)\<rparr>) \<and>
    (\<forall>j < 72. load32 m (slot b j) = (if 64 \<le> j then Some (saved t j) else load32 (t_mem t) (slot b j)))"
proof -
  obtain m where m: "store_regs (t_reg t) saved_regs (slot b 64) (t_mem t) = Some m"
    "\<forall>j < 72. load32 m (slot b j) = (if 64 \<le> j then Some (saved t j) else load32 (t_mem t) (slot b j))"
    using store_regs_slots [OF assms(2), of 64 saved_regs "t_reg t"] by (auto simp: saved_def)
  have a: "t_reg t 13 - 32 = slot b 64" "slot b 64 - 80 = slot b 44" "slot b 64 - 256 = b"
    by (simp_all add: slot_def b_def)
  have "t_exec (T_PUSH 0x4bf0) t = Some ((set_r 13 (slot b 64) t)\<lparr>t_mem := m\<rparr>)"
    using m(1) by (simp only: t_exec.simps push_regs Let_def) (simp add: a del: store_regs.simps)
  moreover have "t_run (emit_mov_reg ARM_SP ARM_FP) u = Some (set_r 11 (t_reg u 13) u)" for u
    using run_mov_reg [of 13 11 u] by (simp add: jit_defs)
  ultimately have "t_run (emit4 (thumb32_PUSHW_T2 CALLEE_PUSH_MASK) @ emit_mov_reg ARM_SP ARM_FP @ emit_mov_imm 3 0 @
        emit_sub_imm 2 ARM_SP SCRATCH_SIZE @ emit_sub_imm ARM_SP ARM_SP EBPF_STACK_SIZE) t =
      Some (t\<lparr>t_mem := m, t_reg := (t_reg t)(11 := slot b 64, 3 := 0, 2 := slot b 44, 13 := b)\<rparr>)"
    by (simp add: run_push t_run_append run_mov_imm run_sub_imm del: t_exec.simps)
       (simp add: set_r_def a fun_upd_twist)
  with m(2) show ?thesis by blast
qed

lemma upper_zx: "upper (zx v) = 0" "lo (zx v) = v"
  by (auto simp: upper_def bit_eq_iff bit_simps dest: bit_imp_le_length)

lemma prologue_parts:
  "prologue_code = (emit4 (thumb32_PUSHW_T2 CALLEE_PUSH_MASK) @ emit_mov_reg ARM_SP ARM_FP @ emit_mov_imm 3 0 @
      emit_sub_imm 2 ARM_SP SCRATCH_SIZE @ emit_sub_imm ARM_SP ARM_SP EBPF_STACK_SIZE) @
    emit_mov_reg64 True (bpf2a32 ! 10) (bpf2a32 ! 1) @ emit_mov_reg ARM_R0 2 @ emit_mov_imm 3 0"
  by (simp add: prologue_code_def Let_def) (simp add: bpf2a32_def)

text \<open>What the registers that neither engine sets hold on entry: \<open>regs\<close> are the contents of the machine.\<close>

definition entry_regs :: "thumb \<Rightarrow> u64 list \<Rightarrow> bool" where
  "entry_regs t regs \<longleftrightarrow> length regs = 12 \<and>
     (\<forall>k < 11. k \<noteq> 1 \<longrightarrow> k \<noteq> 10 \<longrightarrow> bpf_val (set_r 13 (t_reg t 13 - 288) (set_r 11 (t_reg t 13 - 32) t)) k = Some (regs ! k))"

lemma run_prologue:
  fixes t :: thumb
  defines "b \<equiv> t_reg t 13 - 288"
  assumes fr: "\<forall>k < 72. load32 (t_mem t) (slot b k) \<noteq> None" and regs: "entry_regs t regs"
  shows "\<exists>t'. t_run prologue_code t = Some t' \<and>
    sim b (saved t) (regs[1 := zx (t_reg t 0), 10 := zx (t_reg t 13 - 112)]) t'"
proof -
  obtain m where t1: "t_run (emit4 (thumb32_PUSHW_T2 CALLEE_PUSH_MASK) @ emit_mov_reg ARM_SP ARM_FP @ emit_mov_imm 3 0 @
        emit_sub_imm 2 ARM_SP SCRATCH_SIZE @ emit_sub_imm ARM_SP ARM_SP EBPF_STACK_SIZE) t =
      Some (t\<lparr>t_mem := m, t_reg := (t_reg t)(11 := slot b 64, 3 := 0, 2 := slot b 44, 13 := b)\<rparr>)"
    and m: "\<And>j. j < 72 \<Longrightarrow> load32 m (slot b j) = (if 64 \<le> j then Some (saved t j) else load32 (t_mem t) (slot b j))"
    using run_prologue_head fr unfolding b_def by blast
  let ?t = "t\<lparr>t_mem := m, t_reg := (t_reg t)(11 := slot b 64, 3 := 0, 2 := slot b 44, 13 := b)\<rparr>"
  let ?e = "set_r 13 (t_reg t 13 - 288) (set_r 11 (t_reg t 13 - 32) t)"
  have f: "jit_frame b ?t" using m fr by (auto simp: jit_frame_def)
  have e: "jit_frame b ?e" using fr by (simp add: jit_frame_def b_def slot_def)
  obtain v where v: "bpf_val ?t 10 = Some v"
    using bpf_val_slot [OF f, of 10] m [of 48] m [of 49] fr [rule_format, of 48] fr [rule_format, of 49]
    by (auto simp: row_slot_def)
  let ?r = "regs[1 := join 0 (slot b 44), 10 := v]"
  have "bpf_val ?t k = Some (?r ! k)" if k: "k < 11" for k
  proof (cases "k = 1 \<or> k = 10")
    case True
    then show ?thesis using v regs by (auto simp: entry_regs_def bpf_val_slot [OF f] pair_val_def bpf2a32_def)
  next
    case False
    have "bpf_val ?t k = bpf_val ?e k"
      using False row_slots [OF k] m [of "row_slot k"] m [of "row_slot k + 1"]
      by (auto simp: bpf_val_slot [OF f k] bpf_val_slot [OF e k] pair_val_def bpf2a32_def)
    with False k regs show ?thesis by (simp add: entry_regs_def)
  qed
  then have "sim b (saved t) ?r ?t" using f regs m by (auto simp: sim_def entry_regs_def)
  from run_mov_reg64 [OF this, of 10 1] obtain t2 where
    t2: "t_run (emit_mov_reg64 True (bpf2a32 ! 10) (bpf2a32 ! 1)) ?t = Some t2" "sim b (saved t) (?r[10 := ?r ! 1]) t2" by auto
  have f2: "jit_frame b t2" using t2(2) by (simp add: sim_def)
  have "bpf_val t2 0 = bpf_val ?e 0" using t2(2) regs by (simp add: sim_def entry_regs_def)
  then have "pair_val t2 (1, 0) = pair_val ?e (1, 0)"
    using bpf_val_slot [OF f2, of 0] bpf_val_slot [OF e, of 0] by (simp add: bpf2a32_def)
  then have "lo (pair_val t2 (1, 0)) = lo (pair_val ?e (1, 0))" by simp
  then have r0: "t_reg t2 0 = t_reg t 0" by (simp add: pair_val_def)
  have "t_run (emit_mov_reg ARM_R0 2 @ emit_mov_imm 3 0) t2 = Some (set_pair (bpf2a32 ! 1) (zx (t_reg t 0)) t2)"
    using run_mov_reg [of 0 2 t2] by (simp add: t_run_append run_mov_imm r0 set_pair_def bpf2a32_def upper_zx)
  then have "t_run prologue_code t = Some (set_pair (bpf2a32 ! 1) (zx (t_reg t 0)) t2)"
    by (simp only: prologue_parts t_run_append [OF t1] t_run_append [OF t2(1)])
  moreover have "?r[10 := ?r ! 1, 1 := zx (t_reg t 0)] = regs[1 := zx (t_reg t 0), 10 := zx (t_reg t 13 - 112)]"
    using regs by (simp add: entry_regs_def list_update_swap [of 10 "Suc 0"] join_def b_def slot_def)
  ultimately show ?thesis using sim_set_row [OF t2(2), of 1 "zx (t_reg t 0)"] by auto
qed


lemma run_epilogue:
  assumes "sim b sv regs t"
  shows "t_run epilogue_code t = Some (t\<lparr>t_reg := (t_reg t)(4 := sv 64, 5 := sv 65, 6 := sv 66, 7 := sv 67, 8 := sv 68,
    9 := sv 69, 11 := sv 70, 15 := sv 71, 13 := slot b 72)\<rparr>)"
proof -
  have fp: "t_reg t 11 = slot b 64" using assms by (simp add: sim_def jit_frame_def)
  have ld: "load32 (t_mem t) (slot b k) = Some (sv k)" if "64 \<le> k" "k < 72" for k
    using assms that by (simp add: sim_def)
  have "t_run (emit_mov_reg ARM_FP ARM_SP) t = Some (set_r 13 (slot b 64) t)"
    using run_mov_reg [of 11 13 t] fp by (simp add: jit_defs)
  moreover have "t_run (emit4 (thumb32_POPW_T2 CALLEE_POP_MASK)) u = t_exec (T_POP 0x8bf0) u" for u
  proof -
    have "emit4 (thumb32_POPW_T2 CALLEE_POP_MASK) = [0xe8bd, 0x8bf0]" by (simp add: t_eval)
    then show ?thesis by (cases "t_exec (T_POP 0x8bf0) u") (simp_all add: t_defs del: t_exec.simps)
  qed
  moreover have "t_exec (T_POP 0x8bf0) (set_r 13 (slot b 64) t) = Some (t\<lparr>t_reg := (t_reg t)(4 := sv 64, 5 := sv 65,
      6 := sv 66, 7 := sv 67, 8 := sv 68, 9 := sv 69, 11 := sv 70, 15 := sv 71, 13 := slot b 72)\<rparr>)"
    unfolding t_exec.simps push_regs Let_def
    by (simp add: slot_next ld) (simp add: set_r_def slot_def add.commute [of 288 b])
  ultimately show ?thesis by (simp add: epilogue_code_def t_run_append del: t_exec.simps)
qed

lemma run_all:
  "sim b sv regs t \<Longrightarrow> list_all arith is \<Longrightarrow>
     \<exists>t'. t_run (concat (map emits is)) t = Some t' \<and> sim b sv (eval_all is regs) t'"
proof (induction "is" arbitrary: regs t)
  case (Cons i "is")
  obtain t1 where t1: "t_run (emits i) t = Some t1" "sim b sv (regs[unat (i_dst i) := arith_eval i regs]) t1"
    using run_arith [OF Cons.prems(1), of i] Cons.prems(2) by auto
  with Cons.IH [OF t1(2)] Cons.prems(2) show ?case by (simp add: t_run_append)
qed simp

subsection \<open>Compiled programs\<close>

text \<open>C6: compiling a straight-line program of 64-bit moves, additions, subtractions and conjunctions gives a
  function that computes what the interpreter computes. Run from any machine state whose stack has room for the
  frame, the bytes in the code buffer return with the interpreter's result in the pair \<open>r1:r0\<close>; the registers the
  calling convention preserves and the stack pointer are back, and the program counter is the return address. The
  argument buffer is the one in \<open>r0\<close>, and the register \<open>r10\<close> of both engines points to the same stack.\<close>

theorem jit_straight_line:
  assumes "insts vm = is @ [x]" "list_all arith is" "opcode x = EBPF_OP_EXIT" "length is \<le> 55"
    and "num_insts vm = of_nat (length is + 1)"
    and "\<forall>k < 72. load32 (t_mem t) (slot (t_reg t 13 - 288) k) \<noteq> None" and "entry_regs t regs0"
    and "f_mem f = t_reg t 0" and "f_stack f = t_reg t 13 - 240"
  shows "\<exists>t'. t_run (halfwords (emitted (gen_jit_code tbl epi vm))) t = Some t' \<and>
    ebpf_vm_exec g vm f regs0 w = (Ret (pair_val t' (1, 0)), w) \<and>
    (\<forall>r \<in> {4, 5, 6, 7, 8, 9, 11, 13}. t_reg t' r = t_reg t r) \<and> t_reg t' 15 = t_reg t 14"
proof -
  let ?b = "t_reg t 13 - 288" and ?r = "regs0[1 := zx (t_reg t 0), 10 := zx (t_reg t 13 - 112)]"
  obtain t1 where t1: "t_run prologue_code t = Some t1" "sim ?b (saved t) ?r t1"
    using run_prologue [OF assms(6,7)] by blast
  obtain t2 where t2: "t_run (concat (map emits is)) t1 = Some t2" "sim ?b (saved t) (eval_all is ?r) t2"
    using run_all [OF t1(2) assms(2)] by blast
  let ?t = "t2\<lparr>t_reg := (t_reg t2)(4 := saved t 64, 5 := saved t 65, 6 := saved t 66, 7 := saved t 67, 8 := saved t 68,
    9 := saved t 69, 11 := saved t 70, 15 := saved t 71, 13 := slot ?b 72)\<rparr>"
  have run: "t_run (halfwords (emitted (gen_jit_code tbl epi vm))) t = Some ?t"
    by (simp only: emitted_straight [OF assms(1-5)] t_run_append [OF t1(1)] t_run_append [OF t2(1)] run_epilogue [OF t2(2)])
  have "bpf_val t2 0 = Some (eval_all is ?r ! 0)" using t2(2) by (simp add: sim_def)
  then have res: "pair_val ?t (1, 0) = eval_all is ?r ! 0"
    using t2(2) bpf_val_slot [of ?b t2 0] by (simp add: sim_def bpf2a32_def pair_val_def)
  have "v_reg (init_state f regs0 w) = ?r" using assms(8,9) by (simp add: init_state_def STACK_SIZE_def)
  then have "ebpf_vm_exec g vm f regs0 w = (Ret (eval_all is ?r ! 0), w)"
    using interp_straight [of vm "[]" "is" x "init_state f regs0 w" g f] assms(1-4,7)
    by (auto simp: ebpf_vm_exec_def init_state_def entry_regs_def)
  moreover have "slot ?b 72 = t_reg t 13" by (simp add: slot_def)
  ultimately show ?thesis using run res by (auto simp: saved_def)
qed


definition sample_thumb :: thumb where
  "sample_thumb = \<lparr>t_reg = (\<lambda>r. if r = 13 then 0x20001000 else if r = 0 then 0x100 else 0), t_c = False, t_mem = (\<lambda>_. Some 0)\<rparr>"

abbreviation sample_vm :: ebpf_vm where
  "sample_vm \<equiv> zero_vm\<lparr>insts :=
     [\<lparr>opcode = 0xb7, i_dst = 0, i_src = 0, i_off = 0, i_imm = - 1\<rparr>, \<lparr>opcode = 0x0f, i_dst = 0, i_src = 1, i_off = 0, i_imm = 0\<rparr>] @
     [\<lparr>opcode = 0x95, i_dst = 0, i_src = 0, i_off = 0, i_imm = 0\<rparr>], num_insts := 3\<rparr>"

theorem jit_straight_line_witness:
  "\<exists>t'. t_run (halfwords (emitted (gen_jit_code (\<lambda>_. 0) 0 sample_vm))) sample_thumb = Some t' \<and>
    ebpf_vm_exec None sample_vm \<lparr>f_mem = 0x100, f_mem_len = 8, f_stack = 0x20000f10\<rparr>
      [0x100, 0, 0, 0, 0, 0, 0, 0, 0, 0, 0, 0] \<lparr>w_mem = (\<lambda>_. Some 0), w_dval = 0, w_out = []\<rparr> = (Ret (pair_val t' (1, 0)), \<lparr>w_mem = (\<lambda>_. Some 0), w_dval = 0, w_out = []\<rparr>) \<and>
    t_reg t' 13 = 0x20001000"
proof -
  have ld: "load32 (\<lambda>_. Some 0) a = Some 0" for a
    by (simp add: load32_def mem_load_def)
  have "entry_regs sample_thumb [0x100, 0, 0, 0, 0, 0, 0, 0, 0, 0, 0, 0]"
    unfolding entry_regs_def
  proof (intro conjI allI impI)
    fix k :: nat assume "k < 11" "k \<noteq> 1" "k \<noteq> 10"
    from less_11 [OF this(1)] this(2,3) show "bpf_val (set_r 13 (t_reg sample_thumb 13 - 288) (set_r 11 (t_reg sample_thumb 13 - 32) sample_thumb)) k =
        Some ([0x100, 0, 0, 0, 0, 0, 0, 0, 0, 0, 0, 0] ! k)"
      by (elim insertE emptyE) (simp_all add: sample_thumb_def bpf_val_def jit_defs pair_val_def join_def ld)
  qed simp
  then show ?thesis
    using jit_straight_line [of sample_vm
        "[\<lparr>opcode = 0xb7, i_dst = 0, i_src = 0, i_off = 0, i_imm = - 1\<rparr>, \<lparr>opcode = 0x0f, i_dst = 0, i_src = 1, i_off = 0, i_imm = 0\<rparr>]"
        "\<lparr>opcode = 0x95, i_dst = 0, i_src = 0, i_off = 0, i_imm = 0\<rparr>" sample_thumb
        "[0x100, 0, 0, 0, 0, 0, 0, 0, 0, 0, 0, 0]" "\<lparr>f_mem = 0x100, f_mem_len = 8, f_stack = 0x20000f10\<rparr>"
        "\<lambda>_. 0" 0 None "\<lparr>w_mem = (\<lambda>_. Some 0), w_dval = 0, w_out = []\<rparr>"]
    by (auto simp: sample_thumb_def ld arith_def opcode_val)
qed

end
