(* ===== verification/Jit_Patch.thy ===== *)
theory Jit_Patch
  imports Jit_Sound
begin

text \<open>
  Shipped patches as compiled code: the bytes \<open>gen_jit_code\<close> leaves in its buffer for a patch with loads and
  jumps, run on the machine of \<open>Thumb2_Exec\<close>.
\<close>

subsection \<open>Straight code inside a run with branches\<close>

lemma decode16_shape:
  assumes "decode16 h = Some i"
  shows "drop_bit 12 h \<noteq> 0xd" "drop_bit 6 h \<noteq> 0x10a" "drop_bit 8 h \<noteq> 0x45"
proof -
  have 12: "drop_bit 12 h = drop_bit 1 (drop_bit 11 h)" "drop_bit 12 h = drop_bit 3 (drop_bit 9 h)"
      "drop_bit 12 h = drop_bit 5 (drop_bit 7 h)" "drop_bit 12 h = drop_bit 6 (drop_bit 6 h)" "drop_bit 12 h = drop_bit 4 (drop_bit 8 h)"
    and 11: "drop_bit 11 h = drop_bit 5 (drop_bit 6 h)" "drop_bit 11 h = drop_bit 3 (drop_bit 8 h)"
    and 9: "drop_bit 9 h = drop_bit 3 (drop_bit 6 h)" "drop_bit 9 h = drop_bit 1 (drop_bit 8 h)"
    and 8: "drop_bit 8 h = drop_bit 2 (drop_bit 6 h)" "drop_bit 8 h = drop_bit 1 (drop_bit 7 h)"
    and 7: "drop_bit 7 h = drop_bit 1 (drop_bit 6 h)"
    by simp_all
  consider "drop_bit 11 h = 4" | "drop_bit 9 h = 0xc" | "drop_bit 7 h = 0x8e" | "drop_bit 6 h \<in> {0x100, 0x101, 0x10c}"
    | "drop_bit 8 h = 0x46" | "drop_bit 11 h = 0x11"
    using assms by (auto simp: decode16_def Let_def split: if_splits)
  note form = this
  from form show "drop_bit 12 h \<noteq> 0xd" using 12 by cases (auto simp del: drop_bit_drop_bit)
  show "drop_bit 6 h \<noteq> 0x10a"
  proof
    assume "drop_bit 6 h = 0x10a"
    with form show False using 11(1) 9(1) 8(1) 7 by cases (auto simp del: drop_bit_drop_bit)
  qed
  show "drop_bit 8 h \<noteq> 0x45"
  proof
    assume "drop_bit 8 h = 0x45"
    with form show False
      by cases (insert 11(2) 9(2) 8, auto simp del: drop_bit_drop_bit)
  qed
qed

lemma t_walk_run:
  "t_run c t = Some t1 \<Longrightarrow> t_walk (c @ c') f t = t_walk c' (if c = [] then f else None) t1"
proof (induction c t arbitrary: f rule: t_run.induct)
  case (2 h t)
  then show ?case using decode16_shape [of h] by (auto split: if_splits simp: bind_eq_Some_conv)
next
  case (3 h l c t)
  show ?case
  proof (cases "drop_bit 11 h \<ge> 0x1d")
    case True
    with 3(3) obtain i t2 where "decode32 h l = Some i" "t_exec i t = Some t2" "t_run c t2 = Some t1"
      by (auto simp: bind_eq_Some_conv)
    with 3(1) [OF True] True show ?thesis by (simp split: if_splits)
  next
    case False
    with 3(3) obtain i t2 where "decode16 h = Some i" "t_exec i t = Some t2" "t_run (l # c) t2 = Some t1"
      by (auto simp: bind_eq_Some_conv)
    with 3(2) [OF False] False decode16_shape [of h] show ?thesis by simp
  qed
qed simp

subsection \<open>Where the passes put the code\<close>

text \<open>\<open>cs\<close> is the code of each slot of the program, the second slot of a wide load empty.\<close>

definition pos :: "code list \<Rightarrow> nat \<Rightarrow> nat" where "pos cs k = 26 + 2 * length (concat (take k cs))"

definition wide_load :: "ebpf_inst list \<Rightarrow> nat \<Rightarrow> bool" where
  "wide_load prog k \<longleftrightarrow> opcode (prog ! k) = EBPF_OP_LDDW"

definition same_prog :: "ebpf_inst list \<Rightarrow> bool \<Rightarrow> jit_state \<Rightarrow> bool" where
  "same_prog prog gen s \<longleftrightarrow> j_insts s = prog \<and> j_inst_num s = length prog \<and> j_needGen s = gen \<and> length prog \<le> length (j_offsets s)"

text \<open>What the compiler does with one slot, in either pass.\<close>

definition slots_ok :: "ebpf_inst list \<Rightarrow> code list \<Rightarrow> bool" where
  "slots_ok prog cs \<longleftrightarrow> length cs = length prog \<and>
     (\<forall>k < length prog. wide_load prog k \<longrightarrow> k + 1 < length prog \<and> cs ! (k + 1) = [])"

lemma pos_step: "k < length cs \<Longrightarrow> pos cs (Suc k) = pos cs k + 2 * length (cs ! k)"
  by (simp add: pos_def take_Suc_conv_app_nth)

lemma pos_skip: "k + 1 < length cs \<Longrightarrow> cs ! (k + 1) = [] \<Longrightarrow> pos cs (k + 2) = pos cs (Suc k)"
  by (simp add: pos_def take_Suc_conv_app_nth)

lemma pos_mono:
  assumes "k \<le> l"
  shows "pos cs k \<le> pos cs l"
proof -
  have "take l cs = take k cs @ drop k (take l cs)"
    using append_take_drop_id [of k "take l cs"] assms by (simp add: min_absorb1)
  then have "concat (take l cs) = concat (take k cs) @ concat (drop k (take l cs))" by (metis concat_append)
  then show ?thesis by (simp add: pos_def)
qed

lemma same_prog_step:
  "same_prog prog gen st \<Longrightarrow> same_prog prog gen (set_offset (snd (build_inst st i x)) k)"
  by (simp add: same_prog_def)

lemma pre_layout:
  assumes ok: "slots_ok prog cs"
    and size: "\<And>s k. same_prog prog False s \<Longrightarrow> k < length prog \<Longrightarrow>
      ret_of s k (prog ! k) = (if wide_load prog k then 1 else 0) \<and> length (Jit_Passes.code_of s k (prog ! k)) = length (cs ! k)"
  shows "same_prog prog False st \<Longrightarrow> i \<le> length prog \<Longrightarrow> j_idx st = pos cs i \<Longrightarrow>
    j_idx (body_loop prog (length prog) st i) = pos cs (length prog) \<and>
    (\<forall>k. i \<le> k \<longrightarrow> k < length prog \<longrightarrow> \<not> wide_load prog k \<longrightarrow>
       j_offsets (body_loop prog (length prog) st i) ! k = of_nat (pos cs (Suc k)))"
proof (induction st i rule: body_induct [where n = "length prog" and prog = prog])
  case (step st i)
  let ?l = "body_loop prog (length prog)"
  show ?case
  proof (cases "i < length prog")
    case False
    then show ?thesis using step.prems by (subst (1 2) body_loop_step) simp
  next
    case True
    let ?st = "snd (build_inst st i (prog ! i))"
    note sz = size [OF step.prems(1) True]
    have cs: "length cs = length prog" and w: "wide_load prog i \<Longrightarrow> i + 1 < length prog \<and> cs ! (i + 1) = []"
      using ok True by (auto simp: slots_ok_def)
    have idx: "j_idx ?st = pos cs (Suc i)" using step.prems(3) sz True cs by (simp add: pos_step)
    show ?thesis
    proof (cases "wide_load prog i")
      case w': True
      let ?s = "set_offset ?st (i + 1)"
      have l: "?l st i = ?l ?s (i + 2)" using True sz w' by (subst body_loop_step) (simp add: Let_def)
      have "j_idx (?l ?s (i + 2)) = pos cs (length prog) \<and>
          (\<forall>k. i + 2 \<le> k \<longrightarrow> k < length prog \<longrightarrow> \<not> wide_load prog k \<longrightarrow> j_offsets (?l ?s (i + 2)) ! k = of_nat (pos cs (Suc k)))"
        by (rule step.IH(1)) (use True sz w' w idx step.prems cs pos_skip [of i cs] in \<open>auto simp: same_prog_step\<close>)
      moreover have "j_offsets (?l ?s (i + 2)) ! (i + 1) = of_nat (pos cs (Suc (i + 1)))"
        using body_loop_offsets_below [of ?s "i + 1" "i + 2" prog "length prog"] step.prems(1) w w' cs pos_skip [of i cs]
        by (simp add: same_prog_def set_offset_offsets idx del: build_inst_simps(2))
      ultimately show ?thesis unfolding l using w' by (metis (no_types, lifting) Suc_eq_plus1 Suc_leI add_2_eq_Suc' le_neq_implies_less)
    next
      case w': False
      let ?s = "set_offset ?st i"
      have l: "?l st i = ?l ?s (i + 1)" using True sz w' by (subst body_loop_step) (simp add: Let_def)
      have "j_idx (?l ?s (i + 1)) = pos cs (length prog) \<and>
          (\<forall>k. i + 1 \<le> k \<longrightarrow> k < length prog \<longrightarrow> \<not> wide_load prog k \<longrightarrow> j_offsets (?l ?s (i + 1)) ! k = of_nat (pos cs (Suc k)))"
        by (rule step.IH(2)) (use True sz w' idx step.prems in \<open>auto simp: same_prog_step\<close>)
      moreover have "j_offsets (?l ?s (i + 1)) ! i = of_nat (pos cs (Suc i))"
        using body_loop_offsets_below [of ?s i "i + 1" prog "length prog"] step.prems(1) True
        by (simp add: same_prog_def set_offset_offsets idx del: build_inst_simps(2))
      ultimately show ?thesis unfolding l by (metis (no_types, lifting) Suc_eq_plus1 Suc_leI le_neq_implies_less)
    qed
  qed
qed

lemma gen_layout:
  assumes ok: "slots_ok prog cs" "pos cs (length prog) \<le> L"
    and code: "\<And>s k. same_prog prog True s \<Longrightarrow> j_offsets s = os \<Longrightarrow> j_idx s = pos cs k \<Longrightarrow> k < length prog \<Longrightarrow>
      ret_of s k (prog ! k) = (if wide_load prog k then 1 else 0) \<and> Jit_Passes.code_of s k (prog ! k) = cs ! k"
  shows "same_prog prog True st \<Longrightarrow> j_offsets st = os \<Longrightarrow> length (j_code st) = L \<Longrightarrow> i \<le> length prog \<Longrightarrow> j_idx st = pos cs i \<Longrightarrow>
    j_idx (body_loop prog (length prog) st i) = pos cs (length prog) \<and>
    emitted (body_loop prog (length prog) st i) = emitted st @ code_bytes (concat (drop i cs))"
proof (induction st i rule: body_induct [where n = "length prog" and prog = prog])
  case (step st i)
  let ?l = "body_loop prog (length prog)"
  have cs: "length cs = length prog" using ok by (simp add: slots_ok_def)
  show ?case
  proof (cases "i < length prog")
    case False
    then show ?thesis using step.prems cs by (subst (1 2) body_loop_step) simp
  next
    case True
    let ?st = "snd (build_inst st i (prog ! i))"
    note cd = code [OF step.prems(1,2,5) True]
    have w: "wide_load prog i \<Longrightarrow> i + 1 < length prog \<and> cs ! (i + 1) = []" using ok True by (auto simp: slots_ok_def)
    have idx: "j_idx ?st = pos cs (Suc i)" using step.prems(5) cd True cs by (simp add: pos_step)
    have "pos cs (Suc i) \<le> pos cs (length prog)" using True by (intro pos_mono) simp
    then have em: "emitted ?st = emitted st @ code_bytes (cs ! i)"
      using emitted_build_inst [of st i "prog ! i"] step.prems(1,3,5) ok(2) cd idx by (simp add: same_prog_def)
    have d: "drop i cs = cs ! i # drop (Suc i) cs" using True cs by (simp add: Cons_nth_drop_Suc)
    show ?thesis
    proof (cases "wide_load prog i")
      case w': True
      have l: "?l st i = ?l (set_offset ?st (i + 1)) (i + 2)" using True cd w' by (subst body_loop_step) (simp add: Let_def)
      have "drop (Suc i) cs = [] # drop (i + 2) cs" using w [OF w'] cs Cons_nth_drop_Suc [of "Suc i" cs] by simp
      moreover have "j_idx (?l (set_offset ?st (i + 1)) (i + 2)) = pos cs (length prog) \<and>
          emitted (?l (set_offset ?st (i + 1)) (i + 2)) = emitted (set_offset ?st (i + 1)) @ code_bytes (concat (drop (i + 2) cs))"
        by (rule step.IH(1)) (use True cd w' w idx step.prems cs pos_skip [of i cs] in \<open>auto simp: same_prog_def\<close>)
      ultimately show ?thesis unfolding l d using em step.prems(1) by (simp add: same_prog_def)
    next
      case w': False
      have l: "?l st i = ?l (set_offset ?st i) (i + 1)" using True cd w' by (subst body_loop_step) (simp add: Let_def)
      have "j_idx (?l (set_offset ?st i) (i + 1)) = pos cs (length prog) \<and>
          emitted (?l (set_offset ?st i) (i + 1)) = emitted (set_offset ?st i) @ code_bytes (concat (drop (i + 1) cs))"
        by (rule step.IH(2)) (use True cd w' idx step.prems in \<open>auto simp: same_prog_def\<close>)
      then show ?thesis unfolding l d using em step.prems(1) by (simp add: same_prog_def)
    qed
  qed
qed

text \<open>The bytes of a whole program, from the code of its slots: in the generating pass the offset table holds the
  ends of the slots and \<open>j_epilogue\<close> the end of the last one.\<close>

lemma compiled_program:
  assumes ok: "slots_ok prog cs" "pos cs (length prog) + 8 \<le> length (j_code st)" "length prog \<le> length (j_offsets st)"
    and st: "j_insts st = prog" "j_inst_num st = length prog"
    and size: "\<And>s k. same_prog prog False s \<Longrightarrow> k < length prog \<Longrightarrow>
      ret_of s k (prog ! k) = (if wide_load prog k then 1 else 0) \<and> length (Jit_Passes.code_of s k (prog ! k)) = length (cs ! k)"
    and code: "\<And>s k. same_prog prog True s \<Longrightarrow>
      \<forall>j < length prog. \<not> wide_load prog j \<longrightarrow> j_offsets s ! j = of_nat (pos cs (Suc j)) \<Longrightarrow>
      j_idx s = pos cs k \<Longrightarrow> k < length prog \<Longrightarrow>
      ret_of s k (prog ! k) = (if wide_load prog k then 1 else 0) \<and> Jit_Passes.code_of s k (prog ! k) = cs ! k"
  shows "halfwords (emitted (jit_compile st)) = prologue_code @ concat cs @ epilogue_code"
proof -
  let ?n = "length prog" and ?g = "(pre_pass st)\<lparr>j_idx := 0, j_needGen := True\<rparr>" and ?L = "length (j_code st)"
  have cs: "take ?n cs = cs" using ok(1) by (simp add: slots_ok_def)
  have "same_prog prog False (pre_start st)" "j_idx (pre_start st) = pos cs 0"
    using st ok(3) by (simp_all add: same_prog_def pos_def length_prologue)
  from pre_layout [OF ok(1) size this(1) _ this(2)]
  have off: "\<forall>j < ?n. \<not> wide_load prog j \<longrightarrow> j_offsets (pre_pass st) ! j = of_nat (pos cs (Suc j))"
    unfolding pre_pass_simps(7) st by simp
  have g: "same_prog prog True (build_prologue ?g)" "j_idx (build_prologue ?g) = pos cs 0" "length (j_code (build_prologue ?g)) = ?L"
    "j_offsets (build_prologue ?g) = j_offsets (pre_pass st)"
    using st ok(3) by (simp_all add: same_prog_def pos_def length_prologue pre_pass_simps(1-5) build_prologue_def)
  have "26 \<le> ?L" using ok(2) by (simp add: pos_def)
  then have pro: "emitted (build_prologue ?g) = code_bytes prologue_code"
    using emitted_emit_code [of ?g prologue_code] st by (simp add: build_prologue_def length_prologue pre_pass_simps(1-5) emitted_def)
  have "j_idx (build_body (build_prologue ?g)) = pos cs ?n \<and>
      emitted (build_body (build_prologue ?g)) = code_bytes (prologue_code @ concat cs)"
    using gen_layout [of prog cs ?L "j_offsets (pre_pass st)", OF ok(1) _ _ g(1,4,3) _ g(2)] code off ok(2) pro st
    by (simp add: build_body_def pre_pass_simps(1-5) build_prologue_def)
  moreover have "j_needGen (build_body (build_prologue ?g))" "length (j_code (build_body (build_prologue ?g))) = ?L"
    using body_loop_static [of "build_prologue ?g"] g by (simp_all add: build_body_def build_prologue_def pre_pass_simps(1-5) st)
  ultimately have "emitted (jit_compile st) = code_bytes (prologue_code @ concat cs @ epilogue_code)"
    using emitted_emit_code [of "build_body (build_prologue ?g)" epilogue_code] ok(2)
    by (simp add: jit_compile_def gen_pass_def build_epilogue_def length_epilogue)
  then show ?thesis by (simp only: halfwords_bytes)
qed

text \<open>\<open>gen_jit_code\<close> compiles from a state with 2048 bytes for the code and 256 offsets.\<close>

lemma gen_jit_compile:
  obtains st where "gen_jit_code tbl epi vm = jit_compile st" "j_insts st = insts vm" "j_inst_num st = unat (num_insts vm)"
    "length (j_code st) = 2048" "length (j_offsets st) = 256"
  by (rule that [OF gen_jit_code_def [unfolded Let_def]]) (simp_all add: jit_state_set_mem_def jit_mem_allocate_def)

subsection \<open>The code of a patch\<close>

text \<open>What the compiler makes of the slots of \<open>test_cve\<close>.\<close>

definition test_cve_slots :: "code list" where
  "test_cve_slots =
     [[0x4617, 0xf8d7, 0x2000],
      [0xf64f, 0x082f, 0xf6cf, 0x78ff, 0xf64f, 0x79ff, 0xf6cf, 0x79ff, 0xeb18, 0x0202, 0xeb49, 0x0303],
      [0x4613, 0x4052],
      [0x461a, 0x2300],
      [0x2001, 0x2100],
      [0xf640, 0x36b8, 0x2700, 0xe94b, 0x6702],
      [0xe95b, 0x6702, 0x429f, 0x4296, 0xd801],
      [0x2000, 0x2100],
      [0x4601, 0x4040],
      []]"

lemma test_cve_inst:
  "inst_code s k \<lparr>opcode = 97, i_dst = 1, i_src = 1, i_off = 0, i_imm = 0\<rparr> = ok_code (test_cve_slots ! 0)"
  "inst_code s k \<lparr>opcode = 7, i_dst = 1, i_src = 0, i_off = 0, i_imm = 0xfffff82f\<rparr> = ok_code (test_cve_slots ! 1)"
  "inst_code s k \<lparr>opcode = 103, i_dst = 1, i_src = 0, i_off = 0, i_imm = 32\<rparr> = ok_code (test_cve_slots ! 2)"
  "inst_code s k \<lparr>opcode = 119, i_dst = 1, i_src = 0, i_off = 0, i_imm = 32\<rparr> = ok_code (test_cve_slots ! 3)"
  "inst_code s k \<lparr>opcode = 183, i_dst = 0, i_src = 0, i_off = 0, i_imm = 1\<rparr> = ok_code (test_cve_slots ! 4)"
  "inst_code s k \<lparr>opcode = 183, i_dst = 2, i_src = 0, i_off = 0, i_imm = 3000\<rparr> = ok_code (test_cve_slots ! 5)"
  "inst_code s k \<lparr>opcode = 183, i_dst = 0, i_src = 0, i_off = 0, i_imm = 0\<rparr> = ok_code (test_cve_slots ! 7)"
  "inst_code s k \<lparr>opcode = 103, i_dst = 0, i_src = 0, i_off = 0, i_imm = 32\<rparr> = ok_code (test_cve_slots ! 8)"
  by (simp_all add: jit_eval test_cve_slots_def)

lemma test_cve_jump:
  "\<not> j_needGen s \<Longrightarrow> j_inst_num s = 10 \<Longrightarrow>
     \<exists>c. inst_code s k \<lparr>opcode = 45, i_dst = 2, i_src = 1, i_off = 1, i_imm = 0\<rparr> = ok_code c \<and> length c = 5"
  "j_needGen s \<Longrightarrow> j_inst_num s = 10 \<Longrightarrow> get_offset s 6 = 88 \<Longrightarrow> get_offset s 7 = 92 \<Longrightarrow>
     inst_code s 6 \<lparr>opcode = 45, i_dst = 2, i_src = 1, i_off = 1, i_imm = 0\<rparr> = ok_code (test_cve_slots ! 6)"
  by (simp_all add: jit_eval test_cve_slots_def)

lemma test_cve_exit: "j_inst_num s = 10 \<Longrightarrow>
  inst_code s 9 \<lparr>opcode = 149, i_dst = 0, i_src = 0, i_off = 0, i_imm = 0\<rparr> = ok_code (test_cve_slots ! 9)"
  by (simp add: exit_code opcode_val test_cve_slots_def)

lemma test_cve_compiled:
  assumes "j_insts st = decode_insts test_cve" "j_inst_num st = 10" "200 \<le> length (j_code st)" "10 \<le> length (j_offsets st)"
  shows "halfwords (emitted (jit_compile st)) = prologue_code @ concat test_cve_slots @ epilogue_code"
proof (rule compiled_program [OF _ _ _ assms(1)])
  let ?p = "decode_insts test_cve"
  note d = decode_test_cve test_cve_slots_def
  have ten: "k \<in> {0, 1, 2, 3, 4, 5, 6, 7, 8, 9}" if "k < length ?p" for k
    using that by (auto simp: decode_test_cve)
  have w: "\<not> wide_load ?p k" if "k < length ?p" for k
    using ten [OF that] by (auto simp: decode_test_cve wide_load_def opcode_val)
  then show "slots_ok ?p test_cve_slots" by (simp add: slots_ok_def) (simp add: d)
  show "pos test_cve_slots (length ?p) + 8 \<le> length (j_code st)" using assms(3) by (simp add: d pos_def)
  show "length ?p \<le> length (j_offsets st)" "j_inst_num st = length ?p"
    using assms(2,4) by (simp_all add: decode_test_cve)
  fix s k assume k: "k < length ?p"
  { assume s: "same_prog ?p False s"
    then obtain c where "inst_code s 6 (?p ! 6) = ok_code c" "length c = 5"
      using test_cve_jump(1) [of s 6] by (auto simp: same_prog_def decode_test_cve)
    with s show "ret_of s k (?p ! k) = (if wide_load ?p k then 1 else 0) \<and>
        length (Jit_Passes.code_of s k (?p ! k)) = length (test_cve_slots ! k)"
      using ten [OF k] test_cve_inst [of s] test_cve_exit [of s]
      by (elim insertE emptyE) (simp_all add: same_prog_def decode_test_cve wide_load_def opcode_val test_cve_slots_def) }
  assume s: "same_prog ?p True s"
    and o: "\<forall>j < length ?p. \<not> wide_load ?p j \<longrightarrow> j_offsets s ! j = of_nat (pos test_cve_slots (Suc j))"
  have "get_offset s 6 = 88" "get_offset s 7 = 92"
    using s o [rule_format, of 6] o [rule_format, of 7]
    by (simp_all add: same_prog_def get_offset_def decode_test_cve wide_load_def opcode_val pos_def test_cve_slots_def)
  with s have "inst_code s 6 (?p ! 6) = ok_code (test_cve_slots ! 6)"
    using test_cve_jump(2) [of s] by (simp add: same_prog_def decode_test_cve)
  with s show "ret_of s k (?p ! k) = (if wide_load ?p k then 1 else 0) \<and>
      Jit_Passes.code_of s k (?p ! k) = test_cve_slots ! k"
    using ten [OF k] w [OF k] test_cve_inst [of s] test_cve_exit [of s]
    by (elim insertE emptyE) (simp_all add: same_prog_def decode_test_cve)
qed

lemma test_cve_code:
  assumes "insts vm = decode_insts test_cve" "num_insts vm = 10"
  shows "halfwords (emitted (gen_jit_code tbl epi vm)) = prologue_code @ concat test_cve_slots @ epilogue_code"
  by (rule gen_jit_compile [of tbl epi vm]) (simp add: test_cve_compiled assms)

subsection \<open>Memory outside the frame\<close>

definition keeps :: "u32 \<Rightarrow> nat \<Rightarrow> memory \<Rightarrow> memory \<Rightarrow> bool" where
  "keeps b n m m' \<longleftrightarrow> (\<forall>a. n \<le> unat (a - b) \<longrightarrow> m' a = m a)"

lemma keeps_trans: "keeps b n m m1 \<Longrightarrow> keeps b n m1 m2 \<Longrightarrow> keeps b n m m2"
  by (simp add: keeps_def)

lemma keeps_refl [simp]: "keeps b n m m"
  by (simp add: keeps_def)

lemma keeps_more: "keeps b n m m' \<Longrightarrow> n \<le> n' \<Longrightarrow> keeps b n' m m'"
  by (auto simp: keeps_def)

lemma store32_keeps:
  assumes "store32 m x v = Some m'" "unat (x - b) + 4 \<le> n"
  shows "keeps b n m m'"
  unfolding keeps_def
proof (intro allI impI)
  fix a assume a: "n \<le> unat (a - b)"
  show "m' a = m a"
  proof (rule store_bytes_frame [OF assms(1) [unfolded store32_def mem_store_def]], intro allI impI notI)
    fix l assume l: "l < length (le_bytes 4 (ucast v))" and e: "a = x + word_of_nat l"
    then have "l < 4" by (simp add: le_bytes_def)
    have "a - b = (x - b) + word_of_nat l" using e by simp
    then have "unat (a - b) \<le> unat (x - b) + unat (word_of_nat l :: u32)"
      by (simp only: unat_word_ariths mod_less_eq_dividend)
    with a assms(2) \<open>l < 4\<close> show False by (simp add: unat_of_nat)
  qed
qed

text \<open>Code that stores only below the frame pointer, in the 256 bytes of the stack, and keeps the frame pointer.\<close>

fun fp_inst :: "t_inst \<Rightarrow> bool" where
  "fp_inst (T_STRD d d2 n off) \<longleftrightarrow> n = 11 \<and> unat (off + 256) + 8 \<le> 256"
| "fp_inst (T_LDRD d d2 n off) \<longleftrightarrow> d \<noteq> 11 \<and> d2 \<noteq> 11"
| "fp_inst (T_ADDS d n m) \<longleftrightarrow> d \<noteq> 11"
| "fp_inst (T_ADC d n m) \<longleftrightarrow> d \<noteq> 11"
| "fp_inst (T_EOR d n m) \<longleftrightarrow> d \<noteq> 11"
| "fp_inst (T_ORR d n m) \<longleftrightarrow> d \<noteq> 11"
| "fp_inst (T_MOV d m) \<longleftrightarrow> d \<noteq> 11"
| "fp_inst (T_MOVI d v) \<longleftrightarrow> d \<noteq> 11"
| "fp_inst (T_MOVT d v) \<longleftrightarrow> d \<noteq> 11"
| "fp_inst (T_SUBI d n v) \<longleftrightarrow> d \<noteq> 11"
| "fp_inst (T_LDR d n off) \<longleftrightarrow> d \<noteq> 11"
| "fp_inst (T_LDRH d n off) \<longleftrightarrow> d \<noteq> 11"
| "fp_inst _ \<longleftrightarrow> False"

fun fp_code :: "code \<Rightarrow> bool" where
  "fp_code [] \<longleftrightarrow> True"
| "fp_code [h] \<longleftrightarrow> (case decode16 h of None \<Rightarrow> False | Some i \<Rightarrow> fp_inst i)"
| "fp_code (h # l # c) \<longleftrightarrow>
     (if drop_bit 11 h \<ge> 0x1d then (case decode32 h l of None \<Rightarrow> False | Some i \<Rightarrow> fp_inst i) \<and> fp_code c
      else (case decode16 h of None \<Rightarrow> False | Some i \<Rightarrow> fp_inst i) \<and> fp_code (l # c))"

lemma fp_inst_exec:
  assumes "fp_inst i" "t_exec i t = Some t'"
  shows "t_reg t' 11 = t_reg t 11 \<and> keeps (t_reg t 11 - 256) 256 (t_mem t) (t_mem t')"
proof (cases i)
  case (T_STRD d d2 n off)
  let ?b = "t_reg t 11 - 256" and ?x = "t_reg t 11 + off"
  from assms T_STRD obtain m1 m2 where m: "store32 (t_mem t) ?x (t_reg t d) = Some m1"
      "store32 m1 (?x + 4) (t_reg t d2) = Some m2" "t' = t\<lparr>t_mem := m2\<rparr>"
    by (auto simp: bind_eq_Some_conv)
  have o: "unat (off + 256) + 8 \<le> 256" using assms(1) T_STRD by simp
  have e: "?x - ?b = off + 256" "?x + 4 - ?b = off + 256 + 4" by simp_all
  have "unat (off + 256 + 4) \<le> unat (off + 256) + unat (4 :: u32)" by (simp only: unat_word_ariths mod_less_eq_dividend)
  with o have "unat (?x + 4 - ?b) + 4 \<le> 256" "unat (?x - ?b) + 4 \<le> 256" unfolding e by simp_all
  from store32_keeps [OF m(1) this(2)] store32_keeps [OF m(2) this(1)] m(3) show ?thesis
    by (simp add: keeps_trans)
qed (use assms in \<open>auto simp: bind_eq_Some_conv\<close>)

lemma fp_code_run:
  "fp_code c \<Longrightarrow> t_run c t = Some t' \<Longrightarrow>
     t_reg t' 11 = t_reg t 11 \<and> keeps (t_reg t 11 - 256) 256 (t_mem t) (t_mem t')"
proof (induction c t rule: t_run.induct)
  case (2 h t)
  then show ?case using fp_inst_exec [of _ t t'] by (auto simp: bind_eq_Some_conv split: if_splits)
next
  case (3 h l c t)
  show ?case
  proof (cases "drop_bit 11 h \<ge> 0x1d")
    case True
    with 3(4) obtain i t2 where i: "decode32 h l = Some i" "t_exec i t = Some t2" "t_run c t2 = Some t'"
      by (auto simp: bind_eq_Some_conv)
    with 3(1) [OF True i(1,2) _ i(3)] 3(3) True fp_inst_exec [OF _ i(2)] show ?thesis by (auto intro: keeps_trans)
  next
    case False
    with 3(4) obtain i t2 where i: "decode16 h = Some i" "t_exec i t = Some t2" "t_run (l # c) t2 = Some t'"
      by (auto simp: bind_eq_Some_conv)
    with 3(2) [OF False i(1,2) _ i(3)] 3(3) False fp_inst_exec [OF _ i(2)] show ?thesis by (auto intro: keeps_trans)
  qed
qed simp

lemma store_regs_keeps:
  "store_regs r ks (slot b i) m = Some m' \<Longrightarrow> 4 * (i + length ks) \<le> n \<Longrightarrow> n < 2 ^ 32 \<Longrightarrow> keeps b n m m'"
proof (induction ks arbitrary: i m)
  case (Cons k ks)
  then obtain m1 where m1: "store32 m (slot b i) (r k) = Some m1" "store_regs r ks (slot b (Suc i)) m1 = Some m'"
    by (auto simp: bind_eq_Some_conv slot_next)
  have "slot b i - b = word_of_nat (4 * i)" by (simp only: slot_def add_diff_cancel_left')
  then have "unat (slot b i - b) = 4 * i" using Cons.prems(2,3) unat_of_nat_32 [of "4 * i" n] by simp
  then have "keeps b n m m1" by (intro store32_keeps [OF m1(1)]) (use Cons.prems(2) in simp)
  with Cons.IH [OF m1(2)] Cons.prems show ?case by (auto intro: keeps_trans)
qed simp

lemma prologue_keeps:
  assumes "t_run prologue_code t = Some t'"
  shows "keeps (t_reg t 13 - 288) 288 (t_mem t) (t_mem t')"
proof -
  let ?b = "t_reg t 13 - 288"
  let ?c = "emit_mov_imm 3 0 @ emit_sub_imm 2 ARM_SP SCRATCH_SIZE @ emit_sub_imm ARM_SP ARM_SP EBPF_STACK_SIZE @
    emit_mov_reg64 True (bpf2a32 ! 10) (bpf2a32 ! 1) @ emit_mov_reg ARM_R0 2 @ emit_mov_imm 3 0"
  have p: "prologue_code = emit4 (thumb32_PUSHW_T2 CALLEE_PUSH_MASK) @ emit_mov_reg ARM_SP ARM_FP @ ?c"
    by (simp add: prologue_parts)
  obtain t1 where t1: "t_exec (T_PUSH 0x4bf0) t = Some t1" "t_run (emit_mov_reg ARM_SP ARM_FP @ ?c) t1 = Some t'"
    using assms unfolding p run_push by (auto simp: bind_eq_Some_conv)
  have e: "t_reg t 13 - 32 = slot ?b 64" by (simp add: slot_def)
  from t1(1) obtain m where m: "store_regs (t_reg t) saved_regs (slot ?b 64) (t_mem t) = Some m"
      "t1 = (set_r 13 (slot ?b 64) t)\<lparr>t_mem := m\<rparr>"
    unfolding t_exec.simps push_regs Let_def by (auto simp: bind_eq_Some_conv e simp del: store_regs.simps)
  have k: "keeps ?b 288 (t_mem t) m" by (rule store_regs_keeps [OF m(1)]) simp_all
  let ?t = "set_r 11 (t_reg t1 13) t1"
  have "t_run (emit_mov_reg ARM_SP ARM_FP) t1 = Some ?t" using run_mov_reg [of 13 11 t1] by (simp add: jit_defs)
  with t1(2) have run: "t_run ?c ?t = Some t'" by (simp only: t_run_append)
  have "fp_code ?c" by (simp add: t_eval imm16_of_def)
  from fp_code_run [OF this run] have "keeps (slot ?b 64 - 256) 256 m (t_mem t')" using m(2) by simp
  moreover have "slot ?b 64 - 256 = ?b" by (simp add: slot_def)
  ultimately show ?thesis using k keeps_more [of ?b 256 m "t_mem t'" 288] by (auto intro: keeps_trans)
qed

subsection \<open>Loads, shifts and jumps\<close>

lemma sim_pair: "sim b sv regs t \<Longrightarrow> k \<in> {0, 1, 6} \<Longrightarrow> pair_val t (bpf2a32 ! k) = regs ! k"
  using bpf_val_slot [of b t k] by (auto simp: sim_def)

lemma sim_fp: "sim b sv regs t \<Longrightarrow> t_reg t 11 - 256 = b"
  by (simp add: sim_def jit_frame_def slot_def)

lemma shift_halves:
  "upper (push_bit 32 (join h l)) = l" "lo (push_bit 32 (join h l)) = 0"
  "upper (drop_bit 32 (join h l)) = 0" "lo (drop_bit 32 (join h l)) = h"
  by (auto simp: join_def upper_def bit_eq_iff bit_simps dest: bit_imp_le_length)

lemma set_r_twist: "d \<noteq> d' \<Longrightarrow> set_r d v (set_r d' v' t) = set_r d' v' (set_r d v t)"
  by (simp add: set_r_def fun_upd_twist)

lemma run_shift32:
  "t_run [0x4613, 0x4052] t = Some (set_pair (3, 2) (push_bit 32 (pair_val t (3, 2))) t)"
  "t_run [0x4601, 0x4040] t = Some (set_pair (1, 0) (push_bit 32 (pair_val t (1, 0))) t)"
  "t_run [0x461a, 0x2300] t = Some (set_pair (3, 2) (drop_bit 32 (pair_val t (3, 2))) t)"
  by (simp_all add: set_pair_def pair_val_def shift_halves decode16_def field_def)
     (simp_all add: set_r_twist)

lemma run_ldx_r1:
  "t_run [0x4617, 0xf8d7, 0x2000] t = do { v \<leftarrow> load32 (t_mem t) (t_reg t 2); Some (set_r 2 v (set_r 7 (t_reg t 2) t)) }"
  "t_run [0x4617, 0xf857, 0x2e04] t = do { v \<leftarrow> load32 (t_mem t) (t_reg t 2 + 4); Some (set_r 2 v (set_r 7 (t_reg t 2) t)) }"
  by (simp_all add: t_defs)

lemma sim_halves:
  assumes "sim b sv regs t"
  shows "t_reg t 2 = lo (regs ! 1)" "t_reg t 3 = upper (regs ! 1)" "t_reg t 0 = lo (regs ! 0)" "t_reg t 1 = upper (regs ! 0)"
  using sim_pair [OF assms, of 1, symmetric] sim_pair [OF assms, of 0, symmetric]
  by (simp_all add: pair_val_def bpf2a32_def)

lemma sim_r1:
  assumes "sim b sv regs t" "regs ! 1 = zx p"
  shows "t_reg t 2 = p" "t_reg t 3 = 0" "sim b sv (regs[1 := zx v]) (set_r 2 v (set_r 7 x t))"
proof -
  show r: "t_reg t 2 = p" "t_reg t 3 = 0" using sim_halves [OF assms(1)] assms(2) by (simp_all add: upper_zx)
  have "sim b sv regs (set_r 7 x t)" by (rule sim_keep [OF assms(1)]) auto
  moreover have "set_r 2 v (set_r 7 x t) = set_pair (bpf2a32 ! 1) (zx v) (set_r 7 x t)"
    using r(2) by (simp add: set_pair_def bpf2a32_def upper_zx set_r_def fun_upd_idem fun_upd_twist)
  ultimately show "sim b sv (regs[1 := zx v]) (set_r 2 v (set_r 7 x t))"
    using sim_set_row [of b sv regs "set_r 7 x t" 1 "zx v"] by simp
qed

lemma sim_shift32:
  assumes "sim b sv regs t"
  shows "\<exists>t'. t_run [0x4613, 0x4052] t = Some t' \<and> sim b sv (regs[1 := push_bit 32 (regs ! 1)]) t'"
    "\<exists>t'. t_run [0x461a, 0x2300] t = Some t' \<and> sim b sv (regs[1 := drop_bit 32 (regs ! 1)]) t'"
    "\<exists>t'. t_run [0x4601, 0x4040] t = Some t' \<and> sim b sv (regs[0 := push_bit 32 (regs ! 0)]) t'"
  using sim_set_row [OF assms, of 1] sim_set_row [OF assms, of 0] sim_pair [OF assms, of 1] sim_pair [OF assms, of 0]
  unfolding run_shift32 by (simp_all add: bpf2a32_def)

text \<open>One step of a run with branches, for the forms in which an instruction is known.\<close>

lemma walk_steps:
  "drop_bit 11 h \<ge> 0x1d \<Longrightarrow> t_walk (h # l # c) f t = do { i \<leftarrow> decode32 h l; t1 \<leftarrow> t_exec i t; t_walk c None t1 }"
  "\<not> drop_bit 11 h \<ge> 0x1d \<Longrightarrow> drop_bit 12 h \<noteq> 0xd \<Longrightarrow> drop_bit 6 h = 0x10a \<Longrightarrow>
     t_walk (h # c) f t = t_walk c (Some (t_reg t (field h 0 7), t_reg t (field h 3 7))) t"
  "\<not> drop_bit 11 h \<ge> 0x1d \<Longrightarrow> drop_bit 12 h \<noteq> 0xd \<Longrightarrow> drop_bit 6 h \<noteq> 0x10a \<Longrightarrow> drop_bit 8 h = 0x45 \<Longrightarrow>
     t_walk (h # c) f t = t_walk c (Some (t_reg t (push_bit 3 (field h 7 1) OR field h 0 7), t_reg t (field h 3 0xf))) t"
  by simp_all

lemma walk_bhi: "t_walk (0xd801 # h # l # c) (Some (x, y)) t = t_walk (if y < x then c else h # l # c) (Some (x, y)) t"
  by (subst t_walk.simps) (simp add: field_def cond_holds_def)

declare t_walk.simps(2) [simp del]

text \<open>The comparison of \<open>r2\<close> with \<open>r1\<close> and the branch over the next two halfwords: the flags are those of the lower
  halves, which are compared last.\<close>

lemma walk_jgt_reg:
  assumes "sim b sv regs t"
  shows "t_walk ([0xe95b, 0x6702, 0x429f, 0x4296, 0xd801] @ [h, l] @ c) f t =
    t_walk (if lo (regs ! 1) < lo (regs ! 2) then c else [h, l] @ c) (Some (lo (regs ! 2), lo (regs ! 1)))
      (set_pair tmp (regs ! 2) t)"
proof -
  have ld: "t_exec (T_LDRD 6 7 11 (- 8)) t = Some (set_pair tmp (regs ! 2) t)"
    using exec_ldrd_row [OF assms, of 2 tmp] by (simp add: temps bpf2a32_def del: t_exec.simps) (simp add: jit_defs)
  show ?thesis using sim_halves(1) [OF assms]
    by (simp add: walk_steps walk_bhi t_defs ld del: t_exec.simps) (simp add: temps set_pair_def)
qed

subsection \<open>The compiled patch for \<open>test_dynamic_bug\<close>\<close>

lemma entry_regs_ex:
  assumes "\<forall>k < 72. load32 (t_mem t) (slot (t_reg t 13 - 288) k) \<noteq> None"
  shows "\<exists>regs. entry_regs t regs"
proof -
  let ?e = "set_r 13 (t_reg t 13 - 288) (set_r 11 (t_reg t 13 - 32) t)"
  have f: "jit_frame (t_reg t 13 - 288) ?e" using assms by (simp add: jit_frame_def slot_def)
  have "bpf_val ?e k \<noteq> None" if "k < 11" for k
    using assms [rule_format, of "row_slot k"] assms [rule_format, of "row_slot k + 1"] row_slots [OF that]
    by (auto simp: bpf_val_slot [OF f that])
  then have "entry_regs t (map (\<lambda>k. the (bpf_val ?e k)) [0..<12])" by (simp add: entry_regs_def)
  then show ?thesis ..
qed

lemma load32_keeps:
  assumes "keeps b n m m'" "\<forall>k < 4. n \<le> unat (a + of_nat k - b)"
  shows "load32 m' a = load32 m a"
proof -
  have "load_bytes m' a 4 = load_bytes m a 4" by (rule load_bytes_cong) (use assms in \<open>auto simp: keeps_def\<close>)
  then show ?thesis by (simp only: load32_def mem_load_def)
qed

text \<open>A slot whose instruction is arithmetic.\<close>

lemma run_slot:
  assumes "arith i" "\<And>s k. inst_code s k i = ok_code c" "sim b sv regs t"
  shows "\<exists>t'. t_run c t = Some t' \<and> sim b sv (regs[unat (i_dst i) := arith_eval i regs]) t'"
  using run_arith [OF assms(3,1)] arith_code [OF assms(1)] assms(2) by simp

lemmas arith_evals = arith_def arith_eval_def is_mov_def operand_def alu_val_def opcode_val BPF_SRC_def BPF_OP_def

lemma seg_keeps: "sim b sv regs t \<Longrightarrow> fp_code c \<Longrightarrow> t_run c t = Some t' \<Longrightarrow> keeps b 256 (t_mem t) (t_mem t')"
  using fp_code_run [of c t t'] by (simp add: sim_fp)

lemma test_cve_arith:
  assumes "sim b sv regs t"
  shows "\<exists>t'. t_run (test_cve_slots ! 1) t = Some t' \<and> sim b sv (regs[1 := regs ! 1 - 2001]) t'"
    "\<exists>t'. t_run (test_cve_slots ! 4) t = Some t' \<and> sim b sv (regs[0 := 1]) t'"
    "\<exists>t'. t_run (test_cve_slots ! 5) t = Some t' \<and> sim b sv (regs[2 := 3000]) t'"
    "\<exists>t'. t_run (test_cve_slots ! 7) t = Some t' \<and> sim b sv (regs[0 := 0]) t'"
  using run_slot [OF _ test_cve_inst(2) assms] run_slot [OF _ test_cve_inst(5) assms] run_slot [OF _ test_cve_inst(6) assms]
    run_slot [OF _ test_cve_inst(7) assms]
  by (simp_all add: arith_evals)

text \<open>From the first slot to the comparison: \<open>r1\<close> holds the argument less 2001, as an unsigned 32-bit number.\<close>

lemma test_cve_head:
  assumes "sim b sv regs t" "regs ! 1 = zx p" "load32 (t_mem t) p = Some v"
  shows "\<exists>t'. t_run (concat (take 6 test_cve_slots)) t = Some t' \<and>
    sim b sv (regs[1 := zx (v - 2001), 0 := 1, 2 := 3000]) t'"
proof -
  have len: "length regs = 12" using assms(1) by (simp add: sim_def)
  let ?t1 = "set_r 2 v (set_r 7 p t)"
  have t1: "t_run (test_cve_slots ! 0) t = Some ?t1"
    using sim_r1(1) [OF assms(1,2)] assms(3) by (simp add: test_cve_slots_def run_ldx_r1 del: t_run.simps)
  from test_cve_arith(1) [OF sim_r1(3) [OF assms(1,2), of v p]] obtain t2 where
    t2: "t_run (test_cve_slots ! 1) ?t1 = Some t2" "sim b sv (regs[1 := zx v - 2001]) t2" using len by auto
  from sim_shift32(1) [OF t2(2)] obtain t3 where t3: "t_run (test_cve_slots ! 2) t2 = Some t3"
    "sim b sv (regs[1 := push_bit 32 (zx v - 2001)]) t3" using len by (auto simp: test_cve_slots_def simp del: t_run.simps)
  have "drop_bit 32 (push_bit 32 (zx v - 2001)) = zx (v - 2001)"
    by (simp add: low_half ucast_diff_64)
  with sim_shift32(2) [OF t3(2)] obtain t4 where t4: "t_run (test_cve_slots ! 3) t3 = Some t4"
    "sim b sv (regs[1 := zx (v - 2001)]) t4" using len by (auto simp: test_cve_slots_def simp del: t_run.simps)
  from test_cve_arith(2) [OF t4(2)] obtain t5 where
    t5: "t_run (test_cve_slots ! 4) t4 = Some t5" "sim b sv (regs[1 := zx (v - 2001), 0 := 1]) t5" by auto
  from test_cve_arith(3) [OF t5(2)] obtain t6 where
    t6: "t_run (test_cve_slots ! 5) t5 = Some t6" "sim b sv (regs[1 := zx (v - 2001), 0 := 1, 2 := 3000]) t6" by auto
  have "concat (take 6 test_cve_slots) = test_cve_slots ! 0 @ test_cve_slots ! 1 @ test_cve_slots ! 2 @
      test_cve_slots ! 3 @ test_cve_slots ! 4 @ test_cve_slots ! 5"
    by (simp add: test_cve_slots_def)
  then have "t_run (concat (take 6 test_cve_slots)) t = Some t6"
    by (simp only: t_run_append [OF t1] t_run_append [OF t2(1)] t_run_append [OF t3(1)] t_run_append [OF t4(1)]
        t_run_append [OF t5(1)] t6(1))
  with t6(2) show ?thesis by blast
qed

text \<open>The whole patch, compiled.\<close>

lemma test_cve_walk:
  assumes "sim b sv regs t" "regs ! 1 = zx p" "load32 (t_mem t) p = Some v"
  shows "\<exists>t' r f. t_walk (concat test_cve_slots @ c) None t = t_walk c f t' \<and> sim b sv r t' \<and>
    r ! 0 = (if 2000 < sint v \<and> sint v \<le> 5000 then 0x100000000 else 0) \<and> keeps b 256 (t_mem t) (t_mem t')"
proof -
  let ?r = "regs[1 := zx (v - 2001), 0 := 1, 2 := 3000]" and ?s = "test_cve_slots"
  have len: "length regs = 12" using assms(1) by (simp add: sim_def)
  obtain t1 where t1: "t_run (concat (take 6 ?s)) t = Some t1" "sim b sv ?r t1" using test_cve_head [OF assms] by blast
  have k1: "keeps b 256 (t_mem t) (t_mem t1)"
    using fp_code_run [OF _ t1(1)] by (simp add: sim_fp [OF assms(1)] test_cve_slots_def t_defs imm16_of_def)
  let ?t2 = "set_pair tmp 3000 t1"
  have s2: "sim b sv ?r ?t2" by (rule sim_set_temp [OF t1(2)]) (simp add: temps)
  have "concat ?s @ c = concat (take 6 ?s) @ [0xe95b, 0x6702, 0x429f, 0x4296, 0xd801] @ [0x2000, 0x2100] @ [0x4601, 0x4040] @ c"
    by (simp add: test_cve_slots_def)
  then have w: "t_walk (concat ?s @ c) None t =
      t_walk (if v - 2001 < 3000 then [0x4601, 0x4040] @ c else ?s ! 7 @ [0x4601, 0x4040] @ c) (Some (3000, v - 2001)) ?t2"
    using walk_jgt_reg [OF t1(2)] len by (simp only: t_walk_run [OF t1(1)]) (simp add: test_cve_slots_def)
  have fp: "t_reg ?t2 11 - 256 = b" by (rule sim_fp [OF s2])
  show ?thesis
  proof (cases "2000 < sint v \<and> sint v \<le> 5000")
    case True
    obtain t3 where t3: "t_run [0x4601, 0x4040] ?t2 = Some t3" "sim b sv (?r[0 := push_bit 32 (?r ! 0)]) t3"
      using sim_shift32(3) [OF s2] by blast
    have "keeps b 256 (t_mem ?t2) (t_mem t3)"
      using fp_code_run [OF _ t3(1)] by (simp add: fp t_defs)
    moreover have "t_walk (concat ?s @ c) None t = t_walk c None t3"
      using True t_walk_run [OF t3(1), of c] unfolding w by (simp add: test_cve_range)
    ultimately show ?thesis using t3(2) True k1 len by (auto intro!: exI [of _ t3] intro: keeps_trans)
  next
    case False
    obtain t3 where t3: "t_run (?s ! 7) ?t2 = Some t3" "sim b sv (?r[0 := 0]) t3" using test_cve_arith(4) [OF s2] by blast
    obtain t4 where t4: "t_run [0x4601, 0x4040] t3 = Some t4" "sim b sv (?r[0 := 0, 0 := push_bit 32 (?r[0 := 0] ! 0)]) t4"
      using sim_shift32(3) [OF t3(2)] by blast
    have run: "t_run (?s ! 7 @ [0x4601, 0x4040]) ?t2 = Some t4" by (simp only: t_run_append [OF t3(1)] t4(1))
    then have "keeps b 256 (t_mem ?t2) (t_mem t4)"
      using fp_code_run [OF _ run] by (simp add: fp t_defs test_cve_slots_def)
    moreover have "t_walk (concat ?s @ c) None t = t_walk c None t4"
      using False t_walk_run [OF run, of c] unfolding w by (auto simp: test_cve_range)
    ultimately show ?thesis using t4(2) False k1 len by (auto intro!: exI [of _ t4] intro: keeps_trans)
  qed
qed

text \<open>A compiled function: what its body leaves in \<open>r0\<close> is returned, with the registers and the stack of the caller.\<close>

lemma jit_function:
  fixes t :: thumb
  defines "b \<equiv> t_reg t 13 - 288"
  assumes frame: "\<forall>k < 72. load32 (t_mem t) (slot b k) \<noteq> None"
    and body: "\<And>regs t1. sim b (saved t) regs t1 \<Longrightarrow> regs ! 1 = zx (t_reg t 0) \<Longrightarrow> keeps b 288 (t_mem t) (t_mem t1) \<Longrightarrow>
      \<exists>t2 r f. t_walk (body @ epilogue_code) None t1 = t_walk epilogue_code f t2 \<and> sim b (saved t) r t2 \<and> r ! 0 = R \<and>
        keeps b 256 (t_mem t1) (t_mem t2)"
  shows "\<exists>t'. t_walk (prologue_code @ body @ epilogue_code) None t = Some t' \<and> pair_val t' (1, 0) = R \<and>
    (\<forall>r \<in> {4, 5, 6, 7, 8, 9, 11, 13}. t_reg t' r = t_reg t r) \<and> t_reg t' 15 = t_reg t 14 \<and>
    keeps b 288 (t_mem t) (t_mem t')"
proof -
  obtain regs0 where e: "entry_regs t regs0" using entry_regs_ex frame unfolding b_def by blast
  let ?r = "regs0[1 := zx (t_reg t 0), 10 := zx (t_reg t 13 - 112)]"
  obtain t1 where t1: "t_run prologue_code t = Some t1" "sim b (saved t) ?r t1"
    using run_prologue [OF _ e] frame unfolding b_def by blast
  have k1: "keeps b 288 (t_mem t) (t_mem t1)" unfolding b_def by (rule prologue_keeps [OF t1(1)])
  obtain t2 r f where t2: "t_walk (body @ epilogue_code) None t1 = t_walk epilogue_code f t2" "sim b (saved t) r t2"
      "r ! 0 = R" "keeps b 256 (t_mem t1) (t_mem t2)"
    using body [OF t1(2) _ k1] e by (auto simp: entry_regs_def)
  let ?t = "t2\<lparr>t_reg := (t_reg t2)(4 := saved t 64, 5 := saved t 65, 6 := saved t 66, 7 := saved t 67, 8 := saved t 68,
    9 := saved t 69, 11 := saved t 70, 15 := saved t 71, 13 := slot b 72)\<rparr>"
  have "t_walk epilogue_code f t2 = Some ?t" using t_walk_run [OF run_epilogue [OF t2(2)], of "[]"] by simp
  moreover have "prologue_code \<noteq> []" using length_prologue by auto
  ultimately have "t_walk (prologue_code @ body @ epilogue_code) None t = Some ?t"
    using t2(1) by (simp only: t_walk_run [OF t1(1)] if_False)
  moreover have "pair_val ?t (1, 0) = R"
    using sim_pair [OF t2(2), of 0] t2(3) by (simp add: bpf2a32_def pair_val_def)
  moreover have "keeps b 288 (t_mem t) (t_mem ?t)" using k1 keeps_more [OF t2(4), of 288] by (auto intro: keeps_trans)
  moreover have "slot b 72 = t_reg t 13" by (simp add: slot_def b_def)
  ultimately show ?thesis by (auto simp: saved_def)
qed

lemma test_cve_call:
  assumes "\<forall>k < 72. load32 (t_mem t) (slot (t_reg t 13 - 288) k) \<noteq> None"
    and "frame_get (t_mem t) (t_reg t 0) F_r0 = Some v"
    and "\<forall>k < 4. 288 \<le> unat (t_reg t 0 + of_nat k - (t_reg t 13 - 288))"
  shows "\<exists>t'. t_walk (prologue_code @ concat test_cve_slots @ epilogue_code) None t = Some t' \<and>
    fix_bug (t_mem t) (t_reg t 0) = Some (pair_val t' (1, 0)) \<and>
    (\<forall>r \<in> {4, 5, 6, 7, 8, 9, 11, 13}. t_reg t' r = t_reg t r) \<and> t_reg t' 15 = t_reg t 14 \<and>
    keeps (t_reg t 13 - 288) 288 (t_mem t) (t_mem t')"
proof -
  have ld: "load32 (t_mem t1) (t_reg t 0) = Some v" if "keeps (t_reg t 13 - 288) 288 (t_mem t) (t_mem t1)" for t1
    using load32_keeps [OF that assms(3)] assms(2) by (simp add: frame_get_slot slot_def)
  have "fix_bug (t_mem t) (t_reg t 0) = Some (if 2000 < sint v \<and> sint v \<le> 5000 then 0x100000000 else 0)"
    using assms(2) by (simp add: fix_bug_def set_return_def filter_ops)
  with jit_function [OF assms(1) test_cve_walk [OF _ _ ld]] show ?thesis by auto
qed

text \<open>C2: the shipped patch \<open>test_cve\<close>, compiled, is its source \<open>fix_bug\<close>: called with the address of a frame, on a
  stack with room for the function, the generated code returns the verdict of the filter; the registers the calling
  convention preserves and the stack pointer are back, and memory outside the function's own frame is unchanged.\<close>

theorem jit_test_cve:
  assumes "insts vm = decode_insts test_cve" and "num_insts vm = 10"
    and "\<forall>k < 72. load32 (t_mem t) (slot (t_reg t 13 - 288) k) \<noteq> None"
    and "frame_get (t_mem t) (t_reg t 0) F_r0 = Some v"
    and "\<forall>k < 4. 288 \<le> unat (t_reg t 0 + of_nat k - (t_reg t 13 - 288))"
  shows "\<exists>t'. t_walk (halfwords (emitted (gen_jit_code tbl epi vm))) None t = Some t' \<and>
    fix_bug (t_mem t) (t_reg t 0) = Some (pair_val t' (1, 0)) \<and>
    (\<forall>r \<in> {4, 5, 6, 7, 8, 9, 11, 13}. t_reg t' r = t_reg t r) \<and> t_reg t' 15 = t_reg t 14 \<and>
    keeps (t_reg t 13 - 288) 288 (t_mem t) (t_mem t')"
  unfolding test_cve_code [OF assms(1,2)] by (rule test_cve_call [OF assms(3-5)])

text \<open>A machine on which it runs: the stack pointer at the end of RAM, the frame below the stack.\<close>

definition jit_thumb :: "u8 list \<Rightarrow> thumb" where
  "jit_thumb bs = \<lparr>t_reg = (\<lambda>r. if r = 13 then 0x20001000 else if r = 0 then 0x20000000 else if r = 14 then 0x8001 else 0),
     t_c = False, t_mem = (\<lambda>a. Some (if unat (a - 0x20000000) < length bs then bs ! unat (a - 0x20000000) else 0))\<rparr>"

theorem jit_test_cve_witness:
  "\<exists>t'. t_walk (halfwords (emitted (gen_jit_code (\<lambda>_. 0) 0 (zero_vm\<lparr>insts := decode_insts test_cve, num_insts := 10\<rparr>)))) None
      (jit_thumb [0xc4, 0x09, 0, 0]) = Some t' \<and> pair_val t' (1, 0) = 0x100000000 \<and> t_reg t' 15 = 0x8001"
proof -
  let ?t = "jit_thumb [0xc4, 0x09, 0, 0]" and ?vm = "zero_vm\<lparr>insts := decode_insts test_cve, num_insts := 10\<rparr>"
  have fr: "frame_get (t_mem ?t) (t_reg ?t 0) F_r0 = Some 2500"
    by (simp add: jit_thumb_def frame_get_def mem_load_def)
  have "\<forall>k < 72. load32 (t_mem ?t) (slot (t_reg ?t 13 - 288) k) \<noteq> None"
    by (simp add: load32_def mem_load_def jit_thumb_def)
  moreover have "288 \<le> unat (t_reg ?t 0 + of_nat k - (t_reg ?t 13 - 288))" if "k < 4" for k
  proof -
    have "k \<in> {0, 1, 2, 3}" using that by auto
    then show ?thesis by (elim insertE emptyE) (simp_all add: jit_thumb_def)
  qed
  ultimately obtain t' where t': "t_walk (halfwords (emitted (gen_jit_code (\<lambda>_. 0) 0 ?vm))) None ?t = Some t'"
      "fix_bug (t_mem ?t) (t_reg ?t 0) = Some (pair_val t' (1, 0))" "t_reg t' 15 = t_reg ?t 14"
    using jit_test_cve [of ?vm ?t 2500 "\<lambda>_. 0" 0] fr by auto
  with fr show ?thesis by (simp add: fix_bug_def set_return_def filter_ops jit_thumb_def)
qed

end
