(* ===== verification/Jit_Coap.thy ===== *)
theory Jit_Coap
  imports Jit_Patch
begin

text \<open>
  The shipped CoAP patch \<open>zephyr_cve_10063\<close> as compiled code. Its last instruction, a disjunction, is encoded with
  the registers exchanged, so that the code of the verdict does not reach the caller.
\<close>

subsection \<open>The code\<close>

definition coap_slots :: "code list" where
  "coap_slots =
     [[0x4617, 0xf857, 0x2e04],
      [0xf240, 0x0805, 0xf240, 0x0900, 0xeb18, 0x0202, 0xeb49, 0x0303],
      [0x4613, 0x4052],
      [0x461a, 0x2300],
      [0x8816, 0xe94b, 0x6702],
      [0xf64f, 0x72ea, 0xf6cf, 0x72ff, 0x2300],
      [],
      [0xf64e, 0x78ff, 0xf240, 0x0900, 0xe95b, 0x6702, 0x454f, 0x4546, 0xd801],
      [0x2200, 0x2300],
      [0x2001, 0x2100],
      [0xf64e, 0x78ff, 0xf240, 0x0900, 0xe95b, 0x6702, 0x454f, 0x4546, 0xd801],
      [0x2000, 0x2100],
      [0x4601, 0x4040],
      [0x4302, 0x4313],
      []]"

lemma coap_inst:
  "inst_code s k \<lparr>opcode = 97, i_dst = 1, i_src = 1, i_off = 4, i_imm = 0\<rparr> = ok_code (coap_slots ! 0)"
  "inst_code s k \<lparr>opcode = 7, i_dst = 1, i_src = 0, i_off = 0, i_imm = 5\<rparr> = ok_code (coap_slots ! 1)"
  "inst_code s k \<lparr>opcode = 103, i_dst = 1, i_src = 0, i_off = 0, i_imm = 32\<rparr> = ok_code (coap_slots ! 2)"
  "inst_code s k \<lparr>opcode = 119, i_dst = 1, i_src = 0, i_off = 0, i_imm = 32\<rparr> = ok_code (coap_slots ! 3)"
  "inst_code s k \<lparr>opcode = 105, i_dst = 2, i_src = 1, i_off = 0, i_imm = 0\<rparr> = ok_code (coap_slots ! 4)"
  "inst_code s k \<lparr>opcode = 0, i_dst = 0, i_src = 0, i_off = 0, i_imm = 0\<rparr> = ok_code (coap_slots ! 6)"
  "inst_code s k \<lparr>opcode = 183, i_dst = 1, i_src = 0, i_off = 0, i_imm = 0\<rparr> = ok_code (coap_slots ! 8)"
  "inst_code s k \<lparr>opcode = 183, i_dst = 0, i_src = 0, i_off = 0, i_imm = 1\<rparr> = ok_code (coap_slots ! 9)"
  "inst_code s k \<lparr>opcode = 183, i_dst = 0, i_src = 0, i_off = 0, i_imm = 0\<rparr> = ok_code (coap_slots ! 11)"
  "inst_code s k \<lparr>opcode = 103, i_dst = 0, i_src = 0, i_off = 0, i_imm = 32\<rparr> = ok_code (coap_slots ! 12)"
  "inst_code s k \<lparr>opcode = 79, i_dst = 0, i_src = 1, i_off = 0, i_imm = 0\<rparr> = ok_code (coap_slots ! 13)"
  by (simp_all add: jit_eval coap_slots_def)

lemma coap_wide: "j_insts s = decode_insts zephyr_cve_10063 \<Longrightarrow>
  inst_code s 5 \<lparr>opcode = 24, i_dst = 1, i_src = 0, i_off = 0, i_imm = 0xffffffea\<rparr> = (1, None, coap_slots ! 5)"
  by (simp add: jit_eval coap_slots_def decode_10063)

lemma coap_jump:
  "\<not> j_needGen s \<Longrightarrow> j_inst_num s = 15 \<Longrightarrow>
     \<exists>c. inst_code s k \<lparr>opcode = 37, i_dst = 2, i_src = 0, i_off = 1, i_imm = 0xefff\<rparr> = ok_code c \<and> length c = 9"
  "j_needGen s \<Longrightarrow> j_inst_num s = 15 \<Longrightarrow> get_offset s 7 = 90 \<Longrightarrow> get_offset s 8 = 94 \<Longrightarrow>
     inst_code s 7 \<lparr>opcode = 37, i_dst = 2, i_src = 0, i_off = 1, i_imm = 0xefff\<rparr> = ok_code (coap_slots ! 7)"
  "j_needGen s \<Longrightarrow> j_inst_num s = 15 \<Longrightarrow> get_offset s 10 = 116 \<Longrightarrow> get_offset s 11 = 120 \<Longrightarrow>
     inst_code s 10 \<lparr>opcode = 37, i_dst = 2, i_src = 0, i_off = 1, i_imm = 0xefff\<rparr> = ok_code (coap_slots ! 10)"
  by (simp_all add: jit_eval coap_slots_def)

lemma coap_exit: "j_inst_num s = 15 \<Longrightarrow>
  inst_code s 14 \<lparr>opcode = 149, i_dst = 0, i_src = 0, i_off = 0, i_imm = 0\<rparr> = ok_code (coap_slots ! 14)"
  by (simp add: exit_code opcode_val coap_slots_def)

lemma coap_compiled:
  assumes "j_insts st = decode_insts zephyr_cve_10063" "j_inst_num st = 15" "300 \<le> length (j_code st)" "15 \<le> length (j_offsets st)"
  shows "halfwords (emitted (jit_compile st)) = prologue_code @ concat coap_slots @ epilogue_code"
proof (rule compiled_program [OF _ _ _ assms(1)])
  let ?p = "decode_insts zephyr_cve_10063"
  have ks: "k \<in> {0, 1, 2, 3, 4, 5, 6, 7, 8, 9, 10, 11, 12, 13, 14}" if "k < length ?p" for k
    using that by (auto simp: decode_10063 less_Suc_eq)
  have w: "wide_load ?p k \<longleftrightarrow> k = 5" if "k < length ?p" for k
    using ks [OF that] by (elim insertE emptyE) (simp_all add: decode_10063 wide_load_def opcode_val)
  have n: "length ?p = 15" "length coap_slots = 15" by (simp_all add: decode_10063 coap_slots_def)
  show "slots_ok ?p coap_slots" using w n by (simp add: slots_ok_def) (simp add: coap_slots_def)
  show "pos coap_slots (length ?p) + 8 \<le> length (j_code st)"
    using assms(3) by (simp add: n pos_def) (simp add: coap_slots_def)
  show "length ?p \<le> length (j_offsets st)" "j_inst_num st = length ?p" using assms(2,4) by (simp_all add: n)
  fix s k assume k: "k < length ?p"
  { assume s: "same_prog ?p False s"
    then have j: "\<exists>c. inst_code s i (?p ! i) = ok_code c \<and> length c = 9" if "i \<in> {7, 10}" for i
      using that coap_jump(1) [of s i] by (auto simp: same_prog_def decode_10063)
    from s show "ret_of s k (?p ! k) = (if wide_load ?p k then 1 else 0) \<and>
        length (Jit_Passes.code_of s k (?p ! k)) = length (coap_slots ! k)"
      using ks [OF k] j [of 7] j [of 10] coap_inst [of s] coap_wide [of s] coap_exit [of s] unfolding w [OF k]
      by (elim insertE emptyE) (auto simp: same_prog_def decode_10063 coap_slots_def) }
  assume s: "same_prog ?p True s"
    and o: "\<forall>j < length ?p. \<not> wide_load ?p j \<longrightarrow> j_offsets s ! j = of_nat (pos coap_slots (Suc j))"
  have off: "get_offset s (int i) = of_nat (pos coap_slots (Suc i))" if "i < 15" "i \<noteq> 5" for i
    using s o w [of i] n that by (simp add: same_prog_def get_offset_def)
  have "inst_code s 7 (?p ! 7) = ok_code (coap_slots ! 7)" "inst_code s 10 (?p ! 10) = ok_code (coap_slots ! 10)"
    using s coap_jump(2,3) [of s] off [of 7] off [of 8] off [of 10] off [of 11]
    by (simp_all add: same_prog_def decode_10063 pos_def) (simp_all add: coap_slots_def)
  with s show "ret_of s k (?p ! k) = (if wide_load ?p k then 1 else 0) \<and> Jit_Passes.code_of s k (?p ! k) = coap_slots ! k"
    using ks [OF k] coap_inst [of s] coap_wide [of s] coap_exit [of s] unfolding w [OF k]
    by (elim insertE emptyE) (simp_all add: same_prog_def decode_10063)
qed

lemma coap_code:
  assumes "insts vm = decode_insts zephyr_cve_10063" "num_insts vm = 15"
  shows "halfwords (emitted (gen_jit_code tbl epi vm)) = prologue_code @ concat coap_slots @ epilogue_code"
  by (rule gen_jit_compile [of tbl epi vm]) (simp add: coap_compiled assms)

subsection \<open>Running it\<close>

lemma coap_arith:
  assumes "sim b sv regs t"
  shows "\<exists>t'. t_run (coap_slots ! 1) t = Some t' \<and> sim b sv (regs[1 := regs ! 1 + 5]) t'"
    "\<exists>t'. t_run (coap_slots ! 8) t = Some t' \<and> sim b sv (regs[1 := 0]) t'"
    "\<exists>t'. t_run (coap_slots ! 9) t = Some t' \<and> sim b sv (regs[0 := 1]) t'"
    "\<exists>t'. t_run (coap_slots ! 11) t = Some t' \<and> sim b sv (regs[0 := 0]) t'"
  using run_slot [OF _ coap_inst(2) assms] run_slot [OF _ coap_inst(7) assms] run_slot [OF _ coap_inst(8) assms]
    run_slot [OF _ coap_inst(9) assms]
  by (simp_all add: arith_evals)

text \<open>The halfword is loaded into the lower half of \<open>r2\<close>; nothing clears the upper half.\<close>

lemma coap_load_half:
  assumes "sim b sv regs t" "mem_load (t_mem t) (lo (regs ! 1)) 2 = Some v"
  shows "\<exists>t'. t_run (coap_slots ! 4) t = Some t' \<and> sim b sv (regs[2 := join (t_reg t 7) (lo v)]) t'"
proof -
  let ?t = "set_r 6 (lo v) t"
  have s: "sim b sv regs ?t" by (rule sim_keep [OF assms(1)]) auto
  have "t_run (coap_slots ! 4) t = t_exec (T_STRD 6 7 11 (- 8)) ?t"
    using assms(2) sim_halves(1) [OF assms(1)]
    by (cases "t_exec (T_STRD 6 7 11 (- 8)) ?t") (simp_all add: coap_slots_def t_defs del: t_exec.simps(2))
  then show ?thesis
    using exec_strd_row [OF s, of 2 tmp] by (simp add: temps bpf2a32_def pair_val_def del: t_exec.simps) (simp add: jit_defs)
qed

lemma coap_wide_load:
  assumes "sim b sv regs t"
  shows "\<exists>t'. t_run (coap_slots ! 5) t = Some t' \<and> sim b sv (regs[1 := 0xffffffea]) t'"
proof -
  have "emit_mov_i64 (bpf2a32 ! 1) 0xffffffea = coap_slots ! 5" by (simp add: jit_eval coap_slots_def)
  with run_mov_i64 [OF assms, of 1 "0xffffffea"] show ?thesis by simp
qed

text \<open>The disjunction \<open>r0 |= r1\<close> comes out as \<open>r2 |= r0\<close> and \<open>r3 |= r2\<close> on the processor: the result stays as it was.\<close>

lemma coap_or:
  assumes "sim b sv regs t"
  shows "\<exists>t' v. t_run (coap_slots ! 13) t = Some t' \<and> sim b sv (regs[1 := v]) t'"
proof -
  let ?l = "t_reg t 2 OR t_reg t 0"
  let ?v = "join (t_reg t 3 OR ?l) ?l"
  have "t_run (coap_slots ! 13) t = Some (set_pair (bpf2a32 ! 1) ?v t)"
    by (simp add: coap_slots_def t_defs set_pair_def bpf2a32_def)
  with sim_set_row [OF assms, of 1 ?v] show ?thesis by auto
qed

lemma coap_jgt:
  assumes "sim b sv regs t"
  shows "t_walk (coap_slots ! 7 @ [h, l] @ c) f t =
    t_walk (if 0xefff < lo (regs ! 2) then c else [h, l] @ c) (Some (lo (regs ! 2), 0xefff))
      (set_pair tmp (regs ! 2) (set_pair tmp2 0xefff t))"
proof -
  let ?t = "set_pair tmp2 0xefff t"
  have s: "sim b sv regs ?t" by (rule sim_set_temp [OF assms]) (simp add: temps)
  have ld: "t_exec (T_LDRD 6 7 11 (- 8)) ?t = Some (set_pair tmp (regs ! 2) ?t)"
    using exec_ldrd_row [OF s, of 2 tmp] by (simp add: temps bpf2a32_def del: t_exec.simps) (simp add: jit_defs)
  have mv: "t_run [0xf64e, 0x78ff, 0xf240, 0x0900] t = Some ?t"
    by (simp add: t_defs imm16_of_def temps set_pair_def upper_def)
  have "coap_slots ! 7 = [0xf64e, 0x78ff, 0xf240, 0x0900] @ [0xe95b, 0x6702, 0x454f, 0x4546, 0xd801]"
    by (simp add: coap_slots_def)
  then show ?thesis
    by (simp only: append_assoc t_walk_run [OF mv])
       (simp add: walk_steps walk_bhi t_defs ld del: t_exec.simps, simp add: temps set_pair_def)
qed

text \<open>Up to the first comparison the lower half of \<open>r2\<close> holds the option length.\<close>

lemma coap_head:
  assumes "sim b sv regs t" "regs ! 1 = zx fr" "load32 (t_mem t) (fr + 4) = Some d" "mem_load (t_mem t) (d + 5) 2 = Some v"
  shows "\<exists>t' r. t_run (concat (take 6 coap_slots)) t = Some t' \<and> sim b sv r t' \<and> lo (r ! 2) = lo v"
proof -
  let ?s = "coap_slots" and ?t1 = "set_r 2 d (set_r 7 fr t)"
  have len: "length regs = 12" using assms(1) by (simp add: sim_def)
  have t1: "t_run (?s ! 0) t = Some ?t1"
    using sim_r1(1) [OF assms(1,2)] assms(3) by (simp add: coap_slots_def run_ldx_r1 del: t_run.simps)
  from coap_arith(1) [OF sim_r1(3) [OF assms(1,2), of d fr]] obtain t2 where
    t2: "t_run (?s ! 1) ?t1 = Some t2" "sim b sv (regs[1 := zx d + 5]) t2" using len by auto
  from sim_shift32(1) [OF t2(2)] obtain t3 where t3: "t_run (?s ! 2) t2 = Some t3"
    "sim b sv (regs[1 := push_bit 32 (zx d + 5)]) t3" using len by (auto simp: coap_slots_def simp del: t_run.simps)
  have "drop_bit 32 (push_bit 32 (zx d + 5)) = zx (d + 5)" by (simp add: low_half ucast_add_64)
  with sim_shift32(2) [OF t3(2)] obtain t4 where t4: "t_run (?s ! 3) t3 = Some t4"
    "sim b sv (regs[1 := zx (d + 5)]) t4" using len by (auto simp: coap_slots_def simp del: t_run.simps)
  have k: "t_mem t4 = t_mem t"
    using t1 t2(1) t3(1) t4(1) by (auto simp: coap_slots_def t_defs imm16_of_def)
  from coap_load_half [OF t4(2), of v] assms(4) k obtain t5 where t5: "t_run (?s ! 4) t4 = Some t5"
    "sim b sv (regs[1 := zx (d + 5), 2 := join (t_reg t4 7) (lo v)]) t5" using len by auto
  from coap_wide_load [OF t5(2)] obtain t6 where t6: "t_run (?s ! 5) t5 = Some t6"
    "sim b sv (regs[1 := zx (d + 5), 2 := join (t_reg t4 7) (lo v), 1 := 0xffffffea]) t6" by blast
  have "concat (take 6 ?s) = ?s ! 0 @ ?s ! 1 @ ?s ! 2 @ ?s ! 3 @ ?s ! 4 @ ?s ! 5" by (simp add: coap_slots_def)
  then have "t_run (concat (take 6 ?s)) t = Some t6"
    by (simp only: t_run_append [OF t1] t_run_append [OF t2(1)] t_run_append [OF t3(1)] t_run_append [OF t4(1)]
        t_run_append [OF t5(1)] t6(1))
  with t6(2) len show ?thesis by (intro exI [of _ t6] exI conjI) (auto simp: nth_list_update)
qed

text \<open>What a comparison leaves behind.\<close>

lemma coap_jgt_state:
  assumes "sim b sv regs t"
  defines "t' \<equiv> set_pair tmp (regs ! 2) (set_pair tmp2 0xefff t)"
  shows "sim b sv regs t'" "t_mem t' = t_mem t"
  using sim_set_temp [OF sim_set_temp [OF assms(1), of tmp2 "0xefff"], of tmp "regs ! 2"] by (simp_all add: t'_def temps)

lemma coap_tail:
  assumes "sim b sv regs t" "c1 = coap_slots ! 12 @ coap_slots ! 13"
  shows "\<exists>t' r. t_run c1 t = Some t' \<and> sim b sv r t' \<and> r ! 0 = push_bit 32 (regs ! 0)"
proof -
  have len: "length regs = 12" using assms(1) by (simp add: sim_def)
  obtain t1 where t1: "t_run (coap_slots ! 12) t = Some t1" "sim b sv (regs[0 := push_bit 32 (regs ! 0)]) t1"
    using sim_shift32(3) [OF assms(1)] by (auto simp: coap_slots_def simp del: t_run.simps)
  from coap_or [OF t1(2)] obtain t2 v where
    t2: "t_run (coap_slots ! 13) t1 = Some t2" "sim b sv (regs[0 := push_bit 32 (regs ! 0), 1 := v]) t2" by blast
  then show ?thesis using len assms(2) t_run_append [OF t1(1), of "coap_slots ! 13"]
    by (intro exI [of _ t2] exI conjI) auto
qed

lemma coap_walk:
  assumes "sim b sv regs t" "regs ! 1 = zx fr" "load32 (t_mem t) (fr + 4) = Some d" "mem_load (t_mem t) (d + 5) 2 = Some v"
  shows "\<exists>t' r f. t_walk (concat coap_slots @ c) None t = t_walk c f t' \<and> sim b sv r t' \<and>
    r ! 0 = (if 0xefff < lo v then 0x100000000 else 0) \<and> keeps b 256 (t_mem t) (t_mem t')"
proof -
  let ?s = "coap_slots" and ?n = "\<lambda>r t. set_pair tmp (r ! 2) (set_pair tmp2 0xefff t)"
  obtain t1 r where t1: "t_run (concat (take 6 ?s)) t = Some t1" "sim b sv r t1" "lo (r ! 2) = lo v"
    using coap_head [OF assms] by blast
  have len: "length r = 12" using t1(2) by (simp add: sim_def)
  have k1: "keeps b 256 (t_mem t) (t_mem t1)"
    by (rule seg_keeps [OF assms(1) _ t1(1)]) (simp add: coap_slots_def t_defs imm16_of_def)
  note n1 = coap_jgt_state [OF t1(2)]
  define c1 where "c1 = ?s ! 12 @ ?s ! 13"
  have split: "concat ?s @ c = concat (take 6 ?s) @ ?s ! 7 @ [0x2200, 0x2300] @ ?s ! 9 @ ?s ! 7 @ [0x2000, 0x2100] @ c1 @ c"
    "?s ! 8 = [0x2200, 0x2300]" "?s ! 11 = [0x2000, 0x2100]" by (simp_all add: coap_slots_def c1_def)
  have w: "t_walk (concat ?s @ c) None t = t_walk (if 0xefff < lo v then ?s ! 9 @ ?s ! 7 @ ?s ! 11 @ c1 @ c
      else ?s ! 8 @ ?s ! 9 @ ?s ! 7 @ ?s ! 11 @ c1 @ c) (Some (lo v, 0xefff)) (?n r t1)"
    using coap_jgt [OF t1(2)] t1(3) by (simp only: split t_walk_run [OF t1(1)])
  have w2: "t_walk (?s ! 7 @ ?s ! 11 @ c1 @ c) f u = t_walk (if 0xefff < lo (q ! 2) then c1 @ c else ?s ! 11 @ c1 @ c)
      (Some (lo (q ! 2), 0xefff)) (?n q u)" if "sim b sv q u" for f u q
    using coap_jgt [OF that] by (simp only: split)
  have fp: "fp_code (?s ! 9)" "fp_code (?s ! 8 @ ?s ! 9)" "fp_code c1" "fp_code (?s ! 11 @ c1)"
    by (simp_all add: coap_slots_def c1_def t_defs imm16_of_def)
  show ?thesis
  proof (cases "0xefff < lo v")
    case True
    obtain t2 where t2: "t_run (?s ! 9) (?n r t1) = Some t2" "sim b sv (r[0 := 1]) t2" using coap_arith(3) [OF n1(1)] by blast
    note n2 = coap_jgt_state [OF t2(2)]
    obtain t3 r3 where t3: "t_run c1 (?n (r[0 := 1]) t2) = Some t3" "sim b sv r3 t3" "r3 ! 0 = push_bit 32 (r[0 := 1] ! 0)"
      using coap_tail [OF n2(1) c1_def] by blast
    have q: "lo (r[0 := 1] ! 2) = lo v" using t1(3) len by simp
    have "t_walk (concat ?s @ c) None t = t_walk c (if c1 = [] then Some (lo v, 0xefff) else None) t3"
      using True unfolding w by (simp only: if_True t_walk_run [OF t2(1)] w2 [OF t2(2)] q t_walk_run [OF t3(1)])
    moreover have "keeps b 256 (t_mem t) (t_mem t3)"
      using k1 seg_keeps [OF n1(1) fp(1) t2(1)] seg_keeps [OF n2(1) fp(3) t3(1)] n1(2) n2(2) by (auto intro: keeps_trans)
    ultimately show ?thesis using t3(2,3) True len by (auto intro!: exI [of _ t3] exI [of _ r3])
  next
    case False
    obtain t2 where t2: "t_run (?s ! 8) (?n r t1) = Some t2" "sim b sv (r[1 := 0]) t2" using coap_arith(2) [OF n1(1)] by blast
    obtain t3 where t3: "t_run (?s ! 9) t2 = Some t3" "sim b sv (r[1 := 0, 0 := 1]) t3" using coap_arith(3) [OF t2(2)] by blast
    have t23: "t_run (?s ! 8 @ ?s ! 9) (?n r t1) = Some t3" by (simp only: t_run_append [OF t2(1)] t3(1))
    let ?q = "r[1 := 0, 0 := 1]"
    note n3 = coap_jgt_state [OF t3(2)]
    obtain t4 where t4: "t_run (?s ! 11) (?n ?q t3) = Some t4" "sim b sv (?q[0 := 0]) t4" using coap_arith(4) [OF n3(1)] by blast
    obtain t5 r5 where t5: "t_run c1 t4 = Some t5" "sim b sv r5 t5" "r5 ! 0 = push_bit 32 (?q[0 := 0] ! 0)"
      using coap_tail [OF t4(2) c1_def] by blast
    have t45: "t_run (?s ! 11 @ c1) (?n ?q t3) = Some t5" by (simp only: t_run_append [OF t4(1)] t5(1))
    have q: "lo (?q ! 2) = lo v" using t1(3) len by simp
    have "t_walk (concat ?s @ c) None t = t_walk c (if ?s ! 11 @ c1 = [] then Some (lo v, 0xefff) else None) t5"
      using False t_walk_run [OF t45, of c] unfolding w
      by (simp only: if_False t_walk_run [OF t2(1)] t_walk_run [OF t3(1)] w2 [OF t3(2)] q append_assoc)
    moreover have "keeps b 256 (t_mem t) (t_mem t5)"
      using k1 seg_keeps [OF n1(1) fp(2) t23] seg_keeps [OF n3(1) fp(4) t45] n1(2) n3(2) by (auto intro: keeps_trans)
    ultimately show ?thesis using t5(2,3) False len by (auto intro!: exI [of _ t5] exI [of _ r5])
  qed
qed

text \<open>C26: the compiled CoAP patch keeps the operation of its filter's verdict and loses the code: an option length beyond
  the limit makes the function return, with 0 where the filter of the source says \<open>-EINVAL\<close>.\<close>

theorem jit_coap_loses_code:
  assumes "insts vm = decode_insts zephyr_cve_10063" and "num_insts vm = 15"
    and "\<forall>k < 72. load32 (t_mem t) (slot (t_reg t 13 - 288) k) \<noteq> None"
    and "frame_get (t_mem t) (t_reg t 0) F_r1 = Some d" and "mem_load (t_mem t) (d + 5) 2 = Some v"
    and "\<forall>k < 4. 288 \<le> unat (t_reg t 0 + 4 + of_nat k - (t_reg t 13 - 288))"
    and "\<forall>k < 2. 288 \<le> unat (d + 5 + of_nat k - (t_reg t 13 - 288))"
  shows "\<exists>t' r. t_walk (halfwords (emitted (gen_jit_code tbl epi vm))) None t = Some t' \<and>
    filter_10063 (t_mem t) (t_reg t 0) = Some r \<and> pair_val t' (1, 0) = set_return32 (upper r) 0 \<and>
    r = (if 0xefff < v then set_return32 1 (- EINVAL) else set_return32 0 0) \<and>
    (\<forall>r \<in> {4, 5, 6, 7, 8, 9, 11, 13}. t_reg t' r = t_reg t r) \<and> t_reg t' 15 = t_reg t 14"
proof -
  let ?b = "t_reg t 13 - 288" and ?R = "if 0xefff < lo v then 0x100000000 else 0 :: u64"
  let ?f = "if 0xefff < v then set_return32 1 (- EINVAL) else set_return32 0 0"
  have body: "\<exists>t2 r f. t_walk (concat coap_slots @ epilogue_code) None t1 = t_walk epilogue_code f t2 \<and>
      sim ?b (saved t) r t2 \<and> r ! 0 = ?R \<and> keeps ?b 256 (t_mem t1) (t_mem t2)"
    if "sim ?b (saved t) regs t1" "regs ! 1 = zx (t_reg t 0)" "keeps ?b 288 (t_mem t) (t_mem t1)" for regs t1
  proof (rule coap_walk [OF that(1,2)])
    show "load32 (t_mem t1) (t_reg t 0 + 4) = Some d"
      using load32_keeps [OF that(3), of "t_reg t 0 + 4"] assms(4,6) by (simp add: frame_get_slot slot_def)
    have "load_bytes (t_mem t1) (d + 5) 2 = load_bytes (t_mem t) (d + 5) 2"
      by (rule load_bytes_cong) (use that(3) assms(7) in \<open>auto simp: keeps_def\<close>)
    then show "mem_load (t_mem t1) (d + 5) 2 = Some v" using assms(5) by (simp only: mem_load_def)
  qed
  have "\<exists>t'. t_walk (prologue_code @ concat coap_slots @ epilogue_code) None t = Some t' \<and> pair_val t' (1, 0) = ?R \<and>
      (\<forall>r \<in> {4, 5, 6, 7, 8, 9, 11, 13}. t_reg t' r = t_reg t r) \<and> t_reg t' 15 = t_reg t 14 \<and> keeps ?b 288 (t_mem t) (t_mem t')"
    by (rule jit_function [OF assms(3)]) (rule body)
  then obtain t' where
    t': "t_walk (halfwords (emitted (gen_jit_code tbl epi vm))) None t = Some t'" "pair_val t' (1, 0) = ?R"
      "\<forall>r \<in> {4, 5, 6, 7, 8, 9, 11, 13}. t_reg t' r = t_reg t r" "t_reg t' 15 = t_reg t 14"
    unfolding coap_code [OF assms(1,2)] by blast
  have "filter_10063 (t_mem t) (t_reg t 0) = Some ?f"
    using assms(4,5) branch_10063 [OF assms(5)] by (simp add: filter_10063_def rd_def)
  moreover have "0xefff < lo v \<longleftrightarrow> 0xefff < v"
    using mem_load_less [OF assms(5)] by (simp add: word_less_nat_alt unsigned_ucast_eq take_bit_eq_mod)
  ultimately show ?thesis using t' by (auto simp: set_return32_def set_return_def upper_def EINVAL_def)
qed

theorem jit_coap_loses_code_witness:
  "let t = jit_thumb [0, 0, 0, 0, 8, 0, 0, 0x20, 0, 0, 0, 0, 0, 0xff, 0xff];
       vm = zero_vm\<lparr>insts := decode_insts zephyr_cve_10063, num_insts := 15\<rparr>
   in \<exists>t'. t_walk (halfwords (emitted (gen_jit_code (\<lambda>_. 0) 0 vm))) None t = Some t' \<and>
     filter_10063 (t_mem t) (t_reg t 0) = Some (set_return32 1 (- EINVAL)) \<and> pair_val t' (1, 0) = set_return32 1 0"
proof -
  let ?t = "jit_thumb [0, 0, 0, 0, 8, 0, 0, 0x20, 0, 0, 0, 0, 0, 0xff, 0xff]"
    and ?vm = "zero_vm\<lparr>insts := decode_insts zephyr_cve_10063, num_insts := 15\<rparr>"
  have f: "frame_get (t_mem ?t) (t_reg ?t 0) F_r1 = Some 0x20000008" "mem_load (t_mem ?t) (0x20000008 + 5) 2 = Some 0xffff"
    by (simp_all add: jit_thumb_def frame_get_def mem_load_def)
  have st: "\<forall>k < 72. load32 (t_mem ?t) (slot (t_reg ?t 13 - 288) k) \<noteq> None"
    by (simp add: load32_def mem_load_def jit_thumb_def)
  have a1: "\<forall>k < 4. 288 \<le> unat (t_reg ?t 0 + 4 + of_nat k - (t_reg ?t 13 - 288))"
  proof (intro allI impI)
    fix k :: nat assume "k < 4"
    then have "k \<in> {0, 1, 2, 3}" by auto
    then show "288 \<le> unat (t_reg ?t 0 + 4 + of_nat k - (t_reg ?t 13 - 288))"
      by (elim insertE emptyE) (simp_all add: jit_thumb_def)
  qed
  have a2: "\<forall>k < 2. 288 \<le> unat (0x20000008 + 5 + of_nat k - (t_reg ?t 13 - 288))"
    by (auto simp: less_2_cases_iff jit_thumb_def)
  show ?thesis
    using jit_coap_loses_code [of ?vm ?t "0x20000008" "0xffff" "\<lambda>_. 0" 0, OF _ _ st f a1 a2]
    by (auto simp: set_return32_def set_return_def upper_def EINVAL_def Let_def)
qed

end
