(* ===== verification/Jit_Runtime.thy ===== *)
theory Jit_Runtime
  imports Jit_Patch Monitor_Props
begin

text \<open>
  Compiled code inside the runtime: the entry points of \<open>jit_thumb2.c\<close> (\<open>init_jit_state\<close>, \<open>ebpf_run_jit\<close>,
  \<open>run_jit_func\<close>), the call through \<open>jit_func\<close> that \<open>run_ebpf_filter\<close> makes for a compiled patch, on the machine of
  \<open>Thumb2_Exec\<close>, and the breakpoint that is decided by it.
\<close>

subsection \<open>Entry points of the compiler\<close>

text \<open>\<open>init_jit_state\<close> zeroes the static state and the offset table and points to the static buffers: \<open>buf\<close> is what the
  code buffer holds, of which nothing checks the size. The base of the helper table is NULL: \<open>tbl\<close> gives the words there.\<close>

definition init_jit_state :: "(int \<Rightarrow> u32) \<Rightarrow> u8 list \<Rightarrow> u8 list \<Rightarrow> nat \<Rightarrow> jit_state" where
  "init_jit_state tbl buf code code_len =
     \<lparr>j_insts = decode_insts code, j_inst_num = code_len div 8, j_code = buf, j_idx = 0, j_epilogue = 0,
      j_err_line = 0, j_offsets = replicate 512 0, j_call_base = tbl, j_needGen = False, j_fault = False\<rparr>"

text \<open>The call of the buffer with the address of the context in \<open>r0\<close>: the 64-bit result is the pair \<open>r1:r0\<close>.\<close>

definition ebpf_run_jit :: "jit_state \<Rightarrow> u32 \<Rightarrow> thumb \<Rightarrow> (u64 \<times> thumb) option" where
  "ebpf_run_jit st ctx t =
     map_option (\<lambda>t'. (pair_val t' (1, 0), t')) (t_walk (halfwords (emitted st)) None (set_r 0 ctx t))"

text \<open>\<open>run_jit_func\<close> drops the result.\<close>

definition run_jit_func :: "(int \<Rightarrow> u32) \<Rightarrow> u8 list \<Rightarrow> u8 list \<Rightarrow> nat \<Rightarrow> u32 \<Rightarrow> thumb \<Rightarrow> thumb option" where
  "run_jit_func tbl buf code len ctx t =
     map_option snd (ebpf_run_jit (jit_compile (init_jit_state tbl buf code len)) ctx t)"

subsection \<open>A compiled filter\<close>

text \<open>The call \<open>jit_func (args, args_size)\<close> of \<open>run_ebpf_filter\<close>: \<open>t\<close> is the machine at the call, its memory the world's.\<close>

definition jit_call :: "(int \<Rightarrow> u32) \<Rightarrow> nat \<Rightarrow> thumb \<Rightarrow> ebpf_vm \<Rightarrow> u32 \<Rightarrow> u32 \<Rightarrow> world \<Rightarrow> (u64 \<times> world) option" where
  "jit_call tbl epi t vm args len w =
     map_option (\<lambda>(v, t'). (v, w\<lparr>w_mem := t_mem t'\<rparr>))
       (ebpf_run_jit (gen_jit_code tbl epi vm) args ((set_r 1 len t)\<lparr>t_mem := w_mem w\<rparr>))"

text \<open>The memory of a frame lies outside the 288 bytes below the stack pointer.\<close>

definition frame_apart :: "u32 \<Rightarrow> u32 \<Rightarrow> bool" where
  "frame_apart sp ctx \<longleftrightarrow> (\<forall>f. \<forall>k < 4. 288 \<le> unat (ctx + field_offset f + of_nat k - (sp - 288)))"

definition stack_room :: "u32 \<Rightarrow> memory \<Rightarrow> bool" where
  "stack_room sp m \<longleftrightarrow> (\<forall>k < 72. load32 m (slot (sp - 288) k) \<noteq> None)"

lemma frame_keeps:
  "frame_apart sp ctx \<Longrightarrow> keeps (sp - 288) 288 m m' \<Longrightarrow> frame_get m' ctx f = frame_get m ctx f"
proof -
  assume "frame_apart sp ctx" "keeps (sp - 288) 288 m m'"
  then have "load32 m' (ctx + field_offset f) = load32 m (ctx + field_offset f)"
    by (intro load32_keeps) (auto simp: frame_apart_def)
  then show ?thesis by (simp add: frame_get_def load32_def)
qed

lemma test_cve_called:
  assumes "halfwords (emitted st) = prologue_code @ concat test_cve_slots @ epilogue_code"
    and "stack_room (t_reg t 13) (t_mem t)" "frame_apart (t_reg t 13) ctx" "frame_get (t_mem t) ctx F_r0 = Some v"
  shows "\<exists>r t'. ebpf_run_jit st ctx t = Some (r, t') \<and> fix_bug (t_mem t) ctx = Some r \<and>
    (\<forall>r \<in> {4, 5, 6, 7, 8, 9, 11, 13}. t_reg t' r = t_reg t r) \<and> keeps (t_reg t 13 - 288) 288 (t_mem t) (t_mem t')"
proof -
  have "\<forall>k < 4. 288 \<le> unat (ctx + of_nat k - (t_reg t 13 - 288))"
    using assms(3) [unfolded frame_apart_def, rule_format, of _ F_r0] by simp
  then show ?thesis
    using test_cve_call [of "set_r 0 ctx t" v] assms by (auto simp: ebpf_run_jit_def stack_room_def set_r_def)
qed

text \<open>The developer's entry point, which compiles from the raw bytes into the other pair of buffers, runs the same
  function: for \<open>test_cve\<close> it changes no memory outside the 288 bytes below the stack pointer and returns with the
  registers of the caller.\<close>

lemma run_jit_func_frame:
  assumes "length buf = 2048" and "stack_room (t_reg t 13) (t_mem t)" and "frame_apart (t_reg t 13) ctx"
    and "frame_get (t_mem t) ctx F_r0 \<noteq> None"
  shows "\<exists>t'. run_jit_func tbl buf test_cve (length test_cve) ctx t = Some t' \<and>
    (\<forall>r \<in> {4, 5, 6, 7, 8, 9, 11, 13}. t_reg t' r = t_reg t r) \<and> (\<forall>f. frame_get (t_mem t') ctx f = frame_get (t_mem t) ctx f)"
proof -
  have "length test_cve div 8 = 10" by (simp add: test_cve_def)
  then have "halfwords (emitted (jit_compile (init_jit_state tbl buf test_cve (length test_cve)))) =
      prologue_code @ concat test_cve_slots @ epilogue_code"
    using assms(1) by (intro test_cve_compiled) (simp_all add: init_jit_state_def)
  from test_cve_called [OF this assms(2,3)] assms(4) frame_keeps [OF assms(3)] show ?thesis
    by (fastforce simp: run_jit_func_def)
qed

text \<open>A run of the compiled patch for \<open>test_dynamic_bug\<close> at a breakpoint.\<close>

lemma run_test_cve_jit:
  assumes "patches (mo_ctx s) p = Some pt" "insts (p_vm pt) = decode_insts test_cve" "num_insts (p_vm pt) = 10" "use_jit (p_vm pt)"
    "r_jit (me_run e) = jit_call tbl epi t" "stack_room (t_reg t 13) (w_mem (mo_world s))" "frame_apart (t_reg t 13) ctx"
    "ctx_get s ctx F_r0 = Some v"
  shows "\<exists>s'. run_filter_at e p ctx s =
      Some (set_return (if sint v \<le> 5000 \<and> sint v > 2000 then FILTER_DROP else FILTER_PASS) 0, s') \<and>
    mo_ctx s' = mo_ctx s \<and> (\<forall>f. ctx_get s' ctx f = ctx_get s ctx f)"
proof -
  let ?t = "(set_r 1 args_frame_size t)\<lparr>t_mem := w_mem (mo_world s)\<rparr>"
  have fr: "frame_get (t_mem ?t) ctx F_r0 = Some v" using assms(8) by (simp add: ctx_get_def)
  obtain r t' where run: "ebpf_run_jit (gen_jit_code tbl epi (p_vm pt)) ctx ?t = Some (r, t')"
      "fix_bug (t_mem ?t) ctx = Some r" "keeps (t_reg t 13 - 288) 288 (t_mem ?t) (t_mem t')"
    using test_cve_called [OF test_cve_code [OF assms(2,3)], of ?t ctx v tbl epi] assms(6,7) fr by (auto simp: set_r_def)
  have "r = set_return (if sint v \<le> 5000 \<and> sint v > 2000 then FILTER_DROP else FILTER_PASS) 0"
    using run(2) fr by (simp add: fix_bug_def Let_def)
  then show ?thesis
    using run assms(1,4,5) frame_keeps [OF assms(7) run(3)]
    by (auto simp: run_filter_at_def run_ebpf_filter_def jit_call_def profile_start_def profile_end_def EV1_def PROFILER_EVENTS_MAX_def
      ctx_get_def Let_def)
qed

lemma op_code_set_return: "op_of (set_return FILTER_DROP 0) = FILTER_DROP" "op_of (set_return FILTER_PASS 0) = FILTER_PASS"
  "Debug_Monitor.code_of (set_return FILTER_DROP 0) = 0" "FILTER_PASS \<noteq> FILTER_DROP" "FILTER_PASS \<noteq> FILTER_REDIRECT"
  by (simp_all add: op_of_def Debug_Monitor.code_of_def set_return_def filter_ops)

text \<open>C4: the compiled patch at a breakpoint: when the runtime calls the bytes \<open>gen_jit_code\<close> produced for \<open>test_cve\<close> on
  a stack with room below the stack pointer, apart from the saved registers, the debug monitor decides as with the
  interpreter: calls with an argument in 2001 to 5000 return 0 to their caller, every other call runs on under a
  single step with its registers unchanged.\<close>

theorem compiled_patch_decides:
  assumes "write_one_clears (me_w1c e)" and "bkpt_flag (mo_hw s)" and "ctx_get s ctx F_pc = Some pc"
    and "get_dynamic_patch_by_bpkt (mo_ctx s) pc = Some p" and "p \<noteq> 0" and "patches (mo_ctx s) p = Some pt"
    and "insts (p_vm pt) = decode_insts test_cve" and "num_insts (p_vm pt) = 10" and "use_jit (p_vm pt)"
    and "r_jit (me_run e) = jit_call tbl epi t" and "stack_room (t_reg t 13) (w_mem (mo_world s))"
    and "frame_apart (t_reg t 13) ctx" and "ctx_get s ctx F_r0 = Some v" and "\<forall>f. ctx_get s ctx f \<noteq> None"
  shows "\<exists>s'. leave_debug_monitor e ctx s = Some s' \<and>
    (if 2000 < sint v \<and> sint v \<le> 5000
     then ctx_get s' ctx F_r0 = Some 0 \<and> ctx_get s' ctx F_pc = ctx_get s ctx F_lr \<and> mo_hw s' = mo_hw s
     else stepping (mo_hw s') \<and> (\<forall>f. ctx_get s' ctx f = ctx_get s ctx f))"
proof -
  obtain s1 where run: "run_filter_at e p ctx s =
      Some (set_return (if sint v \<le> 5000 \<and> sint v > 2000 then FILTER_DROP else FILTER_PASS) 0, s1)"
      "\<forall>f. ctx_get s1 ctx f = ctx_get s ctx f"
    using run_test_cve_jit [OF assms(6-13)] by blast
  have "\<forall>f. ctx_get s1 ctx f \<noteq> None" using run(2) assms(14) by simp
  from filter_outcome [OF assms(1-5) run(1) this] run(2) show ?thesis
    by (auto simp: op_code_set_return split: if_splits)
qed

text \<open>The sample monitor with the patch, its stack at \<open>0x20000800\<close>, the saved registers at \<open>0x20001000\<close>.\<close>

definition jit_env :: mon_env where
  "jit_env = sample_env\<lparr>me_run := (me_run sample_env)\<lparr>r_jit := jit_call (\<lambda>_. 0) 0
     \<lparr>t_reg = (\<lambda>r. if r = 13 then 0x20000800 else 0), t_c = False, t_mem = (\<lambda>_. None)\<rparr>\<rparr>\<rparr>"

definition jit_mon :: "u32 \<Rightarrow> monitor" where
  "jit_mon v = (let s = sample_mon (sample_hw\<lparr>dfsr := 2\<rparr>) in
     s\<lparr>mo_ctx := (mo_ctx s)\<lparr>patches := [0x300 \<mapsto> \<lparr>p_desc = 0x200, p_vm = \<lparr>insts = decode_insts test_cve, insts_set = True,
         num_insts = 10, bounds_check_enabled = False, helper_set = True, use_jit = True\<rparr>, is_active = True\<rparr>]\<rparr>,
       mo_world := (mo_world s)\<lparr>w_mem := (w_mem (mo_world s))(0x20001000 \<mapsto> ucast v, 0x20001001 \<mapsto> ucast (drop_bit 8 v))\<rparr>\<rparr>)"

lemma jit_mon_mem: "ctx_get (jit_mon v) 0x20001000 f \<noteq> None"
  by (auto simp: ctx_get_def frame_get_def mem_load_def jit_mon_def sample_mon_def Let_def)

theorem compiled_patch_decides_witness:
  "\<exists>s'. leave_debug_monitor jit_env 0x20001000 (jit_mon 2500) = Some s' \<and> ctx_get s' 0x20001000 F_r0 = Some 0"
proof -
  let ?s = "jit_mon 2500" and ?c = "0x20001000 :: u32"
  have w: "write_one_clears (me_w1c jit_env)" using clear_ones_ok by (simp add: jit_env_def sample_env_def)
  have f: "bkpt_flag (mo_hw ?s)" by (simp add: bkpt_flag_def bit_simps jit_mon_def Let_def)
  have pc: "ctx_get ?s ?c F_pc = Some 0x08001000" "ctx_get ?s ?c F_r0 = Some 2500"
    by (simp_all add: ctx_get_def frame_get_def mem_load_def jit_mon_def sample_mon_def Let_def)
  have lk: "get_dynamic_patch_by_bpkt (mo_ctx ?s) 0x08001000 = Some 0x300"
    by (simp add: get_dynamic_patch_by_bpkt_def jit_mon_def sample_mon_def Let_def)
  have room: "stack_room 0x20000800 (w_mem (mo_world ?s))"
    by (simp add: stack_room_def load32_def mem_load_def jit_mon_def sample_mon_def Let_def)
  have "k \<in> {0, 1, 2, 3}" if "k < 4" for k :: nat using that by auto
  then have apart: "frame_apart 0x20000800 ?c"
    unfolding frame_apart_def by (intro allI impI, case_tac f) (auto dest!: \<open>\<And>k. k < 4 \<Longrightarrow> k \<in> {0, 1, 2, 3}\<close>)
  show ?thesis
    using compiled_patch_decides [OF w f pc(1) lk, of _ "\<lambda>_. 0" 0
        "\<lparr>t_reg = (\<lambda>r. if r = 13 then 0x20000800 else 0), t_c = False, t_mem = (\<lambda>_. None)\<rparr>" 2500] room apart pc(2) jit_mon_mem
    by (simp add: jit_env_def) (auto simp: jit_mon_def Let_def)
qed

end
