(* ===== verification/Eval_Code.thy ===== *)
theory Eval_Code
  imports Patch_Code
begin

text \<open>
  The patches that \<open>hotpatch/src/ebpf_test.c\<close> carries as byte arrays for its evaluation, one per
  vulnerability, and the refinement of the patch sources of \<open>update_server/patch_code\<close> by them: the
  interpreter run on the bytes computes the filter the file was compiled from.
\<close>

subsection \<open>The byte arrays\<close>

definition code0 :: "u8 list" where
  "code0 =
    [0x61, 0x11, 0x00, 0x00, 0x00, 0x00, 0x00, 0x00,
     0x07, 0x01, 0x00, 0x00, 0x2f, 0xf8, 0xff, 0xff,
     0x67, 0x01, 0x00, 0x00, 0x20, 0x00, 0x00, 0x00,
     0x77, 0x01, 0x00, 0x00, 0x20, 0x00, 0x00, 0x00,
     0xb7, 0x00, 0x00, 0x00, 0x01, 0x00, 0x00, 0x00,
     0xb7, 0x02, 0x00, 0x00, 0xb8, 0x0b, 0x00, 0x00,
     0x2d, 0x12, 0x01, 0x00, 0x00, 0x00, 0x00, 0x00,
     0xb7, 0x00, 0x00, 0x00, 0x00, 0x00, 0x00, 0x00,
     0x67, 0x00, 0x00, 0x00, 0x20, 0x00, 0x00, 0x00,
     0x95, 0x00, 0x00, 0x00, 0x00, 0x00, 0x00, 0x00,
     0x00]"

definition code1 :: "u8 list" where
  "code1 =
    [0x61, 0x11, 0x04, 0x00, 0x00, 0x00, 0x00, 0x00,
     0x07, 0x01, 0x00, 0x00, 0x05, 0x00, 0x00, 0x00,
     0x67, 0x01, 0x00, 0x00, 0x20, 0x00, 0x00, 0x00,
     0x77, 0x01, 0x00, 0x00, 0x20, 0x00, 0x00, 0x00,
     0x69, 0x11, 0x00, 0x00, 0x00, 0x00, 0x00, 0x00,
     0x18, 0x00, 0x00, 0x00, 0xea, 0xff, 0xff, 0xff,
     0x00, 0x00, 0x00, 0x00, 0x01, 0x00, 0x00, 0x00,
     0x25, 0x01, 0x01, 0x00, 0xff, 0xef, 0x00, 0x00,
     0xb7, 0x00, 0x00, 0x00, 0x00, 0x00, 0x00, 0x00,
     0x95, 0x00, 0x00, 0x00, 0x00, 0x00, 0x00, 0x00,
     0x00]"

definition code2 :: "u8 list" where
  "code2 =
    [0x61, 0x12, 0x00, 0x00, 0x00, 0x00, 0x00, 0x00,
     0x61, 0x11, 0x04, 0x00, 0x00, 0x00, 0x00, 0x00,
     0x61, 0x11, 0x00, 0x00, 0x00, 0x00, 0x00, 0x00,
     0xb7, 0x00, 0x00, 0x00, 0x00, 0x00, 0x00, 0x00,
     0x2d, 0x21, 0x02, 0x00, 0x00, 0x00, 0x00, 0x00,
     0x18, 0x00, 0x00, 0x00, 0x7c, 0x97, 0x00, 0x00,
     0x00, 0x00, 0x00, 0x00, 0x01, 0x00, 0x00, 0x00,
     0x95, 0x00, 0x00, 0x00, 0x00, 0x00, 0x00, 0x00,
     0x00]"

definition code3 :: "u8 list" where
  "code3 =
    [0x61, 0x11, 0x00, 0x00, 0x00, 0x00, 0x00, 0x00,
     0xbf, 0x12, 0x00, 0x00, 0x00, 0x00, 0x00, 0x00,
     0x07, 0x02, 0x00, 0x00, 0xff, 0xff, 0xff, 0xff,
     0x71, 0x23, 0x01, 0x00, 0x00, 0x00, 0x00, 0x00,
     0x07, 0x02, 0x00, 0x00, 0x01, 0x00, 0x00, 0x00,
     0x55, 0x03, 0xfd, 0xff, 0x00, 0x00, 0x00, 0x00,
     0x18, 0x00, 0x00, 0x00, 0xff, 0xff, 0xff, 0xff,
     0x00, 0x00, 0x00, 0x00, 0x00, 0x00, 0x00, 0x00,
     0x15, 0x01, 0x13, 0x00, 0x00, 0x00, 0x00, 0x00,
     0x1f, 0x12, 0x00, 0x00, 0x00, 0x00, 0x00, 0x00,
     0xbf, 0x20, 0x00, 0x00, 0x00, 0x00, 0x00, 0x00,
     0x57, 0x00, 0x00, 0x00, 0xff, 0xff, 0x00, 0x00,
     0xb7, 0x03, 0x00, 0x00, 0x02, 0x00, 0x00, 0x00,
     0x2d, 0x03, 0x0e, 0x00, 0x00, 0x00, 0x00, 0x00,
     0xb7, 0x03, 0x00, 0x00, 0x00, 0x00, 0x00, 0x00,
     0xb7, 0x04, 0x00, 0x00, 0xff, 0xff, 0x00, 0x00,
     0xb7, 0x05, 0x00, 0x00, 0x00, 0x00, 0x00, 0x00,
     0x05, 0x00, 0x0b, 0x00, 0x00, 0x00, 0x00, 0x00,
     0x1f, 0x02, 0x00, 0x00, 0x00, 0x00, 0x00, 0x00,
     0xb7, 0x05, 0x00, 0x00, 0x00, 0x00, 0x00, 0x00,
     0x07, 0x04, 0x00, 0x00, 0xff, 0xff, 0xff, 0xff,
     0xbf, 0x36, 0x00, 0x00, 0x00, 0x00, 0x00, 0x00,
     0x57, 0x06, 0x00, 0x00, 0xff, 0xff, 0x00, 0x00,
     0xbf, 0x20, 0x00, 0x00, 0x00, 0x00, 0x00, 0x00,
     0x57, 0x00, 0x00, 0x00, 0xff, 0xff, 0x00, 0x00,
     0xbf, 0x07, 0x00, 0x00, 0x00, 0x00, 0x00, 0x00,
     0x07, 0x07, 0x00, 0x00, 0xff, 0xff, 0xff, 0xff,
     0x6d, 0x67, 0x01, 0x00, 0x00, 0x00, 0x00, 0x00,
     0x95, 0x00, 0x00, 0x00, 0x00, 0x00, 0x00, 0x00,
     0xbf, 0x50, 0x00, 0x00, 0x00, 0x00, 0x00, 0x00,
     0xbf, 0x36, 0x00, 0x00, 0x00, 0x00, 0x00, 0x00,
     0x57, 0x06, 0x00, 0x00, 0xff, 0xff, 0x00, 0x00,
     0xbf, 0x17, 0x00, 0x00, 0x00, 0x00, 0x00, 0x00,
     0x0f, 0x67, 0x00, 0x00, 0x00, 0x00, 0x00, 0x00,
     0x07, 0x03, 0x00, 0x00, 0x01, 0x00, 0x00, 0x00,
     0x71, 0x76, 0x00, 0x00, 0x00, 0x00, 0x00, 0x00,
     0x55, 0x06, 0xef, 0xff, 0x20, 0x00, 0x00, 0x00,
     0xbf, 0x26, 0x00, 0x00, 0x00, 0x00, 0x00, 0x00,
     0x57, 0x06, 0x00, 0x00, 0xff, 0xff, 0x00, 0x00,
     0xbf, 0x37, 0x00, 0x00, 0x00, 0x00, 0x00, 0x00,
     0x57, 0x07, 0x00, 0x00, 0xff, 0xff, 0x00, 0x00,
     0xbf, 0x05, 0x00, 0x00, 0x00, 0x00, 0x00, 0x00,
     0x3d, 0x67, 0xe9, 0xff, 0x00, 0x00, 0x00, 0x00,
     0xbf, 0x25, 0x00, 0x00, 0x00, 0x00, 0x00, 0x00,
     0x0f, 0x05, 0x00, 0x00, 0x00, 0x00, 0x00, 0x00,
     0x0f, 0x45, 0x00, 0x00, 0x00, 0x00, 0x00, 0x00,
     0xbf, 0x36, 0x00, 0x00, 0x00, 0x00, 0x00, 0x00,
     0xbf, 0x67, 0x00, 0x00, 0x00, 0x00, 0x00, 0x00,
     0x57, 0x07, 0x00, 0x00, 0xff, 0xff, 0x00, 0x00,
     0xbf, 0x18, 0x00, 0x00, 0x00, 0x00, 0x00, 0x00,
     0x0f, 0x78, 0x00, 0x00, 0x00, 0x00, 0x00, 0x00,
     0x71, 0x87, 0x00, 0x00, 0x00, 0x00, 0x00, 0x00,
     0x55, 0x07, 0xdd, 0xff, 0x20, 0x00, 0x00, 0x00,
     0x07, 0x00, 0x00, 0x00, 0x01, 0x00, 0x00, 0x00,
     0xbf, 0x27, 0x00, 0x00, 0x00, 0x00, 0x00, 0x00,
     0x57, 0x07, 0x00, 0x00, 0xff, 0xff, 0x00, 0x00,
     0x07, 0x06, 0x00, 0x00, 0x01, 0x00, 0x00, 0x00,
     0xbf, 0x68, 0x00, 0x00, 0x00, 0x00, 0x00, 0x00,
     0x57, 0x08, 0x00, 0x00, 0xff, 0xff, 0x00, 0x00,
     0x1d, 0x78, 0xd8, 0xff, 0x00, 0x00, 0x00, 0x00,
     0x05, 0x00, 0xf2, 0xff, 0x00, 0x00, 0x00, 0x00,
     0x00]"

definition code4 :: "u8 list" where
  "code4 =
    [0xb7, 0x02, 0x00, 0x00, 0x00, 0x00, 0x00, 0x00,
     0x61, 0x13, 0x1c, 0x00, 0x00, 0x00, 0x00, 0x00,
     0x57, 0x03, 0x00, 0x00, 0x00, 0x00, 0x00, 0x20,
     0xb7, 0x00, 0x00, 0x00, 0x00, 0x00, 0x00, 0x00,
     0x15, 0x03, 0x06, 0x00, 0x00, 0x00, 0x00, 0x00,
     0x18, 0x02, 0x00, 0x00, 0x00, 0x00, 0x00, 0x00,
     0x00, 0x00, 0x00, 0x00, 0x02, 0x00, 0x00, 0x00,
     0x61, 0x10, 0x18, 0x00, 0x00, 0x00, 0x00, 0x00,
     0x07, 0x00, 0x00, 0x00, 0x04, 0x00, 0x00, 0x00,
     0x67, 0x00, 0x00, 0x00, 0x20, 0x00, 0x00, 0x00,
     0x77, 0x00, 0x00, 0x00, 0x20, 0x00, 0x00, 0x00,
     0x4f, 0x20, 0x00, 0x00, 0x00, 0x00, 0x00, 0x00,
     0x95, 0x00, 0x00, 0x00, 0x00, 0x00, 0x00, 0x00,
     0x00]"

definition code5 :: "u8 list" where
  "code5 =
    [0x61, 0x11, 0x04, 0x00, 0x00, 0x00, 0x00, 0x00,
     0x61, 0x11, 0x04, 0x00, 0x00, 0x00, 0x00, 0x00,
     0x61, 0x11, 0x00, 0x00, 0x00, 0x00, 0x00, 0x00,
     0x18, 0x00, 0x00, 0x00, 0xea, 0xff, 0xff, 0xff,
     0x00, 0x00, 0x00, 0x00, 0x01, 0x00, 0x00, 0x00,
     0x15, 0x01, 0x01, 0x00, 0x00, 0x00, 0x00, 0x00,
     0xb7, 0x00, 0x00, 0x00, 0x00, 0x00, 0x00, 0x00,
     0x95, 0x00, 0x00, 0x00, 0x00, 0x00, 0x00, 0x00,
     0x00]"

definition code6 :: "u8 list" where
  "code6 =
    [0xb7, 0x03, 0x00, 0x00, 0x01, 0x00, 0x00, 0x00,
     0x61, 0x11, 0x00, 0x00, 0x00, 0x00, 0x00, 0x00,
     0x79, 0x12, 0x00, 0x00, 0x00, 0x00, 0x00, 0x00,
     0x71, 0x21, 0x00, 0x00, 0x00, 0x00, 0x00, 0x00,
     0x67, 0x01, 0x00, 0x00, 0x38, 0x00, 0x00, 0x00,
     0xc7, 0x01, 0x00, 0x00, 0x38, 0x00, 0x00, 0x00,
     0x65, 0x01, 0x06, 0x00, 0xff, 0xff, 0xff, 0xff,
     0xb7, 0x03, 0x00, 0x00, 0x02, 0x00, 0x00, 0x00,
     0x71, 0x24, 0x01, 0x00, 0x00, 0x00, 0x00, 0x00,
     0x67, 0x04, 0x00, 0x00, 0x38, 0x00, 0x00, 0x00,
     0xc7, 0x04, 0x00, 0x00, 0x38, 0x00, 0x00, 0x00,
     0xb7, 0x05, 0x00, 0x00, 0x00, 0x00, 0x00, 0x00,
     0x6d, 0x45, 0x17, 0x00, 0x00, 0x00, 0x00, 0x00,
     0x57, 0x01, 0x00, 0x00, 0x7f, 0x00, 0x00, 0x00,
     0x55, 0x03, 0x04, 0x00, 0x01, 0x00, 0x00, 0x00,
     0xb7, 0x00, 0x00, 0x00, 0xea, 0xff, 0xff, 0xff,
     0x25, 0x01, 0x01, 0x00, 0xff, 0xff, 0xff, 0x0f,
     0xb7, 0x00, 0x00, 0x00, 0x00, 0x00, 0x00, 0x00,
     0x95, 0x00, 0x00, 0x00, 0x00, 0x00, 0x00, 0x00,
     0x71, 0x24, 0x01, 0x00, 0x00, 0x00, 0x00, 0x00,
     0x57, 0x04, 0x00, 0x00, 0x7f, 0x00, 0x00, 0x00,
     0x67, 0x04, 0x00, 0x00, 0x07, 0x00, 0x00, 0x00,
     0x4f, 0x14, 0x00, 0x00, 0x00, 0x00, 0x00, 0x00,
     0xbf, 0x41, 0x00, 0x00, 0x00, 0x00, 0x00, 0x00,
     0x15, 0x03, 0xf6, 0xff, 0x02, 0x00, 0x00, 0x00,
     0x71, 0x21, 0x02, 0x00, 0x00, 0x00, 0x00, 0x00,
     0x57, 0x01, 0x00, 0x00, 0x7f, 0x00, 0x00, 0x00,
     0x67, 0x01, 0x00, 0x00, 0x0e, 0x00, 0x00, 0x00,
     0x4f, 0x41, 0x00, 0x00, 0x00, 0x00, 0x00, 0x00,
     0x15, 0x03, 0xf1, 0xff, 0x03, 0x00, 0x00, 0x00,
     0x71, 0x22, 0x03, 0x00, 0x00, 0x00, 0x00, 0x00,
     0x57, 0x02, 0x00, 0x00, 0x7f, 0x00, 0x00, 0x00,
     0x67, 0x02, 0x00, 0x00, 0x15, 0x00, 0x00, 0x00,
     0x4f, 0x12, 0x00, 0x00, 0x00, 0x00, 0x00, 0x00,
     0xbf, 0x21, 0x00, 0x00, 0x00, 0x00, 0x00, 0x00,
     0x05, 0x00, 0xeb, 0xff, 0x00, 0x00, 0x00, 0x00,
     0xb7, 0x03, 0x00, 0x00, 0x03, 0x00, 0x00, 0x00,
     0x71, 0x24, 0x02, 0x00, 0x00, 0x00, 0x00, 0x00,
     0x67, 0x04, 0x00, 0x00, 0x38, 0x00, 0x00, 0x00,
     0xc7, 0x04, 0x00, 0x00, 0x38, 0x00, 0x00, 0x00,
     0x65, 0x04, 0xe4, 0xff, 0xff, 0xff, 0xff, 0xff,
     0xb7, 0x03, 0x00, 0x00, 0x04, 0x00, 0x00, 0x00,
     0x71, 0x24, 0x03, 0x00, 0x00, 0x00, 0x00, 0x00,
     0x67, 0x04, 0x00, 0x00, 0x38, 0x00, 0x00, 0x00,
     0xc7, 0x04, 0x00, 0x00, 0x38, 0x00, 0x00, 0x00,
     0x65, 0x04, 0xdf, 0xff, 0xff, 0xff, 0xff, 0xff,
     0x18, 0x00, 0x00, 0x00, 0xea, 0xff, 0xff, 0xff,
     0x00, 0x00, 0x00, 0x00, 0x00, 0x00, 0x00, 0x00,
     0x71, 0x24, 0x04, 0x00, 0x00, 0x00, 0x00, 0x00,
     0x67, 0x04, 0x00, 0x00, 0x38, 0x00, 0x00, 0x00,
     0xc7, 0x04, 0x00, 0x00, 0x38, 0x00, 0x00, 0x00,
     0xb7, 0x03, 0x00, 0x00, 0x01, 0x00, 0x00, 0x00,
     0x65, 0x04, 0xdd, 0xff, 0xff, 0xff, 0xff, 0xff,
     0x05, 0x00, 0xd7, 0xff, 0x00, 0x00, 0x00, 0x00,
     0x00]"

definition code7 :: "u8 list" where
  "code7 =
    [0xb7, 0x00, 0x00, 0x00, 0x00, 0x00, 0x00, 0x00,
     0x61, 0x11, 0x04, 0x00, 0x00, 0x00, 0x00, 0x00,
     0x71, 0x11, 0x18, 0x00, 0x00, 0x00, 0x00, 0x00,
     0x71, 0x12, 0x2e, 0x00, 0x00, 0x00, 0x00, 0x00,
     0xb7, 0x03, 0x00, 0x00, 0x60, 0x00, 0x00, 0x00,
     0x2d, 0x23, 0x24, 0x00, 0x00, 0x00, 0x00, 0x00,
     0x77, 0x02, 0x00, 0x00, 0x02, 0x00, 0x00, 0x00,
     0x57, 0x02, 0x00, 0x00, 0x3c, 0x00, 0x00, 0x00,
     0x0f, 0x12, 0x00, 0x00, 0x00, 0x00, 0x00, 0x00,
     0x07, 0x02, 0x00, 0x00, 0x22, 0x00, 0x00, 0x00,
     0x07, 0x01, 0x00, 0x00, 0x36, 0x00, 0x00, 0x00,
     0x71, 0x13, 0x00, 0x00, 0x00, 0x00, 0x00, 0x00,
     0x65, 0x03, 0x03, 0x00, 0x01, 0x00, 0x00, 0x00,
     0x15, 0x03, 0x09, 0x00, 0x01, 0x00, 0x00, 0x00,
     0x15, 0x03, 0x1b, 0x00, 0x00, 0x00, 0x00, 0x00,
     0x05, 0x00, 0x02, 0x00, 0x00, 0x00, 0x00, 0x00,
     0x15, 0x03, 0x0e, 0x00, 0x02, 0x00, 0x00, 0x00,
     0x15, 0x03, 0x08, 0x00, 0x03, 0x00, 0x00, 0x00,
     0x71, 0x13, 0x01, 0x00, 0x00, 0x00, 0x00, 0x00,
     0x0f, 0x31, 0x00, 0x00, 0x00, 0x00, 0x00, 0x00,
     0x15, 0x03, 0x15, 0x00, 0x00, 0x00, 0x00, 0x00,
     0x2d, 0x12, 0xf5, 0xff, 0x00, 0x00, 0x00, 0x00,
     0x05, 0x00, 0x13, 0x00, 0x00, 0x00, 0x00, 0x00,
     0x07, 0x01, 0x00, 0x00, 0x01, 0x00, 0x00, 0x00,
     0x2d, 0x12, 0xf2, 0xff, 0x00, 0x00, 0x00, 0x00,
     0x05, 0x00, 0x10, 0x00, 0x00, 0x00, 0x00, 0x00,
     0x71, 0x13, 0x01, 0x00, 0x00, 0x00, 0x00, 0x00,
     0x55, 0x03, 0xf7, 0xff, 0x03, 0x00, 0x00, 0x00,
     0x07, 0x01, 0x00, 0x00, 0x03, 0x00, 0x00, 0x00,
     0x2d, 0x12, 0xed, 0xff, 0x00, 0x00, 0x00, 0x00,
     0x05, 0x00, 0x0b, 0x00, 0x00, 0x00, 0x00, 0x00,
     0x71, 0x13, 0x01, 0x00, 0x00, 0x00, 0x00, 0x00,
     0x55, 0x03, 0xf2, 0xff, 0x04, 0x00, 0x00, 0x00,
     0x71, 0x12, 0x03, 0x00, 0x00, 0x00, 0x00, 0x00,
     0x71, 0x11, 0x02, 0x00, 0x00, 0x00, 0x00, 0x00,
     0x67, 0x01, 0x00, 0x00, 0x08, 0x00, 0x00, 0x00,
     0x4f, 0x21, 0x00, 0x00, 0x00, 0x00, 0x00, 0x00,
     0x57, 0x01, 0x00, 0x00, 0xff, 0xff, 0x00, 0x00,
     0xb7, 0x00, 0x00, 0x00, 0x01, 0x00, 0x00, 0x00,
     0x15, 0x01, 0x01, 0x00, 0x00, 0x00, 0x00, 0x00,
     0xb7, 0x00, 0x00, 0x00, 0x00, 0x00, 0x00, 0x00,
     0x67, 0x00, 0x00, 0x00, 0x20, 0x00, 0x00, 0x00,
     0x95, 0x00, 0x00, 0x00, 0x00, 0x00, 0x00, 0x00,
     0x00]"

definition code8_1 :: "u8 list" where
  "code8_1 =
    [0x61, 0x13, 0x04, 0x00, 0x00, 0x00, 0x00, 0x00,
     0x61, 0x12, 0x00, 0x00, 0x00, 0x00, 0x00, 0x00,
     0x67, 0x02, 0x00, 0x00, 0x20, 0x00, 0x00, 0x00,
     0xc7, 0x02, 0x00, 0x00, 0x20, 0x00, 0x00, 0x00,
     0x67, 0x03, 0x00, 0x00, 0x20, 0x00, 0x00, 0x00,
     0xc7, 0x03, 0x00, 0x00, 0x20, 0x00, 0x00, 0x00,
     0xb7, 0x01, 0x00, 0x00, 0x00, 0x00, 0x00, 0x00,
     0x85, 0x00, 0x00, 0x00, 0x03, 0x00, 0x00, 0x00,
     0xb7, 0x00, 0x00, 0x00, 0x00, 0x00, 0x00, 0x00,
     0x95, 0x00, 0x00, 0x00, 0x00, 0x00, 0x00, 0x00,
     0x00]"

definition code8_2 :: "u8 list" where
  "code8_2 =
    [0x61, 0x12, 0x00, 0x00, 0x00, 0x00, 0x00, 0x00,
     0x67, 0x02, 0x00, 0x00, 0x20, 0x00, 0x00, 0x00,
     0xc7, 0x02, 0x00, 0x00, 0x20, 0x00, 0x00, 0x00,
     0xb7, 0x01, 0x00, 0x00, 0x00, 0x00, 0x00, 0x00,
     0x85, 0x00, 0x00, 0x00, 0x04, 0x00, 0x00, 0x00,
     0xbf, 0x01, 0x00, 0x00, 0x00, 0x00, 0x00, 0x00,
     0x67, 0x01, 0x00, 0x00, 0x20, 0x00, 0x00, 0x00,
     0x77, 0x01, 0x00, 0x00, 0x20, 0x00, 0x00, 0x00,
     0x18, 0x00, 0x00, 0x00, 0xd0, 0x07, 0x00, 0x00,
     0x00, 0x00, 0x00, 0x00, 0x02, 0x00, 0x00, 0x00,
     0x15, 0x01, 0x01, 0x00, 0x00, 0x00, 0x00, 0x00,
     0xb7, 0x00, 0x00, 0x00, 0x00, 0x00, 0x00, 0x00,
     0x95, 0x00, 0x00, 0x00, 0x00, 0x00, 0x00, 0x00,
     0x00]"

definition code9 :: "u8 list" where
  "code9 =
    [0x61, 0x11, 0x00, 0x00, 0x00, 0x00, 0x00, 0x00,
     0x79, 0x11, 0x1c, 0x00, 0x00, 0x00, 0x00, 0x00,
     0x07, 0x01, 0x00, 0x00, 0xde, 0xff, 0xff, 0xff,
     0xb7, 0x00, 0x00, 0x00, 0x01, 0x00, 0x00, 0x00,
     0xb7, 0x02, 0x00, 0x00, 0x14, 0x00, 0x00, 0x00,
     0x2d, 0x12, 0x01, 0x00, 0x00, 0x00, 0x00, 0x00,
     0xb7, 0x00, 0x00, 0x00, 0x00, 0x00, 0x00, 0x00,
     0x67, 0x00, 0x00, 0x00, 0x20, 0x00, 0x00, 0x00,
     0x95, 0x00, 0x00, 0x00, 0x00, 0x00, 0x00, 0x00,
     0x00]"

definition code10 :: "u8 list" where
  "code10 =
    [0x61, 0x10, 0x18, 0x00, 0x00, 0x00, 0x00, 0x00,
     0x67, 0x00, 0x00, 0x00, 0x20, 0x00, 0x00, 0x00,
     0x18, 0x01, 0x00, 0x00, 0x00, 0x00, 0x00, 0x00,
     0x00, 0x00, 0x00, 0x00, 0x02, 0x00, 0x00, 0x00,
     0x0f, 0x10, 0x00, 0x00, 0x00, 0x00, 0x00, 0x00,
     0xc7, 0x00, 0x00, 0x00, 0x20, 0x00, 0x00, 0x00,
     0x0f, 0x10, 0x00, 0x00, 0x00, 0x00, 0x00, 0x00,
     0x95, 0x00, 0x00, 0x00, 0x00, 0x00, 0x00, 0x00,
     0x00]"

definition code11 :: "u8 list" where
  "code11 =
    [0x61, 0x11, 0x00, 0x00, 0x00, 0x00, 0x00, 0x00,
     0x69, 0x11, 0x26, 0x00, 0x00, 0x00, 0x00, 0x00,
     0x18, 0x00, 0x00, 0x00, 0xff, 0xff, 0xff, 0xff,
     0x00, 0x00, 0x00, 0x00, 0x01, 0x00, 0x00, 0x00,
     0xb7, 0x02, 0x00, 0x00, 0x08, 0x00, 0x00, 0x00,
     0x2d, 0x12, 0x01, 0x00, 0x00, 0x00, 0x00, 0x00,
     0xb7, 0x00, 0x00, 0x00, 0x00, 0x00, 0x00, 0x00,
     0x95, 0x00, 0x00, 0x00, 0x00, 0x00, 0x00, 0x00,
     0x00]"

definition code12 :: "u8 list" where
  "code12 =
    [0x61, 0x12, 0x00, 0x00, 0x00, 0x00, 0x00, 0x00,
     0x61, 0x13, 0x08, 0x00, 0x00, 0x00, 0x00, 0x00,
     0x07, 0x03, 0x00, 0x00, 0x02, 0x00, 0x00, 0x00,
     0x71, 0x21, 0x01, 0x00, 0x00, 0x00, 0x00, 0x00,
     0x07, 0x02, 0x00, 0x00, 0x02, 0x00, 0x00, 0x00,
     0x67, 0x01, 0x00, 0x00, 0x03, 0x00, 0x00, 0x00,
     0x47, 0x01, 0x00, 0x00, 0x06, 0x00, 0x00, 0x00,
     0x18, 0x00, 0x00, 0x00, 0x00, 0x00, 0x00, 0x00,
     0x00, 0x00, 0x00, 0x00, 0x01, 0x00, 0x00, 0x00,
     0x18, 0x04, 0x00, 0x00, 0xff, 0xff, 0xff, 0xff,
     0x00, 0x00, 0x00, 0x00, 0x00, 0x00, 0x00, 0x00,
     0x71, 0x25, 0x01, 0x00, 0x00, 0x00, 0x00, 0x00,
     0x07, 0x05, 0x00, 0x00, 0x02, 0x00, 0x00, 0x00,
     0xbf, 0x57, 0x00, 0x00, 0x00, 0x00, 0x00, 0x00,
     0x57, 0x07, 0x00, 0x00, 0xff, 0x00, 0x00, 0x00,
     0x15, 0x07, 0x11, 0x00, 0x00, 0x00, 0x00, 0x00,
     0xbf, 0x36, 0x00, 0x00, 0x00, 0x00, 0x00, 0x00,
     0x0f, 0x76, 0x00, 0x00, 0x00, 0x00, 0x00, 0x00,
     0xbf, 0x67, 0x00, 0x00, 0x00, 0x00, 0x00, 0x00,
     0x67, 0x07, 0x00, 0x00, 0x20, 0x00, 0x00, 0x00,
     0x77, 0x07, 0x00, 0x00, 0x20, 0x00, 0x00, 0x00,
     0x67, 0x03, 0x00, 0x00, 0x20, 0x00, 0x00, 0x00,
     0x77, 0x03, 0x00, 0x00, 0x20, 0x00, 0x00, 0x00,
     0x3d, 0x73, 0x09, 0x00, 0x00, 0x00, 0x00, 0x00,
     0x1f, 0x51, 0x00, 0x00, 0x00, 0x00, 0x00, 0x00,
     0x57, 0x05, 0x00, 0x00, 0xff, 0x00, 0x00, 0x00,
     0x0f, 0x52, 0x00, 0x00, 0x00, 0x00, 0x00, 0x00,
     0xb7, 0x04, 0x00, 0x00, 0x00, 0x00, 0x00, 0x00,
     0xbf, 0x15, 0x00, 0x00, 0x00, 0x00, 0x00, 0x00,
     0x57, 0x05, 0x00, 0x00, 0xff, 0x00, 0x00, 0x00,
     0xbf, 0x63, 0x00, 0x00, 0x00, 0x00, 0x00, 0x00,
     0xb7, 0x00, 0x00, 0x00, 0x00, 0x00, 0x00, 0x00,
     0x55, 0x05, 0xe6, 0xff, 0x00, 0x00, 0x00, 0x00,
     0x4f, 0x40, 0x00, 0x00, 0x00, 0x00, 0x00, 0x00,
     0x95, 0x00, 0x00, 0x00, 0x00, 0x00, 0x00, 0x00,
     0x00]"

definition code13 :: "u8 list" where
  "code13 =
    [0xb7, 0x00, 0x00, 0x00, 0x00, 0x00, 0x00, 0x00,
     0x61, 0x12, 0x04, 0x00, 0x00, 0x00, 0x00, 0x00,
     0xbf, 0x23, 0x00, 0x00, 0x00, 0x00, 0x00, 0x00,
     0x67, 0x03, 0x00, 0x00, 0x20, 0x00, 0x00, 0x00,
     0xc7, 0x03, 0x00, 0x00, 0x20, 0x00, 0x00, 0x00,
     0xb7, 0x04, 0x00, 0x00, 0x01, 0x00, 0x00, 0x00,
     0x6d, 0x34, 0x33, 0x00, 0x00, 0x00, 0x00, 0x00,
     0x61, 0x11, 0x00, 0x00, 0x00, 0x00, 0x00, 0x00,
     0x67, 0x01, 0x00, 0x00, 0x20, 0x00, 0x00, 0x00,
     0xc7, 0x01, 0x00, 0x00, 0x20, 0x00, 0x00, 0x00,
     0xb7, 0x03, 0x00, 0x00, 0x00, 0x00, 0x00, 0x00,
     0xb7, 0x04, 0x00, 0x00, 0x04, 0x00, 0x00, 0x00,
     0xb7, 0x00, 0x00, 0x00, 0x00, 0x00, 0x00, 0x00,
     0x2d, 0x24, 0x22, 0x00, 0x00, 0x00, 0x00, 0x00,
     0x18, 0x04, 0x00, 0x00, 0xfc, 0xff, 0xff, 0xff,
     0x00, 0x00, 0x00, 0x00, 0x00, 0x00, 0x00, 0x00,
     0xbf, 0x23, 0x00, 0x00, 0x00, 0x00, 0x00, 0x00,
     0x5f, 0x43, 0x00, 0x00, 0x00, 0x00, 0x00, 0x00,
     0xb7, 0x04, 0x00, 0x00, 0x00, 0x00, 0x00, 0x00,
     0xbf, 0x15, 0x00, 0x00, 0x00, 0x00, 0x00, 0x00,
     0x07, 0x05, 0x00, 0x00, 0x02, 0x00, 0x00, 0x00,
     0xbf, 0x38, 0x00, 0x00, 0x00, 0x00, 0x00, 0x00,
     0xb7, 0x06, 0x00, 0x00, 0x00, 0x00, 0x00, 0x00,
     0xb7, 0x00, 0x00, 0x00, 0x00, 0x00, 0x00, 0x00,
     0xb7, 0x07, 0x00, 0x00, 0x00, 0x00, 0x00, 0x00,
     0x71, 0x59, 0x01, 0x00, 0x00, 0x00, 0x00, 0x00,
     0x67, 0x09, 0x00, 0x00, 0x38, 0x00, 0x00, 0x00,
     0xc7, 0x09, 0x00, 0x00, 0x38, 0x00, 0x00, 0x00,
     0x0f, 0x97, 0x00, 0x00, 0x00, 0x00, 0x00, 0x00,
     0x71, 0x59, 0x00, 0x00, 0x00, 0x00, 0x00, 0x00,
     0x67, 0x09, 0x00, 0x00, 0x38, 0x00, 0x00, 0x00,
     0xc7, 0x09, 0x00, 0x00, 0x38, 0x00, 0x00, 0x00,
     0x0f, 0x90, 0x00, 0x00, 0x00, 0x00, 0x00, 0x00,
     0x71, 0x59, 0xff, 0xff, 0x00, 0x00, 0x00, 0x00,
     0x67, 0x09, 0x00, 0x00, 0x38, 0x00, 0x00, 0x00,
     0xc7, 0x09, 0x00, 0x00, 0x38, 0x00, 0x00, 0x00,
     0x0f, 0x96, 0x00, 0x00, 0x00, 0x00, 0x00, 0x00,
     0x71, 0x59, 0xfe, 0xff, 0x00, 0x00, 0x00, 0x00,
     0x67, 0x09, 0x00, 0x00, 0x38, 0x00, 0x00, 0x00,
     0xc7, 0x09, 0x00, 0x00, 0x38, 0x00, 0x00, 0x00,
     0x0f, 0x94, 0x00, 0x00, 0x00, 0x00, 0x00, 0x00,
     0x07, 0x05, 0x00, 0x00, 0x04, 0x00, 0x00, 0x00,
     0x07, 0x08, 0x00, 0x00, 0xfc, 0xff, 0xff, 0xff,
     0x55, 0x08, 0xed, 0xff, 0x00, 0x00, 0x00, 0x00,
     0x0f, 0x40, 0x00, 0x00, 0x00, 0x00, 0x00, 0x00,
     0x0f, 0x67, 0x00, 0x00, 0x00, 0x00, 0x00, 0x00,
     0x0f, 0x70, 0x00, 0x00, 0x00, 0x00, 0x00, 0x00,
     0x1d, 0x23, 0x0a, 0x00, 0x00, 0x00, 0x00, 0x00,
     0x1f, 0x32, 0x00, 0x00, 0x00, 0x00, 0x00, 0x00,
     0x0f, 0x31, 0x00, 0x00, 0x00, 0x00, 0x00, 0x00,
     0x71, 0x13, 0x00, 0x00, 0x00, 0x00, 0x00, 0x00,
     0x67, 0x03, 0x00, 0x00, 0x38, 0x00, 0x00, 0x00,
     0xc7, 0x03, 0x00, 0x00, 0x38, 0x00, 0x00, 0x00,
     0x0f, 0x30, 0x00, 0x00, 0x00, 0x00, 0x00, 0x00,
     0x07, 0x01, 0x00, 0x00, 0x01, 0x00, 0x00, 0x00,
     0x07, 0x02, 0x00, 0x00, 0xff, 0xff, 0xff, 0xff,
     0x15, 0x02, 0x01, 0x00, 0x00, 0x00, 0x00, 0x00,
     0x05, 0x00, 0xf8, 0xff, 0x00, 0x00, 0x00, 0x00,
     0x95, 0x00, 0x00, 0x00, 0x00, 0x00, 0x00, 0x00,
     0x00]"

definition code14 :: "u8 list" where
  "code14 =
    [0x7a, 0x0a, 0xf0, 0xff, 0x00, 0x00, 0x00, 0x00,
     0xb7, 0x00, 0x00, 0x00, 0x00, 0x00, 0x00, 0x00,
     0x61, 0x12, 0x04, 0x00, 0x00, 0x00, 0x00, 0x00,
     0xbf, 0x23, 0x00, 0x00, 0x00, 0x00, 0x00, 0x00,
     0x67, 0x03, 0x00, 0x00, 0x20, 0x00, 0x00, 0x00,
     0xc7, 0x03, 0x00, 0x00, 0x20, 0x00, 0x00, 0x00,
     0xb7, 0x04, 0x00, 0x00, 0x01, 0x00, 0x00, 0x00,
     0x6d, 0x34, 0x3f, 0x00, 0x00, 0x00, 0x00, 0x00,
     0x61, 0x11, 0x00, 0x00, 0x00, 0x00, 0x00, 0x00,
     0x67, 0x01, 0x00, 0x00, 0x20, 0x00, 0x00, 0x00,
     0xc7, 0x01, 0x00, 0x00, 0x20, 0x00, 0x00, 0x00,
     0xb7, 0x03, 0x00, 0x00, 0x00, 0x00, 0x00, 0x00,
     0xb7, 0x04, 0x00, 0x00, 0x04, 0x00, 0x00, 0x00,
     0xb7, 0x00, 0x00, 0x00, 0x00, 0x00, 0x00, 0x00,
     0x2d, 0x24, 0x28, 0x00, 0x00, 0x00, 0x00, 0x00,
     0x18, 0x04, 0x00, 0x00, 0xfc, 0xff, 0xff, 0xff,
     0x00, 0x00, 0x00, 0x00, 0x00, 0x00, 0x00, 0x00,
     0xbf, 0x23, 0x00, 0x00, 0x00, 0x00, 0x00, 0x00,
     0x5f, 0x43, 0x00, 0x00, 0x00, 0x00, 0x00, 0x00,
     0xb7, 0x04, 0x00, 0x00, 0x00, 0x00, 0x00, 0x00,
     0xbf, 0x15, 0x00, 0x00, 0x00, 0x00, 0x00, 0x00,
     0x07, 0x05, 0x00, 0x00, 0x02, 0x00, 0x00, 0x00,
     0xbf, 0x38, 0x00, 0x00, 0x00, 0x00, 0x00, 0x00,
     0xb7, 0x06, 0x00, 0x00, 0x00, 0x00, 0x00, 0x00,
     0xb7, 0x00, 0x00, 0x00, 0x00, 0x00, 0x00, 0x00,
     0xb7, 0x07, 0x00, 0x00, 0x00, 0x00, 0x00, 0x00,
     0x71, 0x59, 0x01, 0x00, 0x00, 0x00, 0x00, 0x00,
     0x67, 0x09, 0x00, 0x00, 0x38, 0x00, 0x00, 0x00,
     0xc7, 0x09, 0x00, 0x00, 0x38, 0x00, 0x00, 0x00,
     0x0f, 0x97, 0x00, 0x00, 0x00, 0x00, 0x00, 0x00,
     0x71, 0x59, 0x00, 0x00, 0x00, 0x00, 0x00, 0x00,
     0x67, 0x09, 0x00, 0x00, 0x38, 0x00, 0x00, 0x00,
     0xc7, 0x09, 0x00, 0x00, 0x38, 0x00, 0x00, 0x00,
     0x0f, 0x90, 0x00, 0x00, 0x00, 0x00, 0x00, 0x00,
     0x71, 0x59, 0xff, 0xff, 0x00, 0x00, 0x00, 0x00,
     0x67, 0x09, 0x00, 0x00, 0x38, 0x00, 0x00, 0x00,
     0xc7, 0x09, 0x00, 0x00, 0x38, 0x00, 0x00, 0x00,
     0x0f, 0x96, 0x00, 0x00, 0x00, 0x00, 0x00, 0x00,
     0x71, 0x59, 0xfe, 0xff, 0x00, 0x00, 0x00, 0x00,
     0x67, 0x09, 0x00, 0x00, 0x38, 0x00, 0x00, 0x00,
     0xc7, 0x09, 0x00, 0x00, 0x38, 0x00, 0x00, 0x00,
     0x0f, 0x94, 0x00, 0x00, 0x00, 0x00, 0x00, 0x00,
     0x07, 0x05, 0x00, 0x00, 0x04, 0x00, 0x00, 0x00,
     0x07, 0x08, 0x00, 0x00, 0xfc, 0xff, 0xff, 0xff,
     0x7b, 0x0a, 0xe8, 0xff, 0x00, 0x00, 0x00, 0x00,
     0x79, 0xa0, 0xf0, 0xff, 0x00, 0x00, 0x00, 0x00,
     0x07, 0x00, 0x00, 0x00, 0x01, 0x00, 0x00, 0x00,
     0x65, 0x00, 0x18, 0x00, 0x00, 0x08, 0x00, 0x00,
     0x7b, 0x0a, 0xf0, 0xff, 0x00, 0x00, 0x00, 0x00,
     0x79, 0xa0, 0xe8, 0xff, 0x00, 0x00, 0x00, 0x00,
     0x55, 0x08, 0xe7, 0xff, 0x00, 0x00, 0x00, 0x00,
     0x0f, 0x40, 0x00, 0x00, 0x00, 0x00, 0x00, 0x00,
     0x0f, 0x67, 0x00, 0x00, 0x00, 0x00, 0x00, 0x00,
     0x0f, 0x70, 0x00, 0x00, 0x00, 0x00, 0x00, 0x00,
     0x1d, 0x23, 0x10, 0x00, 0x00, 0x00, 0x00, 0x00,
     0x1f, 0x32, 0x00, 0x00, 0x00, 0x00, 0x00, 0x00,
     0x0f, 0x31, 0x00, 0x00, 0x00, 0x00, 0x00, 0x00,
     0x71, 0x13, 0x00, 0x00, 0x00, 0x00, 0x00, 0x00,
     0x67, 0x03, 0x00, 0x00, 0x38, 0x00, 0x00, 0x00,
     0xc7, 0x03, 0x00, 0x00, 0x38, 0x00, 0x00, 0x00,
     0x0f, 0x30, 0x00, 0x00, 0x00, 0x00, 0x00, 0x00,
     0x07, 0x01, 0x00, 0x00, 0x01, 0x00, 0x00, 0x00,
     0x07, 0x02, 0x00, 0x00, 0xff, 0xff, 0xff, 0xff,
     0x15, 0x02, 0x07, 0x00, 0x00, 0x00, 0x00, 0x00,
     0x7b, 0x0a, 0xe8, 0xff, 0x00, 0x00, 0x00, 0x00,
     0x79, 0xa0, 0xf0, 0xff, 0x00, 0x00, 0x00, 0x00,
     0x07, 0x00, 0x00, 0x00, 0x01, 0x00, 0x00, 0x00,
     0x65, 0x00, 0x04, 0x00, 0x00, 0x08, 0x00, 0x00,
     0x7b, 0x0a, 0xf0, 0xff, 0x00, 0x00, 0x00, 0x00,
     0x79, 0xa0, 0xe8, 0xff, 0x00, 0x00, 0x00, 0x00,
     0x05, 0x00, 0xf2, 0xff, 0x00, 0x00, 0x00, 0x00,
     0x95, 0x00, 0x00, 0x00, 0x00, 0x00, 0x00, 0x00,
     0xb7, 0x00, 0x00, 0x00, 0x01, 0x00, 0x00, 0x00,
     0x67, 0x00, 0x00, 0x00, 0x20, 0x00, 0x00, 0x00,
     0x95, 0x00, 0x00, 0x00, 0x00, 0x00, 0x00, 0x00,
     0x00]"

subsection \<open>Decoded\<close>

lemma decode_code2: "decode_insts code2 =
  [\<lparr>opcode = 97, i_dst = 2, i_src = 1, i_off = 0, i_imm = 0\<rparr>,
   \<lparr>opcode = 97, i_dst = 1, i_src = 1, i_off = 4, i_imm = 0\<rparr>,
   \<lparr>opcode = 97, i_dst = 1, i_src = 1, i_off = 0, i_imm = 0\<rparr>,
   \<lparr>opcode = 183, i_dst = 0, i_src = 0, i_off = 0, i_imm = 0\<rparr>,
   \<lparr>opcode = 45, i_dst = 1, i_src = 2, i_off = 2, i_imm = 0\<rparr>,
   \<lparr>opcode = 24, i_dst = 0, i_src = 0, i_off = 0, i_imm = 0x977c\<rparr>,
   \<lparr>opcode = 0, i_dst = 0, i_src = 0, i_off = 0, i_imm = 1\<rparr>,
   \<lparr>opcode = 149, i_dst = 0, i_src = 0, i_off = 0, i_imm = 0\<rparr>]"
  by (simp add: code2_def le16_def le32_def)

lemma decode_code4: "decode_insts code4 =
  [\<lparr>opcode = 183, i_dst = 2, i_src = 0, i_off = 0, i_imm = 0\<rparr>,
   \<lparr>opcode = 97, i_dst = 3, i_src = 1, i_off = 28, i_imm = 0\<rparr>,
   \<lparr>opcode = 87, i_dst = 3, i_src = 0, i_off = 0, i_imm = 0x20000000\<rparr>,
   \<lparr>opcode = 183, i_dst = 0, i_src = 0, i_off = 0, i_imm = 0\<rparr>,
   \<lparr>opcode = 21, i_dst = 3, i_src = 0, i_off = 6, i_imm = 0\<rparr>,
   \<lparr>opcode = 24, i_dst = 2, i_src = 0, i_off = 0, i_imm = 0\<rparr>,
   \<lparr>opcode = 0, i_dst = 0, i_src = 0, i_off = 0, i_imm = 2\<rparr>,
   \<lparr>opcode = 97, i_dst = 0, i_src = 1, i_off = 24, i_imm = 0\<rparr>,
   \<lparr>opcode = 7, i_dst = 0, i_src = 0, i_off = 0, i_imm = 4\<rparr>,
   \<lparr>opcode = 103, i_dst = 0, i_src = 0, i_off = 0, i_imm = 32\<rparr>,
   \<lparr>opcode = 119, i_dst = 0, i_src = 0, i_off = 0, i_imm = 32\<rparr>,
   \<lparr>opcode = 79, i_dst = 0, i_src = 2, i_off = 0, i_imm = 0\<rparr>,
   \<lparr>opcode = 149, i_dst = 0, i_src = 0, i_off = 0, i_imm = 0\<rparr>]"
  by (simp add: code4_def le16_def le32_def)

lemma decode_code5: "decode_insts code5 =
  [\<lparr>opcode = 97, i_dst = 1, i_src = 1, i_off = 4, i_imm = 0\<rparr>,
   \<lparr>opcode = 97, i_dst = 1, i_src = 1, i_off = 4, i_imm = 0\<rparr>,
   \<lparr>opcode = 97, i_dst = 1, i_src = 1, i_off = 0, i_imm = 0\<rparr>,
   \<lparr>opcode = 24, i_dst = 0, i_src = 0, i_off = 0, i_imm = 0xffffffea\<rparr>,
   \<lparr>opcode = 0, i_dst = 0, i_src = 0, i_off = 0, i_imm = 1\<rparr>,
   \<lparr>opcode = 21, i_dst = 1, i_src = 0, i_off = 1, i_imm = 0\<rparr>,
   \<lparr>opcode = 183, i_dst = 0, i_src = 0, i_off = 0, i_imm = 0\<rparr>,
   \<lparr>opcode = 149, i_dst = 0, i_src = 0, i_off = 0, i_imm = 0\<rparr>]"
  by (simp add: code5_def le16_def le32_def)

lemma decode_code8_1: "decode_insts code8_1 =
  [\<lparr>opcode = 97, i_dst = 3, i_src = 1, i_off = 4, i_imm = 0\<rparr>,
   \<lparr>opcode = 97, i_dst = 2, i_src = 1, i_off = 0, i_imm = 0\<rparr>,
   \<lparr>opcode = 103, i_dst = 2, i_src = 0, i_off = 0, i_imm = 32\<rparr>,
   \<lparr>opcode = 199, i_dst = 2, i_src = 0, i_off = 0, i_imm = 32\<rparr>,
   \<lparr>opcode = 103, i_dst = 3, i_src = 0, i_off = 0, i_imm = 32\<rparr>,
   \<lparr>opcode = 199, i_dst = 3, i_src = 0, i_off = 0, i_imm = 32\<rparr>,
   \<lparr>opcode = 183, i_dst = 1, i_src = 0, i_off = 0, i_imm = 0\<rparr>,
   \<lparr>opcode = 133, i_dst = 0, i_src = 0, i_off = 0, i_imm = 3\<rparr>,
   \<lparr>opcode = 183, i_dst = 0, i_src = 0, i_off = 0, i_imm = 0\<rparr>,
   \<lparr>opcode = 149, i_dst = 0, i_src = 0, i_off = 0, i_imm = 0\<rparr>]"
  by (simp add: code8_1_def le16_def le32_def)

lemma decode_code8_2: "decode_insts code8_2 =
  [\<lparr>opcode = 97, i_dst = 2, i_src = 1, i_off = 0, i_imm = 0\<rparr>,
   \<lparr>opcode = 103, i_dst = 2, i_src = 0, i_off = 0, i_imm = 32\<rparr>,
   \<lparr>opcode = 199, i_dst = 2, i_src = 0, i_off = 0, i_imm = 32\<rparr>,
   \<lparr>opcode = 183, i_dst = 1, i_src = 0, i_off = 0, i_imm = 0\<rparr>,
   \<lparr>opcode = 133, i_dst = 0, i_src = 0, i_off = 0, i_imm = 4\<rparr>,
   \<lparr>opcode = 191, i_dst = 1, i_src = 0, i_off = 0, i_imm = 0\<rparr>,
   \<lparr>opcode = 103, i_dst = 1, i_src = 0, i_off = 0, i_imm = 32\<rparr>,
   \<lparr>opcode = 119, i_dst = 1, i_src = 0, i_off = 0, i_imm = 32\<rparr>,
   \<lparr>opcode = 24, i_dst = 0, i_src = 0, i_off = 0, i_imm = 2000\<rparr>,
   \<lparr>opcode = 0, i_dst = 0, i_src = 0, i_off = 0, i_imm = 2\<rparr>,
   \<lparr>opcode = 21, i_dst = 1, i_src = 0, i_off = 1, i_imm = 0\<rparr>,
   \<lparr>opcode = 183, i_dst = 0, i_src = 0, i_off = 0, i_imm = 0\<rparr>,
   \<lparr>opcode = 149, i_dst = 0, i_src = 0, i_off = 0, i_imm = 0\<rparr>]"
  by (simp add: code8_2_def le16_def le32_def)

lemma decode_code9: "decode_insts code9 =
  [\<lparr>opcode = 97, i_dst = 1, i_src = 1, i_off = 0, i_imm = 0\<rparr>,
   \<lparr>opcode = 121, i_dst = 1, i_src = 1, i_off = 28, i_imm = 0\<rparr>,
   \<lparr>opcode = 7, i_dst = 1, i_src = 0, i_off = 0, i_imm = 0xffffffde\<rparr>,
   \<lparr>opcode = 183, i_dst = 0, i_src = 0, i_off = 0, i_imm = 1\<rparr>,
   \<lparr>opcode = 183, i_dst = 2, i_src = 0, i_off = 0, i_imm = 20\<rparr>,
   \<lparr>opcode = 45, i_dst = 2, i_src = 1, i_off = 1, i_imm = 0\<rparr>,
   \<lparr>opcode = 183, i_dst = 0, i_src = 0, i_off = 0, i_imm = 0\<rparr>,
   \<lparr>opcode = 103, i_dst = 0, i_src = 0, i_off = 0, i_imm = 32\<rparr>,
   \<lparr>opcode = 149, i_dst = 0, i_src = 0, i_off = 0, i_imm = 0\<rparr>]"
  by (simp add: code9_def le16_def le32_def)

lemma decode_code10: "decode_insts code10 =
  [\<lparr>opcode = 97, i_dst = 0, i_src = 1, i_off = 24, i_imm = 0\<rparr>,
   \<lparr>opcode = 103, i_dst = 0, i_src = 0, i_off = 0, i_imm = 32\<rparr>,
   \<lparr>opcode = 24, i_dst = 1, i_src = 0, i_off = 0, i_imm = 0\<rparr>,
   \<lparr>opcode = 0, i_dst = 0, i_src = 0, i_off = 0, i_imm = 2\<rparr>,
   \<lparr>opcode = 15, i_dst = 0, i_src = 1, i_off = 0, i_imm = 0\<rparr>,
   \<lparr>opcode = 199, i_dst = 0, i_src = 0, i_off = 0, i_imm = 32\<rparr>,
   \<lparr>opcode = 15, i_dst = 0, i_src = 1, i_off = 0, i_imm = 0\<rparr>,
   \<lparr>opcode = 149, i_dst = 0, i_src = 0, i_off = 0, i_imm = 0\<rparr>]"
  by (simp add: code10_def le16_def le32_def)

lemma decode_code11: "decode_insts code11 =
  [\<lparr>opcode = 97, i_dst = 1, i_src = 1, i_off = 0, i_imm = 0\<rparr>,
   \<lparr>opcode = 105, i_dst = 1, i_src = 1, i_off = 38, i_imm = 0\<rparr>,
   \<lparr>opcode = 24, i_dst = 0, i_src = 0, i_off = 0, i_imm = 0xffffffff\<rparr>,
   \<lparr>opcode = 0, i_dst = 0, i_src = 0, i_off = 0, i_imm = 1\<rparr>,
   \<lparr>opcode = 183, i_dst = 2, i_src = 0, i_off = 0, i_imm = 8\<rparr>,
   \<lparr>opcode = 45, i_dst = 2, i_src = 1, i_off = 1, i_imm = 0\<rparr>,
   \<lparr>opcode = 183, i_dst = 0, i_src = 0, i_off = 0, i_imm = 0\<rparr>,
   \<lparr>opcode = 149, i_dst = 0, i_src = 0, i_off = 0, i_imm = 0\<rparr>]"
  by (simp add: code11_def le16_def le32_def)

lemma decode_code12: "decode_insts code12 =
  [\<lparr>opcode = 97, i_dst = 2, i_src = 1, i_off = 0, i_imm = 0\<rparr>,
   \<lparr>opcode = 97, i_dst = 3, i_src = 1, i_off = 8, i_imm = 0\<rparr>,
   \<lparr>opcode = 7, i_dst = 3, i_src = 0, i_off = 0, i_imm = 2\<rparr>,
   \<lparr>opcode = 113, i_dst = 1, i_src = 2, i_off = 1, i_imm = 0\<rparr>,
   \<lparr>opcode = 7, i_dst = 2, i_src = 0, i_off = 0, i_imm = 2\<rparr>,
   \<lparr>opcode = 103, i_dst = 1, i_src = 0, i_off = 0, i_imm = 3\<rparr>,
   \<lparr>opcode = 71, i_dst = 1, i_src = 0, i_off = 0, i_imm = 6\<rparr>,
   \<lparr>opcode = 24, i_dst = 0, i_src = 0, i_off = 0, i_imm = 0\<rparr>,
   \<lparr>opcode = 0, i_dst = 0, i_src = 0, i_off = 0, i_imm = 1\<rparr>,
   \<lparr>opcode = 24, i_dst = 4, i_src = 0, i_off = 0, i_imm = 0xffffffff\<rparr>,
   \<lparr>opcode = 0, i_dst = 0, i_src = 0, i_off = 0, i_imm = 0\<rparr>,
   \<lparr>opcode = 113, i_dst = 5, i_src = 2, i_off = 1, i_imm = 0\<rparr>,
   \<lparr>opcode = 7, i_dst = 5, i_src = 0, i_off = 0, i_imm = 2\<rparr>,
   \<lparr>opcode = 191, i_dst = 7, i_src = 5, i_off = 0, i_imm = 0\<rparr>,
   \<lparr>opcode = 87, i_dst = 7, i_src = 0, i_off = 0, i_imm = 255\<rparr>,
   \<lparr>opcode = 21, i_dst = 7, i_src = 0, i_off = 17, i_imm = 0\<rparr>,
   \<lparr>opcode = 191, i_dst = 6, i_src = 3, i_off = 0, i_imm = 0\<rparr>,
   \<lparr>opcode = 15, i_dst = 6, i_src = 7, i_off = 0, i_imm = 0\<rparr>,
   \<lparr>opcode = 191, i_dst = 7, i_src = 6, i_off = 0, i_imm = 0\<rparr>,
   \<lparr>opcode = 103, i_dst = 7, i_src = 0, i_off = 0, i_imm = 32\<rparr>,
   \<lparr>opcode = 119, i_dst = 7, i_src = 0, i_off = 0, i_imm = 32\<rparr>,
   \<lparr>opcode = 103, i_dst = 3, i_src = 0, i_off = 0, i_imm = 32\<rparr>,
   \<lparr>opcode = 119, i_dst = 3, i_src = 0, i_off = 0, i_imm = 32\<rparr>,
   \<lparr>opcode = 61, i_dst = 3, i_src = 7, i_off = 9, i_imm = 0\<rparr>,
   \<lparr>opcode = 31, i_dst = 1, i_src = 5, i_off = 0, i_imm = 0\<rparr>,
   \<lparr>opcode = 87, i_dst = 5, i_src = 0, i_off = 0, i_imm = 255\<rparr>,
   \<lparr>opcode = 15, i_dst = 2, i_src = 5, i_off = 0, i_imm = 0\<rparr>,
   \<lparr>opcode = 183, i_dst = 4, i_src = 0, i_off = 0, i_imm = 0\<rparr>,
   \<lparr>opcode = 191, i_dst = 5, i_src = 1, i_off = 0, i_imm = 0\<rparr>,
   \<lparr>opcode = 87, i_dst = 5, i_src = 0, i_off = 0, i_imm = 255\<rparr>,
   \<lparr>opcode = 191, i_dst = 3, i_src = 6, i_off = 0, i_imm = 0\<rparr>,
   \<lparr>opcode = 183, i_dst = 0, i_src = 0, i_off = 0, i_imm = 0\<rparr>,
   \<lparr>opcode = 85, i_dst = 5, i_src = 0, i_off = 0xffe6, i_imm = 0\<rparr>,
   \<lparr>opcode = 79, i_dst = 0, i_src = 4, i_off = 0, i_imm = 0\<rparr>,
   \<lparr>opcode = 149, i_dst = 0, i_src = 0, i_off = 0, i_imm = 0\<rparr>]"
  by (simp add: code12_def le16_def le32_def)

lemma decode_code1: "decode_insts code1 =
  [\<lparr>opcode = 97, i_dst = 1, i_src = 1, i_off = 4, i_imm = 0\<rparr>,
   \<lparr>opcode = 7, i_dst = 1, i_src = 0, i_off = 0, i_imm = 5\<rparr>,
   \<lparr>opcode = 103, i_dst = 1, i_src = 0, i_off = 0, i_imm = 32\<rparr>,
   \<lparr>opcode = 119, i_dst = 1, i_src = 0, i_off = 0, i_imm = 32\<rparr>,
   \<lparr>opcode = 105, i_dst = 1, i_src = 1, i_off = 0, i_imm = 0\<rparr>,
   \<lparr>opcode = 24, i_dst = 0, i_src = 0, i_off = 0, i_imm = 0xffffffea\<rparr>,
   \<lparr>opcode = 0, i_dst = 0, i_src = 0, i_off = 0, i_imm = 1\<rparr>,
   \<lparr>opcode = 37, i_dst = 1, i_src = 0, i_off = 1, i_imm = 0xefff\<rparr>,
   \<lparr>opcode = 183, i_dst = 0, i_src = 0, i_off = 0, i_imm = 0\<rparr>,
   \<lparr>opcode = 149, i_dst = 0, i_src = 0, i_off = 0, i_imm = 0\<rparr>]"
  by (simp add: code1_def le16_def le32_def)

subsection \<open>Halves of a register\<close>

lemma zx_less: "zx a < zx b \<longleftrightarrow> a < b" by (simp add: word_less_nat_alt)
lemma zx_minus1: "zx (- 1) = 0xffffffff" by code_simp
lemma zx_zero: "zx x = 0 \<longleftrightarrow> x = 0"
  by (simp add: word_unat_eq_iff)
lemma zx_and_bit: "zx x AND 0x20000000 = 0 \<longleftrightarrow> x AND 0x20000000 = 0"
  using zx_zero [of "x AND 0x20000000"] by (simp add: unsigned_and_eq)
lemma zx_or: "zx y OR push_bit 32 x = push_bit 32 x + zx y"
  by (subst or.commute, rule disjunctive_add [symmetric]) (auto simp: bit_simps dest: bit_imp_le_length)

lemma high_half_signed: "signed_drop_bit 32 (push_bit 32 (zx t)) = sx t"
proof (rule bit_word_eqI)
  fix n :: nat assume "n < LENGTH(64)"
  show "bit (signed_drop_bit 32 (push_bit 32 (zx t))) n \<longleftrightarrow> bit (sx t) n"
    by (cases "n = 31") (auto simp: bit_simps bit_signed_drop_bit_iff min_def)
qed

lemma add_high: "push_bit 32 (zx t) + 0x200000000 = push_bit 32 (zx (t + 2))"
proof -
  have "push_bit 32 (zx t) + 0x200000000 = push_bit 32 (zx t + 2)" by (simp add: push_bit_eq_mult algebra_simps)
  then show ?thesis by (simp add: push_high [of "zx t + 2"] ucast_add_64)
qed
subsection \<open>Straight-line filters\<close>

lemmas filter_defs = filter_result_def frame_get_def rd_def set_return32_def set_return_def
  EINVAL_def filter_ops

text \<open>To run a filter: any twelve registers, the frame in r1 and the stack in r10.\<close>

lemma compiled_filterI:
  assumes "\<And>g vm f a0 a1 a2 a3 a4 a5 a6 a7 a8 a9 a10 a11 w.
    insts vm = decode_insts code \<Longrightarrow> \<not> bounds_check_enabled vm \<Longrightarrow>
    ebpf_vm_exec g vm f [a0, a1, a2, a3, a4, a5, a6, a7, a8, a9, a10, a11] w =
      (filter_result (flt (w_mem w) (f_mem f)), w)"
  shows "compiled_filter code flt"
proof (unfold_locales, goal_cases)
  case (1 vm regs0 g f w)
  show ?case
    by (rule twelve_regs [OF 1(3)]) (simp add: assms 1(1,2))
qed

text \<open>A word of memory is absent or the zero-extension of 32 bits.\<close>

lemma load4_cases:
  obtains "mem_load m a 4 = None" | x where "mem_load m a 4 = Some (zx x)"
  using mem_load_4 [of m a] by (cases "mem_load m a 4") auto

lemmas sym_run = vm_loop_turn run_defs filter_defs bounds_check_def ucast_add_64 low_half ebpf_vm_exec_def

lemma code2_runs: "compiled_filter code2 filter_10021"
proof (rule compiled_filterI, goal_cases)
  case (1 g vm f a0 a1 a2 a3 a4 a5 a6 a7 a8 a9 a10 a11 w)
  note run = sym_run decode_code2 zx_less filter_10021_def 1
  show ?case
  proof (cases rule: load4_cases [of "w_mem w" "f_mem f"])
    case 1 then show ?thesis by (simp add: run cong: run_congs)
  next
    case (2 t)
    note t = 2
    show ?thesis
    proof (cases rule: load4_cases [of "w_mem w" "f_mem f + 4"])
      case 1 then show ?thesis by (simp add: run t cong: run_congs)
    next
      case (2 p)
      note p = 2
      show ?thesis
      proof (cases rule: load4_cases [of "w_mem w" p])
        case 1 then show ?thesis by (simp add: run t p cong: run_congs)
      next
        case (2 n)
        then show ?thesis by (cases "t < n") (simp_all add: run t p not_less cong: run_congs)
      qed
    qed
  qed
qed

lemma code4_runs: "compiled_filter code4 filter_10024"
proof (rule compiled_filterI, goal_cases)
  case (1 g vm f a0 a1 a2 a3 a4 a5 a6 a7 a8 a9 a10 a11 w)
  note run = sym_run decode_code4 zx_and_bit zx_or [of _ 2, simplified] filter_10024_def 1
  show ?case
  proof (cases rule: load4_cases [of "w_mem w" "f_mem f + 28"])
    case 1 then show ?thesis by (simp add: run cong: run_congs)
  next
    case (2 x)
    note x = 2
    show ?thesis
    proof (cases "x AND 0x20000000 = 0")
      case True then show ?thesis by (simp add: run x cong: run_congs)
    next
      case False
      note b = False
      show ?thesis
      proof (cases rule: load4_cases [of "w_mem w" "f_mem f + 24"])
        case 1 then show ?thesis by (simp add: run x b cong: run_congs)
      next
        case (2 p) then show ?thesis by (simp add: run x b cong: run_congs)
      qed
    qed
  qed
qed

lemma code5_runs: "compiled_filter code5 filter_10028"
proof (rule compiled_filterI, goal_cases)
  case (1 g vm f a0 a1 a2 a3 a4 a5 a6 a7 a8 a9 a10 a11 w)
  note run = sym_run decode_code5 zx_zero filter_10028_def 1
  show ?case
  proof (cases rule: load4_cases [of "w_mem w" "f_mem f + 4"])
    case 1 then show ?thesis by (simp add: run cong: run_congs)
  next
    case (2 t)
    note t = 2
    show ?thesis
    proof (cases rule: load4_cases [of "w_mem w" "t + 4"])
      case 1 then show ?thesis by (simp add: run t cong: run_congs)
    next
      case (2 p)
      note p = 2
      show ?thesis
      proof (cases rule: load4_cases [of "w_mem w" p])
        case 1 then show ?thesis by (simp add: run t p cong: run_congs)
      next
        case (2 n)
        then show ?thesis by (cases "n = 0") (simp_all add: run t p cong: run_congs)
      qed
    qed
  qed
qed

lemma code9_runs: "compiled_filter code9 filter_16603"
proof (rule compiled_filterI, goal_cases)
  case (1 g vm f a0 a1 a2 a3 a4 a5 a6 a7 a8 a9 a10 a11 w)
  note run = sym_run decode_code9 filter_16603_def 1
  show ?case
  proof (cases rule: load4_cases [of "w_mem w" "f_mem f"])
    case 1 then show ?thesis by (simp add: run cong: run_congs)
  next
    case (2 t)
    note t = 2
    show ?thesis
    proof (cases "mem_load (w_mem w) (t + 28) 8")
      case None then show ?thesis by (simp add: run t cong: run_congs)
    next
      case (Some n)
      then show ?thesis by (cases "n - 34 < 20") (simp_all add: run t cong: run_congs)
    qed
  qed
qed

lemma code10_runs: "compiled_filter code10 skip_invalid_free"
proof (rule compiled_filterI, goal_cases)
  case (1 g vm f a0 a1 a2 a3 a4 a5 a6 a7 a8 a9 a10 a11 w)
  note run = sym_run decode_code10 high_half_signed add_high skip_invalid_free_def 1
  show ?case
  proof (cases rule: load4_cases [of "w_mem w" "f_mem f + 24"])
    case 1 then show ?thesis by (simp add: run cong: run_congs)
  next
    case (2 t)
    then show ?thesis by (simp add: run cong: run_congs)
  qed
qed

lemma code11_runs: "compiled_filter code11 filter_17443"
proof (rule compiled_filterI, goal_cases)
  case (1 g vm f a0 a1 a2 a3 a4 a5 a6 a7 a8 a9 a10 a11 w)
  note run = sym_run decode_code11 zx_minus1 filter_17443_def 1
  show ?case
  proof (cases rule: load4_cases [of "w_mem w" "f_mem f"])
    case 1 then show ?thesis by (simp add: run cong: run_congs)
  next
    case (2 t)
    note t = 2
    show ?thesis
    proof (cases "mem_load (w_mem w) (t + 38) 2")
      case None then show ?thesis by (simp add: run t cong: run_congs)
    next
      case (Some n)
      then show ?thesis by (cases "n < 8") (simp_all add: run t cong: run_congs)
    qed
  qed
qed

lemma code1_runs: "compiled_filter code1 filter_10063"
proof (rule compiled_filterI, goal_cases)
  case (1 g vm f a0 a1 a2 a3 a4 a5 a6 a7 a8 a9 a10 a11 w)
  note run = sym_run decode_code1 filter_10063_def 1
  show ?case
  proof (cases rule: load4_cases [of "w_mem w" "f_mem f + 4"])
    case 1 then show ?thesis by (simp add: run cong: run_congs)
  next
    case (2 t)
    note t = 2
    show ?thesis
    proof (cases "mem_load (w_mem w) (t + 5) 2")
      case None then show ?thesis by (simp add: run t cong: run_congs)
    next
      case (Some n)
      then show ?thesis by (cases "0xefff < n") (simp_all add: run t branch_10063 [OF Some] cong: run_congs)
    qed
  qed
qed

lemma code0_runs: "compiled_filter code0 fix_bug"
proof -
  have "code0 = test_cve" by (simp add: code0_def test_cve_def)
  then show ?thesis using tc.compiled_filter_axioms by simp
qed

interpretation e0: compiled_filter code0 fix_bug by (rule code0_runs)
interpretation e1: compiled_filter code1 filter_10063 by (rule code1_runs)
interpretation e2: compiled_filter code2 filter_10021 by (rule code2_runs)
interpretation e4: compiled_filter code4 filter_10024 by (rule code4_runs)
interpretation e5: compiled_filter code5 filter_10028 by (rule code5_runs)
interpretation e9: compiled_filter code9 filter_16603 by (rule code9_runs)
interpretation e10: compiled_filter code10 skip_invalid_free by (rule code10_runs)
interpretation e11: compiled_filter code11 filter_17443 by (rule code11_runs)

text \<open>The evaluation's patches next to the sources they were compiled from.\<close>

definition eval_patches :: "(u8 list \<times> (memory \<Rightarrow> u32 \<Rightarrow> u64 option)) list" where
  "eval_patches =
     [(code0, fix_bug), (code1, filter_10063), (code2, filter_10021), (code4, filter_10024),
      (code5, filter_10028), (code9, filter_16603), (code10, skip_invalid_free), (code11, filter_17443)]"

lemma eval_patches_run: "(code, flt) \<in> set eval_patches \<Longrightarrow> compiled_filter code flt"
  using code0_runs code1_runs code2_runs code4_runs code5_runs code9_runs code10_runs code11_runs
  by (auto simp: eval_patches_def)

text \<open>C12: eight of the evaluation's patches compute the filters of their source files: on every frame, memory and
  initial register content the interpreter returns what the C source returns, faults when the source
  reads memory it cannot, and leaves memory alone.\<close>

theorem eval_patches_refine:
  assumes "(code, flt) \<in> set eval_patches" and "insts vm = decode_insts code" and "\<not> bounds_check_enabled vm"
    and "length regs0 = MAX_BPF_EXT_REG"
  shows "ebpf_vm_exec g vm f regs0 w = (filter_result (flt (w_mem w) (f_mem f)), w)"
  using eval_patches_run [OF assms(1)] assms(2-4) by (rule compiled_filter.runs)

theorem eval_patches_refine_witness:
  "ebpf_vm_exec None (zero_vm\<lparr>insts := decode_insts code10\<rparr>)
     \<lparr>f_mem = 0x20000000, f_mem_len = 32, f_stack = 0x20001000\<rparr> (replicate 12 0)
     \<lparr>w_mem = (\<lambda>a. Some (if a = 0x20000018 then 40 else 0)), w_dval = 0, w_out = []\<rparr> =
   (Ret 0x20000002a, \<lparr>w_mem = (\<lambda>a. Some (if a = 0x20000018 then 40 else 0)), w_dval = 0, w_out = []\<rparr>)"
  by (subst eval_patches_refine [where code = code10 and flt = skip_invalid_free])
     (simp_all add: eval_patches_def zero_vm_def MAX_BPF_EXT_REG_def filter_defs skip_invalid_free_def mem_load_def)

subsection \<open>A pair of patches that share state\<close>

text \<open>The helpers the two patches against CVE-2018-16528 call, at their indices in the table.\<close>

definition default_table :: "u64 \<Rightarrow> ebpf_helper_env option \<Rightarrow> bool" where
  "default_table junk g \<longleftrightarrow> (\<exists>e. g = Some e \<and> 4 < length (ext_funcs e) \<and>
     ext_funcs e ! 3 = Some (tmp_map_save_val junk) \<and> ext_funcs e ! 4 = Some tmp_map_get_val)"

lemma set_inst_table:
  assumes "helper_table_ok g" and "ebpf_vm_set_inst junk call g vm0 code n = (g', vm')"
  shows "default_table junk g' \<and> helper_table_ok g' \<and> insts vm' = decode_insts code \<and> helper_set vm' \<and>
    \<not> bounds_check_enabled vm'"
  using assms
  by (auto simp: ebpf_vm_set_inst_def init_iot_ebpf_helpers_def set_default_helpers_def ebpf_register_def
      default_table_def helper_table_ok_def use_default_helper_func_def MAX_EXT_FUNCS_def zero_vm_def Let_def
      split: option.splits)

lemma frame_word: "frame_get m fr k = Some x \<longleftrightarrow> mem_load m (fr + field_offset k) 4 = Some (zx x)"
  using mem_load_4 [of m "fr + field_offset k"] by (auto simp: frame_get_def)

lemma code8_1_runs:
  assumes "insts vm = decode_insts code8_1" "helper_set vm" "default_table junk g" "length regs0 = MAX_BPF_EXT_REG"
    and "frame_get (w_mem w) (f_mem f) F_r1 = Some st" "frame_get (w_mem w) (f_mem f) F_r0 = Some key"
  shows "ebpf_vm_exec g vm f regs0 w = (Ret 0, w\<lparr>w_dval := sx st\<rparr>)"
proof -
  have l: "mem_load (w_mem w) (f_mem f + 4) 4 = Some (zx st)" "mem_load (w_mem w) (f_mem f) 4 = Some (zx key)"
    using assms(5,6) by (simp_all add: frame_word)
  obtain a0 a1 a2 a3 a4 a5 a6 a7 a8 a9 a10 a11 where r: "regs0 = [a0, a1, a2, a3, a4, a5, a6, a7, a8, a9, a10, a11]"
    by (rule twelve_regs [OF assms(4)])
  from assms(3) obtain e where e: "g = Some e" "3 < length (ext_funcs e)" "ext_funcs e ! 3 = Some (tmp_map_save_val junk)"
    by (auto simp: default_table_def)
  show ?thesis unfolding r
    by (simp add: sym_run decode_code8_1 assms(1,2) l e high_half_signed tmp_map_save_val_def cong: run_congs)
qed

lemma code8_2_runs:
  assumes "insts vm = decode_insts code8_2" "helper_set vm" "default_table junk g" "length regs0 = MAX_BPF_EXT_REG"
    and "frame_get (w_mem w) (f_mem f) F_r0 = Some key"
  shows "ebpf_vm_exec g vm f regs0 w = (Ret (if lo (w_dval w) = 0 then set_return FILTER_REDIRECT 2000 else 0), w)"
proof -
  have l: "mem_load (w_mem w) (f_mem f) 4 = Some (zx key)"
    using assms(5) by (simp add: frame_word)
  obtain a0 a1 a2 a3 a4 a5 a6 a7 a8 a9 a10 a11 where r: "regs0 = [a0, a1, a2, a3, a4, a5, a6, a7, a8, a9, a10, a11]"
    by (rule twelve_regs [OF assms(4)])
  from assms(3) obtain e where e: "g = Some e" "4 < length (ext_funcs e)" "ext_funcs e ! 4 = Some tmp_map_get_val"
    by (auto simp: default_table_def)
  note run = sym_run decode_code8_2 assms(1,2) l e tmp_map_get_val_def zx_zero
  show ?thesis unfolding r
    by (cases "lo (w_dval w) = 0") (simp_all add: run cong: run_congs)
qed

text \<open>The pair of patches against CVE-2018-16528, loaded one after the other as the evaluation does: the second
  redirects to 2000 exactly when the status the first was called with is 0. The key of the connection
  plays no part: the status saved last decides for every connection.\<close>

theorem freertos_pair:
  assumes "helper_table_ok g"
    and "frame_get (w_mem w) (f_mem f1) F_r0 = Some key1" and "frame_get (w_mem w) (f_mem f1) F_r1 = Some status"
    and "frame_get (w_mem w) (f_mem f2) F_r0 = Some key2"
    and "length regs1 = MAX_BPF_EXT_REG" and "length regs2 = MAX_BPF_EXT_REG"
  shows "(let (g1, vm1) = ebpf_vm_set_inst junk call g vm0 code8_1 81;
              (r1, w1) = ebpf_vm_exec g1 vm1 f1 regs1 w;
              (g2, vm2) = ebpf_vm_set_inst junk call g1 vm0 code8_2 105
          in (r1, ebpf_vm_exec g2 vm2 f2 regs2 w1)) =
    (Ret 0, Ret (if status = 0 then set_return FILTER_REDIRECT 2000 else 0), w\<lparr>w_dval := sx status\<rparr>)"
proof -
  obtain g1 vm1 where 1: "ebpf_vm_set_inst junk call g vm0 code8_1 81 = (g1, vm1)" by fastforce
  obtain g2 vm2 where 2: "ebpf_vm_set_inst junk call g1 vm0 code8_2 105 = (g2, vm2)" by fastforce
  note t1 = set_inst_table [OF assms(1) 1]
  then have t2: "default_table junk g2 \<and> insts vm2 = decode_insts code8_2 \<and> helper_set vm2"
    using set_inst_table [OF _ 2] by blast
  have "lo (sx status) = status" by (simp add: bit_eq_iff bit_simps)
  moreover have "ebpf_vm_exec g1 vm1 f1 regs1 w = (Ret 0, w\<lparr>w_dval := sx status\<rparr>)"
    using t1 assms(2,3,5) by (intro code8_1_runs) auto
  moreover have "ebpf_vm_exec g2 vm2 f2 regs2 w2 =
      (Ret (if lo (w_dval w2) = 0 then set_return FILTER_REDIRECT 2000 else 0), w2)" if "w_mem w2 = w_mem w" for w2
    using t2 assms(4,6) that by (intro code8_2_runs) auto
  ultimately show ?thesis by (simp add: 1 2)
qed

theorem freertos_pair_witness:
  "(let (g1, vm1) = ebpf_vm_set_inst 0 (\<lambda>_ _ _ _ _ w. w) None zero_vm code8_1 81;
        (r1, w1) = ebpf_vm_exec g1 vm1 \<lparr>f_mem = 0x20000000, f_mem_len = 32, f_stack = 0x20001000\<rparr> (replicate 12 0)
          \<lparr>w_mem = (\<lambda>a. Some 0), w_dval = 7, w_out = []\<rparr>;
        (g2, vm2) = ebpf_vm_set_inst 0 (\<lambda>_ _ _ _ _ w. w) g1 zero_vm code8_2 105
    in (r1, ebpf_vm_exec g2 vm2 \<lparr>f_mem = 0x20000000, f_mem_len = 32, f_stack = 0x20001000\<rparr> (replicate 12 0) w1)) =
   (Ret 0, Ret 0x2000007d0, \<lparr>w_mem = (\<lambda>a. Some 0), w_dval = 0, w_out = []\<rparr>)"
  by (subst freertos_pair [where ?key1.0 = 0 and ?key2.0 = 0 and status = 0])
     (simp_all add: helper_table_ok_def frame_get_def mem_load_def MAX_BPF_EXT_REG_def set_return_def filter_ops)

end
