(* ===== verification/Jit_Selftest.thy ===== *)
theory Jit_Selftest
  imports Jit_Runtime Eval_Code
begin

text \<open>
  The self-tests of \<open>libebpf/src/jit_thumb2.c\<close>: what the emitter tests append to the buffer, and the program \<open>code_t1\<close>, the
  CoAP filter in the version that \<open>zephyr_cve_2020_10063.ebpf.c\<close> keeps as a comment. The list
  is without the final NUL of the string literal.
\<close>

subsection \<open>Emitter tests\<close>

definition test_ldr :: code where
  "test_ldr =
     emit_ldr_i 0 1 0xe @ emit_ldr_i 0 1 0xfe @ emit_ldr_i 0 1 0xffe @
     emit_ldrb_i 0 1 0xe @ emit_ldrb_i 0 1 0xfe @ emit_ldrb_i 0 1 0xffe @
     emit_ldrh_i 0 1 0xe @ emit_ldrh_i 0 1 0xfe @ emit_ldrh_i 0 1 0xffe @
     emit_ldrd_i (0, 1) 7 2"

definition test_alu :: code where "test_alu = emit_lsh64_imm (1, 3) 0x20"

definition test_mov :: code where
  "test_mov = emit_mov_se_imm64 False (0, 3) 0x100 @ emit_mov_se_imm64 False (0, 3) 0xfffff82f @ emit_a32_mov_reg 0 1"

text \<open>\<open>n\<close> is the number of instructions of the state, which the branch emitter looks at.\<close>

definition test_branch :: "nat \<Rightarrow> code" where
  "test_branch n =
     emit_mov_imm 0 3 @ emit_mov_imm 1 0 @ emit4 (thumb32_ORRW_REG_T2 0 0 1 0 SRTYPE_LSL FLAG_S) @
     emit_b_cond n 1 COND_NE @ emit_mov_imm 0 2"

text \<open>The two encodings that \<open>test_all_inst\<close> prints.\<close>

definition test_all_inst :: "u32 list" where
  "test_all_inst = [thumb32_LSRW_IMM_T2 1 2 5 FLAG_NOS, thumb32_ORRW_REG_T2 1 2 3 5 SRTYPE_LSL FLAG_NOS]"

text \<open>The double-word load comes out as \<open>e9d7 1000\<close>, not as the \<open>e9d7 0102\<close> of its comment: the pair is given with its high
  half first and the offset in bytes. The printed encodings are those of their comments.\<close>

lemma emitter_tests:
  "drop 16 test_ldr = [0xe9d7, 0x1000]" "test_alu = [0x4619, 0x405b]"
  "test_mov = [0xf240, 0x1300, 0xf64f, 0x032f, 0xf6cf, 0x73ff, 0x4601]"
  "test_all_inst = [0xea4f1152, 0xea421143]"
  by code_simp+

subsection \<open>The program \<open>code_t1\<close>\<close>

definition code_t1 :: "u8 list" where
  "code_t1 =
     [0x61, 0x12, 0x08, 0x00, 0x00, 0x00, 0x00, 0x00, 0x61, 0x11, 0x04, 0x00, 0x00, 0x00, 0x00, 0x00, 0x07, 0x01, 0x00, 0x00, 0x05, 0x00, 0x00, 0x00,
      0x67, 0x01, 0x00, 0x00, 0x20, 0x00, 0x00, 0x00, 0x77, 0x01, 0x00, 0x00, 0x20, 0x00, 0x00, 0x00, 0x69, 0x11, 0x00, 0x00, 0x00, 0x00, 0x00, 0x00,
      0xbf, 0x24, 0x00, 0x00, 0x00, 0x00, 0x00, 0x00, 0x0f, 0x14, 0x00, 0x00, 0x00, 0x00, 0x00, 0x00, 0x67, 0x04, 0x00, 0x00, 0x20, 0x00, 0x00, 0x00,
      0x77, 0x04, 0x00, 0x00, 0x20, 0x00, 0x00, 0x00, 0x18, 0x00, 0x00, 0x00, 0xea, 0xff, 0xff, 0xff, 0x00, 0x00, 0x00, 0x00, 0x01, 0x00, 0x00, 0x00,
      0x18, 0x03, 0x00, 0x00, 0xea, 0xff, 0xff, 0xff, 0x00, 0x00, 0x00, 0x00, 0x01, 0x00, 0x00, 0x00, 0x25, 0x04, 0x01, 0x00, 0xfe, 0xff, 0x00, 0x00,
      0xb7, 0x03, 0x00, 0x00, 0x00, 0x00, 0x00, 0x00, 0x2d, 0x21, 0x01, 0x00, 0x00, 0x00, 0x00, 0x00, 0xbf, 0x30, 0x00, 0x00, 0x00, 0x00, 0x00, 0x00,
      0x95, 0x00, 0x00, 0x00, 0x00, 0x00, 0x00, 0x00]"

text \<open>The filter of the comment: an option longer than the buffer, or with a sum that leaves 16 bits.\<close>

definition filter_t1 :: "memory \<Rightarrow> u32 \<Rightarrow> u64 option" where
  "filter_t1 m frame = do {
     data \<leftarrow> frame_get m frame F_r1;
     len \<leftarrow> rd m (ucast (data + 5)) 2;
     max_len \<leftarrow> frame_get m frame F_r2;
     Some (if (ucast len :: u32) > max_len \<or> (ucast len :: u32) + max_len \<ge> 0xffff then set_return32 1 (- EINVAL)
           else set_return32 0 0)}"

text \<open>\<open>gen_code_for_ebpf1\<close> compiles and runs it on the address of a word, \<open>ctx\<close>; the length counts the final NUL.\<close>

definition gen_code_for_ebpf1 :: "(int \<Rightarrow> u32) \<Rightarrow> u8 list \<Rightarrow> u32 \<Rightarrow> thumb \<Rightarrow> thumb option" where
  "gen_code_for_ebpf1 tbl buf ctx t = run_jit_func tbl buf code_t1 (length code_t1 + 1) ctx t"

lemma decode_t1: "decode_insts code_t1 =
  [\<lparr>opcode = 97, i_dst = 2, i_src = 1, i_off = 8, i_imm = 0\<rparr>,
   \<lparr>opcode = 97, i_dst = 1, i_src = 1, i_off = 4, i_imm = 0\<rparr>,
   \<lparr>opcode = 7, i_dst = 1, i_src = 0, i_off = 0, i_imm = 5\<rparr>,
   \<lparr>opcode = 103, i_dst = 1, i_src = 0, i_off = 0, i_imm = 32\<rparr>,
   \<lparr>opcode = 119, i_dst = 1, i_src = 0, i_off = 0, i_imm = 32\<rparr>,
   \<lparr>opcode = 105, i_dst = 1, i_src = 1, i_off = 0, i_imm = 0\<rparr>,
   \<lparr>opcode = 191, i_dst = 4, i_src = 2, i_off = 0, i_imm = 0\<rparr>,
   \<lparr>opcode = 15, i_dst = 4, i_src = 1, i_off = 0, i_imm = 0\<rparr>,
   \<lparr>opcode = 103, i_dst = 4, i_src = 0, i_off = 0, i_imm = 32\<rparr>,
   \<lparr>opcode = 119, i_dst = 4, i_src = 0, i_off = 0, i_imm = 32\<rparr>,
   \<lparr>opcode = 24, i_dst = 0, i_src = 0, i_off = 0, i_imm = 0xffffffea\<rparr>,
   \<lparr>opcode = 0, i_dst = 0, i_src = 0, i_off = 0, i_imm = 1\<rparr>,
   \<lparr>opcode = 24, i_dst = 3, i_src = 0, i_off = 0, i_imm = 0xffffffea\<rparr>,
   \<lparr>opcode = 0, i_dst = 0, i_src = 0, i_off = 0, i_imm = 1\<rparr>,
   \<lparr>opcode = 37, i_dst = 4, i_src = 0, i_off = 1, i_imm = 65534\<rparr>,
   \<lparr>opcode = 183, i_dst = 3, i_src = 0, i_off = 0, i_imm = 0\<rparr>,
   \<lparr>opcode = 45, i_dst = 1, i_src = 2, i_off = 1, i_imm = 0\<rparr>,
   \<lparr>opcode = 191, i_dst = 0, i_src = 3, i_off = 0, i_imm = 0\<rparr>,
   \<lparr>opcode = 149, i_dst = 0, i_src = 0, i_off = 0, i_imm = 0\<rparr>]"
  by (simp add: code_t1_def le16_def le32_def)

lemma half_fits: "mem_load m a 2 = Some n \<Longrightarrow> n = zx (ucast n :: u32)"
proof -
  assume "mem_load m a 2 = Some n"
  from mem_load_fits [OF this] have "bit n k \<Longrightarrow> k < 16" for k
    by (metis bit_take_bit_iff mult_2_right numeral_Bit0)
  then show ?thesis by (intro bit_word_eqI) (fastforce simp: bit_simps)
qed

lemma t1_sum: "0xfffe < zx (x + y) \<longleftrightarrow> 0xffff \<le> x + y" for x y :: u32
  by (simp add: word_less_nat_alt word_le_nat_alt unsigned_ucast_eq take_bit_nat_eq_self) linarith

lemma code_t1_runs: "compiled_filter code_t1 filter_t1"
proof (rule compiled_filterI, goal_cases)
  case (1 g vm f a0 a1 a2 a3 a4 a5 a6 a7 a8 a9 a10 a11 w)
  note run = sym_run decode_t1 filter_t1_def 1
  show ?case
  proof (cases rule: load4_cases [of "w_mem w" "f_mem f + 8"])
    case 1 then show ?thesis by (auto simp: run split: Option.bind_splits cong: run_congs)
  next
    case (2 mx)
    note mx = 2
    show ?thesis
    proof (cases rule: load4_cases [of "w_mem w" "f_mem f + 4"])
      case 1 then show ?thesis by (simp add: run mx cong: run_congs)
    next
      case (2 t)
      note t = 2
      show ?thesis
      proof (cases "mem_load (w_mem w) (t + 5) 2")
        case None then show ?thesis by (simp add: run mx t cong: run_congs)
      next
        case (Some n)
        then obtain h where h: "mem_load (w_mem w) (t + 5) 2 = Some (zx (h :: u32))" using half_fits by metis
        show ?thesis
          by (cases "mx < h"; cases "0xffff \<le> mx + h") (simp_all add: run mx t h t1_sum zx_less add.commute [of h] cong: run_congs)
      qed
    qed
  qed
qed

interpretation t1: compiled_filter code_t1 filter_t1
  by (rule code_t1_runs)

text \<open>The self-test program is the commented-out version of the CoAP filter: on every frame the interpreter returns its
  verdict, a failure with -EINVAL when the option is longer than the buffer or the sum of the lengths is 65535 or more,
  and passes otherwise.\<close>

theorem code_t1_refines:
  assumes "insts vm = decode_insts code_t1" and "\<not> bounds_check_enabled vm" and "length regs0 = MAX_BPF_EXT_REG"
  shows "ebpf_vm_exec g vm f regs0 w = (filter_result (filter_t1 (w_mem w) (f_mem f)), w)"
  using assms by (rule t1.runs)

theorem code_t1_refines_witness:
  "fst (ebpf_vm_exec None (zero_vm\<lparr>insts := decode_insts code_t1\<rparr>) \<lparr>f_mem = 0x100, f_mem_len = 32, f_stack = 0x2000\<rparr>
     (replicate 12 0) \<lparr>w_mem = (\<lambda>a. Some (if a = 0x108 then 4 else if a = 5 then 9 else 0)), w_dval = 0, w_out = []\<rparr>) = Ret 0x1ffffffea"
  by (subst code_t1_refines)
     (simp_all add: zero_vm_def MAX_BPF_EXT_REG_def filter_result_def filter_t1_def frame_get_def mem_load_def rd_def
        set_return32_def set_return_def EINVAL_def)

end
