(* ===== verification/Jit_Dev.thy ===== *)
theory Jit_Dev
  imports Thumb2_Exec
begin

text \<open>
  The hand-written code of \<open>hotpatch/src/jit_dev_test.c\<close>, from which the compiler started: halfwords stored in a
  buffer and called. The functions are modelled by the halfwords they write, run on the machine of
  \<open>Thumb2_Exec\<close> from the state of the call; the barriers before it are not part of the state.
\<close>

definition jit_int_sum_code :: "nat \<Rightarrow> code" where
  "jit_int_sum_code n =
     (if n = 0 then [0x2000] else map (\<lambda>k. 0x1800 OR push_bit 3 (of_nat k)) [1..<n]) @ [0x4770]"

text \<open>A call with four arguments: r0 to r3, and the return address in lr.\<close>

definition call4 :: "u32 \<Rightarrow> u32 \<Rightarrow> u32 \<Rightarrow> u32 \<Rightarrow> thumb \<Rightarrow> thumb" where
  "call4 a b c d t = set_r 3 d (set_r 2 c (set_r 1 b (set_r 0 a t)))"

definition jit_int_sum :: "nat \<Rightarrow> thumb \<Rightarrow> (u32 \<times> thumb) option" where
  "jit_int_sum n t = map_option (\<lambda>t'. (t_reg t' 0, t')) (t_run (jit_int_sum_code n) (call4 1 2 3 4 t))"

definition jit_dummy_cve :: "thumb \<Rightarrow> (u32 \<times> thumb) option" where
  "jit_dummy_cve t = jit_int_sum 4 t"

definition add_mum :: "s32 \<Rightarrow> s32 \<Rightarrow> s32 \<Rightarrow> s32 \<Rightarrow> s32" where
  "add_mum a b c d = (let sum = 0; sum = sum + a; sum = sum + b; sum = sum + c; sum = sum + d in sum)"

definition first_jit_func :: "thumb \<Rightarrow> thumb option" where
  "first_jit_func t = t_run [0x4770] t"

text \<open>The 64-bit result is the pair r1:r0, of which the function returns the low 16 bits.\<close>

definition my_jit_func2 :: "u32 \<Rightarrow> thumb \<Rightarrow> (u16 \<times> thumb) option" where
  "my_jit_func2 ctx t =
     map_option (\<lambda>t'. (ucast (t_reg t' 0), t')) (t_run [0x4600 OR push_bit 3 0 OR 1, 0x4770] (set_r 0 ctx t))"

lemma run_adds:
  assumes "0 < k" "k < 8"
  shows "t_run ((0x1800 OR push_bit 3 (of_nat k)) # l # c) t =
    t_run (l # c) ((set_r 0 (t_reg t (of_nat k) + t_reg t 0) t)\<lparr>t_c := 2 ^ 32 \<le> unat (t_reg t (of_nat k)) + unat (t_reg t 0)\<rparr>)"
proof -
  from assms have "k \<in> {1, 2, 3, 4, 5, 6, 7}" by auto
  then show ?thesis by (elim insertE emptyE) (simp_all add: decode16_def field_def)
qed

lemma run_bx: "t_run [0x4770] t = Some (set_r 15 (t_reg t 14) t)"
  by (simp add: decode16_def field_def)

lemma low_reg_neq: "k < 8 \<Longrightarrow> k \<noteq> 0 \<Longrightarrow> (of_nat k :: u8) \<noteq> 0"
  by (simp add: word_of_nat_eq_0_iff) (auto dest: dvd_imp_le)

lemma run_sum:
  "0 < i \<Longrightarrow> i \<le> j \<Longrightarrow> j \<le> 8 \<Longrightarrow>
     \<exists>t'. t_run (map (\<lambda>k. 0x1800 OR push_bit 3 (of_nat k)) [i..<j] @ [0x4770]) t = Some t' \<and>
       t_reg t' 0 = t_reg t 0 + (\<Sum>k \<in> {i..<j}. t_reg t (of_nat k)) \<and> t_reg t' 15 = t_reg t 14 \<and>
       (\<forall>r. r \<noteq> 0 \<longrightarrow> r \<noteq> 15 \<longrightarrow> t_reg t' r = t_reg t r) \<and> t_mem t' = t_mem t"
proof (induction "j - i" arbitrary: i t)
  case 0
  then show ?case by (simp add: run_bx del: t_run.simps)
next
  case (Suc d)
  then have ij: "i < j" and d: "d = j - Suc i" by simp_all
  let ?t = "(set_r 0 (t_reg t (of_nat i) + t_reg t 0) t)\<lparr>t_c := 2 ^ 32 \<le> unat (t_reg t (of_nat i)) + unat (t_reg t 0)\<rparr>"
  let ?c = "map (\<lambda>k. 0x1800 OR push_bit 3 (of_nat k)) [Suc i..<j] @ [0x4770] :: code"
  obtain l c where c: "?c = l # c" by (cases ?c) auto
  have "map (\<lambda>k. 0x1800 OR push_bit 3 (of_nat k)) [i..<j] @ [0x4770] = (0x1800 OR push_bit 3 (of_nat i)) # ?c"
    using ij by (simp add: upt_conv_Cons)
  then have run: "t_run (map (\<lambda>k. 0x1800 OR push_bit 3 (of_nat k)) [i..<j] @ [0x4770]) t = t_run ?c ?t"
    using run_adds [of i l c t] Suc.prems ij unfolding c by simp
  obtain t' where t': "t_run ?c ?t = Some t'" "t_reg t' 0 = t_reg ?t 0 + (\<Sum>k \<in> {Suc i..<j}. t_reg ?t (of_nat k))"
      "t_reg t' 15 = t_reg ?t 14" "\<forall>r. r \<noteq> 0 \<longrightarrow> r \<noteq> 15 \<longrightarrow> t_reg t' r = t_reg ?t r" "t_mem t' = t_mem ?t"
    using Suc.hyps(1) [OF d, of ?t] Suc.prems ij by auto
  have "t_reg ?t (of_nat k) = t_reg t (of_nat k)" if "k \<in> {Suc i..<j}" for k
    using that Suc.prems(3) low_reg_neq [of k] by simp
  then have "(\<Sum>k \<in> {Suc i..<j}. t_reg ?t (of_nat k)) = (\<Sum>k \<in> {Suc i..<j}. t_reg t (of_nat k))"
    by (rule sum.cong [OF refl])
  moreover have "(\<Sum>k \<in> {i..<j}. t_reg t (of_nat k)) = t_reg t (of_nat i) + (\<Sum>k \<in> {Suc i..<j}. t_reg t (of_nat k))"
    using ij by (simp add: sum.atLeast_Suc_lessThan)
  ultimately have "t_reg t' 0 = t_reg t 0 + (\<Sum>k \<in> {i..<j}. t_reg t (of_nat k))"
    using t'(2) by (simp add: add.commute add.left_commute)
  moreover have "t_reg t' 15 = t_reg t 14" "t_mem t' = t_mem t" using t'(3,5) by simp_all
  moreover have "t_reg t' r = t_reg t r" if "r \<noteq> 0" "r \<noteq> 15" for r
    using t'(4) that by simp
  ultimately show ?case unfolding run using t'(1) by blast
qed

text \<open>The generated code of the first compiler test adds the arguments of the call, up to the eight low
  registers, and returns to the caller with nothing else changed; for the four arguments it is called with the
  answer is that of the C function \<open>add_mum\<close>.\<close>

theorem jit_int_sum_adds:
  assumes "n \<le> 8"
  shows "\<exists>t'. jit_int_sum n t = Some (\<Sum>k < n. t_reg (call4 1 2 3 4 t) (of_nat k), t') \<and> t_reg t' 15 = t_reg t 14 \<and>
     t_mem t' = t_mem t \<and> (\<forall>r. r \<notin> {0, 1, 2, 3, 15} \<longrightarrow> t_reg t' r = t_reg t r) \<and>
     (n = 4 \<longrightarrow> jit_dummy_cve t = Some (add_mum 1 2 3 4, t'))"
proof (cases "n = 0")
  case True
  then show ?thesis
    by (simp add: jit_int_sum_def jit_int_sum_code_def decode16_def field_def call4_def)
next
  case False
  let ?c = "call4 1 2 3 4 t"
  obtain t' where t': "t_run (jit_int_sum_code n) ?c = Some t'" "t_reg t' 0 = t_reg ?c 0 + (\<Sum>k \<in> {1..<n}. t_reg ?c (of_nat k))"
      "t_reg t' 15 = t_reg ?c 14" "\<forall>r. r \<noteq> 0 \<longrightarrow> r \<noteq> 15 \<longrightarrow> t_reg t' r = t_reg ?c r" "t_mem t' = t_mem ?c"
    using run_sum [of 1 n ?c] False assms by (auto simp: jit_int_sum_code_def)
  have s: "(\<Sum>k < n. t_reg ?c (of_nat k)) = t_reg t' 0"
    using t'(2) False by (simp add: lessThan_atLeast0 sum.atLeast_Suc_lessThan)
  have "(\<Sum>k < 4. t_reg ?c (of_nat k)) = add_mum 1 2 3 4"
  proof -
    have "{..<4} = {0, 1, 2, 3 :: nat}" by auto
    then show ?thesis by (simp add: call4_def add_mum_def)
  qed
  with s t' show ?thesis by (auto simp: jit_int_sum_def jit_dummy_cve_def call4_def)
qed

theorem jit_int_sum_adds_witness:
  "\<forall>t. \<exists>t'. jit_dummy_cve t = Some (add_mum 1 2 3 4, t') \<and> add_mum 1 2 3 4 = 10"
proof
  fix t :: thumb
  have "(4 :: nat) \<le> 8" by simp
  from jit_int_sum_adds [OF this, of t] show "\<exists>t'. jit_dummy_cve t = Some (add_mum 1 2 3 4, t') \<and> add_mum 1 2 3 4 = 10"
    by (auto simp: add_mum_def)
qed

end
