(* ===== verification/Destopt_Code.thy ===== *)
theory Destopt_Code
  imports Eval_Code
begin

text \<open>
  The shipped patch against CVE-2020-17445, a loop over the destination options of an IPv6 packet:
  the bytes compute the filter of their source as long as the walk ends within the budget of the
  interpreter, and the interpreter stops the walk when it does not.
\<close>

subsection \<open>Bytes in registers\<close>

lemma decode_destopt: "decode_insts AMNESIA33_cve_2020_17445 = decode_insts code12"
  by (simp add: AMNESIA33_cve_2020_17445_def code12_def)

lemma load1: "mem_load m a (Suc 0) = map_option ucast (m a)"
  by (cases "m a") (simp_all add: mem_load_def)

lemma byte_add_64: "(ucast (a + b :: u64) :: u8) = ucast a + ucast b"
proof transfer
  fix a b :: int
  have "take_bit 8 (take_bit 64 a + take_bit 64 b) =
    take_bit 8 (take_bit 8 (take_bit 64 a) + take_bit 8 (take_bit 64 b))"
    by (simp only: take_bit_add)
  also have "\<dots> = take_bit 8 (a + b)" by (simp add: take_bit_add)
  finally show "take_bit LENGTH(8) (take_bit LENGTH(64) (a + b)) =
    take_bit LENGTH(8) (take_bit LENGTH(64) a + take_bit LENGTH(64) b)" by simp
qed

lemma byte_diff_64: "(ucast (a - b :: u64) :: u8) = ucast a - ucast b"
  using byte_add_64 [of "a - b" b] by simp

lemma low_byte: "v AND 255 = (ucast (ucast v :: u8) :: u64)" for v :: u64
proof -
  have "v AND 255 = take_bit 8 v" by (simp add: take_bit_eq_mask mask_eq_exp_minus_1)
  then show ?thesis by (simp add: bit_eq_iff bit_simps)
qed

lemma low_byte_zero: "(ucast b :: u64) = 0 \<longleftrightarrow> b = 0" for b :: u8
  using ucast_byte [of b] by force

lemma low_add_byte: "lo (v + ucast b) = lo v + ucast b" for b :: u8
  by (simp add: ucast_add_64 ucast_8_64_32)

lemma zx_le: "zx a \<le> zx b \<longleftrightarrow> a \<le> b" by (simp add: word_le_nat_alt)

subsection \<open>One turn of the loop\<close>

text \<open>The length of an option and what it leaves, as the code masks them.\<close>

lemma optlen_mask: "(ucast b + 2 :: u64) AND 255 = ucast (b + 2)" for b :: u8
  by (simp add: low_byte byte_add_64 ucast_byte)

lemma left_mask: "(r1 - (ucast b + 2 :: u64)) AND 255 = ucast (ucast r1 - (b + 2))" for b :: u8
  by (simp add: low_byte byte_add_64 byte_diff_64 ucast_byte)

lemma advances:
  fixes opt :: u32 and k :: u8
  assumes "opt < opt + ucast k" shows "k \<noteq> 0" and "\<not> opt + ucast k \<le> opt"
  using assms by auto

text \<open>The jump back goes to instruction 7, by an offset that wraps the 16-bit counter.\<close>

lemma loop_pc: "(65543 :: u16) = 7" by simp

lemmas destopt_run = vm_loop_turn run_defs decode_code12 bounds_check_def load1 optlen_mask left_mask low_half
  low_add_byte zx_le low_byte_zero loop_pc

text \<open>The walk of the filter ends within \<open>n\<close> options: one cannot be read, one does not advance the
  pointer, or the options are used up.\<close>

fun ends_within :: "nat \<Rightarrow> memory \<Rightarrow> u32 \<Rightarrow> u64 \<Rightarrow> u8 \<Rightarrow> bool" where
  "ends_within 0 m opt_ptr op_p len = False"
| "ends_within (Suc n) m opt_ptr op_p len =
     (case rd m (op_p + 1) 1 of
        None \<Rightarrow> True
      | Some b \<Rightarrow>
          let optlen = (ucast b + 2 :: u8) in
          opt_ptr + ucast optlen \<le> opt_ptr \<or> len = optlen \<or>
          ends_within n m (opt_ptr + ucast optlen) (op_p + ucast optlen) (len - optlen))"

text \<open>At the head of the loop.\<close>

abbreviation head :: "u64 list \<Rightarrow> world \<Rightarrow> vm_state" where
  "head r w \<equiv> \<lparr>v_pc = 7, v_reg = r, v_world = w\<rparr>"

lemma destopt_turn:
  assumes "insts vm = decode_insts code12" "\<not> bounds_check_enabled vm" and t: "t + 24 \<le> 32769"
    and b: "w_mem w (lo (r2 + 1)) = Some b" and "lo r3 < lo r3 + ucast (b + 2)" and "(ucast r1 :: u8) \<noteq> b + 2"
  shows "vm_loop g vm f t (head [x0, r1, r2, r3, x4, x5, x6, x7, x8, x9, x10, x11] w) =
    vm_loop g vm f (t + 24) (head [0, r1 - (ucast b + 2), r2 + ucast (b + 2), r3 + ucast (b + 2), 0,
      ucast (ucast r1 - (b + 2)), r3 + ucast (b + 2), zx (lo r3 + ucast (b + 2)), x8, x9, x10, x11] w)"
proof -
  have t24: "t + 24 = Suc (Suc (Suc (Suc (Suc (Suc (Suc (Suc (Suc (Suc (Suc (Suc (Suc (Suc (Suc (Suc (Suc (Suc
      (Suc (Suc (Suc (Suc (Suc (Suc t)))))))))))))))))))))))" by simp
  show ?thesis
    using t by (simp add: destopt_run assms(1,2,6) b advances [OF assms(5)] t24 cong: run_congs)
qed

text \<open>The last turn: the option cannot be read, it does not advance the pointer, or it ends the walk.\<close>

definition outcome :: "vm_result \<times> vm_state \<Rightarrow> vm_result \<times> world" where
  "outcome p = (fst p, v_world (snd p))"

lemma destopt_fault:
  assumes "insts vm = decode_insts code12" "\<not> bounds_check_enabled vm" and t: "t + 2 \<le> 32768"
    and b: "w_mem w (lo (r2 + 1)) = None"
  shows "outcome (vm_loop g vm f t (head [x0, r1, r2, r3, x4, x5, x6, x7, x8, x9, x10, x11] w)) = (Undef MemFault, w)"
  using t by (simp add: destopt_run assms(1,2) b outcome_def cong: run_congs)

lemma destopt_refused:
  assumes "insts vm = decode_insts code12" "\<not> bounds_check_enabled vm" and t: "t + 26 \<le> 32769"
    and b: "w_mem w (lo (r2 + 1)) = Some b" and n: "lo r3 + ucast (b + 2) \<le> lo r3"
  shows "outcome (vm_loop g vm f t (head [x0, r1, r2, r3, x4, x5, x6, x7, x8, x9, x10, x11] w)) = (Ret 0x1ffffffff, w)"
proof (cases "b + 2 = 0")
  case True
  then show ?thesis using t by (simp add: destopt_run assms(1,2) b outcome_def cong: run_congs)
next
  case False
  then show ?thesis using t n by (simp add: destopt_run assms(1,2) b outcome_def cong: run_congs)
qed

lemma destopt_done:
  assumes "insts vm = decode_insts code12" "\<not> bounds_check_enabled vm" and t: "t + 26 \<le> 32769"
    and b: "w_mem w (lo (r2 + 1)) = Some b" and "lo r3 < lo r3 + ucast (b + 2)" and "(ucast r1 :: u8) = b + 2"
  shows "outcome (vm_loop g vm f t (head [x0, r1, r2, r3, x4, x5, x6, x7, x8, x9, x10, x11] w)) = (Ret 0, w)"
  using t by (simp add: destopt_run assms(1,2,6) b advances [OF assms(5)] outcome_def cong: run_congs)

subsection \<open>The walk\<close>

text \<open>What the filter makes of the result of the walk.\<close>

definition walk_verdict :: "u32 \<Rightarrow> u64" where
  "walk_verdict ret_code = set_return32 (if ret_code \<noteq> 0 then 1 else 0) ret_code"

lemma walk_verdicts: "walk_verdict 0 = 0" "walk_verdict (- 1) = 0x1ffffffff"
  by (simp_all add: walk_verdict_def set_return32_def set_return_def zx_minus1)

lemma unat_byte_64: "unat (ucast (k :: u8) :: u64) = unat k"
  and unat_byte_32: "unat (ucast k :: u32) = unat k"
  using unsigned_less [of k, where ?'a = nat]
  by (simp_all add: unsigned_ucast_eq take_bit_nat_eq_self_iff take_bit_nat_eq_self)

lemma walk_room:
  fixes p :: u64 and opt :: u32 and k :: u8
  assumes "unat p \<le> 2 ^ 33 + unat opt"
  shows "k \<noteq> 0 \<Longrightarrow> \<not> p + ucast k \<le> p"
    and "opt < opt + ucast k \<Longrightarrow> unat (p + ucast k) \<le> 2 ^ 33 + unat (opt + ucast k)"
proof -
  have k: "unat k < 256" using unsigned_less [of k, where ?'a = nat] by simp
  have p: "unat (p + ucast k) = unat p + unat k"
    using assms k unat_lt_numeral_32 [of opt] by (simp add: unat_word_ariths unat_byte_64)
  show "\<not> p + ucast k \<le> p" if "k \<noteq> 0"
    using that by (simp add: word_le_nat_alt p unat_eq_zero)
  show "unat (p + ucast k) \<le> 2 ^ 33 + unat (opt + ucast k)" if "opt < opt + ucast k"
  proof -
    have "unat (opt + ucast k) = unat opt + unat k"
      using that k unat_lt_numeral_32 [of opt]
      by (cases "unat opt + unat k < 4294967296")
         (simp_all add: word_less_nat_alt unat_word_ariths unat_byte_32 not_less le_mod_geq)
    then show ?thesis using assms by (simp add: p)
  qed
qed

lemma walk_zero: "walk_destopt m opt p 0 = Some 0"
  by (simp add: walk_destopt.simps)

lemma walk_turn:
  assumes "unat p \<le> 2 ^ 33 + unat opt" and "len \<noteq> 0"
  shows "walk_destopt m opt p len =
     (case m (lo (p + 1)) of None \<Rightarrow> None
      | Some b \<Rightarrow> if opt + ucast (b + 2) \<le> opt then Some (- 1)
                  else walk_destopt m (opt + ucast (b + 2)) (p + ucast (b + 2)) (len - (b + 2)))"
proof (cases "m (lo (p + 1))")
  case (Some b)
  have "uint len \<le> uint len - uint (b + 2) \<longleftrightarrow> b + 2 = 0"
    using uint_ge_0 [of "b + 2"] by (auto simp: uint_0_iff)
  moreover have "opt + ucast (b + 2) \<le> opt" if "b + 2 = 0" using that by simp
  ultimately show ?thesis
    using assms(2) walk_room(1) [OF assms(1), of "b + 2"]
    by (cases "b + 2 = 0") (auto simp: walk_destopt.simps [of m opt] rd_byte Some Let_def ucast_byte)
qed (use assms(2) in \<open>simp add: walk_destopt.simps [of m opt] rd_byte\<close>)

lemma ends_within_turn:
  "ends_within (Suc n) m opt p len \<longleftrightarrow>
     (case m (lo (p + 1)) of None \<Rightarrow> True
      | Some b \<Rightarrow> opt + ucast (b + 2) \<le> opt \<or> len = b + 2 \<or>
          ends_within n m (opt + ucast (b + 2)) (p + ucast (b + 2)) (len - (b + 2)))"
  by (simp add: rd_byte Let_def ucast_byte split: option.split)

declare ends_within.simps(2) [simp del]

lemma destopt_walks:
  assumes "insts vm = decode_insts code12" "\<not> bounds_check_enabled vm"
    and "ends_within n (w_mem w) opt r2 len" and "t + 24 * n + 2 \<le> 32769"
    and "lo r3 = opt" "(ucast r1 :: u8) = len" "len \<noteq> 0" and "unat r2 \<le> 2 ^ 33 + unat opt"
  shows "outcome (vm_loop g vm f t (head [x0, r1, r2, r3, x4, x5, x6, x7, x8, x9, x10, x11] w)) =
    (filter_result (map_option walk_verdict (walk_destopt (w_mem w) opt r2 len)), w)"
  using assms(3-)
proof (induction n arbitrary: t opt len x0 r1 r2 r3 x4 x5 x6 x7)
  case (Suc n)
  note walk = walk_turn [OF Suc.prems(6,5), of "w_mem w"]
  show ?case
  proof (cases "w_mem w (lo (r2 + 1))")
    case None
    then show ?thesis using destopt_fault [OF assms(1,2) _ None] Suc.prems(2)
      by (simp add: walk filter_result_def)
  next
    case (Some b)
    let ?k = "b + 2"
    consider "lo r3 + ucast ?k \<le> lo r3" | "lo r3 < lo r3 + ucast ?k" "len = ?k"
      | "lo r3 < lo r3 + ucast ?k" "len \<noteq> ?k" by fastforce
    then show ?thesis
    proof cases
      case 1
      then show ?thesis using destopt_refused [OF assms(1,2) _ Some] Suc.prems
        by (simp add: walk Some filter_result_def walk_verdicts)
    next
      case 2
      then show ?thesis using destopt_done [OF assms(1,2) _ Some] Suc.prems
        by (simp add: walk [unfolded 2(2)] Some filter_result_def walk_verdicts walk_zero not_le [symmetric])
    next
      case 3
      have "ends_within n (w_mem w) (opt + ucast ?k) (r2 + ucast ?k) (len - ?k)"
        using Suc.prems(1,3) 3 by (simp add: ends_within_turn Some not_le [symmetric])
      note IH = Suc.IH [OF this, of "t + 24" "r3 + ucast ?k" "r1 - (ucast b + 2)"]
      show ?thesis
        using Suc.prems 3 walk_room(2) [OF Suc.prems(6), of ?k]
        by (subst destopt_turn [OF assms(1,2) _ Some])
           (simp_all add: walk Some not_le [symmetric] IH low_add_byte byte_diff_64 byte_add_64 ucast_byte)
    qed
  qed
qed simp


lemma destopt_exceeds:
  assumes "insts vm = decode_insts code12" "\<not> bounds_check_enabled vm"
    and "\<not> ends_within (Suc n) (w_mem w) opt r2 len" and "t + 24 * n = 32767"
    and "lo r3 = opt" "(ucast r1 :: u8) = len"
  shows "outcome (vm_loop g vm f t (head [x0, r1, r2, r3, x4, x5, x6, x7, x8, x9, x10, x11] w)) = (IterLimit, w)"
  using assms(3-)
proof (induction n arbitrary: t opt len x0 r1 r2 r3 x4 x5 x6 x7)
  case 0
  then obtain b where b: "w_mem w (lo (r2 + 1)) = Some b" by (auto simp: ends_within_turn split: option.splits)
  have "vm_loop g vm f 32769 s = (IterLimit, s')" if "vm_step g vm f s = Inr s'" for s s'
    by (subst vm_loop.simps) (simp add: that iters_check_def MAX_ITERS_def)
  then show ?case using 0
    by (simp add: destopt_run assms(1,2) b outcome_def cong: run_congs)
next
  case (Suc n)
  then obtain b where b: "w_mem w (lo (r2 + 1)) = Some b" and k: "opt < opt + ucast (b + 2)" "len \<noteq> b + 2"
      and e: "\<not> ends_within (Suc n) (w_mem w) (opt + ucast (b + 2)) (r2 + ucast (b + 2)) (len - (b + 2))"
    by (auto simp: ends_within_turn [of "Suc n"] not_le split: option.splits)
  show ?case
    using Suc.prems k Suc.IH [OF e, of "t + 24" "r3 + ucast (b + 2)" "r1 - (ucast b + 2)"]
    by (subst destopt_turn [OF assms(1,2) _ b])
       (simp_all add: low_add_byte byte_diff_64 byte_add_64 ucast_byte)
qed


subsection \<open>The whole patch\<close>

text \<open>Seven instructions lead to the loop.\<close>

lemma vm_loop_first:
  "tick < 7 \<Longrightarrow> vm_loop g vm f tick s =
     (case vm_step g vm f s of Inl r \<Rightarrow> (r, s) | Inr s' \<Rightarrow> vm_loop g vm f (tick + 1) s')"
  by (rule vm_loop_turn) simp

lemma exec_outcome:
  "10 < length regs0 \<Longrightarrow> ebpf_vm_exec g vm f regs0 w = outcome (vm_loop g vm f 0 (init_state f regs0 w))"
  by (simp add: ebpf_vm_exec_def outcome_def split_beta)

lemma destopt_starts:
  assumes "insts vm = decode_insts code12" "\<not> bounds_check_enabled vm"
    and "mem_load (w_mem w) (f_mem f) 4 = Some (zx d)" "mem_load (w_mem w) (f_mem f + 8) 4 = Some (zx q)"
    and "w_mem w (d + 1) = Some b"
  shows "ebpf_vm_exec g vm f [a0, a1, a2, a3, a4, a5, a6, a7, a8, a9, a10, a11] w =
    outcome (vm_loop g vm f 7 (head [a0, push_bit 3 (ucast b) OR 6, zx d + 2, zx q + 2, a4, a5, a6, a7, a8, a9,
      zx (f_stack f + of_nat STACK_SIZE), a11] w))"
proof -
  have len: "10 < length [a0, a1, a2, a3, a4, a5, a6, a7, a8, a9, a10, a11]" by simp
  show ?thesis unfolding exec_outcome [OF len]
  by (simp add: vm_loop_first run_defs decode_code12 bounds_check_def assms load1 ucast_add_64 cong: run_congs)
     (simp add: eval_nat_numeral)
qed

lemma bit_six: "bit (6 :: u64) n \<Longrightarrow> n < 3"
  by (cases n; cases "n - 1"; cases "n - 2") (auto simp: bit_numeral_rec)

lemma option_bytes: "(ucast (push_bit 3 (ucast (b :: u8) :: u64) OR 6) :: u8) = ucast (push_bit 3 (ucast b + 1 :: u64) - 2)"
proof -
  have "push_bit 3 (ucast b :: u64) OR 6 = push_bit 3 (ucast b) + 6"
  proof (rule disjunctive_add [symmetric])
    fix n
    show "\<not> bit (push_bit 3 (ucast b :: u64)) n \<or> \<not> bit (6 :: u64) n"
      using bit_six [of n] by (cases "n < 3") (simp add: bit_push_bit_iff, blast)
  qed
  then show ?thesis by (simp add: push_bit_eq_mult algebra_simps)
qed

lemma option_bytes_nonzero: "(ucast (push_bit 3 (ucast (b :: u8) + 1 :: u64) - 2) :: u8) \<noteq> 0"
proof -
  have "bit (ucast (push_bit 3 (ucast b :: u64) OR 6) :: u8) 1" by (simp add: bit_simps)
  then show ?thesis unfolding option_bytes by force
qed


lemma filter_17445_walk:
  assumes "mem_load m fr 4 = Some (zx d)" "mem_load m (fr + 8) 4 = Some (zx q)" and "m (d + 1) = Some b"
  shows "filter_17445 m fr = map_option walk_verdict
    (walk_destopt m (q + 2) (zx d + 2) (ucast (push_bit 3 (ucast b + 1 :: u64) - 2)))"
  using assms by (auto simp: filter_17445_def frame_get_def rd_byte ucast_add_64 walk_verdict_def Let_def
      cong: option.case_cong split: bind_splits)

text \<open>What the walk starts with.\<close>

definition options_len :: "u8 \<Rightarrow> u8" where
  "options_len b = ucast (push_bit 3 (ucast b + 1 :: u64) - 2)"

lemma destopt_runs:
  assumes "insts vm = decode_insts code12" "\<not> bounds_check_enabled vm" and "length regs0 = MAX_BPF_EXT_REG"
    and "frame_get (w_mem w) (f_mem f) F_r0 = Some d" "frame_get (w_mem w) (f_mem f) F_r2 = Some q"
    and "w_mem w (d + 1) = Some b"
  shows "ends_within 1365 (w_mem w) (q + 2) (zx d + 2) (options_len b) \<Longrightarrow>
      ebpf_vm_exec g vm f regs0 w = (filter_result (filter_17445 (w_mem w) (f_mem f)), w)"
    and "\<not> ends_within 1366 (w_mem w) (q + 2) (zx d + 2) (options_len b) \<Longrightarrow>
      ebpf_vm_exec g vm f regs0 w = (IterLimit, w)"
proof -
  have l: "mem_load (w_mem w) (f_mem f) 4 = Some (zx d)" "mem_load (w_mem w) (f_mem f + 8) 4 = Some (zx q)"
    using assms(4,5) by (simp_all add: frame_word)
  obtain a0 a1 a2 a3 a4 a5 a6 a7 a8 a9 a10 a11 where r: "regs0 = [a0, a1, a2, a3, a4, a5, a6, a7, a8, a9, a10, a11]"
    by (rule twelve_regs [OF assms(3)])
  have p: "unat (zx d + 2) \<le> 2 ^ 33 + unat (q + 2)"
    using unat_lt_numeral_32 [of d] by (simp add: unat_word_ariths)
  have o: "lo (zx q + 2) = q + 2" by (simp add: ucast_add_64)
  have len: "ucast (push_bit 3 (ucast b :: u64) OR 6) = options_len b" "options_len b \<noteq> 0"
    by (simp_all add: options_len_def option_bytes option_bytes_nonzero)
  show "ebpf_vm_exec g vm f regs0 w = (filter_result (filter_17445 (w_mem w) (f_mem f)), w)"
    if "ends_within 1365 (w_mem w) (q + 2) (zx d + 2) (options_len b)"
    unfolding r destopt_starts [OF assms(1,2) l assms(6)] filter_17445_walk [OF l assms(6), folded options_len_def]
    by (rule destopt_walks [OF assms(1,2) that _ o len p]) simp
  show "ebpf_vm_exec g vm f regs0 w = (IterLimit, w)"
    if "\<not> ends_within 1366 (w_mem w) (q + 2) (zx d + 2) (options_len b)"
    unfolding r destopt_starts [OF assms(1,2) l assms(6)]
    by (rule destopt_exceeds [OF assms(1,2), of 1365, OF _ _ o len(1)]) (use that in simp_all)
qed

text \<open>C11: the shipped patch against CVE-2020-17445 computes the filter of its source, on every packet whose walk ends
  within 1365 options: a walk of that length is the longest the interpreter's limit on instructions leaves room for.\<close>

theorem destopt_patch_refines:
  assumes "insts vm = decode_insts AMNESIA33_cve_2020_17445" and "\<not> bounds_check_enabled vm"
    and "length regs0 = MAX_BPF_EXT_REG"
    and "frame_get (w_mem w) (f_mem f) F_r0 = Some d" and "frame_get (w_mem w) (f_mem f) F_r2 = Some q"
    and "w_mem w (d + 1) = Some b"
    and "ends_within 1365 (w_mem w) (q + 2) (zx d + 2) (options_len b)"
  shows "ebpf_vm_exec g vm f regs0 w = (filter_result (filter_17445 (w_mem w) (f_mem f)), w)"
  using destopt_runs(1) assms unfolding decode_destopt by blast

lemma zero_options: "ends_within (Suc (Suc (Suc n))) (\<lambda>_. Some 0) 2 2 6"
  by (simp add: ends_within_turn)

theorem destopt_patch_refines_witness:
  "ebpf_vm_exec None (zero_vm\<lparr>insts := decode_insts AMNESIA33_cve_2020_17445\<rparr>)
     \<lparr>f_mem = 0x20000000, f_mem_len = 32, f_stack = 0x20001000\<rparr> (replicate 12 0)
     \<lparr>w_mem = (\<lambda>a. Some 0), w_dval = 0, w_out = []\<rparr> = (Ret 0, \<lparr>w_mem = (\<lambda>a. Some 0), w_dval = 0, w_out = []\<rparr>)"
proof -
  have "walk_destopt (\<lambda>_. Some 0) 2 2 6 = Some 0"
    by (simp add: walk_destopt.simps rd_byte)
  then have "filter_17445 (\<lambda>_. Some 0) 0x20000000 = Some 0"
    by (simp add: filter_17445_def frame_get_def mem_load_def rd_byte set_return32_def set_return_def)
  then show ?thesis
    using zero_options [of 1362]
    by (subst destopt_patch_refines [where d = 0 and q = 0 and b = 0])
       (simp_all add: zero_vm_def MAX_BPF_EXT_REG_def frame_get_def mem_load_def options_len_def filter_result_def)
qed

text \<open>C34: when the walk of the filter is still going after 1366 options, which a packet reaches whose options step over the
  end of their header, the interpreter gives up, with the value that its result type calls \<open>IterLimit\<close>, and leaves memory alone.\<close>

theorem destopt_patch_gives_up:
  assumes "insts vm = decode_insts AMNESIA33_cve_2020_17445" and "\<not> bounds_check_enabled vm"
    and "length regs0 = MAX_BPF_EXT_REG"
    and "frame_get (w_mem w) (f_mem f) F_r0 = Some d" and "frame_get (w_mem w) (f_mem f) F_r2 = Some q"
    and "w_mem w (d + 1) = Some b"
    and "\<not> ends_within 1366 (w_mem w) (q + 2) (zx d + 2) (options_len b)"
  shows "ebpf_vm_exec g vm f regs0 w = (IterLimit, w)"
  using destopt_runs(2) assms unfolding decode_destopt by blast

lemma four_byte_options:
  "unat len mod 4 = 2 \<Longrightarrow> unat opt + 4 * n < 2 ^ 32 \<Longrightarrow> \<not> ends_within n (\<lambda>_. Some 2) opt p len"
proof (induction n arbitrary: opt p len)
  case (Suc n)
  have len: "len \<noteq> 4" using Suc.prems(1) by auto
  have o: "unat (opt + 4) = unat opt + 4" using Suc.prems(2) by (simp add: unat_word_ariths)
  have "unat (len - 4) mod 4 = 2"
  proof (cases "4 \<le> unat len")
    case True
    then obtain k where "unat len = k + 4" by (metis le_add_diff_inverse2)
    then show ?thesis using Suc.prems(1) by (simp add: unat_sub_if_size word_size word_le_nat_alt)
  next
    case False
    then have "unat len = 2" using Suc.prems(1) by simp
    then show ?thesis by (simp add: unat_sub_if_size word_size word_le_nat_alt)
  qed
  then have "\<not> ends_within n (\<lambda>_. Some 2) (opt + 4) (p + 4) (len - 4)"
    using Suc.prems(2) by (intro Suc.IH) (simp_all add: o)
  then show ?case using len by (simp add: ends_within_turn word_le_nat_alt o)
qed simp

theorem destopt_patch_gives_up_witness:
  "ebpf_vm_exec None (zero_vm\<lparr>insts := decode_insts AMNESIA33_cve_2020_17445\<rparr>)
     \<lparr>f_mem = 0x20000000, f_mem_len = 32, f_stack = 0x20001000\<rparr> (replicate 12 0)
     \<lparr>w_mem = (\<lambda>a. Some 2), w_dval = 0, w_out = []\<rparr> = (IterLimit, \<lparr>w_mem = (\<lambda>a. Some 2), w_dval = 0, w_out = []\<rparr>)"
  by (rule destopt_patch_gives_up [where d = "0x02020202" and q = "0x02020202" and b = 2])
     (simp_all add: zero_vm_def MAX_BPF_EXT_REG_def frame_get_def mem_load_def options_len_def four_byte_options)

end
