(* ===== verification/Ebpf_Map.thy ===== *)
theory Ebpf_Map
  imports Lookup "HOL-Library.Multiset"
begin

text \<open>
  The dynamic array and the string-keyed hash map of \<open>libebpf/src/ebpf_map.c\<close>.

  An array holds pointers: an entry \<open>None\<close> is NULL. The outer \<open>None\<close> of a result is an access
  outside the block of \<open>contents\<close> or through a NULL pointer. A node of the map keeps the pointer
  to its key, so the operations take \<open>str\<close>, the string that a key pointer leads to at that time.
  Nodes and buckets are reached through the map only.
\<close>

subsection \<open>Dynamic arrays\<close>

record 'a DArray =
  da_end :: int
  da_max :: int
  da_el_sz :: nat
  da_contents :: "'a option list"

definition DArray_create :: "nat \<Rightarrow> nat \<Rightarrow> 'a DArray" where
  "DArray_create el_sz initial_max =
     \<lparr>da_end = 0, da_max = int initial_max, da_el_sz = el_sz, da_contents = replicate initial_max None\<rparr>"

definition store_at :: "int \<Rightarrow> 'a option \<Rightarrow> 'a DArray \<Rightarrow> 'a DArray option" where
  "store_at i v arr =
     (if 0 \<le> i \<and> i < int (length (da_contents arr))
      then Some (arr\<lparr>da_contents := (da_contents arr)[nat i := v]\<rparr>) else None)"

definition load_at :: "int \<Rightarrow> 'a DArray \<Rightarrow> 'a option option" where
  "load_at i arr =
     (if 0 \<le> i \<and> i < int (length (da_contents arr)) then Some (da_contents arr ! nat i) else None)"

definition DArray_set :: "'a DArray \<Rightarrow> int \<Rightarrow> 'a option \<Rightarrow> 'a DArray option" where
  "DArray_set arr index val =
     (if index \<ge> da_max arr then Some arr
      else store_at index val (if index > da_end arr then arr\<lparr>da_end := index\<rparr> else arr))"

definition DArray_get :: "'a DArray \<Rightarrow> int \<Rightarrow> 'a option option" where
  "DArray_get arr index = (if index < da_max arr then load_at index arr else Some None)"

definition DArray_push :: "'a DArray \<Rightarrow> 'a \<Rightarrow> 'a DArray option" where
  "DArray_push arr el = map_option (\<lambda>a. a\<lparr>da_end := da_end a + 1\<rparr>) (store_at (da_end arr) (Some el) arr)"

definition DArray_pop :: "'a DArray \<Rightarrow> ('a option \<times> 'a DArray) option" where
  "DArray_pop arr =
     (if da_end arr > 0 then
        (case (load_at (da_end arr - 1) arr, store_at (da_end arr - 1) None arr) of
           (Some el, Some a) \<Rightarrow> Some (el, a\<lparr>da_end := da_end a - 1\<rparr>)
         | _ \<Rightarrow> None)
      else Some (None, arr))"

definition DArray_clear :: "'a DArray \<Rightarrow> 'a DArray" where
  "DArray_clear arr = arr\<lparr>da_contents := [], da_el_sz := 0, da_end := 0, da_max := 0\<rparr>"

text \<open>\<open>fresh\<close> is what the grown block holds behind the copied entries; \<open>None\<close> is a failed allocation.
  \<open>max\<close> is set in either case.\<close>

definition DArray_resize :: "'a option list option \<Rightarrow> 'a DArray \<Rightarrow> int \<Rightarrow> int \<times> 'a DArray" where
  "DArray_resize fresh arr new_sz =
     (let a = arr\<lparr>da_max := new_sz\<rparr> in
      case fresh of
        None \<Rightarrow> (- 1, a)
      | Some junk \<Rightarrow> (0, a\<lparr>da_contents := take (nat new_sz) (da_contents arr @ junk)\<rparr>))"

definition DArray_expand :: "'a option list option \<Rightarrow> 'a DArray \<Rightarrow> int \<times> 'a DArray" where
  "DArray_expand fresh arr =
     (let old_max = da_max arr;
          step0 = (if old_max > 100 then 5 * 2 else 5);
          step = (if step0 > 1000 then 1000 else step0)
      in DArray_resize fresh arr (old_max + step))"

subsection \<open>Hash map\<close>

fun hash_chars :: "u8 list \<Rightarrow> u32 \<Rightarrow> u32" where
  "hash_chars [] hash = hash"
| "hash_chars (c # cs) hash =
     (let h1 = hash + ucast c; h2 = h1 + push_bit 10 h1 in hash_chars cs (h2 XOR drop_bit 6 h2))"

definition str_hash_fn :: "u8 list \<Rightarrow> u32" where
  "str_hash_fn skey =
     (let h0 = hash_chars skey 0; h1 = h0 + push_bit 3 h0; h2 = h1 XOR drop_bit 11 h1
      in h2 + push_bit 15 h2)"

definition str_equal_fn :: "u8 list \<Rightarrow> u8 list \<Rightarrow> bool" where "str_equal_fn a b \<longleftrightarrow> a = b"

record 'k HashmapNode =
  hn_key :: 'k
  hn_value :: u32
  hn_hash :: u32

record 'k Hashmap =
  hm_buckets :: "'k HashmapNode DArray DArray"
  hm_bucket_num :: u32

definition Hashmap_create :: "'k Hashmap" where
  "Hashmap_create = \<lparr>hm_buckets = (DArray_create 4 8)\<lparr>da_end := 8\<rparr>, hm_bucket_num = 8\<rparr>"

definition Hashmap_node_create :: "u32 \<Rightarrow> 'k \<Rightarrow> u32 \<Rightarrow> 'k HashmapNode" where
  "Hashmap_node_create hash key val = \<lparr>hn_key = key, hn_value = val, hn_hash = hash\<rparr>"

text \<open>The hash, the index of the bucket, the bucket if there is one, and the map, in which a missing
  bucket was created on request.\<close>

definition Hashmap_find_bucket ::
    "('k \<Rightarrow> u8 list) \<Rightarrow> 'k Hashmap \<Rightarrow> 'k \<Rightarrow> bool \<Rightarrow> (u32 \<times> int \<times> 'k HashmapNode DArray option \<times> 'k Hashmap) option" where
  "Hashmap_find_bucket str m key create =
     (let hash = str_hash_fn (str key); bucket_index = uint (hash mod hm_bucket_num m) in
      case DArray_get (hm_buckets m) bucket_index of
        None \<Rightarrow> None
      | Some (Some b) \<Rightarrow> Some (hash, bucket_index, Some b, m)
      | Some None \<Rightarrow>
          if \<not> create then Some (hash, bucket_index, None, m)
          else let b = DArray_create 4 10 in
               map_option (\<lambda>bs. (hash, bucket_index, Some b, m\<lparr>hm_buckets := bs\<rparr>))
                 (DArray_set (hm_buckets m) bucket_index (Some b)))"

text \<open>A change of a bucket, which the array of buckets points to.\<close>

definition update_bucket :: "int \<Rightarrow> 'k HashmapNode DArray \<Rightarrow> 'k Hashmap \<Rightarrow> 'k Hashmap" where
  "update_bucket i b m = m\<lparr>hm_buckets := (hm_buckets m)\<lparr>da_contents := (da_contents (hm_buckets m))[nat i := Some b]\<rparr>\<rparr>"

definition Hashmap_set :: "('k \<Rightarrow> u8 list) \<Rightarrow> 'k Hashmap \<Rightarrow> 'k \<Rightarrow> u32 \<Rightarrow> 'k Hashmap option" where
  "Hashmap_set str m key data =
     (case Hashmap_find_bucket str m key True of
        Some (hash, i, Some b, m1) \<Rightarrow>
          map_option (\<lambda>b'. update_bucket i b' m1) (DArray_push b (Hashmap_node_create hash key data))
      | _ \<Rightarrow> None)"

fun get_node_from :: "('k \<Rightarrow> u8 list) \<Rightarrow> u32 \<Rightarrow> 'k HashmapNode DArray \<Rightarrow> 'k \<Rightarrow> nat \<Rightarrow> int \<Rightarrow> int option" where
  "get_node_from str hash b key 0 i = Some (- 1)"
| "get_node_from str hash b key (Suc n) i =
     (case DArray_get b i of
        Some (Some node) \<Rightarrow>
          if hn_hash node = hash \<and> str_equal_fn (str (hn_key node)) (str key) then Some i
          else get_node_from str hash b key n (i + 1)
      | _ \<Rightarrow> None)"

definition Hashmap_get_node :: "('k \<Rightarrow> u8 list) \<Rightarrow> u32 \<Rightarrow> 'k HashmapNode DArray \<Rightarrow> 'k \<Rightarrow> int option" where
  "Hashmap_get_node str hash b key = get_node_from str hash b key (nat (da_end b)) 0"

definition Hashmap_get :: "('k \<Rightarrow> u8 list) \<Rightarrow> 'k Hashmap \<Rightarrow> 'k \<Rightarrow> u32 option" where
  "Hashmap_get str m key =
     (case Hashmap_find_bucket str m key False of
        None \<Rightarrow> None
      | Some (_, _, None, _) \<Rightarrow> Some 0
      | Some (hash, _, Some b, _) \<Rightarrow>
          (case Hashmap_get_node str hash b key of
             None \<Rightarrow> None
           | Some i \<Rightarrow>
               if i = - 1 then Some 0
               else case DArray_get b i of Some (Some node) \<Rightarrow> Some (hn_value node) | _ \<Rightarrow> None))"

text \<open>The bucket is used without a test for NULL. The last node moves into the gap unless it is the
  removed one.\<close>

definition Hashmap_delete :: "('k \<Rightarrow> u8 list) \<Rightarrow> 'k Hashmap \<Rightarrow> 'k \<Rightarrow> (u32 \<times> 'k Hashmap) option" where
  "Hashmap_delete str m key =
     (case Hashmap_find_bucket str m key False of
        Some (hash, bi, Some b, _) \<Rightarrow>
          (case Hashmap_get_node str hash b key of
             None \<Rightarrow> None
           | Some i \<Rightarrow>
               if i = - 1 then Some (0, m)
               else
                 (case (DArray_get b i, DArray_pop b) of
                    (Some (Some cur), Some (tail, b1)) \<Rightarrow>
                      map_option (\<lambda>b2. (hn_value cur, update_bucket bi b2 m))
                        (if i \<noteq> da_end b - 1 then DArray_set b1 i tail else Some b1)
                  | _ \<Rightarrow> None))
      | _ \<Rightarrow> None)"

subsection \<open>Arrays as lists\<close>

definition elems :: "'a DArray \<Rightarrow> 'a list" where
  "elems b = map the (take (nat (da_end b)) (da_contents b))"

definition darr_ok :: "'a DArray \<Rightarrow> bool" where
  "darr_ok b \<longleftrightarrow> 0 \<le> da_end b \<and> da_end b \<le> da_max b \<and> da_max b = int (length (da_contents b)) \<and>
     (\<forall>i < nat (da_end b). da_contents b ! i \<noteq> None)"

lemma length_elems: "darr_ok b \<Longrightarrow> length (elems b) = nat (da_end b)"
  by (auto simp: elems_def darr_ok_def)

lemma get_elem: "darr_ok b \<Longrightarrow> i < length (elems b) \<Longrightarrow> DArray_get b (int i) = Some (Some (elems b ! i))"
  by (auto simp: DArray_get_def load_at_def elems_def darr_ok_def)

lemma create_ok: "darr_ok (DArray_create el n)" "elems (DArray_create el n) = []"
  by (simp_all add: darr_ok_def DArray_create_def elems_def)

lemma push_ok:
  assumes "darr_ok b" "da_end b < da_max b"
  shows "\<exists>b'. DArray_push b x = Some b' \<and> darr_ok b' \<and> elems b' = elems b @ [x] \<and> da_max b' = da_max b"
proof -
  let ?n = "nat (da_end b)"
  have n: "?n < length (da_contents b)" "nat (da_end b + 1) = Suc ?n" using assms by (auto simp: darr_ok_def)
  have "take (Suc ?n) ((da_contents b)[?n := Some x]) = take ?n (da_contents b) @ [Some x]"
    using n(1) by (simp add: take_Suc_conv_app_nth)
  then show ?thesis
    using assms n by (auto simp: DArray_push_def store_at_def darr_ok_def elems_def nth_list_update less_Suc_eq)
qed

lemma push_full: "darr_ok b \<Longrightarrow> da_end b = da_max b \<Longrightarrow> DArray_push b x = None"
  by (simp add: DArray_push_def store_at_def darr_ok_def)

lemma pop_ok:
  assumes "darr_ok b" "elems b \<noteq> []"
  shows "\<exists>b'. DArray_pop b = Some (Some (last (elems b)), b') \<and> darr_ok b' \<and> elems b' = butlast (elems b) \<and>
    da_max b' = da_max b"
proof -
  let ?n = "nat (da_end b) - 1"
  have n: "da_end b > 0" "?n < length (da_contents b)" "nat (da_end b) = Suc ?n" "nat (da_end b - 1) = ?n"
      "da_contents b ! ?n \<noteq> None"
    using assms by (auto simp: darr_ok_def elems_def nat_eq_iff)
  have l: "take (Suc ?n) (da_contents b) = take ?n (da_contents b) @ [da_contents b ! ?n]"
    using n(2) by (rule take_Suc_conv_app_nth)
  then show ?thesis
    using assms n by (auto simp: DArray_pop_def load_at_def store_at_def darr_ok_def elems_def nth_list_update
      simp del: take_Suc)
qed

lemma set_ok:
  assumes "darr_ok b" "i < length (elems b)"
  shows "\<exists>b'. DArray_set b (int i) (Some x) = Some b' \<and> darr_ok b' \<and> elems b' = (elems b)[i := x] \<and> da_max b' = da_max b"
  using assms
  by (auto simp: DArray_set_def store_at_def darr_ok_def elems_def nth_list_update map_update take_update_swap)

text \<open>The scan of a bucket finds the first node with the hash and the string.\<close>

fun index_of :: "('a \<Rightarrow> bool) \<Rightarrow> 'a list \<Rightarrow> nat option" where
  "index_of p [] = None"
| "index_of p (x # xs) = (if p x then Some 0 else map_option Suc (index_of p xs))"

lemma index_of_Some: "index_of p xs = Some i \<Longrightarrow> i < length xs \<and> p (xs ! i) \<and> List.find p xs = Some (xs ! i)"
  by (induction xs arbitrary: i) (auto split: if_splits)

lemma index_of_None: "index_of p xs = None \<longleftrightarrow> List.find p xs = None"
  by (induction xs) auto

lemma get_node_spec:
  assumes "darr_ok b" "j + n = length (elems b)"
  shows "get_node_from str hash b key n (int j) =
    Some (case index_of (\<lambda>nd. hn_hash nd = hash \<and> str (hn_key nd) = str key) (drop j (elems b)) of
            None \<Rightarrow> - 1 | Some t \<Rightarrow> int (j + t))"
  using assms(2)
proof (induction n arbitrary: j)
  case (Suc n)
  then have j: "j < length (elems b)" by simp
  have d: "drop j (elems b) = elems b ! j # drop (Suc j) (elems b)" using j by (simp add: Cons_nth_drop_Suc)
  have "get_node_from str hash b key n (int (Suc j)) =
    Some (case index_of (\<lambda>nd. hn_hash nd = hash \<and> str (hn_key nd) = str key) (drop (Suc j) (elems b)) of
            None \<Rightarrow> - 1 | Some t \<Rightarrow> int (Suc j + t))" using Suc.IH [of "Suc j"] Suc.prems by linarith
  then show ?case
    using get_elem [OF assms(1) j] d by (auto simp: str_equal_fn_def ac_simps split: option.splits)
qed simp


subsection \<open>The map as a finite function\<close>

text \<open>From here on keys are strings: no key changes while the map holds it.\<close>

type_synonym smap = "u8 list Hashmap"

definition bidx :: "u8 list \<Rightarrow> nat" where "bidx k = unat (str_hash_fn k mod 8)"

definition bucket_at :: "smap \<Rightarrow> nat \<Rightarrow> u8 list HashmapNode DArray option" where
  "bucket_at m i = da_contents (hm_buckets m) ! i"

definition nodes_at :: "smap \<Rightarrow> nat \<Rightarrow> u8 list HashmapNode list" where
  "nodes_at m i = (case bucket_at m i of None \<Rightarrow> [] | Some b \<Rightarrow> elems b)"

definition node_ok :: "nat \<Rightarrow> u8 list HashmapNode \<Rightarrow> bool" where
  "node_ok i nd \<longleftrightarrow> hn_hash nd = str_hash_fn (hn_key nd) \<and> bidx (hn_key nd) = i"

definition bucket_ok :: "nat \<Rightarrow> u8 list HashmapNode DArray \<Rightarrow> bool" where
  "bucket_ok i b \<longleftrightarrow> darr_ok b \<and> da_max b = 10 \<and> list_all (node_ok i) (elems b) \<and> distinct (map hn_key (elems b))"

definition hm_inv :: "smap \<Rightarrow> bool" where
  "hm_inv m \<longleftrightarrow> hm_bucket_num m = 8 \<and> da_max (hm_buckets m) = 8 \<and> da_end (hm_buckets m) = 8 \<and>
     length (da_contents (hm_buckets m)) = 8 \<and>
     (\<forall>i < 8. case bucket_at m i of None \<Rightarrow> True | Some b \<Rightarrow> bucket_ok i b)"

definition hm_lookup :: "smap \<Rightarrow> u8 list \<Rightarrow> u32" where
  "hm_lookup m k = (case List.find (\<lambda>nd. hn_key nd = k) (nodes_at m (bidx k)) of None \<Rightarrow> 0 | Some nd \<Rightarrow> hn_value nd)"

lemma bidx_less: "bidx k < 8"
  by (simp add: bidx_def unat_mod)

lemma uint_bidx: "uint (str_hash_fn k mod 8) = int (bidx k)"
  by (simp add: bidx_def)

lemma hm_invD:
  "hm_inv m \<Longrightarrow> bucket_at m i = Some b \<Longrightarrow> i < 8 \<Longrightarrow> bucket_ok i b"
  by (auto simp: hm_inv_def dest!: spec [of _ i])

lemma get_bucket:
  "hm_inv m \<Longrightarrow> DArray_get (hm_buckets m) (uint (str_hash_fn k mod 8)) = Some (bucket_at m (bidx k))"
  using bidx_less [of k] by (simp add: DArray_get_def load_at_def hm_inv_def bucket_at_def uint_bidx del: uint_mod)

lemma find_cong_set: "(\<And>x. x \<in> set xs \<Longrightarrow> p x = q x) \<Longrightarrow> index_of p xs = index_of q xs"
  by (induction xs) auto

lemma get_node_bucket:
  assumes "bucket_ok i b"
  shows "Hashmap_get_node (\<lambda>s. s) (str_hash_fn k) b k =
    Some (case index_of (\<lambda>nd. hn_key nd = k) (elems b) of None \<Rightarrow> - 1 | Some t \<Rightarrow> int t)"
proof -
  have d: "darr_ok b" using assms by (simp add: bucket_ok_def)
  have "index_of (\<lambda>nd. hn_hash nd = str_hash_fn k \<and> hn_key nd = k) (elems b) =
      index_of (\<lambda>nd. hn_key nd = k) (elems b)"
    using assms by (intro find_cong_set) (auto simp: bucket_ok_def list_all_iff node_ok_def)
  then show ?thesis
    using get_node_spec [OF d, of 0 "nat (da_end b)" "\<lambda>s. s" "str_hash_fn k" k] length_elems [OF d]
    by (simp add: Hashmap_get_node_def split: option.splits)
qed

lemma find_bucket_some:
  "hm_inv m \<Longrightarrow> bucket_at m (bidx k) = Some b \<Longrightarrow>
     Hashmap_find_bucket (\<lambda>s. s) m k c = Some (str_hash_fn k, int (bidx k), Some b, m)"
  using get_bucket [of m k] by (simp add: Hashmap_find_bucket_def hm_inv_def Let_def uint_bidx del: uint_mod)

lemma find_bucket_none:
  "hm_inv m \<Longrightarrow> bucket_at m (bidx k) = None \<Longrightarrow>
     Hashmap_find_bucket (\<lambda>s. s) m k False = Some (str_hash_fn k, int (bidx k), None, m)"
  using get_bucket [of m k] by (simp add: Hashmap_find_bucket_def hm_inv_def Let_def uint_bidx del: uint_mod)

lemma find_bucket_new:
  "hm_inv m \<Longrightarrow> bucket_at m (bidx k) = None \<Longrightarrow>
     Hashmap_find_bucket (\<lambda>s. s) m k True =
       Some (str_hash_fn k, int (bidx k), Some (DArray_create 4 10), update_bucket (int (bidx k)) (DArray_create 4 10) m)"
  using get_bucket [of m k] bidx_less [of k]
  by (simp add: Hashmap_find_bucket_def hm_inv_def Let_def uint_bidx DArray_set_def store_at_def update_bucket_def del: uint_mod)

lemma get_is_lookup:
  assumes "hm_inv m"
  shows "Hashmap_get (\<lambda>s. s) m k = Some (hm_lookup m k)"
proof (cases "bucket_at m (bidx k)")
  case None
  then show ?thesis
    by (simp add: Hashmap_get_def find_bucket_none [OF assms] hm_lookup_def nodes_at_def)
next
  case (Some b)
  then have b: "bucket_ok (bidx k) b" "darr_ok b"
    using hm_invD [OF assms _ bidx_less] by (auto simp: bucket_ok_def)
  show ?thesis
    using Some get_elem [OF b(2)]
    by (cases "index_of (\<lambda>nd. hn_key nd = k) (elems b)")
      (auto simp: Hashmap_get_def find_bucket_some [OF assms] hm_lookup_def nodes_at_def
        get_node_bucket [OF b(1)] index_of_None [THEN iffD1] dest: index_of_Some)
qed

text \<open>Replacing a bucket by a sound one.\<close>

lemma update_bucket_at:
  "hm_inv m \<Longrightarrow> i < 8 \<Longrightarrow> bucket_at (update_bucket (int i) b m) j = (if j = i then Some b else bucket_at m j)"
  by (simp add: bucket_at_def update_bucket_def hm_inv_def nth_list_update)

lemma update_bucket_inv:
  assumes "hm_inv m" "i < 8" "bucket_ok i b"
  shows "hm_inv (update_bucket (int i) b m)"
proof -
  have "case bucket_at (update_bucket (int i) b m) j of None \<Rightarrow> True | Some b \<Rightarrow> bucket_ok j b" if "j < 8" for j
    using hm_invD [OF assms(1) _ that] assms that by (auto simp: update_bucket_at split: option.splits)
  then show ?thesis
    using assms(1) by (simp add: hm_inv_def) (simp add: update_bucket_def)
qed

lemma update_bucket_twice: "update_bucket i b (update_bucket i c m) = update_bucket i b m"
  by (simp add: update_bucket_def)

lemma update_bucket_nodes:
  "hm_inv m \<Longrightarrow> i < 8 \<Longrightarrow> nodes_at (update_bucket (int i) b m) j = (if j = i then elems b else nodes_at m j)"
  by (simp add: nodes_at_def update_bucket_at)

lemma bucket_ok_create: "bucket_ok i (DArray_create 4 10)"
  by (simp add: bucket_ok_def create_ok) (simp add: DArray_create_def)

text \<open>The bucket a \<open>Hashmap_set\<close> works on: the old one, or a new empty one.\<close>

lemma find_bucket_create:
  assumes "hm_inv m"
  obtains b m1 where "Hashmap_find_bucket (\<lambda>s. s) m k True = Some (str_hash_fn k, int (bidx k), Some b, m1)"
    "bucket_ok (bidx k) b" "elems b = nodes_at m (bidx k)"
    "\<forall>b'. update_bucket (int (bidx k)) b' m1 = update_bucket (int (bidx k)) b' m"
proof (cases "bucket_at m (bidx k)")
  case None
  then show ?thesis
    by (intro that [OF find_bucket_new [OF assms None] bucket_ok_create])
      (simp_all add: nodes_at_def create_ok update_bucket_twice)
next
  case (Some b)
  then show ?thesis
    by (intro that [OF find_bucket_some [OF assms Some] hm_invD [OF assms Some bidx_less]]) (simp_all add: nodes_at_def)
qed

definition hm_admits :: "smap \<Rightarrow> u8 list \<Rightarrow> u32 \<Rightarrow> bool" where
  "hm_admits m k v \<longleftrightarrow> k \<notin> hn_key ` set (nodes_at m (bidx k)) \<and> length (nodes_at m (bidx k)) < 10"

lemma set_spec:
  assumes "hm_inv m" "hm_admits m k v"
  shows "\<exists>m'. Hashmap_set (\<lambda>s. s) m k v = Some m' \<and> hm_inv m' \<and>
    (\<forall>i. nodes_at m' i = (if i = bidx k then nodes_at m i @ [\<lparr>hn_key = k, hn_value = v, hn_hash = str_hash_fn k\<rparr>]
                       else nodes_at m i))"
proof -
  let ?nd = "\<lparr>hn_key = k, hn_value = v, hn_hash = str_hash_fn k\<rparr>"
  obtain b m1 where f: "Hashmap_find_bucket (\<lambda>s. s) m k True = Some (str_hash_fn k, int (bidx k), Some b, m1)"
    and b: "bucket_ok (bidx k) b" "elems b = nodes_at m (bidx k)"
    and u: "\<forall>b'. update_bucket (int (bidx k)) b' m1 = update_bucket (int (bidx k)) b' m"
    by (rule find_bucket_create [OF assms(1), of k])
  have "da_end b < da_max b"
    using b assms(2) length_elems [of b] by (auto simp: bucket_ok_def hm_admits_def darr_ok_def)
  then obtain b' where p: "DArray_push b ?nd = Some b'" "darr_ok b'" "elems b' = elems b @ [?nd]" "da_max b' = da_max b"
    using push_ok [of b ?nd] b(1) by (auto simp: bucket_ok_def)
  have ok: "bucket_ok (bidx k) b'"
    using p b assms(2) by (auto simp: bucket_ok_def node_ok_def hm_admits_def)
  have "Hashmap_set (\<lambda>s. s) m k v = Some (update_bucket (int (bidx k)) b' m)"
    using f p(1) u by (simp add: Hashmap_set_def Hashmap_node_create_def)
  then show ?thesis
    using update_bucket_inv [OF assms(1) bidx_less ok] update_bucket_nodes [OF assms(1) bidx_less] p(3) b(2) by simp
qed

text \<open>A full bucket: the eleventh node is written behind the block.\<close>

lemma set_full:
  assumes "hm_inv m" "length (nodes_at m (bidx k)) = 10"
  shows "Hashmap_set (\<lambda>s. s) m k v = None"
proof -
  obtain b m1 where f: "Hashmap_find_bucket (\<lambda>s. s) m k True = Some (str_hash_fn k, int (bidx k), Some b, m1)"
    and b: "bucket_ok (bidx k) b" "elems b = nodes_at m (bidx k)"
    by (rule find_bucket_create [OF assms(1), of k])
  have "da_end b = da_max b"
    using b assms(2) length_elems [of b] by (auto simp: bucket_ok_def darr_ok_def)
  then show ?thesis
    using f b push_full [of b] by (simp add: Hashmap_set_def bucket_ok_def)
qed

lemma find_key_iff:
  assumes "distinct (map hn_key xs)"
  shows "List.find (\<lambda>nd. hn_key nd = k) xs = Some nd \<longleftrightarrow> nd \<in> set xs \<and> hn_key nd = k"
  using assms by (induction xs) (auto simp: image_iff)

lemma lookup_in:
  assumes "hm_inv m" "nd \<in> set (nodes_at m (bidx (hn_key nd)))"
  shows "hm_lookup m (hn_key nd) = hn_value nd"
proof -
  have "distinct (map hn_key (nodes_at m (bidx (hn_key nd))))"
    using hm_invD [OF assms(1) _ bidx_less] by (auto simp: nodes_at_def bucket_ok_def split: option.splits)
  then show ?thesis
    using find_key_iff [of "nodes_at m (bidx (hn_key nd))" "hn_key nd" nd] assms(2) by (simp add: hm_lookup_def)
qed

lemma lookup_out: "k \<notin> hn_key ` set (nodes_at m (bidx k)) \<Longrightarrow> hm_lookup m k = 0"
  by (auto simp: hm_lookup_def find_Some_iff image_iff split: option.splits) (metis nth_mem)

lemma lookup_cong_nodes:
  assumes "hm_inv m" "hm_inv m'"
    and "{nd \<in> set (nodes_at m' (bidx k)). hn_key nd = k} = {nd \<in> set (nodes_at m (bidx k)). hn_key nd = k}"
  shows "hm_lookup m' k = hm_lookup m k"
proof (cases "k \<in> hn_key ` set (nodes_at m (bidx k))")
  case True
  then obtain nd where nd: "nd \<in> set (nodes_at m (bidx k))" "hn_key nd = k" by auto
  then have "nd \<in> set (nodes_at m' (bidx k))" using assms(3) by auto
  then show ?thesis using lookup_in [OF assms(1), of nd] lookup_in [OF assms(2), of nd] nd by simp
next
  case False
  then have "k \<notin> hn_key ` set (nodes_at m' (bidx k))" using assms(3) by auto
  then show ?thesis using False by (simp add: lookup_out)
qed

text \<open>Insertion, as the interface states it.\<close>

definition hm_put :: "smap \<Rightarrow> u8 list \<Rightarrow> u32 \<Rightarrow> smap" where
  "hm_put m k v = (case Hashmap_set (\<lambda>s. s) m k v of Some m' \<Rightarrow> m' | None \<Rightarrow> m)"

lemma hm_put_inv: "hm_inv m \<Longrightarrow> hm_admits m k v \<Longrightarrow> hm_inv (hm_put m k v)"
  using set_spec [of m k v] by (auto simp: hm_put_def)

lemma hm_put_lookup:
  assumes "hm_inv m" "hm_admits m k v"
  shows "hm_lookup (hm_put m k v) j = (if j = k then v else hm_lookup m j)"
proof -
  let ?nd = "\<lparr>hn_key = k, hn_value = v, hn_hash = str_hash_fn k\<rparr>"
  have n: "nodes_at (hm_put m k v) i = (if i = bidx k then nodes_at m i @ [?nd] else nodes_at m i)" for i
    using set_spec [OF assms] by (auto simp: hm_put_def)
  have i: "hm_inv (hm_put m k v)" using hm_put_inv [OF assms] .
  show ?thesis
  proof (cases "j = k")
    case True
    then show ?thesis using lookup_in [OF i, of ?nd] by (simp add: n)
  next
    case False
    then have "{nd \<in> set (nodes_at (hm_put m k v) (bidx j)). hn_key nd = j} =
        {nd \<in> set (nodes_at m (bidx j)). hn_key nd = j}" by (auto simp: n)
    then show ?thesis using lookup_cong_nodes [OF assms(1) i] False by simp
  qed
qed

interpretation hm: lookup_table hm_inv hm_lookup hm_put hm_admits
  by unfold_locales (simp_all add: hm_put_inv hm_put_lookup)

lemma hm_inv_create: "hm_inv Hashmap_create"
  by (auto simp: hm_inv_def Hashmap_create_def DArray_create_def bucket_at_def nth_Cons' eval_nat_numeral)

lemma nodes_create: "i < 8 \<Longrightarrow> nodes_at Hashmap_create i = []"
  by (auto simp: nodes_at_def Hashmap_create_def DArray_create_def bucket_at_def)

lemma lookup_create: "hm_lookup Hashmap_create k = 0"
  by (simp add: hm_lookup_def nodes_create bidx_less)

text \<open>C25: Strings bound one after the other in a new map, each of them absent before and its bucket not
  full, read as they were bound; every other string reads as NULL.\<close>

theorem hashmap_lookup:
  assumes "admits_all hm_put hm_admits Hashmap_create kvs"
  shows "Hashmap_get (\<lambda>s. s) (puts hm_put Hashmap_create kvs) k =
    Some (case map_of (rev kvs) k of None \<Rightarrow> 0 | Some v \<Rightarrow> v)"
  using get_is_lookup [OF hm.puts_inv [OF hm_inv_create assms]] hm.get_puts [OF hm_inv_create assms, of k]
  by (simp add: lookup_create split: option.splits)

theorem hashmap_lookup_witness:
  "admits_all hm_put hm_admits Hashmap_create [([107, 49], 7), ([107, 50], 8)] \<and>
   Hashmap_get (\<lambda>s. s) (puts hm_put Hashmap_create [([107, 49], 7), ([107, 50], 8)]) [107, 49] = Some 7"
proof -
  have "admits_all hm_put hm_admits Hashmap_create [([107, 49], 7), ([107, 50], 8)]"
    by code_simp
  then show ?thesis using hashmap_lookup [of "[([107, 49], 7), ([107, 50], 8)]" "[107, 49]"] by simp
qed

subsection \<open>Deletion\<close>

definition without_at :: "nat \<Rightarrow> 'a list \<Rightarrow> 'a list" where
  "without_at i xs = (if i \<noteq> length xs - 1 then (butlast xs)[i := last xs] else butlast xs)"

lemma mset_without_at:
  assumes "i < length xs"
  shows "mset (without_at i xs) = mset (remove1 (xs ! i) xs)"
proof -
  have "xs \<noteq> []" using assms by auto
  then obtain ys y where xs: "xs = ys @ [y]" by (metis rev_exhaust)
  show ?thesis
  proof (cases "i = length ys")
    case True
    then show ?thesis by (simp add: without_at_def xs)
  next
    case False
    then have i: "i < length ys" using assms xs by simp
    then show ?thesis using False by (simp add: without_at_def xs mset_update nth_append)
  qed
qed

lemma set_without_at: "i < length xs \<Longrightarrow> distinct xs \<Longrightarrow> set (without_at i xs) = set xs - {xs ! i}"
  using mset_eq_setD [OF mset_without_at] by (metis set_remove1_eq)

lemma distinct_without_at:
  assumes "i < length xs" "distinct (map f xs)"
  shows "distinct (map f (without_at i xs))"
proof -
  have "distinct (map f (remove1 (xs ! i) xs))"
    using assms(2) by (auto simp: distinct_map intro: inj_on_subset dest: notin_set_remove1)
  moreover have "mset (map f (without_at i xs)) = mset (map f (remove1 (xs ! i) xs))"
    using mset_without_at [OF assms(1)] by simp
  ultimately show ?thesis using mset_eq_imp_distinct_iff by blast
qed

text \<open>The removal of a node from its bucket.\<close>

lemma bucket_remove:
  assumes "darr_ok b" "i < length (elems b)"
  shows "\<exists>tail b1 b2. DArray_pop b = Some (tail, b1) \<and>
    (if int i \<noteq> da_end b - 1 then DArray_set b1 (int i) tail else Some b1) = Some b2 \<and>
    darr_ok b2 \<and> da_max b2 = da_max b \<and> elems b2 = without_at i (elems b)"
proof -
  have ne: "elems b \<noteq> []" using assms(2) by auto
  obtain b1 where p: "DArray_pop b = Some (Some (last (elems b)), b1)" "darr_ok b1"
      "elems b1 = butlast (elems b)" "da_max b1 = da_max b"
    using pop_ok [OF assms(1) ne] by auto
  have e: "int i \<noteq> da_end b - 1 \<longleftrightarrow> i \<noteq> length (elems b) - 1"
    using assms length_elems [OF assms(1)] by (auto simp: darr_ok_def)
  show ?thesis
  proof (cases "i = length (elems b) - 1")
    case True
    then show ?thesis using p e by (simp add: without_at_def)
  next
    case False
    then have "i < length (elems b1)" using p(3) assms(2) by simp
    then show ?thesis
      using set_ok [OF p(2), of i "last (elems b)"] p False e by (auto simp: without_at_def)
  qed
qed

lemma delete_spec:
  assumes "hm_inv m" "bucket_at m (bidx k) = Some b" "index_of (\<lambda>nd. hn_key nd = k) (elems b) = Some i"
  shows "\<exists>b2. Hashmap_delete (\<lambda>s. s) m k = Some (hn_value (elems b ! i), update_bucket (int (bidx k)) b2 m) \<and>
    bucket_ok (bidx k) b2 \<and> elems b2 = without_at i (elems b)"
proof -
  have b: "bucket_ok (bidx k) b" "darr_ok b" "distinct (map hn_key (elems b))"
    using hm_invD [OF assms(1,2) bidx_less] by (auto simp: bucket_ok_def)
  have i: "i < length (elems b)" using index_of_Some [OF assms(3)] by simp
  obtain tail b1 b2 where r: "DArray_pop b = Some (tail, b1)"
      "(if int i \<noteq> da_end b - 1 then DArray_set b1 (int i) tail else Some b1) = Some b2"
      "darr_ok b2" "da_max b2 = da_max b" "elems b2 = without_at i (elems b)"
    using bucket_remove [OF b(2) i] by auto
  have "set (without_at i (elems b)) \<subseteq> set (elems b)"
    using set_without_at [OF i] b(3) by (auto simp: distinct_map)
  then have "bucket_ok (bidx k) b2"
    using b r distinct_without_at [OF i b(3)] by (auto simp: bucket_ok_def list_all_iff)
  moreover have "Hashmap_delete (\<lambda>s. s) m k = Some (hn_value (elems b ! i), update_bucket (int (bidx k)) b2 m)"
    using r(1,2) get_elem [OF b(2) i]
    by (auto simp: Hashmap_delete_def find_bucket_some [OF assms(1,2)] get_node_bucket [OF b(1)] assms(3))
  ultimately show ?thesis using r(5) by blast
qed

text \<open>A deletion in a map that has the bucket of the key returns what the key reads as, makes it
  read as NULL and changes no other key, whether the key was bound or not.\<close>

theorem hashmap_delete:
  assumes "hm_inv m" "bucket_at m (bidx k) \<noteq> None"
  shows "\<exists>m' v. Hashmap_delete (\<lambda>s. s) m k = Some (v, m') \<and> Hashmap_get (\<lambda>s. s) m k = Some v \<and> hm_inv m' \<and>
    (\<forall>j. Hashmap_get (\<lambda>s. s) m' j = (if j = k then Some 0 else Hashmap_get (\<lambda>s. s) m j))"
proof -
  obtain b where at: "bucket_at m (bidx k) = Some b" using assms(2) by auto
  have b: "bucket_ok (bidx k) b" "distinct (elems b)" "nodes_at m (bidx k) = elems b" "distinct (map hn_key (elems b))"
    using hm_invD [OF assms(1) at bidx_less] at by (auto simp: bucket_ok_def nodes_at_def distinct_map)
  show ?thesis
  proof (cases "index_of (\<lambda>nd. hn_key nd = k) (elems b)")
    case None
    then have "hm_lookup m k = 0" using b(3) by (simp add: hm_lookup_def index_of_None)
    moreover have "Hashmap_delete (\<lambda>s. s) m k = Some (0, m)"
      by (simp add: Hashmap_delete_def find_bucket_some [OF assms(1) at] get_node_bucket [OF b(1)] None)
    ultimately show ?thesis using assms(1) get_is_lookup [OF assms(1)] by auto
  next
    case (Some i)
    let ?nd = "elems b ! i"
    have nd: "?nd \<in> set (nodes_at m (bidx k))" "hn_key ?nd = k" "i < length (elems b)"
      using index_of_Some [OF Some] b(3) by auto
    obtain b2 where d: "Hashmap_delete (\<lambda>s. s) m k = Some (hn_value ?nd, update_bucket (int (bidx k)) b2 m)"
        "bucket_ok (bidx k) b2" "elems b2 = without_at i (elems b)"
      using delete_spec [OF assms(1) at Some] by auto
    let ?m = "update_bucket (int (bidx k)) b2 m"
    have inv: "hm_inv ?m" using update_bucket_inv [OF assms(1) bidx_less d(2)] .
    have s: "set (nodes_at ?m j) = (if j = bidx k then set (nodes_at m j) - {?nd} else set (nodes_at m j))" for j
      using set_without_at [OF nd(3) b(2)] b(3) d(3) update_bucket_nodes [OF assms(1) bidx_less] by simp
    have "hm_lookup ?m k = 0"
      using b(4) nd by (intro lookup_out) (auto simp: s b(3) distinct_map dest: inj_onD)
    moreover have "hm_lookup ?m j = hm_lookup m j" if "j \<noteq> k" for j
      using that nd(2) by (intro lookup_cong_nodes [OF assms(1) inv]) (auto simp: s)
    ultimately show ?thesis
      using d(1) inv get_is_lookup [OF assms(1)] get_is_lookup [OF inv] lookup_in [OF assms(1), of ?nd] nd by auto
  qed
qed

theorem hashmap_delete_witness:
  "\<exists>m' v. Hashmap_delete (\<lambda>s. s) (hm_put Hashmap_create [107] 7) [107] = Some (v, m') \<and> hm_inv m' \<and>
     Hashmap_get (\<lambda>s. s) m' [107] = Some 0"
proof -
  have "hm_admits Hashmap_create [107] 7" "bucket_at (hm_put Hashmap_create [107] 7) (bidx [107]) \<noteq> None"
    by code_simp+
  then show ?thesis
    using hashmap_delete [of "hm_put Hashmap_create [107] 7" "[107]"] hm_put_inv [OF hm_inv_create] by auto
qed

text \<open>A deletion from a map that has no bucket for the key follows a NULL pointer.\<close>

lemma delete_no_bucket:
  "hm_inv m \<Longrightarrow> bucket_at m (bidx k) = None \<Longrightarrow> Hashmap_delete (\<lambda>s. s) m k = None"
  by (simp add: Hashmap_delete_def find_bucket_none)

lemma delete_from_empty: "Hashmap_delete (\<lambda>s. s) Hashmap_create k = None"
proof -
  have "bucket_at Hashmap_create (bidx k) = None"
    using bidx_less [of k] by (simp add: bucket_at_def Hashmap_create_def DArray_create_def)
  then show ?thesis using delete_no_bucket [OF hm_inv_create] by simp
qed

text \<open>Binding a key a second time keeps the first binding readable, and deleting the key then
  uncovers the second one.\<close>

lemma set_twice:
  "let m = hm_put (hm_put Hashmap_create [107] 1) [107] 2 in
   Hashmap_get (\<lambda>s. s) m [107] = Some 1 \<and>
   map_option (\<lambda>(v, m'). (v, Hashmap_get (\<lambda>s. s) m' [107])) (Hashmap_delete (\<lambda>s. s) m [107]) = Some (1, Some 2)"
  by code_simp

end
