(* ===== verification/Ebpf_Env.thy ===== *)
theory Ebpf_Env
  imports Ebpf_Vm "HOL-Library.Monad_Syntax"
begin

text \<open>
  The allocator of \<open>libebpf/src/ebpf_allocator.c\<close>, which counts what it hands out, and the list of loaded
  programs of \<open>libebpf/src/ebpf_env.c\<close>. The port's \<open>my_os_malloc\<close> and \<open>my_os_calloc\<close> are parameters: \<open>got\<close> is
  the address they return and what the block holds, \<open>None\<close> for NULL. A result \<open>None\<close> of an operation is
  an access outside a block.
\<close>

subsection \<open>Allocator\<close>

record heap =
  mem_size :: s32
  blocks :: "u32 \<Rightarrow> u8 list option"

type_synonym got = "(u32 \<times> u8 list) option"

definition take_block :: "got \<Rightarrow> heap \<Rightarrow> u32 \<times> heap" where
  "take_block g h = (case g of None \<Rightarrow> (0, h) | Some (a, bs) \<Rightarrow> (a, h\<lparr>blocks := (blocks h)(a \<mapsto> bs)\<rparr>))"

definition ebpf_malloc :: "got \<Rightarrow> u32 \<Rightarrow> heap \<Rightarrow> u32 \<times> heap" where
  "ebpf_malloc g sz h = take_block g (h\<lparr>mem_size := mem_size h + sz\<rparr>)"

definition ebpf_calloc :: "got \<Rightarrow> u32 \<Rightarrow> u32 \<Rightarrow> heap \<Rightarrow> u32 \<times> heap" where
  "ebpf_calloc g nelem elmsize h = take_block g (h\<lparr>mem_size := mem_size h + elmsize\<rparr>)"

definition ebpf_free :: "u32 \<Rightarrow> heap \<Rightarrow> heap" where
  "ebpf_free rmem h = h\<lparr>blocks := (blocks h)(rmem := None)\<rparr>"

definition get_ebpf_alloc_size :: "heap \<Rightarrow> s32" where "get_ebpf_alloc_size h = mem_size h"

definition copy_block :: "u32 \<Rightarrow> u32 \<Rightarrow> nat \<Rightarrow> heap \<Rightarrow> heap option" where
  "copy_block dst src n h =
     (case (blocks h dst, blocks h src) of
        (Some d, Some s) \<Rightarrow>
          if n \<le> length d \<and> n \<le> length s
          then Some (h\<lparr>blocks := (blocks h)(dst \<mapsto> take n s @ drop n d)\<rparr>) else None
      | _ \<Rightarrow> None)"

definition ebpf_realloc :: "got \<Rightarrow> u32 \<Rightarrow> u32 \<Rightarrow> u32 \<Rightarrow> heap \<Rightarrow> (u32 \<times> heap) option" where
  "ebpf_realloc g rmem orisize newsize h0 =
     (let h = h0\<lparr>mem_size := mem_size h0 + (newsize - orisize)\<rparr> in
      if newsize = 0 then Some (0, ebpf_free rmem h)
      else if rmem = 0 then Some (ebpf_malloc g newsize h)
      else if newsize \<le> orisize then Some (rmem, h)
      else
        let (pnew, h1) = ebpf_malloc g newsize h in
        if pnew \<noteq> 0 then map_option (\<lambda>h2. (pnew, ebpf_free rmem h2)) (copy_block pnew rmem (unat orisize) h1)
        else Some (pnew, h1))"

subsection \<open>Programs\<close>

record ebpf_prog =
  prog_id :: int
  pr_next :: u32
  pr_vm :: "ebpf_vm option"

record ebpf_env =
  prog_list :: u32
  pr_tail :: u32
  cur_size :: int
  progs :: "u32 \<Rightarrow> ebpf_prog option"

definition init_ubpf_env :: "ebpf_env \<Rightarrow> ebpf_env" where
  "init_ubpf_env e = e\<lparr>prog_list := 0, pr_tail := 0, cur_size := 0\<rparr>"

text \<open>\<open>a\<close> is the address of the new program; the allocations are taken to succeed as the code does not test
  them, except for the one inside \<open>ebpf_vm_load\<close>.\<close>

definition set_next :: "u32 \<Rightarrow> u32 \<Rightarrow> (u32 \<Rightarrow> ebpf_prog option) \<Rightarrow> (u32 \<Rightarrow> ebpf_prog option) option" where
  "set_next p a ps = map_option (\<lambda>pr. ps(p \<mapsto> pr\<lparr>pr_next := a\<rparr>)) (ps p)"

definition ebpf_add_prog :: "bool \<Rightarrow> u32 \<Rightarrow> u8 list \<Rightarrow> u32 \<Rightarrow> ebpf_env \<Rightarrow> (u32 \<times> ebpf_env) option" where
  "ebpf_add_prog code_ok a code code_len e = do {
     vm0 \<leftarrow> ebpf_create True;
     let (ret, vm) = ebpf_vm_load code_ok vm0 code code_len;
     let ps = (progs e)(a \<mapsto> \<lparr>prog_id = 0, pr_next = 0, pr_vm = Some vm\<rparr>);
     let e1 = (if prog_list e = 0 then e\<lparr>prog_list := a\<rparr> else e);
     ps1 \<leftarrow> (if pr_tail e1 \<noteq> 0 then set_next (pr_tail e1) a ps else Some ps);
     let e2 = e1\<lparr>pr_tail := a, cur_size := cur_size e1 + 1\<rparr>;
     pr \<leftarrow> ps1 a;
     Some (a, e2\<lparr>progs := ps1(a \<mapsto> pr\<lparr>prog_id := cur_size e2\<rparr>)\<rparr>)}"

text \<open>The program is freed and stays in the list.\<close>

definition ebpf_remove_prog ::
    "u32 \<Rightarrow> ebpf_helper_env option \<times> ebpf_env \<Rightarrow> (int \<times> ebpf_helper_env option \<times> ebpf_env) option" where
  "ebpf_remove_prog p = (\<lambda>(g, e).
     map_option (\<lambda>_. (0, ebpf_vm_destroy g, e\<lparr>progs := (progs e)(p := None)\<rparr>)) (progs e p))"

subsection \<open>The list\<close>

text \<open>\<open>chain ps p as\<close>: following \<open>next\<close> from \<open>p\<close> visits the addresses \<open>as\<close> and ends with NULL.\<close>

fun chain :: "(u32 \<Rightarrow> ebpf_prog option) \<Rightarrow> u32 \<Rightarrow> u32 list \<Rightarrow> bool" where
  "chain ps p [] \<longleftrightarrow> p = 0"
| "chain ps p (a # as) \<longleftrightarrow> p = a \<and> a \<noteq> 0 \<and> (case ps a of None \<Rightarrow> False | Some pr \<Rightarrow> chain ps (pr_next pr) as)"

definition ids :: "(u32 \<Rightarrow> ebpf_prog option) \<Rightarrow> u32 list \<Rightarrow> int list" where
  "ids ps as = map (\<lambda>a. case ps a of None \<Rightarrow> 0 | Some pr \<Rightarrow> prog_id pr) as"

text \<open>The environment holds the programs \<open>as\<close>, numbered from 1 in the order they were added.\<close>

definition env_holds :: "ebpf_env \<Rightarrow> u32 list \<Rightarrow> bool" where
  "env_holds e as \<longleftrightarrow> chain (progs e) (prog_list e) as \<and> distinct as \<and> cur_size e = int (length as) \<and>
     pr_tail e = (if as = [] then 0 else last as) \<and> ids (progs e) as = map int [1..<Suc (length as)]"

lemma chain_mono: "chain ps p as \<Longrightarrow> (\<And>a. a \<in> set as \<Longrightarrow> qs a = ps a) \<Longrightarrow> chain qs p as"
  by (induction as arbitrary: p) (auto split: option.splits)

lemma chain_snoc:
  assumes "chain ps p (as @ [t])" "ps t = Some pr" "distinct (as @ [t])" "a \<noteq> 0" "a \<notin> set (as @ [t])"
    "qs t = Some (pr\<lparr>pr_next := a\<rparr>)" "qs a = Some q" "pr_next q = 0" "\<And>x. x \<in> set as \<Longrightarrow> qs x = ps x"
  shows "chain qs p (as @ [t, a])"
  using assms(1,3,5,9)
proof (induction as arbitrary: p)
  case Nil
  then show ?case using assms by simp
next
  case (Cons x as)
  then show ?case by (auto split: option.splits)
qed

lemma chain_last: "chain ps p (as @ [t]) \<Longrightarrow> ps t \<noteq> None \<and> t \<noteq> 0 \<and> p \<noteq> 0"
  by (induction as arbitrary: p) (auto split: option.splits)

lemma chain_dom: "chain ps p as \<Longrightarrow> a \<in> set as \<Longrightarrow> ps a \<noteq> None"
  by (induction as arbitrary: p) (auto split: option.splits)

lemma ids_cong: "(\<And>x. x \<in> set as \<Longrightarrow> map_option prog_id (qs x) = map_option prog_id (ps x)) \<Longrightarrow> ids qs as = ids ps as"
  by (auto simp: ids_def split: option.splits) (metis option.map_disc_iff option.map_sel option.sel option.discI)+

text \<open>A program added to an environment comes last in its list and gets the next number.\<close>

theorem ebpf_add_prog_appends:
  assumes "env_holds e as" and "a \<noteq> 0" and "a \<notin> set as"
  shows "\<exists>e'. ebpf_add_prog ok a code len e = Some (a, e') \<and> env_holds e' (as @ [a])"
proof (cases as rule: rev_cases)
  case Nil
  then show ?thesis
    using assms by (auto simp: env_holds_def ebpf_add_prog_def ebpf_create_def ids_def split_beta Let_def)
next
  case (snoc bs t)
  have ch: "chain (progs e) (prog_list e) (bs @ [t])" and dist: "distinct (bs @ [t])" and tail: "pr_tail e = t"
    using assms(1) snoc by (simp_all add: env_holds_def)
  obtain pr where pr: "progs e t = Some pr" "t \<noteq> 0" "prog_list e \<noteq> 0" using chain_last [OF ch] by auto
  have ne: "t \<noteq> a" "a \<notin> set bs" using assms(3) snoc by auto
  define new where "new = \<lparr>prog_id = cur_size e + 1, pr_next = 0, pr_vm = Some (snd (ebpf_vm_load ok zero_vm code len))\<rparr>"
  define qs where "qs = (progs e)(t \<mapsto> pr\<lparr>pr_next := a\<rparr>, a \<mapsto> new)"
  have r: "ebpf_add_prog ok a code len e = Some (a, e\<lparr>pr_tail := a, cur_size := cur_size e + 1, progs := qs\<rparr>)"
    using pr ne tail
    by (simp add: ebpf_add_prog_def ebpf_create_def split_beta Let_def set_next_def qs_def new_def fun_upd_twist)
  have "chain qs (prog_list e) (bs @ [t, a])"
    by (rule chain_snoc [OF ch pr(1) dist assms(2)]) (use ne dist in \<open>auto simp: qs_def new_def\<close>)
  moreover have "ids qs as = ids (progs e) as"
    by (rule ids_cong) (use ne pr snoc in \<open>auto simp: qs_def\<close>)
  moreover have "ids qs (as @ [a]) = ids qs as @ [cur_size e + 1]" by (simp add: ids_def qs_def new_def)
  ultimately show ?thesis
    using r assms(1) snoc dist ne by (simp add: env_holds_def)
qed

definition one_prog :: ebpf_env where
  "one_prog = \<lparr>prog_list = 16, pr_tail = 16, cur_size = 1, progs = [16 \<mapsto> \<lparr>prog_id = 1, pr_next = 0, pr_vm = None\<rparr>]\<rparr>"

theorem ebpf_add_prog_appends_witness:
  "\<exists>e'. ebpf_add_prog True 32 [] 0 one_prog = Some (32, e') \<and> env_holds e' [16, 32]"
  using ebpf_add_prog_appends [of one_prog "[16]" 32 True "[]" 0]
  by (simp add: one_prog_def env_holds_def ids_def)

text \<open>After the removal of a program the list still leads to its freed block.\<close>

lemma remove_dangles:
  assumes "env_holds e as" "a \<in> set as"
  shows "\<exists>g' e'. ebpf_remove_prog a (g, e) = Some (0, g', e') \<and> prog_list e' = prog_list e \<and>
    cur_size e' = cur_size e \<and> \<not> chain (progs e') (prog_list e') as"
proof -
  have "progs e a \<noteq> None" using assms chain_dom by (auto simp: env_holds_def)
  then show ?thesis
    using assms chain_dom [of "(progs e)(a := None)" "prog_list e" as a]
    by (auto simp: ebpf_remove_prog_def)
qed

text \<open>Growing a block: the data is kept, the old block is freed, and \<open>mem_size\<close> counts the growth and the
  whole new block.\<close>

theorem ebpf_realloc_grows:
  assumes "blocks h p = Some s" and "length s = unat old" and "p \<noteq> 0" and "old < new"
    and "length bs = unat new" and "q \<noteq> 0" and "blocks h q = None"
  shows "\<exists>h'. ebpf_realloc (Some (q, bs)) p old new h = Some (q, h') \<and> blocks h' p = None \<and>
    blocks h' q = Some (s @ drop (unat old) bs) \<and> mem_size h' = mem_size h + (new - old) + new"
proof -
  have "new \<noteq> 0" "\<not> new \<le> old" "p \<noteq> q" "unat old \<le> unat new" using assms by (auto simp: word_less_nat_alt word_le_nat_alt)
  then show ?thesis
    using assms by (simp add: ebpf_realloc_def ebpf_malloc_def take_block_def copy_block_def ebpf_free_def Let_def)
qed

theorem ebpf_realloc_grows_witness:
  "\<exists>h'. ebpf_realloc (Some (64, [0, 0, 0])) 32 2 3 \<lparr>mem_size = 2, blocks = [32 \<mapsto> [5, 6]]\<rparr> = Some (64, h') \<and>
     blocks h' 64 = Some [5, 6, 0] \<and> mem_size h' = 6"
  using ebpf_realloc_grows [of "\<lparr>mem_size = 2, blocks = [32 \<mapsto> [5, 6]]\<rparr>" 32 "[5, 6]" 2 3 "[0, 0, 0]" 64] by auto

end
