(* ===== verification/Fixed_Points.thy ===== *)
theory Fixed_Points
  imports Monitor_Props
begin

text \<open>
  Fixed patch points, \<open>hotpatch/src/fixed_patch_points.c\<close>: the handler a patched function calls first,
  the dispatcher that runs the filter on the pushed registers, the macro that turns the handler's
  answer into an early return, and the vulnerable functions the repository demonstrates it on.
\<close>

definition FIXED_OP_PASS :: u32 where "FIXED_OP_PASS = 0x00010000"

subsection \<open>The frame\<close>

text \<open>The words of \<open>fixed_stack_frame\<close> from the stack pointer up: the pushed r0 to r3 and lr.\<close>

datatype fixed_field = R0_1 | R1_1 | R2_1 | R3 | LR

fun fixed_slot :: "fixed_field \<Rightarrow> nat" where
  "fixed_slot R0_1 = 0" | "fixed_slot R1_1 = 1" | "fixed_slot R2_1 = 2" | "fixed_slot R3 = 3"
| "fixed_slot LR = 4"

definition fixed_frame_size :: u32 where "fixed_frame_size = 20"

definition fixed_get :: "memory \<Rightarrow> u32 \<Rightarrow> fixed_field \<Rightarrow> u32 option" where
  "fixed_get m sp k = load32 m (slot sp (fixed_slot k))"

definition fixed_put :: "u32 \<Rightarrow> fixed_field \<Rightarrow> u32 \<Rightarrow> memory \<Rightarrow> memory option" where
  "fixed_put sp k v m = mem_store m (slot sp (fixed_slot k)) 4 (ucast v)"

definition put_world :: "u32 \<Rightarrow> fixed_field \<Rightarrow> u32 \<Rightarrow> world \<Rightarrow> world option" where
  "put_world sp k v w = map_option (\<lambda>m. w\<lparr>w_mem := m\<rparr>) (fixed_put sp k v (w_mem w))"

subsection \<open>Dispatch\<close>

text \<open>\<open>debug\<close> says whether \<open>DEBUG_LOG\<close> evaluates its arguments (\<open>DEBUG\<close> of \<open>defs.h\<close>): then
  \<open>patch->vm->num_insts\<close> is read before the test for NULL. The redirect stores to the address in
  \<open>args->lr\<close>, as the source does.\<close>

definition dispatch_fixed_patch_point :: "bool \<Rightarrow> run_env \<Rightarrow> patch_context \<Rightarrow> u32 \<Rightarrow> world \<Rightarrow> world option" where
  "dispatch_fixed_patch_point debug e c sp w = do {
     lr \<leftarrow> fixed_get (w_mem w) sp LR;
     let addr = (lr AND NOT 1) - 4;
     patch \<leftarrow> get_fixed_patch_by_lr c addr;
     (if debug \<and> patches c patch = None then None else Some ());
     if patch = 0 then put_world sp R0_1 FIXED_OP_PASS w
     else do {
       pt \<leftarrow> patches c patch;
       (ret, w1) \<leftarrow> run_ebpf_filter e c pt sp fixed_frame_size w;
       if op_of ret = FILTER_DROP then put_world sp R0_1 0 w1
       else if op_of ret = FILTER_REDIRECT then do {
         a \<leftarrow> fixed_get (w_mem w1) sp LR;
         m \<leftarrow> mem_store (w_mem w1) a 4 (ucast (code_of ret));
         Some (w1\<lparr>w_mem := m\<rparr>)}
       else put_world sp R0_1 FIXED_OP_PASS w1}}"

text \<open>\<open>PUSH {r0-r3, lr}\<close>, the call, \<open>POP {r0-r3, pc}\<close>: the result is the popped r0, and execution
  goes on at the popped pc.\<close>

record regs =
  g_r0 :: u32
  g_r1 :: u32
  g_r2 :: u32
  g_r3 :: u32
  g_lr :: u32

definition push_frame :: "regs \<Rightarrow> u32 \<Rightarrow> memory \<Rightarrow> memory option" where
  "push_frame g sp m = do {
     m1 \<leftarrow> fixed_put sp R0_1 (g_r0 g) m;
     m2 \<leftarrow> fixed_put sp R1_1 (g_r1 g) m1;
     m3 \<leftarrow> fixed_put sp R2_1 (g_r2 g) m2;
     m4 \<leftarrow> fixed_put sp R3 (g_r3 g) m3;
     fixed_put sp LR (g_lr g) m4}"

definition fixed_patch_point_hanlder ::
    "bool \<Rightarrow> run_env \<Rightarrow> patch_context \<Rightarrow> regs \<Rightarrow> u32 \<Rightarrow> world \<Rightarrow> (u32 \<times> u32 \<times> world) option" where
  "fixed_patch_point_hanlder debug e c g sp0 w = do {
     let sp = sp0 - fixed_frame_size;
     m \<leftarrow> push_frame g sp (w_mem w);
     w1 \<leftarrow> dispatch_fixed_patch_point debug e c sp (w\<lparr>w_mem := m\<rparr>);
     r0 \<leftarrow> fixed_get (w_mem w1) sp R0_1;
     pc \<leftarrow> fixed_get (w_mem w1) sp LR;
     Some (r0, pc, w1)}"

definition PATCH_FUNCTION_ERR_CODE :: "u32 \<Rightarrow> 'a \<Rightarrow> (u32 \<Rightarrow> 'a) \<Rightarrow> 'a" where
  "PATCH_FUNCTION_ERR_CODE ret_code body early =
     (if ret_code \<noteq> FIXED_OP_PASS then early ret_code else body)"

subsection \<open>The demonstration functions\<close>

record func_args =
  v1 :: s32
  v2 :: u8
  v3 :: s32

definition bug_function :: "u32 \<Rightarrow> s32 \<Rightarrow> func_args \<Rightarrow> func_args \<Rightarrow> s32 \<Rightarrow> s32 \<Rightarrow> s32 \<Rightarrow> s32" where
  "bug_function patch_point a p1 p2 b c d =
     PATCH_FUNCTION_ERR_CODE patch_point
       (if a + b + c + d = 10 then
          (if v2 p1 \<noteq> v2 p2 then - 1
           else if v1 p1 + v3 p1 = v1 p2 + v3 p2 then 0 else - 1)
        else - 1)
       (\<lambda>ret_code. ret_code)"

text \<open>The remaining length of an MQTT packet: result, length and the advanced \<open>buf->cur\<close>; \<open>None\<close> is
  a read of unmapped memory.\<close>

function mqtt_loop :: "memory \<Rightarrow> u32 \<Rightarrow> u32 \<Rightarrow> u8 \<Rightarrow> u8 \<Rightarrow> u32 \<Rightarrow> (int \<times> u32 \<times> u32) option" where
  "mqtt_loop m cur end shift bytes len =
     (if bytes > 4 then Some (- 1, len, cur)
      else if cur \<ge> end then Some (- 1, len, cur)
      else case m cur of
             None \<Rightarrow> None
           | Some b \<Rightarrow>
               let len' = len + push_bit (unat shift) ((ucast b :: u32) AND 0x7f) in
               if b AND 0x80 \<noteq> 0 then mqtt_loop m (cur + 1) end (shift + 7) (bytes + 1) len'
               else Some (0, len', cur + 1))"
  by pat_completeness auto
termination
  by (relation "measure (\<lambda>(m, cur, end, shift, bytes, len). 5 - unat bytes)")
     (auto simp: word_less_nat_alt not_less unat_word_ariths)

declare mqtt_loop.simps [simp del]

definition dummy_buggy_MQTT_packet_length_decode ::
    "u32 \<Rightarrow> memory \<Rightarrow> u32 \<Rightarrow> (int \<times> u32 option) option" where
  "dummy_buggy_MQTT_packet_length_decode patch_point m buf =
     PATCH_FUNCTION_ERR_CODE patch_point
       (do { cur \<leftarrow> load32 m buf;
             end \<leftarrow> load32 m (buf + 4);
             (r, len, _) \<leftarrow> mqtt_loop m cur end 0 0 0;
             Some (r, Some len) })
       (\<lambda>ret_code. Some (sint ret_code, None))"

text \<open>The walk over IPv6 destination options may not end, so it runs on fuel. Each turn reads the
  option's type, which selects among cases that do nothing, and its length.\<close>

datatype 'a loop_result = Done 'a | Fault | OutOfFuel

fun destopt_loop :: "nat \<Rightarrow> memory \<Rightarrow> u32 \<Rightarrow> u32 \<Rightarrow> u8 \<Rightarrow> int loop_result" where
  "destopt_loop 0 m opt_ptr option len = (if len = 0 then Done 0 else OutOfFuel)"
| "destopt_loop (Suc n) m opt_ptr option len =
     (if len = 0 then Done 0
      else case (m (option + 1), m option) of
             (Some b, Some _) \<Rightarrow>
               let optlen = b + 2 in
               destopt_loop n m (opt_ptr + ucast optlen) (option + ucast optlen) (len - optlen)
           | _ \<Rightarrow> Fault)"

definition dummy_CVE_2020_17445_pico_ipv6_process_destopt ::
    "nat \<Rightarrow> u32 \<Rightarrow> memory \<Rightarrow> u32 \<Rightarrow> u32 \<Rightarrow> int loop_result" where
  "dummy_CVE_2020_17445_pico_ipv6_process_destopt n patch_point m destopt opt_ptr =
     PATCH_FUNCTION_ERR_CODE patch_point
       (case m (destopt + 1) of
          None \<Rightarrow> Fault
        | Some b \<Rightarrow> destopt_loop n m opt_ptr (destopt + 2) (ucast (push_bit 3 ((ucast b :: u32) + 1) - 2)))
       (\<lambda>ret_code. Done (sint ret_code))"

subsection \<open>What a fixed patch decides\<close>

lemma fixed_slot_lt: "fixed_slot k < 1000"
  by (cases k) simp_all

lemma fixed_slot_inj: "fixed_slot k = fixed_slot k' \<longleftrightarrow> k = k'"
  by (cases k; cases k') simp_all

lemma fixed_get_put:
  "fixed_put sp k v m = Some m' \<Longrightarrow> fixed_get m' sp k' = (if k' = k then Some v else fixed_get m sp k')"
  using slot_load_store [of m sp "fixed_slot k" v m' "fixed_slot k'"] fixed_slot_lt [of k]
    fixed_slot_lt [of k'] fixed_slot_inj [of k' k]
  by (simp add: fixed_put_def fixed_get_def)

lemma load32_mapped: "load32 m a \<noteq> None \<Longrightarrow> \<exists>m'. mem_store m a 4 v = Some m'"
  using store_bytes_mapped [of m a "le_bytes 4 v"]
  by (auto simp: load32_def mem_load_def mem_store_def le_bytes_def simp del: load_bytes_numeral)

lemma fixed_put_mapped: "fixed_get m sp k \<noteq> None \<Longrightarrow> \<exists>m'. fixed_put sp k v m = Some m'"
  using load32_mapped [of m "slot sp (fixed_slot k)"] by (auto simp: fixed_get_def fixed_put_def)

lemma put_world_ok:
  assumes "fixed_get (w_mem w) sp k \<noteq> None"
  shows "\<exists>w'. put_world sp k v w = Some w' \<and> fixed_get (w_mem w') sp k = Some v \<and>
    (\<forall>k'. k' \<noteq> k \<longrightarrow> fixed_get (w_mem w') sp k' = fixed_get (w_mem w) sp k')"
proof -
  obtain m' where m: "fixed_put sp k v (w_mem w) = Some m'" using fixed_put_mapped [OF assms] by blast
  then show ?thesis using fixed_get_put [OF m] by (simp add: put_world_def)
qed

lemma push_frame_get:
  assumes "push_frame g sp m = Some m'"
  shows "fixed_get m' sp R0_1 = Some (g_r0 g)" "fixed_get m' sp R1_1 = Some (g_r1 g)"
    "fixed_get m' sp R2_1 = Some (g_r2 g)" "fixed_get m' sp R3 = Some (g_r3 g)"
    "fixed_get m' sp LR = Some (g_lr g)"
  using assms by (auto simp: push_frame_def fixed_get_put bind_eq_Some_conv)

text \<open>C22: a fixed patch point whose filter does not redirect. The handler answers 0 when the filter says DROP, whatever code
  the filter chose, and \<open>FIXED_OP_PASS\<close> on every other operation; the instrumentation \<open>PATCH_FUNCTION_ERR_CODE\<close> at the head
  of a patched function turns the answer into the function's result: 0 after DROP, the result of its body otherwise. The
  caller's registers and the return address are those the filter left in the frame.\<close>

theorem fixed_patch_decides:
  assumes "push_frame g (sp0 - fixed_frame_size) (w_mem w) = Some m"
    and "get_fixed_patch_by_lr c ((g_lr g AND NOT 1) - 4) = Some p" and "p \<noteq> 0" and "patches c p = Some pt"
    and "run_ebpf_filter e c pt (sp0 - fixed_frame_size) fixed_frame_size (w\<lparr>w_mem := m\<rparr>) = Some (ret, w2)"
    and "\<forall>k. fixed_get (w_mem w2) (sp0 - fixed_frame_size) k \<noteq> None" and "op_of ret \<noteq> FILTER_REDIRECT"
  shows "\<exists>r pc w'. fixed_patch_point_hanlder debug e c g sp0 w = Some (r, pc, w') \<and>
    r = (if op_of ret = FILTER_DROP then 0 else FIXED_OP_PASS) \<and>
    (\<forall>body :: s32. PATCH_FUNCTION_ERR_CODE r body (\<lambda>ret_code. ret_code) = (if op_of ret = FILTER_DROP then 0 else body)) \<and>
    fixed_get (w_mem w2) (sp0 - fixed_frame_size) LR = Some pc \<and>
    (\<forall>k. k \<noteq> R0_1 \<longrightarrow> fixed_get (w_mem w') (sp0 - fixed_frame_size) k =
       fixed_get (w_mem w2) (sp0 - fixed_frame_size) k)"
proof -
  let ?sp = "sp0 - fixed_frame_size" and ?v = "if op_of ret = FILTER_DROP then 0 else FIXED_OP_PASS"
  obtain w' where w': "put_world ?sp R0_1 ?v w2 = Some w'" "fixed_get (w_mem w') ?sp R0_1 = Some ?v"
      "\<forall>k. k \<noteq> R0_1 \<longrightarrow> fixed_get (w_mem w') ?sp k = fixed_get (w_mem w2) ?sp k"
    using put_world_ok [of w2 ?sp R0_1 ?v] assms(6) by blast
  have d: "dispatch_fixed_patch_point debug e c ?sp (w\<lparr>w_mem := m\<rparr>) = Some w'"
    using assms(2-5,7) w'(1) push_frame_get(5) [OF assms(1)]
    by (auto simp: dispatch_fixed_patch_point_def Let_def)
  obtain pc where pc: "fixed_get (w_mem w2) ?sp LR = Some pc" using assms(6) by auto
  with w'(3) have "fixed_get (w_mem w') ?sp LR = Some pc" by simp
  moreover have "FIXED_OP_PASS \<noteq> 0" by (simp add: FIXED_OP_PASS_def)
  ultimately show ?thesis
    using assms(1) d w' pc by (simp add: fixed_patch_point_hanlder_def PATCH_FUNCTION_ERR_CODE_def Let_def)
qed

text \<open>A context with one active fixed patch, at \<open>0x08002c8e\<close>, compiled as in the sample of the monitor.\<close>

definition sample_fixed :: patch_context where
  "sample_fixed = (mo_ctx (sample_mon sample_hw))\<lparr>fbits_filter := - 1, fiexed_patches :=
     Some \<lparr>am_max = 4, am_cur = 1, am_keys = (\<lambda>_. 0x08002c8e), am_vals = (\<lambda>_. 0x300), am_oob = False\<rparr>\<rparr>"

definition sample_regs :: regs where
  "sample_regs = \<lparr>g_r0 = 1, g_r1 = 2, g_r2 = 3, g_r3 = 4, g_lr = 0x08002c93\<rparr>"

definition sample_ram :: world where "sample_ram = \<lparr>w_mem = (\<lambda>_. Some 0), w_dval = 0, w_out = []\<rparr>"

lemma push_frame_mapped:
  assumes "\<And>k. fixed_get m sp k \<noteq> None"
  shows "\<exists>m'. push_frame g sp m = Some m' \<and> (\<forall>k. fixed_get m' sp k \<noteq> None)"
proof -
  obtain m1 where m1: "fixed_put sp R0_1 (g_r0 g) m = Some m1" using fixed_put_mapped assms by blast
  obtain m2 where m2: "fixed_put sp R1_1 (g_r1 g) m1 = Some m2"
    using fixed_put_mapped [of m1] fixed_get_put [OF m1] assms by (metis option.distinct(1))
  obtain m3 where m3: "fixed_put sp R2_1 (g_r2 g) m2 = Some m3"
    using fixed_put_mapped [of m2] fixed_get_put [OF m2] fixed_get_put [OF m1] assms by (metis option.distinct(1))
  obtain m4 where m4: "fixed_put sp R3 (g_r3 g) m3 = Some m4"
    using fixed_put_mapped [of m3] fixed_get_put [OF m3] fixed_get_put [OF m2] fixed_get_put [OF m1] assms
    by (metis option.distinct(1))
  obtain m5 where m5: "fixed_put sp LR (g_lr g) m4 = Some m5"
    using fixed_put_mapped [of m4] fixed_get_put [OF m4] fixed_get_put [OF m3] fixed_get_put [OF m2]
      fixed_get_put [OF m1] assms by (metis option.distinct(1))
  have p: "push_frame g sp m = Some m5" by (simp add: push_frame_def m1 m2 m3 m4 m5)
  have "fixed_get m5 sp k \<noteq> None" for k using push_frame_get [OF p] by (cases k) simp_all
  with p show ?thesis by blast
qed

lemma sample_push:
  obtains m where "push_frame sample_regs (0x20002000 - fixed_frame_size) (w_mem sample_ram) = Some m"
    "\<forall>k. fixed_get m (0x20002000 - fixed_frame_size) k \<noteq> None"
proof -
  have "fixed_get (w_mem sample_ram) sp k \<noteq> None" for sp k
    by (simp add: fixed_get_def load32_def mem_load_def sample_ram_def)
  from push_frame_mapped [OF this, of sample_regs "0x20002000 - fixed_frame_size"] that show ?thesis by blast
qed

theorem fixed_patch_decides_witness:
  "\<exists>r pc w'. fixed_patch_point_hanlder True (me_run sample_env) sample_fixed sample_regs 0x20002000 sample_ram =
     Some (r, pc, w') \<and> bug_function r 1 \<lparr>v1 = 1, v2 = 2, v3 = 3\<rparr> \<lparr>v1 = 1, v2 = 9, v3 = 3\<rparr> 2 3 4 = 0"
proof -
  obtain m where m: "push_frame sample_regs (0x20002000 - fixed_frame_size) (w_mem sample_ram) = Some m"
    "\<forall>k. fixed_get m (0x20002000 - fixed_frame_size) k \<noteq> None" by (rule sample_push)
  obtain pt where pt: "patches sample_fixed 0x300 = Some pt" "is_active pt" "use_jit (p_vm pt)"
    by (simp add: sample_fixed_def sample_mon_def)
  have "am_inv \<lparr>am_max = 4, am_cur = 1, am_keys = (\<lambda>_. 0x08002c8e), am_vals = (\<lambda>_. 0x300), am_oob = False\<rparr>"
    by (simp add: am_inv_def sorted_upto_def)
  from get_at [OF this, of 0] pt
  have get: "get_fixed_patch_by_lr sample_fixed ((g_lr sample_regs AND NOT 1) - 4) = Some 0x300"
    by (simp add: get_fixed_patch_by_lr_def sample_fixed_def sample_regs_def)
  have run: "run_ebpf_filter (me_run sample_env) sample_fixed pt a n w = Some (set_return32 1 7, w)" for a n w
    using pt(3) by (simp add: run_ebpf_filter_def sample_env_def)
  show ?thesis
    using fixed_patch_decides [OF m(1) get _ pt(1) run, of True] m(2)
    by (auto simp: op_code_set_return32 filter_ops bug_function_def)
qed

text \<open>A patch point without a patch: with \<open>DEBUG\<close> off the handler answers \<open>FIXED_OP_PASS\<close> and
  returns with the registers it was entered with; with \<open>DEBUG\<close> on, as configured in \<open>defs.h\<close>, the log
  statement dereferences the NULL patch.\<close>

theorem fixed_point_unpatched:
  assumes "push_frame g (sp0 - fixed_frame_size) (w_mem w) = Some m"
    and "get_fixed_patch_by_lr c ((g_lr g AND NOT 1) - 4) = Some 0" and "patches c 0 = None"
  shows "fixed_patch_point_hanlder True e c g sp0 w = None \<and>
    (\<exists>w'. fixed_patch_point_hanlder False e c g sp0 w = Some (FIXED_OP_PASS, g_lr g, w') \<and>
      fixed_get (w_mem w') (sp0 - fixed_frame_size) R1_1 = Some (g_r1 g) \<and>
      fixed_get (w_mem w') (sp0 - fixed_frame_size) R2_1 = Some (g_r2 g) \<and>
      fixed_get (w_mem w') (sp0 - fixed_frame_size) R3 = Some (g_r3 g))"
proof -
  let ?sp = "sp0 - fixed_frame_size" and ?w = "w\<lparr>w_mem := m\<rparr>"
  note g = push_frame_get [OF assms(1)]
  obtain w' where w': "put_world ?sp R0_1 FIXED_OP_PASS ?w = Some w'"
      "fixed_get (w_mem w') ?sp R0_1 = Some FIXED_OP_PASS"
      "\<forall>k. k \<noteq> R0_1 \<longrightarrow> fixed_get (w_mem w') ?sp k = fixed_get m ?sp k"
    using put_world_ok [of ?w ?sp R0_1 FIXED_OP_PASS] g(1) by auto
  have "dispatch_fixed_patch_point False e c ?sp ?w = Some w'" "dispatch_fixed_patch_point True e c ?sp ?w = None"
    using assms(2,3) w'(1) g(5) by (simp_all add: dispatch_fixed_patch_point_def Let_def)
  with assms(1) w' g show ?thesis by (simp add: fixed_patch_point_hanlder_def Let_def)
qed

theorem fixed_point_unpatched_witness:
  "fixed_patch_point_hanlder True (me_run sample_env) sample_ctx sample_regs 0x20002000 sample_ram = None \<and>
   (\<exists>w'. fixed_patch_point_hanlder False (me_run sample_env) sample_ctx sample_regs 0x20002000 sample_ram =
     Some (FIXED_OP_PASS, 0x08002c93, w'))"
proof -
  obtain m where m: "push_frame sample_regs (0x20002000 - fixed_frame_size) (w_mem sample_ram) = Some m"
    by (rule sample_push)
  have "get_fixed_patch_by_lr sample_ctx ((g_lr sample_regs AND NOT 1) - 4) = Some 0" "patches sample_ctx 0 = None"
    by (simp_all add: get_fixed_patch_by_lr_def sample_ctx_def sample_regs_def)
  from fixed_point_unpatched [OF m this, of "me_run sample_env"] show ?thesis
    by (auto simp: sample_regs_def)
qed

subsection \<open>The patch against CVE-2020-17445 protects the function\<close>

lemma walk_passes_ends:
  "walk_destopt m opt_ptr op_p len = Some 0 \<Longrightarrow>
   \<exists>n. destopt_loop n m o2 (ucast op_p) len \<noteq> OutOfFuel \<and>
     ((\<forall>a. m a \<noteq> None) \<longrightarrow> destopt_loop n m o2 (ucast op_p) len = Done 0)"
proof (induction m opt_ptr op_p len arbitrary: o2 rule: walk_destopt.induct)
  case (1 m opt_ptr op_p len)
  show ?case
  proof (cases "len = 0")
    case True
    then show ?thesis by (intro exI [of _ 0]) simp
  next
    case False
    obtain b where b: "m (ucast op_p + 1) = Some b"
      using "1.prems" False by (auto simp: walk_destopt.simps rd_byte ucast_add_64 split: option.splits)
    have r: "rd m (op_p + 1) 1 = Some (ucast b)" using b by (simp add: rd_byte ucast_add_64)
    let ?o = "b + 2"
    have w: "\<not> (opt_ptr + ucast ?o \<le> opt_ptr \<or> op_p + ucast ?o \<le> op_p \<or> uint len - uint ?o \<ge> uint len)"
        "walk_destopt m (opt_ptr + ucast ?o) (op_p + ucast ?o) (len - ?o) = Some 0"
      using "1.prems" False r walk_destopt.simps [of m opt_ptr op_p len]
      by (auto simp: Let_def ucast_byte split: if_splits)
    have "\<exists>n. destopt_loop n m (o2 + ucast ?o) (ucast (op_p + ucast ?o)) (len - ?o) \<noteq> OutOfFuel \<and>
        ((\<forall>a. m a \<noteq> None) \<longrightarrow> destopt_loop n m (o2 + ucast ?o) (ucast (op_p + ucast ?o)) (len - ?o) = Done 0)"
      by (rule "1.IH" [OF False r, of ?o]) (use w in \<open>simp_all add: ucast_byte\<close>)
    then obtain n where n: "destopt_loop n m (o2 + ucast ?o) (ucast op_p + ucast ?o) (len - ?o) \<noteq> OutOfFuel"
        "(\<forall>a. m a \<noteq> None) \<longrightarrow> destopt_loop n m (o2 + ucast ?o) (ucast op_p + ucast ?o) (len - ?o) = Done 0"
      by (auto simp: ucast_add_64 ucast_8_64_32)
    show ?thesis
      using False b n by (intro exI [of _ "Suc n"]) (auto simp: Let_def split: option.splits)
  qed
qed

lemma destopt_len: "(ucast (push_bit 3 ((ucast (b :: u8) :: u64) + 1) - 2) :: u8) =
    ucast (push_bit 3 ((ucast b :: u32) + 1) - 2)"
  by transfer simp

text \<open>C3: whenever the shipped filter against CVE-2020-17445 lets a packet pass, the vulnerable walk over its
  destination options ends, and it returns 0 when the options are readable.\<close>

theorem destopt_patch_protects:
  assumes "filter_17445 m frame = Some ret" and "op_of ret = FILTER_PASS"
    and "frame_get m frame F_r0 = Some destopt"
  shows "\<exists>n. dummy_CVE_2020_17445_pico_ipv6_process_destopt n FIXED_OP_PASS m destopt opt_ptr \<noteq> OutOfFuel \<and>
    ((\<forall>a. m a \<noteq> None) \<longrightarrow>
       dummy_CVE_2020_17445_pico_ipv6_process_destopt n FIXED_OP_PASS m destopt opt_ptr = Done 0)"
proof -
  obtain r2 b where b: "m (destopt + 1) = Some b"
      "walk_destopt m (r2 + 2) (ucast destopt + 2) (ucast (push_bit 3 ((ucast b :: u64) + 1) - 2)) = Some 0"
    using assms
    by (auto simp: filter_17445_def bind_eq_Some_conv Let_def rd_byte ucast_add_64 op_code_set_return32 filter_ops
      split: if_splits)
  from walk_passes_ends [OF b(2), of opt_ptr] b(1) show ?thesis
    by (simp add: dummy_CVE_2020_17445_pico_ipv6_process_destopt_def PATCH_FUNCTION_ERR_CODE_def
      destopt_len ucast_add_64)
qed

text \<open>Two packets at address 0x40 with a frame at 0x80 that points to it: the first has one option of
  six bytes, the second an option length of 254.\<close>

definition benign_packet :: memory where
  "benign_packet = (\<lambda>a. Some (if a = 0x80 then 0x40 else if a = 0x43 then 4 else 0))"

definition attack_packet :: memory where
  "attack_packet = (\<lambda>a. Some (if a = 0x80 then 0x40 else if a = 0x43 then 254 else 0))"

theorem destopt_patch_protects_witness:
  "\<exists>n. dummy_CVE_2020_17445_pico_ipv6_process_destopt n FIXED_OP_PASS benign_packet 0x40 0 = Done 0"
proof -
  have b: "rd benign_packet 0x43 (Suc 0) = Some 4" by (simp add: rd_byte benign_packet_def)
  have w: "walk_destopt benign_packet 2 0x42 6 = Some 0"
    using b by (simp add: walk_destopt.simps [of benign_packet 2] walk_destopt.simps [of benign_packet 8] Let_def)
  have f: "filter_17445 benign_packet 0x80 = Some (set_return32 0 0)"
    using w by (simp add: filter_17445_def frame_get_def mem_load_def rd_byte Let_def) (simp add: benign_packet_def)
  have op: "op_of (set_return32 0 0) = FILTER_PASS" by (simp add: op_code_set_return32 filter_ops)
  have "frame_get benign_packet 0x80 F_r0 = Some 0x40"
    by (simp add: frame_get_def mem_load_def benign_packet_def)
  from destopt_patch_protects [OF f op this, of 0] show ?thesis by (auto simp: benign_packet_def)
qed

lemma destopt_stuck:
  "len \<noteq> 0 \<Longrightarrow> m (option + 1) = Some 254 \<Longrightarrow> m option \<noteq> None \<Longrightarrow>
   destopt_loop n m opt_ptr option len = OutOfFuel"
proof (induction n arbitrary: opt_ptr)
  case (Suc n)
  have z: "(256 :: u8) = 0" by simp
  from Suc show ?case by (auto simp: z)
qed simp

lemma destopt_len_nonzero: "(ucast (push_bit 3 ((ucast (b :: u8) :: u32) + 1) - 2) :: u8) \<noteq> 0"
proof
  assume z: "(ucast (push_bit 3 ((ucast b :: u32) + 1) - 2) :: u8) = 0"
  have e: "push_bit 3 ((ucast b :: u32) + 1) - 2 = word_of_int (8 * uint b + 6)"
    by (simp add: push_bit_eq_mult algebra_simps)
  have "uint (ucast (word_of_int n :: u32) :: u8) = n mod 256" for n
    by (simp add: unsigned_ucast_eq unsigned_of_int take_bit_eq_mod mod_mod_cancel)
  with z have "(8 * uint b + 6) mod 256 = 0" unfolding e by (metis unsigned_0)
  then show False by presburger
qed

text \<open>A first option of length 254 makes the advance 0: the vulnerable function never returns, and
  the filter drops such a packet with -1.\<close>

theorem destopt_attack:
  assumes "m (destopt + 1) = Some b" and "m (destopt + 2) \<noteq> None" and "m (destopt + 3) = Some 254"
    and "frame_get m frame F_r0 = Some destopt" and "frame_get m frame F_r2 = Some r2"
  shows "dummy_CVE_2020_17445_pico_ipv6_process_destopt n FIXED_OP_PASS m destopt opt_ptr = OutOfFuel \<and>
    filter_17445 m frame = Some (set_return32 1 (- 1))"
proof -
  have st: "destopt_loop n m opt_ptr (destopt + 2) (ucast (push_bit 3 ((ucast b :: u32) + 1) - 2)) = OutOfFuel"
    by (rule destopt_stuck [OF destopt_len_nonzero]) (use assms(2,3) in \<open>simp_all add: add.assoc\<close>)
  have r: "m (3 + destopt) = Some 254" using assms(3) by (simp add: add.commute)
  have "dummy_CVE_2020_17445_pico_ipv6_process_destopt n FIXED_OP_PASS m destopt opt_ptr = OutOfFuel"
    using assms(1) st
    by (simp add: dummy_CVE_2020_17445_pico_ipv6_process_destopt_def PATCH_FUNCTION_ERR_CODE_def)
  moreover have "walk_destopt m (r2 + 2) (ucast destopt + 2) (ucast (push_bit 3 ((ucast b :: u32) + 1) - 2)) = Some (- 1)"
    using r destopt_len_nonzero [of b]
    by (simp add: walk_destopt.simps [of m "r2 + 2"] rd_byte ucast_add_64 ucast_byte Let_def)
  ultimately show ?thesis
    using assms(1,4,5) by (simp add: filter_17445_def rd_byte ucast_add_64 destopt_len Let_def)
qed

theorem destopt_attack_witness:
  "(\<forall>n. dummy_CVE_2020_17445_pico_ipv6_process_destopt n FIXED_OP_PASS attack_packet 0x40 0 = OutOfFuel) \<and>
   filter_17445 attack_packet 0x80 = Some (set_return32 1 (- 1))"
  using destopt_attack [of attack_packet "0x40" 0 "0x80" 0]
  by (simp add: attack_packet_def frame_get_def mem_load_def)

subsection \<open>The patch against CVE-2020-10062\<close>

lemma le_value_append: "le_value (xs @ ys) = le_value xs OR push_bit (8 * length xs) (le_value ys)"
  by (induction xs) (simp_all add: push_bit_or or.assoc add.commute)

lemma load_bytes_take: "load_bytes m a n = Some bs \<Longrightarrow> k \<le> n \<Longrightarrow> load_bytes m a k = Some (take k bs)"
proof (induction m a n arbitrary: k bs rule: load_bytes.induct)
  case (2 m a n)
  then show ?case by (cases k) (auto split: option.splits)
qed simp

lemma mem_load_low:
  assumes "mem_load m a 8 = Some v"
  shows "load32 m a = Some (ucast v)"
proof -
  obtain bs where bs: "load_bytes m a 8 = Some bs" "v = le_value bs" using assms by (auto simp: mem_load_def simp del: load_bytes_numeral)
  have len: "length bs = 8" using load_bytes_length [OF bs(1)] .
  have z: "(ucast (push_bit 32 x :: u64) :: u32) = 0" for x by (simp add: bit_eq_iff bit_simps)
  have "le_value bs = le_value (take 4 bs) OR push_bit 32 (le_value (drop 4 bs))"
    using le_value_append [of "take 4 bs" "drop 4 bs"] len by simp
  then have "(ucast v :: u32) = ucast (le_value (take 4 bs))" by (simp add: bs(2) unsigned_or_eq z)
  with load_bytes_take [OF bs(1), of 4] show ?thesis
    by (simp add: load32_def mem_load_def del: load_bytes_numeral)
qed

lemma lo_of_nat: "(ucast (word_of_nat j :: u64) :: u32) = word_of_nat j"
  by transfer simp

lemma byte_flag: "(ucast (b :: u8) :: u64) AND 0x80 = 0 \<longleftrightarrow> b AND 0x80 = 0"
  using and_exp_eq_0_iff_not_bit [of b 7] and_exp_eq_0_iff_not_bit [of "ucast b :: u64" 7] by (simp add: bit_simps)

lemma continues_byte: "m (ucast cur + word_of_nat j) = Some b \<Longrightarrow> continues m cur j \<longleftrightarrow> b AND 0x80 \<noteq> 0"
  by (simp add: continues_def rd_byte ucast_add_64 lo_of_nat byte_flag)

lemma mqtt_loop_success:
  "mqtt_loop m (base + word_of_nat i) end (word_of_nat (7 * i)) (word_of_nat i) len = Some (0, r, c) \<Longrightarrow>
   i \<le> 5 \<Longrightarrow> unat len < 2 ^ (7 * i) \<Longrightarrow>
   \<exists>k. i \<le> k \<and> k \<le> 4 \<and> (\<forall>j. i \<le> j \<and> j \<le> k \<longrightarrow> (\<exists>b. m (base + word_of_nat j) = Some b \<and> (b AND 0x80 \<noteq> 0 \<longleftrightarrow> j < k))) \<and>
     (k \<le> 3 \<longrightarrow> unat r < 2 ^ 28)"
proof (induction "5 - i" arbitrary: i len)
  case 0
  then show ?case by (simp add: mqtt_loop.simps)
next
  case (Suc d)
  have i: "i \<le> 4" using Suc.hyps(2) by simp
  then have ib: "\<not> (word_of_nat i :: u8) > 4" and ish: "unat (word_of_nat (7 * i) :: u8) = 7 * i"
    by (simp_all add: word_less_nat_alt unsigned_of_nat take_bit_nat_eq_self del: of_nat_mult)
  obtain b where b: "m (base + word_of_nat i) = Some b"
    using Suc.prems(1) ib by (auto simp: mqtt_loop.simps [of m "base + word_of_nat i"] split: if_splits option.splits)
  let ?l = "len + push_bit (7 * i) ((ucast b :: u32) AND 0x7f)"
  have l: "unat ?l < 2 ^ (7 * Suc i)" if "i \<le> 3"
  proof -
    have "unat (push_bit (7 * i) ((ucast b :: u32) AND 0x7F)) \<le> 127 * 2 ^ (7 * i)"
      using masked_shift_bound [of "7 * i"] that by simp
    moreover have "(2 :: nat) ^ (7 * i) \<le> 2 ^ 21" using that by (intro power_increasing) simp_all
    ultimately show ?thesis using Suc.prems(3) by (simp add: unat_word_ariths power_add mod_less)
  qed
  show ?case
  proof (cases "b AND 0x80 = 0")
    case True
    then have "r = ?l" using Suc.prems(1) ib ish b
      by (auto simp: mqtt_loop.simps [of m "base + word_of_nat i"] Let_def split: if_splits)
    then have "i \<le> 3 \<longrightarrow> unat r < 2 ^ 28"
      using l power_increasing [of "7 * Suc i" 28 "2 :: nat"] by (auto intro: less_le_trans)
    with i b True show ?thesis by (intro exI [of _ i]) auto
  next
    case False
    then have n: "mqtt_loop m (base + word_of_nat (Suc i)) end (word_of_nat (7 * Suc i)) (word_of_nat (Suc i)) ?l = Some (0, r, c)"
      using Suc.prems(1) ib ish b
      by (auto simp: mqtt_loop.simps [of m "base + word_of_nat i"] Let_def ac_simps split: if_splits)
    show ?thesis
    proof (cases "i = 4")
      case True
      then show ?thesis using n by (simp add: mqtt_loop.simps)
    next
      case F: False
      then have "unat ?l < 2 ^ (7 * Suc i)" using l i by simp
      moreover have "d = 5 - Suc i" "Suc i \<le> 5" using Suc.hyps(2) by simp_all
      ultimately obtain k where
        k: "Suc i \<le> k" "k \<le> 4" "\<forall>j. Suc i \<le> j \<and> j \<le> k \<longrightarrow> (\<exists>b. m (base + word_of_nat j) = Some b \<and> (b AND 0x80 \<noteq> 0 \<longleftrightarrow> j < k))"
          "k \<le> 3 \<longrightarrow> unat r < 2 ^ 28" using Suc.hyps(1) [OF _ n] by blast
      have "\<exists>b. m (base + word_of_nat j) = Some b \<and> (b AND 0x80 \<noteq> 0 \<longleftrightarrow> j < k)" if "i \<le> j" "j \<le> k" for j
        using k(1,3) b False that by (cases "j = i") auto
      with k show ?thesis by (intro exI [of _ k]) auto
    qed
  qed
qed

text \<open>C5: whenever the shipped filter against CVE-2020-10062 lets a packet pass and the vulnerable decoder
  then succeeds, the decoded length is below the protocol's limit of 2^28.\<close>

theorem mqtt_patch_protects:
  assumes "frame_get m frame F_r0 = Some buf" and "filter_10062 m frame = Some ret" and "op_of ret = FILTER_PASS"
    and "dummy_buggy_MQTT_packet_length_decode FIXED_OP_PASS m buf = Some (0, Some len)"
  shows "len < 0x10000000"
proof -
  obtain cur where cur: "rd m (ucast buf) 8 = Some cur"
    using assms(1,2) by (auto simp: filter_10062_def bind_eq_Some_conv)
  then have c32: "load32 m buf = Some (ucast cur)" by (simp add: rd_def mem_load_low)
  obtain e c where "mqtt_loop m (ucast cur) e 0 0 0 = Some (0, len, c)"
    using assms(4) c32 by (auto simp: dummy_buggy_MQTT_packet_length_decode_def PATCH_FUNCTION_ERR_CODE_def bind_eq_Some_conv)
  then obtain k where k: "k \<le> 4" "k \<le> 3 \<longrightarrow> unat len < 2 ^ 28"
      "\<And>j. j \<le> k \<Longrightarrow> \<exists>b. m (ucast cur + word_of_nat j) = Some b \<and> (b AND 0x80 \<noteq> 0 \<longleftrightarrow> j < k)"
    using mqtt_loop_success [of m "ucast cur" 0 e 0 len c] by auto
  show ?thesis
  proof (cases "k = 4")
    case True
    have cont: "continues m cur j \<longleftrightarrow> j < 4" if "j \<le> 4" for j
      using k(3) [of j] that True continues_byte [of m cur j] by auto
    have "rd m (cur + word_of_nat j) 1 \<noteq> None" if "j < 5" for j
      using k(3) [of j] that True by (auto simp: rd_byte ucast_add_64 lo_of_nat)
    then have "\<forall>j < 5. rd m (cur + word_of_nat j) 1 \<noteq> None" by blast
    from filter_10062_eq [OF assms(1) cur this] assms(2,3) cont show ?thesis
      by (auto simp: op_code_set_return32 filter_ops split: if_splits)
  next
    case False
    then show ?thesis using k by (simp add: word_less_nat_alt)
  qed
qed

text \<open>A buffer at 0x40 whose bytes 0x05 from 0x50 on encode the length 5.\<close>

definition mqtt_packet :: memory where
  "mqtt_packet = (\<lambda>a. Some (if a = 0x80 then 0x40 else if a = 0x40 then 0x50 else if a = 0x44 then 0x60
     else if a \<ge> 0x50 \<and> a < 0x60 then 5 else 0))"

theorem mqtt_patch_protects_witness:
  "\<exists>len. dummy_buggy_MQTT_packet_length_decode FIXED_OP_PASS mqtt_packet 0x40 = Some (0, Some len) \<and> len < 0x10000000"
proof -
  have r0: "frame_get mqtt_packet 0x80 F_r0 = Some 0x40"
    by (simp add: frame_get_def mem_load_def mqtt_packet_def)
  have cur: "rd mqtt_packet (ucast (0x40 :: u32)) 8 = Some 0x6000000050"
    by (simp add: rd_def mem_load_def mqtt_packet_def)
  have "\<not> continues mqtt_packet 0x6000000050 0"
    by (simp add: continues_def rd_byte mqtt_packet_def)
  then have f: "filter_10062 mqtt_packet 0x80 = Some (set_return32 0 0)"
    using filter_10062_eq [OF r0 cur] by (auto simp: rd_byte mqtt_packet_def)
  have d: "dummy_buggy_MQTT_packet_length_decode FIXED_OP_PASS mqtt_packet 0x40 = Some (0, Some 5)"
    by (simp add: dummy_buggy_MQTT_packet_length_decode_def PATCH_FUNCTION_ERR_CODE_def load32_def mem_load_def
      mqtt_packet_def mqtt_loop.simps Let_def)
  from mqtt_patch_protects [OF r0 f _ d] d show ?thesis by (simp add: op_code_set_return32 filter_ops)
qed

end
