(* ===== verification/Patch_Service.thy ===== *)
theory Patch_Service
  imports Fixed_Points
begin

text \<open>
  The update service of \<open>hotpatch/src/patch_service.c\<close>: it reads commands from a connection and
  installs the patches it receives. The connection belongs to the operating system: \<open>recv\<close> answers
  a read of at most \<open>n\<close> bytes with the returned size, the bytes and the connection after it, \<open>send\<close>
  a write. A read overwrites only the bytes it delivers; the buffer is static and keeps the rest.
\<close>

datatype update_protocol = EXIT | LOAD | HEARTBEAT

fun command_code :: "update_protocol \<Rightarrow> int" where
  "command_code EXIT = 0" | "command_code LOAD = 1" | "command_code HEARTBEAT = 2"

datatype context_status = WAIT_FOR_INIT | RUNNING

record 'n service =
  sv_status :: context_status
  sv_buf :: "u8 list"
  sv_net :: 'n
  sv_ctx :: patch_context

type_synonym 'n receiver = "'n \<Rightarrow> nat \<Rightarrow> int \<times> u8 list \<times> 'n"
type_synonym 'n sender = "'n \<Rightarrow> u8 list \<Rightarrow> int \<times> 'n"

definition fill :: "u8 list \<Rightarrow> u8 list \<Rightarrow> u8 list" where
  "fill buf bs = bs @ drop (length bs) buf"

text \<open>The block for the packet: its address, what it holds before the read, and what the
  installation allocates.\<close>

record pkt_alloc =
  pa_addr :: u32
  pa_block :: "u8 list"
  pa_al :: alloc

subsection \<open>The packet\<close>

fun patch_type_of :: "u16 \<Rightarrow> patch_type" where
  "patch_type_of t = (if t = 1 then FixedPatchPoint else if t = 2 then DynamicPatchPoint else OtherType t)"

text \<open>The packed struct as the cast of the packet reads it; the code is the rest of the packet.\<close>

fun parse_desc :: "u8 list \<Rightarrow> patch_desc option" where
  "parse_desc (t0 # t1 # l0 # l1 # a0 # a1 # a2 # a3 # code) =
     Some \<lparr>d_type = patch_type_of (ucast (le_value [t0, t1])), d_code_len = ucast (le_value [l0, l1]),
           d_loc = ucast (le_value [a0, a1, a2, a3]), d_code = code\<rparr>"
| "parse_desc _ = None"

subsection \<open>Commands\<close>

definition dis_connect :: "'n service \<Rightarrow> 'n service" where
  "dis_connect s = s\<lparr>sv_status := WAIT_FOR_INIT\<rparr>"

text \<open>A size below the header makes \<open>pkt_len\<close> negative or the block too small for the struct: \<open>None\<close>.
  The 16 bytes of the signature are read into a local that nothing reads.\<close>

definition dispatch_patch_command ::
    "'n receiver \<Rightarrow> 'n sender \<Rightarrow> memory \<Rightarrow> pkt_alloc \<Rightarrow> int \<Rightarrow> 'n service \<Rightarrow> 'n service option" where
  "dispatch_patch_command recv send mem pa cmd s =
     (if cmd = command_code EXIT then Some (dis_connect s)
      else if cmd = command_code LOAD then
        let (_, b1, n1) = recv (sv_net s) 2; buf = fill (sv_buf s) b1 in do {
          len \<leftarrow> byte2int buf 2;
          let pkt_len = sint len - 16;
          let (_, _, n2) = recv n1 16;
          if pkt_len < 8 then None
          else let (_, b3, n3) = recv n2 (nat pkt_len) in do {
            desc \<leftarrow> parse_desc (fill (pa_block pa) b3);
            let c = (sv_ctx s)\<lparr>descs := (descs (sv_ctx s))(pa_addr pa \<mapsto> desc)\<rparr>;
            c' \<leftarrow> notify_new_patch mem (pa_al pa) (pa_addr pa) c;
            Some (s\<lparr>sv_buf := buf, sv_net := n3, sv_ctx := c'\<rparr>)}}
      else if cmd = command_code HEARTBEAT then
        let (sz, n1) = send (sv_net s) [word_of_int (command_code HEARTBEAT)];
            s1 = s\<lparr>sv_status := RUNNING, sv_net := n1\<rparr>
        in Some (if sz \<noteq> 1 then dis_connect s1 else s1)
      else Some s)"

text \<open>The loop ends when the status changes or the peer is gone; a peer may keep it running, so it has
  fuel. \<open>pas\<close> are the blocks of the turns.\<close>

fun wait_for_patch ::
    "nat \<Rightarrow> 'n receiver \<Rightarrow> 'n sender \<Rightarrow> memory \<Rightarrow> (nat \<Rightarrow> pkt_alloc) \<Rightarrow> 'n service \<Rightarrow> 'n service loop_result" where
  "wait_for_patch 0 recv send mem pas s = OutOfFuel"
| "wait_for_patch (Suc k) recv send mem pas s =
     (if sv_status s \<noteq> RUNNING then Done s
      else
        let (sz, b, n) = recv (sv_net s) 1; s1 = s\<lparr>sv_net := n, sv_buf := fill (sv_buf s) b\<rparr> in
        if sz \<noteq> 1 then Done (dis_connect s1)
        else case Option.bind (byte2int (sv_buf s1) 1)
                    (\<lambda>cmd. dispatch_patch_command recv send mem (pas k) (sint cmd) s1) of
               None \<Rightarrow> Fault
             | Some s2 \<Rightarrow> wait_for_patch k recv send mem pas s2)"

text \<open>\<open>run_patch_task\<close>: connect, then serve; \<open>connected\<close> is what \<open>connect\<close> answers and gives.\<close>

definition setup_connect :: "'n option \<Rightarrow> 'n service \<Rightarrow> 'n service option" where
  "setup_connect connected s = map_option (\<lambda>n. s\<lparr>sv_net := n, sv_status := RUNNING\<rparr>) connected"

definition run_patch_task ::
    "nat \<Rightarrow> 'n receiver \<Rightarrow> 'n sender \<Rightarrow> memory \<Rightarrow> (nat \<Rightarrow> pkt_alloc) \<Rightarrow> 'n option \<Rightarrow> 'n service \<Rightarrow> 'n service loop_result" where
  "run_patch_task k recv send mem pas connected s =
     (case setup_connect connected s of None \<Rightarrow> Done s | Some s1 \<Rightarrow> wait_for_patch k recv send mem pas s1)"

text \<open>\<open>start_patch_service\<close> on the Linux port: the task runs in a thread of its own; the answer says
  whether it was started.\<close>

definition linux_patch_service_init :: "'n service \<Rightarrow> bool" where
  "linux_patch_service_init s = (sv_status s = WAIT_FOR_INIT)"

definition start_patch_service :: "alloc \<Rightarrow> 'n service \<Rightarrow> (bool \<times> 'n service) option" where
  "start_patch_service al s =
     map_option (\<lambda>c. (linux_patch_service_init s, s\<lparr>sv_ctx := c\<rparr>)) (init_patch_sys al (sv_ctx s))"

subsection \<open>Receiving a patch\<close>

text \<open>The packet of a descriptor, as the struct lies in memory.\<close>

fun type_code :: "patch_type \<Rightarrow> u16" where
  "type_code FixedPatchPoint = 1" | "type_code DynamicPatchPoint = 2" | "type_code (OtherType t) = t"

definition encode_desc :: "patch_desc \<Rightarrow> u8 list" where
  "encode_desc d = le_bytes 2 (ucast (type_code (d_type d))) @ le_bytes 2 (ucast (d_code_len d)) @
     le_bytes 4 (ucast (d_loc d)) @ d_code d"

definition desc_ok :: "patch_desc \<Rightarrow> bool" where
  "desc_ok d \<longleftrightarrow> (\<forall>t. d_type d = OtherType t \<longrightarrow> t \<noteq> 1 \<and> t \<noteq> 2)"

lemma le_bytes_2: "le_bytes 2 v = [byte_of 0 v, byte_of 1 v]"
  by (simp add: le_bytes_def upt_rec numeral_2_eq_2)

lemma le_bytes_4: "le_bytes 4 v = [byte_of 0 v, byte_of 1 v, byte_of 2 v, byte_of 3 v]"
  by (simp add: le_bytes_def upt_rec numeral_eq_Suc)

lemma le_roundtrip: "le_value (le_bytes n v) = take_bit (8 * n) v"
  using le_value_bytes [of 0 v n] by (simp add: le_bytes_def)

lemma parse_encode: "desc_ok d \<Longrightarrow> parse_desc (encode_desc d) = Some d"
proof -
  assume ok: "desc_ok d"
  have t16: "(ucast (take_bit 16 (ucast x :: u64)) :: u16) = x" for x :: u16
    by (simp add: bit_eq_iff bit_simps)
  have t32: "(ucast (take_bit 32 (ucast x :: u64)) :: u32) = x" for x :: u32
    by (simp add: bit_eq_iff bit_simps)
  have "patch_type_of (type_code (d_type d)) = d_type d"
    using ok by (cases "d_type d") (auto simp: desc_ok_def)
  then show ?thesis
    using le_roundtrip [of 2] le_roundtrip [of 4]
    by (simp add: encode_desc_def le_bytes_2 le_bytes_4 t16 t32 del: le_value.simps)
qed

text \<open>A connection that delivers what was asked for as long as it has it.\<close>

definition reliable :: "u8 list receiver \<Rightarrow> bool" where
  "reliable recv \<longleftrightarrow> (\<forall>xs rest. recv (xs @ rest) (length xs) = (int (length xs), xs, rest))"

lemma reliableD: "reliable recv \<Longrightarrow> length xs = n \<Longrightarrow> recv (xs @ rest) n = (int n, xs, rest)"
  by (auto simp: reliable_def)

text \<open>The LOAD command with its 16-bit size, most significant byte first, the signature and the packet.\<close>

definition load_command :: "u8 list \<Rightarrow> u8 list \<Rightarrow> u8 list" where
  "load_command sign pkt =
     [1] @ [word_of_nat ((length pkt + 16) div 256), word_of_nat ((length pkt + 16) mod 256)] @ sign @ pkt"

lemma byte2int_two: "n < 65536 \<Longrightarrow>
    byte2int (word_of_nat (n div 256) # word_of_nat (n mod 256) # bs) 2 = Some (word_of_nat n)"
proof -
  assume n: "n < 65536"
  then have "unat (word_of_nat (n div 256) :: u8) = n div 256" "unat (word_of_nat (n mod 256) :: u8) = n mod 256"
    by (simp_all add: unat_of_nat less_mult_imp_div_less)
  then have "be_value (take (nat 2) (word_of_nat (n div 256) # word_of_nat (n mod 256) # bs)) = n"
    by (simp add: numeral_2_eq_2)
  with n show ?thesis using byte2int_big_endian [of 2 "word_of_nat (n div 256) # word_of_nat (n mod 256) # bs"] by simp
qed

lemma sint_small: "n < 65536 \<Longrightarrow> sint (word_of_nat n :: s32) = int n"
  by (simp add: signed_of_nat signed_take_bit_int_eq_self)

lemma load_turn:
  assumes "reliable recv" "sv_status s = RUNNING" "length (sv_buf s) = 4" "length sign = 16" "length (pa_block (pas k)) = length pkt"
    "sv_net s = load_command sign pkt @ rest" "pkt = encode_desc d" "desc_ok d" "length pkt < 65520"
  shows "\<exists>buf. length buf = 4 \<and> wait_for_patch (Suc k) recv send mem pas s =
    (case notify_new_patch mem (pa_al (pas k)) (pa_addr (pas k))
            ((sv_ctx s)\<lparr>descs := (descs (sv_ctx s))(pa_addr (pas k) \<mapsto> d)\<rparr>) of
       None \<Rightarrow> Fault
     | Some c' \<Rightarrow> wait_for_patch k recv send mem pas (s\<lparr>sv_buf := buf, sv_net := rest, sv_ctx := c'\<rparr>))"
proof -
  let ?n = "length pkt + 16"
  let ?hd = "[word_of_nat (?n div 256), word_of_nat (?n mod 256)] :: u8 list"
  have len: "int ?n < 65536" "length pkt \<ge> 8"
    using assms(7,9) by (simp_all add: encode_desc_def le_bytes_def)
  have r1: "recv (sv_net s) 1 = (1, [1], ?hd @ sign @ pkt @ rest)"
    using reliableD [OF assms(1), of "[1]" 1] assms(6) by (simp add: load_command_def)
  have r2: "recv (?hd @ sign @ pkt @ rest) 2 = (2, ?hd, sign @ pkt @ rest)"
    using reliableD [OF assms(1), of ?hd 2] by simp
  have r3: "recv (sign @ pkt @ rest) 16 = (16, sign, pkt @ rest)"
    using reliableD [OF assms(1), of sign 16] assms(4) by simp
  have r4: "recv (pkt @ rest) (length pkt) = (int (length pkt), pkt, rest)"
    using reliableD [OF assms(1), of pkt "length pkt"] by simp
  obtain x y z u where b: "sv_buf s = [x, y, z, u]"
    using assms(3) by (auto simp: numeral_eq_Suc length_Suc_conv)
  have si: "sint (word_of_nat ?n :: s32) - 16 = int (length pkt)"
    using sint_small [of ?n] len(1) by simp
  have cmd: "byte2int (fill (sv_buf s) [1]) 1 = Some 1" by (simp add: b fill_def byte2int_def push_digit_def int_ok_def)
  have l2: "byte2int (fill (fill (sv_buf s) [1]) ?hd) 2 = Some (word_of_nat ?n)"
    using byte2int_two [of ?n "[z, u]"] len(1) by (simp add: b fill_def)
  have p: "parse_desc (fill (pa_block (pas k)) pkt) = Some d"
    using assms(5,7,8) by (simp add: fill_def parse_encode)
  let ?c = "(sv_ctx s)\<lparr>descs := (descs (sv_ctx s))(pa_addr (pas k) \<mapsto> d)\<rparr>"
  let ?s1 = "s\<lparr>sv_net := ?hd @ sign @ pkt @ rest, sv_buf := fill (sv_buf s) [1]\<rparr>"
  let ?buf = "fill (fill (sv_buf s) [1]) ?hd"
  have d: "dispatch_patch_command recv send mem (pas k) 1 ?s1 =
      map_option (\<lambda>c'. s\<lparr>sv_buf := ?buf, sv_net := rest, sv_ctx := c'\<rparr>)
        (notify_new_patch mem (pa_al (pas k)) (pa_addr (pas k)) ?c)"
    using r2 r3 r4 l2 p si len(2)
    by (simp add: dispatch_patch_command_def Let_def) (cases "notify_new_patch mem (pa_al (pas k)) (pa_addr (pas k)) ?c"; simp)
  have "length ?buf = 4" by (simp add: b fill_def)
  moreover have "wait_for_patch (Suc k) recv send mem pas s =
    (case notify_new_patch mem (pa_al (pas k)) (pa_addr (pas k)) ?c of
       None \<Rightarrow> Fault
     | Some c' \<Rightarrow> wait_for_patch k recv send mem pas (s\<lparr>sv_buf := ?buf, sv_net := rest, sv_ctx := c'\<rparr>))"
    using r1 cmd d assms(2) by (simp add: Let_def split: option.splits)
  ultimately show ?thesis by blast
qed

text \<open>C15: over a connection that delivers what is asked for, a LOAD command installs exactly the descriptor
  that the packet encodes, at the block allocated for it, and the service goes on behind the
  packet. The outcome does not depend on the 16 bytes of the signature: nothing verifies them.\<close>

theorem load_command_installs:
  assumes "reliable recv" and "sv_status s = RUNNING" and "length (sv_buf s) = 4" and "length sign = 16"
    and "length (pa_block (pas k)) = length pkt" and "sv_net s = load_command sign pkt @ rest"
    and "pkt = encode_desc d" and "desc_ok d" and "length pkt < 65520"
  shows "\<exists>buf. length buf = 4 \<and> wait_for_patch (Suc k) recv send mem pas s =
    (case notify_new_patch mem (pa_al (pas k)) (pa_addr (pas k))
            ((sv_ctx s)\<lparr>descs := (descs (sv_ctx s))(pa_addr (pas k) \<mapsto> d)\<rparr>) of
       None \<Rightarrow> Fault
     | Some c' \<Rightarrow> wait_for_patch k recv send mem pas (s\<lparr>sv_buf := buf, sv_net := rest, sv_ctx := c'\<rparr>))"
  using assms by (rule load_turn)

definition list_recv :: "u8 list receiver" where
  "list_recv net n = (int (length (take n net)), take n net, drop n net)"

lemma list_recv_reliable: "reliable list_recv"
  by (simp add: reliable_def list_recv_def)

definition sample_desc :: patch_desc where
  "sample_desc = \<lparr>d_type = FixedPatchPoint, d_code_len = 0, d_loc = 0x08002c8e, d_code = []\<rparr>"

definition sample_service :: "u8 list service" where
  "sample_service = \<lparr>sv_status = RUNNING, sv_buf = [0, 0, 0, 0],
     sv_net = load_command (replicate 16 0) (encode_desc sample_desc), sv_ctx = sample_ctx\<rparr>"

theorem load_command_installs_witness:
  "\<exists>buf. wait_for_patch (Suc 0) list_recv (\<lambda>n _. (1, n)) (\<lambda>_. None)
      (\<lambda>_. \<lparr>pa_addr = 0x500, pa_block = replicate 8 0, pa_al = sample_alloc\<rparr>) sample_service =
    (case notify_new_patch (\<lambda>_. None) sample_alloc 0x500
            (sample_ctx\<lparr>descs := (descs sample_ctx)(0x500 \<mapsto> sample_desc)\<rparr>) of
       None \<Rightarrow> Fault
     | Some c' \<Rightarrow> wait_for_patch 0 list_recv (\<lambda>n _. (1, n)) (\<lambda>_. None)
        (\<lambda>_. \<lparr>pa_addr = 0x500, pa_block = replicate 8 0, pa_al = sample_alloc\<rparr>)
        (sample_service\<lparr>sv_buf := buf, sv_net := [], sv_ctx := c'\<rparr>))"
proof -
  have l: "length (encode_desc sample_desc) = 8"
    by (simp add: encode_desc_def le_bytes_def sample_desc_def)
  show ?thesis
    using load_command_installs [OF list_recv_reliable, of sample_service "replicate 16 0"
        "\<lambda>_. \<lparr>pa_addr = 0x500, pa_block = replicate 8 0, pa_al = sample_alloc\<rparr>" 0
        "encode_desc sample_desc" "[]" sample_desc "\<lambda>n _. (1, n)" "\<lambda>_. None"]
    by (auto simp: l sample_service_def desc_ok_def sample_desc_def [THEN arg_cong [where f = d_type]]
      simp del: wait_for_patch.simps)
qed

text \<open>C33: the service stops, disconnected, when the peer sends EXIT, when it closes the connection, and when
  it does not take the answer to a heartbeat.\<close>

theorem service_stops:
  assumes "sv_status s = RUNNING"
  shows "(fst (recv (sv_net s) 1) \<noteq> 1 \<longrightarrow>
      (\<exists>s'. wait_for_patch (Suc k) recv send mem pas s = Done s' \<and> sv_status s' = WAIT_FOR_INIT)) \<and>
    (recv (sv_net s) 1 = (1, [0], n) \<longrightarrow>
      (\<exists>s'. wait_for_patch (Suc (Suc k)) recv send mem pas s = Done s' \<and> sv_status s' = WAIT_FOR_INIT)) \<and>
    (recv (sv_net s) 1 = (1, [2], n) \<and> fst (send n [2]) \<noteq> 1 \<longrightarrow>
      (\<exists>s'. wait_for_patch (Suc (Suc k)) recv send mem pas s = Done s' \<and> sv_status s' = WAIT_FOR_INIT))"
  using assms by (auto simp: fill_def byte2int_def push_digit_def int_ok_def dispatch_patch_command_def dis_connect_def Let_def split_beta)

definition sample_pas :: "nat \<Rightarrow> pkt_alloc" where
  "sample_pas = (\<lambda>_. \<lparr>pa_addr = 0x500, pa_block = replicate 8 0, pa_al = sample_alloc\<rparr>)"

theorem service_stops_witness:
  "\<exists>s'. wait_for_patch 2 list_recv (\<lambda>n _. (1, n)) (\<lambda>_. None) sample_pas (sample_service\<lparr>sv_net := [0]\<rparr>) = Done s' \<and>
    sv_status s' = WAIT_FOR_INIT"
  using service_stops [of "sample_service\<lparr>sv_net := [0]\<rparr>" list_recv 0 "\<lambda>n _. (1, n)" "\<lambda>_. None" sample_pas "[]"]
  by (simp add: sample_service_def list_recv_def numeral_2_eq_2 del: wait_for_patch.simps)

end
