(* ===== verification/Local_Patches.thy ===== *)
theory Local_Patches
  imports Fixed_Points Patch_Code Jit
begin

text \<open>
  Loading the patches that are linked into the firmware: \<open>hotpatch/src/fixed_patch_load.c\<close> and
  \<open>hotpatch/src/dynamic_patch_load.c\<close>. Each file keeps one static descriptor and one static patch
  that every load reuses. \<open>pid\<close> is an \<open>int\<close>; \<open>None\<close> is an access outside the list, or a fault of
  one of the operations called.
\<close>

record local_patch =
  lp_cve :: string
  lp_loc :: u32
  lp_code :: "u8 list"
  lp_code_len :: u32

text \<open>The statics of one file; \<open>l_jit\<close> is the compiler's static buffer. \<open>_patch->vm\<close> is NULL exactly
  until the first load has set it, so \<open>is_init\<close> stands for that test, too.\<close>

record loader =
  l_desc :: u32
  l_patch :: u32
  l_is_init :: bool
  l_list :: "local_patch list"
  l_jit :: "jit_state option"

record load_alloc =
  la :: alloc
  la_desc :: u32
  la_tbl :: "int \<Rightarrow> u32"
  la_epi :: nat

subsection \<open>The lists\<close>

text \<open>\<open>sizeof\<close> of an array initialised from a string; the byte lists hold the terminating zero.\<close>

definition sizeof_code :: "u8 list \<Rightarrow> u32" where "sizeof_code code = word_of_nat (length code)"

definition mk_local :: "string \<Rightarrow> u32 \<Rightarrow> u8 list \<Rightarrow> local_patch" where
  "mk_local cve loc code = \<lparr>lp_cve = cve, lp_loc = loc, lp_code = code, lp_code_len = sizeof_code code\<rparr>"

definition fixed_patch_list :: "local_patch list" where
  "fixed_patch_list =
     [mk_local ''dummy_bug_function'' 0x08002950 dummy_bug_function,
      mk_local ''zephyr_cve_2020_10063 attack_coap'' 0x0000d0be fixed_zephyr_cve_10063,
      mk_local ''zephyr_cve_2020_10062 dummy_MQTT_packet_length_decode_patch'' 0x08002c8e fixed_zephyr_cve_10062,
      mk_local ''AMNESIA33_cve_2020_17445 dummy_pico_ipv6_process_destopt_patch'' 0x08002dec
        fixed_AMNESIA33_cve_2020_17445_SFI]"

definition dynamic_patch_list :: "local_patch list" where
  "dynamic_patch_list =
     [mk_local ''my test cve'' 0x080072e0 test_cve,
      mk_local ''dynamic patch dummy cve_2020_10062'' 0x00009740 zephyr_cve_10062,
      mk_local ''dynamic patch dummy CVE_2020_17445'' 0x00009740 AMNESIA33_cve_2020_17445_SFI]"

text \<open>\<open>setup_cve_list\<close> of the dynamic list writes the addresses of three functions of the firmware;
  it runs when the list is shown.\<close>

definition setup_cve_list :: "u32 list \<Rightarrow> local_patch list \<Rightarrow> local_patch list option" where
  "setup_cve_list addrs ps =
     (if length ps < 3 then None
      else Some (ps[0 := (ps ! 0)\<lparr>lp_loc := addrs ! 0\<rparr>, 1 := (ps ! 1)\<lparr>lp_loc := addrs ! 1\<rparr>,
                    2 := (ps ! 2)\<lparr>lp_loc := addrs ! 2\<rparr>]))"

definition show_local_patch_desc :: "u32 list \<Rightarrow> loader \<Rightarrow> (string list \<times> loader) option" where
  "show_local_patch_desc addrs l =
     map_option (\<lambda>ps. (map lp_cve (l_list l), l\<lparr>l_list := ps\<rparr>)) (setup_cve_list addrs (l_list l))"

subsection \<open>Loading\<close>

definition init_statics :: "load_alloc \<Rightarrow> loader \<Rightarrow> loader" where
  "init_statics a l =
     (if l_is_init l then l else l\<lparr>l_desc := la_desc a, l_patch := a_patch (la a), l_is_init := True\<rparr>)"

text \<open>The VM of the patch: the one it has, or a new one, with the code of the entry set.\<close>

definition local_vm :: "load_alloc \<Rightarrow> bool \<Rightarrow> u32 \<Rightarrow> local_patch \<Rightarrow> patch_context \<Rightarrow> (ebpf_vm \<times> patch_context) option" where
  "local_vm a old p e c = do {
     (vm0, g0) \<leftarrow>
       (if old then map_option (\<lambda>pt. (p_vm pt, c_helpers c)) (patches c p)
        else let (g, v) = init_ebpf_vm (a_junk (la a)) (a_call (la a)) (a_vm (la a)) (c_helpers c)
                            (lp_code e) (lp_code_len e)
             in map_option (\<lambda>vm. (vm, g)) v);
     let (g1, vm1) = ebpf_vm_set_inst (a_junk (la a)) (a_call (la a)) g0 vm0 (lp_code e) (lp_code_len e);
     Some (vm1, c\<lparr>c_helpers := g1\<rparr>)}"

text \<open>The static descriptor and patch, filled in for the entry.\<close>

definition fill_statics :: "patch_type \<Rightarrow> loader \<Rightarrow> local_patch \<Rightarrow> ebpf_vm \<Rightarrow> patch_context \<Rightarrow> patch_context" where
  "fill_statics ty l e vm c =
     c\<lparr>descs := (descs c)(l_desc l \<mapsto> \<lparr>d_type = ty, d_code_len = 0, d_loc = lp_loc e, d_code = []\<rparr>),
       patches := (patches c)(l_patch l \<mapsto> \<lparr>p_desc = l_desc l, p_vm = vm,
         is_active = (case patches c (l_patch l) of None \<Rightarrow> False | Some pt \<Rightarrow> is_active pt)\<rparr>)\<rparr>"

definition load_local_fixed_patch ::
    "memory \<Rightarrow> load_alloc \<Rightarrow> int \<Rightarrow> loader \<times> patch_context \<Rightarrow> (loader \<times> patch_context) option" where
  "load_local_fixed_patch mem a pid = (\<lambda>(l0, c0).
     (if pid > int (length (l_list l0)) then Some (l0, c0)
      else do {
        let l = init_statics a l0;
        c \<leftarrow> init_patch_sys (la a) c0;
        (if pid < 0 \<or> pid = int (length (l_list l)) then None else Some ());
        let e = l_list l ! nat pid;
        (vm, c1) \<leftarrow> local_vm a (l_is_init l0) (l_patch l) e c;
        let c2 = fill_statics FixedPatchPoint l e (vm\<lparr>use_jit := False\<rparr>) c1;
        c3 \<leftarrow> load_local_patch_to_ctx mem (la a) (l_patch l) c2;
        Some (l, c3)}))"

text \<open>The result is \<open>_patch\<close>, or NULL for an identifier beyond the list.\<close>

definition read_local_patch ::
    "u32 list \<Rightarrow> memory \<Rightarrow> load_alloc \<Rightarrow> int \<Rightarrow> loader \<times> patch_context \<Rightarrow>
     (u32 \<times> loader \<times> patch_context) option" where
  "read_local_patch addrs mem a pid = (\<lambda>(l0, c0).
     (if pid > int (length (l_list l0))
      then map_option (\<lambda>(_, l). (0, l, c0)) (show_local_patch_desc addrs l0)
      else do {
        let l = init_statics a l0;
        c \<leftarrow> (if l_is_init l0 then Some c0 else init_patch_sys (la a) c0);
        (if pid < 0 \<or> pid = int (length (l_list l)) then None else Some ());
        let e = l_list l ! nat pid;
        (vm, c1) \<leftarrow> local_vm a (l_is_init l0) (l_patch l) e c;
        let vm1 = vm\<lparr>use_jit := True\<rparr>;
        let l1 = l\<lparr>l_jit := Some (gen_jit_code (la_tbl a) (la_epi a) vm1)\<rparr>;
        let c2 = fill_statics DynamicPatchPoint l1 e vm1 c1;
        c3 \<leftarrow> load_local_patch_to_ctx mem (la a) (l_patch l1) c2;
        Some (l_patch l1, l1, c3)}))"

text \<open>The function the first dynamic patch is for.\<close>

definition test_dynamic_bug :: "s32 \<Rightarrow> s32" where
  "test_dynamic_bug v = (if sint v > 2000 then - 1 else 0)"

subsection \<open>The first load and the next\<close>

lemma local_vm_ok:
  assumes "old \<Longrightarrow> patches c p \<noteq> None" "\<not> old \<Longrightarrow> a_vm (la a) \<noteq> None"
  obtains g where "local_vm a old p e c = Some (zero_vm\<lparr>insts := decode_insts (lp_code e), insts_set := True,
      num_insts := num_insts_of (lp_code_len e), helper_set := True\<rparr>, c\<lparr>c_helpers := g\<rparr>)"
proof -
  obtain vm0 g0 where s: "(if old then map_option (\<lambda>pt. (p_vm pt, c_helpers c)) (patches c p)
        else let (g, v) = init_ebpf_vm (a_junk (la a)) (a_call (la a)) (a_vm (la a)) (c_helpers c)
                            (lp_code e) (lp_code_len e)
             in map_option (\<lambda>vm. (vm, g)) v) = Some (vm0, g0)"
    using assms by (cases old) (auto simp: init_ebpf_vm_def split_beta)
  have "snd (ebpf_vm_set_inst j k g0 vm0 (lp_code e) n) = zero_vm\<lparr>insts := decode_insts (lp_code e), insts_set := True,
      num_insts := num_insts_of n, helper_set := True\<rparr>" for j k n
    by (simp add: ebpf_vm_set_inst_def init_helpers_vm)
  then show ?thesis
    using that [of "fst (ebpf_vm_set_inst (a_junk (la a)) (a_call (la a)) g0 vm0 (lp_code e) (lp_code_len e))"]
    by (simp add: local_vm_def s split_beta)
qed

text \<open>The state a load files the patch in: the static descriptor and patch are fresh objects.\<close>

lemma fill_statics_ok:
  assumes "objects_ok c" "patches c (l_patch l) = None" "l_patch l \<noteq> 0" "descs c (l_desc l) = None"
  shows "objects_ok (fill_statics ty l e vm c)"
proof -
  have "fixed_entry_ok c k q \<Longrightarrow> fixed_entry_ok (fill_statics ty l e vm c) k q" for k q
    using assms by (auto simp: fixed_entry_ok_def fill_statics_def)
  then show ?thesis using assms by (auto simp: objects_ok_def fill_statics_def)
qed

definition sample_loader :: loader where
  "sample_loader = \<lparr>l_desc = 0, l_patch = 0, l_is_init = False, l_list = fixed_patch_list, l_jit = None\<rparr>"

definition sample_load :: load_alloc where
  "sample_load = \<lparr>la = sample_alloc, la_desc = 0x400, la_tbl = (\<lambda>_. 0), la_epi = 0\<rparr>"

text \<open>The first load of a local fixed patch into an initialised context puts it at its patch point,
  interpreted, with the code of the list entry, keeps the invariant, and leaves every other
  patch point as it was.\<close>

theorem load_local_fixed_patch_first:
  assumes "iot_inv c" and "ctx_init c" and "\<not> l_is_init l" and "alloc_ok (la a) c" and "descs c (la_desc a) = None"
    and "0 \<le> pid" and "pid < int (length (l_list l))" and "e = l_list l ! nat pid"
    and "fiexed_patches c = Some m" and "am_admits m (lp_loc e) (a_patch (la a))"
  shows "\<exists>l' c' pt. load_local_fixed_patch mem a pid (l, c) = Some (l', c') \<and> iot_inv c' \<and>
    (\<forall>lr. get_fixed_patch_by_lr c' lr =
       (if lr = lp_loc e then Some (a_patch (la a)) else get_fixed_patch_by_lr c lr)) \<and>
    patches c' (a_patch (la a)) = Some pt \<and> insts (p_vm pt) = decode_insts (lp_code e) \<and> \<not> use_jit (p_vm pt)"
proof -
  let ?l = "l\<lparr>l_desc := la_desc a, l_patch := a_patch (la a), l_is_init := True\<rparr>" and ?p = "a_patch (la a)"
  have obj: "objects_ok c" using assms(1) by (simp add: iot_inv_def)
  obtain g where lv: "local_vm a False ?p e c = Some (zero_vm\<lparr>insts := decode_insts (lp_code e), insts_set := True,
      num_insts := num_insts_of (lp_code_len e), helper_set := True\<rparr>, c\<lparr>c_helpers := g\<rparr>)" (is "_ = Some (?vm, ?c)")
    by (rule local_vm_ok [of False c ?p a e]) (use assms(4) in \<open>auto simp: alloc_ok_def\<close>)
  define c2 where "c2 = fill_statics FixedPatchPoint ?l e (?vm\<lparr>use_jit := False\<rparr>) ?c"
  have fe: "fixed_entry_ok ?c k q = fixed_entry_ok c k q" for k q by (simp add: fixed_entry_ok_def)
  have obj': "objects_ok ?c" using obj by (simp add: objects_ok_def fe)
  have ok2: "objects_ok c2" unfolding c2_def
    by (rule fill_statics_ok [OF obj']) (use assms(4,5) in \<open>auto simp: alloc_ok_def\<close>)
  let ?d = "\<lparr>d_type = FixedPatchPoint, d_code_len = 0, d_loc = lp_loc e, d_code = []\<rparr>"
  have dof: "desc_of c2 ?p = Some ?d" by (simp add: desc_of_def c2_def fill_statics_def)
  have f2: "fiexed_patches c2 = Some m" using assms(9) by (simp add: c2_def fill_statics_def)
  have fresh: "am_vals m i \<noteq> ?p" if "i < am_cur m" for i
    using fresh_in_map [OF obj assms(9) _ that] assms(4) by (simp add: alloc_ok_def)
  have adm: "am_admits m (d_loc ?d) ?p" using assms(10) by simp
  obtain c' where c': "Option.bind (add_fixed_patch_to_ctx (la a) ?p c2) (active_patch mem ?p) = Some c'"
    "objects_ok c'" "filters_ok c'" "dpatch_list c' = dpatch_list c2" "c_hw c' = c_hw c2"
    "descs c' = descs c2" "map_option p_vm (patches c' ?p) = map_option p_vm (patches c2 ?p)"
    "\<forall>lr. find_fixed c' lr = (if lr = d_loc ?d then Some ?p else find_fixed c2 lr)"
    by (rule install_fixed [OF ok2 dof _ f2 adm fresh, where al = "la a" and mem = mem]) simp
  have n: "load_local_fixed_patch mem a pid (l, c) = Some (?l, c')"
    using assms(2,3,6-8) lv c'(1) dof
    by (simp add: load_local_fixed_patch_def init_statics_def init_patch_sys_def Let_def c2_def
      load_local_patch_to_ctx_def)
  have "find_fixed c2 lr = find_fixed c lr" for lr
    using find_fixed_add [OF obj assms(9) f2, of ?p lr] assms(4) by (simp add: c2_def fill_statics_def alloc_ok_def)
  moreover have inv': "iot_inv c'" using c' assms(1) by (simp add: iot_inv_def c2_def fill_statics_def)
  moreover obtain pt where "patches c' ?p = Some pt" "p_vm pt = ?vm\<lparr>use_jit := False\<rparr>"
    using c'(7) by (auto simp: c2_def fill_statics_def)
  ultimately show ?thesis
    using n c'(8) by (intro exI [of _ ?l] exI [of _ c'] exI [of _ pt]) (auto simp: get_fixed_eq_find assms(1))
qed

theorem load_local_fixed_patch_first_witness:
  "\<exists>l' c'. load_local_fixed_patch (\<lambda>_. None) sample_load 2 (sample_loader, sample_ctx) = Some (l', c') \<and>
    get_fixed_patch_by_lr c' 0x08002c8e = Some 0x300"
proof -
  let ?m = "arraymap_new (\<lambda>_. 0) (\<lambda>_. 0) 4"
  have "alloc_ok (la sample_load) sample_ctx" using sample_alloc_ok by (simp add: sample_load_def)
  moreover have "descs sample_ctx (la_desc sample_load) = None" by (simp add: sample_ctx_def sample_load_def)
  moreover have "fiexed_patches sample_ctx = Some ?m" "ctx_init sample_ctx" by (simp_all add: sample_ctx_def)
  moreover have "am_admits ?m (lp_loc (l_list sample_loader ! nat 2)) (a_patch (la sample_load))"
    by (simp add: am_admits_def arraymap_new_def MAP_GROW_def u16_of_def)
  ultimately obtain l' c' where "load_local_fixed_patch (\<lambda>_. None) sample_load 2 (sample_loader, sample_ctx) = Some (l', c')"
      "\<forall>lr. get_fixed_patch_by_lr c' lr = (if lr = lp_loc (l_list sample_loader ! nat 2)
         then Some (a_patch (la sample_load)) else get_fixed_patch_by_lr sample_ctx lr)"
    using load_local_fixed_patch_first [OF sample_ctx_inv, of sample_loader sample_load 2 _ ?m "\<lambda>_. None"]
    by (auto simp: sample_loader_def fixed_patch_list_def)
  then show ?thesis
    by (auto simp: sample_loader_def sample_load_def sample_alloc_def fixed_patch_list_def mk_local_def)
qed

lemma fixed_bits_uniform:
  assumes "\<And>i. i < am_cur m \<Longrightarrow> am_vals m i = p" "p \<noteq> 0" "patches c p = Some pt" "is_active pt"
    "descs c (p_desc pt) = Some d" "n \<le> am_cur m"
  shows "fixed_bits c m n = Some (if n = 0 then 0 else d_loc d)"
  using assms(6)
proof (induction n)
  case (Suc n)
  then have "arraymap_iter_val m (int n) = p" using assms(1) by (simp add: arraymap_iter_val_def)
  with Suc assms(2-5) show ?case by simp
qed simp

text \<open>A further load reuses the one descriptor, and the bit filter is rebuilt from it: after loading
  an entry while the patch already stands at other patch points, the filter holds the bits of
  the new location only, and every earlier patch point with another bit finds no patch any more.\<close>

theorem load_local_fixed_patch_again:
  assumes "ctx_init c" and "l_is_init l" and "fiexed_patches c = Some m" and "am_inv m" and "0 < am_cur m"
    and "\<forall>i < am_cur m. am_vals m i = l_patch l" and "l_patch l \<noteq> 0" and "patches c (l_patch l) = Some pt"
    and "is_active pt" and "0 \<le> pid" and "pid < int (length (l_list l))" and "e = l_list l ! nat pid"
    and "am_admits m (lp_loc e) (l_patch l)"
  shows "\<exists>c'. load_local_fixed_patch mem a pid (l, c) = Some (l, c') \<and> fbits_filter c' = lp_loc e \<and>
    (\<forall>lr. lp_loc e AND lr \<noteq> lr \<longrightarrow> get_fixed_patch_by_lr c' lr = Some 0)"
proof -
  let ?p = "l_patch l"
  obtain g where lv: "local_vm a True ?p e c = Some (zero_vm\<lparr>insts := decode_insts (lp_code e), insts_set := True,
      num_insts := num_insts_of (lp_code_len e), helper_set := True\<rparr>, c\<lparr>c_helpers := g\<rparr>)" (is "_ = Some (?vm, ?c)")
    by (rule local_vm_ok [of True c ?p a e]) (use assms(8) in auto)
  define c2 where "c2 = fill_statics FixedPatchPoint l e (?vm\<lparr>use_jit := False\<rparr>) ?c"
  let ?d = "\<lparr>d_type = FixedPatchPoint, d_code_len = 0, d_loc = lp_loc e, d_code = []\<rparr>"
  let ?m = "am_put (a_keys (la a)) (a_vals (la a)) m (lp_loc e) ?p"
  let ?c3 = "c2\<lparr>fiexed_patches := Some ?m\<rparr>"
  obtain pt2 where pt2: "patches c2 ?p = Some pt2" "is_active pt2" "p_desc pt2 = l_desc l" "descs c2 (l_desc l) = Some ?d"
    using assms(8,9) by (simp add: c2_def fill_statics_def)
  have af: "add_fixed_patch_to_ctx (la a) ?p c2 = Some ?c3"
    using pt2 assms(3) by (simp add: add_fixed_patch_to_ctx_def desc_of_def am_put_def c2_def fill_statics_def)
  have u: "am_vals ?m i = ?p" if "i < am_cur ?m" for i
    using am_put_entries [OF assms(4,13) that] assms(6) by auto
  have "fixed_bits ?c3 ?m (am_cur ?m) = Some (if am_cur ?m = 0 then 0 else lp_loc e)"
    using fixed_bits_uniform [of ?m ?p ?c3 pt2 ?d "am_cur ?m"] u assms(7) pt2 by simp
  then have ub: "update_bits_filter ?c3 = Some (?c3\<lparr>fbits_filter := if am_cur ?m = 0 then 0 else lp_loc e,
      dbits_filter_pc := or_all (map dp_pc (dpatch_list ?c3)), dbits_filter_bpkt := or_all (map dp_inst (dpatch_list ?c3))\<rparr>)"
    by (simp add: update_bits_filter_def)
  obtain c' where c': "active_patch mem ?p ?c3 = Some c'" "fbits_filter c' = lp_loc e"
    using pt2 by (auto simp: active_patch_def ub desc_of_def)
  have ll: "load_local_patch_to_ctx mem (la a) ?p c2 = Some c'"
    using af c' pt2 by (simp add: load_local_patch_to_ctx_def desc_of_def)
  have "load_local_fixed_patch mem a pid (l, c) = Some (l, c')"
    using assms(1,2,10-12) lv ll
    by (simp add: load_local_fixed_patch_def init_statics_def init_patch_sys_def Let_def c2_def)
  with c'(2) show ?thesis by (auto simp: get_fixed_patch_by_lr_def)
qed

theorem load_local_fixed_patch_again_witness:
  "\<exists>c'. load_local_fixed_patch (\<lambda>_. None) sample_load 3
      (sample_loader\<lparr>l_is_init := True, l_patch := 0x300, l_desc := 0x200\<rparr>, sample_fixed) =
        Some (sample_loader\<lparr>l_is_init := True, l_patch := 0x300, l_desc := 0x200\<rparr>, c') \<and>
    get_fixed_patch_by_lr c' 0x08002c8e = Some 0"
proof -
  let ?l = "sample_loader\<lparr>l_is_init := True, l_patch := 0x300, l_desc := 0x200\<rparr>"
  let ?m = "\<lparr>am_max = 4, am_cur = 1, am_keys = (\<lambda>_. 0x08002c8e), am_vals = (\<lambda>_. 0x300), am_oob = False\<rparr>"
  obtain pt where pt: "patches sample_fixed 0x300 = Some pt" "is_active pt"
    by (simp add: sample_fixed_def sample_mon_def)
  have m: "fiexed_patches sample_fixed = Some ?m" "ctx_init sample_fixed"
    by (simp_all add: sample_fixed_def sample_mon_def sample_ctx_def)
  have inv: "am_inv ?m" by (simp add: am_inv_def sorted_upto_def)
  have loc: "lp_loc (l_list ?l ! nat 3) = 0x08002dec"
    by (simp add: sample_loader_def fixed_patch_list_def mk_local_def)
  have adm: "am_admits ?m (lp_loc (l_list ?l ! nat 3)) (l_patch ?l)"
    unfolding loc by (simp add: am_admits_def MAP_GROW_def)
  have len: "(3 :: int) < int (length (l_list ?l))" by (simp add: sample_loader_def fixed_patch_list_def)
  show ?thesis
    using load_local_fixed_patch_again [OF m(2) _ m(1) inv _ _ _ _ pt(2) _ len refl adm, of "\<lambda>_. None" sample_load]
      pt(1) loc by (auto elim!: allE [of _ "0x08002c8e"])
qed

end
