(* ===== verification/Demos.thy ===== *)
theory Demos
  imports Local_Patches
begin

text \<open>
  The vulnerable functions and the test drivers that come with the runtime: the dynamic ones of
  \<open>app/dummy_cve.c\<close> and \<open>app/cve_trigger.h\<close>, the callers in \<open>hotpatch/src/fixed_patch_points.c\<close>, and
  the tests at the end of \<open>hotpatch/src/cortex-m4_fbp.c\<close>. A driver puts its local variables where
  the compiler places them, which is a parameter, calls the function and reports what it finds;
  the profiling around the call is left out.
\<close>

subsection \<open>Local arrays\<close>

definition place :: "u32 \<Rightarrow> u8 list \<Rightarrow> memory \<Rightarrow> memory" where
  "place base bs m = (\<lambda>a. if unat (a - base) < length bs then Some (bs ! unat (a - base)) else m a)"

definition place32 :: "u32 \<Rightarrow> u32 \<Rightarrow> memory \<Rightarrow> memory" where
  "place32 base v = place base (le_bytes 4 (ucast v))"

lemma place_at: "n < length bs \<Longrightarrow> length bs < 2 ^ 32 \<Longrightarrow> place base bs m (base + word_of_nat n) = Some (bs ! n)"
  by (simp add: place_def unat_of_nat take_bit_nat_eq_self)

subsection \<open>Functions for dynamic patches\<close>

definition dynamic_patch_dummy_cve1 :: "memory \<Rightarrow> u32 \<Rightarrow> (int \<times> u32) option" where
  "dynamic_patch_dummy_cve1 m buf = do {
     cur \<leftarrow> load32 m buf;
     end \<leftarrow> load32 m (buf + 4);
     (r, len, _) \<leftarrow> mqtt_loop m cur end 0 0 0;
     Some (r, len)}"

definition dynamic_patch_dummy_cve2 :: "nat \<Rightarrow> memory \<Rightarrow> u32 \<Rightarrow> u32 \<Rightarrow> int loop_result" where
  "dynamic_patch_dummy_cve2 n m destopt opt_ptr =
     (case m (destopt + 1) of
        None \<Rightarrow> Fault
      | Some b \<Rightarrow> destopt_loop n m opt_ptr (destopt + 2) (ucast (push_bit 3 ((ucast b :: u32) + 1) - 2)))"

subsection \<open>Drivers\<close>

definition packet_buf :: "u8 list" where
  "packet_buf = replicate 4 0xff @ [0x7f] @ replicate 5 0"

definition destopt_buf :: "u8 list" where
  "destopt_buf = [1, 1, - 2, - 2, - 2, - 2, - 2] @ replicate 43 0"

text \<open>\<open>packet_buf\<close> at \<open>pkt\<close>, and \<open>dbc\<close> with its two pointers.\<close>

definition mqtt_locals :: "u32 \<Rightarrow> u32 \<Rightarrow> memory \<Rightarrow> memory" where
  "mqtt_locals pkt dbc m = place32 (dbc + 4) (pkt + 9) (place32 dbc pkt (place pkt packet_buf m))"

text \<open>The answer is whether the driver prints that the function is fixed.\<close>

definition trigger_dummy_cve1 :: "u32 \<Rightarrow> u32 \<Rightarrow> memory \<Rightarrow> bool option" where
  "trigger_dummy_cve1 pkt dbc m =
     map_option (\<lambda>(_, pkt_length). \<not> pkt_length \<noteq> 0) (dynamic_patch_dummy_cve1 (mqtt_locals pkt dbc m) dbc)"

definition trigger_dummy_cve2 :: "nat \<Rightarrow> u32 \<Rightarrow> memory \<Rightarrow> int loop_result" where
  "trigger_dummy_cve2 n destopt m = dynamic_patch_dummy_cve2 n (place destopt destopt_buf m) destopt 0"

definition this_is_cve_trigger_func :: bool where
  "this_is_cve_trigger_func \<longleftrightarrow> test_dynamic_bug 4500 = 0"

text \<open>\<open>pkt_length\<close> is 0 before the call; an early return leaves it.\<close>

definition call_dummy_buggy_MQTT_function :: "u32 \<Rightarrow> u32 \<Rightarrow> u32 \<Rightarrow> memory \<Rightarrow> bool option" where
  "call_dummy_buggy_MQTT_function patch_point pkt dbc m =
     map_option (\<lambda>(_, len). \<not> (case len of None \<Rightarrow> 0 | Some l \<Rightarrow> l) \<noteq> 0)
       (dummy_buggy_MQTT_packet_length_decode patch_point (mqtt_locals pkt dbc m) dbc)"

definition call_dummy_CVE_2020_17445_pico_ipv6_process_destopt :: "nat \<Rightarrow> u32 \<Rightarrow> u32 \<Rightarrow> memory \<Rightarrow> int loop_result" where
  "call_dummy_CVE_2020_17445_pico_ipv6_process_destopt n patch_point destopt m =
     dummy_CVE_2020_17445_pico_ipv6_process_destopt n patch_point (place destopt destopt_buf m) destopt 0"

definition call_buggy_function :: "u32 \<Rightarrow> bool" where
  "call_buggy_function patch_point \<longleftrightarrow>
     bug_function patch_point 1 \<lparr>v1 = 1, v2 = 97, v3 = 3\<rparr> \<lparr>v1 = 2, v2 = 98, v3 = 2\<rparr> 2 3 4 = 0"

subsection \<open>The comparison with HERA\<close>

text \<open>Both functions read the first byte of the IP header and the length of the buffer, an \<open>int\<close> that
  is compared as an unsigned number.\<close>

definition uxHeaderLength :: "u8 \<Rightarrow> u32" where
  "uxHeaderLength ucVersionHeaderLength = push_bit 2 (ucast ucVersionHeaderLength AND 0x0F)"

definition freertos_cve_func :: "u8 \<Rightarrow> s32 \<Rightarrow> int" where
  "freertos_cve_func ucVersionHeaderLength xDataLength = 0"

definition hera_fix_func :: "u8 \<Rightarrow> s32 \<Rightarrow> int" where
  "hera_fix_func ucVersionHeaderLength xDataLength =
     (if uxHeaderLength ucVersionHeaderLength > xDataLength - 14 \<or> uxHeaderLength ucVersionHeaderLength < 20
      then - 1 else 0)"

subsection \<open>Tests of the breakpoint unit\<close>

definition buggy_func :: "s32 \<Rightarrow> s32" where
  "buggy_func v = (if sint v > 2000 then - 1 else 0)"

text \<open>\<open>PATCH_TBL\<close> rounds the address of \<open>REMAP_ADDR\<close> down, so the word of comparator 1 is one of its
  words only near the start of a 32-byte line; \<open>None\<close> is a store in front of it.\<close>

definition fpb_setup_test :: "u32 \<Rightarrow> u32 \<Rightarrow> hw \<Rightarrow> hw option" where
  "fpb_setup_test RawBuggyFunc FixedBuggyFunc h =
     (let buggy_addr = RawBuggyFunc AND 0xFFFFFFFE;
          fixed_addr = FixedBuggyFunc AND 0xFFFFFFFE;
          h1 = set_comp 1 (buggy_addr OR 1) h;
          jmp_inst = calc_branch_instr buggy_addr fixed_addr;
          PATCH_TBL = h_base h AND NOT 0x1f;
          back = unat (h_base h - PATCH_TBL) div 4
      in if back > 1 then None
         else Some (h1\<lparr>h_words := (h_words h1)(1 - back := little_endian_16_bit jmp_inst),
                       h_remap := PATCH_TBL, h_ctrl := 3\<rparr>))"

definition test_debugmon_patch :: "(u32 \<Rightarrow> u32 \<Rightarrow> u32) \<Rightarrow> memory \<Rightarrow> u32 \<Rightarrow> hw \<Rightarrow> hw option" where
  "test_debugmon_patch w1c m buggy_func_addr h =
     map_option snd (add_hw_bkpt m buggy_func_addr (set_patch_mode w1c CORTEX_DEB_MON_PATCH h))"

definition test_fpb_flash_patch :: "(u32 \<Rightarrow> u32 \<Rightarrow> u32) \<Rightarrow> u32 \<Rightarrow> u32 \<Rightarrow> hw \<Rightarrow> hw option" where
  "test_fpb_flash_patch w1c RawBuggyFunc FixedBuggyFunc h =
     fpb_setup_test RawBuggyFunc FixedBuggyFunc (set_patch_mode w1c CORTEX_FPB_PATCH h)"


subsection \<open>What the drivers find\<close>

lemma byte_le32: "n < 4 \<Longrightarrow> le_bytes 4 (ucast (v :: u32)) ! n = byte_of n (ucast v :: u64)"
  by (simp add: le_bytes_def)

lemma length_le32: "length (le_bytes 4 v) = 4"
  by (simp add: le_bytes_def)

lemma load32_bytes:
  assumes "\<And>n. n < 4 \<Longrightarrow> m (a + word_of_nat n) = Some (byte_of n (ucast v :: u64))"
  shows "load32 m a = Some v"
proof -
  have "load_bytes m a 4 = Some (map (\<lambda>n. byte_of n (ucast v :: u64)) [0..<4])"
    using assms [of 0] assms [of 1] assms [of 2] assms [of 3]
    by (simp add: numeral_eq_Suc upt_rec add.assoc)
  moreover have "le_value (map (\<lambda>n. byte_of n (ucast v :: u64)) [0..<4]) = take_bit 32 (ucast v)"
    using le_value_bytes [of 0 "ucast v" 4] by simp
  moreover have "(ucast (take_bit 32 (ucast v :: u64)) :: u32) = v"
    by (simp add: bit_eq_iff bit_simps)
  ultimately show ?thesis by (simp add: load32_def mem_load_def)
qed

lemma unat_neg_u32: "(x :: u32) \<noteq> 0 \<Longrightarrow> unat (- x) = 2 ^ 32 - unat x"
  using unat_sub_if_size [of 0 x] by (simp add: word_size unat_eq_zero word_le_nat_alt)

lemma far_add:
  fixes a b :: u32
  assumes "10 \<le> unat (b - a)" "8 \<le> unat (a - b)" "n < 10"
  shows "8 \<le> unat (a + word_of_nat n - b)" "4 \<le> unat (a + word_of_nat n - (b + 4))"
proof -
  let ?x = "a - b"
  have nz: "?x \<noteq> 0" using assms(2) by auto
  have "unat (b - a) = 2 ^ 32 - unat ?x" using unat_neg_u32 [OF nz] by simp
  then have le: "unat ?x + 10 \<le> 2 ^ 32" using assms(1) unsigned_less [of ?x] by simp
  have n: "unat (word_of_nat n :: u32) = n" using assms(3) by (simp add: unat_of_nat take_bit_nat_eq_self)
  have "unat (?x + word_of_nat n) = unat ?x + n"
    using le assms(3) n by (simp add: unat_word_ariths)
  then show g: "8 \<le> unat (a + word_of_nat n - b)" using assms(2) by (simp add: diff_add_eq)
  have "unat (a + word_of_nat n - b - 4) = unat (a + word_of_nat n - b) - 4"
    using g by (simp add: unat_sub_if_size word_size)
  then show "4 \<le> unat (a + word_of_nat n - (b + 4))" using g by (simp add: diff_diff_eq)
qed

lemma mqtt_locals_packet:
  assumes "10 \<le> unat (dbc - pkt)" "8 \<le> unat (pkt - dbc)" "n < 10"
  shows "mqtt_locals pkt dbc m (pkt + word_of_nat n) = Some (packet_buf ! n)"
proof -
  have "length packet_buf = 10" by (simp add: packet_buf_def)
  then have "place pkt packet_buf m (pkt + word_of_nat n) = Some (packet_buf ! n)"
    using assms(3) by (intro place_at) simp_all
  then show ?thesis
    using far_add [OF assms] by (simp add: mqtt_locals_def place32_def place_def length_le32)
qed

lemma mqtt_locals_dbc: "load32 (mqtt_locals pkt dbc m) dbc = Some pkt"
  "load32 (mqtt_locals pkt dbc m) (dbc + 4) = Some (pkt + 9)"
proof -
  have u: "unat (word_of_nat n :: u32) = n" if "n < 4" for n
    using that by (simp add: unat_of_nat take_bit_nat_eq_self)
  have v: "unat (word_of_nat n - 4 :: u32) = 2 ^ 32 - 4 + n" if "n < 4" for n
  proof -
    have "n = 0 \<or> n = 1 \<or> n = 2 \<or> n = 3" using that by auto
    then show ?thesis by (auto simp: unsigned_minus_1_eq_mask mask_eq_exp_minus_1)
  qed
  show "load32 (mqtt_locals pkt dbc m) dbc = Some pkt"
    by (rule load32_bytes) (simp add: mqtt_locals_def place32_def place_def length_le32 u v byte_le32)
  show "load32 (mqtt_locals pkt dbc m) (dbc + 4) = Some (pkt + 9)"
    by (rule load32_bytes) (simp add: mqtt_locals_def place32_def place_def length_le32 u byte_le32)
qed

text \<open>The five length bytes of the packet decode to \<open>2^32 - 1\<close>.\<close>

lemma mqtt_demo_length:
  assumes "\<And>n. n < 10 \<Longrightarrow> m (pkt + word_of_nat n) = Some (packet_buf ! n)" "unat pkt + 10 < 2 ^ 32"
  shows "mqtt_loop m pkt (pkt + 9) 0 0 0 = Some (0, 0xffffffff, pkt + 5)"
proof -
  have b: "m pkt = Some 0xff" "m (pkt + 1) = Some 0xff" "m (pkt + 2) = Some 0xff" "m (pkt + 3) = Some 0xff"
      "m (pkt + 4) = Some 0x7f"
    using assms(1) [of 0] assms(1) [of 1] assms(1) [of 2] assms(1) [of 3] assms(1) [of 4]
    by (simp_all add: packet_buf_def nth_append numeral_eq_Suc)
  have u: "unat (pkt + word_of_nat k) = unat pkt + k" if "k < 10" for k
    using that assms(2) by (simp add: unat_word_ariths unat_of_nat take_bit_nat_eq_self)
  have "\<not> pkt + 9 \<le> pkt" "\<not> pkt + 9 \<le> pkt + 1" "\<not> pkt + 9 \<le> pkt + 2" "\<not> pkt + 9 \<le> pkt + 3" "\<not> pkt + 9 \<le> pkt + 4"
    using u [of 9] u [of 1] u [of 2] u [of 3] u [of 4] by (simp_all add: word_le_nat_alt)
  with b show ?thesis by (simp add: mqtt_loop.simps Let_def add.assoc)
qed

text \<open>The packet of the MQTT drivers: unpatched, both vulnerable functions decode a length and the
  driver reports the vulnerability; the shipped filter drops this very packet, and with its answer
  at the patch point the driver reports that the function is fixed.\<close>

theorem mqtt_drivers:
  assumes "10 \<le> unat (dbc - pkt)" and "8 \<le> unat (pkt - dbc)" and "unat pkt + 10 < 2 ^ 32"
    and "frame_get (mqtt_locals pkt dbc m) frame F_r0 = Some dbc"
  shows "call_dummy_buggy_MQTT_function FIXED_OP_PASS pkt dbc m = Some False \<and>
    trigger_dummy_cve1 pkt dbc m = Some False \<and>
    filter_10062 (mqtt_locals pkt dbc m) frame = Some (set_return32 1 (- EINVAL)) \<and>
    call_dummy_buggy_MQTT_function 0 pkt dbc m = Some True"
proof -
  let ?m = "mqtt_locals pkt dbc m"
  have pk: "?m (pkt + word_of_nat n) = Some (packet_buf ! n)" if "n < 10" for n
    using mqtt_locals_packet [OF assms(1,2) that] .
  have l: "mqtt_loop ?m pkt (pkt + 9) 0 0 0 = Some (0, 0xffffffff, pkt + 5)"
    by (rule mqtt_demo_length [OF pk assms(3)]) 
  have "load_bytes ?m dbc 8 \<noteq> None"
    using mqtt_locals_dbc [of pkt dbc m] by (auto simp: load32_def mem_load_def add.assoc split: option.splits)
  then obtain cur where cur: "rd ?m (ucast dbc) 8 = Some cur" by (auto simp: rd_def mem_load_def simp del: load_bytes_numeral)
  then have c: "ucast cur = pkt" using mem_load_low [of ?m dbc cur] mqtt_locals_dbc(1) [of pkt dbc m] by (simp add: rd_def)
  have cont: "continues ?m cur j \<longleftrightarrow> j < 4" if "j < 5" for j
  proof -
    have "j = 0 \<or> j = 1 \<or> j = 2 \<or> j = 3 \<or> j = 4" using that by auto
    then show ?thesis using continues_byte [of ?m cur j] pk [of j] that c by (auto simp: packet_buf_def nth_append)
  qed
  have "\<forall>j < 5. rd ?m (cur + word_of_nat j) 1 \<noteq> None"
    using pk c by (auto simp: rd_byte ucast_add_64 lo_of_nat)
  then have "filter_10062 ?m frame = Some (set_return32 1 (- EINVAL))"
    using filter_10062_eq [OF assms(4) cur] cont by auto
  then show ?thesis
    using l mqtt_locals_dbc [of pkt dbc m]
    by (simp add: call_dummy_buggy_MQTT_function_def trigger_dummy_cve1_def dynamic_patch_dummy_cve1_def
      dummy_buggy_MQTT_packet_length_decode_def PATCH_FUNCTION_ERR_CODE_def FIXED_OP_PASS_def)
qed

theorem mqtt_drivers_witness:
  "trigger_dummy_cve1 0x100 0x200 (place32 0x300 0x200 (\<lambda>_. None)) = Some False"
proof -
  have "load32 (mqtt_locals 0x100 0x200 (place32 0x300 0x200 (\<lambda>_. None))) 0x300 = Some 0x200"
  proof (rule load32_bytes)
    fix n :: nat
    assume "n < 4"
    then have "n = 0 \<or> n = 1 \<or> n = 2 \<or> n = 3" by auto
    then show "mqtt_locals 0x100 0x200 (place32 0x300 0x200 (\<lambda>_. None)) (0x300 + word_of_nat n) =
        Some (byte_of n (ucast (0x200 :: u32) :: u64))"
      by (auto simp: mqtt_locals_def place32_def place_def length_le32 packet_buf_def le_bytes_def)
  qed
  then have "frame_get (mqtt_locals 0x100 0x200 (place32 0x300 0x200 (\<lambda>_. None))) 0x300 F_r0 = Some 0x200"
    by (simp add: frame_get_def load32_def)
  from mqtt_drivers [OF _ _ _ this] show ?thesis by simp
qed

text \<open>The packet of the IPv6 drivers has an option of length 254: without a patch neither function returns.\<close>

theorem destopt_drivers:
  "trigger_dummy_cve2 n destopt m = OutOfFuel \<and>
   call_dummy_CVE_2020_17445_pico_ipv6_process_destopt n FIXED_OP_PASS destopt m = OutOfFuel"
proof -
  let ?m = "place destopt destopt_buf m"
  have len: "length destopt_buf = 50" by (simp add: destopt_buf_def)
  have "?m (destopt + word_of_nat k) = Some (destopt_buf ! k)" if "k < 50" for k
    using that len by (intro place_at) simp_all
  from this [of 1] this [of 2] this [of 3]
  have b: "?m (destopt + 1) = Some 1" "?m (destopt + 2) = Some 254" "?m (destopt + 2 + 1) = Some 254"
    by (simp_all add: destopt_buf_def add.assoc)
  have "destopt_loop n ?m 0 (destopt + 2) 14 = OutOfFuel"
    by (rule destopt_stuck) (simp_all only: b, simp_all)
  then show ?thesis
    using b by (simp add: trigger_dummy_cve2_def call_dummy_CVE_2020_17445_pico_ipv6_process_destopt_def
      dynamic_patch_dummy_cve2_def dummy_CVE_2020_17445_pico_ipv6_process_destopt_def PATCH_FUNCTION_ERR_CODE_def)
qed

text \<open>The repaired FreeRTOS check: for a buffer of at least an Ethernet header it accepts exactly the header
  lengths from 20 bytes up to the rest of the buffer; for a shorter one the difference wraps, and
  every header length from 20 on is accepted.\<close>

lemma uxHeaderLength_le: "unat (uxHeaderLength b) \<le> 60"
proof -
  have "unat ((ucast b :: u32) AND 0x0F) \<le> 15"
    using word_and_le1 [of "ucast b :: u32" "0x0F"] by (simp add: word_le_nat_alt)
  then have "unat ((ucast b :: u32) AND 0x0F) * 4 < 2 ^ 32" by simp
  then show ?thesis
    using \<open>unat ((ucast b :: u32) AND 0x0F) \<le> 15\<close>
    by (simp add: uxHeaderLength_def push_bit_eq_mult unat_word_ariths)
qed

theorem hera_fix_func_checks:
  assumes "n < 2 ^ 31"
  shows "hera_fix_func b (word_of_nat n) = 0 \<longleftrightarrow>
    20 \<le> unat (uxHeaderLength b) \<and> (unat (uxHeaderLength b) + 14 \<le> n \<or> n < 14)"
proof -
  have n: "unat (word_of_nat n :: u32) = n" using assms by (simp add: unat_of_nat take_bit_nat_eq_self)
  have "uxHeaderLength b > word_of_nat n - 14 \<longleftrightarrow> 14 \<le> n \<and> n - 14 < unat (uxHeaderLength b)"
    using uxHeaderLength_le [of b] by (auto simp: word_less_nat_alt unat_sub_if_size word_size n)
  then show ?thesis
    unfolding hera_fix_func_def by (auto simp: word_less_nat_alt)
qed

theorem hera_fix_func_checks_witness: "hera_fix_func 0x45 34 = 0 \<and> hera_fix_func 0x45 13 = 0"
  using hera_fix_func_checks [of 34 "0x45"] hera_fix_func_checks [of 13 "0x45"] by (simp add: uxHeaderLength_def)

end
