(* ===== verification/Shell_Cli.thy ===== *)
theory Shell_Cli
  imports Demos
begin

text \<open>
  The command line of the firmware, \<open>app/ihp_cli.c\<close>: characters are collected in a buffer, a complete
  line is split into at most five arguments, and the first of them selects what to run. The state
  behind the commands is the patch context with the two loaders of local patches. The demonstration
  and evaluation routines work on their own data; a call of one is an entry in \<open>ap_log\<close>. What is
  printed is not modelled, except for the characters echoed one by one.
\<close>

subsection \<open>Commands\<close>

datatype patch_build = Use_dynamic_patch | Use_fix_patch | Use_no_patch

text \<open>The build, what the linker and the hardware decide, and what a command allocates.\<close>

record cli_env =
  ce_qemu :: bool
  ce_linux :: bool
  ce_build :: patch_build
  ce_w1c :: "u32 \<Rightarrow> u32 \<Rightarrow> u32"
  ce_mem :: memory
  ce_load :: load_alloc
  ce_addrs :: "u32 list"
  ce_buggy :: u32
  ce_raw :: u32
  ce_fixed :: u32

datatype cli_func = Kprobe | Fpb_patch | Reset | Eva_test | Service | Fixed_point_test | Load_fixed | Unbounded_loop

datatype cli_event = Print_help | Usage | Not_found | Ran cli_func | Triggered nat | Vm_run s32

record app =
  ap_ctx :: patch_context
  ap_fixed :: loader
  ap_dyn :: loader
  ap_log :: "cli_event list"

definition log_event :: "cli_event \<Rightarrow> app \<Rightarrow> app" where
  "log_event ev a = a\<lparr>ap_log := ap_log a @ [ev]\<rparr>"

definition on_hw :: "(hw \<Rightarrow> hw option) \<Rightarrow> app \<Rightarrow> app option" where
  "on_hw f a = map_option (\<lambda>h. a\<lparr>ap_ctx := (ap_ctx a)\<lparr>c_hw := h\<rparr>\<rparr>) (f (c_hw (ap_ctx a)))"

definition load_fixed :: "cli_env \<Rightarrow> int \<Rightarrow> app \<Rightarrow> app option" where
  "load_fixed e pid a =
     map_option (\<lambda>(l, c). a\<lparr>ap_fixed := l, ap_ctx := c\<rparr>)
       (load_local_fixed_patch (ce_mem e) (ce_load e) pid (ap_fixed a, ap_ctx a))"

definition test_debug_kprobe_patch :: "cli_env \<Rightarrow> app \<Rightarrow> app option" where
  "test_debug_kprobe_patch e a =
     (if ce_linux e then Some a else on_hw (test_debugmon_patch (ce_w1c e) (ce_mem e) (ce_buggy e)) a)"

definition test_debug_fpb_patch :: "cli_env \<Rightarrow> app \<Rightarrow> app option" where
  "test_debug_fpb_patch e a =
     (if ce_linux e then Some a else on_hw (test_fpb_flash_patch (ce_w1c e) (ce_raw e) (ce_fixed e)) a)"

definition reset_patch :: "cli_env \<Rightarrow> app \<Rightarrow> app option" where
  "reset_patch e a =
     (if ce_linux e then Some a
      else map_option (\<lambda>a1. a1\<lparr>ap_ctx := destroy_patch_context (ap_ctx a1)\<rparr>)
             (on_hw (\<lambda>h. Some (clear_all_hw_bkpt h)) a))"

definition run_load_fixed_patch_point_test :: "cli_env \<Rightarrow> app \<Rightarrow> app option" where
  "run_load_fixed_patch_point_test e = load_fixed e 2"

definition run_unbounded_loop_test :: "cli_env \<Rightarrow> app \<Rightarrow> app option" where
  "run_unbounded_loop_test e a = map_option (log_event (Ran Unbounded_loop)) (load_fixed e 3 a)"

fun run_func :: "cli_env \<Rightarrow> cli_func \<Rightarrow> app \<Rightarrow> app option" where
  "run_func e Kprobe a = test_debug_kprobe_patch e a"
| "run_func e Fpb_patch a = test_debug_fpb_patch e a"
| "run_func e Reset a = reset_patch e a"
| "run_func e Eva_test a = Some (if ce_qemu e then a else log_event (Ran Eva_test) a)"
| "run_func e Service a =
     map_option (\<lambda>c. log_event (Ran Service) (a\<lparr>ap_ctx := c\<rparr>)) (init_patch_sys (la (ce_load e)) (ap_ctx a))"
| "run_func e Fixed_point_test a = Some (log_event (Ran Fixed_point_test) a)"
| "run_func e Load_fixed a = run_load_fixed_patch_point_test e a"
| "run_func e Unbounded_loop a = run_unbounded_loop_test e a"

definition cmds :: "(nat \<times> cli_func) list" where
  "cmds = [(0, Kprobe), (1, Fpb_patch), (2, Reset), (3, Eva_test), (4, Service), (5, Fixed_point_test),
           (6, Load_fixed), (7, Unbounded_loop)]"

text \<open>The enumeration is unsigned. The index equal to the number of entries reads behind the table.\<close>

definition run_test_by_id :: "cli_env \<Rightarrow> u32 \<Rightarrow> app \<Rightarrow> app option" where
  "run_test_by_id e cid a =
     (if unat cid > length cmds then Some (log_event Print_help a)
      else if unat cid = length cmds then None
      else run_func e (snd (cmds ! unat cid)) a)"

text \<open>The lists of the two patch modes have three and one entries. A negative index reads in front of
  the list.\<close>

definition handle_trigger_func :: "cli_env \<Rightarrow> s32 \<Rightarrow> app \<Rightarrow> app option" where
  "handle_trigger_func e tid a =
     (case ce_build e of
        Use_no_patch \<Rightarrow> Some a
      | b \<Rightarrow>
          let n = (if b = Use_dynamic_patch then 3 else 1) in
          if sint tid \<ge> n then Some a
          else if sint tid < 0 then None
          else Some (log_event (Triggered (nat (sint tid))) a))"

definition show_patch_list :: "cli_env \<Rightarrow> app \<Rightarrow> app option" where
  "show_patch_list e a =
     (if ce_build e = Use_dynamic_patch
      then map_option (\<lambda>(_, l). a\<lparr>ap_dyn := l\<rparr>) (show_local_patch_desc (ce_addrs e) (ap_dyn a))
      else Some a)"

definition handle_patch_func :: "cli_env \<Rightarrow> s32 \<Rightarrow> app \<Rightarrow> app option" where
  "handle_patch_func e pid a0 = do {
     a \<leftarrow> show_patch_list e a0;
     case ce_build e of
       Use_dynamic_patch \<Rightarrow> do {
         a1 \<leftarrow> on_hw (\<lambda>h. Some (set_patch_mode (ce_w1c e) CORTEX_DEB_MON_PATCH h)) a;
         map_option (\<lambda>(_, l, c). a1\<lparr>ap_dyn := l, ap_ctx := c\<rparr>)
           (read_local_patch (ce_addrs e) (ce_mem e) (ce_load e) (sint pid) (ap_dyn a1, ap_ctx a1))}
     | Use_fix_patch \<Rightarrow> load_fixed e (sint pid) a
     | Use_no_patch \<Rightarrow> Some a}"

definition handle_eBPF_vm_run_patch :: "s32 \<Rightarrow> app \<Rightarrow> app option" where
  "handle_eBPF_vm_run_patch vid a = Some (log_event (Vm_run vid) a)"

subsection \<open>The shell\<close>

definition SHELL_BUFFER_SIZE :: nat where "SHELL_BUFFER_SIZE = 128"

definition SHELL_PROMPT :: "u8 list" where "SHELL_PROMPT = [36, 32]"

record shell =
  rx_pos :: nat
  rx_buffer :: "u8 list"
  exit_shell :: bool
  sh_out :: "u8 list"
  sh_app :: app

definition shell_put_char :: "u8 \<Rightarrow> shell \<Rightarrow> shell" where
  "shell_put_char c s = s\<lparr>sh_out := sh_out s @ [c]\<rparr>"

definition shell_echo :: "u8 \<Rightarrow> shell \<Rightarrow> shell" where
  "shell_echo c s = (if c = 10 then shell_put_char 10 (shell_put_char 13 s) else shell_put_char c s)"

definition shell_echo_str :: "u8 list \<Rightarrow> shell \<Rightarrow> shell" where
  "shell_echo_str str s = fold shell_echo str s"

definition shell_last_char :: "shell \<Rightarrow> u8" where
  "shell_last_char s = rx_buffer s ! (rx_pos s - 1)"

definition cstr :: "string \<Rightarrow> u8 list" where "cstr s = map of_char s"

definition on_app :: "(app \<Rightarrow> app option) \<Rightarrow> shell \<Rightarrow> shell option" where
  "on_app f s = map_option (\<lambda>a. s\<lparr>sh_app := a\<rparr>) (f (sh_app s))"

text \<open>\<open>install_usart_patch\<close> has no body. A number that does not fit an \<open>int\<close> is undefined.\<close>

definition shell_dispatch_cmd :: "cli_env \<Rightarrow> u8 list list \<Rightarrow> shell \<Rightarrow> shell option" where
  "shell_dispatch_cmd e argv s =
     (let cmd = argv ! 0; argc = length argv; num = (\<lambda>f a. Option.bind (str2int (argv ! 1)) (\<lambda>n. f n a)) in
      if cmd = cstr ''q'' then Some (s\<lparr>exit_shell := True\<rparr>)
      else if cmd = cstr ''h'' \<or> cmd = cstr ''help'' then on_app (\<lambda>a. Some (log_event Print_help a)) s
      else if cmd = cstr ''run'' then
        (if argc \<ge> 2 then on_app (num (run_test_by_id e)) s else Some s)
      else if cmd = cstr ''trigger'' then
        on_app (if argc \<ge> 2 then num (handle_trigger_func e) else (\<lambda>a. Some (log_event Usage a))) s
      else if cmd = cstr ''patch'' then
        on_app (if argc \<ge> 2 then num (handle_patch_func e)
                else (\<lambda>a. show_patch_list e (log_event Usage a))) s
      else if cmd = cstr ''vm'' then
        on_app (if argc \<ge> 2 then num handle_eBPF_vm_run_patch else (\<lambda>a. Some (log_event Usage a))) s
      else if cmd = cstr ''transfer'' then Some s
      else on_app (\<lambda>a. Some (log_event Not_found a)) s)"

text \<open>The loop of \<open>shell_process\<close>: \<open>n\<close> characters from \<open>i\<close> on are left, \<open>argv\<close> and \<open>next_arg\<close> are
  indices of the buffer.\<close>

definition max_args :: nat where "max_args = 5"

fun split_args :: "nat \<Rightarrow> nat \<Rightarrow> u8 list \<Rightarrow> nat option \<Rightarrow> nat list \<Rightarrow> u8 list \<times> nat list" where
  "split_args 0 i buf next_arg argv = (buf, argv)"
| "split_args (Suc n) i buf next_arg argv =
     (if length argv \<ge> max_args then (buf, argv)
      else if buf ! i = 10 \<or> buf ! i = 32 \<or> n = 0
      then split_args n (i + 1) (buf[i := 0]) None (argv @ (case next_arg of None \<Rightarrow> [] | Some a \<Rightarrow> [a]))
      else split_args n (i + 1) buf (case next_arg of None \<Rightarrow> Some i | Some a \<Rightarrow> Some a) argv)"

text \<open>The string a pointer into the buffer leads to.\<close>

definition c_string :: "u8 list \<Rightarrow> nat \<Rightarrow> u8 list" where
  "c_string buf a = takeWhile (\<lambda>c. c \<noteq> 0) (drop a buf)"

definition clear_cli :: "shell \<Rightarrow> shell" where
  "clear_cli s = s\<lparr>rx_pos := 0, rx_buffer := replicate SHELL_BUFFER_SIZE 0\<rparr>"

definition shell_process :: "cli_env \<Rightarrow> shell \<Rightarrow> shell option" where
  "shell_process e s =
     (if shell_last_char s \<noteq> 10 \<and> shell_last_char s \<noteq> 13 then Some s
      else
        let (buf, argv) = split_args (rx_pos s) 0 (rx_buffer s) None []; s1 = s\<lparr>rx_buffer := buf\<rparr> in do {
          s2 \<leftarrow> (if argv \<noteq> [] then shell_dispatch_cmd e (map (c_string buf) argv) s1 else Some s1);
          Some (shell_echo_str SHELL_PROMPT (clear_cli s2))})"

definition shell_receive_char :: "cli_env \<Rightarrow> u8 \<Rightarrow> shell \<Rightarrow> shell option" where
  "shell_receive_char e c s0 =
     (let s = shell_put_char c s0 in
      if (\<not> ce_qemu e \<and> c = 13) \<or> rx_pos s \<ge> SHELL_BUFFER_SIZE then Some s
      else shell_process e (s\<lparr>rx_buffer := (rx_buffer s)[rx_pos s := c], rx_pos := rx_pos s + 1\<rparr>))"

text \<open>The loop of \<open>run_shell_cli\<close> on the characters received so far; \<open>es\<close> gives the allocations of the
  turns.\<close>

fun shell_loop :: "cli_env \<Rightarrow> (nat \<Rightarrow> load_alloc) \<Rightarrow> u8 list \<Rightarrow> shell \<Rightarrow> shell option" where
  "shell_loop e las [] s = Some s"
| "shell_loop e las (c # cs) s =
     (if exit_shell s then Some s
      else Option.bind (shell_receive_char (e\<lparr>ce_load := las (length cs)\<rparr>) c s) (shell_loop e las cs))"

definition run_shell_cli :: "cli_env \<Rightarrow> (nat \<Rightarrow> load_alloc) \<Rightarrow> u8 list \<Rightarrow> shell \<Rightarrow> shell option" where
  "run_shell_cli e las input s =
     shell_loop e las input
       ((shell_echo_str SHELL_PROMPT ((clear_cli s)\<lparr>sh_app := log_event Print_help (sh_app s)\<rparr>))\<lparr>exit_shell := False\<rparr>)"

subsection \<open>Splitting a line\<close>

text \<open>The words of a line: the maximal runs of characters other than blank and newline.\<close>

fun words_from :: "u8 list \<Rightarrow> u8 list \<Rightarrow> u8 list list" where
  "words_from w [] = (if w = [] then [] else [w])"
| "words_from w (c # cs) =
     (if c = 10 \<or> c = 32 then (if w = [] then [] else [w]) @ words_from [] cs else words_from (w @ [c]) cs)"

definition words_of :: "u8 list \<Rightarrow> u8 list list" where "words_of = words_from []"

definition till_nul :: "u8 list \<Rightarrow> u8 list" where "till_nul = takeWhile (\<lambda>c. c \<noteq> 0)"

text \<open>A finished argument: its string ends in front of \<open>i\<close>.\<close>

definition finished :: "u8 list \<Rightarrow> nat \<Rightarrow> nat \<Rightarrow> u8 list \<Rightarrow> bool" where
  "finished buf i a str \<longleftrightarrow> (\<exists>z. a \<le> z \<and> z < i \<and> z < length buf \<and> buf ! z = 0) \<and> c_string buf a = str"

lemma takeWhile_prefix:
  assumes "z < length xs" "xs ! z = 0" "take (Suc z) ys = take (Suc z) xs"
  shows "takeWhile (\<lambda>c. c \<noteq> (0 :: u8)) ys = takeWhile (\<lambda>c. c \<noteq> 0) xs"
proof -
  have h: "takeWhile (\<lambda>c. c \<noteq> (0 :: u8)) zs = takeWhile (\<lambda>c. c \<noteq> 0) (take (Suc z) zs)"
    if "0 \<in> set (take (Suc z) zs)" for zs
    using takeWhile_append1 [of 0 "take (Suc z) zs" "\<lambda>c. c \<noteq> 0" "drop (Suc z) zs"] that by simp
  have "0 \<in> set (take (Suc z) xs)"
    using assms(1,2) by (simp add: take_Suc_conv_app_nth)
  then show ?thesis using h [of xs] h [of ys] assms(3) by simp
qed

lemma finished_update:
  assumes "finished buf i a str" "i \<le> j"
  shows "finished (buf[j := v]) (Suc j) a str"
proof -
  obtain z where z: "a \<le> z" "z < i" "z < length buf" "buf ! z = 0" using assms(1) by (auto simp: finished_def)
  have "take (Suc (z - a)) (drop a (buf[j := v])) = take (Suc (z - a)) (drop a buf)"
    using z assms(2) by (simp add: drop_update_swap)
  then have "c_string (buf[j := v]) a = c_string buf a"
    unfolding c_string_def using z by (intro takeWhile_prefix [of "z - a"]) simp_all
  then show ?thesis using assms z unfolding finished_def by (auto simp: nth_list_update intro!: exI [of _ z])
qed

lemma finished_mono: "finished buf i a str \<Longrightarrow> i \<le> j \<Longrightarrow> finished buf j a str"
  by (fastforce simp: finished_def)

lemma finished_new:
  assumes "a \<le> i" "i < length buf" "w = drop a (take i buf)"
  shows "finished (buf[i := 0]) (Suc i) a (till_nul w)"
proof -
  have "drop a (buf[i := 0]) = w @ 0 # drop (Suc i) buf"
    using assms by (simp add: upd_conv_take_nth_drop drop_take)
  then have "c_string (buf[i := 0]) a = till_nul w"
    by (cases "\<forall>c \<in> set w. c \<noteq> 0")
      (auto simp: c_string_def till_nul_def takeWhile_append takeWhile_eq_all_conv [THEN iffD2])
  then show ?thesis using assms unfolding finished_def by (auto intro!: exI [of _ i])
qed

text \<open>What the end of a word adds, in the buffer and among the words.\<close>

lemma finished_extend:
  assumes "list_all2 (finished buf i) argv ss"
    "case next_arg of None \<Rightarrow> w = [] | Some a \<Rightarrow> a < i \<and> w = drop a (take i buf) \<and> w \<noteq> []" "i < length buf"
  shows "list_all2 (finished (buf[i := 0]) (Suc i)) (argv @ (case next_arg of None \<Rightarrow> [] | Some a \<Rightarrow> [a]))
    (ss @ (if w = [] then [] else [till_nul w]))"
proof (rule list_all2_appendI)
  show "list_all2 (finished (buf[i := 0]) (Suc i)) argv ss"
    using assms(1) by (auto elim!: list_all2_mono intro: finished_update)
  show "list_all2 (finished (buf[i := 0]) (Suc i)) (case next_arg of None \<Rightarrow> [] | Some a \<Rightarrow> [a])
      (if w = [] then [] else [till_nul w])"
    using assms(2,3) by (auto simp: finished_new split: option.splits)
qed

lemma words_end:
  assumes "i < length buf" "buf ! i = 10 \<or> buf ! i = 32 \<or> n = 0"
  shows "words_from w (drop i (take (i + n) buf)) =
    (if w = [] then [] else [w]) @ words_from [] (drop (Suc i) (take (i + n) buf))"
proof (cases n)
  case (Suc k)
  then have "drop i (take (i + n) buf) = buf ! i # drop (Suc i) (take (i + n) buf)"
    using assms(1) by (simp add: Cons_nth_drop_Suc [symmetric])
  then show ?thesis using assms(2) Suc by simp
qed simp

lemma split_args_spec:
  assumes "split_args n i buf next_arg argv = (buf', argv')" "i + n \<le> length buf"
    "n = 0 \<Longrightarrow> next_arg = None"
    "case next_arg of None \<Rightarrow> w = [] | Some a \<Rightarrow> a < i \<and> w = drop a (take i buf) \<and> w \<noteq> []"
    "list_all2 (finished buf i) argv ss" "length ss \<le> max_args"
  shows "list_all2 (finished buf' (i + n)) argv'
    (ss @ map till_nul (take (max_args - length ss) (words_from w (drop i (take (i + n - 1) buf)))))"
  using assms
proof (induction n i buf next_arg argv arbitrary: w ss rule: split_args.induct)
  case (1 i buf next_arg argv)
  then show ?case by simp
next
  case (2 n i buf next_arg argv)
  have len: "length argv = length ss" using "2.prems"(5) by (rule list_all2_lengthD)
  have i: "i < length buf" using "2.prems"(2) by simp
  show ?case
  proof (cases "length argv \<ge> max_args")
    case True
    then show ?thesis
      using "2.prems" len by (auto elim!: list_all2_mono intro: finished_mono)
  next
    case F: False
    show ?thesis
    proof (cases "buf ! i = 10 \<or> buf ! i = 32 \<or> n = 0")
      case True
      let ?na = "case next_arg of None \<Rightarrow> [] | Some a \<Rightarrow> [a]"
      let ?nw = "if w = [] then [] else [till_nul w]"
      have fin: "list_all2 (finished (buf[i := 0]) (i + 1)) (argv @ ?na) (ss @ ?nw)"
        using finished_extend [OF "2.prems"(5,4) i] by simp
      have rest: "drop (i + 1) (take (i + 1 + n - 1) (buf[i := 0])) = drop (i + 1) (take (i + Suc n - 1) buf)"
        by (simp add: take_update_swap)
      have words: "words_from w (drop i (take (i + Suc n - 1) buf)) =
          (if w = [] then [] else [w]) @ words_from [] (drop (i + 1) (take (i + Suc n - 1) buf))"
        using words_end [OF i True, of w] by simp
      have "length (ss @ ?nw) \<le> max_args" using F len by (simp add: max_args_def)
      then have "list_all2 (finished buf' (i + 1 + n)) argv' ((ss @ ?nw) @
          map till_nul (take (max_args - length (ss @ ?nw)) (words_from [] (drop (i + 1) (take (i + 1 + n - 1) (buf[i := 0]))))))"
        using "2.prems"(1,2) F True fin by (intro "2.IH"(1)) auto
      then show ?thesis
        using F len unfolding words rest by (auto simp: Suc_diff_le take_Cons' split: if_splits)
    next
      case False
      then have n: "n \<noteq> 0" by simp
      let ?na = "case next_arg of None \<Rightarrow> Some i | Some a \<Rightarrow> Some a"
      have d: "drop i (take (i + Suc n - 1) buf) = buf ! i # drop (i + 1) (take (i + 1 + n - 1) buf)"
        using i n by (simp add: Cons_nth_drop_Suc [symmetric])
      have w: "case ?na of None \<Rightarrow> w @ [buf ! i] = []
          | Some a \<Rightarrow> a < i + 1 \<and> w @ [buf ! i] = drop a (take (i + 1) buf) \<and> w @ [buf ! i] \<noteq> []"
        using "2.prems"(4) i by (auto simp: take_Suc_conv_app_nth split: option.splits)
      have "list_all2 (finished buf (i + 1)) argv ss"
        using "2.prems"(5) by (auto elim!: list_all2_mono intro: finished_mono)
      then have "list_all2 (finished buf' (i + 1 + n)) argv' (ss @
          map till_nul (take (max_args - length ss) (words_from (w @ [buf ! i]) (drop (i + 1) (take (i + 1 + n - 1) buf)))))"
        using "2.prems"(1,2,6) F False n w by (intro "2.IH"(2)) auto
      then show ?thesis using False unfolding d by simp
    qed
  qed
qed

lemma split_args_words:
  assumes "n \<le> length buf" "split_args n 0 buf None [] = (buf', argv)"
  shows "map (c_string buf') argv = map till_nul (take max_args (words_of (take (n - 1) buf)))"
proof -
  have "list_all2 (finished buf' n) argv (map till_nul (take max_args (words_of (take (n - 1) buf))))"
    using split_args_spec [OF assms(2), of "[]" "[]"] assms(1) by (simp add: words_of_def)
  then show ?thesis by (simp add: list_all2_conv_all_nth finished_def list_eq_iff_nth_eq)
qed

subsection \<open>Lines\<close>

definition line_end :: "cli_env \<Rightarrow> u8 \<Rightarrow> bool" where
  "line_end e c \<longleftrightarrow> c = 10 \<or> ce_qemu e \<and> c = 13"

text \<open>The buffer has its size, the position stays inside, and no complete line is waiting.\<close>

definition shell_inv :: "shell \<Rightarrow> bool" where
  "shell_inv s \<longleftrightarrow> length (rx_buffer s) = SHELL_BUFFER_SIZE \<and> rx_pos s \<le> SHELL_BUFFER_SIZE \<and>
     list_all (\<lambda>c. c \<noteq> 10 \<and> c \<noteq> 13) (take (rx_pos s) (rx_buffer s))"

lemma echo_fields [simp]:
  "rx_pos (shell_put_char c s) = rx_pos s" "rx_buffer (shell_put_char c s) = rx_buffer s"
  "exit_shell (shell_put_char c s) = exit_shell s" "sh_app (shell_put_char c s) = sh_app s"
  by (simp_all add: shell_put_char_def)

lemma prompt_fields [simp]:
  "rx_pos (shell_echo_str str s) = rx_pos s" "rx_buffer (shell_echo_str str s) = rx_buffer s"
  "exit_shell (shell_echo_str str s) = exit_shell s" "sh_app (shell_echo_str str s) = sh_app s"
  by (induction str arbitrary: s) (simp_all add: shell_echo_str_def shell_echo_def)

text \<open>A character that does not end a line is appended.\<close>

definition append_char :: "u8 \<Rightarrow> shell \<Rightarrow> shell" where
  "append_char c s = (shell_put_char c s)\<lparr>rx_buffer := (rx_buffer s)[rx_pos s := c], rx_pos := rx_pos s + 1\<rparr>"

lemma receive_plain:
  assumes "shell_inv s" "rx_pos s < SHELL_BUFFER_SIZE" "c \<noteq> 10" "c \<noteq> 13"
  shows "shell_receive_char e' c s = Some (append_char c s)"
  using assms by (simp add: shell_receive_char_def shell_process_def shell_last_char_def shell_inv_def append_char_def)

lemma append_inv:
  assumes "shell_inv s" "rx_pos s < SHELL_BUFFER_SIZE" "c \<noteq> 10" "c \<noteq> 13"
  shows "shell_inv (append_char c s)"
proof -
  have "take (Suc (rx_pos s)) ((rx_buffer s)[rx_pos s := c]) = take (rx_pos s) (rx_buffer s) @ [c]"
    using assms(1,2) by (simp add: shell_inv_def take_Suc_conv_app_nth)
  then show ?thesis using assms by (simp add: shell_inv_def append_char_def)
qed

lemma clear_inv: "shell_inv (shell_echo_str str (clear_cli s))"
  by (simp add: shell_inv_def clear_cli_def)

text \<open>The character that ends a line: the words of the line are dispatched, and the buffer is empty.\<close>

lemma receive_end:
  assumes "shell_inv s" "rx_pos s < SHELL_BUFFER_SIZE" "line_end e c"
  defines "ws \<equiv> map till_nul (take max_args (words_of (take (rx_pos s) (rx_buffer s))))"
  shows "\<exists>buf. shell_receive_char e c s =
    (let s1 = (append_char c s)\<lparr>rx_buffer := buf\<rparr> in
     map_option (\<lambda>s2. shell_echo_str SHELL_PROMPT (clear_cli s2))
       (if ws \<noteq> [] then shell_dispatch_cmd e ws s1 else Some s1))"
proof -
  let ?s = "append_char c s"
  obtain buf argv where sp: "split_args (Suc (rx_pos s)) 0 (rx_buffer ?s) None [] = (buf, argv)" by fastforce
  have "take (Suc (rx_pos s) - 1) (rx_buffer ?s) = take (rx_pos s) (rx_buffer s)" by (simp add: append_char_def)
  then have w: "map (c_string buf) argv = ws"
    using split_args_words [OF _ sp] assms(1,2) by (simp add: ws_def shell_inv_def append_char_def)
  then have ne: "argv = [] \<longleftrightarrow> ws = []" by auto
  have r: "shell_receive_char e c s = shell_process e ?s"
    using assms(2,3) by (auto simp: shell_receive_char_def append_char_def line_end_def)
  have last: "shell_last_char ?s = c" "rx_pos ?s = Suc (rx_pos s)"
    using assms(1,2) by (simp_all add: shell_last_char_def append_char_def shell_inv_def)
  have c: "\<not> (c \<noteq> 10 \<and> c \<noteq> 13)" using assms(3) by (auto simp: line_end_def)
  have "shell_process e ?s =
      Option.bind (if ws \<noteq> [] then shell_dispatch_cmd e ws (?s\<lparr>rx_buffer := buf\<rparr>) else Some (?s\<lparr>rx_buffer := buf\<rparr>))
        (\<lambda>s2. Some (shell_echo_str SHELL_PROMPT (clear_cli s2)))"
    unfolding shell_process_def last sp using c w ne by (simp only: if_False prod.case Let_def simp_thms)
  then show ?thesis
    unfolding r by (intro exI [of _ buf]) (simp add: Let_def map_conv_bind_option comp_def)
qed

definition plain :: "u8 list \<Rightarrow> bool" where "plain cs \<longleftrightarrow> list_all (\<lambda>c. c \<noteq> 10 \<and> c \<noteq> 13) cs"

lemma append_fields:
  assumes "shell_inv s" "rx_pos s < SHELL_BUFFER_SIZE"
  shows "rx_pos (append_char c s) = Suc (rx_pos s)" "exit_shell (append_char c s) = exit_shell s"
    "sh_app (append_char c s) = sh_app s"
    "take (Suc (rx_pos s)) (rx_buffer (append_char c s)) = take (rx_pos s) (rx_buffer s) @ [c]"
  using assms by (simp_all add: append_char_def shell_inv_def take_Suc_conv_app_nth)

lemma append_chars:
  assumes "shell_inv s" "plain cs" "rx_pos s + length cs \<le> SHELL_BUFFER_SIZE"
  defines "s1 \<equiv> fold append_char cs s"
  shows "shell_inv s1 \<and> rx_pos s1 = rx_pos s + length cs \<and>
    take (rx_pos s + length cs) (rx_buffer s1) = take (rx_pos s) (rx_buffer s) @ cs \<and>
    exit_shell s1 = exit_shell s \<and> sh_app s1 = sh_app s"
  unfolding s1_def using assms(1-3)
proof (induction cs arbitrary: s)
  case (Cons c cs)
  have c: "c \<noteq> 10" "c \<noteq> 13" "plain cs" "rx_pos s < SHELL_BUFFER_SIZE" using Cons.prems by (auto simp: plain_def)
  note f = append_fields [OF Cons.prems(1) c(4), of c]
  show ?case
    using Cons.IH [OF append_inv [OF Cons.prems(1) c(4,1,2)] c(3)] Cons.prems(3) f by simp
qed simp

lemma loop_plain:
  assumes "shell_inv s" "\<not> exit_shell s" "plain cs" "rx_pos s + length cs \<le> SHELL_BUFFER_SIZE"
  shows "shell_loop e las (cs @ rest) s = shell_loop e las rest (fold append_char cs s)"
  using assms
proof (induction cs arbitrary: s)
  case (Cons c cs)
  have c: "c \<noteq> 10" "c \<noteq> 13" "plain cs" "rx_pos s < SHELL_BUFFER_SIZE" using Cons.prems by (auto simp: plain_def)
  note f = append_fields [OF Cons.prems(1) c(4), of c]
  show ?case
    using Cons.IH [OF append_inv [OF Cons.prems(1) c(4,1,2)] _ c(3)] Cons.prems(2,4) f
      receive_plain [OF Cons.prems(1) c(4,1,2)] by simp
qed simp

text \<open>A line typed at an idle shell runs the command its words name, and the shell is idle again.\<close>

lemma loop_line:
  assumes "shell_inv s" "\<not> exit_shell s" "rx_pos s = 0" "plain cs" "length cs < SHELL_BUFFER_SIZE" "line_end e c"
  defines "ws \<equiv> map till_nul (take max_args (words_of cs))"
  shows "\<exists>s1. sh_app s1 = sh_app s \<and> \<not> exit_shell s1 \<and>
    shell_loop e las (cs @ [c]) s = map_option (\<lambda>s2. shell_echo_str SHELL_PROMPT (clear_cli s2))
      (if ws \<noteq> [] then shell_dispatch_cmd (e\<lparr>ce_load := las 0\<rparr>) ws s1 else Some s1)"
proof -
  let ?e = "e\<lparr>ce_load := las 0\<rparr>"
  define s1 where "s1 = fold append_char cs s"
  have s1: "shell_loop e las (cs @ [c]) s = shell_loop e las [c] s1" "shell_inv s1"
      "rx_pos s1 = length cs" "take (length cs) (rx_buffer s1) = cs" "\<not> exit_shell s1" "sh_app s1 = sh_app s"
    using loop_plain [OF assms(1,2,4), of e las "[c]"] append_chars [OF assms(1,4)] assms(2,3,5) by (simp_all add: s1_def)
  have "line_end ?e c" using assms(6) by (simp add: line_end_def)
  then obtain buf where "shell_receive_char ?e c s1 =
      (let s2 = (append_char c s1)\<lparr>rx_buffer := buf\<rparr> in
       map_option (\<lambda>s2. shell_echo_str SHELL_PROMPT (clear_cli s2))
         (if ws \<noteq> [] then shell_dispatch_cmd ?e ws s2 else Some s2))"
    using receive_end [OF s1(2), of ?e c] assms(5) unfolding ws_def s1(3) s1(4) by blast
  moreover have "Option.bind x (shell_loop e las []) = x" for x by (cases x) simp_all
  then have "shell_loop e las (cs @ [c]) s = shell_receive_char ?e c s1"
    using s1(1,5) by simp
  ultimately show ?thesis
    using s1 by (intro exI [of _ "(append_char c s1)\<lparr>rx_buffer := buf\<rparr>"]) (simp add: Let_def append_char_def)
qed

text \<open>C29: Every received character keeps the buffer intact: the position stays inside the buffer, and no
  end of line is left in it.\<close>

theorem shell_invariant:
  assumes "shell_inv s" and "shell_receive_char e c s = Some s'"
  shows "shell_inv s'"
proof -
  consider "\<not> ce_qemu e \<and> c = 13 \<or> rx_pos s \<ge> SHELL_BUFFER_SIZE" | "line_end e c" "rx_pos s < SHELL_BUFFER_SIZE"
    | "c \<noteq> 10" "c \<noteq> 13" "rx_pos s < SHELL_BUFFER_SIZE"
    by (metis line_end_def not_le)
  then show ?thesis
  proof cases
    case 1
    then show ?thesis using assms by (auto simp: shell_receive_char_def shell_inv_def)
  next
    case 2
    then show ?thesis using receive_end [OF assms(1) 2(2,1)] assms(2) clear_inv
      by (auto simp: Let_def eq_commute [of "Some s'"])
  next
    case 3
    then show ?thesis using receive_plain [OF assms(1) 3(3,1,2)] append_inv [OF assms(1) 3(3,1,2)] assms(2) by simp
  qed
qed

text \<open>A line of 128 characters leaves no room for its end: from then on every character is echoed and
  dropped, and no command is run any more.\<close>

theorem shell_stuck:
  assumes "rx_pos s = SHELL_BUFFER_SIZE" and "\<not> exit_shell s"
  shows "shell_loop e las cs s = Some (s\<lparr>sh_out := sh_out s @ cs\<rparr>)"
  using assms
proof (induction cs arbitrary: s)
  case (Cons c cs)
  then have "shell_receive_char (e\<lparr>ce_load := las (length cs)\<rparr>) c s = Some (shell_put_char c s)"
    by (simp add: shell_receive_char_def)
  then show ?case using Cons.IH [of "shell_put_char c s"] Cons.prems by (simp add: shell_put_char_def)
qed simp

definition idle :: "app \<Rightarrow> shell" where
  "idle a = \<lparr>rx_pos = 0, rx_buffer = replicate SHELL_BUFFER_SIZE 0, exit_shell = False, sh_out = [], sh_app = a\<rparr>"

lemma idle_inv: "shell_inv (idle a)"
  by (simp add: shell_inv_def idle_def)

subsection \<open>A typed command\<close>

lemma words_plain: "list_all (\<lambda>c. c \<noteq> 10 \<and> c \<noteq> 32) xs \<Longrightarrow> words_from w xs = (if w @ xs = [] then [] else [w @ xs])"
  by (induction xs arbitrary: w) auto

lemma words_split:
  "list_all (\<lambda>c. c \<noteq> 10 \<and> c \<noteq> 32) xs \<Longrightarrow> xs \<noteq> [] \<Longrightarrow> words_from [] (xs @ 32 # ys) = xs # words_from [] ys"
proof -
  have "list_all (\<lambda>c. c \<noteq> 10 \<and> c \<noteq> 32) xs \<Longrightarrow>
      words_from w (xs @ 32 # ys) = (if w @ xs = [] then [] else [w @ xs]) @ words_from [] ys" for w
    by (induction xs arbitrary: w) auto
  then show "list_all (\<lambda>c. c \<noteq> 10 \<and> c \<noteq> 32) xs \<Longrightarrow> xs \<noteq> [] \<Longrightarrow> words_from [] (xs @ 32 # ys) = xs # words_from [] ys"
    by simp
qed

lemma decimal_chars: "list_all (\<lambda>c. c \<noteq> 0 \<and> c \<noteq> 10 \<and> c \<noteq> 13 \<and> c \<noteq> 32) (decimal n)" "decimal n \<noteq> []"
proof -
  have d: "(of_nat (48 + d) :: u8) \<noteq> 0 \<and> (of_nat (48 + d) :: u8) \<noteq> 10 \<and> (of_nat (48 + d) :: u8) \<noteq> 13 \<and>
      (of_nat (48 + d) :: u8) \<noteq> 32" if "d < 10" for d
  proof -
    have "d \<in> {0,1,2,3,4,5,6,7,8,9}" using that by auto
    then show ?thesis by (elim insertE emptyE; simp)
  qed
  show "list_all (\<lambda>c. c \<noteq> 0 \<and> c \<noteq> 10 \<and> c \<noteq> 13 \<and> c \<noteq> 32) (decimal n)"
  proof (induction n rule: decimal.induct)
    case (1 n)
    show ?case
      using d [of n] d [of "n mod 10"] 1 by (subst decimal.simps) simp
  qed
  show "decimal n \<noteq> []" by (subst decimal.simps) simp
qed

lemma till_nul_id: "list_all (\<lambda>c. c \<noteq> 0) xs \<Longrightarrow> till_nul xs = xs"
  by (simp add: till_nul_def takeWhile_eq_all_conv list_all_iff)

lemma decimal_length: "n < 10 ^ Suc k \<Longrightarrow> length (decimal n) \<le> Suc k"
proof (induction k arbitrary: n)
  case 0
  then show ?case by (subst decimal.simps) simp
next
  case (Suc k)
  then have "n div 10 < 10 ^ Suc k" by (simp add: less_mult_imp_div_less)
  with Suc.IH show ?case by (subst decimal.simps) simp
qed

text \<open>C28: The line \<open>patch n\<close> at an idle shell, with a number that fits an \<open>int\<close>, calls \<open>handle_patch_func\<close> with that
  number; when that succeeds, the shell holds its result and waits for the next line.\<close>

theorem shell_patch_command:
  assumes "n < 2 ^ 31" and "handle_patch_func (e\<lparr>ce_load := las 0\<rparr>) (of_nat n) a = Some a'"
  shows "\<exists>s'. shell_loop e las (cstr ''patch '' @ decimal n @ [10]) (idle a) = Some s' \<and>
    sh_app s' = a' \<and> rx_pos s' = 0 \<and> \<not> exit_shell s'"
proof -
  have c: "cstr ''patch '' = cstr ''patch'' @ [32]" "cstr ''patch'' = [112, 97, 116, 99, 104]"
    by (simp_all add: cstr_def)
  have dc: "list_all (\<lambda>c. c \<noteq> 10 \<and> c \<noteq> 32) (decimal n)" "list_all (\<lambda>c. c \<noteq> 0) (decimal n)"
      "list_all (\<lambda>c. c \<noteq> 10 \<and> c \<noteq> 13) (decimal n)"
    using decimal_chars(1) [of n] by (auto simp: list_all_iff)
  have w: "words_of (cstr ''patch '' @ decimal n) = [cstr ''patch'', decimal n]"
    using words_split [of "cstr ''patch''" "decimal n"] words_plain [OF dc(1), of "[]"] decimal_chars(2) [of n]
    by (simp add: words_of_def c del: words_from.simps)
  then have ws: "map till_nul (take max_args (words_of (cstr ''patch '' @ decimal n))) = [cstr ''patch'', decimal n]"
    using till_nul_id [OF dc(2)] by (simp add: max_args_def) (simp add: till_nul_def c)
  have "length (decimal n) \<le> 10" using decimal_length [of n 9] assms(1) by simp
  then have p: "plain (cstr ''patch '' @ decimal n)" "length (cstr ''patch '' @ decimal n) < SHELL_BUFFER_SIZE" "line_end e 10"
    using dc(3) by (simp_all add: plain_def c SHELL_BUFFER_SIZE_def line_end_def)
  obtain s1 where s1: "sh_app s1 = a" "\<not> exit_shell s1"
      "shell_loop e las (cstr ''patch '' @ decimal n @ [10]) (idle a) =
       map_option (\<lambda>s2. shell_echo_str SHELL_PROMPT (clear_cli s2))
         (shell_dispatch_cmd (e\<lparr>ce_load := las 0\<rparr>) [cstr ''patch'', decimal n] s1)"
    using loop_line [OF idle_inv _ _ p, of a las] unfolding ws by (auto simp: idle_def)
  have "shell_dispatch_cmd (e\<lparr>ce_load := las 0\<rparr>) [cstr ''patch'', decimal n] s1 = Some (s1\<lparr>sh_app := a'\<rparr>)"
    using assms(2) s1(1) str2int_from_decimal [OF assms(1)]
    by (simp add: shell_dispatch_cmd_def on_app_def str2int_def) (simp add: cstr_def on_app_def)
  with s1 show ?thesis by (simp add: clear_cli_def)
qed

definition sample_app :: app where
  "sample_app = \<lparr>ap_ctx = sample_ctx, ap_fixed = sample_loader, ap_dyn = sample_loader, ap_log = []\<rparr>"

definition sample_cli :: cli_env where
  "sample_cli = \<lparr>ce_qemu = False, ce_linux = False, ce_build = Use_fix_patch, ce_w1c = clear_ones, ce_mem = (\<lambda>_. None),
     ce_load = sample_load, ce_addrs = [], ce_buggy = 0, ce_raw = 0, ce_fixed = 0\<rparr>"

theorem shell_invariant_witness: "\<exists>s'. shell_receive_char sample_cli 65 (idle sample_app) = Some s' \<and> shell_inv s'"
proof -
  have "shell_receive_char sample_cli 65 (idle sample_app) = Some (append_char 65 (idle sample_app))"
    by (rule receive_plain [OF idle_inv]) (simp_all add: idle_def SHELL_BUFFER_SIZE_def)
  then show ?thesis using shell_invariant [OF idle_inv] by blast
qed

theorem shell_stuck_witness:
  "shell_loop sample_cli (\<lambda>_. sample_load) [113, 10] ((idle sample_app)\<lparr>rx_pos := 128\<rparr>) =
     Some ((idle sample_app)\<lparr>rx_pos := 128, sh_out := [113, 10]\<rparr>)"
  using shell_stuck [of "(idle sample_app)\<lparr>rx_pos := 128\<rparr>" sample_cli "\<lambda>_. sample_load" "[113, 10]"]
  by (simp add: SHELL_BUFFER_SIZE_def idle_def)

text \<open>Typing \<open>patch 2\<close> installs the third local patch at its patch point.\<close>

theorem shell_patch_command_witness:
  "\<exists>s'. shell_loop sample_cli (\<lambda>_. sample_load) (cstr ''patch '' @ decimal 2 @ [10]) (idle sample_app) = Some s' \<and>
     get_fixed_patch_by_lr (ap_ctx (sh_app s')) 0x08002c8e = Some 0x300 \<and> rx_pos s' = 0"
proof -
  obtain l' c' where l: "load_local_fixed_patch (\<lambda>_. None) sample_load 2 (sample_loader, sample_ctx) = Some (l', c')"
      "get_fixed_patch_by_lr c' 0x08002c8e = Some 0x300"
    using load_local_fixed_patch_first_witness by blast
  then have "handle_patch_func (sample_cli\<lparr>ce_load := sample_load\<rparr>) (of_nat 2) sample_app =
      Some (sample_app\<lparr>ap_fixed := l', ap_ctx := c'\<rparr>)"
    by (simp add: handle_patch_func_def show_patch_list_def load_fixed_def sample_cli_def sample_app_def)
  then show ?thesis
    using shell_patch_command [where n = 2 and e = sample_cli and las = "\<lambda>_. sample_load"] l(2) by fastforce
qed

text \<open>The number equal to the size of the table of tests, and a number typed with a minus sign, which
  \<open>str2int\<close> reads as a negative one, index outside their tables.\<close>

lemma run_behind_table: "run_test_by_id e 8 a = None"
  by (simp add: run_test_by_id_def cmds_def)

lemma trigger_minus_one: "ce_build e \<noteq> Use_no_patch \<Longrightarrow> Option.bind (str2int (cstr ''-1'')) (\<lambda>n. handle_trigger_func e n a) = None"
  by (cases "ce_build e") (simp_all add: handle_trigger_func_def str2int_def cstr_def push_digit_def int_ok_def)

end
