(* ===== verification/Fpb_Handlers.thy ===== *)
theory Fpb_Handlers
  imports Monitor_Props
begin

text \<open>
  The assembly handlers of the flash-patch mode in \<open>hotpatch/src/cortex-m4_fbp.c\<close>, as written for the Keil
  compiler. A remapped instruction branches to handler \<open>i\<close>, which saves the caller-saved registers,
  calls \<open>leave_fpb_bpkt\<close> and restores them. A call leaves r0 with its result and may change r1 to r3,
  r12 and lr; the handlers restore those. \<open>None\<close> is a fault of the stack or of the call.
\<close>

record cpu =
  x_r :: "nat \<Rightarrow> u32"
  x_lr :: u32
  x_pc :: u32
  x_msp :: u32
  x_psp :: u32
  x_control :: u32

text \<open>The stack pointer in use, by bit 1 of CONTROL.\<close>

definition sp_of :: "cpu \<Rightarrow> u32" where
  "sp_of c = (if x_control c AND 2 = 0 then x_msp c else x_psp c)"

definition set_sp :: "u32 \<Rightarrow> cpu \<Rightarrow> cpu" where
  "set_sp v c = (if x_control c AND 2 = 0 then c\<lparr>x_msp := v\<rparr> else c\<lparr>x_psp := v\<rparr>)"

text \<open>\<open>PUSH {r0-r3, r12, lr}\<close> and \<open>POP {r0-r3, r12, lr}\<close>.\<close>

fun saved_reg :: "frame_field \<Rightarrow> cpu \<Rightarrow> u32" where
  "saved_reg F_r0 c = x_r c 0" | "saved_reg F_r1 c = x_r c 1" | "saved_reg F_r2 c = x_r c 2"
| "saved_reg F_r3 c = x_r c 3" | "saved_reg F_r12 c = x_r c 12" | "saved_reg F_lr c = x_lr c"
| "saved_reg F_pc c = x_pc c" | "saved_reg F_xpsr c = 0"

fun store_fields :: "frame_field list \<Rightarrow> u32 \<Rightarrow> cpu \<Rightarrow> monitor \<Rightarrow> monitor option" where
  "store_fields [] fr c s = Some s"
| "store_fields (k # ks) fr c s = Option.bind (ctx_set fr k (saved_reg k c) s) (store_fields ks fr c)"

definition pushed :: "frame_field list" where "pushed = [F_r0, F_r1, F_r2, F_r3, F_r12, F_lr]"

definition push_regs :: "cpu \<Rightarrow> monitor \<Rightarrow> (cpu \<times> monitor) option" where
  "push_regs c s =
     (let sp = sp_of c - 24 in map_option (\<lambda>s1. (set_sp sp c, s1)) (store_fields pushed sp c s))"

definition pop_regs :: "cpu \<Rightarrow> monitor \<Rightarrow> cpu option" where
  "pop_regs c s =
     (let sp = sp_of c in do {
        v0 \<leftarrow> ctx_get s sp F_r0;
        v1 \<leftarrow> ctx_get s sp F_r1;
        v2 \<leftarrow> ctx_get s sp F_r2;
        v3 \<leftarrow> ctx_get s sp F_r3;
        v12 \<leftarrow> ctx_get s sp F_r12;
        vlr \<leftarrow> ctx_get s sp F_lr;
        Some (set_sp (sp + 24) (c\<lparr>x_r := (x_r c)(0 := v0, 1 := v1, 2 := v2, 3 := v3, 12 := v12), x_lr := vlr\<rparr>))})"

text \<open>Handler 0: \<open>MOV r5, r0\<close>, the POP, \<open>MOV PC, r5\<close>.\<close>

definition FPB_Handler0 :: "mon_env \<Rightarrow> cpu \<times> monitor \<Rightarrow> (cpu \<times> monitor) option" where
  "FPB_Handler0 e = (\<lambda>(c, s). do {
     (c1, s1) \<leftarrow> push_regs c s;
     (r, s2) \<leftarrow> leave_fpb_bpkt e (sp_of c1) 0 s1;
     c2 \<leftarrow> pop_regs (c1\<lparr>x_r := (x_r c1)(5 := r)\<rparr>) s2;
     Some (c2\<lparr>x_pc := x_r c2 5\<rparr>, s2)})"

text \<open>Handlers 2 to 4 take the stack pointer by bit 2 of lr, drop the result and end with \<open>BX LR\<close>.\<close>

definition FPB_Handler_bx :: "nat \<Rightarrow> mon_env \<Rightarrow> cpu \<times> monitor \<Rightarrow> (cpu \<times> monitor) option" where
  "FPB_Handler_bx idx e = (\<lambda>(c, s). do {
     (c1, s1) \<leftarrow> push_regs c s;
     (r, s2) \<leftarrow> leave_fpb_bpkt e (if x_lr c1 AND 4 = 0 then x_msp c1 else x_psp c1) idx s1;
     c2 \<leftarrow> pop_regs c1 s2;
     Some (c2\<lparr>x_pc := x_lr c2\<rparr>, s2)})"

definition FPB_Handler5 :: "cpu \<times> monitor \<Rightarrow> (cpu \<times> monitor) option" where
  "FPB_Handler5 = (\<lambda>(c, s). do {
     (c1, s1) \<leftarrow> push_regs c s;
     let (r, h) = fpb_enable_callback (mo_hw s1);
     let s2 = with_hw (\<lambda>_. h) s1;
     c2 \<leftarrow> pop_regs (c1\<lparr>x_r := (x_r c1)(5 := r)\<rparr>) s2;
     Some (c2\<lparr>x_pc := x_r c2 5\<rparr>, s2)})"

subsection \<open>The saved registers\<close>

lemma sp_set_sp [simp]: "sp_of (set_sp v c) = v" "x_r (set_sp v c) = x_r c" "x_lr (set_sp v c) = x_lr c"
  "set_sp v (set_sp w c) = set_sp v c" "set_sp (sp_of c) c = c"
  by (simp_all add: sp_of_def set_sp_def)

lemma store_fields_get:
  "store_fields ks fr c s = Some s' \<Longrightarrow> distinct ks \<Longrightarrow>
   ctx_get s' fr k = (if k \<in> set ks then Some (saved_reg k c) else ctx_get s fr k) \<and> mo_ctx s' = mo_ctx s"
proof (induction ks arbitrary: s)
  case (Cons k' ks)
  then obtain s1 where s1: "ctx_set fr k' (saved_reg k' c) s = Some s1" "store_fields ks fr c s1 = Some s'"
    by (auto simp: bind_eq_Some_conv)
  show ?case
    using Cons.IH [OF s1(2)] Cons.prems(2) ctx_get_set [OF s1(1), of k] ctx_set_frame [OF s1(1)] by auto
qed simp

lemma store_fields_prof: "store_fields ks fr c s = Some s' \<Longrightarrow> mo_prof s' = mo_prof s"
  by (induction ks arbitrary: s) (auto simp: bind_eq_Some_conv dest!: ctx_set_frame)

lemma store_fields_mapped:
  "(\<And>k. k \<in> set ks \<Longrightarrow> ctx_get s fr k \<noteq> None) \<Longrightarrow> store_fields ks fr c s \<noteq> None"
proof (induction ks arbitrary: s)
  case (Cons k ks)
  then obtain s1 where s1: "ctx_set fr k (saved_reg k c) s = Some s1" using ctx_set_mapped by (metis list.set_intros(1))
  have "store_fields ks fr c s1 \<noteq> None"
    using Cons.prems ctx_get_set [OF s1] by (intro Cons.IH) auto
  with s1 show ?case by simp
qed simp

text \<open>A PUSH and the matching POP: when the frame still holds what was pushed except for r0, the caller's
  registers and its stack pointer are back.\<close>

lemma pop_pushed:
  assumes "push_regs c s = Some (c1, s1)"
    and "\<And>k. k \<in> set pushed \<Longrightarrow> ctx_get s2 (sp_of c1) k = Some (if k = F_r0 then v else saved_reg k c)"
  shows "pop_regs (c1\<lparr>x_r := (x_r c1)(5 := r)\<rparr>) s2 = Some (c\<lparr>x_r := (x_r c)(0 := v, 5 := r)\<rparr>)"
proof -
  have c1: "c1 = set_sp (sp_of c - 24) c" using assms(1) by (auto simp: push_regs_def Let_def)
  have g: "ctx_get s2 (sp_of c - 24) F_r0 = Some v" "ctx_get s2 (sp_of c - 24) F_r1 = Some (x_r c 1)"
      "ctx_get s2 (sp_of c - 24) F_r2 = Some (x_r c 2)" "ctx_get s2 (sp_of c - 24) F_r3 = Some (x_r c 3)"
      "ctx_get s2 (sp_of c - 24) F_r12 = Some (x_r c 12)" "ctx_get s2 (sp_of c - 24) F_lr = Some (x_lr c)"
    using assms(2) [of F_r0] assms(2) [of F_r1] assms(2) [of F_r2] assms(2) [of F_r3] assms(2) [of F_r12]
      assms(2) [of F_lr] by (simp_all add: pushed_def c1)
  show ?thesis
    unfolding c1 pop_regs_def Let_def sp_of_def set_sp_def
    using g by (auto simp: sp_of_def fun_eq_iff)
qed

lemma push_regs_frame:
  assumes "push_regs c s = Some (c1, s0)"
  shows "mo_ctx s0 = mo_ctx s" "k \<in> set pushed \<Longrightarrow> ctx_get s0 (sp_of c1) k = Some (saved_reg k c)"
proof -
  have c1: "c1 = set_sp (sp_of c - 24) c" "store_fields pushed (sp_of c - 24) c s = Some s0"
    using assms by (auto simp: push_regs_def Let_def)
  have "distinct pushed" by (simp add: pushed_def)
  from store_fields_get [OF c1(2) this]
  show "mo_ctx s0 = mo_ctx s" "k \<in> set pushed \<Longrightarrow> ctx_get s0 (sp_of c1) k = Some (saved_reg k c)"
    by (simp_all add: c1(1))
qed

text \<open>C23: A remapped instruction with an active patch whose filter leaves the saved registers alone: after DROP
  the caller of the patched function goes on with the filter's code in r0, after REDIRECT execution
  goes on at the code, after PASS at the patched instruction, whose comparator is disabled by then.
  All other registers and the stack pointer are as before, except r5, which holds the target.\<close>

theorem fpb_handler_decides:
  assumes "push_regs c s = Some (c1, s0)"
    and "get_dynamic_patch_by_bpkt (mo_ctx s) (h_comp (mo_hw s) 0 AND NOT 1) = Some p" and "p \<noteq> 0"
    and "run_filter_at e p (sp_of c1) s0 = Some (ret, s1)"
    and "\<forall>k \<in> set pushed. ctx_get s1 (sp_of c1) k = ctx_get s0 (sp_of c1) k"
  shows "(op_of ret = FILTER_DROP \<longrightarrow>
      (\<exists>s'. FPB_Handler0 e (c, s) = Some (c\<lparr>x_r := (x_r c)(0 := code_of ret, 5 := x_lr c), x_pc := x_lr c\<rparr>, s'))) \<and>
    (op_of ret = FILTER_REDIRECT \<longrightarrow>
      (\<exists>s'. FPB_Handler0 e (c, s) = Some (c\<lparr>x_r := (x_r c)(5 := code_of ret), x_pc := code_of ret\<rparr>, s'))) \<and>
    (op_of ret = FILTER_PASS \<longrightarrow> fpb_disable_cur_inst (w_mem (mo_world s1)) 0 (mo_hw s) = Some h \<longrightarrow>
      (\<exists>s'. FPB_Handler0 e (c, s) = Some (c\<lparr>x_r := (x_r c)(5 := h_comp h 0), x_pc := h_comp h 0\<rparr>, s') \<and> mo_hw s' = h))"
proof -
  let ?fr = "sp_of c1"
  have ctx: "mo_ctx s0 = mo_ctx s" "mo_ctx s1 = mo_ctx s"
    using push_regs_frame(1) [OF assms(1)] run_filter_at_ctx [OF assms(4)] by simp_all
  have fr: "ctx_get s1 ?fr k = Some (saved_reg k c)" if "k \<in> set pushed" for k
    using push_regs_frame(2) [OF assms(1) that] assms(5) that by simp
  have lr: "F_lr \<in> set pushed" "F_r0 \<in> set pushed" by (simp_all add: pushed_def)
  have ops: "FILTER_DROP \<noteq> FILTER_PASS" "FILTER_REDIRECT \<noteq> FILTER_PASS" "FILTER_REDIRECT \<noteq> FILTER_DROP"
    by (simp_all add: filter_ops)
  have id: "(x_r c)(0 := x_r c 0, 5 := v) = (x_r c)(5 := v)" for v by auto
  have H: "FPB_Handler0 e (c, s) = Some (c\<lparr>x_r := (x_r c)(0 := v, 5 := r), x_pc := r\<rparr>, s2)"
    if "leave_fpb_bpkt e ?fr 0 s0 = Some (r, s2)"
      "\<And>k. k \<in> set pushed \<Longrightarrow> ctx_get s2 ?fr k = Some (if k = F_r0 then v else saved_reg k c)" for r s2 v
    using pop_pushed [OF assms(1) that(2), of r] that(1) assms(1) by (simp add: FPB_Handler0_def)
  have L: "leave_fpb_bpkt e ?fr 0 s0 = Some (code_of ret, s1)" if "op_of ret = FILTER_REDIRECT"
    using assms(2-4) that ops ctx by (simp add: leave_fpb_bpkt_def Let_def)
  have L2: "leave_fpb_bpkt e ?fr 0 s0 = Some (h_comp h 0, with_hw (\<lambda>_. h) s1)"
    if "op_of ret = FILTER_PASS" "fpb_disable_cur_inst (w_mem (mo_world s1)) 0 (mo_hw s) = Some h"
    using assms(2-4) that ctx by (simp add: leave_fpb_bpkt_def Let_def)
  obtain s2 where s2: "ctx_set ?fr F_r0 (code_of ret) s1 = Some s2"
    using ctx_set_mapped fr [OF lr(2)] by (metis option.distinct(1))
  have g2: "ctx_get s2 ?fr k = Some (if k = F_r0 then code_of ret else saved_reg k c)" if "k \<in> set pushed" for k
    using ctx_get_set [OF s2, of k] fr [OF that] by simp
  have L3: "leave_fpb_bpkt e ?fr 0 s0 = Some (x_lr c, s2)" if "op_of ret = FILTER_DROP"
    using assms(2-4) that ops ctx s2 g2 [OF lr(1)] by (simp add: leave_fpb_bpkt_def Let_def)
  have keep: "ctx_get s1 ?fr k = Some (if k = F_r0 then x_r c 0 else saved_reg k c)" if "k \<in> set pushed" for k
    using fr [OF that] by auto
  have keep2: "ctx_get (with_hw (\<lambda>_. h) s1) ?fr k = Some (if k = F_r0 then x_r c 0 else saved_reg k c)"
    if "k \<in> set pushed" for k
    using keep [OF that] by (simp add: ctx_get_def with_hw_def)
  show ?thesis
    using H [OF L3 g2] H [OF L keep] H [OF L2 keep2] by (auto simp: id with_hw_def)
qed

definition sample_cpu :: cpu where
  "sample_cpu = \<lparr>x_r = (\<lambda>i. word_of_nat i), x_lr = 0x08000101, x_pc = 0x08000400, x_msp = 0x20001000, x_psp = 0, x_control = 0\<rparr>"

theorem fpb_handler_decides_witness:
  "\<exists>s'. FPB_Handler0 sample_env (sample_cpu, sample_mon (sample_hw\<lparr>h_comp := (\<lambda>_. 0x08001001)\<rparr>)) =
     Some (sample_cpu\<lparr>x_r := (x_r sample_cpu)(0 := 7, 5 := 0x08000101), x_pc := 0x08000101\<rparr>, s')"
proof -
  let ?s = "sample_mon (sample_hw\<lparr>h_comp := (\<lambda>_. 0x08001001)\<rparr>)"
  have "ctx_get ?s (sp_of sample_cpu - 24) k \<noteq> None" for k
    by (auto simp: ctx_get_def frame_get_def mem_load_def sample_mon_def)
  then obtain c1 s0 where pu: "push_regs sample_cpu ?s = Some (c1, s0)"
    using store_fields_mapped [of pushed ?s "sp_of sample_cpu - 24" sample_cpu] by (auto simp: push_regs_def Let_def)
  have ctx: "mo_ctx s0 = mo_ctx ?s" "mo_prof s0 = mo_prof ?s"
    using push_regs_frame(1) [OF pu] pu store_fields_prof by (auto simp: push_regs_def Let_def)
  have lk: "get_dynamic_patch_by_bpkt (mo_ctx ?s) (h_comp (mo_hw ?s) 0 AND NOT 1) = Some 0x300"
    using sample_lookup(1) by simp
  obtain pr where run: "run_filter_at sample_env 0x300 (sp_of c1) s0 = Some (set_return32 1 7, s0\<lparr>mo_prof := pr\<rparr>)"
    using ctx by (simp add: run_filter_at_def run_ebpf_filter_def sample_env_def sample_mon_def profile_start_def
      profile_end_def EV1_def PROFILER_EVENTS_MAX_def Let_def)
  from fpb_handler_decides [OF pu lk _ run] show ?thesis
    by (auto simp: op_code_set_return32 filter_ops ctx_get_def sample_cpu_def)
qed

end
