(* ===== verification/Flash_Api.thy ===== *)
theory Flash_Api
  imports Ebpf_Vm_Props
begin

text \<open>
  \<open>hotpatch/src/flash_api.c\<close>: writing to the flash of an STM32L475. The flash is a byte for every
  address. Erasing a page and programming a double word are done by the vendor's HAL, which is not
  part of the repository: the record \<open>hal\<close> holds its two functions and the constants of its header
  that the code uses. \<open>None\<close> is an access outside \<open>STMFLASH_BUF\<close> or outside the caller's buffer.
\<close>

type_synonym flash = "u32 \<Rightarrow> u8"

record hal =
  hal_erase :: "u32 \<Rightarrow> u32 \<Rightarrow> flash \<Rightarrow> bool \<times> flash"
  hal_program :: "u32 \<Rightarrow> u64 \<Rightarrow> flash \<Rightarrow> flash"
  hal_bank_end :: u32
  hal_bank1 :: u32
  hal_bank2 :: u32

definition FLASH_START_ADRESS :: u32 where "FLASH_START_ADRESS = 0x08000000"
definition FLASH_END_ADDRESS :: u32 where "FLASH_END_ADDRESS = 0x08000000 + 512 * 1024"
definition STM_SECTOR_SIZE :: nat where "STM_SECTOR_SIZE = 2048"

subsection \<open>Reading\<close>

definition bytes_at :: "flash \<Rightarrow> u32 \<Rightarrow> nat \<Rightarrow> u8 list" where
  "bytes_at f a n = map (\<lambda>i. f (a + word_of_nat i)) [0..<n]"

definition flash_read_word :: "flash \<Rightarrow> u32 \<Rightarrow> u32" where
  "flash_read_word f faddr = ucast (le_value (bytes_at f faddr 4))"

definition flash_port_read :: "flash \<Rightarrow> u32 \<Rightarrow> int \<Rightarrow> u8 list" where
  "flash_port_read f addr sz = bytes_at f addr (nat sz)"

text \<open>The words are copied to the start of the static buffer, whose bytes they are.\<close>

definition flash_read32 :: "flash \<Rightarrow> u32 \<Rightarrow> nat \<Rightarrow> u8 list" where
  "flash_read32 f addr sz = bytes_at f addr (4 * sz)"

subsection \<open>Erasing and programming\<close>

definition flash_get_blank :: "hal \<Rightarrow> u32 \<Rightarrow> u32" where
  "flash_get_blank h addr = (if addr < hal_bank_end h then hal_bank1 h else hal_bank2 h)"

definition earse_page :: "hal \<Rightarrow> u32 \<Rightarrow> flash \<Rightarrow> int \<times> flash" where
  "earse_page h secid f =
     (let addr = secid * word_of_nat STM_SECTOR_SIZE + FLASH_START_ADRESS;
          (ok, f1) = hal_erase h (flash_get_blank h addr) secid f
      in (if ok then 0 else - 1, f1))"

definition buf_dword :: "u8 list \<Rightarrow> nat \<Rightarrow> u64 option" where
  "buf_dword buf i = (if 8 * i + 8 \<le> length buf then Some (le_value (take 8 (drop (8 * i) buf))) else None)"

text \<open>Double word \<open>i\<close> and the \<open>n - 1\<close> after it go to \<open>addr\<close>.\<close>

fun write_from :: "hal \<Rightarrow> u32 \<Rightarrow> u8 list \<Rightarrow> nat \<Rightarrow> nat \<Rightarrow> flash \<Rightarrow> (int \<times> flash) option" where
  "write_from h addr buf i 0 f = Some (0, f)"
| "write_from h addr buf i (Suc n) f =
     (case buf_dword buf i of
        None \<Rightarrow> None
      | Some v \<Rightarrow>
          let f1 = hal_program h addr v f; read_data = le_value (bytes_at f1 addr 8) in
          if read_data \<noteq> v then Some (- 1, f1) else write_from h (addr + 8) buf (Suc i) n f1)"

definition write_directly :: "hal \<Rightarrow> u32 \<Rightarrow> u8 list \<Rightarrow> nat \<Rightarrow> flash \<Rightarrow> (int \<times> flash) option" where
  "write_directly h addr buf sz f = write_from h addr buf 0 sz f"

subsection \<open>Writing\<close>

text \<open>The copy loop: byte \<open>i\<close> of the data, which starts at offset \<open>off\<close> of the caller's buffer, to
  \<open>start_pos + i\<close>. A count that is not positive copies nothing.\<close>

fun copy_from :: "u8 list \<Rightarrow> int \<Rightarrow> int \<Rightarrow> nat \<Rightarrow> nat \<Rightarrow> u8 list \<Rightarrow> u8 list option" where
  "copy_from buf off start_pos i 0 page = Some page"
| "copy_from buf off start_pos i (Suc n) page =
     (if 0 \<le> off + int i \<and> off + int i < int (length buf) \<and>
         0 \<le> start_pos + int i \<and> start_pos + int i < int (length page)
      then copy_from buf off start_pos (Suc i) n (page[nat (start_pos + int i) := buf ! nat (off + int i)])
      else None)"

text \<open>The loop. Every turn but the first starts at the beginning of a page, so it ends: \<open>size\<close> falls by
  a page in each turn that is followed by another.\<close>

function write_loop ::
    "hal \<Rightarrow> u8 list \<Rightarrow> u32 \<Rightarrow> int \<Rightarrow> int \<Rightarrow> int \<Rightarrow> u32 \<Rightarrow> int \<Rightarrow> int \<Rightarrow> flash \<Rightarrow> (int \<times> flash) option" where
  "write_loop h buf secid start_pos sz off start_addr total_dw write_dw f =
     (let page = flash_read32 f (secid * word_of_nat STM_SECTOR_SIZE + FLASH_START_ADRESS) (STM_SECTOR_SIZE div 4);
          write_bytes = (if sz < write_dw * 8 - start_pos then sz else write_dw * 8 - start_pos)
      in case copy_from buf off start_pos 0 (nat write_bytes) page of
           None \<Rightarrow> None
         | Some page1 \<Rightarrow>
             (case earse_page h secid f of
                (r, f1) \<Rightarrow>
                  if r \<noteq> 0 then Some (- 1, f1)
                  else (case write_directly h start_addr page1 (nat write_dw) f1 of
                          None \<Rightarrow> None
                        | Some (r2, f2) \<Rightarrow>
                            if r2 \<noteq> 0 then Some (- 1, f2)
                            else if write_dw = total_dw then Some (0, f2)
                            else
                              let sz' = sz - write_bytes; total' = (sz' + 8) div 8 in
                              write_loop h buf (secid + 1) 0 sz' (off + write_bytes)
                                (start_addr + word_of_int (write_dw * 8)) total'
                                (if sz' > int STM_SECTOR_SIZE then int STM_SECTOR_SIZE div 8 else total') f2)))"
  by pat_completeness auto
termination
  by (relation "measure (\<lambda>(h, buf, secid, start_pos, sz, off, start_addr, total_dw, write_dw, f).
        if write_dw = total_dw then 0
        else Suc (nat (sz - (if sz < write_dw * 8 - start_pos then sz else write_dw * 8 - start_pos))))")
     (auto simp: STM_SECTOR_SIZE_def)

declare write_loop.simps [simp del]

definition flash_port_write :: "hal \<Rightarrow> u32 \<Rightarrow> u8 list \<Rightarrow> int \<Rightarrow> flash \<Rightarrow> (int \<times> flash) option" where
  "flash_port_write h faddr buf sz f =
     (let start_addr = faddr AND 0xFFFFFFF8;
          end_addr = (faddr + word_of_int sz + 8) AND 0xFFFFFFF8
      in if start_addr < FLASH_START_ADRESS \<or> end_addr > FLASH_END_ADDRESS then Some (- 1, f)
         else
           let offaddr = start_addr - FLASH_START_ADRESS;
               secid = offaddr div word_of_nat STM_SECTOR_SIZE;
               secoff = uint (offaddr mod word_of_nat STM_SECTOR_SIZE) div 8;
               sec_remain = int STM_SECTOR_SIZE div 8 - secoff;
               total_dw = uint (end_addr - start_addr) div 8;
               write_dw = (if total_dw \<le> sec_remain then total_dw else sec_remain);
               start_pos = secoff * 8 + uint (faddr - start_addr)
           in write_loop h buf secid start_pos sz 0 start_addr total_dw write_dw f)"

subsection \<open>A write at the start of a page\<close>

text \<open>What the vendor documents of the two operations: erasing a page of the first bank succeeds and sets
  its bytes to 0xff, and programming an aligned, erased double word stores it.\<close>

definition page_base :: "nat \<Rightarrow> u32" where
  "page_base p = word_of_nat p * word_of_nat STM_SECTOR_SIZE + FLASH_START_ADRESS"

definition hal_ok :: "hal \<Rightarrow> bool" where
  "hal_ok h \<longleftrightarrow> hal_bank_end h = 0x08040000 \<and>
     (\<forall>p < 128. \<forall>f. hal_erase h (hal_bank1 h) (word_of_nat p) f =
        (True, \<lambda>a. if unat (a - page_base p) < STM_SECTOR_SIZE then 0xff else f a)) \<and>
     (\<forall>a v f. unat a mod 8 = 0 \<longrightarrow> (\<forall>x. unat (x - a) < 8 \<longrightarrow> f x = 0xff) \<longrightarrow>
        hal_program h a v f = (\<lambda>x. if unat (x - a) < 8 then byte_of (unat (x - a)) v else f x))"

lemma byte_of_le_value: "k < length bs \<Longrightarrow> length bs \<le> 8 \<Longrightarrow> byte_of k (le_value bs) = bs ! k"
proof (induction bs arbitrary: k)
  case (Cons b bs)
  show ?case
  proof (cases k)
    case 0
    have "byte_of 0 (ucast b OR push_bit 8 (le_value bs)) = b" by (auto simp: byte_of_def bit_eq_iff bit_simps)
    then show ?thesis using 0 by simp
  next
    case (Suc j)
    have "byte_of (Suc j) (ucast b OR push_bit 8 (le_value bs)) = byte_of j (le_value bs)"
      using Cons.prems Suc by (auto simp: byte_of_def bit_eq_iff bit_simps dest: bit_imp_le_length)
    then show ?thesis using Cons Suc by simp
  qed
qed simp

lemma le_value_bytes_at:
  assumes "\<And>i. i < 8 \<Longrightarrow> f (a + word_of_nat i) = byte_of i v"
  shows "le_value (bytes_at f a 8) = v"
proof -
  have "bytes_at f a 8 = map (\<lambda>k. byte_of k v) [0..<8]" using assms by (simp add: bytes_at_def)
  moreover have "take_bit 64 v = v" by (simp add: bit_eq_iff bit_simps)
  ultimately show ?thesis using le_value_bytes [of 0 v 8] by simp
qed

lemma off_step:
  fixes x base :: u32
  assumes "j \<le> 2048"
  shows "unat (x - (base + word_of_nat j)) < 8 \<longleftrightarrow> j \<le> unat (x - base) \<and> unat (x - base) < j + 8"
    "unat (x - (base + word_of_nat j)) < 8 \<Longrightarrow> unat (x - (base + word_of_nat j)) = unat (x - base) - j"
proof -
  have e: "x - (base + word_of_nat j) = (x - base) - word_of_nat j" by simp
  have u: "unat (word_of_nat j :: u32) = j" using assms by (simp add: unat_of_nat take_bit_nat_eq_self)
  show "unat (x - (base + word_of_nat j)) < 8 \<longleftrightarrow> j \<le> unat (x - base) \<and> unat (x - base) < j + 8"
    unfolding e unat_sub_if_size u using assms by (auto simp: word_size)
  then show "unat (x - (base + word_of_nat j)) < 8 \<Longrightarrow> unat (x - (base + word_of_nat j)) = unat (x - base) - j"
    unfolding e unat_sub_if_size u by (simp add: word_size)
qed

lemma aligned_add:
  assumes "unat (base :: u32) mod 8 = 0" "unat base + 2048 < 2 ^ 32" "8 * i \<le> 2048"
  shows "unat (base + word_of_nat (8 * i)) mod 8 = 0"
proof -
  define j where "j = 8 * i"
  have "unat (base + word_of_nat j) = unat base + j"
    using assms(2,3) by (simp add: j_def [symmetric] unat_word_ariths unat_of_nat take_bit_nat_eq_self)
  moreover have "(unat base + j) mod 8 = 0" using assms(1) by (simp add: j_def mod_add_eq [symmetric])
  ultimately show ?thesis by (simp add: j_def)
qed

lemma write_from_erased:
  assumes "hal_ok h" "unat base mod 8 = 0" "unat base + 2048 < 2 ^ 32" "length buf = 2048" "i + n \<le> 256"
    "\<And>a. 8 * i \<le> unat (a - base) \<Longrightarrow> unat (a - base) < 2048 \<Longrightarrow> f a = 0xff"
  shows "write_from h (base + word_of_nat (8 * i)) buf i n f =
    Some (0, \<lambda>a. if 8 * i \<le> unat (a - base) \<and> unat (a - base) < 8 * (i + n) then buf ! unat (a - base) else f a)"
  using assms(5,6)
proof (induction n arbitrary: i f)
  case 0
  have "(\<lambda>a. if 8 * i \<le> unat (a - base) \<and> unat (a - base) < 8 * i then buf ! unat (a - base) else f a) = f"
    by (rule ext) auto
  then show ?case by simp
next
  case (Suc n)
  define j where "j = 8 * i"
  have j: "j + 8 \<le> 2048" using Suc.prems(1) by (simp add: j_def)
  let ?a = "base + word_of_nat j"
  let ?v = "le_value (take 8 (drop j buf))"
  let ?f1 = "\<lambda>x. if unat (x - ?a) < 8 then byte_of (unat (x - ?a)) ?v else f x"
  have v: "buf_dword buf i = Some ?v" using j assms(4) by (simp add: buf_dword_def j_def)
  have bv: "byte_of k ?v = buf ! (j + k)" if "k < 8" for k
    using that j assms(4) by (simp add: byte_of_le_value)
  have "unat ?a mod 8 = 0" using aligned_add [OF assms(2,3), of i] j by (simp add: j_def)
  moreover have "\<forall>x. unat (x - ?a) < 8 \<longrightarrow> f x = 0xff"
    using Suc.prems(2) off_step(1) [of j _ base] j by (auto simp: j_def)
  ultimately have pr: "hal_program h ?a ?v f = ?f1" using assms(1) by (simp add: hal_ok_def)
  have f1: "?f1 = (\<lambda>x. if j \<le> unat (x - base) \<and> unat (x - base) < j + 8 then buf ! unat (x - base) else f x)"
  proof
    fix x
    show "?f1 x = (if j \<le> unat (x - base) \<and> unat (x - base) < j + 8 then buf ! unat (x - base) else f x)"
      using off_step [of j x base] j bv [of "unat (x - ?a)"] by (auto simp: bv)
  qed
  define g where "g = (\<lambda>x. if j \<le> unat (x - base) \<and> unat (x - base) < j + 8 then buf ! unat (x - base) else f x)"
  have "le_value (bytes_at ?f1 ?a 8) = ?v"
    by (rule le_value_bytes_at) (simp add: unat_of_nat take_bit_nat_eq_self)
  then have s: "write_from h ?a buf i (Suc n) f = write_from h (?a + 8) buf (Suc i) n g"
    using v pr f1 by (simp add: Let_def g_def)
  have a8: "?a + 8 = base + word_of_nat (8 * Suc i)" by (simp add: j_def algebra_simps)
  have "write_from h (base + word_of_nat (8 * Suc i)) buf (Suc i) n g =
      Some (0, \<lambda>a. if 8 * Suc i \<le> unat (a - base) \<and> unat (a - base) < 8 * (Suc i + n) then buf ! unat (a - base) else g a)"
    by (rule Suc.IH) (use Suc.prems in \<open>auto simp: g_def j_def\<close>)
  moreover have "(\<lambda>a. if 8 * Suc i \<le> unat (a - base) \<and> unat (a - base) < 8 * (Suc i + n) then buf ! unat (a - base) else g a) =
      (\<lambda>a. if j \<le> unat (a - base) \<and> unat (a - base) < 8 * (i + Suc n) then buf ! unat (a - base) else f a)"
    by (rule ext) (auto simp: j_def g_def)
  ultimately show ?case unfolding j_def [symmetric] s a8 by (simp only:)
qed

lemma copy_in:
  assumes "length buf = i + n" "pad + i + n \<le> length page"
  shows "copy_from buf 0 (int pad) i n page =
    Some (map (\<lambda>k. if pad + i \<le> k \<and> k < pad + i + n then buf ! (k - pad) else page ! k) [0..<length page])"
  using assms
proof (induction n arbitrary: i page)
  case 0
  have "page = map (\<lambda>k. if pad + i \<le> k \<and> k < pad + i then buf ! (k - pad) else page ! k) [0..<length page]"
    by (rule nth_equalityI) auto
  then show ?case by simp
next
  case (Suc n)
  let ?page = "page[pad + i := buf ! i]"
  have "copy_from buf 0 (int pad) i (Suc n) page = copy_from buf 0 (int pad) (Suc i) n ?page"
    using Suc.prems by (simp add: nat_int_add)
  also have "\<dots> = Some (map (\<lambda>k. if pad + Suc i \<le> k \<and> k < pad + Suc i + n then buf ! (k - pad) else ?page ! k) [0..<length page])"
    using Suc.IH [of "Suc i" ?page] Suc.prems by simp
  also have "\<dots> = Some (map (\<lambda>k. if pad + i \<le> k \<and> k < pad + i + Suc n then buf ! (k - pad) else page ! k) [0..<length page])"
    by (auto simp: nth_list_update not_less_eq_eq [symmetric] dest!: le_antisym)
  finally show ?case .
qed

lemma align8: "unat ((x :: u32) AND 0xFFFFFFF8) = 8 * (unat x div 8)"
proof -
  have "(0xFFFFFFF8 :: u32) = NOT (mask 3)" by (simp add: mask_eq_exp_minus_1)
  moreover have "x AND NOT (mask 3) = push_bit 3 (drop_bit 3 x)"
    by (auto simp: bit_eq_iff bit_simps)
  moreover have "8 * (unat x div 8) < 2 ^ 32"
    using unsigned_less [of x, where ?'a = nat] times_div_less_eq_dividend [of 8 "unat x"] by simp
  ultimately show ?thesis
    by (simp add: push_bit_eq_mult drop_bit_eq_div unat_word_ariths unat_div)
qed

lemma unat_page_base: "p < 128 \<Longrightarrow> unat (page_base p) = 0x08000000 + 2048 * p"
  by (simp add: page_base_def STM_SECTOR_SIZE_def FLASH_START_ADRESS_def unat_word_ariths unat_of_nat take_bit_nat_eq_self)

text \<open>The parameters of the one turn that a write inside the first page needs.\<close>

lemma port_write_page:
  assumes "p < 128" "pad < 8" "pad + n \<le> 2040"
  shows "flash_port_write h (page_base p + word_of_nat pad) buf (int n) f =
    write_loop h buf (word_of_nat p) (int pad) (int n) 0 (page_base p) (int ((pad + n + 8) div 8))
      (int ((pad + n + 8) div 8)) f"
proof -
  let ?b = "page_base p" and ?t = "(pad + n + 8) div 8"
  let ?start = "(?b + word_of_nat pad) AND 0xFFFFFFF8"
  let ?fin = "(?b + word_of_nat pad + word_of_int (int n) + 8) AND 0xFFFFFFF8"
  note B = unat_page_base [OF assms(1)]
  have u: "unat (?b + word_of_nat pad) = unat ?b + pad" "unat (?b + word_of_nat pad + word_of_int (int n) + 8) = unat ?b + pad + n + 8"
    using B assms by (simp_all add: unat_word_ariths unat_of_nat take_bit_nat_eq_self)
  define c where "c = 16777216 + 256 * p"
  have Bc: "unat ?b = 8 * c" using B by (simp add: c_def)
  have d8: "8 * ((8 * c + x) div 8) = 8 * c + 8 * (x div 8)" for x by simp
  have "unat ?start = unat ?b" unfolding align8 u Bc d8 using assms(2) by simp
  then have st: "?start = ?b" by (simp add: word_unat_eq_iff)
  have en: "unat ?fin = unat ?b + 8 * ?t" unfolding align8 u Bc using d8 [of "pad + n + 8"] by (simp add: add.assoc)
  have range: "\<not> (?b < FLASH_START_ADRESS \<or> ?fin > FLASH_END_ADDRESS)"
    using B en assms by (simp add: word_less_nat_alt FLASH_START_ADRESS_def FLASH_END_ADDRESS_def)
  have off: "unat (?b - FLASH_START_ADRESS) = 2048 * p"
    using B by (simp add: FLASH_START_ADRESS_def unat_sub_if_size word_size)
  have sec: "(?b - FLASH_START_ADRESS) div word_of_nat STM_SECTOR_SIZE = word_of_nat p"
      "(?b - FLASH_START_ADRESS) mod word_of_nat STM_SECTOR_SIZE = 0"
    using off assms(1) by (simp_all add: word_unat_eq_iff unat_div unat_mod STM_SECTOR_SIZE_def unat_of_nat take_bit_nat_eq_self)
  have "unat (?fin - ?b) = 8 * ?t" using en unat_sub_if_size [of ?fin ?b] by simp
  then have "uint (?fin - ?b) = int (8 * ?t)" by (simp only: uint_nat)
  then have tot: "uint (?fin - ?b) div 8 = int ?t" by simp
  have pd: "uint (?b + word_of_nat pad - ?b) = int pad"
    using assms(2) by (simp add: unsigned_of_nat take_bit_nat_eq_self)
  have "int ?t \<le> int STM_SECTOR_SIZE div 8 - uint (0 :: u32) div 8"
    using assms(3) by (simp add: STM_SECTOR_SIZE_def)
  then show ?thesis
    unfolding flash_port_write_def Let_def st sec tot pd using range by simp
qed

text \<open>A write that starts in the first double word of a page of the first bank and ends inside the page
  succeeds: the bytes written read as the data, the bytes around them up to the next double word and
  all other pages are kept, but the rest of the page is erased.\<close>

theorem flash_port_write_page:
  assumes "hal_ok h" and "p < 128" and "pad < 8" and "pad + length buf \<le> 2040"
  shows "flash_port_write h (page_base p + word_of_nat pad) buf (int (length buf)) f =
    Some (0, \<lambda>a. let k = unat (a - page_base p) in
      if pad \<le> k \<and> k < pad + length buf then buf ! (k - pad)
      else if 8 * ((pad + length buf + 8) div 8) \<le> k \<and> k < 2048 then 0xff else f a)"
proof -
  let ?b = "page_base p" and ?n = "length buf" and ?t = "(pad + length buf + 8) div 8"
  have t: "pad + ?n < 8 * ?t" "?t \<le> 256" using assms(4) by presburger+
  define page where "page = flash_read32 f ?b (STM_SECTOR_SIZE div 4)"
  have page: "length page = 2048" "\<And>k. k < 2048 \<Longrightarrow> page ! k = f (?b + word_of_nat k)"
    by (simp_all add: page_def flash_read32_def bytes_at_def STM_SECTOR_SIZE_def)
  define page1 where "page1 = map (\<lambda>k. if pad \<le> k \<and> k < pad + ?n then buf ! (k - pad) else page ! k) [0..<2048]"
  have cp: "copy_from buf 0 (int pad) 0 ?n page = Some page1"
    using copy_in [of buf 0 ?n pad page] page(1) assms(4) by (simp add: page1_def)
  define f1 where "f1 = (\<lambda>a. if unat (a - ?b) < STM_SECTOR_SIZE then 0xff else f a)"
  have "?b < 0x08040000" using unat_page_base [OF assms(2)] assms(2) by (simp add: word_less_nat_alt)
  then have er: "earse_page h (word_of_nat p) f = (0, f1)"
    using assms(1,2) by (simp add: earse_page_def flash_get_blank_def hal_ok_def f1_def page_base_def [symmetric])
  have wr: "write_directly h ?b page1 ?t f1 =
      Some (0, \<lambda>a. if unat (a - ?b) < 8 * ?t then page1 ! unat (a - ?b) else f1 a)"
    using write_from_erased [OF assms(1), of ?b page1 0 ?t f1] unat_page_base [OF assms(2)] assms(2) t(2)
    by (simp add: write_directly_def page1_def f1_def STM_SECTOR_SIZE_def mod_add_eq [symmetric])
  have "write_loop h buf (word_of_nat p) (int pad) (int ?n) 0 ?b (int ?t) (int ?t) f =
      Some (0, \<lambda>a. if unat (a - ?b) < 8 * ?t then page1 ! unat (a - ?b) else f1 a)"
    using cp er wr t(1) unfolding write_loop.simps [of h buf "word_of_nat p"] page_base_def [symmetric] page_def [symmetric]
    by simp
  moreover have "(\<lambda>a. if unat (a - ?b) < 8 * ?t then page1 ! unat (a - ?b) else f1 a) =
      (\<lambda>a. let k = unat (a - ?b) in if pad \<le> k \<and> k < pad + ?n then buf ! (k - pad)
        else if 8 * ?t \<le> k \<and> k < 2048 then 0xff else f a)"
    using t page(2) by (intro ext) (auto simp: page1_def f1_def Let_def STM_SECTOR_SIZE_def)
  ultimately show ?thesis using port_write_page [OF assms(2-4)] by simp
qed

text \<open>An implementation of the two operations that has the documented behaviour.\<close>

definition sample_hal :: hal where
  "sample_hal = \<lparr>hal_erase = (\<lambda>_ p f. (True, \<lambda>a. if unat (a - page_base (unat p)) < STM_SECTOR_SIZE then 0xff else f a)),
     hal_program = (\<lambda>a v f x. if unat (x - a) < 8 then byte_of (unat (x - a)) v else f x),
     hal_bank_end = 0x08040000, hal_bank1 = 1, hal_bank2 = 2\<rparr>"

lemma sample_hal_ok: "hal_ok sample_hal"
  by (simp add: hal_ok_def sample_hal_def unat_of_nat take_bit_nat_eq_self)

theorem flash_port_write_page_witness:
  "\<exists>f'. flash_port_write sample_hal (page_base 3 + 2) [10, 20] 2 (\<lambda>_. 7) = Some (0, f') \<and>
     f' (page_base 3 + 3) = 20 \<and> f' (page_base 3 + 8) = 0xff"
  using flash_port_write_page [OF sample_hal_ok, of 3 2 "[10, 20]" "\<lambda>_. 7"] by simp

end
