(* ===== verification/Eval_Tests.thy ===== *)
theory Eval_Tests
  imports Eval_Code Arraymap Iotpatch Monitor_Props
begin

text \<open>
  The evaluation of \<open>hotpatch/src/ebpf_test.c\<close>: every patch of \<open>Eval_Code\<close> run by the interpreter and by the
  compiled code on a prepared frame, the dispatch over the tests, and the measurement of the patch table.

  The local variables of a test lie where the compiler puts them: \<open>e_frame\<close> is the address of \<open>args_frame\<close>,
  \<open>e_obj k\<close> that of the \<open>k\<close>-th object the frame points to. What a test prints is the list \<open>ev_out\<close> of pairs of
  results. \<open>None\<close> is undefined behaviour.
\<close>

subsection \<open>The environment\<close>

record eva_env =
  e_run :: run_env
  e_junk :: u64
  e_call :: "u32 \<Rightarrow> u64 \<Rightarrow> u64 \<Rightarrow> u64 \<Rightarrow> u64 \<Rightarrow> world \<Rightarrow> world"
  e_now :: "nat \<Rightarrow> u32"
  e_frame :: u32
  e_obj :: "nat \<Rightarrow> u32"
  e_memmove :: u32

record eva =
  ev_world :: world
  ev_helpers :: "ebpf_helper_env option"
  ev_prof :: "hw \<times> profiler"
  ev_out :: "(u64 \<times> u64) list"

definition eva_start :: "eva_env \<Rightarrow> nat \<Rightarrow> nat \<Rightarrow> eva \<Rightarrow> eva option" where
  "eva_start e k eid s =
     map_option (\<lambda>p. s\<lparr>ev_prof := (fst (ev_prof s), p)\<rparr>) (profile_start (e_now e k) eid (snd (ev_prof s)))"

definition eva_end :: "eva_env \<Rightarrow> nat \<Rightarrow> nat \<Rightarrow> eva \<Rightarrow> eva option" where
  "eva_end e k eid s =
     map_option (\<lambda>(_, p). s\<lparr>ev_prof := (fst (ev_prof s), p)\<rparr>) (profile_end (e_now e k) eid (snd (ev_prof s)))"

text \<open>The value \<open>ebpf_vm_exec\<close> returns to its caller.\<close>

definition exec_ret :: "u64 \<Rightarrow> vm_result \<Rightarrow> u64 option" where
  "exec_ret it r = (case r of Ret v \<Rightarrow> Some v | IterLimit \<Rightarrow> Some it | Undef _ \<Rightarrow> None)"

definition ebpf_eva :: "eva_env \<Rightarrow> u8 list \<Rightarrow> u32 \<Rightarrow> u32 \<Rightarrow> u32 \<Rightarrow> eva \<Rightarrow> eva option" where
  "ebpf_eva e code code_len args ags_len s0 =
     (let (g, vm) = ebpf_vm_set_inst (e_junk e) (e_call e) (ev_helpers s0) zero_vm code code_len;
          (_, p) = profile_add_event ''ebpf'' (ev_prof s0);
          s1 = s0\<lparr>ev_helpers := g, ev_prof := p\<rparr>
      in do {
        s2 \<leftarrow> eva_start e 0 EV0 s1;
        let (r, w) = ebpf_vm_exec g vm \<lparr>f_mem = args, f_mem_len = ags_len, f_stack = r_stack (e_run e)\<rparr>
                       (r_regs0 (e_run e)) (ev_world s2);
        ret1 \<leftarrow> exec_ret (r_iter (e_run e)) r;
        s3 \<leftarrow> eva_end e 1 EV0 (s2\<lparr>ev_world := w\<rparr>);
        s4 \<leftarrow> eva_start e 2 EV1 s3;
        (ret2, w2) \<leftarrow> r_jit (e_run e) vm args ags_len (ev_world s4);
        s5 \<leftarrow> eva_end e 3 EV1 (s4\<lparr>ev_world := w2\<rparr>);
        Some (s5\<lparr>ev_out := ev_out s5 @ [(ret1, ret2)]\<rparr>)})"

subsection \<open>The tests\<close>

text \<open>Assignments to the fields of a frame, and an initialiser, which clears the fields it does not name.\<close>

fun set_fields :: "u32 \<Rightarrow> (frame_field \<times> u32) list \<Rightarrow> memory \<Rightarrow> memory option" where
  "set_fields fr [] m = Some m"
| "set_fields fr ((k, v) # fs) m = do { m' \<leftarrow> frame_set m fr k v; set_fields fr fs m' }"

definition all_fields :: "frame_field list" where
  "all_fields = [F_r0, F_r1, F_r2, F_r3, F_r12, F_lr, F_pc, F_xpsr]"

definition init_fields :: "u32 \<Rightarrow> (frame_field \<times> u32) list \<Rightarrow> memory \<Rightarrow> memory option" where
  "init_fields fr fs = set_fields fr (map (\<lambda>k. (k, case map_of fs k of None \<Rightarrow> 0 | Some v \<Rightarrow> v)) all_fields)"

definition run_on :: "eva_env \<Rightarrow> (memory \<Rightarrow> memory option) \<Rightarrow> u8 list \<Rightarrow> eva \<Rightarrow> eva option" where
  "run_on e setup code s = do {
     m \<leftarrow> setup (w_mem (ev_world s));
     ebpf_eva e code (of_nat (length code)) (e_frame e) 32 (s\<lparr>ev_world := (ev_world s)\<lparr>w_mem := m\<rparr>\<rparr>)}"

abbreviation word4 :: "u32 \<Rightarrow> u8 list" where "word4 v \<equiv> le_bytes 4 (ucast v)"

definition orig_c0 :: "s32 \<Rightarrow> s32" where
  "orig_c0 v = (if sint v > 2000 then - 1 else 0)"

definition test_ebpf_c0 :: "eva_env \<Rightarrow> eva \<Rightarrow> eva option" where
  "test_ebpf_c0 e s = do {
     s1 \<leftarrow> run_on e (set_fields (e_frame e) [(F_r0, 2500)]) code0 s;
     s2 \<leftarrow> eva_start e 4 EV0 s1;
     let _ = orig_c0 2500;
     eva_end e 5 EV0 s2}"

definition test_ebpf_c1 :: "eva_env \<Rightarrow> eva \<Rightarrow> eva option" where
  "test_ebpf_c1 e = run_on e (\<lambda>m. do {
     m1 \<leftarrow> store_bytes m (e_obj e 0) [0, 0, 0, 0, 0x0e, 0xfe, 0xf0, 0];
     set_fields (e_frame e) [(F_r1, e_obj e 0), (F_r2, 500)] m1}) code1"

definition test_ebpf_c2 :: "eva_env \<Rightarrow> eva \<Rightarrow> eva option" where
  "test_ebpf_c2 e = run_on e (\<lambda>m. do {
     m1 \<leftarrow> store_bytes m (e_obj e 0) (word4 233);
     init_fields (e_frame e) [(F_r0, 20), (F_r1, e_obj e 0)] m1}) code2"

text \<open>\<open>test_str\<close> points to a literal, which is in memory already.\<close>

definition test_ebpf_c3 :: "eva_env \<Rightarrow> eva \<Rightarrow> eva option" where
  "test_ebpf_c3 e = run_on e (init_fields (e_frame e) [(F_r0, e_obj e 0), (F_r1, e_memmove e)]) code3"

definition test_ebpf_c4 :: "eva_env \<Rightarrow> eva \<Rightarrow> eva option" where
  "test_ebpf_c4 e = run_on e (set_fields (e_frame e) [(F_pc, 5), (F_xpsr, 7)]) code4"

definition test_ebpf_c5 :: "eva_env \<Rightarrow> eva \<Rightarrow> eva option" where
  "test_ebpf_c5 e = run_on e (\<lambda>m. do {
     m1 \<leftarrow> store_bytes m (e_obj e 1) (replicate 20 0);
     m2 \<leftarrow> store_bytes m1 (e_obj e 0) (word4 0 @ word4 (e_obj e 1));
     init_fields (e_frame e) [(F_r1, e_obj e 0)] m2}) code5"

definition test_ebpf_c6 :: "eva_env \<Rightarrow> eva \<Rightarrow> eva option" where
  "test_ebpf_c6 e = run_on e (\<lambda>m. do {
     m1 \<leftarrow> store_bytes m (e_obj e 1) [0x81, 0x21, 0x12, 0, 0, 0];
     m2 \<leftarrow> store_bytes m1 (e_obj e 0) (word4 (e_obj e 1) @ word4 (e_obj e 1 + 10));
     init_fields (e_frame e) [(F_r0, e_obj e 0)] m2}) code6"

definition test_ebpf_c7 :: "eva_env \<Rightarrow> eva \<Rightarrow> eva option" where
  "test_ebpf_c7 e = run_on e (\<lambda>m. do {
     m1 \<leftarrow> store_bytes m (e_obj e 1) (replicate 60 0);
     m2 \<leftarrow> store_bytes m1 (e_obj e 0) (replicate 24 0 @ word4 (e_obj e 1));
     init_fields (e_frame e) [(F_r1, e_obj e 0)] m2}) code7"

definition test_ebpf_c8 :: "eva_env \<Rightarrow> eva \<Rightarrow> eva option" where
  "test_ebpf_c8 e s = do {
     s1 \<leftarrow> run_on e (set_fields (e_frame e) [(F_r0, 12), (F_r1, 0)]) code8_1 s;
     ebpf_eva e code8_2 (of_nat (length code8_2)) (e_frame e) 32 s1}"

text \<open>\<open>xDataLength\<close> is aligned to 8: the four bytes behind \<open>padd\<close> are padding.\<close>

definition test_ebpf_c9 :: "eva_env \<Rightarrow> eva \<Rightarrow> eva option" where
  "test_ebpf_c9 e = run_on e (\<lambda>m. do {
     m1 \<leftarrow> store_bytes m (e_obj e 0) (replicate 28 0);
     m2 \<leftarrow> store_bytes m1 (e_obj e 0 + 32) (le_bytes 8 100);
     init_fields (e_frame e) [(F_r0, e_obj e 0)] m2}) code9"

definition test_ebpf_c10 :: "eva_env \<Rightarrow> eva \<Rightarrow> eva option" where
  "test_ebpf_c10 e = run_on e (set_fields (e_frame e) [(F_pc, 2020)]) code10"

definition test_ebpf_c11 :: "eva_env \<Rightarrow> eva \<Rightarrow> eva option" where
  "test_ebpf_c11 e = run_on e (\<lambda>m. do {
     m1 \<leftarrow> store_bytes m (e_obj e 0) (replicate 38 0 @ [7, 0]);
     init_fields (e_frame e) [(F_r0, e_obj e 0)] m1}) code11"

definition test_ebpf_c12 :: "eva_env \<Rightarrow> eva \<Rightarrow> eva option" where
  "test_ebpf_c12 e = run_on e (\<lambda>m. do {
     m1 \<leftarrow> store_bytes m (e_obj e 0) ([1, - 2, - 2, - 2, - 2, - 2] @ replicate 44 0);
     init_fields (e_frame e) [(F_r0, e_obj e 0)] m1}) code12"

definition test_ebpf_sfi :: "eva_env \<Rightarrow> eva \<Rightarrow> eva option" where
  "test_ebpf_sfi e s = do {
     s1 \<leftarrow> run_on e (init_fields (e_frame e) [(F_r0, e_obj e 0), (F_r1, 80000)]) code13 s;
     ebpf_eva e code14 (of_nat (length code14)) (e_frame e) 32 s1}"

definition test_funcs :: "(eva_env \<Rightarrow> eva \<Rightarrow> eva option) list" where
  "test_funcs = [test_ebpf_c0, test_ebpf_c1, test_ebpf_c2, test_ebpf_c3, test_ebpf_c4, test_ebpf_c5, test_ebpf_c6,
     test_ebpf_c7, test_ebpf_c8, test_ebpf_c9, test_ebpf_c10, test_ebpf_c11, test_ebpf_c12, test_ebpf_sfi]"

definition run_ebpf_eva :: "eva_env \<Rightarrow> int \<Rightarrow> eva \<Rightarrow> eva option" where
  "run_ebpf_eva e eid s =
     (let n = length test_funcs in
      if eid < 0 \<or> eid \<ge> int n then Some s else (test_funcs ! nat eid) e s)"


subsection \<open>What the frames and objects hold\<close>

definition apart :: "u32 \<Rightarrow> nat \<Rightarrow> u32 \<Rightarrow> nat \<Rightarrow> bool" where
  "apart a n b l \<longleftrightarrow> (\<forall>i < n. \<forall>j < l. a + of_nat i \<noteq> b + of_nat j)"

definition holds :: "memory \<Rightarrow> u32 \<Rightarrow> u8 list \<Rightarrow> bool" where
  "holds m a bs \<longleftrightarrow> (\<forall>k < length bs. m (a + of_nat k) = Some (bs ! k))"

lemma store_bytes_holds:
  "store_bytes m a bs = Some m' \<Longrightarrow> length bs < 4294967296 \<Longrightarrow> holds m' a bs"
proof (induction bs arbitrary: m a)
  case (Cons b bs)
  then have st: "store_bytes (m(a \<mapsto> b)) (a + 1) bs = Some m'" by (auto split: option.splits)
  have "a \<noteq> a + 1 + of_nat k" if "k < length bs" for k
    using offset_neq [of 0 "Suc k" a] that Cons.prems(2) by (simp add: add.assoc)
  then have "m' a = Some b" using store_bytes_frame [OF st, of a] by simp
  moreover have "holds m' (a + 1) bs" using Cons.IH [OF st] Cons.prems(2) by simp
  ultimately show ?case by (auto simp: holds_def nth_Cons add.assoc split: nat.splits)
qed (simp add: holds_def)

lemma load_holds: "holds m a bs \<Longrightarrow> k + n \<le> length bs \<Longrightarrow> load_bytes m (a + of_nat k) n = Some (take n (drop k bs))"
proof (induction n arbitrary: k)
  case (Suc n)
  then have "m (a + of_nat k) = Some (bs ! k)" by (simp add: holds_def)
  moreover have "load_bytes m (a + of_nat (Suc k)) n = Some (take n (drop (Suc k) bs))" by (rule Suc.IH) (use Suc.prems in simp_all)
  moreover have "take (Suc n) (drop k bs) = bs ! k # take n (drop (Suc k) bs)"
    using Suc.prems(2) by (simp add: Cons_nth_drop_Suc [symmetric])
  ultimately show ?case by (simp add: ac_simps)
qed simp

lemma mem_load_holds: "holds m a bs \<Longrightarrow> k + n \<le> length bs \<Longrightarrow> mem_load m (a + of_nat k) n = Some (le_value (take n (drop k bs)))"
  by (simp add: mem_load_def load_holds)

lemma store_holds_apart:
  "holds m a bs \<Longrightarrow> store_bytes m b cs = Some m' \<Longrightarrow> apart a n b l \<Longrightarrow> length bs \<le> n \<Longrightarrow> length cs \<le> l \<Longrightarrow> holds m' a bs"
  by (auto simp: holds_def apart_def intro: store_bytes_frame [THEN trans])

lemma store_mapped:
  assumes "\<forall>k < n. m (a + of_nat k) \<noteq> None" "length bs \<le> n"
  shows "\<exists>m'. store_bytes m a bs = Some m'"
proof (rule store_bytes_mapped)
  have "\<forall>k < l. m (b + of_nat k) \<noteq> None \<Longrightarrow> load_bytes m b l \<noteq> None" for b l
  proof (induction l arbitrary: b)
    case (Suc l)
    have "m b \<noteq> None" using Suc.prems by (auto dest: spec [of _ 0])
    moreover have "m (b + 1 + of_nat k) \<noteq> None" if "k < l" for k
      using Suc.prems [rule_format, of "Suc k"] that by (simp add: add.assoc)
    ultimately show ?case using Suc.IH [of "b + 1"] by (auto split: option.splits)
  qed simp
  with assms show "load_bytes m a (length bs) \<noteq> None" by auto
qed

lemma set_fields_get:
  "set_fields fr fs m = Some m' \<Longrightarrow>
     frame_get m' fr k = (case map_of (rev fs) k of None \<Rightarrow> frame_get m fr k | Some v \<Rightarrow> Some v)"
proof (induction fs arbitrary: m)
  case (Cons kv fs)
  then show ?case
    by (cases kv) (auto simp: bind_eq_Some_conv frame_get_set map_add_def split: option.splits)
qed simp

lemma set_fields_mapped:
  "\<forall>k. frame_get m fr k \<noteq> None \<Longrightarrow> \<exists>m'. set_fields fr fs m = Some m' \<and> (\<forall>k. frame_get m' fr k \<noteq> None)"
proof (induction fs arbitrary: m)
  case (Cons kv fs)
  obtain m1 where m1: "frame_set m fr (fst kv) (snd kv) = Some m1"
    using frame_set_mapped [of m fr "fst kv" "snd kv"] Cons.prems by auto
  with Cons.IH [of m1] Cons.prems show ?case by (cases kv) (auto simp: frame_get_set)
qed simp

lemma frame_set_outside: "frame_set m fr k v = Some m' \<Longrightarrow> apart a n fr 32 \<Longrightarrow> i < n \<Longrightarrow> m' (a + of_nat i) = m (a + of_nat i)"
proof -
  assume st: "frame_set m fr k v = Some m'" and ap: "apart a n fr 32" "i < n"
  have "a + of_nat i \<noteq> fr + field_offset k + of_nat j" if "j < 4" for j
  proof -
    have "4 * field_index k + j < 32" using that field_index_lt [of k] by simp
    with ap have "a + of_nat i \<noteq> fr + of_nat (4 * field_index k + j)" by (simp add: apart_def del: of_nat_add of_nat_mult)
    then show ?thesis by (simp add: field_offset_index add.assoc)
  qed
  then show ?thesis using store_bytes_frame [OF st [unfolded frame_set_def mem_store_def]] by (simp add: le_bytes_def)
qed

lemma set_fields_outside:
  "set_fields fr fs m = Some m' \<Longrightarrow> apart a n fr 32 \<Longrightarrow> i < n \<Longrightarrow> m' (a + of_nat i) = m (a + of_nat i)"
proof (induction fs arbitrary: m)
  case (Cons kv fs)
  then show ?case by (cases kv) (auto simp: bind_eq_Some_conv frame_set_outside)
qed simp

lemma set_fields_holds:
  "holds m a bs \<Longrightarrow> set_fields fr fs m = Some m' \<Longrightarrow> apart a n fr 32 \<Longrightarrow> length bs \<le> n \<Longrightarrow> holds m' a bs"
  by (auto simp: holds_def set_fields_outside)


subsection \<open>The verdicts\<close>

text \<open>What the tests need: the machine state on entry of a filter, compiled code that returns, a mapped frame and
  two mapped objects of up to 64 bytes that do not overlap.\<close>

definition eva_ready :: "eva_env \<Rightarrow> eva \<Rightarrow> bool" where
  "eva_ready e s \<longleftrightarrow> length (r_regs0 (e_run e)) = MAX_BPF_EXT_REG \<and>
     (\<forall>vm a n w. r_jit (e_run e) vm a n w \<noteq> None) \<and> helper_table_ok (ev_helpers s) \<and>
     (\<forall>k. frame_get (w_mem (ev_world s)) (e_frame e) k \<noteq> None) \<and>
     (\<forall>i < 2. \<forall>k < 64. w_mem (ev_world s) (e_obj e i + of_nat k) \<noteq> None) \<and>
     apart (e_obj e 0) 64 (e_frame e) 32 \<and> apart (e_obj e 1) 64 (e_frame e) 32 \<and> apart (e_obj e 1) 64 (e_obj e 0) 64"

lemma events_some [simp]:
  "\<exists>p. eva_start e k EV0 s = Some (s\<lparr>ev_prof := p\<rparr>)" "\<exists>p. eva_start e k EV1 s = Some (s\<lparr>ev_prof := p\<rparr>)"
  "\<exists>p. eva_end e k EV0 s = Some (s\<lparr>ev_prof := p\<rparr>)" "\<exists>p. eva_end e k EV1 s = Some (s\<lparr>ev_prof := p\<rparr>)"
  by (simp_all add: eva_start_def eva_end_def profile_start_def profile_end_def EV0_def EV1_def PROFILER_EVENTS_MAX_def) blast+

text \<open>The interpreter's answer is the first of the pair that is printed.\<close>

lemma ebpf_eva_runs:
  assumes "ebpf_vm_set_inst (e_junk e) (e_call e) (ev_helpers s) zero_vm code n = (g, vm)"
    and "ebpf_vm_exec g vm \<lparr>f_mem = a, f_mem_len = l, f_stack = r_stack (e_run e)\<rparr> (r_regs0 (e_run e)) (ev_world s) = (Ret v, w)"
    and "\<forall>vm a n w. r_jit (e_run e) vm a n w \<noteq> None"
  shows "\<exists>s' r2. ebpf_eva e code n a l s = Some s' \<and> ev_out s' = ev_out s @ [(v, r2)] \<and> ev_helpers s' = g"
proof -
  obtain i pr where pr: "profile_add_event ''ebpf'' (ev_prof s) = (i, pr)" by (cases "profile_add_event ''ebpf'' (ev_prof s)")
  let ?s1 = "s\<lparr>ev_helpers := g, ev_prof := pr\<rparr>"
  obtain p2 where p2: "eva_start e 0 EV0 ?s1 = Some (?s1\<lparr>ev_prof := p2\<rparr>)" using events_some(1) by blast
  let ?s2 = "?s1\<lparr>ev_prof := p2\<rparr>"
  obtain p3 where p3: "eva_end e 1 EV0 (?s2\<lparr>ev_world := w\<rparr>) = Some (?s2\<lparr>ev_world := w, ev_prof := p3\<rparr>)"
    using events_some(3) by blast
  let ?s3 = "?s2\<lparr>ev_world := w, ev_prof := p3\<rparr>"
  obtain p4 where p4: "eva_start e 2 EV1 ?s3 = Some (?s3\<lparr>ev_prof := p4\<rparr>)" using events_some(2) by blast
  let ?s4 = "?s3\<lparr>ev_prof := p4\<rparr>"
  obtain r2 w2 where j: "r_jit (e_run e) vm a l (ev_world ?s4) = Some (r2, w2)" using assms(3) by (metis option.exhaust surj_pair)
  obtain p5 where p5: "eva_end e 3 EV1 (?s4\<lparr>ev_world := w2\<rparr>) = Some (?s4\<lparr>ev_world := w2, ev_prof := p5\<rparr>)"
    using events_some(4) by blast
  have "ebpf_eva e code n a l s =
      Some (?s4\<lparr>ev_world := w2, ev_prof := p5, ev_out := ev_out s @ [(v, r2)]\<rparr>)"
    unfolding ebpf_eva_def Let_def assms(1) pr prod.case p2 bind.simps
    using assms(2) p3 p4 j p5 by (simp add: exec_ret_def)
  then show ?thesis by auto
qed

lemma run_filter_test:
  assumes "compiled_filter code flt" "eva_ready e s" "setup (w_mem (ev_world s)) = Some m" "flt m (e_frame e) = Some v"
  shows "\<exists>s' r2. run_on e setup code s = Some s' \<and> ev_out s' = ev_out s @ [(v, r2)]"
proof -
  let ?s = "s\<lparr>ev_world := (ev_world s)\<lparr>w_mem := m\<rparr>\<rparr>" and ?n = "of_nat (length code)"
  obtain g vm where i: "ebpf_vm_set_inst (e_junk e) (e_call e) (ev_helpers ?s) zero_vm code ?n = (g, vm)" by fastforce
  have "helper_table_ok (ev_helpers ?s)" using assms(2) by (simp add: eva_ready_def)
  note t = set_inst_table [OF this i]
  have "ebpf_vm_exec g vm \<lparr>f_mem = e_frame e, f_mem_len = 32, f_stack = r_stack (e_run e)\<rparr> (r_regs0 (e_run e)) (ev_world ?s) =
      (Ret v, ev_world ?s)"
    using compiled_filter.runs [OF assms(1), of vm "r_regs0 (e_run e)"] t assms(2,4)
    by (simp add: eva_ready_def filter_result_def)
  with ebpf_eva_runs [OF i] assms(2,3) show ?thesis by (fastforce simp: run_on_def eva_ready_def)
qed


text \<open>A frame with given fields, beside an object.\<close>

lemma fields_only:
  assumes "eva_ready e s"
  obtains m where "set_fields (e_frame e) fs (w_mem (ev_world s)) = Some m"
    "\<And>k v. map_of (rev fs) k = Some v \<Longrightarrow> frame_get m (e_frame e) k = Some v"
proof -
  obtain m where m: "set_fields (e_frame e) fs (w_mem (ev_world s)) = Some m"
    using set_fields_mapped [of "w_mem (ev_world s)" "e_frame e" fs] assms unfolding eva_ready_def by blast
  show thesis by (rule that [OF m]) (simp add: set_fields_get [OF m])
qed

lemma frame_kept:
  assumes "store_bytes m a bs = Some m'" "apart a n fr 32" "length bs \<le> n"
  shows "frame_get m' fr k = frame_get m fr k"
proof -
  have "m' (fr + field_offset k + of_nat j) = m (fr + field_offset k + of_nat j)" if "j < 4" for j
  proof (rule store_bytes_frame [OF assms(1)], intro allI impI)
    fix i assume "i < length bs"
    moreover have "4 * field_index k + j < 32" using that field_index_lt [of k] by simp
    ultimately have "a + of_nat i \<noteq> fr + of_nat (4 * field_index k + j)"
      using assms(2,3) by (simp add: apart_def del: of_nat_add of_nat_mult)
    then show "fr + field_offset k + of_nat j \<noteq> a + of_nat i" by (simp add: field_offset_index add.assoc)
  qed
  then have "load_bytes m' (fr + field_offset k) 4 = load_bytes m (fr + field_offset k) 4" by (rule load_bytes_cong)
  then show ?thesis by (simp add: frame_get_def mem_load_def del: load_bytes_numeral)
qed

lemma fields_and_object:
  assumes "eva_ready e s" "length bs \<le> 64"
  obtains m1 m where "store_bytes (w_mem (ev_world s)) (e_obj e 0) bs = Some m1" "set_fields (e_frame e) fs m1 = Some m"
    "holds m (e_obj e 0) bs" "\<And>k v. map_of (rev fs) k = Some v \<Longrightarrow> frame_get m (e_frame e) k = Some v"
proof -
  note r = assms(1) [unfolded eva_ready_def]
  obtain m1 where m1: "store_bytes (w_mem (ev_world s)) (e_obj e 0) bs = Some m1"
    using store_mapped [of 64 "w_mem (ev_world s)" "e_obj e 0" bs] r assms(2) by auto
  have "\<forall>k. frame_get m1 (e_frame e) k \<noteq> None" using frame_kept [OF m1 _ assms(2)] r by simp
  then obtain m where m: "set_fields (e_frame e) fs m1 = Some m" using set_fields_mapped by blast
  have "holds m (e_obj e 0) bs"
    using set_fields_holds [OF store_bytes_holds [OF m1] m, where n = 64] r assms(2) by simp
  then show thesis using that [OF m1 m] set_fields_get [OF m] by simp
qed

text \<open>The verdicts of the tests whose patches have no loop, as values of the interpreter.\<close>

definition eva_verdicts :: "(int \<times> u64) list" where
  "eva_verdicts = [(0, set_return32 1 0), (1, set_return32 1 (- EINVAL)), (2, set_return32 0 0), (4, set_return32 0 0),
     (10, set_return32 2 2022), (11, set_return32 1 (- 1))]"

lemma verdict_c0: "eva_ready e s \<Longrightarrow> \<exists>s' r2. test_ebpf_c0 e s = Some s' \<and> ev_out s' = ev_out s @ [(set_return32 1 0, r2)]"
proof -
  assume r: "eva_ready e s"
  obtain m where m: "set_fields (e_frame e) [(F_r0, 2500)] (w_mem (ev_world s)) = Some m"
    "frame_get m (e_frame e) F_r0 = Some 2500"
    by (rule fields_only [OF r, of "[(F_r0, 2500)]"]) simp
  have "fix_bug m (e_frame e) = Some (set_return32 1 0)"
    using m(2) by (simp add: fix_bug_def set_return32_def set_return_def filter_ops)
  then obtain s1 r2 where s1: "run_on e (set_fields (e_frame e) [(F_r0, 2500)]) code0 s = Some s1"
      "ev_out s1 = ev_out s @ [(set_return32 1 0, r2)]"
    using run_filter_test [OF code0_runs r, of "set_fields (e_frame e) [(F_r0, 2500)]" m] m(1) by blast
  obtain p where p: "eva_start e 4 EV0 s1 = Some (s1\<lparr>ev_prof := p\<rparr>)" using events_some(1) by blast
  obtain q where "eva_end e 5 EV0 (s1\<lparr>ev_prof := p\<rparr>) = Some (s1\<lparr>ev_prof := p, ev_prof := q\<rparr>)" using events_some(3) by blast
  with s1 p show ?thesis by (simp add: test_ebpf_c0_def)
qed

lemma verdict_c1:
  assumes "eva_ready e s"
  shows "\<exists>s' r2. test_ebpf_c1 e s = Some s' \<and> ev_out s' = ev_out s @ [(set_return32 1 (- EINVAL), r2)]"
proof -
  let ?bs = "[0, 0, 0, 0, 0x0e, 0xfe, 0xf0, 0] :: u8 list"
  obtain m1 m where m: "store_bytes (w_mem (ev_world s)) (e_obj e 0) ?bs = Some m1"
      "set_fields (e_frame e) [(F_r1, e_obj e 0), (F_r2, 500)] m1 = Some m"
      "holds m (e_obj e 0) ?bs" "frame_get m (e_frame e) F_r1 = Some (e_obj e 0)"
    by (rule fields_and_object [OF assms, of ?bs "[(F_r1, e_obj e 0), (F_r2, 500)]"]) simp_all
  have "filter_10063 m (e_frame e) = Some (set_return32 1 (- EINVAL))"
    using mem_load_holds [OF m(3), of 5 2] m(4) by (simp add: filter_10063_def rd_def)
  then show ?thesis unfolding test_ebpf_c1_def
    by (rule run_filter_test [OF code1_runs assms, rotated]) (use m in simp)
qed


lemma verdict_c2:
  assumes "eva_ready e s"
  shows "\<exists>s' r2. test_ebpf_c2 e s = Some s' \<and> ev_out s' = ev_out s @ [(set_return32 0 0, r2)]"
proof -
  have w: "word4 233 = [233, 0, 0, 0]" by code_simp
  let ?fs = "map (\<lambda>k. (k, case map_of [(F_r0, 20), (F_r1, e_obj e 0)] k of None \<Rightarrow> 0 | Some v \<Rightarrow> v)) all_fields"
  obtain m1 m where m: "store_bytes (w_mem (ev_world s)) (e_obj e 0) (word4 233) = Some m1"
      "init_fields (e_frame e) [(F_r0, 20), (F_r1, e_obj e 0)] m1 = Some m"
      "holds m (e_obj e 0) (word4 233)" "frame_get m (e_frame e) F_r0 = Some 20" "frame_get m (e_frame e) F_r1 = Some (e_obj e 0)"
    by (rule fields_and_object [OF assms, of "word4 233" ?fs]) (simp_all add: init_fields_def le_bytes_def all_fields_def)
  have "filter_10021 m (e_frame e) = Some (set_return32 0 0)"
    using mem_load_holds [OF m(3) [unfolded w], of 0 4] m(4,5) by (simp add: filter_10021_def rd_def)
  then show ?thesis unfolding test_ebpf_c2_def
    by (rule run_filter_test [OF code2_runs assms, rotated]) (use m in simp)
qed

lemma verdict_c4:
  assumes "eva_ready e s"
  shows "\<exists>s' r2. test_ebpf_c4 e s = Some s' \<and> ev_out s' = ev_out s @ [(set_return32 0 0, r2)]"
proof -
  obtain m where m: "set_fields (e_frame e) [(F_pc, 5), (F_xpsr, 7)] (w_mem (ev_world s)) = Some m"
    "frame_get m (e_frame e) F_pc = Some 5" "frame_get m (e_frame e) F_xpsr = Some 7"
    by (rule fields_only [OF assms, of "[(F_pc, 5), (F_xpsr, 7)]"]) simp
  then have "filter_10024 m (e_frame e) = Some (set_return32 0 0)" by (simp add: filter_10024_def)
  then show ?thesis unfolding test_ebpf_c4_def
    using run_filter_test [OF code4_runs assms, of "set_fields (e_frame e) [(F_pc, 5), (F_xpsr, 7)]" m] m(1) by blast
qed

lemma verdict_c10:
  assumes "eva_ready e s"
  shows "\<exists>s' r2. test_ebpf_c10 e s = Some s' \<and> ev_out s' = ev_out s @ [(set_return32 2 2022, r2)]"
proof -
  obtain m where m: "set_fields (e_frame e) [(F_pc, 2020)] (w_mem (ev_world s)) = Some m"
    "frame_get m (e_frame e) F_pc = Some 2020"
    by (rule fields_only [OF assms, of "[(F_pc, 2020)]"]) simp
  then have "skip_invalid_free m (e_frame e) = Some (set_return32 2 2022)"
    by (simp add: skip_invalid_free_def set_return32_def set_return_def filter_ops)
  then show ?thesis unfolding test_ebpf_c10_def
    using run_filter_test [OF code10_runs assms, of "set_fields (e_frame e) [(F_pc, 2020)]" m] m(1) by blast
qed

lemma verdict_c11:
  assumes "eva_ready e s"
  shows "\<exists>s' r2. test_ebpf_c11 e s = Some s' \<and> ev_out s' = ev_out s @ [(set_return32 1 (- 1), r2)]"
proof -
  let ?bs = "replicate 38 0 @ [7, 0] :: u8 list"
  let ?fs = "map (\<lambda>k. (k, case map_of [(F_r0, e_obj e 0)] k of None \<Rightarrow> 0 | Some v \<Rightarrow> v)) all_fields"
  obtain m1 m where m: "store_bytes (w_mem (ev_world s)) (e_obj e 0) ?bs = Some m1"
      "init_fields (e_frame e) [(F_r0, e_obj e 0)] m1 = Some m"
      "holds m (e_obj e 0) ?bs" "frame_get m (e_frame e) F_r0 = Some (e_obj e 0)"
    by (rule fields_and_object [OF assms, of ?bs ?fs]) (simp_all add: init_fields_def all_fields_def)
  have "filter_17443 m (e_frame e) = Some (set_return32 1 (- 1))"
    using mem_load_holds [OF m(3), of 38 2] m(4) by (simp add: filter_17443_def rd_def ucast_add_64)
  then show ?thesis unfolding test_ebpf_c11_def
    by (rule run_filter_test [OF code11_runs assms, rotated]) (use m in simp)
qed

text \<open>The evaluation of a patch without a loop prints the verdict its author expects, whatever the frame held
  before in the fields the test leaves alone: the two packets that are too long or too short and the call with
  2500 are dropped, the invalid free is skipped, and the harmless calls pass.\<close>

theorem evaluation_verdicts:
  assumes "eva_ready e s" and "(eid, v) \<in> set eva_verdicts"
  shows "\<exists>s' r2. run_ebpf_eva e eid s = Some s' \<and> ev_out s' = ev_out s @ [(v, r2)]"
proof -
  have t: "length test_funcs = 14" "test_funcs ! 0 = test_ebpf_c0" "test_funcs ! Suc 0 = test_ebpf_c1" "test_funcs ! 2 = test_ebpf_c2"
      "test_funcs ! 4 = test_ebpf_c4" "test_funcs ! 10 = test_ebpf_c10" "test_funcs ! 11 = test_ebpf_c11"
    by (simp_all add: test_funcs_def)
  from assms(2) consider "eid = 0" "v = set_return32 1 0" | "eid = 1" "v = set_return32 1 (- EINVAL)"
    | "eid = 2" "v = set_return32 0 0" | "eid = 4" "v = set_return32 0 0" | "eid = 10" "v = set_return32 2 2022"
    | "eid = 11" "v = set_return32 1 (- 1)"
    by (auto simp: eva_verdicts_def)
  then show ?thesis
    using verdict_c0 [OF assms(1)] verdict_c1 [OF assms(1)] verdict_c2 [OF assms(1)] verdict_c4 [OF assms(1)]
      verdict_c10 [OF assms(1)] verdict_c11 [OF assms(1)]
    by cases (simp_all add: run_ebpf_eva_def t)
qed


definition sample_eva_env :: eva_env where
  "sample_eva_env = \<lparr>e_run = \<lparr>r_stack = 0x20003000, r_regs0 = replicate 12 0, r_iter = 0, r_jit = (\<lambda>_ _ _ w. Some (0, w))\<rparr>,
     e_junk = 0, e_call = (\<lambda>_ _ _ _ _ w. w), e_now = (\<lambda>_. 0), e_frame = 0x20000000,
     e_obj = (\<lambda>k. 0x20001000 + 0x1000 * of_nat k), e_memmove = 0\<rparr>"

definition sample_eva :: "hw \<times> profiler \<Rightarrow> eva" where
  "sample_eva p = \<lparr>ev_world = \<lparr>w_mem = (\<lambda>_. Some 0), w_dval = 0, w_out = []\<rparr>, ev_helpers = None, ev_prof = p, ev_out = []\<rparr>"

lemma apart_offset: "c + n \<le> 65536 \<Longrightarrow> c \<ge> l \<Longrightarrow> l \<le> 65536 \<Longrightarrow> apart (b + word_of_nat c) n b l"
  unfolding apart_def
proof (intro allI impI)
  fix i j assume "c + n \<le> 65536" "c \<ge> l" "l \<le> 65536" "i < n" "j < l"
  then show "b + word_of_nat c + word_of_nat i \<noteq> b + word_of_nat j"
    using offset_neq [of "c + i" j b] by (simp add: add.assoc)
qed

lemma sample_eva_ready: "eva_ready sample_eva_env (sample_eva p)"
  using apart_offset [of "0x1000" 64 32 "0x20000000"] apart_offset [of "0x2000" 64 32 "0x20000000"]
    apart_offset [of "0x1000" 64 64 "0x20001000"]
  by (simp add: eva_ready_def sample_eva_env_def sample_eva_def MAX_BPF_EXT_REG_def helper_table_ok_def frame_get_def mem_load_def)

theorem evaluation_verdicts_witness:
  "\<forall>p. \<exists>s' r2. run_ebpf_eva sample_eva_env 11 (sample_eva p) = Some s' \<and> ev_out s' = [(set_return32 1 (- 1), r2)]"
proof
  fix p
  show "\<exists>s' r2. run_ebpf_eva sample_eva_env 11 (sample_eva p) = Some s' \<and> ev_out s' = [(set_return32 1 (- 1), r2)]"
    using evaluation_verdicts [OF sample_eva_ready, of 11 "set_return32 1 (- 1)" p]
    by (simp add: eva_verdicts_def sample_eva_def)
qed


subsection \<open>Searching and the table of patches\<close>

text \<open>The search of the file's own tests: the indices are \<open>int\<close>, and \<open>arr[0]\<close> is never read.\<close>

function eva_search_loop :: "block \<Rightarrow> u32 \<Rightarrow> int \<Rightarrow> int \<Rightarrow> int" where
  "eva_search_loop arr val start fin =
     (if start + 1 < fin then
        let mid = (start + fin) div 2 in
        if arr (nat mid) = val then eva_search_loop arr val start mid
        else if arr (nat mid) > val then eva_search_loop arr val start mid
        else eva_search_loop arr val mid fin
      else fin)"
  by pat_completeness auto
termination
  by (relation "measure (\<lambda>(arr, val, start, fin). nat (fin - start))") auto

declare eva_search_loop.simps [simp del]

definition eva_binary_search :: "block \<Rightarrow> int \<Rightarrow> u32 \<Rightarrow> int" where
  "eva_binary_search arr sz val = eva_search_loop arr val 0 (sz - 1)"

text \<open>\<open>patch_num_eva\<close> fills the table and reads every entry back; the values it reads are dropped. The blocks are
  what the allocations hold.\<close>

definition patch_num_eva :: "block \<Rightarrow> block \<Rightarrow> block \<Rightarrow> block \<Rightarrow> nat \<Rightarrow> arraymap option \<Rightarrow> arraymap" where
  "patch_num_eva k0 v0 bk bv n plist =
     (let m = (case plist of None \<Rightarrow> arraymap_new k0 v0 72 | Some m \<Rightarrow> m)
      in fold (\<lambda>i m. snd (arraymap_set bk bv m (of_nat i) 1)) [0..<n] m)"

definition test_patch_dispatcher :: "block \<Rightarrow> block \<Rightarrow> block \<Rightarrow> block \<Rightarrow> arraymap option" where
  "test_patch_dispatcher k0 v0 bk bv =
     fold (\<lambda>n p. Some (patch_num_eva k0 v0 bk bv n p)) (map (\<lambda>k. 1 + 4 * k) [0..<16] @ [64]) None"

lemma eva_search_loop_spec:
  assumes "0 \<le> start" "start < fin" "start = 0 \<or> arr (nat start) < val" "fin = z \<or> val \<le> arr (nat fin)" "fin \<le> z"
  defines "r \<equiv> eva_search_loop arr val start fin"
  shows "start < r \<and> r \<le> z \<and> (r = z \<or> val \<le> arr (nat r)) \<and> (1 < r \<longrightarrow> arr (nat (r - 1)) < val)"
  using assms unfolding r_def
proof (induction arr val start fin rule: eva_search_loop.induct)
  case (1 arr val start fin)
  show ?case
  proof (cases "start + 1 < fin")
    case True
    define mid where "mid = (start + fin) div 2"
    have mid: "start < mid" "mid < fin" using True by (simp_all add: mid_def)
    have eq: "eva_search_loop arr val start fin =
        (if val \<le> arr (nat mid) then eva_search_loop arr val start mid else eva_search_loop arr val mid fin)"
      using True by (subst eva_search_loop.simps) (auto simp: Let_def mid_def)
    consider (same) "arr (nat mid) = val" | (above) "arr (nat mid) \<noteq> val" "arr (nat mid) > val"
      | (below) "arr (nat mid) \<noteq> val" "\<not> arr (nat mid) > val"
      by blast
    then show ?thesis
    proof cases
      case same
      then show ?thesis using 1(1) [OF True mid_def] 1(4-8) mid eq by auto
    next
      case above
      then show ?thesis using 1(2) [OF True mid_def] 1(4-8) mid eq by auto
    next
      case below
      then have "arr (nat mid) < val" by auto
      then show ?thesis using 1(3) [OF True mid_def below] 1(4-8) mid eq by auto
    qed
  next
    case False
    with 1(4-8) have "eva_search_loop arr val start fin = fin" "start = fin - 1"
      by (subst eva_search_loop.simps, simp_all)
    with 1(4-8) show ?thesis by auto
  qed
qed

text \<open>The index found: the value is not above the entry there unless it is the last one, and it is above the entry before.\<close>

lemma eva_binary_search_spec:
  fixes arr :: block and val :: u32
  assumes "2 \<le> sz"
  defines "r \<equiv> eva_binary_search arr sz val"
  shows "0 < r \<and> r < sz \<and> (r = sz - 1 \<or> val \<le> arr (nat r)) \<and> (1 < r \<longrightarrow> arr (nat (r - 1)) < val)"
  using eva_search_loop_spec [of 0 "sz - 1" arr val "sz - 1"] assms by (auto simp: eva_binary_search_def)

text \<open>Filling the table a second time inserts the first key again: the search for its place never answers 0.\<close>

lemma patch_num_eva_again:
  assumes "k0 1 \<noteq> 0"
  shows "am_cur (patch_num_eva k0 v0 bk bv 1 None) = 1 \<and>
    am_cur (patch_num_eva k0 v0 bk bv 1 (Some (patch_num_eva k0 v0 bk bv 1 None))) = 2"
proof -
  have "am_cur (patch_num_eva k0 v0 bk bv 1 None) = 1" "am_keys (patch_num_eva k0 v0 bk bv 1 None) 0 = 0"
    "am_keys (patch_num_eva k0 v0 bk bv 1 None) 1 = k0 1"
    by (simp_all add: patch_num_eva_def arraymap_set_def arraymap_new_def)
  with arraymap_set_lost [of "patch_num_eva k0 v0 bk bv 1 None" 0 bk bv 1] assms show ?thesis
    by (simp add: patch_num_eva_def [of _ _ _ _ _ "Some _"] am_put_def)
qed

end
