(* ===== verification/Console.thy ===== *)
theory Console
  imports Prelude
begin

text \<open>
  The console of the STM32 boards and the log output of the nRF52 (\<open>app/ihp_porting.c\<close>). The receive buffer
  and its status word belong to the vendor's USART driver, which fills them in an interrupt: bit 15 of the
  status says that a line is complete, the low 14 bits are its length.
\<close>

subsection \<open>Reading a line character by character\<close>

record console =
  rx_sta :: u16
  rx_buf :: "u8 list"
  cpos :: u8
  c_len :: nat

datatype got = Waiting | Outside | Got u8 console

text \<open>\<open>char\<close> is unsigned on ARM: the position wraps at 256. While no line is complete the function waits.\<close>

definition shell_get_char :: "console \<Rightarrow> got" where
  "shell_get_char s =
     (if rx_sta s AND 0x8000 = 0 then Waiting
      else
        let l = (if c_len s = 0 then unat (rx_sta s AND 0x3fff) else c_len s);
            bad = c_len s = 0 \<and> l \<ge> length (rx_buf s);
            buf = (if c_len s = 0 then (rx_buf s)[l := 10] else rx_buf s);
            p = cpos s + 1;
            s1 = s\<lparr>rx_buf := buf, c_len := l, cpos := p\<rparr>
        in if bad \<or> unat (cpos s) \<ge> length buf then Outside
           else Got (buf ! unat (cpos s))
                  (if unat p > l then s1\<lparr>rx_sta := 0, cpos := 0, c_len := 0\<rparr> else s1))"

fun get_chars :: "nat \<Rightarrow> console \<Rightarrow> (u8 list \<times> console) option" where
  "get_chars 0 s = Some ([], s)"
| "get_chars (Suc n) s =
     (case shell_get_char s of
        Got c s1 \<Rightarrow> map_option (\<lambda>(cs, s2). (c # cs, s2)) (get_chars n s1)
      | _ \<Rightarrow> None)"

subsection \<open>Log output\<close>

text \<open>\<open>vsnprintf\<close> leaves at most 255 characters of the formatted text in the cleared buffer; the loop stops at the
  first zero and sends a carriage return before a line feed.\<close>

definition log_buf :: "u8 list \<Rightarrow> u8 list" where
  "log_buf txt = (let t = take 255 (takeWhile (\<lambda>c. c \<noteq> 0) txt) in t @ replicate (256 - length t) 0)"

fun put_loop :: "u8 list \<Rightarrow> u8 list" where
  "put_loop [] = []"
| "put_loop (c # cs) = (if c = 0 then [] else if c = 10 then 13 # 10 # put_loop cs else c # put_loop cs)"

definition log_print_porting :: "u8 list \<Rightarrow> u8 list" where
  "log_print_porting txt = put_loop (log_buf txt)"

subsection \<open>A line is read once\<close>

text \<open>The state between two reads of a line of \<open>n\<close> characters.\<close>

definition reading :: "nat \<Rightarrow> nat \<Rightarrow> u8 list \<Rightarrow> console \<Rightarrow> bool" where
  "reading n k buf s \<longleftrightarrow> rx_sta s AND 0x8000 \<noteq> 0 \<and> unat (cpos s) = k \<and> n < length (rx_buf s) \<and> k \<le> n \<and>
     (if k = 0 then c_len s = 0 \<and> unat (rx_sta s AND 0x3fff) = n \<and> rx_buf s = buf
      else c_len s = n \<and> rx_buf s = buf[n := 10])"

lemma reading_step:
  assumes "reading n k buf s" "n \<le> 254"
  shows "\<exists>s'. shell_get_char s = Got (buf[n := 10] ! k) s' \<and>
    (if k = n then rx_sta s' = 0 \<and> cpos s' = 0 \<and> c_len s' = 0 \<and> rx_buf s' = buf[n := 10]
     else reading n (Suc k) buf s')"
proof -
  have k: "k \<le> n" "unat (cpos s) = k" "n < length (rx_buf s)" using assms(1) by (simp_all add: reading_def)
  have u: "unat (cpos s + 1) = Suc k"
    using k assms(2) by (simp add: unat_word_ariths)
  show ?thesis
    using assms k u by (auto simp: reading_def shell_get_char_def Let_def split: if_splits)
qed

lemma read_rest:
  "reading n k buf s \<Longrightarrow> n \<le> 254 \<Longrightarrow>
     \<exists>s'. get_chars (Suc n - k) s = Some (drop k (take (Suc n) (buf[n := 10])), s') \<and>
       rx_sta s' = 0 \<and> cpos s' = 0 \<and> c_len s' = 0"
proof (induction "n - k" arbitrary: k s)
  case 0
  then have kn: "k = n" by (simp add: reading_def)
  have "length buf > n" using 0 by (auto simp: reading_def split: if_splits)
  then have "drop n (take (Suc n) (buf[n := 10])) = [buf[n := 10] ! n]"
    by (simp add: take_Suc_conv_app_nth)
  with reading_step [OF 0(2,3)] kn show ?case by (auto simp: Suc_diff_le)
next
  case (Suc d)
  then have kn: "k < n" by simp
  have len: "length buf > n" using Suc.prems by (auto simp: reading_def split: if_splits)
  obtain s1 where s1: "shell_get_char s = Got (buf[n := 10] ! k) s1" "reading n (Suc k) buf s1"
    using reading_step [OF Suc.prems] kn by auto
  obtain s2 where "get_chars (Suc n - Suc k) s1 = Some (drop (Suc k) (take (Suc n) (buf[n := 10])), s2)"
      "rx_sta s2 = 0 \<and> cpos s2 = 0 \<and> c_len s2 = 0"
    using Suc.hyps(1) [OF _ s1(2) Suc.prems(2)] Suc.hyps(2) kn by (metis Suc_diff_Suc Suc_inject)
  moreover have "drop k (take (Suc n) (buf[n := 10])) = buf[n := 10] ! k # drop (Suc k) (take (Suc n) (buf[n := 10]))"
    using kn len by (subst Cons_nth_drop_Suc [symmetric]) simp_all
  moreover have "Suc n - k = Suc (Suc n - Suc k)" using kn by simp
  ultimately show ?case using s1(1) by simp
qed

text \<open>A received line of up to 254 characters is handed out once, character by character and followed by a
  line feed, and the driver's status is then cleared, so that the next line can be received.\<close>

theorem console_reads_line:
  assumes "rx_sta s AND 0x8000 \<noteq> 0" and "n = unat (rx_sta s AND 0x3fff)" and "n \<le> 254" and "n < length (rx_buf s)"
    and "cpos s = 0" and "c_len s = 0"
  shows "\<exists>s'. get_chars (n + 1) s = Some (take n (rx_buf s) @ [10], s') \<and> rx_sta s' = 0 \<and> cpos s' = 0 \<and> c_len s' = 0"
proof -
  have "reading n 0 (rx_buf s) s" using assms by (simp add: reading_def)
  from read_rest [OF this assms(3)] show ?thesis
    using assms(4) by (simp add: take_Suc_conv_app_nth)
qed

theorem console_reads_line_witness:
  "\<exists>s'. get_chars (2 + 1) \<lparr>rx_sta = 0x8002, rx_buf = [97, 98, 0, 0], cpos = 0, c_len = 0\<rparr> = Some ([97, 98, 10], s') \<and>
     rx_sta s' = 0"
proof -
  let ?s = "\<lparr>rx_sta = 0x8002, rx_buf = [97, 98, 0, 0], cpos = 0, c_len = 0\<rparr>"
  have t: "take 2 (rx_buf ?s) @ [10] = [97, 98, 10]" by (simp add: numeral_2_eq_2)
  have "rx_sta ?s AND 0x8000 \<noteq> 0" "2 = unat (rx_sta ?s AND 0x3fff)" "(2 :: nat) \<le> 254" "2 < length (rx_buf ?s)"
      "cpos ?s = 0" "c_len ?s = 0" by simp_all
  from console_reads_line [OF this] show ?thesis unfolding t by blast
qed

text \<open>A line of 255 characters or more is never finished: the position is an 8-bit \<open>char\<close>, so it does not get
  above the length, and the line is handed out again and again while the driver's status stays set.\<close>

theorem console_long_line:
  assumes "rx_sta s AND 0x8000 \<noteq> 0" and "255 \<le> unat (rx_sta s AND 0x3fff)"
    and "unat (rx_sta s AND 0x3fff) < length (rx_buf s)" and "c_len s = 0 \<or> c_len s = unat (rx_sta s AND 0x3fff)"
  shows "\<exists>cs s'. get_chars k s = Some (cs, s') \<and> rx_sta s' = rx_sta s"
  using assms
proof (induction k arbitrary: s)
  case (Suc k)
  let ?n = "unat (rx_sta s AND 0x3fff)"
  have b: "unat (w :: u8) \<le> 255" for w using unsigned_less [where ?'a = nat, of w] by simp
  obtain c s1 where s1: "shell_get_char s = Got c s1" "rx_sta s1 = rx_sta s" "c_len s1 = ?n"
      "length (rx_buf s1) = length (rx_buf s)"
    using Suc.prems b [of "cpos s"] b [of "cpos s + 1"] by (auto simp: shell_get_char_def Let_def)
  with Suc.IH [of s1] Suc.prems show ?case by auto
qed simp

theorem console_long_line_witness:
  "\<exists>cs s'. get_chars 1000 \<lparr>rx_sta = 0x80ff, rx_buf = replicate 300 97, cpos = 0, c_len = 0\<rparr> = Some (cs, s') \<and>
     rx_sta s' = 0x80ff"
  using console_long_line [of "\<lparr>rx_sta = 0x80ff, rx_buf = replicate 300 97, cpos = 0, c_len = 0\<rparr>" 1000] by simp

text \<open>Each line feed becomes two characters; nothing else changes.\<close>

lemma log_print_porting_text:
  assumes "0 \<notin> set txt" "length txt \<le> 255"
  shows "log_print_porting txt = concat (map (\<lambda>c. if c = 10 then [13, 10] else [c]) txt)"
proof -
  have t: "takeWhile (\<lambda>c. c \<noteq> 0) txt = txt" using assms(1) by (auto simp: takeWhile_eq_all_conv)
  have "0 \<notin> set cs \<Longrightarrow> put_loop (cs @ 0 # zs) = concat (map (\<lambda>c. if c = 10 then [13, 10] else [c]) cs)" for cs zs
    by (induction cs) auto
  moreover have "replicate (256 - length txt) 0 = (0 :: u8) # replicate (255 - length txt) 0"
    using assms(2) by (simp add: Suc_diff_le flip: replicate_Suc)
  ultimately show ?thesis using assms unfolding log_print_porting_def log_buf_def t Let_def by simp
qed

end
