(* ===== verification/Dummy_Cve.thy ===== *)
theory Dummy_Cve
  imports Patch_Service Eval_Code
begin

text \<open>
  The demonstration of a buffer-length bug (\<open>app/dummy_cve.c\<close>): the vulnerable function, its driver, and
  the fixed patch that is linked in for it. \<open>None\<close> is a write outside the packet.
\<close>

subsection \<open>The vulnerable function\<close>

text \<open>\<open>for (int i = 0; i < len; i++) pkt[i] = i + '0'\<close>, from index \<open>i\<close> on.\<close>

fun fill_digits :: "nat \<Rightarrow> nat \<Rightarrow> u8 list \<Rightarrow> u8 list option" where
  "fill_digits i 0 pkt = Some pkt"
| "fill_digits i (Suc n) pkt =
     (if i < length pkt then fill_digits (Suc i) n (pkt[i := of_nat (i + 48)]) else None)"

text \<open>The result of the patch point's handler is not used: \<open>ret\<close> is the constant 0, and the call that would set it
  is commented out. With 0 the function goes on.\<close>

definition dummy_cve_fun1 :: "int \<Rightarrow> u8 list \<Rightarrow> int \<Rightarrow> u8 list option" where
  "dummy_cve_fun1 handler_result pkt len =
     (let ret = 0 :: u64 in
      if ret = FILTER_DROP then Some pkt
      else do {
        p \<leftarrow> fill_digits 0 (nat len) pkt;
        if 0 \<le> len \<and> nat len < length p then Some (p[nat len := 0]) else None})"

definition test_buf_len_cve :: "int \<Rightarrow> u8 list option" where
  "test_buf_len_cve handler_result = dummy_cve_fun1 handler_result (replicate 20 0) 16"

subsection \<open>The patch\<close>

definition fixed_patch_0 :: "u8 list" where
  "fixed_patch_0 =
    [0x01, 0x00, 0x38, 0x00, 0x00, 0x00, 0x00, 0x00,
     0x61, 0x11, 0x04, 0x00, 0x00, 0x00, 0x00, 0x00,
     0x67, 0x01, 0x00, 0x00, 0x20, 0x00, 0x00, 0x00,
     0xc7, 0x01, 0x00, 0x00, 0x20, 0x00, 0x00, 0x00,
     0xb7, 0x00, 0x00, 0x00, 0x01, 0x00, 0x00, 0x00,
     0x65, 0x01, 0x01, 0x00, 0x13, 0x00, 0x00, 0x00,
     0xb7, 0x00, 0x00, 0x00, 0x00, 0x00, 0x00, 0x00,
     0x95, 0x00, 0x00, 0x00, 0x00, 0x00, 0x00, 0x00]"

text \<open>The packet is copied into a fresh block at \<open>pkt\<close> and installed from there.\<close>

definition load_fixed_patch_0 :: "memory \<Rightarrow> alloc \<Rightarrow> u32 \<Rightarrow> patch_context \<Rightarrow> patch_context option" where
  "load_fixed_patch_0 mem al pkt c0 = do {
     c \<leftarrow> init_patch_sys al c0;
     d \<leftarrow> parse_desc fixed_patch_0;
     notify_new_patch mem al pkt (c\<lparr>descs := (descs c)(pkt \<mapsto> d)\<rparr>)}"

definition test_dummy_cve ::
    "memory \<Rightarrow> alloc \<Rightarrow> u32 \<Rightarrow> int \<Rightarrow> patch_context \<Rightarrow> (u8 list \<times> patch_context) option" where
  "test_dummy_cve mem al pkt handler_result c0 = do {
     c \<leftarrow> load_fixed_patch_0 mem al pkt c0;
     buf \<leftarrow> test_buf_len_cve handler_result;
     Some (buf, c)}"

subsection \<open>What the function writes\<close>

lemma fill_digits_spec:
  "i + n \<le> length pkt \<Longrightarrow> fill_digits i n pkt = Some (take i pkt @ map (\<lambda>k. of_nat (k + 48)) [i..<i + n] @ drop (i + n) pkt)"
proof (induction n arbitrary: i pkt)
  case (Suc n)
  have "fill_digits i (Suc n) pkt = fill_digits (Suc i) n (pkt[i := of_nat (i + 48)])" using Suc.prems by simp
  moreover have "fill_digits (Suc i) n (pkt[i := of_nat (i + 48)]) = Some (take (Suc i) (pkt[i := of_nat (i + 48)]) @ map (\<lambda>k. of_nat (k + 48)) [Suc i..<Suc i + n] @
      drop (Suc i + n) (pkt[i := of_nat (i + 48)]))"
    by (rule Suc.IH) (use Suc.prems in simp)
  moreover have "take (Suc i) (pkt[i := of_nat (i + 48)]) = take i pkt @ [of_nat (i + 48)]"
    using Suc.prems by (simp add: take_Suc_conv_app_nth)
  moreover have "[i..<i + Suc n] = i # [Suc i..<Suc i + n]" by (simp add: upt_conv_Cons del: upt_Suc)
  ultimately show ?case by (simp del: upt_Suc fill_digits.simps)
qed simp

lemma fill_digits_outside: "length pkt < i + n \<Longrightarrow> i \<le> length pkt \<Longrightarrow> fill_digits i n pkt = None"
  by (induction n arbitrary: i pkt) auto

lemma dummy_cve_fun1_none: "dummy_cve_fun1 h pkt len \<noteq> None \<longleftrightarrow> 0 \<le> len \<and> len < int (length pkt)"
proof (cases "nat len \<le> length pkt")
  case True
  then show ?thesis
    using fill_digits_spec [of 0 "nat len" pkt]
    by (auto simp: dummy_cve_fun1_def filter_ops)
next
  case False
  then show ?thesis using fill_digits_outside [of pkt 0 "nat len"] by (auto simp: dummy_cve_fun1_def filter_ops)
qed


subsection \<open>The patch is exact for lengths that are not negative\<close>

lemma decode_fixed_patch_0: "decode_insts (drop 8 fixed_patch_0) =
  [\<lparr>opcode = 97, i_dst = 1, i_src = 1, i_off = 4, i_imm = 0\<rparr>,
   \<lparr>opcode = 103, i_dst = 1, i_src = 0, i_off = 0, i_imm = 32\<rparr>,
   \<lparr>opcode = 199, i_dst = 1, i_src = 0, i_off = 0, i_imm = 32\<rparr>,
   \<lparr>opcode = 183, i_dst = 0, i_src = 0, i_off = 0, i_imm = 1\<rparr>,
   \<lparr>opcode = 101, i_dst = 1, i_src = 0, i_off = 1, i_imm = 19\<rparr>,
   \<lparr>opcode = 183, i_dst = 0, i_src = 0, i_off = 0, i_imm = 0\<rparr>,
   \<lparr>opcode = 149, i_dst = 0, i_src = 0, i_off = 0, i_imm = 0\<rparr>]"
  by (simp add: fixed_patch_0_def le16_def le32_def)

lemma fixed_patch_0_runs: "compiled_filter (drop 8 fixed_patch_0) (\<lambda>m fr. dummy_cve1_filter m (zx fr))"
proof (rule compiled_filterI, goal_cases)
  case (1 g vm f a0 a1 a2 a3 a4 a5 a6 a7 a8 a9 a10 a11 w)
  note run = sym_run decode_fixed_patch_0 dummy_cve1_filter_def 1
  show ?case
  proof (cases rule: load4_cases [of "w_mem w" "f_mem f + 4"])
    case 1 then show ?thesis by (simp add: run cong: run_congs)
  next
    case (2 t)
    have "sint (sx t) = sint t"
      using sint_ge [of t] sint_less [of t] by (simp add: signed_scast_eq signed_take_bit_int_eq_self)
    with 2 show ?thesis by (cases "19 < sint t") (simp_all add: run high_half_signed filter_ops cong: run_congs)
  qed
qed

interpretation fp0: compiled_filter "drop 8 fixed_patch_0" "\<lambda>m fr. dummy_cve1_filter m (zx fr)"
  by (rule fixed_patch_0_runs)


text \<open>C14: the patch linked in for the buffer-length bug drops exactly the calls that would write outside a packet
  of 20 bytes, as long as the length is not negative.\<close>

theorem buf_len_patch_exact:
  assumes "frame_get (w_mem w) (f_mem f) F_r1 = Some len" and "0 \<le> sint len" and "length pkt = 20"
    and "insts vm = decode_insts (drop 8 fixed_patch_0)" and "\<not> bounds_check_enabled vm" and "length regs0 = MAX_BPF_EXT_REG"
  shows "ebpf_vm_exec g vm f regs0 w =
    (Ret (if dummy_cve_fun1 h pkt (sint len) = None then FILTER_DROP else FILTER_PASS), w)"
proof -
  have l: "mem_load (w_mem w) (f_mem f + 4) 4 = Some (zx len)" using assms(1) by (simp add: frame_word)
  have "dummy_cve_fun1 h pkt (sint len) = None \<longleftrightarrow> 20 \<le> sint len"
    using dummy_cve_fun1_none [of h pkt "sint len"] assms(2,3) by auto
  then show ?thesis
    using l unfolding fp0.runs [OF assms(4-6)]
    by (simp add: dummy_cve1_filter_def rd_def filter_result_def ucast_add_64)
qed

theorem buf_len_patch_exact_witness:
  "ebpf_vm_exec None (zero_vm\<lparr>insts := decode_insts (drop 8 fixed_patch_0)\<rparr>)
     \<lparr>f_mem = 0x20000000, f_mem_len = 32, f_stack = 0x20001000\<rparr> (replicate 12 0)
     \<lparr>w_mem = (\<lambda>a. Some (if a = 0x20000004 then 20 else 0)), w_dval = 0, w_out = []\<rparr> =
   (Ret FILTER_DROP, \<lparr>w_mem = (\<lambda>a. Some (if a = 0x20000004 then 20 else 0)), w_dval = 0, w_out = []\<rparr>)"
proof -
  have "dummy_cve_fun1 0 (replicate 20 0) 20 = None"
    using dummy_cve_fun1_none [of 0 "replicate 20 0" 20] by simp
  then show ?thesis
    by (subst buf_len_patch_exact [where len = 20 and pkt = "replicate 20 0" and h = 0])
       (simp_all add: frame_get_def mem_load_def zero_vm_def MAX_BPF_EXT_REG_def)
qed

text \<open>A negative length passes, and the terminating zero is written in front of the packet.\<close>

lemma negative_length_passes:
  assumes "frame_get m fr F_r1 = Some len" "sint len < 0"
  shows "dummy_cve1_filter m (zx fr) = Some FILTER_PASS \<and> dummy_cve_fun1 h pkt (sint len) = None"
proof -
  have "mem_load m (fr + 4) 4 = Some (zx len)" using assms(1) by (simp add: frame_word)
  then show ?thesis
    using assms(2) dummy_cve_fun1_none [of h pkt "sint len"]
    by (auto simp: dummy_cve1_filter_def rd_def ucast_add_64)
qed

text \<open>The demonstration, started with a patch system that is not initialised: the packet is installed at the fixed
  patch point 0, every other point stays without a patch, and the vulnerable function is run within its buffer.
  The loaded patch has no influence on that run.\<close>

theorem dummy_cve_demo:
  assumes "\<not> ctx_init c0" and "patches c0 0 = None" and "alloc_ok al c0" and "descs c0 pkt = None"
  shows "\<exists>c'. test_dummy_cve mem al pkt h c0 = Some (map (\<lambda>k. of_nat (k + 48)) [0..<16] @ replicate 4 0, c') \<and>
    iot_inv c' \<and> (\<forall>lr. get_fixed_patch_by_lr c' lr = Some (if lr = 0 then a_patch al else 0)) \<and>
    (\<exists>pt. patches c' (a_patch al) = Some pt \<and> insts (p_vm pt) = decode_insts (drop 8 fixed_patch_0))"
proof -
  let ?d = "\<lparr>d_type = FixedPatchPoint, d_code_len = 56, d_loc = 0, d_code = drop 8 fixed_patch_0\<rparr>"
  have d: "parse_desc fixed_patch_0 = Some ?d"
    by (simp add: fixed_patch_0_def)
  obtain c where c: "init_patch_sys al c0 = Some c" "iot_inv c" "get_fixed_patch_by_lr c lr = Some 0" for lr
    using init_ok [OF assms(1,2), of al] by (metis option.inject)
  have k: "fiexed_patches c = Some (arraymap_new (a_keys al) (a_vals al) 4)" "descs c = descs c0" "patches c = patches c0"
    using c(1) assms(1) by (auto simp: init_patch_sys_def update_bits_filter_def zero_context_def arraymap_new_def or_all_def)
  let ?c = "c\<lparr>descs := (descs c)(pkt \<mapsto> ?d)\<rparr>"
  have inv: "iot_inv ?c" using iot_inv_add_desc [OF c(2)] assms(4) k(2) by simp
  have g: "get_fixed_patch_by_lr ?c lr = get_fixed_patch_by_lr c lr" for lr
    by (auto simp: get_fixed_patch_by_lr_def Let_def split: option.splits)
  have "\<exists>c'. notify_new_patch mem al pkt ?c = Some c' \<and> iot_inv c' \<and> dpatch_list c' = dpatch_list ?c \<and>
      (\<forall>lr. get_fixed_patch_by_lr c' lr = (if lr = d_loc ?d then Some (a_patch al) else get_fixed_patch_by_lr ?c lr)) \<and>
      (\<exists>pt. patches c' (a_patch al) = Some pt \<and> insts (p_vm pt) = decode_insts (d_code ?d) \<and>
         use_jit (p_vm pt) = use_jit (the (a_vm al)))"
  proof (rule notify_fixed_ok [OF inv])
    show "fiexed_patches ?c = Some (arraymap_new (a_keys al) (a_vals al) 4)" using k(1) by simp
    show "am_admits (arraymap_new (a_keys al) (a_vals al) 4) (d_loc ?d) (a_patch al)"
      by (simp add: am_admits_def arraymap_new_def MAP_GROW_def u16_of_def)
  qed (use assms(3) k(3) in \<open>simp_all add: alloc_ok_def\<close>)
  moreover have "test_buf_len_cve h = Some (map (\<lambda>k. of_nat (k + 48)) [0..<16] @ replicate 4 0)"
    by code_simp
  ultimately show ?thesis using c(1,3) d g by (auto simp: test_dummy_cve_def load_fixed_patch_0_def)
qed


theorem dummy_cve_demo_witness:
  "\<exists>c'. test_dummy_cve (\<lambda>_. None) sample_alloc 0x400 0 (sample_ctx\<lparr>ctx_init := False\<rparr>) =
      Some (map (\<lambda>k. of_nat (k + 48)) [0..<16] @ replicate 4 0, c') \<and> iot_inv c'"
proof -
  let ?c = "sample_ctx\<lparr>ctx_init := False\<rparr>"
  have "\<not> ctx_init ?c" "patches ?c 0 = None" "alloc_ok sample_alloc ?c" "descs ?c 0x400 = None"
    using sample_alloc_ok by (simp_all add: alloc_ok_def sample_ctx_def)
  from dummy_cve_demo [OF this, of "\<lambda>_. None" 0] show ?thesis by blast
qed

end
