(* ===== verification/Ebpf_Map_Test.thy ===== *)
theory Ebpf_Map_Test
  imports Ebpf_Map
begin

text \<open>
  \<open>test_hashmap_pass1\<close> of \<open>libebpf/src/ebpf_map.c\<close>: a thousand rounds that bind, read and delete a key, then one
  more key. The values are the addresses of the local buffers; what is printed is kept as a list.
\<close>

fun print_nat :: "nat \<Rightarrow> u8 list" where
  "print_nat n = (if n < 10 then [of_nat (48 + n)] else print_nat (n div 10) @ [of_nat (48 + n mod 10)])"

declare print_nat.simps [simp del]

text \<open>\<open>sprintf (key, "key%d", i)\<close>.\<close>

definition key_text :: "nat \<Rightarrow> u8 list" where "key_text i = [107, 101, 121] @ print_nat i"

definition test_round :: "u32 \<Rightarrow> u8 list \<Rightarrow> smap \<Rightarrow> (u32 \<times> smap) option" where
  "test_round val key m =
     (case Hashmap_set (\<lambda>s. s) m key val of
        None \<Rightarrow> None
      | Some m1 \<Rightarrow>
          (case (Hashmap_get (\<lambda>s. s) m1 key, Hashmap_delete (\<lambda>s. s) m1 key) of
             (Some v, Some (_, m2)) \<Rightarrow> Some (v, m2)
           | _ \<Rightarrow> None))"

fun test_rounds :: "u32 \<Rightarrow> nat list \<Rightarrow> smap \<Rightarrow> (u32 list \<times> smap) option" where
  "test_rounds val [] m = Some ([], m)"
| "test_rounds val (i # is) m =
     (case test_round val (key_text i) m of
        None \<Rightarrow> None
      | Some (v, m1) \<Rightarrow> map_option (\<lambda>(vs, m2). (v # vs, m2)) (test_rounds val is m1))"

text \<open>\<open>val\<close> and \<open>v1\<close> are the addresses of the buffers of the values. The last value printed is the one of a deleted key.\<close>

definition test_hashmap_pass1 :: "u32 \<Rightarrow> u32 \<Rightarrow> u32 list option" where
  "test_hashmap_pass1 val v1 =
     (case test_rounds val [0..<1000] Hashmap_create of
        None \<Rightarrow> None
      | Some (vs, m) \<Rightarrow>
          (case test_round v1 (key_text 1) m of
             None \<Rightarrow> None
           | Some (v2, m1) \<Rightarrow> map_option (\<lambda>v3. vs @ [v2, v3]) (Hashmap_get (\<lambda>s. s) m1 (key_text 1))))"

text \<open>A map without nodes, after any number of rounds.\<close>

definition hm_empty :: "smap \<Rightarrow> bool" where
  "hm_empty m \<longleftrightarrow> hm_inv m \<and> (\<forall>i < 8. nodes_at m i = [])"

lemma hm_empty_get: "hm_empty m \<Longrightarrow> Hashmap_get (\<lambda>s. s) m k = Some 0"
  using get_is_lookup [of m k] lookup_out [of k m] bidx_less [of k] by (simp add: hm_empty_def)

lemma test_round_empty:
  assumes "hm_empty m"
  shows "\<exists>m'. test_round val key m = Some (val, m') \<and> hm_empty m'"
proof -
  let ?nd = "\<lparr>hn_key = key, hn_value = val, hn_hash = str_hash_fn key\<rparr>"
  have e: "hm_inv m" "nodes_at m i = []" if "i < 8" for i using assms that by (auto simp: hm_empty_def)
  have inv: "hm_inv m" using assms by (simp add: hm_empty_def)
  have "hm_admits m key val" using e(2) [OF bidx_less] by (simp add: hm_admits_def)
  then obtain m1 where m1: "Hashmap_set (\<lambda>s. s) m key val = Some m1" "hm_inv m1"
      "\<forall>i. nodes_at m1 i = (if i = bidx key then nodes_at m i @ [?nd] else nodes_at m i)"
    using set_spec [OF inv] by blast
  have n: "nodes_at m1 (bidx key) = [?nd]" using m1(3) e(2) [OF bidx_less] by simp
  then obtain b where b: "bucket_at m1 (bidx key) = Some b" "elems b = [?nd]"
    by (auto simp: nodes_at_def split: option.splits)
  have "index_of (\<lambda>nd. hn_key nd = key) (elems b) = Some 0" by (simp add: b(2))
  then obtain b2 where d: "Hashmap_delete (\<lambda>s. s) m1 key = Some (val, update_bucket (int (bidx key)) b2 m1)"
      "bucket_ok (bidx key) b2" "elems b2 = []"
    using delete_spec [OF m1(2) b(1)] b(2) by (auto simp: without_at_def)
  have "hm_lookup m1 key = val" using n by (simp add: hm_lookup_def)
  moreover have "hm_empty (update_bucket (int (bidx key)) b2 m1)"
    using update_bucket_inv [OF m1(2) bidx_less d(2)] update_bucket_nodes [OF m1(2) bidx_less, of key b2] m1(3) d(3) e(2)
    by (auto simp: hm_empty_def)
  ultimately show ?thesis using m1(1) d(1) get_is_lookup [OF m1(2)] by (simp add: test_round_def)
qed

lemma test_rounds_empty:
  "hm_empty m \<Longrightarrow> \<exists>m'. test_rounds val is m = Some (replicate (length is) val, m') \<and> hm_empty m'"
proof (induction "is" arbitrary: m)
  case (Cons i "is")
  obtain m1 where "test_round val (key_text i) m = Some (val, m1)" "hm_empty m1"
    using test_round_empty [OF Cons.prems] by blast
  then show ?case using Cons.IH [of m1] by auto
qed simp

text \<open>The map survives its test: each of the thousand rounds reads back the value it bound, also in the buckets that
  deletions left empty, and so does the last key; after its deletion the key reads as NULL, which the test then passes
  to a conversion \<open>%s\<close>.\<close>

theorem test_hashmap_passes:
  "test_hashmap_pass1 val v1 = Some (replicate 1000 val @ [v1, 0])"
proof -
  have "hm_empty Hashmap_create" by (simp add: hm_empty_def hm_inv_create nodes_create)
  then obtain m where m: "test_rounds val [0..<1000] Hashmap_create = Some (replicate 1000 val, m)" "hm_empty m"
    using test_rounds_empty [of Hashmap_create val "[0..<1000]"] by (auto simp del: upt.simps)
  obtain m1 where "test_round v1 (key_text 1) m = Some (v1, m1)" "hm_empty m1"
    using test_round_empty [OF m(2)] by blast
  then show ?thesis using m(1) hm_empty_get by (simp add: test_hashmap_pass1_def)
qed

end
