(* ===== verification/Ebpf_Main.thy ===== *)
theory Ebpf_Main
  imports Patch_Code Ebpf_Map_Test "HOL-Library.Monad_Syntax"
begin

text \<open>
  The command-line interpreter of \<open>libebpf/src/main.c\<close>: it reads a program and an optional memory image from files,
  loads the program, runs it and prints the result. The 32-bit address space of \<open>Ebpf_Vm\<close> stands for the process. A stdio
  stream is the bytes still to be delivered, whether the device fails behind them, and the two indicators. The
  allocations, the addresses of the blocks and of the interpreter's stack are arguments; \<open>None\<close> is undefined behaviour.
\<close>

subsection \<open>Streams\<close>

record stream =
  s_rest :: "u8 list"
  s_bad :: bool
  s_eof :: bool
  s_err :: bool

text \<open>\<open>fread (p, 1, n, file)\<close>: fewer than \<open>n\<close> bytes set an indicator; a request for exactly what is left does not.\<close>

definition fread :: "nat \<Rightarrow> stream \<Rightarrow> u8 list \<times> stream" where
  "fread n f =
     (take n (s_rest f),
      if n \<le> length (s_rest f) then f\<lparr>s_rest := drop n (s_rest f)\<rparr>
      else if s_bad f then f\<lparr>s_rest := [], s_err := True\<rparr> else f\<lparr>s_rest := [], s_eof := True\<rparr>)"

datatype file_error = OpenFailed | ReadFailed | TooLarge

text \<open>The loop: \<open>data\<close> is what was read so far, \<open>offset\<close> its length.\<close>

function read_loop :: "nat \<Rightarrow> u8 list \<Rightarrow> stream \<Rightarrow> u8 list \<times> stream" where
  "read_loop maxlen data f =
     (let (bs, f') = fread (maxlen - length data) f in
      if bs = [] then (data, f') else read_loop maxlen (data @ bs) f')"
  by pat_completeness auto
termination
  by (relation "measure (\<lambda>(maxlen, data, f). length (s_rest f))") (auto simp: fread_def split: if_splits)

declare read_loop.simps [simp del]

text \<open>\<open>readfile\<close>: \<open>file\<close> is what \<open>fopen\<close> answers, \<open>ok\<close> whether \<open>calloc\<close> succeeds, which the code does not test. The block
  is zeroed, the bytes of the file come first.\<close>

definition readfile :: "bool \<Rightarrow> nat \<Rightarrow> stream option \<Rightarrow> (file_error + u8 list \<times> nat) option" where
  "readfile ok maxlen file =
     (case file of
        None \<Rightarrow> Some (Inl OpenFailed)
      | Some f \<Rightarrow>
          if \<not> ok then None
          else
            let (data, f') = read_loop maxlen [] f in
            if s_err f' then Some (Inl ReadFailed)
            else if \<not> s_eof f' then Some (Inl TooLarge)
            else Some (Inr (data @ replicate (maxlen - length data) 0, length data)))"

subsection \<open>Helpers\<close>

definition gather_bytes :: "u8 \<Rightarrow> u8 \<Rightarrow> u8 \<Rightarrow> u8 \<Rightarrow> u8 \<Rightarrow> u64" where
  "gather_bytes a b c d e =
     push_bit 32 (ucast a) OR ucast (push_bit 24 (ucast b :: u32)) OR ucast (push_bit 16 (ucast c :: u32)) OR
     ucast (push_bit 8 (ucast (ucast d :: u16) :: u32)) OR ucast e"

definition sqrti :: "u32 \<Rightarrow> u32" where "sqrti x = x div 2"

text \<open>As helpers: the 32-bit argument is the low half of the register, the result is zero-extended. \<open>print_str\<close> prints the
  string at its argument on a line, which is undefined where no string is, and returns nothing: \<open>junk\<close> is what the caller
  finds.\<close>

definition sqrti_func :: ext_func where "sqrti_func a0 a1 a2 a3 a4 w = Some (zx (sqrti (ucast a0)), w)"

definition print_str :: "u64 \<Rightarrow> ext_func" where
  "print_str junk a0 a1 a2 a3 a4 w =
     map_option (\<lambda>str. (junk, w\<lparr>w_out := w_out w @ [str]\<rparr>)) (load_cstr (w_mem w) (ucast a0))"

definition register_functions ::
    "u64 \<Rightarrow> ebpf_helper_env option \<Rightarrow> ebpf_vm \<Rightarrow> ebpf_helper_env option \<times> ebpf_vm" where
  "register_functions junk g vm =
     (let (_, g1, vm1) = ebpf_register g vm 1 (Some sqrti_func);
          (_, g2, vm2) = ebpf_register g1 vm1 2 (Some (print_str junk))
      in (g2, vm2))"

subsection \<open>The tool\<close>

text \<open>\<open>Line\<close> is a line of \<open>print_str\<close>; \<open>MapValue\<close> (the address of a value printed by the test of the hash map), \<open>CodeSize\<close> and
  \<open>ErrorReturn\<close> are messages of the Windows build.\<close>

datatype tool_output =
    Usage
  | FileError string file_error
  | CreateFailed
  | LoadFailed
  | Line "u8 list"
  | Printed u64
  | MapValue u32
  | CodeSize nat
  | ErrorReturn

text \<open>What the process gets from its surroundings: the files, whether the allocations succeed, the address of the memory
  image and of the stack, the memory, the uninitialised registers and values, and the addresses of the two value buffers of
  the hash map's test.\<close>

record process =
  p_files :: "string \<Rightarrow> stream option"
  p_alloc_code :: bool
  p_alloc_mem :: bool
  p_alloc_vm :: bool
  p_alloc_insts :: bool
  p_addr :: u32
  p_stack :: u32
  p_world :: world
  p_regs0 :: "u64 list"
  p_iter :: u64
  p_junk :: u64
  p_map_val :: u32
  p_map_v1 :: u32

definition map_block :: "u32 \<Rightarrow> u8 list \<Rightarrow> memory \<Rightarrow> memory" where
  "map_block b data m a = (if unat (a - b) < length data then Some (data ! unat (a - b)) else m a)"

definition max_file :: nat where "max_file = 1024 * 1024"

definition exec_value :: "process \<Rightarrow> vm_result \<Rightarrow> u64 option" where
  "exec_value p r = (case r of Ret v \<Rightarrow> Some v | IterLimit \<Rightarrow> Some (p_iter p) | Undef _ \<Rightarrow> None)"

text \<open>What a run prints: the lines of the helpers, then the result.\<close>

definition run_output :: "process \<Rightarrow> vm_result \<times> world \<Rightarrow> (tool_output list \<times> u64) option" where
  "run_output p = (\<lambda>(r, w). map_option (\<lambda>v. (map Line (w_out w) @ [Printed v], v)) (exec_value p r))"

definition run_vm :: "process \<Rightarrow> u8 list \<times> nat \<Rightarrow> (u8 list \<times> nat) option \<Rightarrow> (int \<times> tool_output list \<times> ebpf_helper_env option) option" where
  "run_vm p code mem =
     (case ebpf_create (p_alloc_vm p) of
        None \<Rightarrow> Some (1, [CreateFailed], None)
      | Some vm0 \<Rightarrow>
          let (g, vm1) = register_functions (p_junk p) None vm0;
              (rv, vm) = ebpf_vm_load (p_alloc_insts p) vm1 (take (snd code) (fst code)) (of_nat (snd code)) in
          if rv < 0 then Some (1, [LoadFailed], ebpf_vm_destroy g)
          else
            let fr = \<lparr>f_mem = (if mem = None then 0 else p_addr p), f_mem_len = (case mem of None \<Rightarrow> 0 | Some (_, n) \<Rightarrow> of_nat n),
                      f_stack = p_stack p\<rparr>;
                w0 = (p_world p)\<lparr>w_out := []\<rparr>;
                w = (case mem of None \<Rightarrow> w0 | Some (d, _) \<Rightarrow> w0\<lparr>w_mem := map_block (p_addr p) d (w_mem w0)\<rparr>)
            in map_option (\<lambda>(out, _). (0, out, ebpf_vm_destroy g)) (run_output p (ebpf_vm_exec g vm fr (p_regs0 p) w)))"

definition main :: "process \<Rightarrow> string list \<Rightarrow> (int \<times> tool_output list \<times> ebpf_helper_env option) option" where
  "main p argv =
     (if length argv < 2 then Some (- 1, [Usage], None)
      else do {
        code \<leftarrow> readfile (p_alloc_code p) max_file (p_files p (argv ! 1));
        (case code of
           Inl err \<Rightarrow> Some (1, [FileError (argv ! 1) err], None)
         | Inr c \<Rightarrow>
             if length argv < 3 then run_vm p c None
             else do {
               mem \<leftarrow> readfile (p_alloc_mem p) max_file (p_files p (argv ! 2));
               (case mem of
                  Inl err \<Rightarrow> Some (1, [FileError (argv ! 2) err], None)
                | Inr m \<Rightarrow> run_vm p c (Some m))})})"

subsection \<open>The Windows build\<close>

text \<open>\<open>load_data\<close> reads a whole file into an array of the caller, whose size it does not know; \<open>len\<close> keeps its value when the
  file does not open. A device that fails only gives a message. The translation of line ends by the text mode is left out.\<close>

definition win_load_data :: "stream option \<Rightarrow> u8 list \<Rightarrow> nat \<Rightarrow> (u8 list \<times> nat) option" where
  "win_load_data file arr len =
     (case file of
        None \<Rightarrow> Some (arr, len)
      | Some f \<Rightarrow>
          let n = length (s_rest f) in
          if n \<le> length arr then Some (fst (fread n f) @ drop n arr, n) else None)"

text \<open>The struct the program is given: protocol 12, length 22, then the data.\<close>

definition skb_buffer :: "u8 list" where
  "skb_buffer = le_bytes 4 12 @ le_bytes 4 22 @ [120, 120, 120, 120, 0, 0, 0, 0, 0, 0] @ [0, 0]"

text \<open>\<open>test_ebpf_map\<close> comes first, whatever the arguments are.\<close>

definition win_main :: "process \<Rightarrow> string list \<Rightarrow> (int \<times> tool_output list) option" where
  "win_main p argv = do {
     vs \<leftarrow> test_hashmap_pass1 (p_map_val p) (p_map_v1 p);
     let out0 = map MapValue vs;
     (if length argv < 2 then Some (- 1, out0 @ [Usage])
      else do {
        (code, code_len) \<leftarrow> win_load_data (p_files p (argv ! 1)) (replicate (4096 * 8) 0) 0;
        (mem, mem_len) \<leftarrow> (if length argv < 3 then Some (replicate 200 0, 0)
                           else win_load_data (p_files p (argv ! 2)) (replicate 200 0) 0);
        vm0 \<leftarrow> ebpf_create (p_alloc_vm p);
        let (_, vm) = ebpf_vm_load (p_alloc_insts p) vm0 (take code_len code) (of_nat code_len);
        let w = (p_world p)\<lparr>w_out := []\<rparr>;
        (out, ret) \<leftarrow> run_output p (
          if mem_len = 0 then ebpf_vm_exec None vm \<lparr>f_mem = 0, f_mem_len = 0, f_stack = p_stack p\<rparr> (p_regs0 p) w
          else ebpf_vm_exec None vm \<lparr>f_mem = p_addr p, f_mem_len = of_nat (length skb_buffer), f_stack = p_stack p\<rparr> (p_regs0 p)
                 (w\<lparr>w_mem := map_block (p_addr p) skb_buffer (w_mem w)\<rparr>));
        Some (0, out0 @ [CodeSize code_len] @ (if mem_len \<noteq> 0 \<and> ret = - 1 then [ErrorReturn] else []) @ out)})}"

subsection \<open>Reading a file\<close>

lemma read_loop_all:
  assumes "length (s_rest f) < maxlen - length data"
  shows "read_loop maxlen data f =
    (data @ s_rest f, f\<lparr>s_rest := [], s_err := s_err f \<or> s_bad f, s_eof := s_eof f \<or> \<not> s_bad f\<rparr>)"
proof (cases "s_rest f = []")
  case True
  with assms show ?thesis
    by (subst read_loop.simps) (auto simp: fread_def intro!: stream.equality)
next
  case False
  have "read_loop maxlen (data @ s_rest f) g = (data @ s_rest f, h)"
    if "fread (maxlen - length (data @ s_rest f)) g = ([], h)" for g h
    using that by (subst read_loop.simps) simp
  with False assms show ?thesis
    by (subst read_loop.simps) (auto simp: fread_def intro!: stream.equality)
qed

lemma read_loop_full:
  assumes "maxlen - length data \<le> length (s_rest f)"
  shows "\<exists>rest. read_loop maxlen data f = (data @ take (maxlen - length data) (s_rest f), f\<lparr>s_rest := rest\<rparr>)"
proof (cases "take (maxlen - length data) (s_rest f) = []")
  case True
  with assms show ?thesis by (subst read_loop.simps) (auto simp: fread_def)
next
  case False
  let ?d = "data @ take (maxlen - length data) (s_rest f)"
  have "read_loop maxlen ?d g = (?d, g)" for g
    using assms by (subst read_loop.simps) (auto simp: fread_def)
  with False assms show ?thesis by (subst read_loop.simps) (auto simp: fread_def)
qed

lemma readfile_cases:
  assumes "\<not> s_eof f" "\<not> s_err f"
  shows "readfile True maxlen (Some f) =
    Some (if length (s_rest f) \<ge> maxlen then Inl TooLarge
          else if s_bad f then Inl ReadFailed
          else Inr (s_rest f @ replicate (maxlen - length (s_rest f)) 0, length (s_rest f)))"
proof (cases "length (s_rest f) < maxlen")
  case True
  then show ?thesis using read_loop_all [of f maxlen "[]"] assms by (auto simp: readfile_def)
next
  case False
  then show ?thesis using read_loop_full [of maxlen "[]" f] assms by (auto simp: readfile_def)
qed

text \<open>C37: \<open>readfile\<close> reads a file of fewer than \<open>maxlen\<close> bytes completely, in a zeroed block, and reports a failing device;
  a file of exactly \<open>maxlen\<close> bytes fits the block and is rejected as too large, like every longer one, because the
  last request is for no bytes and does not set the end-of-file indicator. The loop ends for every file.\<close>

theorem readfile_result:
  assumes "\<not> s_eof f" and "\<not> s_err f"
  shows "readfile True maxlen (Some f) =
    Some (if length (s_rest f) \<ge> maxlen then Inl TooLarge
          else if s_bad f then Inl ReadFailed
          else Inr (s_rest f @ replicate (maxlen - length (s_rest f)) 0, length (s_rest f)))"
  using assms by (rule readfile_cases)

theorem readfile_result_witness:
  "readfile True 4 (Some \<lparr>s_rest = [1, 2, 3], s_bad = False, s_eof = False, s_err = False\<rparr>) = Some (Inr ([1, 2, 3, 0], 3)) \<and>
   readfile True 3 (Some \<lparr>s_rest = [1, 2, 3], s_bad = False, s_eof = False, s_err = False\<rparr>) = Some (Inl TooLarge)"
  using readfile_result [of "\<lparr>s_rest = [1, 2, 3], s_bad = False, s_eof = False, s_err = False\<rparr>" 4]
    readfile_result [of "\<lparr>s_rest = [1, 2, 3], s_bad = False, s_eof = False, s_err = False\<rparr>" 3]
  by (simp add: numeral_eq_Suc)

subsection \<open>Running a program\<close>

text \<open>\<open>gather_bytes\<close>, which is not registered, is the big-endian number of its five bytes.\<close>

lemma gather_bytes_be: "gather_bytes a b c d e = le_value [e, d, c, b, a]"
proof -
  have "(ucast (push_bit k (ucast x :: u32)) :: u64) = push_bit k (ucast x)" if "k \<le> 24" for k and x :: u8
    using that by (intro bit_word_eqI) (auto simp: bit_simps dest: bit_imp_le_length)
  moreover have "(ucast (ucast d :: u16) :: u32) = ucast d"
    by (rule bit_word_eqI) (auto simp: bit_simps dest: bit_imp_le_length)
  ultimately show ?thesis by (simp add: gather_bytes_def push_bit_or ac_simps)
qed

definition tool_env :: "u64 \<Rightarrow> ebpf_helper_env" where
  "tool_env junk = \<lparr>ext_funcs = [None, Some sqrti_func, Some (print_str junk)] @ replicate 9 None, refcnt = 1\<rparr>"

lemma register_functions_env:
  "register_functions junk None zero_vm = (Some (tool_env junk), zero_vm\<lparr>helper_set := True\<rparr>)"
  by (simp add: register_functions_def ebpf_register_def use_default_helper_func_def zero_vm_def MAX_EXT_FUNCS_def tool_env_def
    numeral_eq_Suc)

lemma tool_env_destroyed: "ebpf_vm_destroy (Some (tool_env junk)) = None"
  by (simp add: ebpf_vm_destroy_def tool_env_def)

lemma zero_vm_unset: "\<not> insts_set zero_vm" by (simp add: zero_vm_def)

definition plain_file :: "u8 list \<Rightarrow> stream" where
  "plain_file bs = \<lparr>s_rest = bs, s_bad = False, s_eof = False, s_err = False\<rparr>"

lemma readfile_plain:
  "length bs < maxlen \<Longrightarrow> readfile True maxlen (Some (plain_file bs)) = Some (Inr (bs @ replicate (maxlen - length bs) 0, length bs))"
  by (subst readfile_cases) (simp_all add: plain_file_def)

definition tool_vm :: "u8 list \<Rightarrow> ebpf_vm" where
  "tool_vm code = zero_vm\<lparr>helper_set := True, insts := decode_insts code, insts_set := True,
     num_insts := num_insts_of (of_nat (length code))\<rparr>"

text \<open>What the two helpers do when a program calls them.\<close>

lemma tool_calls:
  assumes "opcode i = EBPF_OP_CALL" "5 < length (v_reg s)"
  shows "i_imm i = 1 \<Longrightarrow> switch (Some (tool_env junk)) (tool_vm code) f s i =
      Go (s\<lparr>v_reg := (v_reg s)[0 := zx (lo (v_reg s ! 1) div 2)]\<rparr>)"
    and "i_imm i = 2 \<Longrightarrow> switch (Some (tool_env junk)) (tool_vm code) f s i =
      (case load_cstr (w_mem (v_world s)) (lo (v_reg s ! 1)) of
         None \<Rightarrow> Stop (Undef HelperFault)
       | Some str \<Rightarrow> Go (s\<lparr>v_reg := (v_reg s)[0 := junk],
           v_world := (v_world s)\<lparr>w_out := w_out (v_world s) @ [str]\<rparr>\<rparr>))"
  using assms by (simp_all add: run_defs tool_env_def tool_vm_def sqrti_func_def sqrti_def print_str_def split: option.split)

text \<open>C32: with a program file and a memory file of less than 1 MiB each, and no failing allocation, a run of the program of
  the first file on the address and length of the image of the second makes the tool exit with 0 after printing the lines
  of the run and then its result; the helper table is released at the end. In that run, a call of helper 1 halves the low
  word of r1 into r0, and a call of helper 2 prints the string r1 points to, and is undefined where none is.\<close>

theorem tool_runs_program:
  assumes "p_files p cf = Some (plain_file code)" and "p_files p mf = Some (plain_file img)"
    and "length code < max_file" and "length img < max_file"
    and "p_alloc_code p" and "p_alloc_mem p" and "p_alloc_vm p" and "p_alloc_insts p"
    and "f = \<lparr>f_mem = p_addr p, f_mem_len = of_nat (length img), f_stack = p_stack p\<rparr>"
    and "ebpf_vm_exec (Some (tool_env (p_junk p))) (tool_vm code) f (p_regs0 p)
        ((p_world p)\<lparr>w_out := [],
           w_mem := map_block (p_addr p) (img @ replicate (max_file - length img) 0) (w_mem (p_world p))\<rparr>) = (Ret v, w')"
  shows "main p [nm, cf, mf] = Some (0, map Line (w_out w') @ [Printed v], None) \<and>
    (\<forall>s i. opcode i = EBPF_OP_CALL \<and> i_imm i = 1 \<and> 5 < length (v_reg s) \<longrightarrow>
       switch (Some (tool_env (p_junk p))) (tool_vm code) f s i =
         Go (s\<lparr>v_reg := (v_reg s)[0 := zx (lo (v_reg s ! 1) div 2)]\<rparr>)) \<and>
    (\<forall>s i. opcode i = EBPF_OP_CALL \<and> i_imm i = 2 \<and> 5 < length (v_reg s) \<longrightarrow>
       switch (Some (tool_env (p_junk p))) (tool_vm code) f s i =
         (case load_cstr (w_mem (v_world s)) (lo (v_reg s ! 1)) of
            None \<Rightarrow> Stop (Undef HelperFault)
          | Some str \<Rightarrow> Go (s\<lparr>v_reg := (v_reg s)[0 := p_junk p],
              v_world := (v_world s)\<lparr>w_out := w_out (v_world s) @ [str]\<rparr>\<rparr>)))"
proof (intro conjI)
  show "main p [nm, cf, mf] = Some (0, map Line (w_out w') @ [Printed v], None)"
    using assms readfile_plain [OF assms(3)] readfile_plain [OF assms(4)] tool_env_destroyed
    by (simp add: main_def run_vm_def ebpf_create_def register_functions_env ebpf_vm_load_def zero_vm_unset
      run_output_def exec_value_def tool_vm_def Let_def)
qed (use tool_calls in blast)+

text \<open>The program prints the string of the memory image, then calls helper 1 with 9.\<close>

definition hello_code :: "u8 list" where
  "hello_code = [0x85, 0, 0, 0, 2, 0, 0, 0,  0xb7, 1, 0, 0, 9, 0, 0, 0,  0x85, 0, 0, 0, 1, 0, 0, 0,  0x95, 0, 0, 0, 0, 0, 0, 0]"

definition sample_process :: process where
  "sample_process = \<lparr>p_files = (\<lambda>f. if f = ''hello'' then Some (plain_file hello_code) else if f = ''img'' then Some (plain_file [104, 105]) else None),
     p_alloc_code = True, p_alloc_mem = True, p_alloc_vm = True, p_alloc_insts = True, p_addr = 0x1000, p_stack = 0x2000,
     p_world = \<lparr>w_mem = (\<lambda>_. None), w_dval = 0, w_out = []\<rparr>, p_regs0 = [0, 0, 0, 0, 0, 0, 0, 0, 0, 0, 0, 0], p_iter = 0, p_junk = 0,
     p_map_val = 0x3000, p_map_v1 = 0x3010\<rparr>"

lemma decode_hello_code: "decode_insts hello_code =
    [\<lparr>opcode = 133, i_dst = 0, i_src = 0, i_off = 0, i_imm = 2\<rparr>, \<lparr>opcode = 183, i_dst = 1, i_src = 0, i_off = 0, i_imm = 9\<rparr>,
     \<lparr>opcode = 133, i_dst = 0, i_src = 0, i_off = 0, i_imm = 1\<rparr>, \<lparr>opcode = 149, i_dst = 0, i_src = 0, i_off = 0, i_imm = 0\<rparr>]"
  by (simp add: hello_code_def le16_def le32_def)

lemma cstr_from_block:
  "\<forall>i < length bs. bs ! i \<noteq> 0 \<and> m (a + of_nat i) = Some (bs ! i) \<Longrightarrow> m (a + of_nat (length bs)) = Some 0 \<Longrightarrow>
   length bs < n \<Longrightarrow> cstr_from n m a = Some bs"
proof (induction bs arbitrary: a n)
  case Nil
  then show ?case by (cases n) simp_all
next
  case (Cons b bs)
  obtain k where n: "n = Suc k" using Cons.prems(3) by (cases n) simp_all
  have "bs ! i \<noteq> 0 \<and> m (a + 1 + of_nat i) = Some (bs ! i)" if "i < length bs" for i
    using Cons.prems(1) [rule_format, of "Suc i"] that by (simp add: add.assoc)
  then have "cstr_from k m (a + 1) = Some bs"
    using Cons.prems(2,3) n by (intro Cons.IH) (simp_all add: add.assoc)
  moreover have "b \<noteq> 0" "m a = Some b" using Cons.prems(1) by (auto dest: spec [of _ 0])
  ultimately show ?case by (simp add: n)
qed

theorem tool_runs_program_witness:
  "main sample_process [''ebpf'', ''hello'', ''img''] = Some (0, [Line [104, 105], Printed 4], None)"
proof -
  let ?m = "map_block 0x1000 ([104, 105] @ replicate (max_file - length [104, 105 :: u8]) 0) (\<lambda>_. None)"
  let ?f = "\<lparr>f_mem = 0x1000, f_mem_len = 2, f_stack = 0x2000\<rparr>"
  have "?m 0x1000 = Some 104" "?m 0x1001 = Some 105" "?m 0x1002 = Some 0"
    by (simp_all add: map_block_def nth_append max_file_def)
  then have str: "load_cstr ?m 0x1000 = Some [104, 105]"
    unfolding load_cstr_def by (intro cstr_from_block) (auto simp: less_Suc_eq)
  have run: "ebpf_vm_exec (Some (tool_env 0)) (tool_vm hello_code) ?f [0, 0, 0, 0, 0, 0, 0, 0, 0, 0, 0, 0] w =
      (Ret 4, w\<lparr>w_out := w_out w @ [[104, 105]]\<rparr>)" if "load_cstr (w_mem w) 0x1000 = Some [104, 105]" for w
    unfolding ebpf_vm_exec_def using that
    by (simp add: tool_vm_def decode_hello_code init_state_def vm_loop_turn run_defs tool_env_def sqrti_func_def sqrti_def
      print_str_def cong: run_congs)
  let ?w = "\<lparr>w_mem = ?m, w_dval = 0, w_out = []\<rparr>"
  have "ebpf_vm_exec (Some (tool_env 0)) (tool_vm hello_code) ?f [0, 0, 0, 0, 0, 0, 0, 0, 0, 0, 0, 0] ?w =
      (Ret 4, ?w\<lparr>w_out := [[104, 105]]\<rparr>)"
    using run [of ?w] str by simp
  moreover have "length hello_code < max_file" "length [104, 105 :: u8] < max_file" by (simp_all add: hello_code_def max_file_def)
  ultimately show ?thesis
    using tool_runs_program [of sample_process "''hello''" hello_code "''img''" "[104, 105]" ?f 4 "?w\<lparr>w_out := [[104, 105]]\<rparr>" "''ebpf''"]
    by (simp add: sample_process_def)
qed

text \<open>The Windows build prints the same for every memory file that is not empty and fits the array: the program is given a
  fixed packet, not the file.\<close>

lemma win_mem_ignored:
  assumes "p_files p mf = Some (plain_file img)" "p_files p mf' = Some (plain_file img')"
    "img \<noteq> []" "img' \<noteq> []" "length img \<le> 200" "length img' \<le> 200"
  shows "win_main p [nm, cf, mf] = win_main p [nm, cf, mf']"
  using assms by (simp add: win_main_def win_load_data_def plain_file_def Let_def)

text \<open>A program file beyond the 32768 bytes of the array overruns it.\<close>

lemma win_overrun:
  "p_files p cf = Some (plain_file code) \<Longrightarrow> 32768 < length code \<Longrightarrow> win_main p [nm, cf] = None"
  by (simp add: win_main_def win_load_data_def plain_file_def Let_def)

end
