(* ===== verification/Ebpf_Lock.thy ===== *)
theory Ebpf_Lock
  imports Prelude
begin

text \<open>
  The spin locks of \<open>libebpf/include/ebpf_lock.h\<close>: on Windows an atomic exchange in a loop, on Cortex-M4 functions with an
  empty body. The threads that use a lock are a step relation: each step is one atomic access to the lock.
\<close>

record ebpf_lock =
  l_lock :: int

definition ebpf_lock_init :: "ebpf_lock \<Rightarrow> ebpf_lock" where "ebpf_lock_init l = l\<lparr>l_lock := 0\<rparr>"

text \<open>The Windows port. \<open>xchg\<close> is \<open>InterlockedExchange\<close> of the operating system: from the value of the target and the new
  value to the returned value and the value of the target afterwards. One turn of the loop exchanges the value with 1 and
  tells whether the lock was free.\<close>

definition win_lock_turn :: "(int \<Rightarrow> int \<Rightarrow> int \<times> int) \<Rightarrow> ebpf_lock \<Rightarrow> bool \<times> ebpf_lock" where
  "win_lock_turn xchg l = (let (old, v) = xchg (l_lock l) 1 in (old = 0, l\<lparr>l_lock := v\<rparr>))"

definition win_unlock :: "(int \<Rightarrow> int \<Rightarrow> int \<times> int) \<Rightarrow> ebpf_lock \<Rightarrow> ebpf_lock" where
  "win_unlock xchg l = (let (old, v) = xchg (l_lock l) 0 in l\<lparr>l_lock := v\<rparr>)"

text \<open>Its documented behaviour: the target is set to the value, and the previous value is returned.\<close>

definition exchanges :: "(int \<Rightarrow> int \<Rightarrow> int \<times> int) \<Rightarrow> bool" where
  "exchanges xchg \<longleftrightarrow> (\<forall>target value. xchg target value = (target, value))"

text \<open>The Cortex-M4 port: the atomic operations are commented out.\<close>

definition m4_lock_turn :: "ebpf_lock \<Rightarrow> bool \<times> ebpf_lock" where "m4_lock_turn l = (True, l)"

definition m4_unlock :: "ebpf_lock \<Rightarrow> ebpf_lock" where "m4_unlock l = l"

text \<open>\<open>ebpf_lock_destroy\<close> ignores its argument on both.\<close>

definition ebpf_lock_destroy :: "ebpf_lock \<Rightarrow> ebpf_lock" where "ebpf_lock_destroy l = l"

subsection \<open>Threads\<close>

datatype thread_pc = Outside | Spinning | Inside

record lock_state =
  k_lock :: ebpf_lock
  k_pc :: "nat \<Rightarrow> thread_pc"

inductive lock_step :: "(ebpf_lock \<Rightarrow> bool \<times> ebpf_lock) \<Rightarrow> (ebpf_lock \<Rightarrow> ebpf_lock) \<Rightarrow> lock_state \<Rightarrow> lock_state \<Rightarrow> bool"
  for turn unlock where
  enter: "k_pc s i = Outside \<Longrightarrow> lock_step turn unlock s (s\<lparr>k_pc := (k_pc s)(i := Spinning)\<rparr>)"
| spin: "k_pc s i = Spinning \<Longrightarrow> turn (k_lock s) = (got, l') \<Longrightarrow>
    lock_step turn unlock s (s\<lparr>k_lock := l', k_pc := (k_pc s)(i := if got then Inside else Spinning)\<rparr>)"
| leave: "k_pc s i = Inside \<Longrightarrow> lock_step turn unlock s \<lparr>k_lock = unlock (k_lock s), k_pc = (k_pc s)(i := Outside)\<rparr>"

definition lock_start :: lock_state where
  "lock_start = \<lparr>k_lock = ebpf_lock_init \<lparr>l_lock = 0\<rparr>, k_pc = (\<lambda>_. Outside)\<rparr>"

text \<open>What a lock promises: a turn succeeds exactly on a free lock and leaves it taken, an unlock frees it.\<close>

locale spin_lock =
  fixes turn :: "ebpf_lock \<Rightarrow> bool \<times> ebpf_lock" and unlock :: "ebpf_lock \<Rightarrow> ebpf_lock" and free :: "ebpf_lock \<Rightarrow> bool"
  assumes turn_free: "fst (turn l) = free l" and turn_taken: "\<not> free (snd (turn l))" and unlock_free: "free (unlock l)"
    and init_free: "free (ebpf_lock_init l)"
begin

definition held_ok :: "lock_state \<Rightarrow> bool" where
  "held_ok s \<longleftrightarrow> (if free (k_lock s) then \<forall>i. k_pc s i \<noteq> Inside else \<exists>!i. k_pc s i = Inside)"

lemma held_step: "lock_step turn unlock s s' \<Longrightarrow> held_ok s \<Longrightarrow> held_ok s'"
proof (induction rule: lock_step.induct)
  case (enter s i)
  then have "(k_pc s)(i := Spinning) = (k_pc s)(i := Spinning) \<and>
      (\<forall>j. ((k_pc s)(i := Spinning)) j = Inside \<longleftrightarrow> k_pc s j = Inside)" by auto
  with enter show ?case by (simp add: held_ok_def)
next
  case (spin s i got l')
  have l: "got = free (k_lock s)" "\<not> free l'" using turn_free [of "k_lock s"] turn_taken [of "k_lock s"] spin(2) by auto
  show ?case
  proof (cases got)
    case True
    then show ?thesis using l spin(1,3) by (auto simp: held_ok_def)
  next
    case False
    then have "(\<forall>j. ((k_pc s)(i := Spinning)) j = Inside \<longleftrightarrow> k_pc s j = Inside)" using spin(1) by auto
    with False l spin(3) show ?thesis by (simp add: held_ok_def)
  qed
next
  case (leave s i)
  then have "\<forall>j. j \<noteq> i \<longrightarrow> k_pc s j \<noteq> Inside" by (auto simp: held_ok_def split: if_splits)
  then show ?case using unlock_free by (auto simp: held_ok_def)
qed

lemma held_start: "held_ok lock_start"
  by (simp add: held_ok_def lock_start_def init_free)

lemma held_reachable: "(lock_step turn unlock)\<^sup>*\<^sup>* lock_start s \<Longrightarrow> held_ok s"
  by (induction rule: rtranclp_induct) (auto intro: held_start held_step)

lemma mutual_exclusion:
  "(lock_step turn unlock)\<^sup>*\<^sup>* lock_start s \<Longrightarrow> k_pc s i = Inside \<Longrightarrow> k_pc s j = Inside \<Longrightarrow> i = j"
  using held_reachable [of s] by (auto simp: held_ok_def split: if_splits)

text \<open>No thread is kept out when no thread is inside.\<close>

lemma progress:
  assumes "(lock_step turn unlock)\<^sup>*\<^sup>* lock_start s" "k_pc s i = Spinning" "\<forall>j. k_pc s j \<noteq> Inside"
  shows "\<exists>s'. lock_step turn unlock s s' \<and> k_pc s' i = Inside"
proof -
  obtain got l' where t: "turn (k_lock s) = (got, l')" by (cases "turn (k_lock s)")
  have got using held_reachable [OF assms(1)] assms(3) turn_free [of "k_lock s"] t by (auto simp: held_ok_def split: if_splits)
  then show ?thesis using lock_step.spin [of s i turn got l' unlock, OF assms(2) t] by (auto intro!: exI)
qed

end

lemma win_spin_lock:
  "exchanges xchg \<Longrightarrow> spin_lock (win_lock_turn xchg) (win_unlock xchg) (\<lambda>l. l_lock l = 0)"
  by unfold_locales (simp_all add: win_lock_turn_def win_unlock_def exchanges_def ebpf_lock_init_def)

text \<open>On one processor, where nothing runs between the read and the write, it is the pair of both.\<close>

definition read_write :: "int \<Rightarrow> int \<Rightarrow> int \<times> int" where "read_write target value = (target, value)"

lemma read_write_exchanges: "exchanges read_write"
  by (simp add: exchanges_def read_write_def)

interpretation wl: spin_lock "win_lock_turn read_write" "win_unlock read_write" "\<lambda>l. l_lock l = 0"
  by (rule win_spin_lock [OF read_write_exchanges])

text \<open>C30: with an \<open>InterlockedExchange\<close> that behaves as documented, no two threads are inside the lock of the Windows port
  at the same time, in any interleaving; and when nobody is inside, the next turn of any spinning thread gets in.\<close>

theorem win_lock_excludes:
  assumes "exchanges xchg" and "(lock_step (win_lock_turn xchg) (win_unlock xchg))\<^sup>*\<^sup>* lock_start s"
  shows "(k_pc s i = Inside \<and> k_pc s j = Inside \<longrightarrow> i = j) \<and>
    (k_pc s i = Spinning \<and> (\<forall>j. k_pc s j \<noteq> Inside) \<longrightarrow>
      (\<exists>s'. lock_step (win_lock_turn xchg) (win_unlock xchg) s s' \<and> k_pc s' i = Inside))"
  using spin_lock.mutual_exclusion [OF win_spin_lock [OF assms(1)] assms(2)]
    spin_lock.progress [OF win_spin_lock [OF assms(1)] assms(2)] by blast

lemma two_enter:
  "(lock_step turn unlock)\<^sup>*\<^sup>* lock_start \<lparr>k_lock = \<lparr>l_lock = 0\<rparr>, k_pc = (\<lambda>_. Outside)(0 := Spinning, 1 := Spinning)\<rparr>"
proof -
  have 1: "lock_step turn unlock lock_start \<lparr>k_lock = \<lparr>l_lock = 0\<rparr>, k_pc = (\<lambda>_. Outside)(0 := Spinning)\<rparr>"
    using lock_step.enter [of lock_start 0 turn unlock] by (simp add: lock_start_def ebpf_lock_init_def)
  have "lock_step turn unlock \<lparr>k_lock = \<lparr>l_lock = 0\<rparr>, k_pc = (\<lambda>_. Outside)(0 := Spinning)\<rparr>
      \<lparr>k_lock = \<lparr>l_lock = 0\<rparr>, k_pc = (\<lambda>_. Outside)(0 := Spinning, 1 := Spinning)\<rparr>"
    using lock_step.enter [of "\<lparr>k_lock = \<lparr>l_lock = 0\<rparr>, k_pc = (\<lambda>_. Outside)(0 := Spinning)\<rparr>" 1 turn unlock] by simp
  with 1 show ?thesis by (meson converse_rtranclp_into_rtranclp r_into_rtranclp)
qed

theorem win_lock_excludes_witness:
  "\<exists>s'. lock_step (win_lock_turn read_write) (win_unlock read_write)
     \<lparr>k_lock = \<lparr>l_lock = 0\<rparr>, k_pc = (\<lambda>_. Outside)(0 := Spinning, 1 := Spinning)\<rparr> s' \<and> k_pc s' 1 = Inside"
  using win_lock_excludes [OF read_write_exchanges two_enter, of 1 1] by simp

text \<open>On Cortex-M4 the lock excludes nobody: two threads can be inside it at the same time.\<close>

theorem m4_lock_excludes_nobody:
  "\<exists>s. (lock_step m4_lock_turn m4_unlock)\<^sup>*\<^sup>* lock_start s \<and> k_pc s 0 = Inside \<and> k_pc s 1 = Inside"
proof -
  let ?s = "\<lambda>p q. \<lparr>k_lock = \<lparr>l_lock = 0\<rparr>, k_pc = (\<lambda>_. Outside)(0 := p, 1 := q)\<rparr>"
  have "lock_step m4_lock_turn m4_unlock (?s Spinning Spinning) (?s Inside Spinning)"
    using lock_step.spin [of "?s Spinning Spinning" 0 m4_lock_turn True "\<lparr>l_lock = 0\<rparr>" m4_unlock]
    by (simp add: m4_lock_turn_def fun_upd_twist)
  moreover have "lock_step m4_lock_turn m4_unlock (?s Inside Spinning) (?s Inside Inside)"
    using lock_step.spin [of "?s Inside Spinning" 1 m4_lock_turn True "\<lparr>l_lock = 0\<rparr>" m4_unlock] by (simp add: m4_lock_turn_def)
  ultimately have "(lock_step m4_lock_turn m4_unlock)\<^sup>*\<^sup>* lock_start (?s Inside Inside)"
    using two_enter by (meson rtranclp.rtrancl_into_rtrancl)
  then show ?thesis by (intro exI [of _ "?s Inside Inside"]) simp
qed

end
