(* ===== verification/Mbedtls_Check.thy ===== *)
theory Mbedtls_Check
  imports Patch_Code Utils
begin

text \<open>
  The check for CVE-2018-9989 of \<open>libebpf/src/ebpf_mbedtls_checks.c\<close>: a program for a parser of length-prefixed data in
  mbedTLS, and the entry points that were to run it, in which the calls are commented out. The final NUL
  of the string literal is left out of the list.
\<close>

definition code_cve_9989 :: "u8 list" where
  "code_cve_9989 =
     [0x61,0x12,0x00,0x00,0x00,0x00,0x00,0x00, 0x61,0x22,0x00,0x00,0x00,0x00,0x00,0x00, 0x71,0x23,0x00,0x00,0x00,0x00,0x00,0x00,
      0x67,0x03,0x00,0x00,0x08,0x00,0x00,0x00, 0x71,0x24,0x01,0x00,0x00,0x00,0x00,0x00, 0x4f,0x43,0x00,0x00,0x00,0x00,0x00,0x00,
      0x0f,0x32,0x00,0x00,0x00,0x00,0x00,0x00, 0x61,0x11,0x04,0x00,0x00,0x00,0x00,0x00, 0xb7,0x00,0x00,0x00,0x01,0x00,0x00,0x00,
      0x2d,0x12,0x01,0x00,0x00,0x00,0x00,0x00, 0xb7,0x00,0x00,0x00,0x00,0x00,0x00,0x00, 0x95,0x00,0x00,0x00,0x00,0x00,0x00,0x00]"

text \<open>\<open>mbed_progs.prog_9989\<close>: whether the program is loaded. The set-up does not load it, and the run does not execute it.\<close>

definition setup_mbedtls_ebpf_progs :: "bool \<Rightarrow> int \<times> bool" where "setup_mbedtls_ebpf_progs loaded = (0, loaded)"

definition remove_mbedtls_ebpf_progs :: "bool \<Rightarrow> bool" where "remove_mbedtls_ebpf_progs loaded = loaded"

definition run_prog_9989 :: "bool \<Rightarrow> u32 \<Rightarrow> int" where "run_prog_9989 loaded args = - 1"

subsection \<open>What the program computes\<close>

text \<open>On \<open>struct prog_9989_args\<close> with \<open>p\<close> the address of the parser's pointer: 1 when the two length bytes at \<open>*p\<close> lead
  beyond \<open>end\<close>.\<close>

definition overruns :: "u32 \<Rightarrow> u8 \<Rightarrow> u8 \<Rightarrow> u32 \<Rightarrow> bool" where
  "overruns p b0 b1 e \<longleftrightarrow> unat e < unat p + (256 * unat b0 + unat b1)"

definition check_9989 :: "memory \<Rightarrow> u32 \<Rightarrow> u64 option" where
  "check_9989 m args = do {
     pp \<leftarrow> load32 m args;
     p \<leftarrow> load32 m pp;
     b0 \<leftarrow> m p;
     b1 \<leftarrow> m (p + 1);
     e \<leftarrow> load32 m (args + 4);
     Some (if overruns p b0 b1 e then 1 else 0)}"

lemma decode_9989: "decode_insts code_cve_9989 =
  [\<lparr>opcode = 97, i_dst = 2, i_src = 1, i_off = 0, i_imm = 0\<rparr>,
   \<lparr>opcode = 97, i_dst = 2, i_src = 2, i_off = 0, i_imm = 0\<rparr>,
   \<lparr>opcode = 113, i_dst = 3, i_src = 2, i_off = 0, i_imm = 0\<rparr>,
   \<lparr>opcode = 103, i_dst = 3, i_src = 0, i_off = 0, i_imm = 8\<rparr>,
   \<lparr>opcode = 113, i_dst = 4, i_src = 2, i_off = 1, i_imm = 0\<rparr>,
   \<lparr>opcode = 79, i_dst = 3, i_src = 4, i_off = 0, i_imm = 0\<rparr>,
   \<lparr>opcode = 15, i_dst = 2, i_src = 3, i_off = 0, i_imm = 0\<rparr>,
   \<lparr>opcode = 97, i_dst = 1, i_src = 1, i_off = 4, i_imm = 0\<rparr>,
   \<lparr>opcode = 183, i_dst = 0, i_src = 0, i_off = 0, i_imm = 1\<rparr>,
   \<lparr>opcode = 45, i_dst = 2, i_src = 1, i_off = 1, i_imm = 0\<rparr>,
   \<lparr>opcode = 183, i_dst = 0, i_src = 0, i_off = 0, i_imm = 0\<rparr>,
   \<lparr>opcode = 149, i_dst = 0, i_src = 0, i_off = 0, i_imm = 0\<rparr>]"
  by (simp add: code_cve_9989_def le16_def le32_def)

lemma length_word: "unat (push_bit 8 (ucast b0) OR ucast b1 :: u64) = 256 * unat b0 + unat b1" for b0 b1 :: u8
proof -
  have "(push_bit 8 (ucast b0) OR ucast b1 :: u64) = push_bit 8 (ucast b0) + ucast b1"
    by (rule disjunctive_add [symmetric]) (auto simp: bit_simps dest: bit_imp_le_length)
  moreover have "unat b0 < 256" "unat b1 < 256" using unsigned_less [where w = b0 and ?'a = nat] unsigned_less [where w = b1 and ?'a = nat] by simp_all
  ultimately show ?thesis
    by (simp add: push_bit_eq_mult unat_word_ariths unsigned_ucast_eq take_bit_nat_eq_self)
qed

lemma overruns_word:
  "zx e < zx p + (push_bit 8 (ucast b0) OR ucast b1) \<longleftrightarrow> overruns p b0 b1 e" for b0 b1 :: u8
proof -
  have "unat p < 2 ^ 32" "unat e < 2 ^ 32" using unsigned_less [where w = p and ?'a = nat] unsigned_less [where w = e and ?'a = nat] by simp_all
  moreover have "256 * unat b0 + unat b1 < 65536" using unsigned_less [where w = b0 and ?'a = nat] unsigned_less [where w = b1 and ?'a = nat] by simp
  ultimately show ?thesis
    by (simp add: overruns_def word_less_nat_alt unat_word_ariths length_word unsigned_ucast_eq take_bit_nat_eq_self)
qed

lemma load_byte: "mem_load m a (Suc 0) = map_option ucast (m a)"
  by (simp add: mem_load_def split: option.split)

lemma code_9989_runs:
  assumes "insts vm = decode_insts code_cve_9989" "\<not> bounds_check_enabled vm" "length regs0 = MAX_BPF_EXT_REG"
  shows "ebpf_vm_exec g vm f regs0 w = (filter_result (check_9989 (w_mem w) (f_mem f)), w)"
proof (rule twelve_regs [OF assms(3)])
  fix a0 a1 a2 a3 a4 a5 a6 a7 a8 a9 a10 a11
  assume r: "regs0 = [a0, a1, a2, a3, a4, a5, a6, a7, a8, a9, a10, a11]"
  note run = vm_loop_turn run_defs decode_9989 bounds_check_def ucast_add_64 low_half load_byte
    filter_result_def check_9989_def load32_def assms(1,2)
  show ?thesis
  proof (cases "mem_load (w_mem w) (f_mem f) 4")
    case None
    then show ?thesis unfolding ebpf_vm_exec_def r by (simp add: run cong: run_congs)
  next
    case (Some u)
    then obtain pp where pp: "mem_load (w_mem w) (f_mem f) 4 = Some (zx pp)" using mem_load_4 by blast
    show ?thesis
    proof (cases "mem_load (w_mem w) pp 4")
      case None
      then show ?thesis unfolding ebpf_vm_exec_def r by (simp add: run pp cong: run_congs)
    next
      case (Some u)
      then obtain p where p: "mem_load (w_mem w) pp 4 = Some (zx p)" using mem_load_4 by blast
      show ?thesis
      proof (cases "w_mem w p = None \<or> w_mem w (p + 1) = None \<or> mem_load (w_mem w) (f_mem f + 4) 4 = None")
        case True
        then show ?thesis unfolding ebpf_vm_exec_def r
          by (auto simp: run pp p split: option.split cong: run_congs)
      next
        case False
        then obtain b0 b1 v where b: "w_mem w p = Some b0" "w_mem w (p + 1) = Some b1" "mem_load (w_mem w) (f_mem f + 4) 4 = Some v"
          by auto
        then obtain e where e: "mem_load (w_mem w) (f_mem f + 4) 4 = Some (zx e)" using mem_load_4 by blast
        show ?thesis unfolding ebpf_vm_exec_def r
          by (cases "overruns p b0 b1 e") (simp_all add: run pp p b(1,2) e overruns_word cong: run_congs)
      qed
    qed
  qed
qed

interpretation mb: compiled_filter code_cve_9989 check_9989
  by unfold_locales (rule code_9989_runs)

text \<open>The compiled check returns 1 exactly when the length in the two bytes at the parser's position leads beyond the
  end of the buffer, and 0 otherwise, whatever the registers held; the test leaves out the two length bytes, so data
  that ends up to two bytes behind the buffer passes.\<close>

theorem mbedtls_check_decides:
  assumes "insts vm = decode_insts code_cve_9989" and "\<not> bounds_check_enabled vm" and "length regs0 = MAX_BPF_EXT_REG"
    and "load32 (w_mem w) (f_mem f) = Some pp" and "load32 (w_mem w) pp = Some p"
    and "w_mem w p = Some b0" and "w_mem w (p + 1) = Some b1" and "load32 (w_mem w) (f_mem f + 4) = Some e"
  shows "ebpf_vm_exec g vm f regs0 w = (Ret (if unat e < unat p + (256 * unat b0 + unat b1) then 1 else 0), w)"
  using mb.runs [OF assms(1-3)] assms(4-8) by (simp add: check_9989_def filter_result_def overruns_def)

text \<open>The arguments at 0x100: the pointer at 0x200, the data at 0x300 with length 16, the end at 0x310: two bytes short.\<close>

definition mbed_mem :: memory where
  "mbed_mem a = Some (if a = 0x101 then 2 else if a = 0x104 then 0x10 else if a = 0x105 then 3 else if a = 0x201 then 3
     else if a = 0x301 then 0x10 else 0)"

theorem mbedtls_check_decides_witness:
  "ebpf_vm_exec None (zero_vm\<lparr>insts := decode_insts code_cve_9989\<rparr>) \<lparr>f_mem = 0x100, f_mem_len = 8, f_stack = 0x2000\<rparr>
     (replicate 12 0) \<lparr>w_mem = mbed_mem, w_dval = 0, w_out = []\<rparr> = (Ret 0, \<lparr>w_mem = mbed_mem, w_dval = 0, w_out = []\<rparr>)"
proof -
  have "load32 mbed_mem 0x100 = Some 0x200" "load32 mbed_mem 0x200 = Some 0x300" "mbed_mem 0x300 = Some 0"
      "mbed_mem 0x301 = Some 0x10" "load32 mbed_mem 0x104 = Some 0x310"
    by (simp_all add: load32_def mem_load_def mbed_mem_def)
  then show ?thesis
    using mbedtls_check_decides [where vm = "zero_vm\<lparr>insts := decode_insts code_cve_9989\<rparr>" and ?regs0.0 = "replicate 12 0"
        and w = "\<lparr>w_mem = mbed_mem, w_dval = 0, w_out = []\<rparr>" and f = "\<lparr>f_mem = 0x100, f_mem_len = 8, f_stack = 0x2000\<rparr>"
        and pp = "0x200" and p = "0x300" and e = "0x310"]
    by (simp add: zero_vm_def MAX_BPF_EXT_REG_def)
qed

end
