(* ===== verification/Rt_App.thy ===== *)
theory Rt_App
  imports Profiling "HOL-Library.Monad_Syntax"
begin

text \<open>
  The motor demonstration of \<open>app/rt_app.c\<close>: the PWM outputs, the servo loop and the PID regulator. The vendor's HAL
  functions are kept as the list of calls with their arguments; the registers and pins the code writes itself are the
  state. Floating-point numbers are a type with arbitrary operations.
\<close>

subsection \<open>PWM outputs\<close>

record tim_handle =
  tim_prescaler :: int
  tim_period :: int

record oc_init =
  oc_pulse :: int

datatype channel = TIM_CHANNEL_1 | TIM_CHANNEL_2

text \<open>The settings that do not depend on the arguments (counter up, no clock division, mode PWM1, polarity high) are part
  of the call.\<close>

datatype hal_call =
    HAL_TIM_PWM_Init tim_handle
  | HAL_TIM_PWM_ConfigChannel tim_handle oc_init channel
  | HAL_TIM_PWM_Start tim_handle channel
  | RCC_TIM2_CLK_ENABLE
  | RCC_GPIOA_CLK_ENABLE
  | HAL_GPIO_Init "nat set"

definition PWM_Init :: "int \<Rightarrow> int \<Rightarrow> hal_call list" where
  "PWM_Init arr psc =
     (let tim = \<lparr>tim_prescaler = psc, tim_period = arr\<rparr>; oc = \<lparr>oc_pulse = arr div 2\<rparr> in
      [HAL_TIM_PWM_Init tim,
       HAL_TIM_PWM_ConfigChannel tim oc TIM_CHANNEL_1, HAL_TIM_PWM_Start tim TIM_CHANNEL_1,
       HAL_TIM_PWM_ConfigChannel tim oc TIM_CHANNEL_2, HAL_TIM_PWM_Start tim TIM_CHANNEL_2])"

text \<open>Called back by \<open>HAL_TIM_PWM_Init\<close>: the clocks and the alternate function of pins PA0 and PA1.\<close>

definition HAL_TIM_PWM_MspInit :: "hal_call list" where
  "HAL_TIM_PWM_MspInit = [RCC_TIM2_CLK_ENABLE, RCC_GPIOA_CLK_ENABLE, HAL_GPIO_Init {0, 1}]"

record board =
  b_ccr1 :: u32
  b_ccr2 :: u32
  b_led_b :: bool
  b_led_g :: bool
  b_led_r :: bool

definition TIM_SetTIM2Compare1 :: "int \<Rightarrow> board \<Rightarrow> board" where
  "TIM_SetTIM2Compare1 compare b = b\<lparr>b_ccr1 := word_of_int compare\<rparr>"

definition TIM_SetTIM2Compare2 :: "int \<Rightarrow> board \<Rightarrow> board" where
  "TIM_SetTIM2Compare2 compare b = b\<lparr>b_ccr2 := word_of_int compare\<rparr>"

subsection \<open>Servo motor\<close>

definition change_direction :: "int \<Rightarrow> int" where
  "change_direction pwmval = (if pwmval \<ge> 1000 then 0 else if pwmval \<le> 500 then 1 else 0)"

definition dir_forward :: "int \<Rightarrow> board \<Rightarrow> board" where
  "dir_forward speed b = b\<lparr>b_led_b := True, b_led_g := False\<rparr>"

definition dir_backward :: "int \<Rightarrow> board \<Rightarrow> board" where
  "dir_backward speed b = b\<lparr>b_led_b := False, b_led_g := True\<rparr>"

text \<open>The locals of the loop, and one turn of it without the delay.\<close>

record servo =
  sm_time :: int
  sm_dir :: int
  sm_pwmval :: int

definition servo_start :: servo where "servo_start = \<lparr>sm_time = 0, sm_dir = 1, sm_pwmval = 500\<rparr>"

definition servo_drive :: "int \<Rightarrow> int \<Rightarrow> board \<Rightarrow> board" where
  "servo_drive dir pwmval b =
     (if dir \<noteq> 0 then TIM_SetTIM2Compare2 0 (TIM_SetTIM2Compare1 pwmval (dir_forward pwmval b))
      else TIM_SetTIM2Compare2 pwmval (TIM_SetTIM2Compare1 0 (dir_backward pwmval b)))"

definition servo_turn :: "servo \<times> board \<Rightarrow> servo \<times> board" where
  "servo_turn = (\<lambda>(s, b).
     let speed = change_direction (sm_pwmval s);
         pwmval = (if speed \<noteq> 0 then sm_pwmval s + 5 else sm_pwmval s - 5);
         dir = (if speed = 1 then xor (sm_dir s) 1 else sm_dir s);
         b1 = servo_drive dir pwmval b;
         time = sm_time s + 1;
         b2 = (if time mod 20 = 0 then b1\<lparr>b_led_r := \<not> b_led_r b1\<rparr> else b1)
     in (\<lparr>sm_time = time, sm_dir = dir, sm_pwmval = pwmval\<rparr>, b2))"

text \<open>The entry point returns before the motor code: it only takes one measurement.\<close>

definition init_rt_task_servo_motor :: "u32 \<Rightarrow> u32 \<Rightarrow> hw \<times> profiler \<Rightarrow> (int \<times> hw \<times> profiler) option" where
  "init_rt_task_servo_motor now0 now1 s = do {
     let (_, h, p) = profile_add_event ''start'' s;
     p1 \<leftarrow> profile_start now0 EV0 p;
     (_, p2) \<leftarrow> profile_end now1 EV0 p1;
     Some (0, h, p2)}"

text \<open>The code behind it: the timer is set up once, then the loop turns forever; \<open>n\<close> turns of it.\<close>

definition servo_motor_task :: "bool \<Rightarrow> nat \<Rightarrow> board \<Rightarrow> hal_call list \<times> servo \<times> board" where
  "servo_motor_task pwm_init n b =
     (if pwm_init then [] else PWM_Init (1000 - 1) (80 - 1), (servo_turn ^^ n) (servo_start, b))"

subsection \<open>PID regulator\<close>

record 'f PID =
  setpoint :: 'f
  proportiongain :: 'f
  integralgain :: 'f
  derivativegain :: 'f
  lasterror :: 'f
  result :: 'f
  integral :: 'f

definition PIDRegulation :: "'f PID \<Rightarrow> 'f \<Rightarrow> ('f :: {plus, minus, times}) PID" where
  "PIDRegulation v processValue =
     (let thisError = setpoint v - processValue;
          v1 = v\<lparr>integral := integral v + thisError\<rparr>;
          v2 = v1\<lparr>result := proportiongain v1 * thisError + integralgain v1 * integral v1 +
                           derivativegain v1 * (thisError - lasterror v1)\<rparr>
      in v2\<lparr>lasterror := thisError\<rparr>)"

subsection \<open>What the loop does\<close>

lemma servo_turn_low:
  "sm_pwmval s = 500 \<Longrightarrow> sm_pwmval (fst (servo_turn (s, b))) = 505 \<and> sm_dir (fst (servo_turn (s, b))) = xor (sm_dir s) 1"
  by (simp add: servo_turn_def change_direction_def Let_def)

lemma servo_turn_high:
  "sm_pwmval s = 505 \<Longrightarrow> sm_pwmval (fst (servo_turn (s, b))) = 500 \<and> sm_dir (fst (servo_turn (s, b))) = sm_dir s"
  by (simp add: servo_turn_def change_direction_def Let_def)

lemma servo_phase:
  "sm_pwmval (fst ((servo_turn ^^ n) (servo_start, b))) = (if even n then 500 else 505) \<and>
   sm_dir (fst ((servo_turn ^^ n) (servo_start, b))) = (if n mod 4 \<in> {1, 2} then 0 else 1)"
proof (induction n)
  case 0
  then show ?case by (simp add: servo_start_def)
next
  case (Suc n)
  obtain s b' where sb: "(servo_turn ^^ n) (servo_start, b) = (s, b')" by (cases "(servo_turn ^^ n) (servo_start, b)")
  have r: "n mod 4 \<in> {0, 1, 2, 3}" by auto
  have e: "even n \<longleftrightarrow> n mod 4 \<in> {0, 2}" by simp presburger
  have m: "Suc n mod 4 = (if n mod 4 = 3 then 0 else Suc (n mod 4))" by (simp add: mod_Suc)
  show ?case
    using Suc.IH servo_turn_low [of s b'] servo_turn_high [of s b'] r
    by (auto simp: sb e m)
qed

lemma servo_drive_outputs:
  "b_ccr1 (servo_drive d v b) = (if d \<noteq> 0 then word_of_int v else 0)"
  "b_ccr2 (servo_drive d v b) = (if d \<noteq> 0 then 0 else word_of_int v)"
  "b_led_b (servo_drive d v b) = (d \<noteq> 0)" "b_led_g (servo_drive d v b) = (d = 0)"
  by (simp_all add: servo_drive_def TIM_SetTIM2Compare1_def TIM_SetTIM2Compare2_def dir_forward_def dir_backward_def)

lemma servo_turn_board:
  "\<exists>r. snd (servo_turn (s, b)) =
     servo_drive (sm_dir (fst (servo_turn (s, b)))) (sm_pwmval (fst (servo_turn (s, b)))) b\<lparr>b_led_r := r\<rparr>"
proof -
  have "\<exists>r. (if c then x\<lparr>b_led_r := y\<rparr> else x) = x\<lparr>b_led_r := r\<rparr>" for c x y
    by (intro exI [of _ "if c then y else b_led_r x"]) simp
  then show ?thesis unfolding servo_turn_def Let_def prod.case snd_conv fst_conv servo.select_convs .
qed

lemma servo_outputs:
  assumes "servo_turn (s, b) = (s', b')"
  shows "b_ccr1 b' = (if sm_dir s' \<noteq> 0 then word_of_int (sm_pwmval s') else 0)"
    "b_ccr2 b' = (if sm_dir s' \<noteq> 0 then 0 else word_of_int (sm_pwmval s'))"
    "b_led_b b' = (sm_dir s' \<noteq> 0)" "b_led_g b' = (sm_dir s' = 0)"
  using servo_turn_board [of s b] assms by (auto simp: servo_drive_outputs)

text \<open>The servo loop does not ramp: in every turn the compare value is 500 or 505 of the 1000 counts of the timer, on
  exactly one of the two channels, with the light of that direction, and the motor changes its direction every second
  turn. The value never comes near the 1000 at which \<open>change_direction\<close> would turn it back.\<close>

theorem servo_does_not_ramp:
  "\<exists>s b'. servo_motor_task pwm_init (Suc n) b = (if pwm_init then [] else PWM_Init 999 79, s, b') \<and>
     sm_pwmval s = (if even n then 505 else 500) \<and>
     sm_dir s = (if Suc n mod 4 \<in> {1, 2} then 0 else 1) \<and>
     (b_ccr1 b', b_ccr2 b') = (if sm_dir s = 0 then (0, word_of_int (sm_pwmval s)) else (word_of_int (sm_pwmval s), 0)) \<and>
     b_led_b b' = (sm_dir s = 1) \<and> b_led_g b' = (sm_dir s = 0)"
proof -
  obtain s0 b0 where 0: "(servo_turn ^^ n) (servo_start, b) = (s0, b0)" by (cases "(servo_turn ^^ n) (servo_start, b)")
  obtain s b' where 1: "servo_turn (s0, b0) = (s, b')" by (cases "servo_turn (s0, b0)")
  have "(servo_turn ^^ Suc n) (servo_start, b) = (s, b')" by (simp add: 0 1)
  then show ?thesis
    using servo_phase [of "Suc n" b] servo_outputs [OF 1] by (auto simp: servo_motor_task_def split: if_splits)
qed

text \<open>Whatever the arithmetic, a sequence of regulations sums the errors in their order into \<open>integral\<close>, and the
  result combines the last error, this sum and the difference to the error before; over the rational or real numbers
  the integral is \<open>n\<close> setpoints less the measured values.\<close>

lemma pid_keeps:
  "setpoint (fold (\<lambda>y v. PIDRegulation v y) ys v) = setpoint v"
  "proportiongain (fold (\<lambda>y v. PIDRegulation v y) ys v) = proportiongain v"
  "integralgain (fold (\<lambda>y v. PIDRegulation v y) ys v) = integralgain v"
  "derivativegain (fold (\<lambda>y v. PIDRegulation v y) ys v) = derivativegain v"
  by (induction ys arbitrary: v) (simp_all add: PIDRegulation_def Let_def)

lemma pid_integral:
  "integral (fold (\<lambda>y v. PIDRegulation v y) ys v) = fold (\<lambda>y a. a + (setpoint v - y)) ys (integral v)"
  by (induction ys arbitrary: v) (simp_all add: PIDRegulation_def Let_def)

lemma pid_exact:
  "fold (\<lambda>y a. a + (r - y)) ys c = c + (of_nat (length ys) * r - sum_list ys)" for r :: "'f :: comm_ring_1"
  by (induction ys arbitrary: c) (simp_all add: algebra_simps)

end
