(* ===== verification/Patch_Ports.thy ===== *)
theory Patch_Ports
  imports Patch_Service
begin

text \<open>
  The socket ports of the update service in \<open>hotpatch/src/patch_service.c\<close>: the Linux one and the Zephyr one, which
  tries twenty times. What \<open>socket\<close>, \<open>connect\<close> and \<open>errno\<close> answer in a try is an argument; the list of open descriptors
  is a ghost that shows what is left behind. \<open>None\<close> is a read of an uninitialised variable.
\<close>

record port =
  po_status :: context_status
  po_sockfd :: int
  po_open :: "int list"

record try_answer =
  ta_socket :: int
  ta_connect :: int
  ta_errno :: int

subsection \<open>Linux\<close>

definition linux_setup_connect :: "try_answer \<Rightarrow> port \<Rightarrow> bool \<times> port" where
  "linux_setup_connect a p =
     (if ta_socket a < 0 then (False, p)
      else
        let p1 = p\<lparr>po_open := ta_socket a # po_open p\<rparr> in
        if ta_connect a < 0 then (False, p1)
        else (True, p1\<lparr>po_sockfd := ta_socket a, po_status := RUNNING\<rparr>))"

text \<open>The calls return \<open>ssize_t\<close>, the wrappers \<open>size_t\<close>: a failure, -1, becomes the largest size.\<close>

definition linux_receive_buf :: "(int \<Rightarrow> nat \<Rightarrow> int \<times> u8 list) \<Rightarrow> port \<Rightarrow> nat \<Rightarrow> u32 \<times> u8 list" where
  "linux_receive_buf recv p len = (let (n, bs) = recv (po_sockfd p) len in (word_of_int n, bs))"

definition linux_send_buf :: "(int \<Rightarrow> u8 list \<Rightarrow> int) \<Rightarrow> port \<Rightarrow> u8 list \<Rightarrow> u32" where
  "linux_send_buf send p buf = word_of_int (send (po_sockfd p) buf)"

definition linux_dis_connect :: "port \<Rightarrow> port" where
  "linux_dis_connect p =
     (let p1 = (if po_status p \<noteq> WAIT_FOR_INIT then p\<lparr>po_open := remove1 (po_sockfd p) (po_open p)\<rparr> else p)
      in p1\<lparr>po_status := WAIT_FOR_INIT\<rparr>)"

subsection \<open>Zephyr\<close>

text \<open>The loop of \<open>start_tcp_proto\<close> over the answers of its tries: the last value of \<open>ret\<close>, \<open>None\<close> while it has none, the
  socket in \<open>data\<close> and the open descriptors.\<close>

fun tcp_tries :: "try_answer list \<Rightarrow> int option \<Rightarrow> int \<Rightarrow> int list \<Rightarrow> int option \<times> int \<times> int list" where
  "tcp_tries [] ret sock fds = (ret, sock, fds)"
| "tcp_tries (a # as) ret sock fds =
     (if ta_socket a < 0 then tcp_tries as ret (ta_socket a) fds
      else
        let ret = (if ta_connect a < 0 then - ta_errno a else ta_connect a) in
        if ret \<ge> 0 then (Some ret, ta_socket a, ta_socket a # fds)
        else tcp_tries as (Some ret) (ta_socket a) (ta_socket a # fds))"

definition start_tcp_proto :: "(nat \<Rightarrow> try_answer) \<Rightarrow> int \<Rightarrow> int list \<Rightarrow> int option \<times> int \<times> int list" where
  "start_tcp_proto as sock fds = tcp_tries (map as [0..<20]) None sock fds"

definition INVALID_SOCK :: int where "INVALID_SOCK = - 1"

definition zephyr_setup_connect :: "(nat \<Rightarrow> try_answer) \<Rightarrow> port \<Rightarrow> (bool \<times> port) option" where
  "zephyr_setup_connect as p =
     (let (ret, sock, fds) = start_tcp_proto as INVALID_SOCK (po_open p); p1 = p\<lparr>po_open := fds\<rparr> in
      case ret of
        None \<Rightarrow> None
      | Some r \<Rightarrow> if r < 0 then Some (False, p1) else Some (True, p1\<lparr>po_sockfd := sock, po_status := RUNNING\<rparr>))"

definition zephyr_receive_buf :: "(int \<Rightarrow> nat \<Rightarrow> int \<times> u8 list) \<Rightarrow> port \<Rightarrow> nat \<Rightarrow> u32 \<times> u8 list" where
  "zephyr_receive_buf recv p len = (let (n, bs) = recv (po_sockfd p) len in (word_of_int n, bs))"

definition zephyr_send_buf :: "(int \<Rightarrow> u8 list \<Rightarrow> int) \<Rightarrow> port \<Rightarrow> u8 list \<Rightarrow> u32" where
  "zephyr_send_buf send p buf = word_of_int (send (po_sockfd p) buf)"

definition zephyr_dis_connect :: "port \<Rightarrow> port" where
  "zephyr_dis_connect p =
     (let p1 = (if po_status p \<noteq> WAIT_FOR_INIT then p\<lparr>po_open := remove1 (po_sockfd p) (po_open p)\<rparr> else p)
      in p1\<lparr>po_status := WAIT_FOR_INIT\<rparr>)"

text \<open>The table of the port, and the services that fill it and connect.\<close>

record patch_service =
  svr_setup_connect :: "(nat \<Rightarrow> try_answer) \<Rightarrow> port \<Rightarrow> (bool \<times> port) option"
  svr_receive_buf :: "(int \<Rightarrow> nat \<Rightarrow> int \<times> u8 list) \<Rightarrow> port \<Rightarrow> nat \<Rightarrow> u32 \<times> u8 list"
  svr_send_buf :: "(int \<Rightarrow> u8 list \<Rightarrow> int) \<Rightarrow> port \<Rightarrow> u8 list \<Rightarrow> u32"
  svr_dis_connect :: "port \<Rightarrow> port"

definition setup_linux_service :: "(nat \<Rightarrow> try_answer) \<Rightarrow> port \<Rightarrow> patch_service \<times> (bool \<times> port) option" where
  "setup_linux_service as p =
     (let svr = \<lparr>svr_setup_connect = (\<lambda>as p. Some (linux_setup_connect (as 0) p)), svr_receive_buf = linux_receive_buf,
                 svr_send_buf = linux_send_buf, svr_dis_connect = linux_dis_connect\<rparr>
      in (svr, svr_setup_connect svr as p))"

definition setup_zephyr_service :: "(nat \<Rightarrow> try_answer) \<Rightarrow> port \<Rightarrow> patch_service \<times> (bool \<times> port) option" where
  "setup_zephyr_service as p =
     (let svr = \<lparr>svr_setup_connect = zephyr_setup_connect, svr_receive_buf = zephyr_receive_buf,
                 svr_send_buf = zephyr_send_buf, svr_dis_connect = zephyr_dis_connect\<rparr>
      in (svr, svr_setup_connect svr as p))"

text \<open>\<open>run_patch_task\<close> on Zephyr; \<open>serve\<close> stands for \<open>wait_for_patch\<close> on the connected port.\<close>

definition zephyr_patch_task :: "(nat \<Rightarrow> try_answer) \<Rightarrow> (patch_service \<Rightarrow> port \<Rightarrow> port) \<Rightarrow> port \<Rightarrow> port option" where
  "zephyr_patch_task as serve p =
     (let (svr, r) = setup_zephyr_service as p in
      map_option (\<lambda>(ok, p1). if \<not> ok then p1 else serve svr p1) r)"

text \<open>Whether a start was accepted, and whether the thread was started; without IPv4 it is not, and the answer is the same.\<close>

definition zephyr_patch_service_init :: "bool \<Rightarrow> port \<Rightarrow> bool \<times> bool" where
  "zephyr_patch_service_init ipv4 p = (if po_status p \<noteq> WAIT_FOR_INIT then (False, False) else (True, ipv4))"

subsection \<open>Sessions\<close>

text \<open>A connected port has its descriptor open, and no descriptor is listed twice. New descriptors are none of the open ones.\<close>

definition port_inv :: "port \<Rightarrow> bool" where
  "port_inv p \<longleftrightarrow> distinct (po_open p) \<and> (po_status p = RUNNING \<longrightarrow> po_sockfd p \<in> set (po_open p))"

definition made :: "try_answer list \<Rightarrow> int list" where
  "made as = filter (\<lambda>s. 0 \<le> s) (map ta_socket as)"

lemma made_simps [simp]:
  "made [] = []" "made (a # as) = (if ta_socket a < 0 then made as else ta_socket a # made as)" "made (as @ bs) = made as @ made bs"
  by (auto simp: made_def)

lemma upt_at: "k < n \<Longrightarrow> [0..<n] = [0..<k] @ k # [Suc k..<n]"
  using upt_add_eq_append [of 0 k "n - k"] by (simp add: upt_conv_Cons del: upt.simps)

definition fresh_fds :: "(nat \<Rightarrow> try_answer) \<Rightarrow> port \<Rightarrow> bool" where
  "fresh_fds as p \<longleftrightarrow> distinct (made (map as [0..<20]) @ po_open p)"

datatype port_op = Connect "nat \<Rightarrow> try_answer" | Disconnect

fun run_port :: "((nat \<Rightarrow> try_answer) \<Rightarrow> port \<Rightarrow> (bool \<times> port) option) \<Rightarrow> (port \<Rightarrow> port) \<Rightarrow> port_op list \<Rightarrow> port \<Rightarrow> port option" where
  "run_port con dis [] p = Some p"
| "run_port con dis (Connect as # ops) p =
     (if \<not> fresh_fds as p then None else Option.bind (con as p) (\<lambda>(_, p1). run_port con dis ops p1))"
| "run_port con dis (Disconnect # ops) p = run_port con dis ops (dis p)"

locale service_port =
  fixes con :: "(nat \<Rightarrow> try_answer) \<Rightarrow> port \<Rightarrow> (bool \<times> port) option" and dis :: "port \<Rightarrow> port"
  assumes con_law: "port_inv p \<Longrightarrow> fresh_fds as p \<Longrightarrow> con as p = Some (ok, p') \<Longrightarrow>
      port_inv p' \<and> set (po_open p) \<subseteq> set (po_open p') \<and>
      (if ok then po_status p' = RUNNING else po_status p' = po_status p \<and> po_sockfd p' = po_sockfd p)"
    and dis_law: "po_status (dis p) = WAIT_FOR_INIT"
      "po_open (dis p) = (if po_status p = RUNNING then remove1 (po_sockfd p) (po_open p) else po_open p)"
begin

lemma dis_inv: "port_inv p \<Longrightarrow> port_inv (dis p)"
  using dis_law [of p] by (auto simp: port_inv_def)

lemma run_inv: "run_port con dis ops p = Some p' \<Longrightarrow> port_inv p \<Longrightarrow> port_inv p'"
proof (induction ops arbitrary: p)
  case (Cons op ops)
  then show ?case
    by (cases op) (auto split: if_splits Option.bind_splits dest: con_law dis_inv)
qed simp

text \<open>A port that was closed in the end closed the descriptor it last used.\<close>

lemma closed_after:
  assumes "run_port con dis ops p = Some p'" "port_inv p" "po_status p' = RUNNING"
  shows "run_port con dis (ops @ [Disconnect]) p = Some (dis p') \<and> po_sockfd p' \<notin> set (po_open (dis p'))"
proof
  show "run_port con dis (ops @ [Disconnect]) p = Some (dis p')"
    using assms(1)
  proof (induction ops arbitrary: p)
    case (Cons op ops)
    then show ?case by (cases op) (auto split: if_splits Option.bind_splits)
  qed simp
  have "distinct (po_open p')" using run_inv [OF assms(1,2)] by (simp add: port_inv_def)
  then show "po_sockfd p' \<notin> set (po_open (dis p'))" using dis_law(2) [of p'] assms(3) by simp
qed

end

interpretation lx: service_port "\<lambda>as p. Some (linux_setup_connect (as 0) p)" linux_dis_connect
proof unfold_locales
  fix p as ok p'
  assume p: "port_inv p" and f: "fresh_fds as p" and r: "Some (linux_setup_connect (as 0) p) = Some (ok, p')"
  have "ta_socket (as 0) \<notin> set (po_open p)" if "0 \<le> ta_socket (as 0)"
    using f that upt_at [of 0 20] by (simp add: fresh_fds_def)
  then show "port_inv p' \<and> set (po_open p) \<subseteq> set (po_open p') \<and>
      (if ok then po_status p' = RUNNING else po_status p' = po_status p \<and> po_sockfd p' = po_sockfd p)"
    using p r by (auto simp: linux_setup_connect_def port_inv_def Let_def split: if_splits)
qed (auto simp: linux_dis_connect_def Let_def intro: context_status.exhaust)

subsection \<open>The tries of Zephyr\<close>

definition try_ret :: "try_answer \<Rightarrow> int" where
  "try_ret a = (if ta_connect a < 0 then - ta_errno a else ta_connect a)"

definition try_ok :: "try_answer \<Rightarrow> bool" where
  "try_ok a \<longleftrightarrow> 0 \<le> ta_socket a \<and> 0 \<le> try_ret a"

lemma tcp_tries_step:
  "try_ok a \<Longrightarrow> tcp_tries (a # as) ret sock fds = (Some (try_ret a), ta_socket a, ta_socket a # fds)"
  "\<not> try_ok a \<Longrightarrow> tcp_tries (a # as) ret sock fds =
     (if ta_socket a < 0 then tcp_tries as ret (ta_socket a) fds
      else tcp_tries as (Some (try_ret a)) (ta_socket a) (ta_socket a # fds))"
  by (auto simp: try_ok_def try_ret_def Let_def)

lemma tcp_tries_succeeds:
  "\<forall>b \<in> set as. \<not> try_ok b \<Longrightarrow> try_ok a \<Longrightarrow>
   tcp_tries (as @ a # bs) ret sock fds = (Some (try_ret a), ta_socket a, ta_socket a # rev (made as) @ fds)"
  by (induction as arbitrary: ret sock fds) (auto simp: tcp_tries_step simp del: tcp_tries.simps(2))

lemma tcp_tries_fails:
  "\<forall>b \<in> set as. \<not> try_ok b \<Longrightarrow>
   \<exists>r s. tcp_tries as ret sock fds = (r, s, rev (made as) @ fds) \<and> (if made as = [] then r = ret else \<exists>v < 0. r = Some v)"
proof (induction as arbitrary: ret sock fds)
  case (Cons a as)
  have IH: "\<exists>r s. tcp_tries as ret sock fds = (r, s, rev (made as) @ fds) \<and> (if made as = [] then r = ret else \<exists>v < 0. r = Some v)"
    for ret sock fds using Cons by simp
  have n: "\<not> try_ok a" using Cons.prems by simp
  then have "try_ret a < 0" if "\<not> ta_socket a < 0" using that by (auto simp: try_ok_def)
  then show ?case
    using n IH [of ret "ta_socket a" fds] IH [of "Some (try_ret a)" "ta_socket a" "ta_socket a # fds"]
    by (auto simp: tcp_tries_step(2) simp del: tcp_tries.simps(2) split: if_splits)
qed simp

lemma zephyr_connects:
  assumes "k < 20" "\<forall>i < k. \<not> try_ok (as i)" "try_ok (as k)"
  shows "zephyr_setup_connect as p = Some (True, p\<lparr>po_open := ta_socket (as k) # rev (made (map as [0..<k])) @ po_open p,
    po_sockfd := ta_socket (as k), po_status := RUNNING\<rparr>)"
proof -
  have "tcp_tries (map as [0..<20]) None INVALID_SOCK (po_open p) =
      (Some (try_ret (as k)), ta_socket (as k), ta_socket (as k) # rev (made (map as [0..<k])) @ po_open p)"
    using tcp_tries_succeeds [of "map as [0..<k]" "as k"] assms(2,3) upt_at [OF assms(1)] by simp
  then show ?thesis using assms(3) by (simp add: zephyr_setup_connect_def start_tcp_proto_def try_ok_def)
qed

lemma zephyr_gives_up:
  assumes "\<forall>i < 20. \<not> try_ok (as i)"
  shows "zephyr_setup_connect as p =
    (if made (map as [0..<20]) = [] then None else Some (False, p\<lparr>po_open := rev (made (map as [0..<20])) @ po_open p\<rparr>))"
proof -
  have "\<forall>b \<in> set (map as [0..<20]). \<not> try_ok b" using assms by auto
  from tcp_tries_fails [OF this, of None INVALID_SOCK "po_open p"] show ?thesis
    by (auto simp: zephyr_setup_connect_def start_tcp_proto_def simp del: upt.simps split: if_splits)
qed

lemma zephyr_cases:
  fixes as :: "nat \<Rightarrow> try_answer"
  obtains (gave_up) "\<forall>i < 20. \<not> try_ok (as i)"
  | (connected) k where "k < 20" "\<forall>i < k. \<not> try_ok (as i)" "try_ok (as k)"
proof (cases "\<exists>k < 20. try_ok (as k)")
  case True
  then obtain k where "try_ok (as k)" "\<forall>i < k. \<not> try_ok (as i)" "k < 20"
    using exists_least_iff [of "\<lambda>k. try_ok (as k)"] by (metis less_trans not_less_iff_gr_or_eq)
  then show ?thesis using connected by blast
qed (auto intro: gave_up)

interpretation zy: service_port zephyr_setup_connect zephyr_dis_connect
proof unfold_locales
  fix p as ok p'
  assume p: "port_inv p" and f: "fresh_fds as p" and r: "zephyr_setup_connect as p = Some (ok, p')"
  show "port_inv p' \<and> set (po_open p) \<subseteq> set (po_open p') \<and>
      (if ok then po_status p' = RUNNING else po_status p' = po_status p \<and> po_sockfd p' = po_sockfd p)"
  proof (cases rule: zephyr_cases [of as])
    case gave_up
    then show ?thesis
      using p f r by (auto simp: zephyr_gives_up port_inv_def fresh_fds_def simp del: upt.simps split: if_splits)
  next
    case (connected k)
    have "distinct (made (map as [0..<k]) @ ta_socket (as k) # po_open p)"
      using f connected(3) upt_at [OF connected(1)] by (auto simp: fresh_fds_def try_ok_def simp del: upt.simps)
    then show ?thesis
      using r by (auto simp: zephyr_connects [OF connected] port_inv_def)
  qed
qed (auto simp: zephyr_dis_connect_def Let_def intro: context_status.exhaust)

text \<open>C31: on both ports, after every sequence of connects, successful or not, and disconnects from a port in order
  (a new one is): no descriptor is listed open twice, a connected port's descriptor is open, and a disconnect then closes it.\<close>

theorem port_sessions:
  assumes "run_port con dis ops p = Some p'" and "port_inv p"
    and "(con, dis) = ((\<lambda>as p. Some (linux_setup_connect (as 0) p)), linux_dis_connect) \<or>
         (con, dis) = (zephyr_setup_connect, zephyr_dis_connect)"
  shows "port_inv p' \<and> (po_status p' = RUNNING \<longrightarrow>
    run_port con dis (ops @ [Disconnect]) p = Some (dis p') \<and> po_sockfd p' \<notin> set (po_open (dis p')) \<and> port_inv (dis p'))"
  using assms lx.run_inv lx.closed_after lx.dis_inv zy.run_inv zy.closed_after zy.dis_inv by (elim disjE) blast+

definition closed_port :: port where "closed_port = \<lparr>po_status = WAIT_FOR_INIT, po_sockfd = 0, po_open = []\<rparr>"

definition sample_tries :: "nat \<Rightarrow> try_answer" where
  "sample_tries i = \<lparr>ta_socket = int i + 3, ta_connect = (if i < 2 then - 1 else 0), ta_errno = 111\<rparr>"

lemma sample_connect:
  "zephyr_setup_connect sample_tries closed_port = Some (True, \<lparr>po_status = RUNNING, po_sockfd = 5, po_open = [5, 4, 3]\<rparr>)"
proof -
  have "\<not> try_ok (sample_tries i)" if "i < 2" for i using that by (simp add: try_ok_def try_ret_def sample_tries_def)
  moreover have "try_ok (sample_tries 2)" by (simp add: try_ok_def try_ret_def sample_tries_def)
  ultimately show ?thesis
    using zephyr_connects [of 2 sample_tries closed_port] by (simp add: closed_port_def sample_tries_def numeral_2_eq_2)
qed

theorem port_sessions_witness:
  "run_port zephyr_setup_connect zephyr_dis_connect [Connect sample_tries] closed_port =
     Some \<lparr>po_status = RUNNING, po_sockfd = 5, po_open = [5, 4, 3]\<rparr> \<and>
   run_port zephyr_setup_connect zephyr_dis_connect [Connect sample_tries, Disconnect] closed_port =
     Some \<lparr>po_status = WAIT_FOR_INIT, po_sockfd = 5, po_open = [4, 3]\<rparr>"
proof -
  let ?p = "\<lparr>po_status = RUNNING, po_sockfd = 5, po_open = [5, 4, 3]\<rparr>"
  have "made (map sample_tries [0..<20]) = map (\<lambda>i. int i + 3) [0..<20]"
    by (simp add: made_def sample_tries_def comp_def filter_id_conv del: upt.simps)
  then have "fresh_fds sample_tries closed_port"
    by (simp add: fresh_fds_def closed_port_def distinct_map inj_on_def del: upt.simps)
  then have r: "run_port zephyr_setup_connect zephyr_dis_connect [Connect sample_tries] closed_port = Some ?p"
    by (simp add: sample_connect)
  have "port_inv closed_port" by (simp add: port_inv_def closed_port_def)
  from port_sessions [OF r this] r show ?thesis by (simp add: zephyr_dis_connect_def)
qed

text \<open>The Zephyr port connects with the first of twenty tries in which both calls succeed, and leaves the sockets of the
  tries before it open; when a socket was created but every connect failed, it reports the failure and leaves all of
  them open; when no socket could be created, the result it tests was never set.\<close>

theorem zephyr_connect_result:
  "(\<forall>k < 20. (\<forall>i < k. \<not> try_ok (as i)) \<and> try_ok (as k) \<longrightarrow>
      zephyr_setup_connect as p = Some (True, p\<lparr>po_open := ta_socket (as k) # rev (made (map as [0..<k])) @ po_open p,
        po_sockfd := ta_socket (as k), po_status := RUNNING\<rparr>)) \<and>
   ((\<forall>i < 20. \<not> try_ok (as i)) \<longrightarrow>
      zephyr_setup_connect as p =
        (if made (map as [0..<20]) = [] then None else Some (False, p\<lparr>po_open := rev (made (map as [0..<20])) @ po_open p\<rparr>)))"
  using zephyr_connects zephyr_gives_up by (simp del: upt.simps)

theorem zephyr_connect_result_witness:
  "zephyr_setup_connect (\<lambda>_. \<lparr>ta_socket = - 1, ta_connect = 0, ta_errno = 12\<rparr>) closed_port = None"
proof -
  have "made (map (\<lambda>_. \<lparr>ta_socket = - 1, ta_connect = 0, ta_errno = 12\<rparr>) [0..<20]) = []" by (simp add: made_def)
  then show ?thesis
    using zephyr_connect_result [of "\<lambda>_. \<lparr>ta_socket = - 1, ta_connect = 0, ta_errno = 12\<rparr>" closed_port] by (simp add: try_ok_def)
qed

end
