(* ===== verification/Fpb_Variants.thy ===== *)
theory Fpb_Variants
  imports Fpb_Handlers Demos
begin

text \<open>
  The other builds and the tests of \<open>hotpatch/src/cortex-m4_fbp.c\<close> and \<open>hotpatch/src/fixed_patch_points.c\<close>: the
  handlers for GCC, Keil's handler 1, which runs into the next function, the dispatcher of the comparison with
  HERA, the entry of the debug monitor, and Keil's handler of a fixed patch point, which pushes two words only.
\<close>

subsection \<open>Flash-patch handlers\<close>

text \<open>\<open>TST lr, #4\<close> before the call selects the stack by bit 2 of lr.\<close>

definition lr_stack :: "cpu \<Rightarrow> u32" where
  "lr_stack c = (if x_lr c AND 4 = 0 then x_msp c else x_psp c)"

definition FPB_Handler0_gcc :: "mon_env \<Rightarrow> cpu \<times> monitor \<Rightarrow> (cpu \<times> monitor) option" where
  "FPB_Handler0_gcc e = (\<lambda>(c, s). do {
     (c1, s1) \<leftarrow> push_regs c s;
     (r, s2) \<leftarrow> leave_fpb_bpkt e (lr_stack c1) 0 s1;
     c2 \<leftarrow> pop_regs (c1\<lparr>x_r := (x_r c1)(5 := r)\<rparr>) s2;
     Some (c2\<lparr>x_pc := x_r c2 5\<rparr>, s2)})"

text \<open>\<open>DECLARE_FPB_HANDLE\<close> (1 to 4): the result is dropped; the end of the C function returns through lr.\<close>

definition DECLARE_FPB_HANDLE :: "nat \<Rightarrow> mon_env \<Rightarrow> cpu \<times> monitor \<Rightarrow> (cpu \<times> monitor) option" where
  "DECLARE_FPB_HANDLE bpkt_idx e = (\<lambda>(c, s). do {
     (c1, s1) \<leftarrow> push_regs c s;
     (_, s2) \<leftarrow> leave_fpb_bpkt e (lr_stack c1) bpkt_idx s1;
     c2 \<leftarrow> pop_regs c1 s2;
     Some (c2\<lparr>x_pc := x_lr c2\<rparr>, s2)})"

definition FPB_Handler5_gcc :: "cpu \<times> monitor \<Rightarrow> (cpu \<times> monitor) option" where
  "FPB_Handler5_gcc = (\<lambda>(c, s). do {
     (c1, s1) \<leftarrow> push_regs c s;
     let (r, h) = fpb_enable_callback (mo_hw s1);
     let s2 = with_hw (\<lambda>_. h) s1;
     c2 \<leftarrow> pop_regs (c1\<lparr>x_r := (x_r c1)(5 := r)\<rparr>) s2;
     Some (c2\<lparr>x_pc := x_r c2 5\<rparr>, s2)})"

text \<open>Keil's handler 1 has no branch at its end; \<open>following\<close> is the code behind it.\<close>

definition FPB_Handler1 ::
    "(cpu \<times> monitor \<Rightarrow> (cpu \<times> monitor) option) \<Rightarrow> mon_env \<Rightarrow> cpu \<times> monitor \<Rightarrow> (cpu \<times> monitor) option" where
  "FPB_Handler1 following e = (\<lambda>(c, s). do {
     (c1, s1) \<leftarrow> push_regs c s;
     (r, s2) \<leftarrow> leave_fpb_bpkt e (sp_of c1) 1 s1;
     c2 \<leftarrow> pop_regs (c1\<lparr>x_r := (x_r c1)(5 := r)\<rparr>) s2;
     following (c2\<lparr>x_r := (x_r c2)(0 := x_r c2 5)\<rparr>, s2)})"

text \<open>The trampoline looks the patch up and does nothing with it.\<close>

definition handle_fpb_remap :: "nat \<Rightarrow> monitor \<Rightarrow> monitor option" where
  "handle_fpb_remap idx s = map_option (\<lambda>_. s) (get_dynamic_patch_by_fpb (mo_ctx s) (h_comp (mo_hw s) idx))"

definition fpb_trampoline_0 :: "monitor \<Rightarrow> monitor option" where
  "fpb_trampoline_0 = handle_fpb_remap 0"

subsection \<open>HERA\<close>

text \<open>\<open>PUSH {r0, r1, r2, r3, r7, lr}\<close>; each comparison of lr branches to the next instruction; the call of \<open>hera_fix_func\<close>,
  whose result \<open>fix\<close> is in r0; \<open>POP {r0, r1, r2, r3, r7, pc}\<close>. The word of r7 lies where the other handlers keep r12.\<close>

definition HERA_Dipatcher :: "(u32 \<Rightarrow> u32 \<Rightarrow> memory \<Rightarrow> u32 option) \<Rightarrow> cpu \<times> monitor \<Rightarrow> (cpu \<times> monitor) option" where
  "HERA_Dipatcher fix = (\<lambda>(c, s). let sp = sp_of c - 24 in do {
     s1 \<leftarrow> store_fields pushed sp (c\<lparr>x_r := (x_r c)(12 := x_r c 7)\<rparr>) s;
     r \<leftarrow> fix (x_r c 0) (x_r c 1) (w_mem (mo_world s1));
     let c1 = c\<lparr>x_r := (x_r c)(0 := r, 3 := if x_lr c = 0x2000050 then 0x2000050 else if x_lr c = 0x2000052 then 0x2000052
       else if x_lr c = 0x2000054 then 0x2000054 else if x_lr c = 0x2000055 then 0x2000055 else 0x2000057)\<rparr>;
     v0 \<leftarrow> ctx_get s1 sp F_r0;
     v1 \<leftarrow> ctx_get s1 sp F_r1;
     v2 \<leftarrow> ctx_get s1 sp F_r2;
     v3 \<leftarrow> ctx_get s1 sp F_r3;
     v7 \<leftarrow> ctx_get s1 sp F_r12;
     vpc \<leftarrow> ctx_get s1 sp F_lr;
     Some (c1\<lparr>x_r := (x_r c1)(0 := v0, 1 := v1, 2 := v2, 3 := v3, 7 := v7), x_pc := vpc\<rparr>, s1)})"

definition test_freertos_cve :: "u32 \<Rightarrow> u32 \<Rightarrow> u32 \<Rightarrow> u32 \<Rightarrow> hw \<times> profiler \<Rightarrow> (int \<times> int \<times> hw \<times> profiler) option" where
  "test_freertos_cve t0 t1 t2 t3 s = do {
     let (_, h, p) = profile_add_event ''HERA Compare'' s;
     p1 \<leftarrow> profile_start t0 0 p;
     let t = freertos_cve_func 50 0;
     (_, p2) \<leftarrow> profile_end t1 0 p1;
     p3 \<leftarrow> profile_start t2 1 p2;
     (_, p4) \<leftarrow> profile_end t3 1 p3;
     Some (t, hera_fix_func 50 0, h, p4)}"

subsection \<open>Debug monitor\<close>

text \<open>Both builds select the interrupted stack by bit 2 of \<open>EXC_RETURN\<close> and jump to \<open>leave_debug_monitor\<close>.\<close>

definition DebugMon_Handler :: "mon_env \<Rightarrow> cpu \<times> monitor \<Rightarrow> monitor option" where
  "DebugMon_Handler e = (\<lambda>(c, s). leave_debug_monitor e (if x_lr c AND 4 = 0 then x_msp c else x_psp c) s)"

definition debug_monitor :: "mon_env \<Rightarrow> cpu \<times> monitor \<Rightarrow> monitor option" where
  "debug_monitor e = (\<lambda>(c, s). let r0 = x_lr c AND 4 in leave_debug_monitor e (if r0 = 0 then x_msp c else x_psp c) s)"

text \<open>The answer of \<open>test_func\<close> to whether the bug is fixed.\<close>

definition test_func :: bool where "test_func \<longleftrightarrow> buggy_func 4500 = 0"

definition add_breakpoint :: "memory \<Rightarrow> u32 \<Rightarrow> hw \<Rightarrow> hw option" where
  "add_breakpoint m inst h = map_option snd (add_hw_bkpt m inst h)"

subsection \<open>A fixed patch point with Keil\<close>

text \<open>\<open>PUSH {r0, lr}\<close>; the stack pointer given to the dispatcher is MSP whatever CONTROL says; \<open>POP {r0, pc}\<close>. \<open>msp\<close> is its
  value at the push, \<open>sp0\<close> the stack pointer in use.\<close>

definition fixed_patch_point_hanlder_keil ::
    "bool \<Rightarrow> run_env \<Rightarrow> patch_context \<Rightarrow> regs \<Rightarrow> bool \<Rightarrow> u32 \<Rightarrow> u32 \<Rightarrow> world \<Rightarrow> (u32 \<times> u32 \<times> world) option" where
  "fixed_patch_point_hanlder_keil debug e c g use_psp msp sp0 w = do {
     let sp = sp0 - 8;
     m1 \<leftarrow> fixed_put sp R0_1 (g_r0 g) (w_mem w);
     m2 \<leftarrow> fixed_put sp R1_1 (g_lr g) m1;
     w1 \<leftarrow> dispatch_fixed_patch_point debug e c (if use_psp then msp else sp) (w\<lparr>w_mem := m2\<rparr>);
     r0 \<leftarrow> fixed_get (w_mem w1) sp R0_1;
     pc \<leftarrow> fixed_get (w_mem w1) sp R1_1;
     Some (r0, pc, w1)}"

text \<open>The developer's view of the stack: ten words from eight bytes below.\<close>

definition dump_stack :: "u32 \<Rightarrow> memory \<Rightarrow> (int \<times> u32) list option" where
  "dump_stack sp m =
     those (map (\<lambda>i. map_option (\<lambda>v. (- 8 + 4 * int i, v)) (load32 m (sp - 8 + 4 * of_nat i))) [0..<10])"

text \<open>The tests of the fixed patch points: an event, then the vulnerable function.\<close>

definition test_fixed_patch_point :: "u32 \<Rightarrow> u32 \<Rightarrow> u32 \<Rightarrow> memory \<Rightarrow> hw \<times> profiler \<Rightarrow> (bool \<times> hw \<times> profiler) option" where
  "test_fixed_patch_point patch_point pkt dbc m s =
     (let (_, s1) = profile_add_event ''fixed patch'' s in
      map_option (\<lambda>b. (b, s1)) (call_dummy_buggy_MQTT_function patch_point pkt dbc m))"

definition test_unbounded_loop ::
    "nat \<Rightarrow> u32 \<Rightarrow> u32 \<Rightarrow> memory \<Rightarrow> hw \<times> profiler \<Rightarrow> int loop_result \<times> hw \<times> profiler" where
  "test_unbounded_loop n patch_point destopt m s =
     (let (_, s1) = profile_add_event ''fixed patch'' s in
      (call_dummy_CVE_2020_17445_pico_ipv6_process_destopt n patch_point destopt m, s1))"

subsection \<open>What they do\<close>

text \<open>GCC's handler 0 is Keil's when bit 2 of the return address happens to name the stack in use.\<close>

lemma handler0_gcc:
  assumes "x_lr c AND 4 = 0 \<longleftrightarrow> x_control c AND 2 = 0"
  shows "FPB_Handler0_gcc e (c, s) = FPB_Handler0 e (c, s)"
proof -
  have "lr_stack c1 = sp_of c1" if "push_regs c s = Some (c1, s1)" for c1 s1
    using that assms by (auto simp: push_regs_def lr_stack_def sp_of_def set_sp_def Let_def)
  then show ?thesis
    by (cases "push_regs c s") (auto simp: FPB_Handler0_gcc_def FPB_Handler0_def)
qed

lemma handler_macro: "DECLARE_FPB_HANDLE idx e = FPB_Handler_bx idx e"
  by (simp add: DECLARE_FPB_HANDLE_def FPB_Handler_bx_def lr_stack_def fun_eq_iff)

lemma handler5_gcc: "FPB_Handler5_gcc = FPB_Handler5"
  by (simp add: FPB_Handler5_gcc_def FPB_Handler5_def)

lemma debug_monitor_entry: "debug_monitor e = DebugMon_Handler e"
  by (simp add: debug_monitor_def DebugMon_Handler_def Let_def)

lemma bug_not_fixed: "\<not> test_func" by (simp add: test_func_def buggy_func_def)

text \<open>The dispatcher of the HERA comparison has no effect: whatever address it was called from and whatever the fixed
  function answers, it returns to its caller with every register as it was, so that a packet the fix rejects is
  processed all the same.\<close>

theorem hera_result_lost:
  assumes "store_fields pushed (sp_of c - 24) (c\<lparr>x_r := (x_r c)(12 := x_r c 7)\<rparr>) s = Some s1"
    and "fix (x_r c 0) (x_r c 1) (w_mem (mo_world s1)) = Some r"
  shows "HERA_Dipatcher fix (c, s) = Some (c\<lparr>x_pc := x_lr c\<rparr>, s1)"
proof -
  have d: "distinct pushed" by (simp add: pushed_def)
  have g: "ctx_get s1 (sp_of c - 24) k = Some (saved_reg k (c\<lparr>x_r := (x_r c)(12 := x_r c 7)\<rparr>))" if "k \<in> set pushed" for k
    using store_fields_get [OF assms(1) d, of k] that by simp
  have "F_r0 \<in> set pushed" "F_r1 \<in> set pushed" "F_r2 \<in> set pushed" "F_r3 \<in> set pushed" "F_r12 \<in> set pushed" "F_lr \<in> set pushed"
    by (simp_all add: pushed_def)
  then show ?thesis
    using assms by (auto simp: HERA_Dipatcher_def Let_def g intro!: cpu.equality ext)
qed

theorem hera_result_lost_witness:
  "\<exists>s1. HERA_Dipatcher (\<lambda>_ _ _. Some 0xffffffff) (sample_cpu, sample_mon sample_hw) = Some (sample_cpu\<lparr>x_pc := 0x08000101\<rparr>, s1)"
proof -
  have "ctx_get (sample_mon sample_hw) (sp_of sample_cpu - 24) k \<noteq> None" for k
    by (auto simp: ctx_get_def frame_get_def mem_load_def sample_mon_def)
  then obtain s1 where "store_fields pushed (sp_of sample_cpu - 24) (sample_cpu\<lparr>x_r := (x_r sample_cpu)(12 := x_r sample_cpu 7)\<rparr>)
      (sample_mon sample_hw) = Some s1"
    using store_fields_mapped [of pushed "sample_mon sample_hw"] by fastforce
  from hera_result_lost [OF this, of "\<lambda>_ _ _. Some 0xffffffff"] show ?thesis by (auto simp: sample_cpu_def)
qed

text \<open>C36: built with Keil, without \<open>DEBUG\<close> and on the main stack, the handler of a fixed patch point pushes two words where the
  frame has five, so the dispatcher takes the third word of the caller's stack for the return address. When no patch
  belongs to that word, the answer is \<open>FIXED_OP_PASS\<close>, whatever patch is installed for the point itself.\<close>

theorem keil_fixed_point_passes:
  assumes "\<forall>k. fixed_get (w_mem w) (sp0 - 8) k \<noteq> None" and "load32 (w_mem w) (sp0 + 8) = Some third"
    and "get_fixed_patch_by_lr c ((third AND NOT 1) - 4) = Some 0"
  shows "\<exists>w'. fixed_patch_point_hanlder_keil False e c g False msp sp0 w = Some (FIXED_OP_PASS, g_lr g, w')"
proof -
  obtain m1 where m1: "fixed_put (sp0 - 8) R0_1 (g_r0 g) (w_mem w) = Some m1" using fixed_put_mapped assms(1) by blast
  obtain m2 where m2: "fixed_put (sp0 - 8) R1_1 (g_lr g) m1 = Some m2"
    using fixed_put_mapped [of m1] fixed_get_put [OF m1] assms(1) by (metis option.distinct(1))
  have g: "fixed_get m2 (sp0 - 8) k = (if k = R1_1 then Some (g_lr g) else if k = R0_1 then Some (g_r0 g) else fixed_get (w_mem w) (sp0 - 8) k)" for k
    using fixed_get_put [OF m2] fixed_get_put [OF m1] by simp
  have lr: "fixed_get m2 (sp0 - 8) LR = Some third" using assms(2) g [of LR] by (simp add: fixed_get_def slot_def add.commute)
  let ?w = "w\<lparr>w_mem := m2\<rparr>"
  obtain w' where w': "put_world (sp0 - 8) R0_1 FIXED_OP_PASS ?w = Some w'" "fixed_get (w_mem w') (sp0 - 8) R0_1 = Some FIXED_OP_PASS"
      "fixed_get (w_mem w') (sp0 - 8) R1_1 = Some (g_lr g)"
    using put_world_ok [of ?w "sp0 - 8" R0_1 FIXED_OP_PASS] g by auto
  have "dispatch_fixed_patch_point False e c (sp0 - 8) ?w = Some w'"
    using lr assms(3) w'(1) by (simp add: dispatch_fixed_patch_point_def)
  then show ?thesis using m1 m2 w'(2,3) by (simp add: fixed_patch_point_hanlder_keil_def)
qed

theorem keil_fixed_point_passes_witness:
  "get_fixed_patch_by_lr sample_fixed ((g_lr sample_regs AND NOT 1) - 4) = Some 0x300 \<and>
   (\<exists>w'. fixed_patch_point_hanlder_keil False (me_run sample_env) sample_fixed sample_regs False 0 0x20000100 sample_ram =
     Some (FIXED_OP_PASS, g_lr sample_regs, w'))"
proof
  show "get_fixed_patch_by_lr sample_fixed ((g_lr sample_regs AND NOT 1) - 4) = Some 0x300"
    by (simp add: get_fixed_patch_by_lr_def sample_fixed_def sample_regs_def sample_mon_def arraymap_get_def binary_search_def binary_search_loop.simps Let_def)
  have "get_fixed_patch_by_lr sample_fixed ((0 AND NOT 1) - 4) = Some 0"
    by (simp add: get_fixed_patch_by_lr_def sample_fixed_def sample_mon_def arraymap_get_def binary_search_def binary_search_loop.simps Let_def)
  then show "\<exists>w'. fixed_patch_point_hanlder_keil False (me_run sample_env) sample_fixed sample_regs False 0 0x20000100 sample_ram =
     Some (FIXED_OP_PASS, g_lr sample_regs, w')"
    by (intro keil_fixed_point_passes [where third = 0]) (simp_all add: fixed_get_def load32_def mem_load_def sample_ram_def)
qed

end
