(* ===== verification/Shell_Trim.thy ===== *)
theory Shell_Trim
  imports Prelude "HOL-Library.Monad_Syntax"
begin

text \<open>
  The patch for CVE-2020-10023, \<open>update_server/patch_code/zephyr_cve_2020_10023.ebpf.c\<close>: a replacement for the function
  of the Zephyr shell that removes superfluous spaces from a command line. \<open>buf\<close> is the memory from \<open>str\<close> on; the call
  of the firmware's \<open>memmove\<close> through its address is the parameter \<open>mv\<close> (destination, source, size); \<open>None\<close> is an
  access outside the memory.
\<close>

type_synonym mover = "u8 list \<Rightarrow> nat \<Rightarrow> nat \<Rightarrow> nat \<Rightarrow> u8 list option"

fun shell_strlen :: "u8 list \<Rightarrow> nat option" where
  "shell_strlen [] = None"
| "shell_strlen (c # cs) = (if c \<noteq> 0 then map_option Suc (shell_strlen cs) else Some 0)"

definition isspace :: "u8 \<Rightarrow> bool" where "isspace v \<longleftrightarrow> v = 32"

definition at :: "u8 list \<Rightarrow> nat \<Rightarrow> u8 option" where
  "at buf i = (if i < length buf then Some (buf ! i) else None)"

text \<open>The file's own \<open>memmove\<close>, a forward copy.\<close>

fun memmove :: "u8 list \<Rightarrow> nat \<Rightarrow> nat \<Rightarrow> nat \<Rightarrow> u8 list option" where
  "memmove buf dst src 0 = Some buf"
| "memmove buf dst src (Suc n) = do {
     c \<leftarrow> at buf src;
     (if dst < length buf then memmove (buf[dst := c]) (Suc dst) (Suc src) n else None)}"

text \<open>The inner loop, from \<open>j\<close>. The indices are 16 bits wide in the code and stay below \<open>len\<close> or reach it, so they do not wrap.\<close>

function trim_inner :: "mover \<Rightarrow> u8 list \<Rightarrow> u16 \<Rightarrow> u16 \<Rightarrow> nat \<Rightarrow> nat \<Rightarrow> (u8 list \<times> u16 \<times> u16) option" where
  "trim_inner mv buf len shift i j =
     (if j < unat len then do {
        c \<leftarrow> at buf j;
        if isspace c then trim_inner mv buf len (shift + 1) i (j + 1)
        else if shift > 0 then do {
          buf' \<leftarrow> mv buf (i + 1) j (unat len - j + 1);
          Some (buf', len - shift, 0)}
        else Some (buf, len, shift)}
      else Some (buf, len, shift))"
  by pat_completeness auto
termination
  by (relation "measure (\<lambda>(mv, buf, len, shift, i, j). unat len - j)") auto

function trim_outer :: "mover \<Rightarrow> u8 list \<Rightarrow> u16 \<Rightarrow> u16 \<Rightarrow> nat \<Rightarrow> (u16 \<times> u8 list) option" where
  "trim_outer mv buf len shift i =
     (if int i < int (unat len) - 1 then do {
        c \<leftarrow> at buf i;
        (case (if isspace c then trim_inner mv buf len shift i (i + 1) else Some (buf, len, shift)) of
           None \<Rightarrow> None
         | Some (buf', len', shift') \<Rightarrow> trim_outer mv buf' len' shift' (i + 1))}
      else Some (len, buf))"
  by pat_completeness auto
termination
proof (relation "measure (\<lambda>(mv, buf, len, shift, i). 65536 - i)", goal_cases)
  case (2 mv buf len shift i c r buf' y len' shift')
  have "unat len < 65536" using unsigned_less [of len, where ?'a = nat] by simp
  moreover have "i < unat len" using 2(1) by linarith
  ultimately show ?case by simp
qed simp

declare trim_inner.simps [simp del] trim_outer.simps [simp del]

text \<open>\<open>str\<close> is not NULL here; the code tests it after the first use.\<close>

definition shell_spaces_trim :: "mover \<Rightarrow> u8 list \<Rightarrow> (int \<times> u8 list) option" where
  "shell_spaces_trim mv buf = do {
     n \<leftarrow> shell_strlen buf;
     (len, buf') \<leftarrow> trim_outer mv buf (of_nat n) 0 0;
     Some (uint len, buf')}"

subsection \<open>Runs of spaces\<close>

text \<open>What the function is for: every run of spaces in front of another character becomes one space; spaces at the end stay.\<close>

function squeeze :: "u8 list \<Rightarrow> u8 list" where
  "squeeze [] = []"
| "squeeze (c # cs) =
     (if isspace c then (case dropWhile isspace cs of [] \<Rightarrow> c # cs | d # ds \<Rightarrow> c # squeeze (d # ds)) else c # squeeze cs)"
  by pat_completeness auto
termination
proof (relation "measure length", goal_cases)
  case (2 c cs d ds)
  then show ?case using length_dropWhile_le [of isspace cs] by simp
qed simp_all

declare squeeze.simps(2) [simp del]

definition moves :: "mover \<Rightarrow> bool" where
  "moves mv \<longleftrightarrow> (\<forall>pre gap blk rest. mv (pre @ gap @ blk @ rest) (length pre) (length (pre @ gap)) (length blk) =
     Some (pre @ blk @ drop (length blk) (gap @ blk) @ rest))"

lemma memmove_step:
  "memmove (pre @ gap @ blk @ rest) (length pre) (length (pre @ gap)) (length blk) =
     Some (pre @ blk @ drop (length blk) (gap @ blk) @ rest)"
proof (induction blk arbitrary: pre gap)
  case (Cons b blk)
  show ?case
  proof (cases gap)
    case Nil
    then show ?thesis using Cons.IH [of "pre @ [b]" "[]"] by (simp add: at_def nth_append list_update_append)
  next
    case (Cons g gs)
    then show ?thesis using Cons.IH [of "pre @ [b]" "gs @ [b]"] by (simp add: at_def nth_append list_update_append)
  qed
qed simp

lemma memmove_moves: "moves memmove"
  by (simp add: moves_def memmove_step del: append_assoc length_append)

lemma strlen_text: "0 \<notin> set cs \<Longrightarrow> shell_strlen (cs @ 0 # rest) = Some (length cs)"
  by (induction cs) auto

text \<open>The inner loop over the spaces \<open>sp\<close> behind position \<open>i\<close>.\<close>

lemma inner_spaces:
  assumes "length pre + length sp + length ds = unat len" "\<forall>c \<in> set sp. isspace c" "ds \<noteq> [] \<longrightarrow> \<not> isspace (hd ds)"
  shows "trim_inner mv (pre @ sp @ ds @ rest) len shift i (length pre) =
    (if ds = [] then Some (pre @ sp @ ds @ rest, len, shift + of_nat (length sp))
     else if shift + of_nat (length sp) > 0
     then Option.bind (mv (pre @ sp @ ds @ rest) (i + 1) (length (pre @ sp)) (length ds + 1))
            (\<lambda>buf'. Some (buf', len - (shift + of_nat (length sp)), 0))
     else Some (pre @ sp @ ds @ rest, len, shift + of_nat (length sp)))"
  using assms
proof (induction sp arbitrary: pre shift)
  case Nil
  then have "unat len = length pre + length ds" by simp
  with Nil show ?case
    by (subst trim_inner.simps) (auto simp: at_def nth_append hd_conv_nth)
next
  case (Cons c sp)
  have "trim_inner mv (pre @ (c # sp) @ ds @ rest) len shift i (length pre) =
      trim_inner mv ((pre @ [c]) @ sp @ ds @ rest) len (shift + 1) i (length (pre @ [c]))"
    using Cons.prems by (subst trim_inner.simps) (simp add: at_def nth_append)
  also note Cons.IH [of "pre @ [c]" "shift + 1"]
  finally show ?case using Cons.prems by (simp add: ac_simps)
qed

lemma squeeze_spaces: "\<forall>c \<in> set cs. isspace c \<Longrightarrow> squeeze cs = cs"
  by (cases cs) (simp_all add: squeeze.simps(2) dropWhile_eq_Nil_conv [THEN iffD2])

lemma squeeze_one: "squeeze [c] = [c]" by (simp add: squeeze.simps(2))

lemma squeeze_length: "length (squeeze cs) \<le> length cs"
proof (induction cs rule: squeeze.induct)
  case (2 c cs)
  then show ?case
    using length_dropWhile_le [of isspace cs] by (cases "dropWhile isspace cs") (auto simp: squeeze.simps(2) simp del: dropWhile_eq_Nil_conv)
qed simp

text \<open>Behind a space: the inner loop leaves a text \<open>xs\<close> without further spaces in front, unless there is nothing else.\<close>

lemma inner_squeezes:
  assumes "moves mv" "isspace c" "unat len = length pre + 1 + length cs" "shift = 0 \<or> (\<forall>x \<in> set cs. isspace x)"
  shows "\<exists>xs rst len' shift'.
    trim_inner mv (pre @ c # cs @ 0 # rest) len shift (length pre) (length pre + 1) = Some (pre @ c # xs @ 0 # rst, len', shift') \<and>
    length xs \<le> length cs \<and> unat len' = length pre + 1 + length xs \<and> (shift' = 0 \<or> (\<forall>x \<in> set xs. isspace x)) \<and>
    squeeze (c # cs) = c # squeeze xs"
proof -
  define sp ds where "sp = takeWhile isspace cs" and "ds = dropWhile isspace cs"
  have split: "cs = sp @ ds" by (simp add: sp_def ds_def)
  have sp: "\<forall>x \<in> set sp. isspace x" by (auto simp: sp_def dest: set_takeWhileD)
  have hd: "ds \<noteq> [] \<longrightarrow> \<not> isspace (hd ds)" by (auto simp: ds_def hd_dropWhile)
  note inner = inner_spaces [of "pre @ [c]" sp ds len mv "0 # rest" shift "length pre"]
  show ?thesis
  proof (cases "ds = []")
    case True
    then have all: "\<forall>x \<in> set cs. isspace x" "\<forall>x \<in> set (c # cs). isspace x" using sp split assms(2) by auto
    then show ?thesis
      using inner True assms(3) sp split squeeze_spaces [OF all(1)] squeeze_spaces [OF all(2)]
      by - (rule exI [of _ cs], auto)
  next
    case False
    then have s0: "shift = 0" using assms(4) hd split by (metis UnCI hd_in_set set_append)
    have sq: "squeeze (c # cs) = c # squeeze ds"
      using False assms(2) by (simp add: squeeze.simps(2) ds_def [symmetric] split: list.split)
    have small: "length sp < 65536" using assms(3) split unsigned_less [of len, where ?'a = nat] by simp
    show ?thesis
    proof (cases "sp = []")
      case True
      then show ?thesis using inner False s0 sq hd assms(3) split by - (rule exI [of _ ds], auto)
    next
      case sps: False
      then have "(0 :: u16) < of_nat (length sp)" using small by (simp add: word_less_nat_alt unat_of_nat)
      moreover have "mv (pre @ c # cs @ 0 # rest) (length pre + 1) (length (pre @ [c] @ sp)) (length ds + 1) =
          Some (pre @ c # ds @ 0 # drop (length ds + 1) (sp @ ds @ [0]) @ rest)"
        using assms(1) [unfolded moves_def, rule_format, of "pre @ [c]" sp "ds @ [0]" rest] split by simp
      moreover have "unat (len - of_nat (length sp)) = length pre + 1 + length ds"
        using assms(3) split small by (simp add: unat_sub_if_size unat_of_nat word_size)
      ultimately show ?thesis using inner False s0 sq sp hd assms(3) split by - (rule exI [of _ ds], auto)
    qed
  qed
qed

lemma outer_squeezes:
  assumes "moves mv"
  shows "unat len = length pre + length cs \<Longrightarrow> shift = 0 \<or> (\<forall>c \<in> set cs. isspace c) \<Longrightarrow>
    \<exists>rest'. trim_outer mv (pre @ cs @ 0 # rest) len shift (length pre) =
      Some (of_nat (length pre + length (squeeze cs)), pre @ squeeze cs @ 0 # rest')"
proof (induction "length cs" arbitrary: pre cs shift len rest rule: less_induct)
  case less
  have len: "of_nat (length pre + length cs) = len" by (simp flip: less.prems(1))
  have i: "int (length pre) < int (unat len) - 1 \<longleftrightarrow> 1 < length cs" using less.prems(1) by auto
  show ?case
  proof (cases "1 < length cs")
    case False
    then have "squeeze cs = cs" by (cases cs) (auto simp: squeeze_one)
    then show ?thesis using False i len by (subst trim_outer.simps) auto
  next
    case True
    then obtain c cs1 where cs: "cs = c # cs1" by (cases cs) auto
    have c: "at (pre @ cs @ 0 # rest) (length pre) = Some c" using cs by (simp add: at_def nth_append)
    have IH: "\<exists>rest'. trim_outer mv (pre @ c # xs @ 0 # rst) len' shift' (length pre + 1) =
        Some (of_nat (length pre + 1 + length (squeeze xs)), pre @ c # squeeze xs @ 0 # rest')"
      if "length xs \<le> length cs1" "unat len' = length pre + 1 + length xs" "shift' = 0 \<or> (\<forall>c \<in> set xs. isspace c)" for xs rst len' shift'
      using less.hyps [of xs len' "pre @ [c]" shift' rst] that cs by simp
    have turn: "trim_outer mv (pre @ cs @ 0 # rest) len shift (length pre) =
        (case (if isspace c then trim_inner mv (pre @ c # cs1 @ 0 # rest) len shift (length pre) (length pre + 1)
               else Some (pre @ c # cs1 @ 0 # rest, len, shift)) of
           None \<Rightarrow> None
         | Some (buf', len', shift') \<Rightarrow> trim_outer mv buf' len' shift' (length pre + 1))"
      using i True c by (subst trim_outer.simps) (simp add: cs)
    show ?thesis
    proof (cases "isspace c")
      case False
      then show ?thesis using turn IH [of cs1 len shift rest] less.prems cs by (auto simp: squeeze.simps(2))
    next
      case True
      obtain xs rst len' shift' where "trim_inner mv (pre @ c # cs1 @ 0 # rest) len shift (length pre) (length pre + 1) =
          Some (pre @ c # xs @ 0 # rst, len', shift')" "length xs \<le> length cs1" "unat len' = length pre + 1 + length xs"
          "shift' = 0 \<or> (\<forall>x \<in> set xs. isspace x)" "squeeze (c # cs1) = c # squeeze xs"
        using inner_squeezes [OF assms True, of len pre cs1 shift rest] less.prems cs by auto
      then show ?thesis using turn True IH [of xs len' shift' rst] cs by simp
    qed
  qed
qed

text \<open>C27: on a command line of fewer than 65536 characters the patch returns the length of the line in which every run of
  spaces in front of another character is one space, with that line in the buffer; a run at the end of the line stays as it is.\<close>

theorem shell_trim_squeezes:
  assumes "moves mv" and "0 \<notin> set cs" and "length cs < 65536"
  shows "\<exists>rest'. shell_spaces_trim mv (cs @ 0 # rest) = Some (int (length (squeeze cs)), squeeze cs @ 0 # rest')"
proof -
  have small: "unat (of_nat (length xs) :: u16) = length xs" if "length xs \<le> length cs" for xs :: "u8 list"
    using that assms(3) by (simp add: unat_of_nat)
  obtain rest' where r: "trim_outer mv (cs @ 0 # rest) (of_nat (length cs)) 0 0 = Some (of_nat (length (squeeze cs)), squeeze cs @ 0 # rest')"
    using outer_squeezes [OF assms(1), of "of_nat (length cs)" "[]" cs 0 rest] small [of cs] by auto
  have "uint (of_nat (length (squeeze cs)) :: u16) = int (length (squeeze cs))"
    using small [OF squeeze_length [of cs]] by (simp only: uint_nat)
  then show ?thesis by (simp only: shell_spaces_trim_def strlen_text [OF assms(2)] r bind.bind_lunit prod.case) blast
qed

theorem shell_trim_squeezes_witness:
  "\<exists>rest'. shell_spaces_trim memmove [97, 32, 32, 32, 98, 32, 32, 0] = Some (5, [97, 32, 98, 32, 32, 0] @ rest')"
proof -
  have "squeeze [97, 32, 32, 32, 98, 32, 32] = [97, 32, 98, 32, 32]"
    by (simp add: squeeze.simps(2) isspace_def)
  then show ?thesis
    using shell_trim_squeezes [OF memmove_moves, of "[97, 32, 32, 32, 98, 32, 32]" "[]"] by simp
qed

end
