(* ===== verification/Spec2Isabelle.thy ===== *)
theory Spec2Isabelle
  imports Jit_Coap Jit_Selftest Jit_Dev Destopt_Code Ebpf_Map Ebpf_Env Patch_Service Shell_Cli Fpb_Handlers Flash_Api Eval_Tests Console Dummy_Cve
    Ebpf_Main Ebpf_Map_Test Ebpf_Lock Mbedtls_Check Rt_App Patch_Ports Fpb_Variants Shell_Trim
begin

text \<open>
  RapidPatch runtime: a verification development of the hot-patching runtime for real-time operating
  systems on ARM Cortex-M.

  \<^bold>\<open>The program.\<close> A patch is a small eBPF filter. The device gets it from the update service, from
  a list linked into the firmware, or by a command of the shell, and installs it at a patch point:
  a fixed one, where the vulnerable function calls the handler first, or a dynamic one, where a
  hardware breakpoint or a remapped instruction stops it. When the point is reached, the runtime
  finds the patch, runs its filter in the interpreter or as compiled code on the saved registers,
  and the result decides how the patched function goes on: it runs (PASS), it returns with a code
  (DROP), or execution goes on elsewhere (REDIRECT).

  \<^bold>\<open>Theories and sources\<close> (under \<open>src/\<close>), from the bottom up:

  \<^item> \<open>Prelude\<close>: word types of \<open>libebpf/src/ebpf_types.h\<close>, rule collections, generic lemmas.
  \<^item> \<open>Ebpf_Inst\<close> (\<open>ebpf_inst.h\<close>): opcodes and the decoding of instructions. \<open>Ebpf_Vm\<close>
    (\<open>ebpf_vm.c\<close>, \<open>ebpf_helper_impl.h\<close>): the interpreter, its bounds and iteration checks, the helper
    environment and the life cycle of a VM. \<open>Ebpf_Vm_Props\<close>: the loop refines the step relation
    \<open>vm_run\<close> and ends, register indices are safe, memory round-trips, what the bounds check admits.
  \<^item> \<open>Patch_Filters\<close> (\<open>update_server/patch_code\<close>): the C filters as functions on memory.
    \<open>Patch_Code\<close> (byte arrays of \<open>dynamic_patch_load.c\<close> and \<open>fixed_patch_load.c\<close>): the shipped bytecode,
    and that the interpreter run on it computes the C filter; the locale \<open>compiled_filter\<close> is that contract.
    \<open>Destopt_Code\<close>: the shipped patch with a loop, whose walk has to end within the instruction limit.
    \<open>Eval_Code\<close> (byte arrays of \<open>ebpf_test.c\<close>): interpretations of \<open>compiled_filter\<close> for the patches of the
    evaluation, and a pair of patches that share state through the helpers. \<open>Eval_Tests\<close> (\<open>ebpf_test.c\<close>): the
    evaluation that runs them on prepared frames, and the measurement of the patch table.
  \<^item> \<open>Thumb2\<close> (\<open>jit_thumb2.h\<close>), \<open>Jit_Emit\<close>, \<open>Jit_Emit64\<close>, \<open>Jit\<close> (\<open>jit_thumb2.c\<close>, \<open>jit.c\<close>): the encoders,
    the emitters and the two passes of the compiler. \<open>Jit_Passes\<close>, \<open>Jit_Props\<close>, \<open>Jit_Encode\<close>: the passes
    agree, branches land on their targets, compilation stays in its buffers, and the emitted
    encodings decode to what was asked for. \<open>Thumb2_Exec\<close>: the part of the processor the code of arithmetic
    programs and of filters with loads and forward jumps uses, as a function on registers, flags and memory.
    \<open>Jit_Sound\<close>: compiled straight-line programs compute what the interpreter computes, by a simulation between its
    registers and those of the processor. \<open>Jit_Patch\<close>: the bytes of any compiled program from the code of its
    instructions, and the shipped patch \<open>test_cve\<close> as compiled code; \<open>Jit_Coap\<close>: the shipped CoAP patch, whose compiled
    code loses the return code. \<open>Jit_Runtime\<close> (\<open>init_jit_state\<close> to \<open>run_jit_func\<close>, and the call through \<open>jit_func\<close>): compiled code
    called by the runtime, and the breakpoint it decides. \<open>Jit_Selftest\<close>: the emitter tests and the program
    \<open>code_t1\<close>. \<open>Jit_Dev\<close> (\<open>jit_dev_test.c\<close>): the hand-made code of the compiler tests.
  \<^item> \<open>Lookup\<close>: the interface \<open>lookup_table\<close> of the key-value containers, a locale with the client
    lemmas. \<open>Arraymap\<close> (\<open>hashmap.c\<close>) and \<open>Ebpf_Map\<close> (\<open>ebpf_map.c\<close>) interpret it with the sorted
    array map and with the hash map. \<open>Ebpf_Env\<close> (\<open>ebpf_allocator.c\<close>, \<open>ebpf_env.c\<close>): the allocator and the
    list of programs, as a linked list in a store. \<open>Ebpf_Map_Test\<close>: the test of the hash map. \<open>Ebpf_Lock\<close>
    (\<open>ebpf_lock.h\<close>): the spin locks and the threads that use them, with the locale \<open>spin_lock\<close>. \<open>Ebpf_Main\<close> (\<open>libebpf/src/main.c\<close>):
    the command-line interpreter, from files to the printed result. \<open>Mbedtls_Check\<close> (\<open>ebpf_mbedtls_checks.c\<close>): the program of
    the mbedTLS check.
  \<^item> \<open>Utils\<close> (\<open>hotpatch/src/utils.c\<close>), \<open>Fpb\<close> (\<open>cortex-m4_fbp.c\<close>): parsing, instruction addresses,
    the breakpoint unit and the branches it remaps to. \<open>Profiling\<close> (\<open>profiling.c\<close>).
  \<^item> \<open>Iotpatch\<close> (\<open>iotpatch.c\<close>): the patch context, with descriptors and patches in stores of objects.
    \<open>Iotpatch_Props\<close>: its invariant \<open>iot_inv\<close>, the locale \<open>bit_filter\<close> with its interpretations for the three
    bit filters, what installing a patch guarantees, and the contexts that any sequence of operations leads to
    (\<open>ctx_run\<close>), in all of which the filters hide no patch.
  \<^item> \<open>Debug_Monitor\<close>, \<open>Monitor_Props\<close>, \<open>Fpb_Handlers\<close> (\<open>cortex-m4_fbp.c\<close>): the exception handlers, the
    single step over a patched instruction as the step relation \<open>mon_step\<close> with its invariant, and the
    assembly handlers of the flash-patch mode on the registers of the processor. \<open>Fpb_Variants\<close>: the handlers of the
    other builds, the dispatcher of the comparison with HERA and the tests next to them.
  \<^item> \<open>Fixed_Points\<close> (\<open>fixed_patch_points.c\<close>): the handler of fixed patch points, the vulnerable
    functions, and that the shipped filters protect them. \<open>Local_Patches\<close> (\<open>fixed_patch_load.c\<close>,
    \<open>dynamic_patch_load.c\<close>), \<open>Patch_Service\<close> (\<open>patch_service.c\<close>): the two ways a patch arrives. \<open>Patch_Ports\<close>: the socket
    ports of the service for Linux and Zephyr, with the locale \<open>service_port\<close> for sessions of connects and disconnects.
    \<open>Shell_Trim\<close> (\<open>zephyr_cve_2020_10023.ebpf.c\<close>): the patch that replaces a function of the Zephyr shell.
  \<^item> \<open>Demos\<close> (\<open>app/dummy_cve.c\<close>, \<open>app/cve_trigger.h\<close> and the tests next to the code): the drivers.
    \<open>Shell_Cli\<close> (\<open>app/ihp_cli.c\<close>): the command line, from received characters to the calls it makes.
    \<open>Dummy_Cve\<close> (\<open>app/dummy_cve.c\<close>): the buffer-length demonstration, its packet and what its filter drops.
    \<open>Console\<close> (\<open>app/ihp_porting.c\<close>): from received lines to the characters the shell reads.
    \<open>Flash_Api\<close> (\<open>flash_api.c\<close>): writing pages of flash. \<open>Rt_App\<close> (\<open>app/rt_app.c\<close>): the motor loop and the PID regulator.
  \<^item> This theory: a packet received by the service changes what a call of the patched function does.

  \<^bold>\<open>Conventions.\<close> Integers keep their width as words where they can wrap; \<open>int\<close> and \<open>nat\<close> stand for
  values that the code keeps in range. Memory is a partial function from 32-bit addresses to bytes.
  State is passed explicitly: each component has a record, and an operation returns the new one. A
  result \<open>None\<close> (\<open>Fault\<close> in a loop) is behaviour the C standard leaves undefined: a NULL or freed
  pointer, an index outside an array, unmapped memory, an overflow of a signed \<open>int\<close> (\<open>Utils\<close>). In the interpreter it is
  the result \<open>Undef\<close> with its cause. A ghost flag (\<open>am_oob\<close>, \<open>h_oob\<close>, \<open>j_fault\<close>) records
  it where the code goes on. Pointers that are shared are addresses into a store. What an allocation
  returns, what fresh memory holds, cycle counts, sockets, received characters, the vendor's HAL and
  \<open>InterlockedExchange\<close> of Windows are arguments. Strings that the helpers of a patch print are collected
  in \<open>w_out\<close>. The command-line interpreter runs in the 32-bit address space of the runtime.

  \<^bold>\<open>Loops.\<close> Most end and are total functions with a measure. The interpreter counts
  instructions and stops beyond \<open>MAX_ITERS\<close>, as in the code. \<open>destopt_loop\<close> (a walk that may not end, which is the
  vulnerability) and \<open>wait_for_patch\<close> (a server loop) have fuel: for the first, enough fuel is proved to
  exist whenever the filter lets the packet pass, and no fuel suffices for the attack packet; the
  second is proved to stop with fuel for two turns when the peer leaves or sends EXIT. \<open>next_aligned\<close>, a
  search without a bound in the code, is a partial function.

  \<^bold>\<open>Not modelled.\<close> Formatted output, beyond the strings that helpers and the command-line tool print; sockets and threads beyond what their calls answer; the console ports that pass
  characters on; the pass-through of allocations to the allocators of the operating systems (\<open>ebpf_porting.h\<close>); code
  disabled by the preprocessor (\<open>stm32sys.c\<close>) and stubs without a body; the Python tools. Thumb-2 instructions beyond
  moves, additions, subtractions, logical operations, shifts by 32, loads of words and halfwords, double-word accesses,
  comparisons, forward branches, PUSH and POP have no semantics here, so that compiled code with stores, calls or
  backward branches stays a parameter of the filter run.
\<close>

subsection \<open>From the packet to the patched call\<close>

lemma scan_hw: "scan (c\<lparr>c_hw := h\<rparr>) q ds = scan c q ds"
  by (induction ds) (auto split: option.splits)

text \<open>A run of the interpreted patch for \<open>test_dynamic_bug\<close> at a breakpoint.\<close>

lemma run_test_cve:
  assumes "patches (mo_ctx s) p = Some pt" "insts (p_vm pt) = decode_insts test_cve" "\<not> use_jit (p_vm pt)"
    "length (r_regs0 (me_run e)) = MAX_BPF_EXT_REG" "ctx_get s ctx F_r0 = Some v"
  shows "\<exists>pr. run_filter_at e p ctx s =
    Some (set_return (if sint v \<le> 5000 \<and> sint v > 2000 then FILTER_DROP else FILTER_PASS) 0, s\<lparr>mo_prof := pr\<rparr>)"
proof -
  have "fix_bug (w_mem (mo_world s)) ctx =
      Some (set_return (if sint v \<le> 5000 \<and> sint v > 2000 then FILTER_DROP else FILTER_PASS) 0)"
    using assms(5) by (simp add: fix_bug_def ctx_get_def Let_def)
  then have "run_ebpf_filter (me_run e) (mo_ctx s) pt ctx args_frame_size (mo_world s) =
      Some (set_return (if sint v \<le> 5000 \<and> sint v > 2000 then FILTER_DROP else FILTER_PASS) 0, mo_world s)"
    using assms(2-4) test_cve_runs [of "p_vm pt" "r_regs0 (me_run e)"]
    by (simp add: run_ebpf_filter_def filter_result_def)
  with assms(1) show ?thesis
    by (simp add: run_filter_at_def profile_start_def profile_end_def EV1_def PROFILER_EVENTS_MAX_def Let_def) blast
qed

lemma patched_call:
  assumes "get_dynamic_patch_by_bpkt c a = Some p" "p \<noteq> 0" "patches c p = Some pt"
    "insts (p_vm pt) = decode_insts test_cve" "\<not> use_jit (p_vm pt)"
    "write_one_clears (me_w1c e)" "length (r_regs0 (me_run e)) = MAX_BPF_EXT_REG"
    and m: "mo_ctx mo = c\<lparr>c_hw := h\<rparr>" and f: "bkpt_flag h" and pc: "ctx_get mo ctx F_pc = Some a"
    and r0: "ctx_get mo ctx F_r0 = Some v" and all: "\<forall>f. ctx_get mo ctx f \<noteq> None"
  shows "\<exists>mo'. leave_debug_monitor e ctx mo = Some mo' \<and>
         (if 2000 < sint v \<and> sint v \<le> 5000
          then ctx_get mo' ctx F_r0 = Some 0 \<and> ctx_get mo' ctx F_pc = ctx_get mo ctx F_lr \<and> mo_hw mo' = h
          else stepping (mo_hw mo') \<and> (\<forall>f. ctx_get mo' ctx f = ctx_get mo ctx f))"
proof -
  have pt: "patches (mo_ctx mo) p = Some pt" using assms(3) m by simp
  obtain pr where run: "run_filter_at e p ctx mo =
      Some (set_return (if sint v \<le> 5000 \<and> sint v > 2000 then FILTER_DROP else FILTER_PASS) 0, mo\<lparr>mo_prof := pr\<rparr>)"
    using run_test_cve [OF pt assms(4,5,7) r0] by blast
  have g: "ctx_get (mo\<lparr>mo_prof := pr\<rparr>) ctx q = ctx_get mo ctx q" for q by (simp add: ctx_get_def)
  have lk: "get_dynamic_patch_by_bpkt (mo_ctx mo) a = Some p"
    using assms(1) m by (simp add: get_dynamic_patch_by_bpkt_def scan_hw split: if_splits)
  have fl: "bkpt_flag (mo_hw mo)" using f m by simp
  show ?thesis
    using filter_outcome [OF assms(6) fl pc lk assms(2) run] all m
    by (auto simp: g op_code_set_return split: if_splits)
qed

text \<open>C1: end to end: a LOAD command whose packet carries the compiled patch for the address of
  \<open>test_dynamic_bug\<close> leaves the service running with a context in which a breakpoint at this
  address makes calls with an argument in 2001 to 5000 return 0 to their caller, and lets every
  other call run on unchanged under a single step.\<close>

theorem hot_patch_end_to_end:
  assumes "reliable recv" and "sv_status s = RUNNING" and "length (sv_buf s) = 4" and "length sign = 16"
    and "length (pa_block (pas k)) = length (encode_desc d)" and "sv_net s = load_command sign (encode_desc d) @ rest"
    and "length (encode_desc d) < 65520"
    and "d_type d = DynamicPatchPoint" and "d_code d = test_cve" and "a = d_loc d AND NOT 3" and "a < 0x20000000"
    and "calc_bpkt_pc mem a = Some pc"
    and "iot_inv (sv_ctx s)" and "alloc_ok (pa_al (pas k)) (sv_ctx s)" and "descs (sv_ctx s) (pa_addr (pas k)) = None"
    and "hw_ready (c_hw (sv_ctx s))" and "\<not> remap_active (c_hw (sv_ctx s))"
    and "\<not> use_jit (the (a_vm (pa_al (pas k))))"
    and "write_one_clears (me_w1c e)" and "length (r_regs0 (me_run e)) = MAX_BPF_EXT_REG"
  shows "\<exists>buf c'. wait_for_patch (Suc k) recv send mem pas s =
      wait_for_patch k recv send mem pas (s\<lparr>sv_buf := buf, sv_net := rest, sv_ctx := c'\<rparr>) \<and> iot_inv c' \<and>
    (\<forall>h mo ctx v. mo_ctx mo = c'\<lparr>c_hw := h\<rparr> \<and> bkpt_flag h \<and> ctx_get mo ctx F_pc = Some a \<and>
       ctx_get mo ctx F_r0 = Some v \<and> (\<forall>f. ctx_get mo ctx f \<noteq> None) \<longrightarrow>
       (\<exists>mo'. leave_debug_monitor e ctx mo = Some mo' \<and>
         (if 2000 < sint v \<and> sint v \<le> 5000
          then ctx_get mo' ctx F_r0 = Some 0 \<and> ctx_get mo' ctx F_pc = ctx_get mo ctx F_lr \<and> mo_hw mo' = h
          else stepping (mo_hw mo') \<and> (\<forall>f. ctx_get mo' ctx f = ctx_get mo ctx f))))"
proof -
  let ?c = "(sv_ctx s)\<lparr>descs := (descs (sv_ctx s))(pa_addr (pas k) \<mapsto> d)\<rparr>" and ?al = "pa_al (pas k)"
  have ok: "desc_ok d" using assms(8) by (simp add: desc_ok_def)
  have "alloc_ok ?al ?c" using assms(14) by (simp add: alloc_ok_def)
  moreover have "descs ?c (pa_addr (pas k)) = Some d" by simp
  ultimately have "\<exists>c'. notify_new_patch mem ?al (pa_addr (pas k)) ?c = Some c' \<and> iot_inv c' \<and>
      get_dynamic_patch_by_bpkt c' a = Some (a_patch ?al) \<and> (\<exists>i < MAX_BP. h_comp (c_hw c') i = comp_word a) \<and>
      (\<exists>pt. patches c' (a_patch ?al) = Some pt \<and> insts (p_vm pt) = decode_insts (d_code d) \<and>
         use_jit (p_vm pt) = use_jit (the (a_vm ?al)))"
    by (rule notify_dynamic_ok [OF iot_inv_add_desc [OF assms(13,15)]]) (use assms(8,10-12,16,17) in simp_all)
  then obtain c' pt where c': "notify_new_patch mem ?al (pa_addr (pas k)) ?c = Some c'" "iot_inv c'"
      "get_dynamic_patch_by_bpkt c' a = Some (a_patch ?al)" "patches c' (a_patch ?al) = Some pt"
      "insts (p_vm pt) = decode_insts test_cve" "\<not> use_jit (p_vm pt)"
    using assms(9,18) by auto
  have "\<exists>buf. length buf = 4 \<and> wait_for_patch (Suc k) recv send mem pas s =
      (case notify_new_patch mem ?al (pa_addr (pas k)) ?c of None \<Rightarrow> Fault
       | Some c' \<Rightarrow> wait_for_patch k recv send mem pas (s\<lparr>sv_buf := buf, sv_net := rest, sv_ctx := c'\<rparr>))"
    by (rule load_turn) (use assms(1-7) ok in simp_all)
  then obtain buf where buf: "wait_for_patch (Suc k) recv send mem pas s =
      wait_for_patch k recv send mem pas (s\<lparr>sv_buf := buf, sv_net := rest, sv_ctx := c'\<rparr>)"
    using c'(1) by auto
  have p0: "a_patch ?al \<noteq> 0" using assms(14) by (simp add: alloc_ok_def)
  note call = patched_call [OF c'(3) p0 c'(4-6) assms(19,20)]
  have "\<exists>mo'. leave_debug_monitor e ctx mo = Some mo' \<and>
         (if 2000 < sint v \<and> sint v \<le> 5000
          then ctx_get mo' ctx F_r0 = Some 0 \<and> ctx_get mo' ctx F_pc = ctx_get mo ctx F_lr \<and> mo_hw mo' = h
          else stepping (mo_hw mo') \<and> (\<forall>f. ctx_get mo' ctx f = ctx_get mo ctx f))"
    if "mo_ctx mo = c'\<lparr>c_hw := h\<rparr> \<and> bkpt_flag h \<and> ctx_get mo ctx F_pc = Some a \<and>
       ctx_get mo ctx F_r0 = Some v \<and> (\<forall>f. ctx_get mo ctx f \<noteq> None)" for h mo ctx v
    using that by (intro call) auto
  with buf c'(2) show ?thesis by blast
qed

definition sample_dynamic :: patch_desc where
  "sample_dynamic = \<lparr>d_type = DynamicPatchPoint, d_code_len = 81, d_loc = 0x08001003, d_code = test_cve\<rparr>"

definition sample_update :: "u8 list service" where
  "sample_update = sample_service\<lparr>sv_net := load_command (replicate 16 0) (encode_desc sample_dynamic)\<rparr>"

definition update_pas :: "nat \<Rightarrow> pkt_alloc" where
  "update_pas = (\<lambda>_. \<lparr>pa_addr = 0x500, pa_block = encode_desc sample_dynamic, pa_al = sample_alloc\<rparr>)"

definition update_env :: mon_env where
  "update_env = sample_env\<lparr>me_run := (me_run sample_env)\<lparr>r_regs0 := replicate 12 0\<rparr>\<rparr>"

theorem hot_patch_end_to_end_witness:
  "\<exists>buf c'. wait_for_patch (Suc 0) list_recv (\<lambda>n _. (1, n)) (\<lambda>_. Some 0x20) update_pas sample_update =
      wait_for_patch 0 list_recv (\<lambda>n _. (1, n)) (\<lambda>_. Some 0x20) update_pas
        (sample_update\<lparr>sv_buf := buf, sv_net := [], sv_ctx := c'\<rparr>) \<and> iot_inv c'"
proof -
  have a: "d_loc sample_dynamic AND NOT 3 = 0x08001000" by (simp add: sample_dynamic_def)
  have pc: "calc_bpkt_pc (\<lambda>_. Some 0x20) 0x08001000 = Some 0x08001002"
    by (simp add: calc_bpkt_pc_def Let_def load16_def mem_load_def)
  have len: "length (encode_desc sample_dynamic) < 65520"
    by (simp add: encode_desc_def le_bytes_def sample_dynamic_def test_cve_def)
  have hw: "hw_ready (c_hw sample_ctx)" "\<not> remap_active (c_hw sample_ctx)"
    by (simp_all add: sample_ctx_def sample_hw_def hw_ready_def MAX_BP_def remap_active_def)
  have env: "write_one_clears (me_w1c update_env)" "length (r_regs0 (me_run update_env)) = MAX_BPF_EXT_REG"
    using clear_ones_ok by (simp_all add: update_env_def sample_env_def MAX_BPF_EXT_REG_def)
  have "descs sample_ctx 0x500 = None" "\<not> use_jit (the (a_vm sample_alloc))" "d_type sample_dynamic = DynamicPatchPoint"
      "d_code sample_dynamic = test_cve"
    by (simp_all add: sample_ctx_def sample_alloc_def sample_dynamic_def)
  then show ?thesis
    using hot_patch_end_to_end [OF list_recv_reliable, of sample_update "replicate 16 0" update_pas 0 sample_dynamic "[]"
        "0x08001000" "\<lambda>_. Some 0x20" "0x08001002" update_env "\<lambda>n _. (1, n)"]
      a pc len hw env sample_ctx_inv sample_alloc_ok
    by (auto simp: sample_update_def sample_service_def update_pas_def simp del: wait_for_patch.simps)
qed

end
